(* ===== verification/Woml_Prelude.thy ===== *)
theory Woml_Prelude
  imports Main "HOL-Library.Word"
begin

text \<open>
  Shared vocabulary of the development.  Fallible Rust code is modelled by the
  sum type: \<^term>\<open>Inr x\<close> is \<^verbatim>\<open>Ok(x)\<close> and \<^term>\<open>Inl e\<close> is \<^verbatim>\<open>Err(e)\<close>.  The
  combinators \<open>and_then\<close>, \<open>ok_or\<close> and \<open>require\<close> are the question mark operator,
  \<^verbatim>\<open>Option::ok_or_else\<close> and the guard \<^verbatim>\<open>if bad { return Err(..) }\<close>; the
  collection \<open>ok_simps\<close> inverts a successful call into the guards it passed.
  Machine integers keep their width: \<^verbatim>\<open>u32\<close> and \<^verbatim>\<open>u64\<close> are words, so their
  additions wrap as they do in the release profile of the program.
\<close>

section \<open>Machine types\<close>

type_synonym u8 = "8 word"
type_synonym u16 = "16 word"
type_synonym u32 = "32 word"
type_synonym u64 = "64 word"

text \<open>An instant in UTC, as the number of milliseconds since the epoch.\<close>
type_synonym instant = int

section \<open>Results\<close>

type_synonym ('e, 'a) result = "'e + 'a"

named_theorems ok_simps \<open>inversion of successful results\<close>

fun and_then :: "('e, 'a) result \<Rightarrow> ('a \<Rightarrow> ('e, 'b) result) \<Rightarrow> ('e, 'b) result" where
  "and_then (Inl e) f = Inl e"
| "and_then (Inr x) f = f x"

fun ok_or :: "'a option \<Rightarrow> 'e \<Rightarrow> ('e, 'a) result" where
  "ok_or None e = Inl e"
| "ok_or (Some x) e = Inr x"

definition require :: "bool \<Rightarrow> 'e \<Rightarrow> ('e, unit) result" where
  "require b e = (if b then Inr () else Inl e)"

definition is_ok :: "('e, 'a) result \<Rightarrow> bool" where
  "is_ok r = (case r of Inl _ \<Rightarrow> False | Inr _ \<Rightarrow> True)"

lemma is_ok_simps [simp]:
  "is_ok (Inr x)" "\<not> is_ok (Inl e)"
  by (simp_all add: is_ok_def)

lemma is_ok_iff: "is_ok r \<longleftrightarrow> (\<exists>x. r = Inr x)"
  by (cases r) auto

lemma and_then_Inr_iff [ok_simps]:
  "and_then r f = Inr y \<longleftrightarrow> (\<exists>x. r = Inr x \<and> f x = Inr y)"
  by (cases r) auto

lemma and_then_Inl_iff:
  "and_then r f = Inl e \<longleftrightarrow> r = Inl e \<or> (\<exists>x. r = Inr x \<and> f x = Inl e)"
  by (cases r) auto

lemma ok_or_Inr_iff [ok_simps]: "ok_or x e = Inr y \<longleftrightarrow> x = Some y"
  by (cases x) auto

lemma ok_or_Inl_iff: "ok_or x e = Inl e' \<longleftrightarrow> x = None \<and> e = e'"
  by (cases x) auto

lemma require_Inr_iff [ok_simps]: "require b e = Inr u \<longleftrightarrow> b"
  by (simp add: require_def)

lemma require_Inl_iff: "require b e = Inl e' \<longleftrightarrow> \<not> b \<and> e = e'"
  by (auto simp: require_def)

lemma require_simps [simp]:
  "require True e = Inr ()" "require False e = Inl e"
  by (simp_all add: require_def)

lemma and_then_assoc:
  "and_then (and_then r f) g = and_then r (\<lambda>x. and_then (f x) g)"
  by (cases r) auto

lemma and_then_Inr_right [simp]: "and_then r Inr = r"
  by (cases r) auto

lemma if_Inl_Inr_iff [ok_simps]:
  "(if b then Inl e else r) = Inr y \<longleftrightarrow> \<not> b \<and> r = Inr y"
  "(if b then r else Inl e) = Inr y \<longleftrightarrow> b \<and> r = Inr y"
  by auto

lemma and_then_cong [fundef_cong]:
  assumes "r = r'" "\<And>x. r' = Inr x \<Longrightarrow> f x = f' x"
  shows "and_then r f = and_then r' f'"
  using assms by (cases r') auto

section \<open>Options\<close>

text \<open>Rust's \<^verbatim>\<open>is_some_and\<close> and \<^verbatim>\<open>is_none_or\<close>.\<close>

fun is_some_and :: "'a option \<Rightarrow> ('a \<Rightarrow> bool) \<Rightarrow> bool" where
  "is_some_and None P = False"
| "is_some_and (Some x) P = P x"

fun is_none_or :: "'a option \<Rightarrow> ('a \<Rightarrow> bool) \<Rightarrow> bool" where
  "is_none_or None P = True"
| "is_none_or (Some x) P = P x"

lemma is_some_and_iff: "is_some_and opt P \<longleftrightarrow> (\<exists>x. opt = Some x \<and> P x)"
  by (cases opt) auto

lemma is_none_or_iff: "is_none_or opt P \<longleftrightarrow> (\<forall>x. opt = Some x \<longrightarrow> P x)"
  by (cases opt) auto

abbreviation is_some :: "'a option \<Rightarrow> bool" where
  "is_some x \<equiv> x \<noteq> None"

section \<open>Lists\<close>

text \<open>\<^verbatim>\<open>Iterator::position\<close>: index of the first element satisfying a predicate.\<close>

fun position :: "('a \<Rightarrow> bool) \<Rightarrow> 'a list \<Rightarrow> nat option" where
  "position P [] = None"
| "position P (x # xs) = (if P x then Some 0 else map_option Suc (position P xs))"

lemma position_Some:
  "position P xs = Some i \<Longrightarrow> i < length xs \<and> P (xs ! i) \<and> (\<forall>j < i. \<not> P (xs ! j))"
  by (induction xs arbitrary: i) (auto split: if_splits simp: less_Suc_eq_0_disj nth_Cons')

lemma position_None: "position P xs = None \<longleftrightarrow> (\<forall>x \<in> set xs. \<not> P x)"
  by (induction xs) auto

text \<open>\<^verbatim>\<open>Iterator::find_map\<close>.\<close>

fun find_map :: "('a \<Rightarrow> 'b option) \<Rightarrow> 'a list \<Rightarrow> 'b option" where
  "find_map f [] = None"
| "find_map f (x # xs) = (case f x of None \<Rightarrow> find_map f xs | Some y \<Rightarrow> Some y)"

lemma find_map_Some: "find_map f xs = Some y \<Longrightarrow> \<exists>x \<in> set xs. f x = Some y"
  by (induction xs) (auto split: option.splits)

lemma find_map_None: "find_map f xs = None \<longleftrightarrow> (\<forall>x \<in> set xs. f x = None)"
  by (induction xs) (auto split: option.splits)

text \<open>\<^verbatim>\<open>Iterator::rfind\<close> on a slice, and replacing the element it finds.\<close>

definition find_last :: "('a \<Rightarrow> bool) \<Rightarrow> 'a list \<Rightarrow> 'a option" where
  "find_last P xs = List.find P (rev xs)"

lemma find_last_Some: "find_last P xs = Some x \<Longrightarrow> x \<in> set xs \<and> P x"
  unfolding find_last_def by (metis find_Some_iff nth_mem length_rev set_rev)

lemma find_last_None: "find_last P xs = None \<longleftrightarrow> (\<forall>x \<in> set xs. \<not> P x)"
  unfolding find_last_def by (auto simp: find_None_iff)

lemma find_last_append1 [simp]:
  "find_last P (xs @ [x]) = (if P x then Some x else find_last P xs)"
  by (simp add: find_last_def)

lemma find_last_Nil [simp]: "find_last P [] = None"
  by (simp add: find_last_def)

lemma last_filter_find_last:
  "find_last P xs = (if filter P xs = [] then None else Some (last (filter P xs)))"
  by (induction xs rule: rev_induct) auto

text \<open>Consecutive numbering of a list from one.\<close>

lemma sorted_nums_snoc:
  "xs = map Suc [0..<length xs] \<Longrightarrow> xs @ [Suc (length xs)] = map Suc [0..<Suc (length xs)]"
  by simp

lemma list_all_update: "list_all P xs \<Longrightarrow> P x \<Longrightarrow> list_all P (xs[i := x])"
  by (auto simp: list_all_iff dest!: set_update_subset_insert[THEN subsetD])

lemma map_update_same: "i < length xs \<Longrightarrow> f (xs ! i) = f y \<Longrightarrow> map f (xs[i := y]) = map f xs"
  by (simp add: map_update) (metis length_map list_update_id nth_map)

lemma filter_update_same:
  "i < length xs \<Longrightarrow> \<not> P (xs ! i) \<Longrightarrow> \<not> P y \<Longrightarrow> filter P (xs[i := y]) = filter P xs"
  by (induction xs arbitrary: i) (auto split: nat.splits simp: less_Suc_eq_0_disj)

text \<open>\<^verbatim>\<open>str::strip_prefix\<close> and \<^verbatim>\<open>str::strip_suffix\<close>.\<close>

fun strip_prefix :: "'a list \<Rightarrow> 'a list \<Rightarrow> 'a list option" where
  "strip_prefix [] xs = Some xs"
| "strip_prefix (p # ps) [] = None"
| "strip_prefix (p # ps) (x # xs) = (if p = x then strip_prefix ps xs else None)"

definition strip_suffix :: "'a list \<Rightarrow> 'a list \<Rightarrow> 'a list option" where
  "strip_suffix sfx xs = map_option rev (strip_prefix (rev sfx) (rev xs))"

lemma strip_prefix_Some_iff [simp]: "strip_prefix p xs = Some ys \<longleftrightarrow> xs = p @ ys"
  by (induction p xs rule: strip_prefix.induct) auto

lemma strip_suffix_Some_iff [simp]: "strip_suffix s xs = Some ys \<longleftrightarrow> xs = ys @ s"
  unfolding strip_suffix_def by (auto simp: rev_eq_append_conv) (metis rev_rev_ident)

end
