(* ===== verification/Ordered_Map.thy ===== *)
theory Ordered_Map
  imports Woml_Prelude "HOL-Library.List_Lexorder" "HOL-Library.Char_ord" "HOL-Library.AList"
begin

text \<open>
  The two keyed collections of the program.  \<^verbatim>\<open>std::collections::BTreeMap\<close> is the
  type \<open>btree\<close> of association lists with strictly increasing keys, so a value of
  the type is a map whose iteration order is the key order.  The object of
  \<^verbatim>\<open>serde_json\<close> (built with \<^verbatim>\<open>preserve_order\<close>) is an association list in insertion
  order whose insertion replaces in place.  The locale \<open>keyed_lookup\<close> states what
  the clients of both rely on, \<open>keyed_map\<close> adds removal and \<open>ordered_map\<close> the
  iteration order; each is interpreted on the operations below.
\<close>

section \<open>Interfaces\<close>

locale keyed_lookup =
  fixes empty :: 'm
    and get :: "'m \<Rightarrow> 'k \<Rightarrow> 'v option"
    and insert :: "'k \<Rightarrow> 'v \<Rightarrow> 'm \<Rightarrow> 'm"
  assumes get_empty: "get empty k = None"
    and get_insert: "get (insert k v m) k' = (if k' = k then Some v else get m k')"
begin

lemma get_insert_same: "get (insert k v m) k = Some v"
  by (simp add: get_insert)

lemma get_insert_other: "k' \<noteq> k \<Longrightarrow> get (insert k v m) k' = get m k'"
  by (simp add: get_insert)

lemma every_empty: "\<forall>k v. get empty k = Some v \<longrightarrow> P k v"
  by (simp add: get_empty)

lemma every_insert:
  assumes "\<forall>k v. get m k = Some v \<longrightarrow> P k v" and "P k' v'"
  shows "\<forall>k v. get (insert k' v' m) k = Some v \<longrightarrow> P k v"
  using assms by (simp add: get_insert)

lemma dom_insert: "dom (get (insert k v m)) = Set.insert k (dom (get m))"
  by (auto simp: get_insert split: if_splits)

lemma lookup_foldr_insert:
  "get (foldr (\<lambda>(k, v). insert k v) kvs m) k =
    (case map_of kvs k of None \<Rightarrow> get m k | Some v \<Rightarrow> Some v)"
  by (induction kvs) (auto simp: get_insert)

end

locale keyed_map = keyed_lookup empty get insert
  for empty :: 'm
    and get :: "'m \<Rightarrow> 'k \<Rightarrow> 'v option"
    and insert :: "'k \<Rightarrow> 'v \<Rightarrow> 'm \<Rightarrow> 'm" +
  fixes remove :: "'k \<Rightarrow> 'm \<Rightarrow> 'm"
  assumes get_remove: "get (remove k m) k' = (if k' = k then None else get m k')"
begin

lemma every_remove:
  assumes "\<forall>k v. get m k = Some v \<longrightarrow> P k v"
  shows "\<forall>k v. get (remove k' m) k = Some v \<longrightarrow> P k v"
  using assms by (simp add: get_remove)

lemma get_remove_insert: "get (remove k (insert k v m)) k' = get (remove k m) k'"
  by (simp add: get_remove get_insert)

lemma dom_remove: "dom (get (remove k m)) = dom (get m) - {k}"
  by (auto simp: get_remove split: if_splits)

end

locale ordered_map = keyed_map empty get insert remove
  for empty :: 'm
    and get :: "'m \<Rightarrow> 'k::linorder \<Rightarrow> 'v option"
    and insert :: "'k \<Rightarrow> 'v \<Rightarrow> 'm \<Rightarrow> 'm"
    and remove :: "'k \<Rightarrow> 'm \<Rightarrow> 'm" +
  fixes entries :: "'m \<Rightarrow> ('k \<times> 'v) list"
  assumes entries_sorted: "sorted_wrt (<) (map fst (entries m))"
    and map_of_entries: "map_of (entries m) = get m"
begin

lemma entries_distinct: "distinct (map fst (entries m))"
  using entries_sorted strict_sorted_iff by blast

lemma in_entries_iff: "(k, v) \<in> set (entries m) \<longleftrightarrow> get m k = Some v"
  using map_of_eq_Some_iff[OF entries_distinct] map_of_entries by metis

lemma in_values_iff: "v \<in> snd ` set (entries m) \<longleftrightarrow> (\<exists>k. get m k = Some v)"
  by (force simp: in_entries_iff[symmetric])

lemma in_keys_iff: "k \<in> fst ` set (entries m) \<longleftrightarrow> get m k \<noteq> None"
  by (force simp: in_entries_iff[symmetric])

lemma finite_dom_get: "finite (dom (get m))"
  by (metis finite_dom_map_of map_of_entries)

lemma entries_by_keys: "map (\<lambda>k. (k, the (get m k))) (map fst (entries m)) = entries m"
  by (auto intro!: map_idI simp: in_entries_iff)

lemma entries_eqI:
  assumes "\<And>k. get m k = get m' k"
  shows "entries m = entries m'"
proof -
  have "set (map fst (entries m)) = set (map fst (entries m'))"
    by (simp add: set_eq_iff in_keys_iff assms)
  hence "map fst (entries m) = map fst (entries m')"
    using entries_sorted by (intro strict_sorted_equal) auto
  moreover have "get m = get m'"
    using assms by (rule ext)
  ultimately show ?thesis
    using entries_by_keys by metis
qed

end

section \<open>Sorted association lists\<close>

fun upd_sorted :: "'k::linorder \<Rightarrow> 'v \<Rightarrow> ('k \<times> 'v) list \<Rightarrow> ('k \<times> 'v) list" where
  "upd_sorted k v [] = [(k, v)]"
| "upd_sorted k v ((a, b) # xs) =
    (if k < a then (k, v) # (a, b) # xs
     else if k = a then (k, v) # xs
     else (a, b) # upd_sorted k v xs)"

fun del_sorted :: "'k::linorder \<Rightarrow> ('k \<times> 'v) list \<Rightarrow> ('k \<times> 'v) list" where
  "del_sorted k [] = []"
| "del_sorted k ((a, b) # xs) = (if k = a then xs else (a, b) # del_sorted k xs)"

lemma fst_set_upd_sorted: "fst ` set (upd_sorted k v xs) = insert k (fst ` set xs)"
  by (induction k v xs rule: upd_sorted.induct) auto

lemma sorted_upd_sorted:
  "sorted_wrt (<) (map fst xs) \<Longrightarrow> sorted_wrt (<) (map fst (upd_sorted k v xs))"
proof (induction k v xs rule: upd_sorted.induct)
  case (2 k v a b xs)
  have "\<forall>y \<in> fst ` set (upd_sorted k v xs). a < y" if "a < k"
    using 2(2) that by (auto simp: fst_set_upd_sorted)
  then show ?case
    using 2 by (auto dest: less_trans)
qed simp

lemma map_of_upd_sorted: "map_of (upd_sorted k v xs) = (map_of xs)(k \<mapsto> v)"
  by (induction k v xs rule: upd_sorted.induct) (auto simp: fun_eq_iff)

lemma set_del_sorted: "set (del_sorted k xs) \<subseteq> set xs"
  by (induction k xs rule: del_sorted.induct) auto

lemma sorted_del_sorted:
  "sorted_wrt (<) (map fst xs) \<Longrightarrow> sorted_wrt (<) (map fst (del_sorted k xs))"
  by (induction k xs rule: del_sorted.induct) (use set_del_sorted in fastforce)+

lemma map_of_del_sorted:
  "sorted_wrt (<) (map fst xs) \<Longrightarrow> map_of (del_sorted k xs) = (map_of xs)(k := None)"
proof (induction k xs rule: del_sorted.induct)
  case (2 k a b xs)
  have "map_of xs a = None"
    using 2(2) by (auto simp: map_of_eq_None_iff)
  then show ?case
    using 2 by (auto simp: fun_eq_iff)
qed simp

section \<open>The B-tree map\<close>

typedef (overloaded) ('k, 'v) btree = "{xs :: ('k::linorder \<times> 'v) list. sorted_wrt (<) (map fst xs)}"
  morphisms bt_entries Abs_btree
  by (rule exI [of _ "[]"]) simp

setup_lifting type_definition_btree

lift_definition bt_empty :: "('k::linorder, 'v) btree" is "[]" by simp
lift_definition bt_get :: "('k::linorder, 'v) btree \<Rightarrow> 'k \<Rightarrow> 'v option" is map_of .
lift_definition bt_insert :: "'k::linorder \<Rightarrow> 'v \<Rightarrow> ('k, 'v) btree \<Rightarrow> ('k, 'v) btree"
  is upd_sorted by (rule sorted_upd_sorted)
lift_definition bt_remove :: "'k::linorder \<Rightarrow> ('k, 'v) btree \<Rightarrow> ('k, 'v) btree"
  is del_sorted by (rule sorted_del_sorted)

definition bt_values :: "('k::linorder, 'v) btree \<Rightarrow> 'v list" where
  "bt_values m = map snd (bt_entries m)"

definition bt_keys :: "('k::linorder, 'v) btree \<Rightarrow> 'k list" where
  "bt_keys m = map fst (bt_entries m)"

definition bt_contains :: "('k::linorder, 'v) btree \<Rightarrow> 'k \<Rightarrow> bool" where
  "bt_contains m k = (bt_get m k \<noteq> None)"

text \<open>\<^verbatim>\<open>BTreeMap::get_mut\<close> followed by an assignment through the reference.\<close>

definition bt_update :: "'k::linorder \<Rightarrow> ('v \<Rightarrow> 'v) \<Rightarrow> ('k, 'v) btree \<Rightarrow> ('k, 'v) btree" where
  "bt_update k f m = (case bt_get m k of None \<Rightarrow> m | Some v \<Rightarrow> bt_insert k (f v) m)"

interpretation bt: ordered_map bt_empty bt_get bt_insert bt_remove bt_entries
proof unfold_locales
  show "bt_get bt_empty k = None" for k :: 'a
    by transfer simp
  show "bt_get (bt_insert k v m) k' = (if k' = k then Some v else bt_get m k')"
    for k k' :: 'a and v :: 'b and m
    by transfer (simp add: map_of_upd_sorted)
  show "bt_get (bt_remove k m) k' = (if k' = k then None else bt_get m k')"
    for k k' :: 'a and m :: "('a, 'b) btree"
    by transfer (simp add: map_of_del_sorted)
  show "sorted_wrt (<) (map fst (bt_entries m))" for m :: "('a, 'b) btree"
    using bt_entries by blast
  show "map_of (bt_entries m) = bt_get m" for m :: "('a, 'b) btree"
    by (simp add: bt_get.rep_eq)
qed

lemma bt_entries_simps [simp]:
  "bt_entries bt_empty = []"
  "bt_entries (bt_insert k v m) = upd_sorted k v (bt_entries m)"
  "bt_entries (bt_remove k m) = del_sorted k (bt_entries m)"
  by (simp_all add: bt_empty.rep_eq bt_insert.rep_eq bt_remove.rep_eq)

declare bt.get_empty [simp] bt.get_insert [simp] bt.get_remove [simp]

lemma bt_contains_simps [simp]:
  "bt_contains bt_empty k \<longleftrightarrow> False"
  "bt_contains (bt_insert k v m) k' \<longleftrightarrow> k' = k \<or> bt_contains m k'"
  "bt_contains (bt_remove k m) k' \<longleftrightarrow> k' \<noteq> k \<and> bt_contains m k'"
  by (auto simp: bt_contains_def)

lemma bt_values_simps [simp]:
  "bt_values bt_empty = []"
  "bt_values (bt_insert k v m) = map snd (upd_sorted k v (bt_entries m))"
  "bt_values (bt_remove k m) = map snd (del_sorted k (bt_entries m))"
  by (simp_all add: bt_values_def)

lemma in_bt_values_iff: "v \<in> set (bt_values m) \<longleftrightarrow> (\<exists>k. bt_get m k = Some v)"
  by (simp add: bt_values_def bt.in_values_iff)

lemma bt_eqI: "(\<And>k. bt_get m k = bt_get m' k) \<Longrightarrow> m = m'"
  using bt.entries_eqI bt_entries_inject by metis

lemma bt_get_update [simp]:
  "bt_get (bt_update k f m) k' = (if k' = k then map_option f (bt_get m k) else bt_get m k')"
  by (auto simp: bt_update_def split: option.splits)

section \<open>The insertion-ordered map\<close>

interpretation im: keyed_lookup "[]" map_of AList.update
  by unfold_locales (auto simp: update_conv')

end
