(* ===== verification/Rust_Text.thy ===== *)
theory Rust_Text
  imports Ordered_Map
begin

text \<open>
  Rust strings.  A \<^verbatim>\<open>String\<close> is the list of its UTF-8 bytes, each byte a HOL
  character, so \<^verbatim>\<open>len()\<close> is the length of the list and the byte-lexicographic
  order of \<^verbatim>\<open>str\<close> is the order of \<^theory_text>\<open>List_Lexorder\<close>.  The definitions below are
  the methods of \<^verbatim>\<open>str\<close>, \<^verbatim>\<open>char\<close> and \<^verbatim>\<open>u8\<close> the event validation calls.
\<close>

section \<open>Character classes\<close>

definition byte :: "char \<Rightarrow> nat" where
  "byte c = of_char c"

definition is_ascii_lowercase :: "char \<Rightarrow> bool" where
  "is_ascii_lowercase c = (97 \<le> byte c \<and> byte c \<le> 122)"

definition is_ascii_uppercase :: "char \<Rightarrow> bool" where
  "is_ascii_uppercase c = (65 \<le> byte c \<and> byte c \<le> 90)"

definition is_ascii_digit :: "char \<Rightarrow> bool" where
  "is_ascii_digit c = (48 \<le> byte c \<and> byte c \<le> 57)"

definition is_ascii_alphabetic :: "char \<Rightarrow> bool" where
  "is_ascii_alphabetic c = (is_ascii_lowercase c \<or> is_ascii_uppercase c)"

definition is_ascii_alphanumeric :: "char \<Rightarrow> bool" where
  "is_ascii_alphanumeric c = (is_ascii_alphabetic c \<or> is_ascii_digit c)"

definition is_lower_hex :: "char \<Rightarrow> bool" where
  "is_lower_hex c = (is_ascii_digit c \<or> 97 \<le> byte c \<and> byte c \<le> 102)"

definition to_ascii_lowercase :: "char \<Rightarrow> char" where
  "to_ascii_lowercase c = (if is_ascii_uppercase c then char_of (byte c + 32) else c)"

section \<open>String methods\<close>

text \<open>\<^verbatim>\<open>chars().count()\<close>: the bytes that start a character, i.e. all bytes but the
  continuation bytes 0x80 to 0xBF.\<close>

definition chars_count :: "string \<Rightarrow> nat" where
  "chars_count s = length (filter (\<lambda>c. \<not> (128 \<le> byte c \<and> byte c < 192)) s)"

text \<open>\<^verbatim>\<open>split\<close> on a set of separator characters: always at least one segment.\<close>

fun split_on :: "char list \<Rightarrow> string \<Rightarrow> string list" where
  "split_on seps [] = [[]]"
| "split_on seps (c # cs) =
    (if c \<in> set seps then [] # split_on seps cs
     else (case split_on seps cs of [] \<Rightarrow> [[c]] | seg # segs \<Rightarrow> (c # seg) # segs))"

text \<open>\<^verbatim>\<open>split_once\<close>: around the first occurrence of the separator.\<close>

fun split_once :: "string \<Rightarrow> string \<Rightarrow> (string \<times> string) option" where
  "split_once sep [] = (if sep = [] then Some ([], []) else None)"
| "split_once sep (c # cs) =
    (case strip_prefix sep (c # cs) of
       Some rest \<Rightarrow> Some ([], rest)
     | None \<Rightarrow> map_option (\<lambda>(l, r). (c # l, r)) (split_once sep cs))"

definition starts_with :: "string \<Rightarrow> string \<Rightarrow> bool" where
  "starts_with p s = (strip_prefix p s \<noteq> None)"

text \<open>\<^verbatim>\<open>windows(2)\<close>.\<close>

fun pairs :: "'a list \<Rightarrow> ('a \<times> 'a) list" where
  "pairs (x # y # zs) = (x, y) # pairs (y # zs)"
| "pairs _ = []"

text \<open>The UTF-8 encodings of the Unicode \<^verbatim>\<open>White_Space\<close> characters.\<close>

definition whitespace_encodings :: "nat list list" where
  "whitespace_encodings =
    [[9], [10], [11], [12], [13], [32], [194, 133], [194, 160], [225, 154, 128],
     [226, 128, 128], [226, 128, 129], [226, 128, 130], [226, 128, 131], [226, 128, 132],
     [226, 128, 133], [226, 128, 134], [226, 128, 135], [226, 128, 136], [226, 128, 137],
     [226, 128, 138], [226, 128, 168], [226, 128, 169], [226, 128, 175], [226, 129, 159],
     [227, 128, 128]]"

definition begins_with_whitespace :: "string \<Rightarrow> bool" where
  "begins_with_whitespace s = list_ex (\<lambda>w. strip_prefix w (map byte s) \<noteq> None) whitespace_encodings"

definition ends_with_whitespace :: "string \<Rightarrow> bool" where
  "ends_with_whitespace s = list_ex (\<lambda>w. strip_suffix w (map byte s) \<noteq> None) whitespace_encodings"

text \<open>\<^verbatim>\<open>value.trim() == value\<close>: nothing is trimmed at either end.\<close>

definition is_trimmed :: "string \<Rightarrow> bool" where
  "is_trimmed s = (\<not> begins_with_whitespace s \<and> \<not> ends_with_whitespace s)"

text \<open>\<^verbatim>\<open>chars().any(char::is_control)\<close>: U+0000 to U+001F, U+007F to U+009F.\<close>

definition has_control :: "string \<Rightarrow> bool" where
  "has_control s =
    (list_ex (\<lambda>c. byte c < 32 \<or> byte c = 127) s
     \<or> list_ex (\<lambda>(a, b). byte a = 194 \<and> 128 \<le> byte b \<and> byte b < 160) (pairs s))"

section \<open>Decimal numbers\<close>

definition digit_value :: "char \<Rightarrow> nat" where
  "digit_value c = byte c - 48"

definition digits_value :: "string \<Rightarrow> nat" where
  "digits_value s = foldl (\<lambda>acc c. 10 * acc + digit_value c) 0 s"

text \<open>\<^verbatim>\<open>parse::<u64>()\<close>: an optional plus sign, at least one digit, no overflow.\<close>

definition parse_u64 :: "string \<Rightarrow> u64 option" where
  "parse_u64 s =
    (let ds = (case s of c # cs \<Rightarrow> if byte c = 43 then cs else s | [] \<Rightarrow> [])
     in if ds \<noteq> [] \<and> list_all is_ascii_digit ds \<and> digits_value ds < 2 ^ 64
        then Some (of_nat (digits_value ds)) else None)"

text \<open>\<^verbatim>\<open>to_string()\<close> of an unsigned integer.\<close>

fun nat_to_string :: "nat \<Rightarrow> string" where
  "nat_to_string n =
    (if n < 10 then [char_of (n + 48)] else nat_to_string (n div 10) @ [char_of (n mod 10 + 48)])"

declare nat_to_string.simps [simp del]

lemma byte_char_of: "n < 256 \<Longrightarrow> byte (char_of n) = n"
  by (simp add: byte_def)

lemma byte_inject: "byte a = byte b \<longleftrightarrow> a = b"
  by (simp add: byte_def)

lemma byte_less: "byte c < 256"
  by (simp add: byte_def)

lemma is_ascii_digit_char_of: "(n::nat) < 10 \<Longrightarrow> is_ascii_digit (char_of (n + 48))"
  by (simp add: is_ascii_digit_def byte_char_of)

lemma digits_value_snoc: "digits_value (s @ [c]) = 10 * digits_value s + digit_value c"
  by (simp add: digits_value_def)

lemma nat_to_string_digits: "list_all is_ascii_digit (nat_to_string n)"
proof (induction n rule: nat_to_string.induct)
  case (1 n)
  then show ?case
    by (subst nat_to_string.simps) (auto simp: is_ascii_digit_char_of)
qed

lemma nat_to_string_not_Nil [simp]: "nat_to_string n \<noteq> []"
  by (subst nat_to_string.simps) simp

lemma digits_value_nat_to_string: "digits_value (nat_to_string n) = n"
proof (induction n rule: nat_to_string.induct)
  case (1 n)
  then show ?case
    by (subst nat_to_string.simps)
       (auto simp: digits_value_snoc digit_value_def byte_char_of digits_value_def)
qed

lemma nat_to_string_hd: "0 < n \<Longrightarrow> byte (hd (nat_to_string n)) \<noteq> 48"
proof (induction n rule: nat_to_string.induct)
  case (1 n)
  then show ?case
    by (subst nat_to_string.simps) (auto simp: byte_char_of)
qed

text \<open>A digit string without a leading zero is determined by its value.\<close>

lemma digits_value_append: "digits_value (s @ t) = digits_value s * 10 ^ length t + digits_value t"
proof (induction t rule: rev_induct)
  case Nil
  then show ?case by (simp add: digits_value_def)
next
  case (snoc c t)
  then show ?case
    by (simp flip: append_assoc add: digits_value_snoc algebra_simps)
qed

lemma nat_to_string_digits_value:
  assumes "s \<noteq> []" "list_all is_ascii_digit s" "byte (hd s) \<noteq> 48 \<or> length s = 1"
  shows "nat_to_string (digits_value s) = s"
  using assms
proof (induction s rule: rev_induct)
  case (snoc c s)
  have c: "digit_value c < 10" "char_of (digit_value c + 48) = c"
    using snoc.prems(2) by (auto simp: is_ascii_digit_def digit_value_def byte_def)
  show ?case
  proof (cases "s = []")
    case True
    then show ?thesis
      using c by (subst nat_to_string.simps) (simp add: digits_value_def)
  next
    case False
    then obtain a s' where s: "s = a # s'" by (cases s) auto
    have "byte a \<noteq> 48" "is_ascii_digit a"
      using snoc.prems s by auto
    then have "0 < digit_value a"
      by (auto simp: is_ascii_digit_def digit_value_def)
    then have "0 < digits_value s"
      using digits_value_append[of "[a]" s'] s by (simp add: digits_value_def)
    moreover have "nat_to_string (digits_value s) = s"
      using snoc False by (cases s) auto
    ultimately show ?thesis
      using c by (subst nat_to_string.simps) (auto simp: digits_value_snoc)
  qed
qed simp

end
