(* ===== verification/Json.thy ===== *)
theory Json
  imports Rust_Text
begin

text \<open>
  JSON values as \<^verbatim>\<open>serde_json\<close> represents them: numbers keep the variant they
  were parsed into, a floating point number is its IEEE 754 bit pattern, and an
  object keeps insertion order.
\<close>

type_synonym f64 = "64 word"

datatype json_number = PosInt u64 | NegInt "64 word" | Float f64

datatype json =
    JNull
  | JBool bool
  | JNumber json_number
  | JString string
  | JArray "json list"
  | JObject "(string \<times> json) list"

type_synonym json_object = "(string \<times> json) list"

abbreviation obj_get :: "json_object \<Rightarrow> string \<Rightarrow> json option" where
  "obj_get m k \<equiv> map_of m k"

abbreviation obj_insert :: "string \<Rightarrow> json \<Rightarrow> json_object \<Rightarrow> json_object" where
  "obj_insert k v m \<equiv> AList.update k v m"

definition obj_contains :: "json_object \<Rightarrow> string \<Rightarrow> bool" where
  "obj_contains m k = (map_of m k \<noteq> None)"

lemma obj_contains_insert [simp]:
  "obj_contains (obj_insert k v m) k' \<longleftrightarrow> k' = k \<or> obj_contains m k'"
  by (auto simp: obj_contains_def im.get_insert)

lemma obj_contains_Nil [simp]: "\<not> obj_contains [] k"
  by (simp add: obj_contains_def)

fun is_object :: "json \<Rightarrow> bool" where
  "is_object (JObject _) = True"
| "is_object _ = False"

text \<open>\<^verbatim>\<open>Value::as_object\<close> and friends.\<close>

fun as_object :: "json \<Rightarrow> json_object option" where
  "as_object (JObject m) = Some m"
| "as_object _ = None"

text \<open>\<^verbatim>\<open>f64::is_finite\<close> and \<^verbatim>\<open>x < 0.0\<close> read from the bit pattern: the exponent is not
  all ones; the sign bit is set and the value is neither zero nor a NaN.\<close>

definition f64_is_finite :: "f64 \<Rightarrow> bool" where
  "f64_is_finite x = ((unat x div 2 ^ 52) mod 2 ^ 11 \<noteq> 2047)"

definition f64_is_nan :: "f64 \<Rightarrow> bool" where
  "f64_is_nan x = ((unat x div 2 ^ 52) mod 2 ^ 11 = 2047 \<and> unat x mod 2 ^ 52 \<noteq> 0)"

definition f64_is_negative :: "f64 \<Rightarrow> bool" where
  "f64_is_negative x = (\<not> f64_is_nan x \<and> 2 ^ 63 < unat x)"

end
