(* ===== verification/Event_Approvals.thy ===== *)
theory Event_Approvals
  imports Json
begin

text \<open>
  Payload data of approvals and of the notifications that carry them
  (\<^verbatim>\<open>event/approvals.rs\<close>, \<^verbatim>\<open>event/notifications.rs\<close>).
\<close>

section \<open>Approvals\<close>

datatype approval_timeout_policy =
    ApprovalTimeoutPolicy_Reject
  | ApprovalTimeoutPolicy_Fail

record approval_requested_data =
  areq_approval_id :: "string"
  areq_request_id :: "string"
  areq_expires_at :: "instant option"
  areq_on_timeout :: "approval_timeout_policy"

datatype approval_decision =
    ApprovalDecision_Approved
  | ApprovalDecision_Rejected

datatype approval_decision_source =
    ApprovalDecisionSource_Human
  | ApprovalDecisionSource_Timeout

datatype approval_resolution =
    ApprovalResolution_Decision "approval_decision" "approval_decision_source"
  | ApprovalResolution_TimeoutFailure

datatype rich_approval_resolution_reason =
    RichApprovalResolutionReason_Quorum
  | RichApprovalResolutionReason_Rejection
  | RichApprovalResolutionReason_Timeout
  | RichApprovalResolutionReason_Cancellation
  | RichApprovalResolutionReason_ArtifactInvalidated

record approval_resolved_data =
  ares_approval_id :: "string"
  ares_request_id :: "string"
  ares_resolution :: "approval_resolution option"
  ares_review_digest :: "string option"
  ares_decision :: "approval_decision option"
  ares_reason :: "rich_approval_resolution_reason option"
  ares_required :: "u32 option"
  ares_received :: "u32 option"
  ares_required_roles :: "string list option"
  ares_represented_roles :: "string list option"

record approval_review_requested_data =
  arvr_approval_id :: "string"
  arvr_request_id :: "string"
  arvr_review_digest :: "string"
  arvr_directory_version :: "string"
  arvr_required :: "u32"
  arvr_required_roles :: "string list"

record approval_reviewer_decision_recorded_data =
  ardr_approval_id :: "string"
  ardr_request_id :: "string"
  ardr_review_digest :: "string"
  ardr_principal_id :: "string"
  ardr_decision :: "approval_decision"

record approval_quorum_progressed_data =
  aqp_approval_id :: "string"
  aqp_request_id :: "string"
  aqp_review_digest :: "string"
  aqp_required :: "u32"
  aqp_received :: "u32"
  aqp_required_roles :: "string list"
  aqp_represented_roles :: "string list"

record approval_invalidated_data =
  ainv_approval_id :: "string"
  ainv_request_id :: "string"
  ainv_review_digest :: "string"
  ainv_reason :: "rich_approval_resolution_reason"

record approval_failure =
  apf_kind :: "string"
  apf_code :: "string"
  apf_message :: "string"

section \<open>Notifications\<close>

record notification_delivery_requested_data =
  ndr_approval_id :: "string"
  ndr_request_id :: "string"
  ndr_delivery_id :: "string"
  ndr_provider :: "string"
  ndr_destination :: "string"

record notification_delivery_attempt_started_data =
  ndas_approval_id :: "string"
  ndas_request_id :: "string"
  ndas_delivery_id :: "string"
  ndas_attempt :: "u32"
  ndas_attempt_id :: "string"
  ndas_idempotency_key :: "string"

record slack_provider_message_identity =
  slack_workspace_id :: "string"
  slack_channel_id :: "string"
  slack_message_id :: "string"

record communication_provider_message_identity =
  comm_provider :: "string"
  comm_account_id :: "string"
  comm_conversation_id :: "string"
  comm_message_id :: "string"
  comm_thread_id :: "string option"

datatype provider_message_identity =
    ProviderMessageIdentity_Slack "slack_provider_message_identity"
  | ProviderMessageIdentity_Communication "communication_provider_message_identity"

record notification_delivery_succeeded_data =
  nds_approval_id :: "string"
  nds_request_id :: "string"
  nds_delivery_id :: "string"
  nds_attempt :: "u32"
  nds_attempt_id :: "string"
  nds_provider_message :: "provider_message_identity"

record notification_safe_failure =
  nsf_kind :: "string"
  nsf_code :: "string"
  nsf_message :: "string"
  nsf_retryable :: "bool"
  nsf_retry_after_ms :: "u64 option"

record notification_delivery_failed_data =
  ndf_approval_id :: "string"
  ndf_request_id :: "string"
  ndf_delivery_id :: "string"
  ndf_attempt :: "u32"
  ndf_attempt_id :: "string"
  ndf_final :: "bool"
  ndf_failure :: "notification_safe_failure"

record notification_decision_accepted_data =
  ndac_approval_id :: "string"
  ndac_request_id :: "string"
  ndac_delivery_id :: "string"
  ndac_provider :: "string"
  ndac_provider_actor_id :: "string"
  ndac_decision :: "approval_decision"

datatype notification_resolution =
    NotificationResolution_Approved
  | NotificationResolution_Rejected
  | NotificationResolution_TimeoutFailed

record notification_message_update_requested_data =
  nmur_approval_id :: "string"
  nmur_request_id :: "string"
  nmur_delivery_id :: "string"
  nmur_update_id :: "string"
  nmur_resolution :: "notification_resolution"

record notification_message_update_attempt_started_data =
  nmuas_approval_id :: "string"
  nmuas_request_id :: "string"
  nmuas_delivery_id :: "string"
  nmuas_update_id :: "string"
  nmuas_attempt :: "u32"
  nmuas_attempt_id :: "string"

record notification_message_update_failed_data =
  nmuf_approval_id :: "string"
  nmuf_request_id :: "string"
  nmuf_delivery_id :: "string"
  nmuf_update_id :: "string"
  nmuf_attempt :: "u32"
  nmuf_attempt_id :: "string"
  nmuf_final :: "bool"
  nmuf_failure :: "notification_safe_failure"

record notification_run_failure =
  nrf_kind :: "string"
  nrf_code :: "string"
  nrf_message :: "string"

end
