(* ===== verification/Event_Control_Flow.thy ===== *)
theory Event_Control_Flow
  imports Json
begin

text \<open>
  Payload data of forks, parallel groups and for-each iterations
  (\<^verbatim>\<open>event/forks.rs\<close>, \<^verbatim>\<open>event/parallel.rs\<close>, \<^verbatim>\<open>event/iterations.rs\<close>).
\<close>

section \<open>Forks\<close>

record fork_opened_data =
  fo_fork_id :: "string"

datatype fork_branch_outcome =
    ForkBranchOutcome_Succeeded
  | ForkBranchOutcome_Failed
  | ForkBranchOutcome_Cancelled

record fork_branch_settled_data =
  fbs_fork_id :: "string"
  fbs_branch_id :: "string"
  fbs_terminal_node_id :: "string"
  fbs_outcome :: "fork_branch_outcome"

datatype fork_join_outcome =
    ForkJoinOutcome_Succeeded
  | ForkJoinOutcome_Failed
  | ForkJoinOutcome_Cancelled

record fork_join_settled_data =
  fjs_fork_id :: "string"
  fjs_outcome :: "fork_join_outcome"
  fjs_blocking_branch_id :: "string option"

section \<open>Parallel groups\<close>

record parallel_group_started_data =
  pgs_parallel_id :: "string"

datatype parallel_group_outcome =
    ParallelGroupOutcome_Succeeded
  | ParallelGroupOutcome_Failed

record parallel_group_completed_data =
  pgc_parallel_id :: "string"
  pgc_outcome :: "parallel_group_outcome"
  pgc_failed_node_ids :: "string list"
  pgc_cancelled_node_ids :: "string list"

section \<open>Iterations\<close>

record for_each_iteration_scope =
  scope_for_each_id :: "string"
  scope_index :: "u32"

record for_each_opened_data =
  feo_for_each_id :: "string"
  feo_total :: "u32"
  feo_items_digest :: "string"
  feo_concurrency :: "u32"

record for_each_iteration_identity_data =
  feii_for_each_id :: "string"

record for_each_iteration_succeeded_data =
  feisu_for_each_id :: "string"
  feisu_result :: "json option"
  feisu_result_digest :: "string option"

datatype for_each_iteration_failure_kind =
    ForEachIterationFailureKind_ScriptThrew
  | ForEachIterationFailureKind_TimedOut
  | ForEachIterationFailureKind_NonJson
  | ForEachIterationFailureKind_WorkerCrashed
  | ForEachIterationFailureKind_HostCrashed
  | ForEachIterationFailureKind_ResultTooLarge
  | ForEachIterationFailureKind_ContextTooLarge
  | ForEachIterationFailureKind_Interrupted
  | ForEachIterationFailureKind_CapabilityFailed
  | ForEachIterationFailureKind_Cancelled

record for_each_iteration_failed_data =
  feif_for_each_id :: "string"
  feif_failed_node_id :: "string"
  feif_failure_kind :: "for_each_iteration_failure_kind"

datatype for_each_skip_reason =
    ForEachSkipReason_Failure
  | ForEachSkipReason_Cancellation

record for_each_iteration_skipped_data =
  feisk_for_each_id :: "string"
  feisk_reason :: "for_each_skip_reason"

record for_each_settled_data =
  fes_for_each_id :: "string"
  fes_total :: "u32"
  fes_succeeded :: "u32"
  fes_failed :: "u32"
  fes_skipped :: "u32"
  fes_aggregate_digest :: "string"

end
