(* ===== verification/Event_Lifecycle.thy ===== *)
theory Event_Lifecycle
  imports Json
begin

text \<open>
  Payload data of lifecycle hooks and of the run outcome
  (\<^verbatim>\<open>event/lifecycle.rs\<close>, event names from \<^verbatim>\<open>model/lifecycle.rs\<close>).
\<close>

section \<open>Lifecycle\<close>

datatype lifecycle_event_name =
    LifecycleEventName_RunStart
  | LifecycleEventName_StepStart
  | LifecycleEventName_StepSuccess
  | LifecycleEventName_StepFailure
  | LifecycleEventName_StepComplete
  | LifecycleEventName_RunSuccess
  | LifecycleEventName_RunFailure
  | LifecycleEventName_RunCancel
  | LifecycleEventName_RunComplete

datatype lifecycle_subject_kind =
    LifecycleSubjectKind_Workflow
  | LifecycleSubjectKind_Step

record lifecycle_subject =
  ls_kind :: "lifecycle_subject_kind"
  ls_id :: "string"

record lifecycle_hook_requested_data =
  lhr_hook_invocation_id :: "string"
  lhr_hook_id :: "string"
  lhr_event :: "lifecycle_event_name"
  lhr_subject :: "lifecycle_subject"

record lifecycle_action_identity_data =
  lai_hook_invocation_id :: "string"
  lai_action_id :: "string"
  lai_attempt :: "u32"

datatype lifecycle_failure_kind =
    LifecycleFailureKind_ScriptThrew
  | LifecycleFailureKind_TimedOut
  | LifecycleFailureKind_NonJson
  | LifecycleFailureKind_WorkerCrashed
  | LifecycleFailureKind_HostCrashed
  | LifecycleFailureKind_Interrupted
  | LifecycleFailureKind_SizeLimitExceeded
  | LifecycleFailureKind_Cancelled
  | LifecycleFailureKind_ProviderFailed

record lifecycle_failure =
  lf_kind :: "lifecycle_failure_kind"
  lf_code :: "string"
  lf_message :: "string"

record lifecycle_action_failed_data =
  laf_hook_invocation_id :: "string"
  laf_action_id :: "string"
  laf_attempt :: "u32"
  laf_failure :: "lifecycle_failure"

datatype lifecycle_hook_completion_status =
    LifecycleHookCompletionStatus_Completed
  | LifecycleHookCompletionStatus_CompletedWithWarnings

record lifecycle_hook_completed_data =
  lhc_hook_invocation_id :: "string"
  lhc_status :: "lifecycle_hook_completion_status"
  lhc_failed_actions :: "u32"

datatype reusable_lifecycle_hook =
    ReusableLifecycleHook_OnSuccess
  | ReusableLifecycleHook_OnError
  | ReusableLifecycleHook_OnComplete

datatype reusable_lifecycle_outcome =
    ReusableLifecycleOutcome_Succeeded
  | ReusableLifecycleOutcome_Failed
  | ReusableLifecycleOutcome_CompletedWithWarnings

record reusable_lifecycle_requested_data =
  rlr_invocation_id :: "string"
  rlr_definition_digest :: "string"
  rlr_hook :: "reusable_lifecycle_hook"

record reusable_lifecycle_action_started_data =
  rlast_invocation_id :: "string"
  rlast_definition_digest :: "string"
  rlast_hook :: "reusable_lifecycle_hook"
  rlast_action_id :: "string"

record reusable_lifecycle_action_succeeded_data =
  rlasu_invocation_id :: "string"
  rlasu_definition_digest :: "string"
  rlasu_hook :: "reusable_lifecycle_hook"
  rlasu_action_id :: "string"
  rlasu_outcome :: "reusable_lifecycle_outcome"

record reusable_lifecycle_action_failed_data =
  rlaf_invocation_id :: "string"
  rlaf_definition_digest :: "string"
  rlaf_hook :: "reusable_lifecycle_hook"
  rlaf_action_id :: "string"
  rlaf_outcome :: "reusable_lifecycle_outcome"
  rlaf_warning_code :: "string"

record reusable_lifecycle_completed_data =
  rlc_invocation_id :: "string"
  rlc_definition_digest :: "string"
  rlc_hook :: "reusable_lifecycle_hook"
  rlc_outcome :: "reusable_lifecycle_outcome"

datatype business_outcome =
    BusinessOutcome_Succeeded
  | BusinessOutcome_Failed
  | BusinessOutcome_Cancelled

datatype run_outcome_decided_data =
    RunOutcomeDecidedData_Succeeded "json"
  | RunOutcomeDecidedData_Failed "lifecycle_failure"
  | RunOutcomeDecidedData_Cancelled "string"

datatype final_lifecycle_status =
    FinalLifecycleStatus_Completed
  | FinalLifecycleStatus_CompletedWithWarnings

record lifecycle_warning =
  lw_hook_id :: "string"
  lw_action_id :: "string"
  lw_step_id :: "string option"
  lw_provider :: "string option"
  lw_destination :: "string option"
  lw_code :: "string"

record run_finalized_data =
  rfin_outcome :: "business_outcome"
  rfin_lifecycle_status :: "final_lifecycle_status"
  rfin_warnings :: "lifecycle_warning list"

text \<open>\<^verbatim>\<open>LifecycleEventName::is_step\<close> and \<^verbatim>\<open>RunOutcomeDecidedData::outcome\<close>.\<close>

fun is_step :: "lifecycle_event_name \<Rightarrow> bool" where
  "is_step LifecycleEventName_StepStart = True"
| "is_step LifecycleEventName_StepSuccess = True"
| "is_step LifecycleEventName_StepFailure = True"
| "is_step LifecycleEventName_StepComplete = True"
| "is_step _ = False"

fun outcome_of :: "run_outcome_decided_data \<Rightarrow> business_outcome" where
  "outcome_of (RunOutcomeDecidedData_Succeeded _) = BusinessOutcome_Succeeded"
| "outcome_of (RunOutcomeDecidedData_Failed _) = BusinessOutcome_Failed"
| "outcome_of (RunOutcomeDecidedData_Cancelled _) = BusinessOutcome_Cancelled"

end
