(* ===== verification/Capability.thy ===== *)
theory Capability
  imports Json
begin

text \<open>
  Failures of capability calls and the checks on capability names and safe
  metadata (\<^verbatim>\<open>capability/contracts.rs\<close>, \<^verbatim>\<open>capability/validation.rs\<close>).
\<close>

section \<open>Failures\<close>

datatype capability_failure_kind =
    CapabilityFailureKind_InvalidInput
  | CapabilityFailureKind_InvalidResult
  | CapabilityFailureKind_UnsupportedCapability
  | CapabilityFailureKind_UnsupportedOperation
  | CapabilityFailureKind_UnsupportedVersion
  | CapabilityFailureKind_InputTooLarge
  | CapabilityFailureKind_ResultTooLarge
  | CapabilityFailureKind_FrameTooLarge
  | CapabilityFailureKind_TimedOut
  | CapabilityFailureKind_Cancelled
  | CapabilityFailureKind_HandlerCrashed
  | CapabilityFailureKind_WorkerCrashed
  | CapabilityFailureKind_HostCrashed
  | CapabilityFailureKind_TransportFailed
  | CapabilityFailureKind_ServiceRejected
  | CapabilityFailureKind_Interrupted
  | CapabilityFailureKind_Ambiguous

record capability_failure =
  cf_kind :: "capability_failure_kind"
  cf_code :: "string"
  cf_message :: "string"
  cf_retryable :: "bool"
  cf_ambiguous :: "bool"
  cf_details :: "json_object option"

section \<open>Checks\<close>

definition forbidden_metadata_keys :: "string list" where
  "forbidden_metadata_keys =
    [''authorization'', ''cookie'', ''set-cookie'', ''token'', ''secret'', ''password'', ''body'',
     ''query'', ''url'', ''headers'', ''input'', ''output'', ''data'', ''value'']"

definition valid_metadata_key :: "string \<Rightarrow> bool" where
  "valid_metadata_key key =
    (length key \<le> 64
     \<and> (case key of [] \<Rightarrow> False | c # _ \<Rightarrow> is_ascii_alphabetic c)
     \<and> list_all (\<lambda>c. is_ascii_alphanumeric c \<or> c \<in> set ''_.-'') key
     \<and> map to_ascii_lowercase key \<notin> set forbidden_metadata_keys)"

fun is_scalar :: "json \<Rightarrow> bool" where
  "is_scalar (JArray _) = False"
| "is_scalar (JObject _) = False"
| "is_scalar _ = True"

definition validate_safe_metadata :: "json_object \<Rightarrow> bool" where
  "validate_safe_metadata m =
    (length m \<le> 32 \<and> list_all (\<lambda>(key, v). valid_metadata_key key \<and> is_scalar v) m)"

definition lower_segment :: "string \<Rightarrow> bool" where
  "lower_segment seg =
    (case seg of [] \<Rightarrow> False
     | c # cs \<Rightarrow> is_ascii_lowercase c \<and> list_all (\<lambda>x. is_ascii_lowercase x \<or> is_ascii_digit x) cs)"

definition valid_name :: "string \<Rightarrow> bool" where
  "valid_name s = (length s \<le> 128 \<and> list_all lower_segment (split_on ''._-'' s))"

definition valid_digest :: "string \<Rightarrow> bool" where
  "valid_digest s =
    is_some_and (strip_prefix ''sha256:'' s) (\<lambda>d. length d = 64 \<and> list_all is_lower_hex d)"

definition is_code_byte :: "char \<Rightarrow> bool" where
  "is_code_byte c = (is_ascii_uppercase c \<or> is_ascii_digit c \<or> c = CHR ''_'')"

definition validate_capability_failure :: "capability_failure \<Rightarrow> bool" where
  "validate_capability_failure f =
    (cf_code f \<noteq> [] \<and> length (cf_code f) \<le> 128
     \<and> is_ascii_uppercase (hd (cf_code f)) \<and> list_all is_code_byte (cf_code f)
     \<and> cf_message f \<noteq> [] \<and> length (cf_message f) \<le> 2048
     \<and> is_none_or (cf_details f) validate_safe_metadata)"

end
