(* ===== verification/Event_Execution.thy ===== *)
theory Event_Execution
  imports Capability Event_Approvals
begin

text \<open>
  Payload data of admission, step attempts and failures
  (\<^verbatim>\<open>event/admission.rs\<close>, \<^verbatim>\<open>event/execution.rs\<close>, \<^verbatim>\<open>event/failures.rs\<close>).
\<close>

section \<open>Admission, attempts and failures\<close>

datatype queue_discipline =
    QueueDiscipline_WorkConservingFifo

record run_admission_trigger =
  rat_id :: "string"
  rat_handler :: "string"

record run_admission_queue =
  raq_name :: "string"
  raq_discipline :: "queue_discipline"

record run_admitted_data =
  radm_definition_hash :: "string"
  radm_policy_hash :: "string"
  radm_trigger :: "run_admission_trigger"
  radm_payload :: "json_object"
  radm_queue :: "run_admission_queue"
  radm_admitted_at :: "instant"
  radm_occurrence_sequence :: "u64"

record run_execution_started_data =
  res_started_at :: "instant"
  res_timeout_at :: "instant option"

record run_timeout_reached_data =
  rtr_deadline_at :: "instant"
  rtr_code :: "string"

record run_cancellation_requested_data =
  rcr_request_id :: "string"

datatype run_ingress =
    RunIngress_WorkflowCall "string"

record run_started_data =
  rst_workflow_id :: "string"
  rst_definition_hash :: "string"
  rst_trigger_id :: "string option"
  rst_trigger_handler :: "string option"
  rst_trigger_occurrence_id :: "string option"
  rst_ingress :: "run_ingress option"
  rst_trigger :: "json_object"

record step_attempt_started_data =
  sast_node_id :: "string"
  sast_attempt :: "u32"
  sast_invocation_id :: "string"
  sast_handler :: "string"
  sast_idempotency_key :: "string option"

record step_attempt_succeeded_data =
  sasu_node_id :: "string"
  sasu_attempt :: "u32"
  sasu_invocation_id :: "string"
  sasu_output :: "json"

record step_retry_scheduled_data =
  srs_node_id :: "string"
  srs_failed_attempt :: "u32"
  srs_next_attempt :: "u32"
  srs_scheduled_at :: "instant"

record branch_selected_data =
  brs_branch_id :: "string"
  brs_arm_id :: "string"

record choice_selected_data =
  chs_choice_id :: "string"
  chs_arm_id :: "string"

record run_succeeded_data =
  rsu_terminal_node_id :: "string"
  rsu_result :: "json"

datatype parallel_failure_policy =
    ParallelFailurePolicy_FailFast
  | ParallelFailurePolicy_WaitAll

record parallel_failure =
  plf_kind :: "string"
  plf_code :: "string"
  plf_message :: "string"

datatype run_failed_data_v3 =
    RunFailedDataV3_Parallel "string" "parallel_failure_policy" "string" "string list" "string list" "parallel_failure"

datatype run_failed_data_v4 =
    RunFailedDataV4_Approval "string" "string" "approval_failure"

datatype run_failed_data_v5 =
    RunFailedDataV5_Notification "string" "string" "string list" "notification_run_failure"

datatype attempt_failure_kind =
    AttemptFailureKind_ScriptThrew
  | AttemptFailureKind_ScriptTimedOut
  | AttemptFailureKind_InvalidScriptResult
  | AttemptFailureKind_ContextTooLarge
  | AttemptFailureKind_ResultTooLarge
  | AttemptFailureKind_WorkerCrashed
  | AttemptFailureKind_HostCrashed
  | AttemptFailureKind_InvocationCancelled
  | AttemptFailureKind_Interrupted
  | AttemptFailureKind_ServiceFailed

record failure_size_details =
  fsd_actual_bytes :: "u64 option"
  fsd_limit_bytes :: "u64 option"

record attempt_failure =
  af_kind :: "attempt_failure_kind"
  af_code :: "string"
  af_message :: "string"
  af_details :: "failure_size_details option"
  af_capability :: "string option"
  af_operation :: "string option"
  af_call_id :: "string option"
  af_retryable :: "bool option"
  af_ambiguous :: "bool option"
  af_cause :: "capability_failure option"

record step_attempt_failed_data =
  saf_node_id :: "string"
  saf_attempt :: "u32"
  saf_invocation_id :: "string"
  saf_failure :: "attempt_failure"

record run_failed_data_v1 =
  rf1_node_id :: "string option"
  rf1_attempt :: "u32 option"
  rf1_invocation_id :: "string option"
  rf1_failure :: "attempt_failure"

datatype json_value_type =
    JsonValueType_Null
  | JsonValueType_Number
  | JsonValueType_String
  | JsonValueType_Array
  | JsonValueType_Object

datatype branch_failure =
    BranchFailure_BranchTestNotBoolean "string" "string" "json_value_type"
  | BranchFailure_ReferenceNotAvailable "string" "string"
  | BranchFailure_BranchSelectionInvalid "string" "string"

datatype run_failed_data_v2 =
    RunFailedDataV2_Attempt "string" "u32" "string" "attempt_failure"
  | RunFailedDataV2_Branch "string" "string option" "string list option" "branch_failure"

datatype run_failed_data =
    RunFailedData_V5 "run_failed_data_v5"
  | RunFailedData_V4 "run_failed_data_v4"
  | RunFailedData_V3 "run_failed_data_v3"
  | RunFailedData_V2 "run_failed_data_v2"
  | RunFailedData_V1 "run_failed_data_v1"

end
