(* ===== verification/Event_Runtime.thy ===== *)
theory Event_Runtime
  imports Capability
begin

text \<open>
  Payload data of durable waits, locks, operations and saga corrections
  (\<^verbatim>\<open>event/waits.rs\<close>, \<^verbatim>\<open>event/locks.rs\<close>, \<^verbatim>\<open>event/operations.rs\<close>,
  \<^verbatim>\<open>event/correction.rs\<close>).
\<close>

section \<open>Durable waits\<close>

datatype durable_wait_kind =
    DurableWaitKind_Duration
  | DurableWaitKind_Until
  | DurableWaitKind_Signal

record wait_registered_data =
  wr_wait_id :: "string"
  wr_node_id :: "string"
  wr_kind :: "durable_wait_kind"
  wr_registered_at :: "instant"
  wr_deadline :: "instant option"
  wr_signals :: "string list option"
  wr_correlation_digest :: "string option"

record external_signal_received_data =
  esr_signal_id :: "string"
  esr_wait_id :: "string"
  esr_signal :: "string"
  esr_received_at :: "instant"
  esr_idempotency_digest :: "string"
  esr_payload :: "json"
  esr_correlation :: "string option"
  esr_authentication_class :: "string option"

datatype durable_wait_winner =
    DurableWaitWinner_Timer
  | DurableWaitWinner_Signal

record wait_satisfied_data =
  ws_wait_id :: "string"
  ws_winner :: "durable_wait_winner"
  ws_result :: "json"
  ws_resolved_at :: "instant"

datatype durable_wait_timeout_behavior =
    DurableWaitTimeoutBehavior_Fail
  | DurableWaitTimeoutBehavior_Continue

record wait_timed_out_data =
  wto_wait_id :: "string"
  wto_deadline :: "instant"
  wto_resolved_at :: "instant"
  wto_behavior :: "durable_wait_timeout_behavior"

record wait_cancelled_data =
  wc_wait_id :: "string"
  wc_cancelled_at :: "instant"
  wc_cancellation_id :: "string"

section \<open>Locks\<close>

record lock_wait_registered_data =
  lwr_lock_id :: "string"
  lwr_key :: "string"
  lwr_waiter_sequence :: "u64"
  lwr_registered_at :: "instant"
  lwr_deadline :: "instant"
  lwr_execution_identity :: "string"

record lock_acquired_data =
  lacq_lock_id :: "string"
  lacq_key :: "string"
  lacq_lease_id :: "string"
  lacq_fencing_token :: "string"
  lacq_acquired_at :: "instant"
  lacq_expires_at :: "instant"
  lacq_execution_identity :: "string"

record lock_released_data =
  lrel_lock_id :: "string"
  lrel_key :: "string"
  lrel_lease_id :: "string"
  lrel_fencing_token :: "string"
  lrel_released_at :: "instant"
  lrel_result :: "json"

record lock_acquire_timed_out_data =
  lato_lock_id :: "string"
  lato_key :: "string"
  lato_deadline :: "instant"
  lato_resolved_at :: "instant"

record lock_acquisition_cancelled_data =
  lacan_lock_id :: "string"
  lacan_key :: "string"
  lacan_cancelled_at :: "instant"
  lacan_cancellation_id :: "string"

record lock_lease_lost_data =
  lll_lock_id :: "string"
  lll_key :: "string"
  lll_lease_id :: "string"
  lll_fencing_token :: "string"
  lll_expired_at :: "instant"
  lll_detected_at :: "instant"
  lll_ambiguous :: "bool"

section \<open>Operations\<close>

datatype operation_execution_mode =
    OperationExecutionMode_Observed
  | OperationExecutionMode_Managed

record operation_started_data =
  ost_node_id :: "string"
  ost_attempt_number :: "u32"
  ost_invocation_id :: "string"
  ost_call_id :: "string"
  ost_operation_key :: "string"
  ost_capability :: "string"
  ost_operation :: "string"
  ost_execution_mode :: "operation_execution_mode"
  ost_metadata :: "json_object"

record operation_succeeded_data =
  osu_node_id :: "string"
  osu_attempt_number :: "u32"
  osu_invocation_id :: "string"
  osu_call_id :: "string"
  osu_operation_key :: "string"
  osu_capability :: "string"
  osu_operation :: "string"
  osu_execution_mode :: "operation_execution_mode"
  osu_metadata :: "json_object"
  osu_duration_ms :: "f64"
  osu_result_bytes :: "u64"
  osu_result_digest :: "string"

record operation_failed_data =
  ofa_node_id :: "string"
  ofa_attempt_number :: "u32"
  ofa_invocation_id :: "string"
  ofa_call_id :: "string"
  ofa_operation_key :: "string"
  ofa_capability :: "string"
  ofa_operation :: "string"
  ofa_execution_mode :: "operation_execution_mode"
  ofa_metadata :: "json_object"
  ofa_duration_ms :: "f64"
  ofa_failure :: "capability_failure"

section \<open>Corrections\<close>

datatype corrective_action_kind =
    CorrectiveActionKind_Compensation
  | CorrectiveActionKind_Cleanup

datatype saga_correction_reason =
    SagaCorrectionReason_Failure
  | SagaCorrectionReason_Cancel
  | SagaCorrectionReason_Success

record saga_identity_data =
  si_saga_id :: "string"

record compensation_registered_data =
  compr_saga_id :: "string"
  compr_action_id :: "string"
  compr_for_step_id :: "string"
  compr_completion_sequence :: "u64"

record saga_correction_started_data =
  scs_saga_id :: "string"
  scs_reason :: "saga_correction_reason"

record correction_attempt_identity_data =
  cai_saga_id :: "string"
  cai_action_id :: "string"
  cai_action_kind :: "corrective_action_kind"
  cai_attempt :: "u32"

record correction_attempt_failed_data =
  caf_saga_id :: "string"
  caf_action_id :: "string"
  caf_action_kind :: "corrective_action_kind"
  caf_attempt :: "u32"
  caf_code :: "string"
  caf_retryable :: "bool"
  caf_ambiguous :: "bool"

record correction_retry_scheduled_data =
  crs_saga_id :: "string"
  crs_action_id :: "string"
  crs_action_kind :: "corrective_action_kind"
  crs_attempt :: "u32"
  crs_retry_at :: "instant"

record correction_interrupted_data =
  cint_saga_id :: "string"
  cint_action_id :: "string"
  cint_action_kind :: "corrective_action_kind"
  cint_attempt :: "u32"
  cint_ambiguous :: "bool"

record manual_recovery_required_data =
  mrr_saga_id :: "string"
  mrr_action_id :: "string"
  mrr_action_kind :: "corrective_action_kind"
  mrr_code :: "string"

end
