(* ===== verification/Event_Policy.thy ===== *)
theory Event_Policy
  imports Json
begin

text \<open>
  Payload data of infrastructure policy decisions and remote dispatch
  (\<^verbatim>\<open>infrastructure_policy_runtime.rs\<close>, \<^verbatim>\<open>event/policy.rs\<close>, \<^verbatim>\<open>event/remote.rs\<close>).
\<close>

section \<open>Policy decisions and remote dispatch\<close>

datatype infrastructure_policy_effect_v1 =
    InfrastructurePolicyEffectV1_Read
  | InfrastructurePolicyEffectV1_IdempotentWrite
  | InfrastructurePolicyEffectV1_UnsafeWrite

datatype infrastructure_policy_execution_mode_v1 =
    InfrastructurePolicyExecutionModeV1_Normal
  | InfrastructurePolicyExecutionModeV1_Compensation
  | InfrastructurePolicyExecutionModeV1_Cleanup
  | InfrastructurePolicyExecutionModeV1_Recovery

datatype infrastructure_policy_decision_outcome_v1 =
    InfrastructurePolicyDecisionOutcomeV1_Allow
  | InfrastructurePolicyDecisionOutcomeV1_Deny
  | InfrastructurePolicyDecisionOutcomeV1_RequirementsUnsatisfied

datatype infrastructure_policy_reason_code_v1 =
    InfrastructurePolicyReasonCodeV1_ExplicitDeny
  | InfrastructurePolicyReasonCodeV1_ExplicitAllow
  | InfrastructurePolicyReasonCodeV1_DefaultAllow
  | InfrastructurePolicyReasonCodeV1_DefaultDeny
  | InfrastructurePolicyReasonCodeV1_EnvironmentMismatch
  | InfrastructurePolicyReasonCodeV1_RequirementsUnsatisfied
  | InfrastructurePolicyReasonCodeV1_EvaluationBudgetExhausted
  | InfrastructurePolicyReasonCodeV1_InputUnsupported
  | InfrastructurePolicyReasonCodeV1_EmergencyDeny

record infrastructure_policy_emergency_deny_v1 =
  iped_policy_id :: "string"
  iped_policy_version :: "string"
  iped_policy_digest :: "string"
  iped_matched_rule_ids :: "string list"

datatype infrastructure_policy_requirement_status_v1 =
    InfrastructurePolicyRequirementStatusV1_Satisfied
  | InfrastructurePolicyRequirementStatusV1_Unsatisfied

record infrastructure_policy_requirement_result_v1 =
  iprr_rule_id :: "string"
  iprr_requirement :: "string"
  iprr_status :: "infrastructure_policy_requirement_status_v1"
  iprr_required :: "u32"
  iprr_received :: "u32"

record infrastructure_policy_safe_operation_summary_v1 =
  ipsos_workflow_id :: "string"
  ipsos_capability :: "string"
  ipsos_operation :: "string"
  ipsos_effect :: "infrastructure_policy_effect_v1"
  ipsos_target :: "string option"
  ipsos_executable :: "string option"
  ipsos_execution_mode :: "infrastructure_policy_execution_mode_v1"

record infrastructure_policy_decision_record_v1 =
  ipdr_contract :: "string"
  ipdr_contract_version :: "u32"
  ipdr_decision_id :: "string"
  ipdr_policy_id :: "string"
  ipdr_policy_version :: "string"
  ipdr_policy_digest :: "string"
  ipdr_descriptor_digest :: "string"
  ipdr_outcome :: "infrastructure_policy_decision_outcome_v1"
  ipdr_matched_rule_ids :: "string list"
  ipdr_operation :: "infrastructure_policy_safe_operation_summary_v1"
  ipdr_reason_codes :: "infrastructure_policy_reason_code_v1 list"
  ipdr_requirements :: "infrastructure_policy_requirement_result_v1 list"
  ipdr_explanation :: "string"
  ipdr_emergency_deny :: "infrastructure_policy_emergency_deny_v1 option"
  ipdr_evaluated_at :: "instant"
  ipdr_evaluation_duration_micros :: "128 word"
  ipdr_evaluation_instructions :: "u64"

record infrastructure_policy_decision_recorded_data =
  ipdrec_invocation_id :: "string"
  ipdrec_call_id :: "string"
  ipdrec_operation_key :: "string"
  ipdrec_decision :: "infrastructure_policy_decision_record_v1"

datatype remote_dispatch_state_v1 =
    RemoteDispatchStateV1_Requested
  | RemoteDispatchStateV1_Offered
  | RemoteDispatchStateV1_Accepted
  | RemoteDispatchStateV1_Started
  | RemoteDispatchStateV1_CancelRequested
  | RemoteDispatchStateV1_Succeeded
  | RemoteDispatchStateV1_Failed
  | RemoteDispatchStateV1_Cancelled
  | RemoteDispatchStateV1_Ambiguous
  | RemoteDispatchStateV1_Abandoned

record remote_dispatch_transitioned_data =
  rdt_dispatch_id :: "string"
  rdt_node_id :: "string"
  rdt_attempt :: "u32"
  rdt_invocation_id :: "string"
  rdt_target :: "string"
  rdt_state :: "remote_dispatch_state_v1"
  rdt_worker_id :: "string option"
  rdt_terminal_digest :: "string option"

end
