(* ===== verification/Event.thy ===== *)
theory Event
  imports Event_Approvals Event_Control_Flow Event_Lifecycle Event_Execution Event_Runtime Event_Policy
begin

text \<open>
  The run event: the envelope every durable fact of a run is recorded in and the
  closed set of payloads (\<^verbatim>\<open>event.rs\<close>).
\<close>

datatype (plugins only: code) run_event_payload =
    RunAdmitted "run_admitted_data"
  | RunExecutionStarted "run_execution_started_data"
  | RunTimeoutReached "run_timeout_reached_data"
  | RunStarted "run_started_data"
  | StepAttemptStarted "step_attempt_started_data"
  | StepAttemptSucceeded "step_attempt_succeeded_data"
  | StepAttemptFailed "step_attempt_failed_data"
  | StepRetryScheduled "step_retry_scheduled_data"
  | BranchSelected "branch_selected_data"
  | ChoiceSelected "choice_selected_data"
  | ParallelGroupStarted "parallel_group_started_data"
  | ParallelGroupCompleted "parallel_group_completed_data"
  | ApprovalRequested "approval_requested_data"
  | ApprovalReviewRequested "approval_review_requested_data"
  | ApprovalReviewerDecisionRecorded "approval_reviewer_decision_recorded_data"
  | ApprovalQuorumProgressed "approval_quorum_progressed_data"
  | ApprovalResolved "approval_resolved_data"
  | ApprovalInvalidated "approval_invalidated_data"
  | NotificationDeliveryRequested "notification_delivery_requested_data"
  | NotificationDeliveryAttemptStarted "notification_delivery_attempt_started_data"
  | NotificationDeliverySucceeded "notification_delivery_succeeded_data"
  | NotificationDeliveryFailed "notification_delivery_failed_data"
  | NotificationDecisionAccepted "notification_decision_accepted_data"
  | NotificationMessageUpdateRequested "notification_message_update_requested_data"
  | NotificationMessageUpdateAttemptStarted "notification_message_update_attempt_started_data"
  | NotificationMessageUpdated "notification_message_update_attempt_started_data"
  | NotificationMessageUpdateFailed "notification_message_update_failed_data"
  | InfrastructurePolicyDecisionRecorded "infrastructure_policy_decision_recorded_data"
  | RemoteDispatchTransitioned "remote_dispatch_transitioned_data"
  | OperationStarted "operation_started_data"
  | OperationSucceeded "operation_succeeded_data"
  | OperationFailed "operation_failed_data"
  | ForkOpened "fork_opened_data"
  | ForkBranchSettled "fork_branch_settled_data"
  | ForkJoinSettled "fork_join_settled_data"
  | RunCancellationRequested "run_cancellation_requested_data"
  | LifecycleHookRequested "lifecycle_hook_requested_data"
  | LifecycleActionAttemptStarted "lifecycle_action_identity_data"
  | LifecycleActionSucceeded "lifecycle_action_identity_data"
  | LifecycleActionFailed "lifecycle_action_failed_data"
  | LifecycleHookCompleted "lifecycle_hook_completed_data"
  | ReusableLifecycleRequested "reusable_lifecycle_requested_data"
  | ReusableLifecycleActionStarted "reusable_lifecycle_action_started_data"
  | ReusableLifecycleActionSucceeded "reusable_lifecycle_action_succeeded_data"
  | ReusableLifecycleActionFailed "reusable_lifecycle_action_failed_data"
  | ReusableLifecycleCompleted "reusable_lifecycle_completed_data"
  | ForEachOpened "for_each_opened_data"
  | ForEachIterationStarted "for_each_iteration_identity_data"
  | ForEachIterationSucceeded "for_each_iteration_succeeded_data"
  | ForEachIterationFailed "for_each_iteration_failed_data"
  | ForEachIterationSkipped "for_each_iteration_skipped_data"
  | ForEachSucceeded "for_each_settled_data"
  | ForEachFailed "for_each_settled_data"
  | ForEachCancelled "for_each_settled_data"
  | WaitRegistered "wait_registered_data"
  | ExternalSignalReceived "external_signal_received_data"
  | WaitSatisfied "wait_satisfied_data"
  | WaitTimedOut "wait_timed_out_data"
  | WaitCancelled "wait_cancelled_data"
  | LockWaitRegistered "lock_wait_registered_data"
  | LockAcquired "lock_acquired_data"
  | LockReleased "lock_released_data"
  | LockAcquireTimedOut "lock_acquire_timed_out_data"
  | LockAcquisitionCancelled "lock_acquisition_cancelled_data"
  | LockLeaseLost "lock_lease_lost_data"
  | SagaStarted "saga_identity_data"
  | CompensationRegistered "compensation_registered_data"
  | SagaForwardSucceeded "saga_identity_data"
  | SagaCorrectionStarted "saga_correction_started_data"
  | CorrectionAttemptStarted "correction_attempt_identity_data"
  | CorrectionAttemptSucceeded "correction_attempt_identity_data"
  | CorrectionAttemptFailed "correction_attempt_failed_data"
  | CorrectionRetryScheduled "correction_retry_scheduled_data"
  | CorrectionInterrupted "correction_interrupted_data"
  | SagaCorrectionCompleted "saga_identity_data"
  | ManualRecoveryRequired "manual_recovery_required_data"
  | RunOutcomeDecided "run_outcome_decided_data"
  | RunFinalized "run_finalized_data"
  | RunSucceeded "run_succeeded_data"
  | RunFailed "run_failed_data"

record run_event =
  ev_event_schema_version :: "u32"
  ev_event_id :: "string"
  ev_run_id :: "string"
  ev_sequence :: "u64"
  ev_occurred_at :: "instant"
  ev_iteration :: "for_each_iteration_scope option"
  ev_payload :: "run_event_payload"

text \<open>
  Functions of third-party crates the fold and the validation call: the hexadecimal
  SHA-256 digest of a byte string (\<^verbatim>\<open>sha2\<close>, \<^verbatim>\<open>hex\<close>), the canonical encoding of a
  JSON value (\<^verbatim>\<open>serde_json_canonicalizer\<close>), the plain encodings of a JSON value and
  of a policy decision (\<^verbatim>\<open>serde_json::to_vec\<close>) and the RFC 3339 text of an instant
  with milliseconds (\<^verbatim>\<open>chrono\<close>).  They are an argument of the definitions that use
  them; \<open>None\<close> stands for an encoding error.
\<close>

record externals =
  sha256_hex :: "string \<Rightarrow> string"
  canonical_json :: "json \<Rightarrow> string option"
  json_to_vec :: "json \<Rightarrow> string option"
  policy_decision_to_vec :: "infrastructure_policy_decision_record_v1 \<Rightarrow> string option"
  rfc3339_millis :: "instant \<Rightarrow> string"

end
