(* ===== verification/Errors.thy ===== *)
theory Errors
  imports Woml_Prelude
begin

text \<open>
  An error carries the place that raised it: the source file and the line of the
  construction of the error, instead of its message.  \<open>Panic\<close> is an aborting
  panic of the program (an index out of range or a failed \<^verbatim>\<open>expect\<close>).
\<close>

datatype source_site =
    Validation_rs nat
  | Identities_rs nat
  | Failures_rs nat
  | Approvals_rs nat
  | Notifications_rs nat
  | Fold_rs nat
  | Guards_rs nat
  | Fold_run_rs nat
  | Fold_attempts_rs nat
  | Fold_control_flow_rs nat
  | Fold_approvals_rs nat
  | Fold_locks_rs nat
  | Fold_correction_rs nat
  | Fold_waits_rs nat
  | Fold_lifecycle_rs nat
  | Fold_operations_rs nat
  | Fold_notifications_rs nat
  | Iteration_fold_rs nat

datatype event_validation_error =
    UnsupportedSchemaVersion u32
  | Invalid source_site

datatype fold_error =
    InvalidEvent event_validation_error
  | InvalidHistory source_site
  | Panic source_site

end
