(* ===== verification/Event_Identities.thy ===== *)
theory Event_Identities
  imports Event Errors
begin

text \<open>
  Checks of identifiers, digests, names and tokens (\<^verbatim>\<open>event/identities.rs\<close>) and the
  checks of failure values (\<^verbatim>\<open>event/failures.rs\<close>, \<^verbatim>\<open>event/approvals.rs\<close>,
  \<^verbatim>\<open>event/notifications.rs\<close>).  A check that returns \<^verbatim>\<open>Result<(), _>\<close> returns the place of
  the error it raises.
\<close>

type_synonym check = "(event_validation_error, unit) result"

section \<open>Identifiers\<close>

definition valid_id :: "string \<Rightarrow> bool" where
  "valid_id s = (s \<noteq> [] \<and> chars_count s \<le> 256)"

definition valid_public_structural_id :: "string \<Rightarrow> bool" where
  "valid_public_structural_id s =
    ((case s of [] \<Rightarrow> False
      | c # cs \<Rightarrow> is_ascii_lowercase c \<and> list_all is_ascii_alphanumeric cs)
     \<and> chars_count s \<le> 256)"

definition valid_remote_public_id :: "string \<Rightarrow> bool" where
  "valid_remote_public_id s =
    (s \<noteq> [] \<and> length s \<le> 128
     \<and> is_ascii_lowercase (hd s)
     \<and> list_all (\<lambda>c. is_ascii_lowercase c \<or> is_ascii_digit c \<or> c = CHR ''-'') s
     \<and> last s \<noteq> CHR ''-''
     \<and> \<not> list_ex (\<lambda>pair. pair = (CHR ''-'', CHR ''-'')) (pairs s))"

definition valid_prefixed_id :: "string \<Rightarrow> string \<Rightarrow> nat \<Rightarrow> bool" where
  "valid_prefixed_id s prefix minimum =
    (minimum \<le> length s \<and> length s \<le> 256
     \<and> is_some_and (strip_prefix prefix s) (\<lambda>suffix. suffix \<noteq> []
         \<and> list_all (\<lambda>c. is_ascii_alphanumeric c \<or> c = CHR ''_'' \<or> c = CHR ''-'') suffix))"

definition canonical_decimal :: "string \<Rightarrow> bool" where
  "canonical_decimal part =
    (part \<noteq> [] \<and> list_all is_ascii_digit part
     \<and> (part = ''0'' \<or> \<not> starts_with ''0'' part))"

definition is_notification_delivery_id :: "string \<Rightarrow> string \<Rightarrow> bool" where
  "is_notification_delivery_id s approval_id =
    (case strip_prefix (approval_id @ '':notify:'') s of
       None \<Rightarrow> False
     | Some suffix \<Rightarrow>
         (case (case split_once '':channel:'' suffix of
                  Some r \<Rightarrow> Some r
                | None \<Rightarrow> split_once '':chat:'' suffix) of
            None \<Rightarrow> False
          | Some (tag, destination) \<Rightarrow> canonical_decimal tag \<and> canonical_decimal destination))"

definition valid_sha256 :: "string \<Rightarrow> bool" where
  "valid_sha256 s =
    is_some_and (strip_prefix ''sha256:'' s) (\<lambda>d. length d = 64 \<and> list_all is_lower_hex d)"

definition is_definition_hash :: "string \<Rightarrow> bool" where
  "is_definition_hash s = (case strip_prefix ''sha256:'' s of
     None \<Rightarrow> False
   | Some hex \<Rightarrow> length hex = 64 \<and> list_all is_lower_hex hex)"

definition is_approval_request_id :: "string \<Rightarrow> bool" where
  "is_approval_request_id s = (case strip_prefix ''aprreq_'' s of
     None \<Rightarrow> False
   | Some suffix \<Rightarrow> 10 \<le> length s \<and> length s \<le> 256 \<and> suffix \<noteq> []
       \<and> list_all (\<lambda>c. is_ascii_alphanumeric c \<or> c = CHR ''_'' \<or> c = CHR ''-'') suffix)"

definition valid_rich_approval_identity :: "string \<Rightarrow> string \<Rightarrow> string \<Rightarrow> bool" where
  "valid_rich_approval_identity approval_id request_id digest =
    (valid_public_structural_id approval_id \<and> is_approval_request_id request_id \<and> valid_sha256 digest)"

definition RICH_APPROVAL_MAX_ROLES :: nat where
  "RICH_APPROVAL_MAX_ROLES = 16"

definition role_bytes :: "string \<Rightarrow> bool" where
  "role_bytes seg = (seg \<noteq> [] \<and> list_all (\<lambda>c. is_ascii_lowercase c \<or> is_ascii_digit c) seg)"

definition valid_role :: "string \<Rightarrow> bool" where
  "valid_role role =
    (role \<noteq> [] \<and> length role \<le> 64
     \<and> (case split_on ''-_.'' role of
          [] \<Rightarrow> False
        | first # segments \<Rightarrow>
            role_bytes first \<and> is_ascii_lowercase (hd first) \<and> list_all role_bytes segments))"

definition valid_rich_approval_roles :: "string list \<Rightarrow> bool" where
  "valid_rich_approval_roles roles =
    (length roles \<le> RICH_APPROVAL_MAX_ROLES
     \<and> list_all (\<lambda>(a, b). a < b) (pairs roles)
     \<and> list_all valid_role roles)"

definition valid_lifecycle_failure :: "lifecycle_failure \<Rightarrow> bool" where
  "valid_lifecycle_failure f =
    (lf_message f \<noteq> [] \<and> length (lf_message f) \<le> 1024 \<and> length (lf_code f) \<le> 128
     \<and> starts_with ''WOML_'' (lf_code f) \<and> list_all is_code_byte (lf_code f))"

definition valid_lifecycle_action_identity :: "string \<Rightarrow> string \<Rightarrow> u32 \<Rightarrow> bool" where
  "valid_lifecycle_action_identity hook_invocation_id action_id attempt =
    (valid_sha256 hook_invocation_id \<and> valid_id action_id \<and> attempt = 1)"

definition valid_capability_name :: "string \<Rightarrow> bool" where
  "valid_capability_name s =
    (length s \<le> 128
     \<and> list_all (\<lambda>segment. case segment of [] \<Rightarrow> False
         | c # cs \<Rightarrow> is_ascii_lowercase c \<and> list_all (\<lambda>x. is_ascii_lowercase x \<or> is_ascii_digit x) cs)
       (split_on ''._-'' s))"

definition valid_signal_name :: "string \<Rightarrow> bool" where
  "valid_signal_name s =
    (s \<noteq> [] \<and> length s \<le> 128
     \<and> list_all (\<lambda>segment. case segment of [] \<Rightarrow> False
         | c # cs \<Rightarrow> is_ascii_lowercase c
             \<and> list_all (\<lambda>x. is_ascii_lowercase x \<or> is_ascii_digit x \<or> x = CHR ''-'') cs)
       (split_on ''.'' s))"

definition valid_lock_key :: "string \<Rightarrow> bool" where
  "valid_lock_key s =
    (s \<noteq> [] \<and> length s \<le> 256 \<and> is_trimmed s \<and> \<not> has_control s
     \<and> \<not> list_ex (\<lambda>segment. segment = []) (split_on ''/'' s))"

definition valid_fencing_token :: "string \<Rightarrow> bool" where
  "valid_fencing_token s =
    (s \<noteq> [] \<and> length s \<le> 20 \<and> list_all is_ascii_digit s
     \<and> (s = ''0'' \<or> \<not> starts_with ''0'' s)
     \<and> is_some_and (parse_u64 s) (\<lambda>token. 0 < token))"

definition valid_trigger_handler :: "string \<Rightarrow> bool" where
  "valid_trigger_handler s =
    (s \<in> {''trigger.manual'', ''trigger.webhook'', ''trigger.slack'', ''trigger.telegram'',
          ''trigger.discord'', ''trigger.whatsapp'', ''trigger.schedule'', ''trigger.interval'',
          ''trigger.event''})"

fun valid_provider_message :: "provider_message_identity \<Rightarrow> bool" where
  "valid_provider_message (ProviderMessageIdentity_Slack m) =
    (valid_prefixed_id (slack_workspace_id m) ''T'' 9
     \<and> (case slack_channel_id m of [] \<Rightarrow> False | c # _ \<Rightarrow> c \<in> set ''CGD'')
     \<and> 9 \<le> length (slack_channel_id m) \<and> length (slack_channel_id m) \<le> 32
     \<and> list_all (\<lambda>c. is_ascii_uppercase c \<or> is_ascii_digit c) (tl (slack_channel_id m))
     \<and> is_some_and (split_once ''.'' (slack_message_id m)) (\<lambda>(seconds, micros).
         10 \<le> length seconds \<and> list_all is_ascii_digit seconds
         \<and> length micros = 6 \<and> list_all is_ascii_digit micros))"
| "valid_provider_message (ProviderMessageIdentity_Communication m) =
    (comm_provider m \<in> {''telegram'', ''discord'', ''whatsapp''}
     \<and> valid_id (comm_account_id m) \<and> valid_id (comm_conversation_id m)
     \<and> valid_id (comm_message_id m) \<and> is_none_or (comm_thread_id m) valid_id)"

definition valid_branch_arm_id :: "string \<Rightarrow> string \<Rightarrow> bool" where
  "valid_branch_arm_id branch_id arm_id = (case strip_prefix (branch_id @ '':'') arm_id of
     None \<Rightarrow> False
   | Some suffix \<Rightarrow>
       suffix = ''otherwise''
       \<or> (case strip_prefix ''when:'' suffix of
            None \<Rightarrow> False
          | Some index \<Rightarrow> canonical_decimal index \<and> chars_count arm_id \<le> 256))"

definition valid_ordered_id_lists :: "string list \<Rightarrow> string list \<Rightarrow> bool" where
  "valid_ordered_id_lists first second =
    (list_all valid_public_structural_id (first @ second) \<and> distinct (first @ second))"

text \<open>\<^verbatim>\<open>ApprovalResolvedData::is_rich\<close> and \<^verbatim>\<open>ApprovalResolvedData::basic\<close>.\<close>

definition is_rich :: "approval_resolved_data \<Rightarrow> bool" where
  "is_rich data = is_some (ares_review_digest data)"

definition basic_resolution :: "string \<Rightarrow> string \<Rightarrow> approval_resolution \<Rightarrow> approval_resolved_data" where
  "basic_resolution approval_id request_id resolution =
    \<lparr>ares_approval_id = approval_id,
     ares_request_id = request_id,
     ares_resolution = Some resolution,
     ares_review_digest = None,
     ares_decision = None,
     ares_reason = None,
     ares_required = None,
     ares_received = None,
     ares_required_roles = None,
     ares_represented_roles = None\<rparr>"

section \<open>Checks with an error\<close>

definition validate_identity :: "string \<Rightarrow> u32 \<Rightarrow> string \<Rightarrow> check" where
  "validate_identity node_id attempt invocation_id =
    require (valid_id node_id \<and> valid_id invocation_id \<and> attempt \<noteq> 0) (Invalid (Identities_rs 293))"

definition validate_operation_base ::
  "u32 \<Rightarrow> string \<Rightarrow> u32 \<Rightarrow> string \<Rightarrow> string \<Rightarrow> string \<Rightarrow> string \<Rightarrow> string \<Rightarrow> json_object \<Rightarrow> check" where
  "validate_operation_base version node_id attempt_number invocation_id call_id operation_key
      capability operation metadata =
    (if \<not> (8 \<le> version \<and> version \<le> 11) then Inl (Invalid (Identities_rs 183))
     else
       and_then (validate_identity node_id attempt_number invocation_id) (\<lambda>_.
       if 10 < attempt_number
         \<or> \<not> valid_id call_id
         \<or> \<not> valid_sha256 operation_key
         \<or> \<not> valid_capability_name capability
         \<or> \<not> valid_capability_name operation
       then Inl (Invalid (Identities_rs 194))
       else require (validate_safe_metadata metadata) (Invalid (Identities_rs 198))))"

definition validate_for_each_iteration_event :: "run_event \<Rightarrow> string \<Rightarrow> check" where
  "validate_for_each_iteration_event event for_each_id =
    and_then (ok_or (ev_iteration event) (Invalid (Identities_rs 305))) (\<lambda>scope.
      require (15 \<le> ev_event_schema_version event \<and> ev_event_schema_version event \<le> 16
          \<and> valid_public_structural_id for_each_id
          \<and> scope_for_each_id scope = for_each_id
          \<and> scope_index scope < 10000)
        (Invalid (Identities_rs 316)))"

definition validate_notification_identity :: "string \<Rightarrow> string \<Rightarrow> string \<Rightarrow> check" where
  "validate_notification_identity approval_id request_id delivery_id =
    require (valid_public_structural_id approval_id
        \<and> is_approval_request_id request_id
        \<and> is_notification_delivery_id delivery_id approval_id)
      (Invalid (Identities_rs 332))"

section \<open>Failures\<close>

fun attempt_failure_code :: "attempt_failure_kind \<Rightarrow> string" where
  "attempt_failure_code AttemptFailureKind_ScriptThrew = ''WOML_SCRIPT_THROWN''"
| "attempt_failure_code AttemptFailureKind_ScriptTimedOut = ''WOML_SCRIPT_TIMEOUT''"
| "attempt_failure_code AttemptFailureKind_InvalidScriptResult = ''WOML_SCRIPT_NON_JSON_RESULT''"
| "attempt_failure_code AttemptFailureKind_ContextTooLarge = ''WOML_SCRIPT_CONTEXT_TOO_LARGE''"
| "attempt_failure_code AttemptFailureKind_ResultTooLarge = ''WOML_SCRIPT_RESULT_TOO_LARGE''"
| "attempt_failure_code AttemptFailureKind_WorkerCrashed = ''WOML_SCRIPT_WORKER_CRASHED''"
| "attempt_failure_code AttemptFailureKind_HostCrashed = ''WOML_SCRIPT_HOST_CRASHED''"
| "attempt_failure_code AttemptFailureKind_InvocationCancelled = ''WOML_SCRIPT_CANCELLED''"
| "attempt_failure_code AttemptFailureKind_Interrupted = ''WOML_STEP_INTERRUPTED''"
| "attempt_failure_code AttemptFailureKind_ServiceFailed = ''WOML_SERVICE_FAILED''"

definition accepts_size_details :: "attempt_failure_kind \<Rightarrow> bool" where
  "accepts_size_details kind =
    (kind \<in> {AttemptFailureKind_ContextTooLarge, AttemptFailureKind_ResultTooLarge})"

definition service_fields_valid :: "attempt_failure \<Rightarrow> bool" where
  "service_fields_valid f =
    (case (af_capability f, af_operation f, af_call_id f, af_retryable f, af_ambiguous f, af_cause f) of
       (Some capability, Some operation, Some call_id, Some retryable, Some ambiguous, Some cause) \<Rightarrow>
         valid_capability_name capability \<and> valid_capability_name operation \<and> valid_id call_id
         \<and> retryable = cf_retryable cause \<and> ambiguous = cf_ambiguous cause
         \<and> af_code f = cf_code cause \<and> validate_capability_failure cause
     | _ \<Rightarrow> False)"

definition has_service_fields :: "attempt_failure \<Rightarrow> bool" where
  "has_service_fields f =
    (is_some (af_capability f) \<or> is_some (af_operation f) \<or> is_some (af_call_id f)
     \<or> is_some (af_retryable f) \<or> is_some (af_ambiguous f) \<or> is_some (af_cause f))"

definition validate_attempt_failure :: "attempt_failure \<Rightarrow> check" where
  "validate_attempt_failure f =
    and_then
      (if af_kind f = AttemptFailureKind_ServiceFailed
       then require (service_fields_valid f \<and> af_details f = None) (Invalid (Failures_rs 294))
       else require (af_code f = attempt_failure_code (af_kind f)) (Invalid (Failures_rs 299)))
    (\<lambda>_.
      if af_message f = [] then Inl (Invalid (Failures_rs 307))
      else if af_kind f \<noteq> AttemptFailureKind_ServiceFailed \<and> has_service_fields f
      then Inl (Invalid (Failures_rs 323))
      else (case af_details f of
              None \<Rightarrow> Inr ()
            | Some details \<Rightarrow>
                if \<not> accepts_size_details (af_kind f) then Inl (Invalid (Failures_rs 328))
                else if fsd_actual_bytes details = None \<and> fsd_limit_bytes details = None
                then Inl (Invalid (Failures_rs 332))
                else Inr ()))"

definition legacy_defaults :: attempt_failure where
  "legacy_defaults =
    \<lparr>af_kind = AttemptFailureKind_Interrupted,
     af_code = attempt_failure_code AttemptFailureKind_Interrupted,
     af_message = ''legacy failure defaults'',
     af_details = None,
     af_capability = None,
     af_operation = None,
     af_call_id = None,
     af_retryable = None,
     af_ambiguous = None,
     af_cause = None\<rparr>"

definition validate_parallel_failure :: "parallel_failure \<Rightarrow> check" where
  "validate_parallel_failure f =
    (if plf_kind f \<noteq> ''parallel_child_failed'' \<or> plf_code f \<noteq> ''WOML_PARALLEL_CHILD_FAILED''
     then Inl (Invalid (Failures_rs 63))
     else require (plf_message f \<noteq> []) (Invalid (Failures_rs 69)))"

fun branch_failure_code :: "branch_failure \<Rightarrow> string" where
  "branch_failure_code (BranchFailure_BranchTestNotBoolean _ _ _) = ''WOML_BRANCH_TEST_NOT_BOOLEAN''"
| "branch_failure_code (BranchFailure_ReferenceNotAvailable _ _) = ''WOML_REFERENCE_NOT_AVAILABLE''"
| "branch_failure_code (BranchFailure_BranchSelectionInvalid _ _) = ''WOML_BRANCH_SELECTION_INVALID''"

definition validate_branch_failure :: "branch_failure \<Rightarrow> check" where
  "validate_branch_failure f =
    (let (code, message) = (case f of
           BranchFailure_BranchTestNotBoolean code message _ \<Rightarrow> (code, message)
         | BranchFailure_ReferenceNotAvailable code message \<Rightarrow> (code, message)
         | BranchFailure_BranchSelectionInvalid code message \<Rightarrow> (code, message))
     in if code \<noteq> branch_failure_code f then Inl (Invalid (Failures_rs 242))
        else require (message \<noteq> []) (Invalid (Failures_rs 249)))"

definition validate_approval_failure :: "approval_failure \<Rightarrow> check" where
  "validate_approval_failure f =
    (if apf_kind f \<noteq> ''approval_timeout'' \<or> apf_code f \<noteq> ''WOML_APPROVAL_TIMEOUT''
     then Inl (Invalid (Approvals_rs 157))
     else require (apf_message f \<noteq> []) (Invalid (Approvals_rs 163)))"

definition validate_approval_resolution :: "approval_resolution \<Rightarrow> check" where
  "validate_approval_resolution r =
    require (r \<noteq> ApprovalResolution_Decision ApprovalDecision_Approved ApprovalDecisionSource_Timeout)
      (Invalid (Approvals_rs 180))"

definition notification_failure_kinds :: "string list" where
  "notification_failure_kinds =
    [''secret_not_found'', ''provider_auth_failed'', ''destination_invalid'', ''rate_limited'',
     ''provider_unavailable'', ''delivery_ambiguous'', ''host_crashed'', ''size_limit_exceeded'',
     ''request_invalid'', ''update_failed'']"

definition validate_notification_safe_failure :: "notification_safe_failure \<Rightarrow> check" where
  "validate_notification_safe_failure f =
    require (nsf_kind f \<in> set notification_failure_kinds
        \<and> starts_with ''WOML_'' (nsf_code f)
        \<and> list_all is_code_byte (nsf_code f)
        \<and> nsf_message f \<noteq> []
        \<and> length (nsf_message f) \<le> 1024
        \<and> \<not> is_some_and (nsf_retry_after_ms f) (\<lambda>v. 86400000 < v))
      (Invalid (Notifications_rs 177))"

section \<open>Lemmas\<close>

lemma valid_sha256_iff:
  "valid_sha256 s \<longleftrightarrow> (\<exists>d. s = ''sha256:'' @ d \<and> length d = 64 \<and> list_all is_lower_hex d)"
  by (auto simp: valid_sha256_def is_some_and_iff)

lemma legacy_defaults_valid: "validate_attempt_failure legacy_defaults = Inr ()"
  by (simp add: validate_attempt_failure_def legacy_defaults_def has_service_fields_def)

lemma byte_zero_iff: "byte c = 48 \<longleftrightarrow> c = CHR ''0''"
  using byte_inject[of c "CHR ''0''"] by (simp add: byte_def)

lemma starts_with_Cons: "starts_with (p # ps) s \<longleftrightarrow> (\<exists>t. s = p # t \<and> starts_with ps t)"
  by (cases s) (auto simp: starts_with_def)

lemma starts_with_Nil [simp]: "starts_with [] s"
  by (simp add: starts_with_def)

lemma char_of_zero_digit: "char_of (48::nat) = CHR ''0''"
  using byte_inject[of "char_of (48::nat)" "CHR ''0''"] by (simp add: byte_def)

lemma canonical_decimal_iff:
  "canonical_decimal s \<longleftrightarrow> (\<exists>n. s = nat_to_string n)"
proof
  assume s: "canonical_decimal s"
  then have "byte (hd s) \<noteq> 48 \<or> length s = 1"
    by (cases s) (auto simp: canonical_decimal_def starts_with_Cons byte_zero_iff)
  then have "nat_to_string (digits_value s) = s"
    using s nat_to_string_digits_value by (auto simp: canonical_decimal_def)
  then show "\<exists>n. s = nat_to_string n" by metis
next
  assume "\<exists>n. s = nat_to_string n"
  then obtain n where n: "s = nat_to_string n" by blast
  show "canonical_decimal s"
  proof (cases "n = 0")
    case True
    then show ?thesis
      by (simp add: n canonical_decimal_def nat_to_string.simps is_ascii_digit_def byte_def
          char_of_zero_digit)
  next
    case False
    then have "byte (hd s) \<noteq> 48"
      using n nat_to_string_hd by simp
    then have "\<not> starts_with ''0'' s"
      by (cases s) (auto simp: starts_with_Cons byte_zero_iff)
    then show ?thesis
      by (simp add: n canonical_decimal_def nat_to_string_digits)
  qed
qed

end
