(* ===== verification/Validation_Execution.thy ===== *)
theory Validation_Execution
  imports Event_Identities
begin

text \<open>
  Validation of single run events (\<^verbatim>\<open>event/validation.rs\<close>), first part: the classes of
  payloads, and the contracts of admission, attempts and control flow.  The constant
  \<^verbatim>\<open>RUN_EVENT_SCHEMA_VERSION_Vn\<close> is the numeral n; a \<^verbatim>\<open>matches!\<close> over a contiguous range
  of them is a pair of bounds.
\<close>

section \<open>Schema versions\<close>

definition run_event_schema_version_for_model :: "u32 \<Rightarrow> u32" where
  "run_event_schema_version_for_model m =
    (if 21 \<le> m then 20 else if 20 \<le> m then 19 else if 19 \<le> m then 18 else if 18 \<le> m then 17
     else if 17 \<le> m then 16 else if 16 \<le> m then 15 else if 15 \<le> m then 14 else if 14 \<le> m then 13
     else if 13 \<le> m then 12 else if 12 \<le> m then 11 else if 11 \<le> m then 10 else if 10 \<le> m then 9
     else if 8 \<le> m then 8 else if 7 \<le> m then 7 else if 6 \<le> m then 6 else if 5 \<le> m then 5
     else if 4 \<le> m then 4 else if 3 \<le> m then 3 else if 2 \<le> m then 2 else 1)"

abbreviation version :: "run_event \<Rightarrow> u32" where
  "version \<equiv> ev_event_schema_version"

definition version_in :: "u32 \<Rightarrow> u32 \<Rightarrow> run_event \<Rightarrow> bool" where
  "version_in lo hi e = (lo \<le> version e \<and> version e \<le> hi)"

definition to_vec_exceeds :: "string option \<Rightarrow> nat \<Rightarrow> bool" where
  "to_vec_exceeds encoded limit = is_none_or encoded (\<lambda>bytes. limit < length bytes)"

section \<open>Payload classes\<close>

definition is_loop_event :: "run_event_payload \<Rightarrow> bool" where
  "is_loop_event p = (case p of
     ForEachOpened _ \<Rightarrow> True | ForEachIterationStarted _ \<Rightarrow> True
   | ForEachIterationSucceeded _ \<Rightarrow> True | ForEachIterationFailed _ \<Rightarrow> True
   | ForEachIterationSkipped _ \<Rightarrow> True | ForEachSucceeded _ \<Rightarrow> True
   | ForEachFailed _ \<Rightarrow> True | ForEachCancelled _ \<Rightarrow> True
   | _ \<Rightarrow> False)"

definition is_wait_event :: "run_event_payload \<Rightarrow> bool" where
  "is_wait_event p = (case p of
     WaitRegistered _ \<Rightarrow> True | ExternalSignalReceived _ \<Rightarrow> True | WaitSatisfied _ \<Rightarrow> True
   | WaitTimedOut _ \<Rightarrow> True | WaitCancelled _ \<Rightarrow> True
   | _ \<Rightarrow> False)"

definition is_lock_event :: "run_event_payload \<Rightarrow> bool" where
  "is_lock_event p = (case p of
     LockWaitRegistered _ \<Rightarrow> True | LockAcquired _ \<Rightarrow> True | LockReleased _ \<Rightarrow> True
   | LockAcquireTimedOut _ \<Rightarrow> True | LockAcquisitionCancelled _ \<Rightarrow> True | LockLeaseLost _ \<Rightarrow> True
   | _ \<Rightarrow> False)"

definition is_correction_event :: "run_event_payload \<Rightarrow> bool" where
  "is_correction_event p = (case p of
     SagaStarted _ \<Rightarrow> True | CompensationRegistered _ \<Rightarrow> True | SagaForwardSucceeded _ \<Rightarrow> True
   | SagaCorrectionStarted _ \<Rightarrow> True | CorrectionAttemptStarted _ \<Rightarrow> True
   | CorrectionAttemptSucceeded _ \<Rightarrow> True | CorrectionAttemptFailed _ \<Rightarrow> True
   | CorrectionRetryScheduled _ \<Rightarrow> True | CorrectionInterrupted _ \<Rightarrow> True
   | SagaCorrectionCompleted _ \<Rightarrow> True | ManualRecoveryRequired _ \<Rightarrow> True
   | _ \<Rightarrow> False)"

definition is_compensation_registered :: "run_event_payload \<Rightarrow> bool" where
  "is_compensation_registered p = (case p of CompensationRegistered _ \<Rightarrow> True | _ \<Rightarrow> False)"

definition is_rich_approval_event :: "run_event_payload \<Rightarrow> bool" where
  "is_rich_approval_event p = (case p of
     ApprovalReviewRequested _ \<Rightarrow> True | ApprovalReviewerDecisionRecorded _ \<Rightarrow> True
   | ApprovalQuorumProgressed _ \<Rightarrow> True | ApprovalInvalidated _ \<Rightarrow> True
   | ApprovalResolved data \<Rightarrow> is_rich data
   | _ \<Rightarrow> False)"

definition is_remote_dispatch_event :: "run_event_payload \<Rightarrow> bool" where
  "is_remote_dispatch_event p = (case p of RemoteDispatchTransitioned _ \<Rightarrow> True | _ \<Rightarrow> False)"

definition is_reusable_event :: "run_event_payload \<Rightarrow> bool" where
  "is_reusable_event p = (case p of
     ReusableLifecycleRequested _ \<Rightarrow> True | ReusableLifecycleActionStarted _ \<Rightarrow> True
   | ReusableLifecycleActionSucceeded _ \<Rightarrow> True | ReusableLifecycleActionFailed _ \<Rightarrow> True
   | ReusableLifecycleCompleted _ \<Rightarrow> True
   | _ \<Rightarrow> False)"

definition is_fork_event :: "run_event_payload \<Rightarrow> bool" where
  "is_fork_event p = (case p of
     ChoiceSelected _ \<Rightarrow> True | ForkOpened _ \<Rightarrow> True | ForkBranchSettled _ \<Rightarrow> True
   | ForkJoinSettled _ \<Rightarrow> True
   | _ \<Rightarrow> False)"

definition is_scoped_work :: "run_event_payload \<Rightarrow> bool" where
  "is_scoped_work p = (case p of
     StepAttemptStarted _ \<Rightarrow> True | StepAttemptSucceeded _ \<Rightarrow> True | StepAttemptFailed _ \<Rightarrow> True
   | StepRetryScheduled _ \<Rightarrow> True | BranchSelected _ \<Rightarrow> True | ChoiceSelected _ \<Rightarrow> True
   | ParallelGroupStarted _ \<Rightarrow> True | ParallelGroupCompleted _ \<Rightarrow> True
   | OperationStarted _ \<Rightarrow> True | OperationSucceeded _ \<Rightarrow> True | OperationFailed _ \<Rightarrow> True
   | LifecycleHookRequested _ \<Rightarrow> True | LifecycleActionAttemptStarted _ \<Rightarrow> True
   | LifecycleActionSucceeded _ \<Rightarrow> True | LifecycleActionFailed _ \<Rightarrow> True
   | LifecycleHookCompleted _ \<Rightarrow> True | ReusableLifecycleRequested _ \<Rightarrow> True
   | ReusableLifecycleActionStarted _ \<Rightarrow> True | ReusableLifecycleActionSucceeded _ \<Rightarrow> True
   | ReusableLifecycleActionFailed _ \<Rightarrow> True | ReusableLifecycleCompleted _ \<Rightarrow> True
   | _ \<Rightarrow> False)"

section \<open>Admission, start and attempts\<close>

definition validate_remote_dispatch_transitioned ::
  "run_event \<Rightarrow> remote_dispatch_transitioned_data \<Rightarrow> check" where
  "validate_remote_dispatch_transitioned e d =
    and_then (validate_identity (rdt_node_id d) (rdt_attempt d) (rdt_invocation_id d)) (\<lambda>_.
    let meaningful = (rdt_state d \<noteq> RemoteDispatchStateV1_Offered);
        bound = (rdt_state d \<noteq> RemoteDispatchStateV1_Requested);
        terminal = (rdt_state d \<in> {RemoteDispatchStateV1_Succeeded, RemoteDispatchStateV1_Failed,
          RemoteDispatchStateV1_Cancelled})
    in require
      (version e = 20
       \<and> starts_with ''dispatch_'' (rdt_dispatch_id d)
       \<and> meaningful
       \<and> length (rdt_dispatch_id d) = 73
       \<and> list_all is_lower_hex (drop 9 (rdt_dispatch_id d))
       \<and> valid_remote_public_id (rdt_target d)
       \<and> rdt_attempt d \<le> 10
       \<and> bound = is_some (rdt_worker_id d)
       \<and> is_none_or (rdt_worker_id d) valid_remote_public_id
       \<and> terminal = is_some (rdt_terminal_digest d)
       \<and> is_none_or (rdt_terminal_digest d) valid_sha256)
      (Invalid (Validation_rs 304)))"

definition validate_run_admitted :: "run_event \<Rightarrow> run_admitted_data \<Rightarrow> check" where
  "validate_run_admitted e d = require
    (version e = 11
     \<and> is_definition_hash (radm_definition_hash d)
     \<and> is_definition_hash (radm_policy_hash d)
     \<and> valid_id (rat_id (radm_trigger d))
     \<and> valid_trigger_handler (rat_handler (radm_trigger d))
     \<and> raq_name (radm_queue d) \<noteq> []
     \<and> length (raq_name (radm_queue d)) \<le> 128
     \<and> radm_admitted_at d = ev_occurred_at e)
    (Invalid (Validation_rs 319))"

definition validate_run_execution_started :: "run_event \<Rightarrow> run_execution_started_data \<Rightarrow> check" where
  "validate_run_execution_started e d = require
    (version e = 11
     \<and> res_started_at d = ev_occurred_at e
     \<and> is_none_or (res_timeout_at d) (\<lambda>deadline. res_started_at d < deadline))
    (Invalid (Validation_rs 331))"

definition validate_run_timeout_reached :: "run_event \<Rightarrow> run_timeout_reached_data \<Rightarrow> check" where
  "validate_run_timeout_reached e d = require
    (version e = 11
     \<and> rtr_deadline_at d = ev_occurred_at e
     \<and> rtr_code d = ''WOML_WORKFLOW_TIMED_OUT'')
    (Invalid (Validation_rs 341))"

definition no_trigger_identity :: "run_started_data \<Rightarrow> bool" where
  "no_trigger_identity d =
    (rst_trigger_id d = None \<and> rst_trigger_handler d = None \<and> rst_trigger_occurrence_id d = None)"

definition source_trigger_identity :: "run_started_data \<Rightarrow> bool" where
  "source_trigger_identity d =
    (case (rst_trigger_id d, rst_trigger_handler d, rst_trigger_occurrence_id d) of
       (Some trigger_id, Some handler, Some occurrence_id) \<Rightarrow>
         valid_id trigger_id \<and> valid_trigger_handler handler \<and> valid_id occurrence_id
     | _ \<Rightarrow> False)"

definition workflow_call_identity :: "run_started_data \<Rightarrow> bool" where
  "workflow_call_identity d =
    (no_trigger_identity d
     \<and> (case rst_ingress d of
          Some (RunIngress_WorkflowCall call_key) \<Rightarrow> is_definition_hash call_key
        | None \<Rightarrow> False))"

definition validate_run_started :: "run_event \<Rightarrow> run_started_data \<Rightarrow> check" where
  "validate_run_started e d =
    (if version e = 11 then Inl (Invalid (Validation_rs 348))
     else if \<not> valid_id (rst_workflow_id d) \<or> \<not> is_definition_hash (rst_definition_hash d)
     then Inl (Invalid (Validation_rs 353))
     else if version e = 9 then require (workflow_call_identity d) (Invalid (Validation_rs 369))
     else if version e = 10 then
       require (workflow_call_identity d \<or> source_trigger_identity d \<and> rst_ingress d = None)
         (Invalid (Validation_rs 388))
     else if 7 \<le> version e then
       (if \<not> source_trigger_identity d then Inl (Invalid (Validation_rs 401))
        else require (rst_ingress d = None) (Invalid (Validation_rs 407)))
     else require (no_trigger_identity d \<and> rst_ingress d = None) (Invalid (Validation_rs 412)))"

definition validate_step_attempt_started :: "run_event \<Rightarrow> step_attempt_started_data \<Rightarrow> check" where
  "validate_step_attempt_started e d =
    and_then (validate_identity (sast_node_id d) (sast_attempt d) (sast_invocation_id d)) (\<lambda>_.
    let valid_v6_contract =
          (if 6 \<le> version e
           then sast_attempt d \<le> 10 \<and> is_some_and (sast_idempotency_key d) valid_sha256
           else sast_idempotency_key d = None)
    in require (sast_handler d \<noteq> [] \<and> chars_count (sast_handler d) \<le> 256 \<and> valid_v6_contract)
      (Invalid (Validation_rs 426)))"

definition validate_step_attempt_succeeded :: "run_event \<Rightarrow> step_attempt_succeeded_data \<Rightarrow> check" where
  "validate_step_attempt_succeeded e d =
    and_then (validate_identity (sasu_node_id d) (sasu_attempt d) (sasu_invocation_id d)) (\<lambda>_.
    require (\<not> (6 \<le> version e \<and> 10 < sasu_attempt d)) (Invalid (Validation_rs 434)))"

definition validate_step_attempt_failed :: "run_event \<Rightarrow> step_attempt_failed_data \<Rightarrow> check" where
  "validate_step_attempt_failed e d =
    and_then (validate_identity (saf_node_id d) (saf_attempt d) (saf_invocation_id d)) (\<lambda>_.
    and_then (validate_attempt_failure (saf_failure d)) (\<lambda>_.
    if 6 \<le> version e \<and> 10 < saf_attempt d then Inl (Invalid (Validation_rs 443))
    else require
      (\<not> (af_kind (saf_failure d) = AttemptFailureKind_InvocationCancelled \<and> \<not> version_in 3 11 e))
      (Invalid (Validation_rs 461))))"

definition validate_step_retry_scheduled :: "run_event \<Rightarrow> step_retry_scheduled_data \<Rightarrow> check" where
  "validate_step_retry_scheduled e d = require
    (6 \<le> version e
     \<and> valid_id (srs_node_id d)
     \<and> 1 \<le> srs_failed_attempt d \<and> srs_failed_attempt d \<le> 9
     \<and> srs_next_attempt d = srs_failed_attempt d + 1
     \<and> srs_next_attempt d \<le> 10
     \<and> ev_occurred_at e \<le> srs_scheduled_at d)
    (Invalid (Validation_rs 474))"

section \<open>Control flow\<close>

definition validate_branch_selected :: "run_event \<Rightarrow> branch_selected_data \<Rightarrow> check" where
  "validate_branch_selected e d =
    (if \<not> version_in 2 11 e then Inl (Invalid (Validation_rs 493))
     else require
       (valid_public_structural_id (brs_branch_id d)
        \<and> valid_branch_arm_id (brs_branch_id d) (brs_arm_id d))
       (Invalid (Validation_rs 500)))"

definition validate_choice_selected :: "run_event \<Rightarrow> choice_selected_data \<Rightarrow> check" where
  "validate_choice_selected e d = require
    (version e = 12
     \<and> valid_id (chs_choice_id d)
     \<and> starts_with (chs_choice_id d @ '':'') (chs_arm_id d)
     \<and> valid_id (chs_arm_id d))
    (Invalid (Validation_rs 511))"

definition validate_fork_opened :: "run_event \<Rightarrow> fork_opened_data \<Rightarrow> check" where
  "validate_fork_opened e d = require
    (version e = 12 \<and> valid_public_structural_id (fo_fork_id d)) (Invalid (Validation_rs 520))"

definition validate_fork_branch_settled :: "run_event \<Rightarrow> fork_branch_settled_data \<Rightarrow> check" where
  "validate_fork_branch_settled e d = require
    (version e = 12
     \<and> valid_public_structural_id (fbs_fork_id d)
     \<and> valid_public_structural_id (fbs_branch_id d)
     \<and> valid_id (fbs_terminal_node_id d))
    (Invalid (Validation_rs 531))"

definition blocking_valid :: "fork_join_settled_data \<Rightarrow> bool" where
  "blocking_valid d = (case (fjs_outcome d, fjs_blocking_branch_id d) of
     (ForkJoinOutcome_Succeeded, None) \<Rightarrow> True
   | (ForkJoinOutcome_Failed, Some branch_id) \<Rightarrow> valid_public_structural_id branch_id
   | (ForkJoinOutcome_Cancelled, Some branch_id) \<Rightarrow> valid_public_structural_id branch_id
   | _ \<Rightarrow> False)"

definition validate_fork_join_settled :: "run_event \<Rightarrow> fork_join_settled_data \<Rightarrow> check" where
  "validate_fork_join_settled e d = require
    (version e = 12 \<and> valid_public_structural_id (fjs_fork_id d) \<and> blocking_valid d)
    (Invalid (Validation_rs 549))"

definition validate_parallel_group_started :: "run_event \<Rightarrow> parallel_group_started_data \<Rightarrow> check" where
  "validate_parallel_group_started e d = require
    (version_in 3 11 e \<and> valid_public_structural_id (pgs_parallel_id d)) (Invalid (Validation_rs 568))"

definition validate_parallel_group_completed :: "run_event \<Rightarrow> parallel_group_completed_data \<Rightarrow> check" where
  "validate_parallel_group_completed e d = require
    (version_in 3 11 e
     \<and> valid_public_structural_id (pgc_parallel_id d)
     \<and> valid_ordered_id_lists (pgc_failed_node_ids d) (pgc_cancelled_node_ids d)
     \<and> \<not> (pgc_outcome d = ParallelGroupOutcome_Succeeded
           \<and> (pgc_failed_node_ids d \<noteq> [] \<or> pgc_cancelled_node_ids d \<noteq> []))
     \<and> \<not> (pgc_outcome d = ParallelGroupOutcome_Failed
           \<and> pgc_failed_node_ids d = [] \<and> pgc_cancelled_node_ids d = []))
    (Invalid (Validation_rs 593))"

definition validate_for_each_opened :: "run_event \<Rightarrow> for_each_opened_data \<Rightarrow> check" where
  "validate_for_each_opened e d = require
    (version_in 15 16 e
     \<and> ev_iteration e = None
     \<and> valid_public_structural_id (feo_for_each_id d)
     \<and> feo_total d \<le> 10000
     \<and> 1 \<le> feo_concurrency d \<and> feo_concurrency d \<le> 64
     \<and> valid_sha256 (feo_items_digest d))
    (Invalid (Validation_rs 1192))"

definition validate_for_each_iteration_succeeded ::
  "run_event \<Rightarrow> for_each_iteration_succeeded_data \<Rightarrow> check" where
  "validate_for_each_iteration_succeeded e d =
    and_then (validate_for_each_iteration_event e (feisu_for_each_id d)) (\<lambda>_.
    require (is_some (feisu_result d) = is_some (feisu_result_digest d)
        \<and> is_none_or (feisu_result_digest d) valid_sha256)
      (Invalid (Validation_rs 1208)))"

definition validate_for_each_iteration_failed ::
  "run_event \<Rightarrow> for_each_iteration_failed_data \<Rightarrow> check" where
  "validate_for_each_iteration_failed e d =
    and_then (validate_for_each_iteration_event e (feif_for_each_id d)) (\<lambda>_.
    require (valid_id (feif_failed_node_id d)) (Invalid (Validation_rs 1216)))"

definition validate_for_each_settled :: "run_event \<Rightarrow> for_each_settled_data \<Rightarrow> check" where
  "validate_for_each_settled e d = require
    (version_in 15 16 e
     \<and> ev_iteration e = None
     \<and> valid_public_structural_id (fes_for_each_id d)
     \<and> fes_total d \<le> 10000
     \<and> fes_succeeded d + fes_failed d + fes_skipped d = fes_total d
     \<and> valid_sha256 (fes_aggregate_digest d))
    (Invalid (Validation_rs 1236))"

end
