(* ===== verification/Validation_Runtime.thy ===== *)
theory Validation_Runtime
  imports Validation_Execution
begin

text \<open>
  Validation of single run events (\<^verbatim>\<open>event/validation.rs\<close>), second part: approvals,
  notifications, operations, lifecycle hooks, waits, locks, sagas and run outcomes.
\<close>

section \<open>Approvals\<close>

definition validate_approval_requested :: "run_event \<Rightarrow> approval_requested_data \<Rightarrow> check" where
  "validate_approval_requested e d = require
    (version_in 4 11 e
     \<and> valid_public_structural_id (areq_approval_id d)
     \<and> is_approval_request_id (areq_request_id d)
     \<and> is_none_or (areq_expires_at d) (\<lambda>expires_at. ev_occurred_at e < expires_at))
    (Invalid (Validation_rs 615))"

definition rich_outcome_valid :: "approval_resolved_data \<Rightarrow> bool" where
  "rich_outcome_valid d = (case (ares_decision d, ares_reason d, ares_required d, ares_received d) of
     (Some ApprovalDecision_Approved, Some RichApprovalResolutionReason_Quorum, Some required, Some received) \<Rightarrow>
       required \<le> received
       \<and> (case (ares_required_roles d, ares_represented_roles d) of
            (Some required_roles, Some represented_roles) \<Rightarrow>
              list_all (\<lambda>role. role \<in> set represented_roles) required_roles
          | _ \<Rightarrow> False)
   | (Some ApprovalDecision_Rejected, Some reason, Some _, Some _) \<Rightarrow>
       reason \<noteq> RichApprovalResolutionReason_Quorum
   | _ \<Rightarrow> False)"

definition rich_resolution_valid :: "approval_resolved_data \<Rightarrow> bool" where
  "rich_resolution_valid d =
    (ares_resolution d = None
     \<and> is_some_and (ares_review_digest d) valid_sha256
     \<and> is_some (ares_decision d)
     \<and> is_some (ares_reason d)
     \<and> is_some_and (ares_required d) (\<lambda>v. 1 \<le> v \<and> v \<le> 20)
     \<and> is_some_and (ares_received d) (\<lambda>v. v \<le> 20)
     \<and> is_some_and (ares_required_roles d) valid_rich_approval_roles
     \<and> is_some_and (ares_represented_roles d) valid_rich_approval_roles
     \<and> rich_outcome_valid d)"

definition validate_approval_resolved :: "run_event \<Rightarrow> approval_resolved_data \<Rightarrow> check" where
  "validate_approval_resolved e d =
    (if is_rich d then
       require
         (version e = 19
          \<and> valid_public_structural_id (ares_approval_id d)
          \<and> is_approval_request_id (ares_request_id d)
          \<and> rich_resolution_valid d)
         (Invalid (Validation_rs 672))
     else if \<not> version_in 4 11 e
       \<or> \<not> valid_public_structural_id (ares_approval_id d)
       \<or> \<not> is_approval_request_id (ares_request_id d)
     then Inl (Invalid (Validation_rs 691))
     else if is_some (ares_decision d) \<or> is_some (ares_reason d) \<or> is_some (ares_required d)
       \<or> is_some (ares_received d) \<or> is_some (ares_required_roles d) \<or> is_some (ares_represented_roles d)
     then Inl (Invalid (Validation_rs 703))
     else and_then (ok_or (ares_resolution d) (Invalid (Validation_rs 711))) validate_approval_resolution)"

definition validate_approval_review_requested ::
  "run_event \<Rightarrow> approval_review_requested_data \<Rightarrow> check" where
  "validate_approval_review_requested e d = require
    (version e = 19
     \<and> valid_rich_approval_identity (arvr_approval_id d) (arvr_request_id d) (arvr_review_digest d)
     \<and> arvr_directory_version d \<noteq> []
     \<and> length (arvr_directory_version d) \<le> 128
     \<and> 1 \<le> arvr_required d \<and> arvr_required d \<le> 20
     \<and> valid_rich_approval_roles (arvr_required_roles d))
    (Invalid (Validation_rs 725))"

definition validate_approval_reviewer_decision_recorded ::
  "run_event \<Rightarrow> approval_reviewer_decision_recorded_data \<Rightarrow> check" where
  "validate_approval_reviewer_decision_recorded e d = require
    (version e = 19
     \<and> valid_rich_approval_identity (ardr_approval_id d) (ardr_request_id d) (ardr_review_digest d)
     \<and> ardr_principal_id d \<noteq> []
     \<and> length (ardr_principal_id d) \<le> 128)
    (Invalid (Validation_rs 736))"

definition validate_approval_quorum_progressed ::
  "run_event \<Rightarrow> approval_quorum_progressed_data \<Rightarrow> check" where
  "validate_approval_quorum_progressed e d = require
    (version e = 19
     \<and> valid_rich_approval_identity (aqp_approval_id d) (aqp_request_id d) (aqp_review_digest d)
     \<and> 1 \<le> aqp_required d \<and> aqp_required d \<le> 20
     \<and> aqp_received d \<le> aqp_required d
     \<and> valid_rich_approval_roles (aqp_required_roles d)
     \<and> valid_rich_approval_roles (aqp_represented_roles d)
     \<and> list_all (\<lambda>role. role \<in> set (aqp_required_roles d)) (aqp_represented_roles d))
    (Invalid (Validation_rs 754))"

definition validate_approval_invalidated :: "run_event \<Rightarrow> approval_invalidated_data \<Rightarrow> check" where
  "validate_approval_invalidated e d = require
    (version e = 19
     \<and> valid_rich_approval_identity (ainv_approval_id d) (ainv_request_id d) (ainv_review_digest d)
     \<and> ainv_reason d = RichApprovalResolutionReason_ArtifactInvalidated)
    (Invalid (Validation_rs 764))"

section \<open>Notifications\<close>

definition validate_notification_delivery_requested ::
  "run_event \<Rightarrow> notification_delivery_requested_data \<Rightarrow> check" where
  "validate_notification_delivery_requested e d =
    and_then (validate_notification_identity (ndr_approval_id d) (ndr_request_id d) (ndr_delivery_id d)) (\<lambda>_.
    require
      (version_in 5 11 e
       \<and> ndr_provider d \<in> {''slack'', ''telegram'', ''discord'', ''whatsapp'', ''custom''}
       \<and> ndr_destination d \<noteq> [])
      (Invalid (Validation_rs 785)))"

definition validate_notification_delivery_attempt_started ::
  "run_event \<Rightarrow> notification_delivery_attempt_started_data \<Rightarrow> check" where
  "validate_notification_delivery_attempt_started e d =
    and_then (validate_notification_identity (ndas_approval_id d) (ndas_request_id d) (ndas_delivery_id d)) (\<lambda>_.
    require
      (version_in 5 11 e
       \<and> 1 \<le> ndas_attempt d \<and> ndas_attempt d \<le> 3
       \<and> valid_prefixed_id (ndas_attempt_id d) ''nattempt_'' 12
       \<and> valid_sha256 (ndas_idempotency_key d))
      (Invalid (Validation_rs 806)))"

definition validate_notification_delivery_succeeded ::
  "run_event \<Rightarrow> notification_delivery_succeeded_data \<Rightarrow> check" where
  "validate_notification_delivery_succeeded e d =
    and_then (validate_notification_identity (nds_approval_id d) (nds_request_id d) (nds_delivery_id d)) (\<lambda>_.
    require
      (version_in 5 11 e
       \<and> 1 \<le> nds_attempt d \<and> nds_attempt d \<le> 3
       \<and> valid_prefixed_id (nds_attempt_id d) ''nattempt_'' 12
       \<and> valid_provider_message (nds_provider_message d))
      (Invalid (Validation_rs 826)))"

definition validate_notification_delivery_failed ::
  "run_event \<Rightarrow> notification_delivery_failed_data \<Rightarrow> check" where
  "validate_notification_delivery_failed e d =
    and_then (validate_notification_identity (ndf_approval_id d) (ndf_request_id d) (ndf_delivery_id d)) (\<lambda>_.
    and_then (validate_notification_safe_failure (ndf_failure d)) (\<lambda>_.
    require
      (version_in 5 11 e
       \<and> 1 \<le> ndf_attempt d \<and> ndf_attempt d \<le> 3
       \<and> valid_prefixed_id (ndf_attempt_id d) ''nattempt_'' 12
       \<and> \<not> (\<not> ndf_final d \<and> (\<not> nsf_retryable (ndf_failure d) \<or> ndf_attempt d = 3))
       \<and> \<not> (nsf_kind (ndf_failure d) \<in> {''delivery_ambiguous'', ''host_crashed''} \<and> \<not> ndf_final d))
      (Invalid (Validation_rs 851))))"

definition provider_actor_valid :: "notification_decision_accepted_data \<Rightarrow> bool" where
  "provider_actor_valid d =
    (let digits_within = (\<lambda>prefix lo hi. is_some_and (strip_prefix prefix (ndac_provider_actor_id d))
           (\<lambda>v. lo \<le> length v \<and> length v \<le> hi \<and> list_all is_ascii_digit v))
     in
       ndac_provider d = ''slack'' \<and> valid_prefixed_id (ndac_provider_actor_id d) ''U'' 9
       \<or> ndac_provider d = ''telegram'' \<and> digits_within ''telegram:'' 1 32
       \<or> ndac_provider d = ''discord'' \<and> digits_within ''discord:'' 17 20
       \<or> ndac_provider d = ''whatsapp'' \<and> digits_within ''whatsapp:'' 8 16
       \<or> ndac_provider d = ''custom'' \<and> ndac_provider_actor_id d = ''custom-provider'')"

definition validate_notification_decision_accepted ::
  "run_event \<Rightarrow> notification_decision_accepted_data \<Rightarrow> check" where
  "validate_notification_decision_accepted e d =
    and_then (validate_notification_identity (ndac_approval_id d) (ndac_request_id d) (ndac_delivery_id d)) (\<lambda>_.
    require (version_in 5 11 e \<and> provider_actor_valid d) (Invalid (Validation_rs 893)))"

definition validate_notification_message_update_requested ::
  "run_event \<Rightarrow> notification_message_update_requested_data \<Rightarrow> check" where
  "validate_notification_message_update_requested e d =
    and_then (validate_notification_identity (nmur_approval_id d) (nmur_request_id d) (nmur_delivery_id d)) (\<lambda>_.
    require (version_in 5 11 e \<and> valid_prefixed_id (nmur_update_id d) ''nupdate_'' 11)
      (Invalid (Validation_rs 911)))"

definition validate_notification_message_update_attempt ::
  "run_event \<Rightarrow> notification_message_update_attempt_started_data \<Rightarrow> check" where
  "validate_notification_message_update_attempt e d =
    and_then (validate_notification_identity (nmuas_approval_id d) (nmuas_request_id d) (nmuas_delivery_id d)) (\<lambda>_.
    require
      (version_in 5 11 e
       \<and> valid_prefixed_id (nmuas_update_id d) ''nupdate_'' 11
       \<and> 1 \<le> nmuas_attempt d \<and> nmuas_attempt d \<le> 3
       \<and> valid_prefixed_id (nmuas_attempt_id d) ''nattempt_'' 12)
      (Invalid (Validation_rs 932)))"

definition validate_notification_message_update_failed ::
  "run_event \<Rightarrow> notification_message_update_failed_data \<Rightarrow> check" where
  "validate_notification_message_update_failed e d =
    and_then (validate_notification_identity (nmuf_approval_id d) (nmuf_request_id d) (nmuf_delivery_id d)) (\<lambda>_.
    and_then (validate_notification_safe_failure (nmuf_failure d)) (\<lambda>_.
    require
      (version_in 5 11 e
       \<and> valid_prefixed_id (nmuf_update_id d) ''nupdate_'' 11
       \<and> 1 \<le> nmuf_attempt d \<and> nmuf_attempt d \<le> 3
       \<and> valid_prefixed_id (nmuf_attempt_id d) ''nattempt_'' 12
       \<and> \<not> (\<not> nmuf_final d \<and> (\<not> nsf_retryable (nmuf_failure d) \<or> nmuf_attempt d = 3)))
      (Invalid (Validation_rs 954))))"

section \<open>Operations and policy decisions\<close>

definition emergency_deny_valid :: "infrastructure_policy_emergency_deny_v1 \<Rightarrow> bool" where
  "emergency_deny_valid o' =
    (iped_policy_id o' \<noteq> [] \<and> iped_policy_version o' \<noteq> [] \<and> valid_sha256 (iped_policy_digest o')
     \<and> iped_matched_rule_ids o' \<noteq> [] \<and> length (iped_matched_rule_ids o') \<le> 1024)"

definition validate_infrastructure_policy_decision_recorded ::
  "externals \<Rightarrow> infrastructure_policy_decision_recorded_data \<Rightarrow> check" where
  "validate_infrastructure_policy_decision_recorded E d =
    (let decision = ipdrec_decision d in require
      (valid_id (ipdrec_invocation_id d)
       \<and> valid_id (ipdrec_call_id d)
       \<and> valid_sha256 (ipdrec_operation_key d)
       \<and> starts_with ''decision_'' (ipdr_decision_id decision)
       \<and> length (ipdr_decision_id decision) = 73
       \<and> valid_sha256 (ipdr_policy_digest decision)
       \<and> valid_sha256 (ipdr_descriptor_digest decision)
       \<and> length (ipdr_matched_rule_ids decision) \<le> 1024
       \<and> length (ipdr_requirements decision) \<le> 4096
       \<and> length (ipdr_explanation decision) \<le> 1024
       \<and> is_none_or (ipdr_emergency_deny decision) emergency_deny_valid
       \<and> \<not> to_vec_exceeds (policy_decision_to_vec E decision) 262144)
      (Invalid (Validation_rs 984)))"

definition validate_operation_started :: "run_event \<Rightarrow> operation_started_data \<Rightarrow> check" where
  "validate_operation_started e d =
    validate_operation_base (version e) (ost_node_id d) (ost_attempt_number d) (ost_invocation_id d)
      (ost_call_id d) (ost_operation_key d) (ost_capability d) (ost_operation d) (ost_metadata d)"

definition duration_valid :: "f64 \<Rightarrow> bool" where
  "duration_valid d = (f64_is_finite d \<and> \<not> f64_is_negative d)"

definition validate_operation_succeeded :: "run_event \<Rightarrow> operation_succeeded_data \<Rightarrow> check" where
  "validate_operation_succeeded e d =
    and_then (validate_operation_base (version e) (osu_node_id d) (osu_attempt_number d)
      (osu_invocation_id d) (osu_call_id d) (osu_operation_key d) (osu_capability d) (osu_operation d)
      (osu_metadata d)) (\<lambda>_.
    require (duration_valid (osu_duration_ms d) \<and> osu_result_bytes d \<le> 8388608
        \<and> valid_sha256 (osu_result_digest d))
      (Invalid (Validation_rs 1020)))"

definition validate_operation_failed :: "run_event \<Rightarrow> operation_failed_data \<Rightarrow> check" where
  "validate_operation_failed e d =
    and_then (validate_operation_base (version e) (ofa_node_id d) (ofa_attempt_number d)
      (ofa_invocation_id d) (ofa_call_id d) (ofa_operation_key d) (ofa_capability d) (ofa_operation d)
      (ofa_metadata d)) (\<lambda>_.
    if \<not> duration_valid (ofa_duration_ms d) then Inl (Invalid (Validation_rs 1038))
    else require (validate_capability_failure (ofa_failure d)) (Invalid (Validation_rs 1045)))"

section \<open>Lifecycle\<close>

definition validate_run_cancellation_requested ::
  "run_event \<Rightarrow> run_cancellation_requested_data \<Rightarrow> check" where
  "validate_run_cancellation_requested e d = require
    (version_in 10 11 e \<and> valid_id (rcr_request_id d)) (Invalid (Validation_rs 1053))"

definition validate_lifecycle_hook_requested :: "run_event \<Rightarrow> lifecycle_hook_requested_data \<Rightarrow> check" where
  "validate_lifecycle_hook_requested e d = require
    (version_in 10 11 e
     \<and> valid_sha256 (lhr_hook_invocation_id d)
     \<and> valid_id (lhr_hook_id d)
     \<and> valid_id (ls_id (lhr_subject d))
     \<and> is_step (lhr_event d) = (ls_kind (lhr_subject d) = LifecycleSubjectKind_Step))
    (Invalid (Validation_rs 1069))"

definition validate_lifecycle_action :: "run_event \<Rightarrow> lifecycle_action_identity_data \<Rightarrow> check" where
  "validate_lifecycle_action e d = require
    (version_in 10 11 e
     \<and> valid_lifecycle_action_identity (lai_hook_invocation_id d) (lai_action_id d) (lai_attempt d))
    (Invalid (Validation_rs 1085))"

definition validate_lifecycle_action_failed :: "run_event \<Rightarrow> lifecycle_action_failed_data \<Rightarrow> check" where
  "validate_lifecycle_action_failed e d = require
    (version_in 10 11 e
     \<and> valid_lifecycle_action_identity (laf_hook_invocation_id d) (laf_action_id d) (laf_attempt d)
     \<and> valid_lifecycle_failure (laf_failure d))
    (Invalid (Validation_rs 1100))"

definition validate_lifecycle_hook_completed :: "run_event \<Rightarrow> lifecycle_hook_completed_data \<Rightarrow> check" where
  "validate_lifecycle_hook_completed e d = require
    (version_in 10 11 e
     \<and> valid_sha256 (lhc_hook_invocation_id d)
     \<and> lhc_failed_actions d \<le> 64
     \<and> \<not> (lhc_status d = LifecycleHookCompletionStatus_Completed \<and> lhc_failed_actions d \<noteq> 0)
     \<and> \<not> (lhc_status d = LifecycleHookCompletionStatus_CompletedWithWarnings
           \<and> lhc_failed_actions d = 0))
    (Invalid (Validation_rs 1116))"

definition validate_reusable_lifecycle_requested ::
  "run_event \<Rightarrow> reusable_lifecycle_requested_data \<Rightarrow> check" where
  "validate_reusable_lifecycle_requested e d = require
    (version e = 13 \<and> valid_id (rlr_invocation_id d) \<and> valid_sha256 (rlr_definition_digest d))
    (Invalid (Validation_rs 1126))"

definition validate_reusable_lifecycle_action_started ::
  "run_event \<Rightarrow> reusable_lifecycle_action_started_data \<Rightarrow> check" where
  "validate_reusable_lifecycle_action_started e d = require
    (version e = 13 \<and> valid_id (rlast_invocation_id d) \<and> valid_sha256 (rlast_definition_digest d)
     \<and> valid_id (rlast_action_id d))
    (Invalid (Validation_rs 1137))"

definition validate_reusable_lifecycle_action_succeeded ::
  "run_event \<Rightarrow> reusable_lifecycle_action_succeeded_data \<Rightarrow> check" where
  "validate_reusable_lifecycle_action_succeeded e d = require
    (version e = 13 \<and> valid_id (rlasu_invocation_id d) \<and> valid_sha256 (rlasu_definition_digest d)
     \<and> valid_id (rlasu_action_id d) \<and> rlasu_outcome d = ReusableLifecycleOutcome_Succeeded)
    (Invalid (Validation_rs 1149))"

definition validate_reusable_lifecycle_action_failed ::
  "run_event \<Rightarrow> reusable_lifecycle_action_failed_data \<Rightarrow> check" where
  "validate_reusable_lifecycle_action_failed e d = require
    (version e = 13 \<and> valid_id (rlaf_invocation_id d) \<and> valid_sha256 (rlaf_definition_digest d)
     \<and> valid_id (rlaf_action_id d) \<and> rlaf_outcome d = ReusableLifecycleOutcome_Failed
     \<and> starts_with ''WOML_'' (rlaf_warning_code d) \<and> length (rlaf_warning_code d) \<le> 128)
    (Invalid (Validation_rs 1163))"

definition validate_reusable_lifecycle_completed ::
  "run_event \<Rightarrow> reusable_lifecycle_completed_data \<Rightarrow> check" where
  "validate_reusable_lifecycle_completed e d = require
    (version e = 13 \<and> valid_id (rlc_invocation_id d) \<and> valid_sha256 (rlc_definition_digest d)
     \<and> rlc_outcome d \<in> {ReusableLifecycleOutcome_Succeeded,
         ReusableLifecycleOutcome_CompletedWithWarnings})
    (Invalid (Validation_rs 1177))"

section \<open>Durable waits\<close>

definition wait_deadline_valid :: "wait_registered_data \<Rightarrow> bool" where
  "wait_deadline_valid d = (case wr_kind d of
     DurableWaitKind_Duration \<Rightarrow> is_some_and (wr_deadline d) (\<lambda>deadline. wr_registered_at d \<le> deadline)
   | DurableWaitKind_Until \<Rightarrow> is_some (wr_deadline d)
   | DurableWaitKind_Signal \<Rightarrow> is_none_or (wr_deadline d) (\<lambda>deadline. wr_registered_at d \<le> deadline))"

definition wait_shape_valid :: "wait_registered_data \<Rightarrow> bool" where
  "wait_shape_valid d = (case wr_kind d of
     DurableWaitKind_Signal \<Rightarrow>
       is_some_and (wr_signals d) (\<lambda>signals. 1 \<le> length signals \<and> length signals \<le> 16
         \<and> list_all valid_signal_name signals \<and> distinct signals)
       \<and> is_some_and (wr_correlation_digest d) valid_sha256
   | _ \<Rightarrow> is_some (wr_deadline d) \<and> wr_signals d = None \<and> wr_correlation_digest d = None)"

definition validate_wait_registered :: "run_event \<Rightarrow> wait_registered_data \<Rightarrow> check" where
  "validate_wait_registered e d = require
    (version e = 16
     \<and> valid_public_structural_id (wr_wait_id d)
     \<and> wr_node_id d = wr_wait_id d
     \<and> wr_registered_at d = ev_occurred_at e
     \<and> wait_deadline_valid d
     \<and> wait_shape_valid d)
    (Invalid (Validation_rs 1276))"

definition validate_external_signal_received ::
  "externals \<Rightarrow> run_event \<Rightarrow> external_signal_received_data \<Rightarrow> check" where
  "validate_external_signal_received E e d = require
    (version e = 16
     \<and> valid_id (esr_signal_id d)
     \<and> valid_public_structural_id (esr_wait_id d)
     \<and> valid_signal_name (esr_signal d)
     \<and> esr_received_at d = ev_occurred_at e
     \<and> valid_sha256 (esr_idempotency_digest d)
     \<and> is_none_or (esr_correlation d) (\<lambda>v. v \<noteq> [] \<and> length v \<le> 256 \<and> is_trimmed v)
     \<and> is_none_or (esr_authentication_class d) (\<lambda>v. v \<noteq> [] \<and> length v \<le> 64)
     \<and> \<not> to_vec_exceeds (json_to_vec E (esr_payload d)) 1048576)
    (Invalid (Validation_rs 1298))"

definition validate_wait_satisfied :: "externals \<Rightarrow> run_event \<Rightarrow> wait_satisfied_data \<Rightarrow> check" where
  "validate_wait_satisfied E e d = require
    (version e = 16
     \<and> valid_public_structural_id (ws_wait_id d)
     \<and> ws_resolved_at d = ev_occurred_at e
     \<and> is_object (ws_result d)
     \<and> \<not> to_vec_exceeds (json_to_vec E (ws_result d)) 1048576)
    (Invalid (Validation_rs 1310))"

definition validate_wait_timed_out :: "run_event \<Rightarrow> wait_timed_out_data \<Rightarrow> check" where
  "validate_wait_timed_out e d = require
    (version e = 16
     \<and> valid_public_structural_id (wto_wait_id d)
     \<and> wto_resolved_at d = ev_occurred_at e
     \<and> wto_deadline d \<le> wto_resolved_at d)
    (Invalid (Validation_rs 1321))"

definition validate_wait_cancelled :: "run_event \<Rightarrow> wait_cancelled_data \<Rightarrow> check" where
  "validate_wait_cancelled e d = require
    (version e = 16
     \<and> valid_public_structural_id (wc_wait_id d)
     \<and> valid_id (wc_cancellation_id d)
     \<and> wc_cancelled_at d = ev_occurred_at e)
    (Invalid (Validation_rs 1332))"

section \<open>Locks\<close>

definition validate_lock_wait_registered :: "run_event \<Rightarrow> lock_wait_registered_data \<Rightarrow> check" where
  "validate_lock_wait_registered e d = require
    (version e = 17
     \<and> valid_public_structural_id (lwr_lock_id d)
     \<and> valid_lock_key (lwr_key d)
     \<and> lwr_waiter_sequence d \<noteq> 0
     \<and> lwr_registered_at d = ev_occurred_at e
     \<and> lwr_registered_at d \<le> lwr_deadline d
     \<and> valid_id (lwr_execution_identity d))
    (Invalid (Validation_rs 1346))"

definition validate_lock_acquired :: "run_event \<Rightarrow> lock_acquired_data \<Rightarrow> check" where
  "validate_lock_acquired e d = require
    (version e = 17
     \<and> valid_public_structural_id (lacq_lock_id d)
     \<and> valid_lock_key (lacq_key d)
     \<and> valid_prefixed_id (lacq_lease_id d) ''lease_'' 7
     \<and> valid_fencing_token (lacq_fencing_token d)
     \<and> lacq_acquired_at d = ev_occurred_at e
     \<and> lacq_acquired_at d < lacq_expires_at d
     \<and> valid_id (lacq_execution_identity d))
    (Invalid (Validation_rs 1361))"

definition validate_lock_released :: "externals \<Rightarrow> run_event \<Rightarrow> lock_released_data \<Rightarrow> check" where
  "validate_lock_released E e d = require
    (version e = 17
     \<and> valid_public_structural_id (lrel_lock_id d)
     \<and> valid_lock_key (lrel_key d)
     \<and> valid_prefixed_id (lrel_lease_id d) ''lease_'' 7
     \<and> valid_fencing_token (lrel_fencing_token d)
     \<and> lrel_released_at d = ev_occurred_at e
     \<and> is_object (lrel_result d)
     \<and> \<not> to_vec_exceeds (json_to_vec E (lrel_result d)) 1048576)
    (Invalid (Validation_rs 1376))"

definition validate_lock_acquire_timed_out :: "run_event \<Rightarrow> lock_acquire_timed_out_data \<Rightarrow> check" where
  "validate_lock_acquire_timed_out e d = require
    (version e = 17
     \<and> valid_public_structural_id (lato_lock_id d)
     \<and> valid_lock_key (lato_key d)
     \<and> lato_resolved_at d = ev_occurred_at e
     \<and> lato_deadline d \<le> lato_resolved_at d)
    (Invalid (Validation_rs 1388))"

definition validate_lock_acquisition_cancelled ::
  "run_event \<Rightarrow> lock_acquisition_cancelled_data \<Rightarrow> check" where
  "validate_lock_acquisition_cancelled e d = require
    (version e = 17
     \<and> valid_public_structural_id (lacan_lock_id d)
     \<and> valid_lock_key (lacan_key d)
     \<and> lacan_cancelled_at d = ev_occurred_at e
     \<and> valid_id (lacan_cancellation_id d))
    (Invalid (Validation_rs 1400))"

definition validate_lock_lease_lost :: "run_event \<Rightarrow> lock_lease_lost_data \<Rightarrow> check" where
  "validate_lock_lease_lost e d = require
    (version e = 17
     \<and> valid_public_structural_id (lll_lock_id d)
     \<and> valid_lock_key (lll_key d)
     \<and> valid_prefixed_id (lll_lease_id d) ''lease_'' 7
     \<and> valid_fencing_token (lll_fencing_token d)
     \<and> lll_detected_at d = ev_occurred_at e
     \<and> lll_expired_at d \<le> lll_detected_at d)
    (Invalid (Validation_rs 1414))"

section \<open>Sagas\<close>

definition valid_action_id :: "string \<Rightarrow> bool" where
  "valid_action_id s = (s \<noteq> [] \<and> length s \<le> 768)"

definition valid_correction_attempt :: "u32 \<Rightarrow> bool" where
  "valid_correction_attempt n = (1 \<le> n \<and> n \<le> 10)"

definition valid_woml_code :: "string \<Rightarrow> bool" where
  "valid_woml_code s = (starts_with ''WOML_'' s \<and> length s \<le> 128)"

definition validate_saga_identity :: "run_event \<Rightarrow> saga_identity_data \<Rightarrow> check" where
  "validate_saga_identity e d = require
    (version e = 18 \<and> valid_public_structural_id (si_saga_id d)) (Invalid (Validation_rs 1425))"

definition validate_compensation_registered :: "run_event \<Rightarrow> compensation_registered_data \<Rightarrow> check" where
  "validate_compensation_registered e d = require
    (version e = 18
     \<and> valid_public_structural_id (compr_saga_id d)
     \<and> valid_action_id (compr_action_id d)
     \<and> valid_public_structural_id (compr_for_step_id d)
     \<and> compr_completion_sequence d \<noteq> 0)
    (Invalid (Validation_rs 1438))"

definition validate_saga_correction_started :: "run_event \<Rightarrow> saga_correction_started_data \<Rightarrow> check" where
  "validate_saga_correction_started e d = require
    (version e = 18 \<and> valid_public_structural_id (scs_saga_id d)) (Invalid (Validation_rs 1447))"

definition validate_correction_attempt :: "run_event \<Rightarrow> correction_attempt_identity_data \<Rightarrow> check" where
  "validate_correction_attempt e d = require
    (version e = 18 \<and> valid_public_structural_id (cai_saga_id d) \<and> valid_action_id (cai_action_id d)
     \<and> valid_correction_attempt (cai_attempt d))
    (Invalid (Validation_rs 1460))"

definition validate_correction_attempt_failed :: "run_event \<Rightarrow> correction_attempt_failed_data \<Rightarrow> check" where
  "validate_correction_attempt_failed e d = require
    (version e = 18 \<and> valid_public_structural_id (caf_saga_id d) \<and> valid_action_id (caf_action_id d)
     \<and> valid_correction_attempt (caf_attempt d) \<and> valid_woml_code (caf_code d))
    (Invalid (Validation_rs 1474))"

definition validate_correction_retry_scheduled ::
  "run_event \<Rightarrow> correction_retry_scheduled_data \<Rightarrow> check" where
  "validate_correction_retry_scheduled e d = require
    (version e = 18 \<and> valid_public_structural_id (crs_saga_id d) \<and> valid_action_id (crs_action_id d)
     \<and> valid_correction_attempt (crs_attempt d) \<and> ev_occurred_at e \<le> crs_retry_at d)
    (Invalid (Validation_rs 1487))"

definition validate_correction_interrupted :: "run_event \<Rightarrow> correction_interrupted_data \<Rightarrow> check" where
  "validate_correction_interrupted e d = require
    (version e = 18 \<and> valid_public_structural_id (cint_saga_id d) \<and> valid_action_id (cint_action_id d)
     \<and> valid_correction_attempt (cint_attempt d))
    (Invalid (Validation_rs 1499))"

definition validate_manual_recovery_required :: "run_event \<Rightarrow> manual_recovery_required_data \<Rightarrow> check" where
  "validate_manual_recovery_required e d = require
    (version e = 18 \<and> valid_public_structural_id (mrr_saga_id d) \<and> valid_action_id (mrr_action_id d)
     \<and> valid_woml_code (mrr_code d))
    (Invalid (Validation_rs 1512))"

section \<open>Outcomes\<close>

definition validate_run_outcome_decided :: "run_event \<Rightarrow> run_outcome_decided_data \<Rightarrow> check" where
  "validate_run_outcome_decided e d = require
    (version_in 10 11 e
     \<and> (case d of
          RunOutcomeDecidedData_Succeeded _ \<Rightarrow> True
        | RunOutcomeDecidedData_Failed failure \<Rightarrow> valid_lifecycle_failure failure
        | RunOutcomeDecidedData_Cancelled request_id \<Rightarrow> valid_id request_id))
    (Invalid (Validation_rs 1530))"

definition warning_valid :: "lifecycle_warning \<Rightarrow> bool" where
  "warning_valid w =
    (valid_id (lw_hook_id w) \<and> valid_id (lw_action_id w)
     \<and> is_none_or (lw_step_id w) valid_id
     \<and> is_none_or (lw_provider w) (\<lambda>v. length v \<le> 64)
     \<and> is_none_or (lw_destination w) (\<lambda>v. length v \<le> 256)
     \<and> starts_with ''WOML_'' (lw_code w))"

definition validate_run_finalized :: "run_event \<Rightarrow> run_finalized_data \<Rightarrow> check" where
  "validate_run_finalized e d = require
    (version_in 10 11 e
     \<and> length (rfin_warnings d) \<le> 128 \<and> list_all warning_valid (rfin_warnings d)
     \<and> \<not> (rfin_lifecycle_status d = FinalLifecycleStatus_Completed \<and> rfin_warnings d \<noteq> [])
     \<and> \<not> (rfin_lifecycle_status d = FinalLifecycleStatus_CompletedWithWarnings \<and> rfin_warnings d = []))
    (Invalid (Validation_rs 1559))"

definition validate_run_succeeded :: "run_event \<Rightarrow> run_succeeded_data \<Rightarrow> check" where
  "validate_run_succeeded e d = require
    (\<not> version_in 10 11 e \<and> valid_id (rsu_terminal_node_id d)) (Invalid (Validation_rs 1570))"

definition validate_run_failed_v1 :: "run_failed_data_v1 \<Rightarrow> check" where
  "validate_run_failed_v1 d =
    (let present = [is_some (rf1_node_id d), is_some (rf1_attempt d), is_some (rf1_invocation_id d)] in
     if list_ex (\<lambda>b. b) present \<and> \<not> list_all (\<lambda>b. b) present then Inl (Invalid (Validation_rs 1585))
     else
       and_then
         (case (rf1_node_id d, rf1_attempt d, rf1_invocation_id d) of
            (Some node_id, Some attempt, Some invocation_id) \<Rightarrow>
              validate_identity node_id attempt invocation_id
          | _ \<Rightarrow> Inr ())
       (\<lambda>_. validate_attempt_failure (rf1_failure d)))"

definition validate_run_failed_branch ::
  "string \<Rightarrow> string option \<Rightarrow> string list option \<Rightarrow> branch_failure \<Rightarrow> check" where
  "validate_run_failed_branch branch_id arm_id path failure =
    (if \<not> valid_public_structural_id branch_id
       \<or> is_some_and arm_id (\<lambda>arm. \<not> valid_branch_arm_id branch_id arm)
       \<or> is_some_and path (\<lambda>p. p = [] \<or> list_ex (\<lambda>s. s = []) p)
     then Inl (Invalid (Validation_rs 1640))
     else
       and_then
         (case failure of
            BranchFailure_BranchTestNotBoolean _ _ _ \<Rightarrow>
              require (is_some arm_id \<and> is_some path) (Invalid (Validation_rs 1646))
          | BranchFailure_ReferenceNotAvailable _ _ \<Rightarrow>
              require (is_some path) (Invalid (Validation_rs 1651))
          | BranchFailure_BranchSelectionInvalid _ _ \<Rightarrow> Inr ())
       (\<lambda>_. validate_branch_failure failure))"

definition validate_run_failed_parallel ::
  "string \<Rightarrow> string \<Rightarrow> string list \<Rightarrow> string list \<Rightarrow> parallel_failure \<Rightarrow> check" where
  "validate_run_failed_parallel parallel_id primary failed_ids cancelled_ids failure =
    (if \<not> valid_public_structural_id parallel_id
       \<or> \<not> valid_public_structural_id primary
       \<or> \<not> valid_ordered_id_lists failed_ids cancelled_ids
       \<or> failed_ids = []
       \<or> \<not> list_ex (\<lambda>node_id. node_id = primary) failed_ids
     then Inl (Invalid (Validation_rs 1684))
     else validate_parallel_failure failure)"

definition validate_run_failed_notification ::
  "string \<Rightarrow> string \<Rightarrow> string list \<Rightarrow> notification_run_failure \<Rightarrow> check" where
  "validate_run_failed_notification approval_id request_id delivery_ids failure = require
    (valid_public_structural_id approval_id
     \<and> is_approval_request_id request_id
     \<and> delivery_ids \<noteq> []
     \<and> list_all (\<lambda>delivery_id. is_notification_delivery_id delivery_id approval_id) delivery_ids
     \<and> distinct delivery_ids
     \<and> nrf_kind failure = ''all_deliveries_failed''
     \<and> nrf_code failure = ''WOML_NOTIFICATION_DELIVERY_FAILED''
     \<and> nrf_message failure \<noteq> [])
    (Invalid (Validation_rs 1739))"

definition validate_run_failed :: "run_event \<Rightarrow> run_failed_data \<Rightarrow> check" where
  "validate_run_failed e d = (case d of
     RunFailedData_V1 d1 \<Rightarrow>
       if version e = 1 then validate_run_failed_v1 d1 else Inl (Invalid (Validation_rs 1746))
   | RunFailedData_V2 (RunFailedDataV2_Attempt node_id attempt invocation_id failure) \<Rightarrow>
       if version_in 2 9 e
       then and_then (validate_identity node_id attempt invocation_id)
         (\<lambda>_. validate_attempt_failure failure)
       else Inl (Invalid (Validation_rs 1746))
   | RunFailedData_V2 (RunFailedDataV2_Branch branch_id arm_id path failure) \<Rightarrow>
       if version_in 2 9 e then validate_run_failed_branch branch_id arm_id path failure
       else Inl (Invalid (Validation_rs 1746))
   | RunFailedData_V3 (RunFailedDataV3_Parallel parallel_id _ primary failed_ids cancelled_ids failure) \<Rightarrow>
       if version_in 3 9 e
       then validate_run_failed_parallel parallel_id primary failed_ids cancelled_ids failure
       else Inl (Invalid (Validation_rs 1746))
   | RunFailedData_V4 (RunFailedDataV4_Approval approval_id request_id failure) \<Rightarrow>
       if version_in 4 9 e then
         (if \<not> valid_public_structural_id approval_id \<or> \<not> is_approval_request_id request_id
          then Inl (Invalid (Validation_rs 1705))
          else validate_approval_failure failure)
       else Inl (Invalid (Validation_rs 1746))
   | RunFailedData_V5 (RunFailedDataV5_Notification approval_id request_id delivery_ids failure) \<Rightarrow>
       if version_in 5 9 e
       then validate_run_failed_notification approval_id request_id delivery_ids failure
       else Inl (Invalid (Validation_rs 1746)))"

end
