(* ===== verification/Event_Validation.thy ===== *)
theory Event_Validation
  imports Validation_Runtime
begin

text \<open>
  \<^verbatim>\<open>RunEvent::validate\<close>: the dispatch on the payload and the inheritance of schema
  versions.  A version that does not own a payload validates the event as the version
  before it; the recursion ends because the version falls at every step.
\<close>

section \<open>Dispatch on the payload\<close>

fun validate_payload :: "externals \<Rightarrow> run_event \<Rightarrow> run_event_payload \<Rightarrow> check" where
  "validate_payload E e (RunAdmitted d) = validate_run_admitted e d"
| "validate_payload E e (RunExecutionStarted d) = validate_run_execution_started e d"
| "validate_payload E e (RunTimeoutReached d) = validate_run_timeout_reached e d"
| "validate_payload E e (RunStarted d) = validate_run_started e d"
| "validate_payload E e (StepAttemptStarted d) = validate_step_attempt_started e d"
| "validate_payload E e (StepAttemptSucceeded d) = validate_step_attempt_succeeded e d"
| "validate_payload E e (StepAttemptFailed d) = validate_step_attempt_failed e d"
| "validate_payload E e (StepRetryScheduled d) = validate_step_retry_scheduled e d"
| "validate_payload E e (BranchSelected d) = validate_branch_selected e d"
| "validate_payload E e (ChoiceSelected d) = validate_choice_selected e d"
| "validate_payload E e (ParallelGroupStarted d) = validate_parallel_group_started e d"
| "validate_payload E e (ParallelGroupCompleted d) = validate_parallel_group_completed e d"
| "validate_payload E e (ApprovalRequested d) = validate_approval_requested e d"
| "validate_payload E e (ApprovalReviewRequested d) = validate_approval_review_requested e d"
| "validate_payload E e (ApprovalReviewerDecisionRecorded d) =
    validate_approval_reviewer_decision_recorded e d"
| "validate_payload E e (ApprovalQuorumProgressed d) = validate_approval_quorum_progressed e d"
| "validate_payload E e (ApprovalResolved d) = validate_approval_resolved e d"
| "validate_payload E e (ApprovalInvalidated d) = validate_approval_invalidated e d"
| "validate_payload E e (NotificationDeliveryRequested d) = validate_notification_delivery_requested e d"
| "validate_payload E e (NotificationDeliveryAttemptStarted d) =
    validate_notification_delivery_attempt_started e d"
| "validate_payload E e (NotificationDeliverySucceeded d) = validate_notification_delivery_succeeded e d"
| "validate_payload E e (NotificationDeliveryFailed d) = validate_notification_delivery_failed e d"
| "validate_payload E e (NotificationDecisionAccepted d) = validate_notification_decision_accepted e d"
| "validate_payload E e (NotificationMessageUpdateRequested d) =
    validate_notification_message_update_requested e d"
| "validate_payload E e (NotificationMessageUpdateAttemptStarted d) =
    validate_notification_message_update_attempt e d"
| "validate_payload E e (NotificationMessageUpdated d) = validate_notification_message_update_attempt e d"
| "validate_payload E e (NotificationMessageUpdateFailed d) =
    validate_notification_message_update_failed e d"
| "validate_payload E e (InfrastructurePolicyDecisionRecorded d) =
    validate_infrastructure_policy_decision_recorded E d"
| "validate_payload E e (RemoteDispatchTransitioned d) = validate_remote_dispatch_transitioned e d"
| "validate_payload E e (OperationStarted d) = validate_operation_started e d"
| "validate_payload E e (OperationSucceeded d) = validate_operation_succeeded e d"
| "validate_payload E e (OperationFailed d) = validate_operation_failed e d"
| "validate_payload E e (ForkOpened d) = validate_fork_opened e d"
| "validate_payload E e (ForkBranchSettled d) = validate_fork_branch_settled e d"
| "validate_payload E e (ForkJoinSettled d) = validate_fork_join_settled e d"
| "validate_payload E e (RunCancellationRequested d) = validate_run_cancellation_requested e d"
| "validate_payload E e (LifecycleHookRequested d) = validate_lifecycle_hook_requested e d"
| "validate_payload E e (LifecycleActionAttemptStarted d) = validate_lifecycle_action e d"
| "validate_payload E e (LifecycleActionSucceeded d) = validate_lifecycle_action e d"
| "validate_payload E e (LifecycleActionFailed d) = validate_lifecycle_action_failed e d"
| "validate_payload E e (LifecycleHookCompleted d) = validate_lifecycle_hook_completed e d"
| "validate_payload E e (ReusableLifecycleRequested d) = validate_reusable_lifecycle_requested e d"
| "validate_payload E e (ReusableLifecycleActionStarted d) =
    validate_reusable_lifecycle_action_started e d"
| "validate_payload E e (ReusableLifecycleActionSucceeded d) =
    validate_reusable_lifecycle_action_succeeded e d"
| "validate_payload E e (ReusableLifecycleActionFailed d) = validate_reusable_lifecycle_action_failed e d"
| "validate_payload E e (ReusableLifecycleCompleted d) = validate_reusable_lifecycle_completed e d"
| "validate_payload E e (ForEachOpened d) = validate_for_each_opened e d"
| "validate_payload E e (ForEachIterationStarted d) =
    validate_for_each_iteration_event e (feii_for_each_id d)"
| "validate_payload E e (ForEachIterationSucceeded d) = validate_for_each_iteration_succeeded e d"
| "validate_payload E e (ForEachIterationFailed d) = validate_for_each_iteration_failed e d"
| "validate_payload E e (ForEachIterationSkipped d) =
    validate_for_each_iteration_event e (feisk_for_each_id d)"
| "validate_payload E e (ForEachSucceeded d) = validate_for_each_settled e d"
| "validate_payload E e (ForEachFailed d) = validate_for_each_settled e d"
| "validate_payload E e (ForEachCancelled d) = validate_for_each_settled e d"
| "validate_payload E e (WaitRegistered d) = validate_wait_registered e d"
| "validate_payload E e (ExternalSignalReceived d) = validate_external_signal_received E e d"
| "validate_payload E e (WaitSatisfied d) = validate_wait_satisfied E e d"
| "validate_payload E e (WaitTimedOut d) = validate_wait_timed_out e d"
| "validate_payload E e (WaitCancelled d) = validate_wait_cancelled e d"
| "validate_payload E e (LockWaitRegistered d) = validate_lock_wait_registered e d"
| "validate_payload E e (LockAcquired d) = validate_lock_acquired e d"
| "validate_payload E e (LockReleased d) = validate_lock_released E e d"
| "validate_payload E e (LockAcquireTimedOut d) = validate_lock_acquire_timed_out e d"
| "validate_payload E e (LockAcquisitionCancelled d) = validate_lock_acquisition_cancelled e d"
| "validate_payload E e (LockLeaseLost d) = validate_lock_lease_lost e d"
| "validate_payload E e (SagaStarted d) = validate_saga_identity e d"
| "validate_payload E e (CompensationRegistered d) = validate_compensation_registered e d"
| "validate_payload E e (SagaForwardSucceeded d) = validate_saga_identity e d"
| "validate_payload E e (SagaCorrectionStarted d) = validate_saga_correction_started e d"
| "validate_payload E e (CorrectionAttemptStarted d) = validate_correction_attempt e d"
| "validate_payload E e (CorrectionAttemptSucceeded d) = validate_correction_attempt e d"
| "validate_payload E e (CorrectionAttemptFailed d) = validate_correction_attempt_failed e d"
| "validate_payload E e (CorrectionRetryScheduled d) = validate_correction_retry_scheduled e d"
| "validate_payload E e (CorrectionInterrupted d) = validate_correction_interrupted e d"
| "validate_payload E e (SagaCorrectionCompleted d) = validate_saga_identity e d"
| "validate_payload E e (ManualRecoveryRequired d) = validate_manual_recovery_required e d"
| "validate_payload E e (RunOutcomeDecided d) = validate_run_outcome_decided e d"
| "validate_payload E e (RunFinalized d) = validate_run_finalized e d"
| "validate_payload E e (RunSucceeded d) = validate_run_succeeded e d"
| "validate_payload E e (RunFailed d) = validate_run_failed e d"

section \<open>Inheritance of schema versions\<close>

definition invalid_scope :: "run_event \<Rightarrow> bool" where
  "invalid_scope e = is_some_and (ev_iteration e) (\<lambda>scope.
     \<not> valid_public_structural_id (scope_for_each_id scope) \<or> 10000 \<le> scope_index scope)"

definition inherit :: "u32 \<Rightarrow> run_event \<Rightarrow> run_event" where
  "inherit v e = e\<lparr>ev_event_schema_version := v\<rparr>"

function validate_event :: "externals \<Rightarrow> run_event \<Rightarrow> check" where
  "validate_event E e =
    (let payload = ev_payload e in
     if \<not> version_in 1 20 e then Inl (UnsupportedSchemaVersion (version e))
     else if \<not> valid_id (ev_event_id e) \<or> \<not> valid_id (ev_run_id e) \<or> ev_sequence e = 0
     then Inl (Invalid (Validation_rs 67))
     else if version e = 20 \<and> \<not> is_remote_dispatch_event payload then validate_event E (inherit 19 e)
     else if version e = 20 \<and> invalid_scope e then Inl (Invalid (Validation_rs 135))
     else if version e = 19 \<and> \<not> is_rich_approval_event payload then validate_event E (inherit 18 e)
     else if version e = 19 \<and> is_some (ev_iteration e) then Inl (Invalid (Validation_rs 145))
     else if version e = 18 \<and> \<not> is_correction_event payload then validate_event E (inherit 17 e)
     else if version e = 18 \<and> is_some (ev_iteration e) \<and> \<not> is_compensation_registered payload
     then Inl (Invalid (Validation_rs 158))
     else if version e = 17 \<and> \<not> is_lock_event payload then validate_event E (inherit 16 e)
     else if version e = 17 \<and> invalid_scope e then Inl (Invalid (Validation_rs 172))
     else if version e = 16 \<and> \<not> is_wait_event payload then validate_event E (inherit 15 e)
     else if version e = 16 \<and> invalid_scope e then Inl (Invalid (Validation_rs 185))
     else if version e = 15 \<and> \<not> is_loop_event payload then
       (if is_some (ev_iteration e) \<and> (\<not> is_scoped_work payload \<or> invalid_scope e)
        then Inl (Invalid (Validation_rs 218))
        else validate_event E ((inherit 14 e)\<lparr>ev_iteration := None\<rparr>))
     else if version e \<notin> {15, 16, 17, 18, 20} \<and> is_some (ev_iteration e)
     then Inl (Invalid (Validation_rs 237))
     else if version e = 14 then validate_event E (inherit 13 e)
     else if version e = 13 \<and> \<not> is_reusable_event payload then validate_event E (inherit 12 e)
     else if version e = 12 \<and> \<not> is_fork_event payload then validate_event E (inherit 11 e)
     else validate_payload E e payload)"
  by pat_completeness auto
termination
  by (relation "measure (\<lambda>(E, e). unat (version e))") (auto simp: inherit_def)

declare validate_event.simps [simp del]

end
