(* ===== verification/Projection_State.thy ===== *)
theory Projection_State
  imports Event
begin

text \<open>
  The state a run history folds into (\<^verbatim>\<open>projection/*.rs\<close>): attempts, context,
  control flow, approvals, notifications, waits, locks, sagas, lifecycle hooks and
  operations, gathered in the record \<open>run_projection\<close>.
\<close>

section \<open>Operation identities\<close>

text \<open>The key of the operation maps, ordered as the derived \<^verbatim>\<open>Ord\<close>: invocation first,
  then call.\<close>

datatype operation_identity =
  OperationIdentity (oi_invocation_id: string) (oi_call_id: string)

instantiation operation_identity :: linorder
begin

definition less_operation_identity :: "operation_identity \<Rightarrow> operation_identity \<Rightarrow> bool" where
  "less_operation_identity a b \<longleftrightarrow>
    oi_invocation_id a < oi_invocation_id b
    \<or> oi_invocation_id a = oi_invocation_id b \<and> oi_call_id a < oi_call_id b"

definition less_eq_operation_identity :: "operation_identity \<Rightarrow> operation_identity \<Rightarrow> bool" where
  "less_eq_operation_identity a b \<longleftrightarrow> a = b \<or> a < b"

instance
  by standard (auto simp: less_operation_identity_def less_eq_operation_identity_def
    intro: operation_identity.expand)

end

lemmas operation_identity_less [simp] =
  less_operation_identity_def [of "OperationIdentity i c" "OperationIdentity i' c'" for i c i' c']

section \<open>Projected state\<close>

datatype approval_request_status =
    ApprovalRequestStatus_Waiting
  | ApprovalRequestStatus_Resolved "approval_resolution" "instant"

record approval_request_projection =
  arp_approval_id :: "string"
  arp_request_id :: "string"
  arp_requested_at :: "instant"
  arp_expires_at :: "instant option"
  arp_on_timeout :: "approval_timeout_policy"
  arp_status :: "approval_request_status"

datatype rich_approval_request_status =
    RichApprovalRequestStatus_Waiting
  | RichApprovalRequestStatus_Approved
  | RichApprovalRequestStatus_Rejected
  | RichApprovalRequestStatus_Expired
  | RichApprovalRequestStatus_Cancelled
  | RichApprovalRequestStatus_Invalidated

record rich_approval_reviewer_decision_projection =
  rardp_principal_id :: "string"
  rardp_decision :: "approval_decision"
  rardp_decided_at :: "instant"

record rich_approval_request_projection =
  rarp_approval_id :: "string"
  rarp_request_id :: "string"
  rarp_review_digest :: "string"
  rarp_directory_version :: "string"
  rarp_required :: "u32"
  rarp_required_roles :: "string list"
  rarp_represented_roles :: "string list"
  rarp_requested_at :: "instant"
  rarp_resolved_at :: "instant option"
  rarp_status :: "rich_approval_request_status"
  rarp_decisions :: "(string, rich_approval_reviewer_decision_projection) btree"

record attempt_identity =
  ai_node_id :: "string"
  ai_attempt :: "u32"
  ai_invocation_id :: "string"

datatype attempt_status =
    AttemptStatus_Started
  | AttemptStatus_Succeeded "json"
  | AttemptStatus_Failed "attempt_failure"

record attempt_projection =
  ap_identity :: "attempt_identity"
  ap_handler :: "string"
  ap_idempotency_key :: "string option"
  ap_status :: "attempt_status"

record retry_schedule_projection =
  rsp_node_id :: "string"
  rsp_failed_attempt :: "u32"
  rsp_next_attempt :: "u32"
  rsp_scheduled_at :: "instant"

record lock_context =
  lc_id :: "string"
  lc_key :: "string"
  lc_fencing_token :: "string"
  lc_acquired_at :: "string"

record workflow_context =
  ctx_trigger :: "json_object"
  ctx_steps :: "json_object"
  ctx_lock :: "lock_context option"

datatype parallel_group_status =
    ParallelGroupStatus_Started
  | ParallelGroupStatus_Completed "parallel_group_outcome" "string list" "string list"

record parallel_group_projection =
  pgp_parallel_id :: "string"
  pgp_fork_context :: "workflow_context"
  pgp_status :: "parallel_group_status"

datatype fork_join_status =
    ForkJoinStatus_Pending
  | ForkJoinStatus_Succeeded
  | ForkJoinStatus_Failed
  | ForkJoinStatus_Cancelled

record fork_branch_projection =
  fbp_branch_id :: "string"
  fbp_terminal_node_id :: "string option"
  fbp_outcome :: "fork_branch_outcome option"

record fork_projection =
  fp_fork_id :: "string"
  fp_branches :: "(string, fork_branch_projection) btree"
  fp_join_status :: "fork_join_status"
  fp_blocking_branch_id :: "string option"

datatype for_each_status =
    ForEachStatus_Open
  | ForEachStatus_Succeeded
  | ForEachStatus_Failed
  | ForEachStatus_Cancelled

datatype for_each_iteration_status =
    ForEachIterationStatus_Started
  | ForEachIterationStatus_Succeeded "json option"
  | ForEachIterationStatus_Failed "string"
  | ForEachIterationStatus_Skipped

datatype saga_phase =
    SagaPhase_Forward
  | SagaPhase_ForwardSucceeded
  | SagaPhase_Correcting
  | SagaPhase_CorrectionCompleted
  | SagaPhase_ManualRecovery

datatype correction_action_status =
    CorrectionActionStatus_Registered
  | CorrectionActionStatus_Started
  | CorrectionActionStatus_RetryScheduled
  | CorrectionActionStatus_Succeeded
  | CorrectionActionStatus_Failed
  | CorrectionActionStatus_Interrupted
  | CorrectionActionStatus_ManualRecovery

record correction_action_projection =
  cap_action_id :: "string"
  cap_action_kind :: "corrective_action_kind"
  cap_for_step_id :: "string option"
  cap_completion_sequence :: "u64 option"
  cap_status :: "correction_action_status"
  cap_attempts :: "u32"
  cap_active_attempt :: "u32 option"
  cap_retry_at :: "instant option"
  cap_failure_code :: "string option"
  cap_ambiguous :: "bool"

record saga_projection =
  sp_saga_id :: "string"
  sp_phase :: "saga_phase"
  sp_reason :: "saga_correction_reason option"
  sp_started_sequence :: "u64"
  sp_forward_succeeded_sequence :: "u64 option"
  sp_correction_completed_sequence :: "u64 option"
  sp_actions :: "(string, correction_action_projection) btree"

datatype lifecycle_status =
    LifecycleStatus_Idle
  | LifecycleStatus_Running
  | LifecycleStatus_Finalizing
  | LifecycleStatus_CompletedWithWarnings
  | LifecycleStatus_Completed

datatype lifecycle_action_status =
    LifecycleActionStatus_Started
  | LifecycleActionStatus_Succeeded
  | LifecycleActionStatus_Failed

record lifecycle_action_projection =
  lap_action_id :: "string"
  lap_attempt :: "u32"
  lap_status :: "lifecycle_action_status"
  lap_failure :: "lifecycle_failure option"

datatype lifecycle_hook_status =
    LifecycleHookStatus_Requested
  | LifecycleHookStatus_Running
  | LifecycleHookStatus_Completed
  | LifecycleHookStatus_CompletedWithWarnings

record lifecycle_hook_projection =
  lhp_hook_invocation_id :: "string"
  lhp_hook_id :: "string"
  lhp_event :: "lifecycle_event_name"
  lhp_subject :: "lifecycle_subject"
  lhp_status :: "lifecycle_hook_status"
  lhp_actions :: "(string, lifecycle_action_projection) btree"
  lhp_failed_actions :: "u32"

datatype reusable_lifecycle_status =
    ReusableLifecycleStatus_Requested
  | ReusableLifecycleStatus_Running
  | ReusableLifecycleStatus_Completed
  | ReusableLifecycleStatus_CompletedWithWarnings

record reusable_lifecycle_projection =
  rlp_invocation_id :: "string"
  rlp_definition_digest :: "string"
  rlp_hook :: "reusable_lifecycle_hook"
  rlp_status :: "reusable_lifecycle_status"
  rlp_active_action_id :: "string option"
  rlp_completed_action_ids :: "string list"
  rlp_warning_codes :: "string list"

datatype notification_delivery_status =
    NotificationDeliveryStatus_Requested
  | NotificationDeliveryStatus_AttemptStarted "u32" "string" "string"
  | NotificationDeliveryStatus_Succeeded "u32" "string" "provider_message_identity"
  | NotificationDeliveryStatus_Failed "u32" "string" "bool" "notification_safe_failure" "instant"

record notification_delivery_projection =
  ndp_approval_id :: "string"
  ndp_request_id :: "string"
  ndp_delivery_id :: "string"
  ndp_provider :: "string"
  ndp_destination :: "string"
  ndp_status :: "notification_delivery_status"

datatype notification_message_update_status =
    NotificationMessageUpdateStatus_Requested
  | NotificationMessageUpdateStatus_AttemptStarted "u32" "string"
  | NotificationMessageUpdateStatus_Updated "u32" "string"
  | NotificationMessageUpdateStatus_Failed "u32" "string" "bool" "notification_safe_failure" "instant"

record notification_message_update_projection =
  nmup_approval_id :: "string"
  nmup_request_id :: "string"
  nmup_delivery_id :: "string"
  nmup_update_id :: "string"
  nmup_resolution :: "notification_resolution"
  nmup_status :: "notification_message_update_status"

datatype operation_status =
    OperationStatus_Started
  | OperationStatus_Succeeded "f64" "u64" "string"
  | OperationStatus_Failed "f64" "capability_failure"

record operation_projection =
  op_identity :: "operation_identity"
  op_node_id :: "string"
  op_attempt_number :: "u32"
  op_operation_key :: "string"
  op_capability :: "string"
  op_operation :: "string"
  op_execution_mode :: "operation_execution_mode"
  op_metadata :: "json_object"
  op_status :: "operation_status"

datatype run_status =
    RunStatus_NotStarted
  | RunStatus_Queued
  | RunStatus_Running
  | RunStatus_Waiting
  | RunStatus_Cancelling
  | RunStatus_Finalizing
  | RunStatus_Succeeded
  | RunStatus_Failed
  | RunStatus_Cancelled

datatype run_failure =
    RunFailure_Attempt "attempt_failure"
  | RunFailure_Branch "branch_failure"
  | RunFailure_Parallel "string" "parallel_failure_policy" "string" "string list" "string list" "parallel_failure"
  | RunFailure_Approval "string" "string" "approval_failure"
  | RunFailure_Notification "string" "string" "string list" "notification_run_failure"

datatype durable_wait_status =
    DurableWaitStatus_Registered
  | DurableWaitStatus_Satisfied "durable_wait_winner"
  | DurableWaitStatus_TimedOut "durable_wait_timeout_behavior"
  | DurableWaitStatus_Cancelled

record durable_wait_projection =
  dwp_wait_id :: "string"
  dwp_node_id :: "string"
  dwp_kind :: "durable_wait_kind"
  dwp_registered_at :: "instant"
  dwp_deadline :: "instant option"
  dwp_signals :: "string list"
  dwp_correlation_digest :: "string option"
  dwp_status :: "durable_wait_status"
  dwp_resolved_at :: "instant option"

datatype lock_status =
    LockStatus_Waiting
  | LockStatus_Held
  | LockStatus_Released
  | LockStatus_AcquireTimedOut
  | LockStatus_AcquisitionCancelled
  | LockStatus_LeaseLost

record lock_projection =
  lp_lock_id :: "string"
  lp_key :: "string"
  lp_waiter_sequence :: "u64"
  lp_execution_identity :: "string"
  lp_registered_at :: "instant"
  lp_deadline :: "instant"
  lp_status :: "lock_status"
  lp_lease_id :: "string option"
  lp_fencing_token :: "string option"
  lp_acquired_at :: "instant option"
  lp_expires_at :: "instant option"
  lp_resolved_at :: "instant option"

record for_each_iteration_execution_projection =
  feix_context :: "workflow_context"
  feix_attempts :: "attempt_projection list"
  feix_operations :: "(operation_identity, operation_projection) btree"
  feix_pending_retries :: "(string, retry_schedule_projection) btree"
  feix_branch_selections :: "(string, string) btree"
  feix_choice_selections :: "(string, string) btree"
  feix_parallel_groups :: "(string, parallel_group_projection) btree"
  feix_lifecycle_hooks :: "(string, lifecycle_hook_projection) btree"
  feix_reusable_lifecycle_hooks :: "(string, reusable_lifecycle_projection) btree"
  feix_locks :: "(string, lock_projection) btree"

record for_each_projection =
  fep_for_each_id :: "string"
  fep_total :: "u32"
  fep_items_digest :: "string"
  fep_concurrency :: "u32"
  fep_status :: "for_each_status"
  fep_iterations :: "(u32, for_each_iteration_status) btree"
  fep_executions :: "(u32, for_each_iteration_execution_projection) btree"

record run_projection =
  p_event_schema_version :: "u32 option"
  p_run_id :: "string option"
  p_workflow_id :: "string option"
  p_definition_hash :: "string option"
  p_policy_hash :: "string option"
  p_queue :: "string option"
  p_occurrence_sequence :: "u64 option"
  p_admitted_at :: "instant option"
  p_started_at :: "instant option"
  p_timeout_at :: "instant option"
  p_timeout_reached_at :: "instant option"
  p_trigger_id :: "string option"
  p_trigger_handler :: "string option"
  p_trigger_occurrence_id :: "string option"
  p_ingress :: "run_ingress option"
  p_status :: "run_status"
  p_business_outcome :: "business_outcome option"
  p_lifecycle_status :: "lifecycle_status"
  p_cancellation_request_id :: "string option"
  p_lifecycle_hooks :: "(string, lifecycle_hook_projection) btree"
  p_reusable_lifecycle_hooks :: "(string, reusable_lifecycle_projection) btree"
  p_lifecycle_warnings :: "lifecycle_warning list"
  p_context :: "workflow_context"
  p_attempts :: "attempt_projection list"
  p_infrastructure_policy_decisions :: "infrastructure_policy_decision_recorded_data list"
  p_operations :: "(operation_identity, operation_projection) btree"
  p_pending_retries :: "(string, retry_schedule_projection) btree"
  p_branch_selections :: "(string, string) btree"
  p_choice_selections :: "(string, string) btree"
  p_parallel_groups :: "(string, parallel_group_projection) btree"
  p_forks :: "(string, fork_projection) btree"
  p_for_each :: "(string, for_each_projection) btree"
  p_approval_requests :: "(string, approval_request_projection) btree"
  p_rich_approval_requests :: "(string, rich_approval_request_projection) btree"
  p_durable_waits :: "(string, durable_wait_projection) btree"
  p_locks :: "(string, lock_projection) btree"
  p_sagas :: "(string, saga_projection) btree"
  p_external_signals :: "external_signal_received_data list"
  p_notification_deliveries :: "(string, notification_delivery_projection) btree"
  p_notification_updates :: "(string, notification_message_update_projection) btree"
  p_notification_decisions :: "notification_decision_accepted_data list"
  p_terminal_node_id :: "string option"
  p_result :: "json option"
  p_failure :: "run_failure option"
  p_lifecycle_failure :: "lifecycle_failure option"
  p_last_sequence :: "u64"

section \<open>Initial projection\<close>

text \<open>\<^verbatim>\<open>Default\<close> of the derived structures.\<close>

definition empty_context :: workflow_context where
  "empty_context = \<lparr>ctx_trigger = [], ctx_steps = [], ctx_lock = None\<rparr>"

definition empty_iteration_execution :: for_each_iteration_execution_projection where
  "empty_iteration_execution =
    \<lparr>feix_context = empty_context, feix_attempts = [], feix_operations = bt_empty,
     feix_pending_retries = bt_empty, feix_branch_selections = bt_empty,
     feix_choice_selections = bt_empty, feix_parallel_groups = bt_empty,
     feix_lifecycle_hooks = bt_empty, feix_reusable_lifecycle_hooks = bt_empty,
     feix_locks = bt_empty\<rparr>"

definition empty_projection :: run_projection where
  "empty_projection =
    \<lparr>p_event_schema_version = None, p_run_id = None, p_workflow_id = None,
     p_definition_hash = None, p_policy_hash = None, p_queue = None,
     p_occurrence_sequence = None, p_admitted_at = None, p_started_at = None,
     p_timeout_at = None, p_timeout_reached_at = None, p_trigger_id = None,
     p_trigger_handler = None, p_trigger_occurrence_id = None, p_ingress = None,
     p_status = RunStatus_NotStarted, p_business_outcome = None,
     p_lifecycle_status = LifecycleStatus_Idle, p_cancellation_request_id = None,
     p_lifecycle_hooks = bt_empty, p_reusable_lifecycle_hooks = bt_empty,
     p_lifecycle_warnings = [], p_context = empty_context, p_attempts = [],
     p_infrastructure_policy_decisions = [], p_operations = bt_empty,
     p_pending_retries = bt_empty, p_branch_selections = bt_empty,
     p_choice_selections = bt_empty, p_parallel_groups = bt_empty, p_forks = bt_empty,
     p_for_each = bt_empty, p_approval_requests = bt_empty,
     p_rich_approval_requests = bt_empty, p_durable_waits = bt_empty, p_locks = bt_empty,
     p_sagas = bt_empty, p_external_signals = [], p_notification_deliveries = bt_empty,
     p_notification_updates = bt_empty, p_notification_decisions = [],
     p_terminal_node_id = None, p_result = None, p_failure = None,
     p_lifecycle_failure = None, p_last_sequence = 0\<rparr>"

section \<open>Accessors of the run projection\<close>

definition completed_node_ids :: "run_projection \<Rightarrow> string set" where
  "completed_node_ids p = set (map fst (ctx_steps (p_context p)))"

definition attempted_node_ids :: "run_projection \<Rightarrow> string set" where
  "attempted_node_ids p = set (map (ai_node_id \<circ> ap_identity) (p_attempts p))"

definition active_attempt_node_ids :: "run_projection \<Rightarrow> string set" where
  "active_attempt_node_ids p =
    set (map (ai_node_id \<circ> ap_identity)
      (filter (\<lambda>a. ap_status a = AttemptStatus_Started) (p_attempts p)))"

definition latest_attempt :: "run_projection \<Rightarrow> string \<Rightarrow> attempt_projection option" where
  "latest_attempt p node_id = find_last (\<lambda>a. ai_node_id (ap_identity a) = node_id) (p_attempts p)"

definition active_managed_operations :: "run_projection \<Rightarrow> string \<Rightarrow> operation_projection list" where
  "active_managed_operations p invocation_id =
    filter (\<lambda>op. oi_invocation_id (op_identity op) = invocation_id
        \<and> op_execution_mode op = OperationExecutionMode_Managed
        \<and> op_status op = OperationStatus_Started)
      (bt_values (p_operations p))"

end
