(* ===== verification/Fold_Guards.thy ===== *)
theory Fold_Guards
  imports Projection_State Errors
begin

text \<open>
  The guards the transitions of the fold share (\<^verbatim>\<open>projection/guards.rs\<close>), the search
  for the corrective attempt an operation belongs to (\<^verbatim>\<open>projection/correction.rs\<close>)
  and the identity of a corrective invocation
  (\<^verbatim>\<open>durable/transactions/correction.rs\<close>).  A failing guard is an error value that
  carries the line it stands on; indexing a vector out of range is a panic.
\<close>

type_synonym fold_result = "(fold_error, run_projection) result"
type_synonym attempt_indexes = "attempt_identity \<Rightarrow> nat option"

definition index_or_panic :: "'a list \<Rightarrow> nat \<Rightarrow> source_site \<Rightarrow> (fold_error, 'a) result" where
  "index_or_panic xs i site = (if i < length xs then Inr (xs ! i) else Inl (Panic site))"

lemma index_or_panic_Inr_iff [ok_simps]:
  "index_or_panic xs i site = Inr x \<longleftrightarrow> i < length xs \<and> xs ! i = x"
  by (auto simp: index_or_panic_def)

section \<open>Corrective invocations\<close>

text \<open>\<^verbatim>\<open>u32::to_be_bytes\<close>.\<close>

definition be_bytes :: "u32 \<Rightarrow> string" where
  "be_bytes w =
    map (\<lambda>i. char_of ((unat w div 256 ^ i) mod 256 :: nat)) [3, 2, 1, 0]"

definition correction_preimage :: "string \<Rightarrow> string \<Rightarrow> string \<Rightarrow> u32 \<Rightarrow> string" where
  "correction_preimage run_id saga_id action_id attempt =
    ''woml:correction-invocation:v1'' @ [CHR 0x00]
    @ concat (map (\<lambda>v. v @ [CHR 0x00]) [run_id, saga_id, action_id]) @ be_bytes attempt"

definition correction_invocation_id ::
  "externals \<Rightarrow> string \<Rightarrow> string \<Rightarrow> string \<Rightarrow> u32 \<Rightarrow> string" where
  "correction_invocation_id E run_id saga_id action_id attempt =
    ''corr_'' @ sha256_hex E (correction_preimage run_id saga_id action_id attempt)"

definition active_correction ::
  "externals \<Rightarrow> run_projection \<Rightarrow> string \<Rightarrow> u32 \<Rightarrow> string \<Rightarrow> correction_action_projection option" where
  "active_correction E p node_id attempt invocation_id =
    (case p_run_id p of
       None \<Rightarrow> None
     | Some run_id \<Rightarrow>
         find_map (\<lambda>saga.
           case bt_get (sp_actions saga) node_id of
             None \<Rightarrow> None
           | Some action \<Rightarrow>
               if sp_phase saga \<in> {SagaPhase_Correcting, SagaPhase_ManualRecovery}
                 \<and> cap_status action = CorrectionActionStatus_Started
                 \<and> cap_active_attempt action = Some attempt
                 \<and> correction_invocation_id E run_id (sp_saga_id saga) node_id attempt = invocation_id
               then Some action else None)
         (bt_values (p_sagas p)))"

section \<open>Status guards\<close>

definition identity :: "string \<Rightarrow> u32 \<Rightarrow> string \<Rightarrow> attempt_identity" where
  "identity node_id attempt invocation_id =
    \<lparr>ai_node_id = node_id, ai_attempt = attempt, ai_invocation_id = invocation_id\<rparr>"

fun is_failed :: "attempt_status \<Rightarrow> bool" where
  "is_failed (AttemptStatus_Failed _) = True"
| "is_failed _ = False"

definition require_running :: "run_projection \<Rightarrow> (fold_error, unit) result" where
  "require_running p =
    require (p_status p = RunStatus_Running) (InvalidHistory (Guards_rs 118))"

definition require_running_or_cancelling :: "run_projection \<Rightarrow> (fold_error, unit) result" where
  "require_running_or_cancelling p =
    require (p_status p \<in> {RunStatus_Running, RunStatus_Cancelling}) (InvalidHistory (Guards_rs 130))"

definition require_operation_runtime ::
  "externals \<Rightarrow> run_projection \<Rightarrow> string \<Rightarrow> u32 \<Rightarrow> string \<Rightarrow> (fold_error, unit) result" where
  "require_operation_runtime E p node_id attempt_number invocation_id =
    require (p_status p \<in> {RunStatus_Running, RunStatus_Finalizing}
        \<or> p_status p = RunStatus_Cancelling
          \<and> is_some (active_correction E p node_id attempt_number invocation_id))
      (InvalidHistory (Guards_rs 149))"

definition require_operation_settlement :: "run_projection \<Rightarrow> (fold_error, unit) result" where
  "require_operation_settlement p =
    require (p_status p \<in> {RunStatus_Running, RunStatus_Cancelling, RunStatus_Finalizing})
      (InvalidHistory (Guards_rs 161))"

definition require_failed_attempt ::
  "run_projection \<Rightarrow> attempt_indexes \<Rightarrow> string \<Rightarrow> u32 \<Rightarrow> string \<Rightarrow> (fold_error, unit) result" where
  "require_failed_attempt p idx node_id attempt invocation_id =
    and_then (ok_or (idx (identity node_id attempt invocation_id)) (InvalidHistory (Guards_rs 101)))
      (\<lambda>i. and_then (index_or_panic (p_attempts p) i (Guards_rs 106))
        (\<lambda>a. require (is_failed (ap_status a)) (InvalidHistory (Guards_rs 109))))"

section \<open>Operations and attempts\<close>

definition validate_operation_terminal_identity ::
  "operation_projection \<Rightarrow> string \<Rightarrow> u32 \<Rightarrow> string \<Rightarrow> string \<Rightarrow> string \<Rightarrow> operation_execution_mode
    \<Rightarrow> (fold_error, unit) result" where
  "validate_operation_terminal_identity started node_id attempt_number operation_key capability
      operation execution_mode =
    (if op_status started \<noteq> OperationStatus_Started then Inl (InvalidHistory (Guards_rs 32))
     else if op_node_id started \<noteq> node_id
       \<or> op_attempt_number started \<noteq> attempt_number
       \<or> op_operation_key started \<noteq> operation_key
       \<or> op_capability started \<noteq> capability
       \<or> op_operation started \<noteq> operation
       \<or> op_execution_mode started \<noteq> execution_mode
     then Inl (InvalidHistory (Guards_rs 43))
     else Inr ())"

definition require_active_operation_attempt ::
  "externals \<Rightarrow> run_projection \<Rightarrow> string \<Rightarrow> u32 \<Rightarrow> string \<Rightarrow> (fold_error, unit) result" where
  "require_active_operation_attempt E p node_id attempt_number invocation_id =
    require
      (list_ex (\<lambda>a. ai_node_id (ap_identity a) = node_id
          \<and> ai_attempt (ap_identity a) = attempt_number
          \<and> ai_invocation_id (ap_identity a) = invocation_id
          \<and> ap_status a = AttemptStatus_Started) (p_attempts p)
       \<or> list_ex (\<lambda>hook. is_some_and (bt_get (lhp_actions hook) node_id)
            (\<lambda>action. lap_attempt action = attempt_number
              \<and> lap_status action = LifecycleActionStatus_Started)) (bt_values (p_lifecycle_hooks p))
       \<or> is_some (active_correction E p node_id attempt_number invocation_id))
      (InvalidHistory (Guards_rs 69))"

definition started_attempt :: "step_attempt_started_data \<Rightarrow> attempt_projection" where
  "started_attempt data =
    \<lparr>ap_identity = identity (sast_node_id data) (sast_attempt data) (sast_invocation_id data),
     ap_handler = sast_handler data,
     ap_idempotency_key = sast_idempotency_key data,
     ap_status = AttemptStatus_Started\<rparr>"

definition projection_digest :: "externals \<Rightarrow> json \<Rightarrow> (fold_error, string) result" where
  "projection_digest E value =
    and_then (ok_or (canonical_json E value) (InvalidHistory (Guards_rs 87)))
      (\<lambda>bytes. Inr (''sha256:'' @ sha256_hex E bytes))"

section \<open>What the guards establish\<close>

lemmas guard_defs =
  require_running_def require_running_or_cancelling_def require_operation_runtime_def
  require_operation_settlement_def require_failed_attempt_def
  validate_operation_terminal_identity_def require_active_operation_attempt_def
  projection_digest_def

lemma require_running_ok [ok_simps]: "require_running p = Inr u \<longleftrightarrow> p_status p = RunStatus_Running"
  by (simp add: require_running_def ok_simps)

lemma require_running_or_cancelling_ok [ok_simps]:
  "require_running_or_cancelling p = Inr u \<longleftrightarrow>
    p_status p = RunStatus_Running \<or> p_status p = RunStatus_Cancelling"
  by (simp add: require_running_or_cancelling_def ok_simps)

lemma require_operation_settlement_ok [ok_simps]:
  "require_operation_settlement p = Inr u \<longleftrightarrow>
    p_status p = RunStatus_Running \<or> p_status p = RunStatus_Cancelling
    \<or> p_status p = RunStatus_Finalizing"
  by (simp add: require_operation_settlement_def ok_simps)

lemma is_failed_iff: "is_failed s \<longleftrightarrow> (\<exists>f. s = AttemptStatus_Failed f)"
  by (cases s) auto

lemma identity_inject [simp]:
  "identity n a i = identity n' a' i' \<longleftrightarrow> n = n' \<and> a = a' \<and> i = i'"
  by (simp add: identity_def)

lemma identity_fields [simp]:
  "ai_node_id (identity n a i) = n" "ai_attempt (identity n a i) = a"
  "ai_invocation_id (identity n a i) = i"
  by (simp_all add: identity_def)

lemma identity_surj: "identity (ai_node_id k) (ai_attempt k) (ai_invocation_id k) = k"
  by (simp add: identity_def)

lemma started_attempt_fields [simp]:
  "ap_identity (started_attempt d) = identity (sast_node_id d) (sast_attempt d) (sast_invocation_id d)"
  "ap_handler (started_attempt d) = sast_handler d"
  "ap_idempotency_key (started_attempt d) = sast_idempotency_key d"
  "ap_status (started_attempt d) = AttemptStatus_Started"
  by (simp_all add: started_attempt_def)

text \<open>
  The preimage of a corrective invocation identity determines the run, the saga,
  the action and the attempt, as long as the identifiers contain no NUL byte: the
  digest is taken over an injective encoding.
\<close>

lemma append_NUL_inject:
  assumes "CHR 0x00 \<notin> set a" "CHR 0x00 \<notin> set b"
    and "a @ CHR 0x00 # s = b @ CHR 0x00 # t"
  shows "a = b \<and> s = t"
  using assms
proof (induction a arbitrary: b)
  case Nil
  then show ?case by (cases b) auto
next
  case (Cons x a)
  then show ?case by (cases b) auto
qed

lemma div_digit_eq:
  fixes a b :: nat
  assumes "a div 256 ^ Suc k = b div 256 ^ Suc k" "a div 256 ^ k mod 256 = b div 256 ^ k mod 256"
  shows "a div 256 ^ k = b div 256 ^ k"
proof -
  have "n div 256 ^ k div 256 = n div 256 ^ Suc k" for n :: nat
    by (simp add: div_mult2_eq [symmetric] mult.commute)
  then show ?thesis
    using assms by (metis mult_div_mod_eq)
qed

lemma char_of_mod_inject: "(char_of (m mod 256) :: char) = char_of (n mod 256) \<longleftrightarrow> m mod 256 = n mod 256"
  for m n :: nat
  by (metis byte_char_of mod_less_divisor zero_less_numeral)

lemma be_bytes_inject: "be_bytes a = be_bytes b \<longleftrightarrow> a = b"
proof
  assume "be_bytes a = be_bytes b"
  then have eq: "unat a div 256 ^ k mod 256 = unat b div 256 ^ k mod 256" if "k \<in> {0, 1, 2, 3}" for k
    using that unfolding be_bytes_def list.inject char_of_mod_inject by fastforce
  have "unat w div 256 ^ Suc 3 = 0" for w :: u32
    using unsigned_less[of w, where 'a = nat] by simp
  then have "unat a div 256 ^ 3 = unat b div 256 ^ 3"
    using div_digit_eq[of "unat a" 3 "unat b"] eq[of 3] by simp
  then have "unat a div 256 ^ 2 = unat b div 256 ^ 2"
    using div_digit_eq[of "unat a" 2 "unat b"] eq[of 2] by (simp add: numeral_3_eq_3 numeral_2_eq_2)
  then have "unat a div 256 ^ 1 = unat b div 256 ^ 1"
    using div_digit_eq[of "unat a" 1 "unat b"] eq[of 1] by (simp add: numeral_2_eq_2)
  then have "unat a = unat b"
    using div_digit_eq[of "unat a" 0 "unat b"] eq[of 0] by simp
  then show "a = b" by (simp add: word_unat_eq_iff)
qed simp

lemma correction_preimage_inject:
  assumes "CHR 0x00 \<notin> set run_id" "CHR 0x00 \<notin> set saga_id" "CHR 0x00 \<notin> set action_id"
    and "CHR 0x00 \<notin> set run_id'" "CHR 0x00 \<notin> set saga_id'" "CHR 0x00 \<notin> set action_id'"
    and eq: "correction_preimage run_id saga_id action_id attempt =
      correction_preimage run_id' saga_id' action_id' attempt'"
  shows "run_id = run_id' \<and> saga_id = saga_id' \<and> action_id = action_id' \<and> attempt = attempt'"
proof -
  have "run_id @ CHR 0x00 # saga_id @ CHR 0x00 # action_id @ CHR 0x00 # be_bytes attempt =
    run_id' @ CHR 0x00 # saga_id' @ CHR 0x00 # action_id' @ CHR 0x00 # be_bytes attempt'"
    using eq by (simp add: correction_preimage_def)
  then show ?thesis
    using assms append_NUL_inject be_bytes_inject by metis
qed

end
