(* ===== verification/Fold_Run.thy ===== *)
theory Fold_Run
  imports Fold_Guards
begin

text \<open>
  Admission, start, timeout, cancellation and the direct terminal events of a run
  (\<^verbatim>\<open>projection/fold_run.rs\<close>).
\<close>

definition apply_run_admitted ::
  "run_projection \<Rightarrow> run_event \<Rightarrow> run_admitted_data \<Rightarrow> nat \<Rightarrow> fold_result" where
  "apply_run_admitted p event data index =
    (if index \<noteq> 0 \<or> p_status p \<noteq> RunStatus_NotStarted then Inl (InvalidHistory (Fold_run_rs 27))
     else Inr (p\<lparr>
       p_run_id := Some (ev_run_id event),
       p_event_schema_version := Some (ev_event_schema_version event),
       p_definition_hash := Some (radm_definition_hash data),
       p_policy_hash := Some (radm_policy_hash data),
       p_trigger_id := Some (rat_id (radm_trigger data)),
       p_trigger_handler := Some (rat_handler (radm_trigger data)),
       p_context := (p_context p)\<lparr>ctx_trigger := radm_payload data\<rparr>,
       p_queue := Some (raq_name (radm_queue data)),
       p_occurrence_sequence := Some (radm_occurrence_sequence data),
       p_admitted_at := Some (radm_admitted_at data),
       p_status := RunStatus_Queued\<rparr>))"

definition apply_run_execution_started ::
  "run_projection \<Rightarrow> run_execution_started_data \<Rightarrow> fold_result" where
  "apply_run_execution_started p data =
    (if p_status p \<noteq> RunStatus_Queued \<or> is_some (p_started_at p)
     then Inl (InvalidHistory (Fold_run_rs 50))
     else Inr (p\<lparr>
       p_started_at := Some (res_started_at data),
       p_timeout_at := res_timeout_at data,
       p_status := RunStatus_Running\<rparr>))"

definition apply_run_timeout_reached ::
  "run_projection \<Rightarrow> run_timeout_reached_data \<Rightarrow> fold_result" where
  "apply_run_timeout_reached p data =
    (if p_status p \<notin> {RunStatus_Running, RunStatus_Waiting}
       \<or> p_timeout_at p \<noteq> Some (rtr_deadline_at data)
       \<or> is_some (p_timeout_reached_at p)
     then Inl (InvalidHistory (Fold_run_rs 68))
     else Inr (p\<lparr>p_timeout_reached_at := Some (rtr_deadline_at data)\<rparr>))"

definition apply_run_started ::
  "run_projection \<Rightarrow> run_event \<Rightarrow> run_started_data \<Rightarrow> nat \<Rightarrow> fold_result" where
  "apply_run_started p event data index =
    (if index \<noteq> 0 \<or> p_status p \<noteq> RunStatus_NotStarted then Inl (InvalidHistory (Fold_run_rs 83))
     else Inr (p\<lparr>
       p_run_id := Some (ev_run_id event),
       p_event_schema_version := Some (ev_event_schema_version event),
       p_workflow_id := Some (rst_workflow_id data),
       p_definition_hash := Some (rst_definition_hash data),
       p_trigger_id := rst_trigger_id data,
       p_trigger_handler := rst_trigger_handler data,
       p_trigger_occurrence_id := rst_trigger_occurrence_id data,
       p_ingress := rst_ingress data,
       p_context := (p_context p)\<lparr>ctx_trigger := rst_trigger data\<rparr>,
       p_started_at := Some (ev_occurred_at event),
       p_status := RunStatus_Running\<rparr>))"

definition apply_run_cancellation_requested ::
  "run_projection \<Rightarrow> run_cancellation_requested_data \<Rightarrow> fold_result" where
  "apply_run_cancellation_requested p data =
    (if p_status p \<notin> {RunStatus_Queued, RunStatus_Running, RunStatus_Waiting}
     then Inl (InvalidHistory (Fold_run_rs 109))
     else if is_some (p_cancellation_request_id p) then Inl (InvalidHistory (Fold_run_rs 114))
     else Inr (p\<lparr>
       p_cancellation_request_id := Some (rcr_request_id data),
       p_status := RunStatus_Cancelling\<rparr>))"

definition managed_operation_active :: "run_projection \<Rightarrow> bool" where
  "managed_operation_active p =
    list_ex (\<lambda>op. op_execution_mode op = OperationExecutionMode_Managed
      \<and> op_status op = OperationStatus_Started) (bt_values (p_operations p))"

definition terminal_output_exists :: "run_projection \<Rightarrow> string \<Rightarrow> bool" where
  "terminal_output_exists p terminal_node_id =
    (obj_contains (ctx_steps (p_context p)) terminal_node_id
     \<or> is_some_and (Option.bind (strip_prefix ''__woml_approval__'' terminal_node_id)
          (strip_suffix ''__join''))
        (\<lambda>approval_id. obj_contains (ctx_steps (p_context p)) approval_id))"

definition apply_run_succeeded :: "run_projection \<Rightarrow> run_succeeded_data \<Rightarrow> fold_result" where
  "apply_run_succeeded p data =
    and_then (require_running p) (\<lambda>_.
    if managed_operation_active p then Inl (InvalidHistory (Fold_run_rs 132))
    else if bt_entries (p_pending_retries p) \<noteq> [] then Inl (InvalidHistory (Fold_run_rs 137))
    else if \<not> terminal_output_exists p (rsu_terminal_node_id data)
    then Inl (InvalidHistory (Fold_run_rs 151))
    else Inr (p\<lparr>
      p_status := RunStatus_Succeeded,
      p_business_outcome := Some BusinessOutcome_Succeeded,
      p_lifecycle_status := LifecycleStatus_Completed,
      p_terminal_node_id := Some (rsu_terminal_node_id data),
      p_result := Some (rsu_result data)\<rparr>))"

section \<open>Direct failure\<close>

definition delivery_of :: "string \<Rightarrow> string \<Rightarrow> notification_delivery_projection \<Rightarrow> bool" where
  "delivery_of approval_id request_id d =
    (ndp_approval_id d = approval_id \<and> ndp_request_id d = request_id)"

fun finally_failed :: "notification_delivery_status \<Rightarrow> bool" where
  "finally_failed (NotificationDeliveryStatus_Failed _ _ final _ _) = final"
| "finally_failed _ = False"

fun delivery_succeeded :: "notification_delivery_status \<Rightarrow> bool" where
  "delivery_succeeded (NotificationDeliveryStatus_Succeeded _ _ _) = True"
| "delivery_succeeded _ = False"

definition actual_failed :: "run_projection \<Rightarrow> string \<Rightarrow> string \<Rightarrow> string list" where
  "actual_failed p approval_id request_id =
    map ndp_delivery_id
      (filter (\<lambda>d. finally_failed (ndp_status d))
        (filter (delivery_of approval_id request_id) (bt_values (p_notification_deliveries p))))"

definition run_failure_of ::
  "run_projection \<Rightarrow> attempt_indexes \<Rightarrow> run_failed_data \<Rightarrow> (fold_error, run_failure) result" where
  "run_failure_of p idx data = (case data of
     RunFailedData_V5 (RunFailedDataV5_Notification approval_id request_id failed_delivery_ids failure) \<Rightarrow>
       and_then (ok_or (bt_get (p_approval_requests p) approval_id) (InvalidHistory (Fold_run_rs 197)))
       (\<lambda>request.
         if arp_request_id request \<noteq> request_id
           \<or> list_ex (\<lambda>d. delivery_of approval_id request_id d \<and> delivery_succeeded (ndp_status d))
               (bt_values (p_notification_deliveries p))
           \<or> actual_failed p approval_id request_id \<noteq> failed_delivery_ids
         then Inl (InvalidHistory (Fold_run_rs 225))
         else Inr (RunFailure_Notification approval_id request_id failed_delivery_ids failure))
   | RunFailedData_V1 d \<Rightarrow>
       and_then
         (case (rf1_node_id d, rf1_attempt d, rf1_invocation_id d) of
            (Some node_id, Some attempt, Some invocation_id) \<Rightarrow>
              require_failed_attempt p idx node_id attempt invocation_id
          | _ \<Rightarrow> Inr ())
       (\<lambda>_. Inr (RunFailure_Attempt (rf1_failure d)))
   | RunFailedData_V2 (RunFailedDataV2_Attempt node_id attempt invocation_id failure) \<Rightarrow>
       and_then (require_failed_attempt p idx node_id attempt invocation_id)
       (\<lambda>_. Inr (RunFailure_Attempt failure))
   | RunFailedData_V2 (RunFailedDataV2_Branch _ _ _ failure) \<Rightarrow> Inr (RunFailure_Branch failure)
   | RunFailedData_V3 (RunFailedDataV3_Parallel parallel_id policy primary failed_ids cancelled_ids failure) \<Rightarrow>
       and_then (ok_or (bt_get (p_parallel_groups p) parallel_id) (InvalidHistory (Fold_run_rs 271)))
       (\<lambda>group.
         if pgp_status group
           = ParallelGroupStatus_Completed ParallelGroupOutcome_Failed failed_ids cancelled_ids
         then Inr (RunFailure_Parallel parallel_id policy primary failed_ids cancelled_ids failure)
         else Inl (InvalidHistory (Fold_run_rs 282)))
   | RunFailedData_V4 (RunFailedDataV4_Approval approval_id request_id failure) \<Rightarrow>
       and_then (ok_or (bt_get (p_approval_requests p) approval_id) (InvalidHistory (Fold_run_rs 305)))
       (\<lambda>request.
         if arp_request_id request \<noteq> request_id
           \<or> (case arp_status request of
                ApprovalRequestStatus_Resolved ApprovalResolution_TimeoutFailure _ \<Rightarrow> False
              | _ \<Rightarrow> True)
         then Inl (InvalidHistory (Fold_run_rs 318))
         else Inr (RunFailure_Approval approval_id request_id failure)))"

fun is_notification_failure :: "run_failed_data \<Rightarrow> bool" where
  "is_notification_failure (RunFailedData_V5 _) = True"
| "is_notification_failure _ = False"

definition apply_run_failed ::
  "run_projection \<Rightarrow> run_failed_data \<Rightarrow> attempt_indexes \<Rightarrow> fold_result" where
  "apply_run_failed p data idx =
    (if managed_operation_active p then Inl (InvalidHistory (Fold_run_rs 173))
     else
       and_then
         (if is_notification_failure data
          then require (p_status p = RunStatus_Waiting) (InvalidHistory (Fold_run_rs 179))
          else require_running p)
       (\<lambda>_. and_then (run_failure_of p idx data) (\<lambda>failure.
         Inr (p\<lparr>
           p_pending_retries := bt_empty,
           p_status := RunStatus_Failed,
           p_business_outcome := Some BusinessOutcome_Failed,
           p_lifecycle_status := LifecycleStatus_Completed,
           p_failure := Some failure\<rparr>))))"

lemmas fold_run_defs =
  apply_run_admitted_def apply_run_execution_started_def apply_run_timeout_reached_def
  apply_run_started_def apply_run_cancellation_requested_def apply_run_succeeded_def
  apply_run_failed_def

end
