(* ===== verification/Fold_Attempts.thy ===== *)
theory Fold_Attempts
  imports Fold_Guards
begin

text \<open>
  Step attempts and retries outside for-each iterations
  (\<^verbatim>\<open>projection/fold_attempts.rs\<close>).  The index of an attempt in the attempt list is
  kept in a map from attempt identities.
\<close>

definition RUN_EVENT_SCHEMA_VERSION_V6 :: u32 where
  "RUN_EVENT_SCHEMA_VERSION_V6 = 6"

text \<open>The match on the previous attempt and the pending retry (lines 59 to 78).\<close>

definition retry_matches ::
  "run_event \<Rightarrow> step_attempt_started_data \<Rightarrow> attempt_projection option
    \<Rightarrow> retry_schedule_projection option \<Rightarrow> (fold_error, unit) result" where
  "retry_matches event data previous schedule = (case (previous, schedule) of
     (None, None) \<Rightarrow> Inr ()
   | (Some prev, Some sch) \<Rightarrow>
       if is_failed (ap_status prev)
         \<and> rsp_failed_attempt sch = ai_attempt (ap_identity prev)
         \<and> rsp_next_attempt sch = sast_attempt data
         \<and> rsp_scheduled_at sch \<le> ev_occurred_at event
       then Inr ()
       else if ev_occurred_at event < rsp_scheduled_at sch
       then Inl (InvalidHistory (Fold_attempts_rs 67))
       else Inl (InvalidHistory (Fold_attempts_rs 73))
   | _ \<Rightarrow> Inl (InvalidHistory (Fold_attempts_rs 73)))"

definition first_idempotency_key :: "run_projection \<Rightarrow> string \<Rightarrow> string option" where
  "first_idempotency_key p node_id =
    Option.bind (List.find (\<lambda>a. ai_node_id (ap_identity a) = node_id) (p_attempts p))
      ap_idempotency_key"

definition apply_step_attempt_started ::
  "run_projection \<Rightarrow> run_event \<Rightarrow> step_attempt_started_data \<Rightarrow> attempt_indexes
    \<Rightarrow> (fold_error, run_projection \<times> attempt_indexes) result" where
  "apply_step_attempt_started p event data idx =
    and_then (require_running p) (\<lambda>_.
    if list_ex (\<lambda>a. ai_invocation_id (ap_identity a) = sast_invocation_id data) (p_attempts p)
    then Inl (InvalidHistory (Fold_attempts_rs 23))
    else if is_some_and (latest_attempt p (sast_node_id data))
        (\<lambda>a. ap_status a = AttemptStatus_Started)
    then Inl (InvalidHistory (Fold_attempts_rs 32))
    else
      and_then
        (if RUN_EVENT_SCHEMA_VERSION_V6 \<le> ev_event_schema_version event then
           (let previous = latest_attempt p (sast_node_id data);
                expected_attempt = (case previous of None \<Rightarrow> 1 | Some a \<Rightarrow> ai_attempt (ap_identity a) + 1)
            in
              if sast_attempt data \<noteq> expected_attempt then Inl (InvalidHistory (Fold_attempts_rs 41))
              else if is_some_and (first_idempotency_key p (sast_node_id data))
                  (\<lambda>first_key. sast_idempotency_key data \<noteq> Some first_key)
              then Inl (InvalidHistory (Fold_attempts_rs 53))
              else
                and_then
                  (retry_matches event data previous
                    (bt_get (p_pending_retries p) (sast_node_id data)))
                (\<lambda>_. Inr (p\<lparr>p_pending_retries :=
                       bt_remove (sast_node_id data) (p_pending_retries p)\<rparr>)))
         else Inr p)
      (\<lambda>p.
        let key = identity (sast_node_id data) (sast_attempt data) (sast_invocation_id data) in
        if is_some (idx key) then Inl (InvalidHistory (Fold_attempts_rs 83))
        else Inr (p\<lparr>p_attempts := p_attempts p @ [started_attempt data]\<rparr>,
                  idx(key \<mapsto> length (p_attempts p)))))"

definition apply_step_attempt_succeeded ::
  "run_projection \<Rightarrow> step_attempt_succeeded_data \<Rightarrow> attempt_indexes \<Rightarrow> fold_result" where
  "apply_step_attempt_succeeded p data idx =
    and_then (require_running p) (\<lambda>_.
    if active_managed_operations p (sasu_invocation_id data) \<noteq> []
    then Inl (InvalidHistory (Fold_attempts_rs 104))
    else
      and_then
        (ok_or (idx (identity (sasu_node_id data) (sasu_attempt data) (sasu_invocation_id data)))
          (InvalidHistory (Fold_attempts_rs 111)))
      (\<lambda>i. and_then (index_or_panic (p_attempts p) i (Fold_attempts_rs 116)) (\<lambda>attempt.
        if ap_status attempt \<noteq> AttemptStatus_Started then Inl (InvalidHistory (Fold_attempts_rs 118))
        else if obj_contains (ctx_steps (p_context p)) (sasu_node_id data)
        then Inl (InvalidHistory (Fold_attempts_rs 124))
        else Inr (p\<lparr>
          p_attempts := (p_attempts p)[i := attempt\<lparr>ap_status := AttemptStatus_Succeeded (sasu_output data)\<rparr>],
          p_context := (p_context p)\<lparr>ctx_steps :=
            obj_insert (sasu_node_id data) (sasu_output data) (ctx_steps (p_context p))\<rparr>\<rparr>))))"

definition apply_step_attempt_failed ::
  "run_projection \<Rightarrow> step_attempt_failed_data \<Rightarrow> attempt_indexes \<Rightarrow> fold_result" where
  "apply_step_attempt_failed p data idx =
    and_then (require_running_or_cancelling p) (\<lambda>_.
    if active_managed_operations p (saf_invocation_id data) \<noteq> []
    then Inl (InvalidHistory (Fold_attempts_rs 149))
    else
      and_then
        (ok_or (idx (identity (saf_node_id data) (saf_attempt data) (saf_invocation_id data)))
          (InvalidHistory (Fold_attempts_rs 156)))
      (\<lambda>i. and_then (index_or_panic (p_attempts p) i (Fold_attempts_rs 161)) (\<lambda>attempt.
        if ap_status attempt \<noteq> AttemptStatus_Started then Inl (InvalidHistory (Fold_attempts_rs 163))
        else Inr (p\<lparr>
          p_attempts := (p_attempts p)[i := attempt\<lparr>ap_status := AttemptStatus_Failed (saf_failure data)\<rparr>]\<rparr>))))"

definition closes_previous_failure :: "step_retry_scheduled_data \<Rightarrow> run_event option \<Rightarrow> bool" where
  "closes_previous_failure data previous_event =
    is_some_and previous_event (\<lambda>previous.
      case ev_payload previous of
        StepAttemptFailed failed \<Rightarrow>
          saf_node_id failed = srs_node_id data
          \<and> saf_attempt failed = srs_failed_attempt data
          \<and> af_kind (saf_failure failed) = AttemptFailureKind_ScriptThrew
      | _ \<Rightarrow> False)"

definition retry_schedule :: "step_retry_scheduled_data \<Rightarrow> retry_schedule_projection" where
  "retry_schedule data =
    \<lparr>rsp_node_id = srs_node_id data,
     rsp_failed_attempt = srs_failed_attempt data,
     rsp_next_attempt = srs_next_attempt data,
     rsp_scheduled_at = srs_scheduled_at data\<rparr>"

definition apply_step_retry_scheduled ::
  "run_projection \<Rightarrow> step_retry_scheduled_data \<Rightarrow> run_event option \<Rightarrow> fold_result" where
  "apply_step_retry_scheduled p data previous_event =
    and_then (require_running p) (\<lambda>_.
    if \<not> closes_previous_failure data previous_event
      \<or> \<not> is_some_and (latest_attempt p (srs_node_id data)) (\<lambda>a.
            ai_attempt (ap_identity a) = srs_failed_attempt data \<and> is_failed (ap_status a))
      \<or> srs_next_attempt data \<noteq> srs_failed_attempt data + 1
      \<or> bt_contains (p_pending_retries p) (srs_node_id data)
    then Inl (InvalidHistory (Fold_attempts_rs 200))
    else Inr (p\<lparr>p_pending_retries :=
      bt_insert (srs_node_id data) (retry_schedule data) (p_pending_retries p)\<rparr>))"

lemmas fold_attempts_defs =
  apply_step_attempt_started_def apply_step_attempt_succeeded_def apply_step_attempt_failed_def
  apply_step_retry_scheduled_def

end
