(* ===== verification/Fold_Locks.thy ===== *)
theory Fold_Locks
  imports Fold_Guards
begin

text \<open>
  Locks outside for-each iterations (\<^verbatim>\<open>projection/fold_locks.rs\<close>): a waiter is
  registered, then acquires, times out or is cancelled; an acquired lease is
  released or lost.
\<close>

definition waiting_lock :: "lock_wait_registered_data \<Rightarrow> lock_projection" where
  "waiting_lock data =
    \<lparr>lp_lock_id = lwr_lock_id data,
     lp_key = lwr_key data,
     lp_waiter_sequence = lwr_waiter_sequence data,
     lp_execution_identity = lwr_execution_identity data,
     lp_registered_at = lwr_registered_at data,
     lp_deadline = lwr_deadline data,
     lp_status = LockStatus_Waiting,
     lp_lease_id = None,
     lp_fencing_token = None,
     lp_acquired_at = None,
     lp_expires_at = None,
     lp_resolved_at = None\<rparr>"

definition acquired_lock :: "lock_acquired_data \<Rightarrow> lock_projection \<Rightarrow> lock_projection" where
  "acquired_lock data lock = lock\<lparr>
     lp_status := LockStatus_Held,
     lp_lease_id := Some (lacq_lease_id data),
     lp_fencing_token := Some (lacq_fencing_token data),
     lp_acquired_at := Some (lacq_acquired_at data),
     lp_expires_at := Some (lacq_expires_at data)\<rparr>"

definition holds_lease :: "lock_projection \<Rightarrow> string \<Rightarrow> string \<Rightarrow> string \<Rightarrow> bool" where
  "holds_lease lock key lease_id fencing_token =
    (lp_status lock = LockStatus_Held \<and> lp_key lock = key
     \<and> lp_lease_id lock = Some lease_id \<and> lp_fencing_token lock = Some fencing_token)"

definition resolve_lock :: "lock_status \<Rightarrow> instant \<Rightarrow> lock_projection \<Rightarrow> lock_projection" where
  "resolve_lock status at lock = lock\<lparr>lp_status := status, lp_resolved_at := Some at\<rparr>"

definition apply_lock_wait_registered ::
  "run_projection \<Rightarrow> lock_wait_registered_data \<Rightarrow> fold_result" where
  "apply_lock_wait_registered p data =
    and_then (require_running p) (\<lambda>_.
    if bt_contains (p_locks p) (lwr_lock_id data) then Inl (InvalidHistory (Fold_locks_rs 14))
    else Inr (p\<lparr>
      p_locks := bt_insert (lwr_lock_id data) (waiting_lock data) (p_locks p),
      p_status := RunStatus_Waiting\<rparr>))"

definition apply_lock_acquired :: "run_projection \<Rightarrow> lock_acquired_data \<Rightarrow> fold_result" where
  "apply_lock_acquired p data =
    (if p_status p \<noteq> RunStatus_Waiting then Inl (InvalidHistory (Fold_locks_rs 45))
     else
       and_then (ok_or (bt_get (p_locks p) (lacq_lock_id data)) (InvalidHistory (Fold_locks_rs 50)))
       (\<lambda>lock.
         if lp_status lock \<noteq> LockStatus_Waiting
           \<or> lp_key lock \<noteq> lacq_key data
           \<or> lp_execution_identity lock \<noteq> lacq_execution_identity data
         then Inl (InvalidHistory (Fold_locks_rs 56))
         else Inr (p\<lparr>
           p_locks := bt_insert (lacq_lock_id data) (acquired_lock data lock) (p_locks p),
           p_status := RunStatus_Running\<rparr>)))"

definition apply_lock_released :: "run_projection \<Rightarrow> lock_released_data \<Rightarrow> fold_result" where
  "apply_lock_released p data =
    and_then (require_running_or_cancelling p) (\<lambda>_.
    and_then (ok_or (bt_get (p_locks p) (lrel_lock_id data)) (InvalidHistory (Fold_locks_rs 77)))
    (\<lambda>lock.
      if \<not> holds_lease lock (lrel_key data) (lrel_lease_id data) (lrel_fencing_token data)
      then Inl (InvalidHistory (Fold_locks_rs 83))
      else Inr (p\<lparr>
        p_locks := bt_insert (lrel_lock_id data)
          (resolve_lock LockStatus_Released (lrel_released_at data) lock) (p_locks p),
        p_context := (p_context p)\<lparr>ctx_steps :=
          obj_insert (lrel_lock_id data) (lrel_result data) (ctx_steps (p_context p))\<rparr>,
        p_status := RunStatus_Running\<rparr>)))"

definition apply_lock_acquire_timed_out ::
  "run_projection \<Rightarrow> lock_acquire_timed_out_data \<Rightarrow> fold_result" where
  "apply_lock_acquire_timed_out p data =
    and_then (ok_or (bt_get (p_locks p) (lato_lock_id data)) (InvalidHistory (Fold_locks_rs 102)))
    (\<lambda>lock.
      if lp_status lock \<noteq> LockStatus_Waiting
        \<or> lp_key lock \<noteq> lato_key data
        \<or> lp_deadline lock \<noteq> lato_deadline data
      then Inl (InvalidHistory (Fold_locks_rs 105))
      else Inr (p\<lparr>
        p_locks := bt_insert (lato_lock_id data)
          (resolve_lock LockStatus_AcquireTimedOut (lato_resolved_at data) lock) (p_locks p),
        p_status := RunStatus_Running\<rparr>))"

definition apply_lock_acquisition_cancelled ::
  "run_projection \<Rightarrow> lock_acquisition_cancelled_data \<Rightarrow> fold_result" where
  "apply_lock_acquisition_cancelled p data =
    and_then (ok_or (bt_get (p_locks p) (lacan_lock_id data)) (InvalidHistory (Fold_locks_rs 120)))
    (\<lambda>lock.
      if lp_status lock \<noteq> LockStatus_Waiting \<or> lp_key lock \<noteq> lacan_key data
      then Inl (InvalidHistory (Fold_locks_rs 123))
      else Inr (p\<lparr>
        p_locks := bt_insert (lacan_lock_id data)
          (resolve_lock LockStatus_AcquisitionCancelled (lacan_cancelled_at data) lock) (p_locks p)\<rparr>))"

definition apply_lock_lease_lost :: "run_projection \<Rightarrow> lock_lease_lost_data \<Rightarrow> fold_result" where
  "apply_lock_lease_lost p data =
    and_then (ok_or (bt_get (p_locks p) (lll_lock_id data)) (InvalidHistory (Fold_locks_rs 137)))
    (\<lambda>lock.
      if \<not> holds_lease lock (lll_key data) (lll_lease_id data) (lll_fencing_token data)
      then Inl (InvalidHistory (Fold_locks_rs 144))
      else Inr (p\<lparr>
        p_locks := bt_insert (lll_lock_id data)
          (resolve_lock LockStatus_LeaseLost (lll_detected_at data) lock) (p_locks p),
        p_status := RunStatus_Running\<rparr>))"

lemmas fold_locks_defs =
  apply_lock_wait_registered_def apply_lock_acquired_def apply_lock_released_def
  apply_lock_acquire_timed_out_def apply_lock_acquisition_cancelled_def apply_lock_lease_lost_def

end
