(* ===== verification/Fold_Waits.thy ===== *)
theory Fold_Waits
  imports Fold_Guards
begin

text \<open>
  Durable waits and external signals (\<^verbatim>\<open>projection/fold_waits.rs\<close>).
\<close>

definition registered_wait :: "wait_registered_data \<Rightarrow> durable_wait_projection" where
  "registered_wait data =
    \<lparr>dwp_wait_id = wr_wait_id data,
     dwp_node_id = wr_node_id data,
     dwp_kind = wr_kind data,
     dwp_registered_at = wr_registered_at data,
     dwp_deadline = wr_deadline data,
     dwp_signals = (case wr_signals data of None \<Rightarrow> [] | Some s \<Rightarrow> s),
     dwp_correlation_digest = wr_correlation_digest data,
     dwp_status = DurableWaitStatus_Registered,
     dwp_resolved_at = None\<rparr>"

definition apply_wait_registered :: "run_projection \<Rightarrow> wait_registered_data \<Rightarrow> fold_result" where
  "apply_wait_registered p data =
    and_then (require_running p) (\<lambda>_.
    if bt_contains (p_durable_waits p) (wr_wait_id data) then Inl (InvalidHistory (Fold_waits_rs 15))
    else Inr (p\<lparr>
      p_durable_waits := bt_insert (wr_wait_id data) (registered_wait data) (p_durable_waits p),
      p_status := RunStatus_Waiting\<rparr>))"

definition apply_external_signal_received ::
  "run_projection \<Rightarrow> external_signal_received_data \<Rightarrow> fold_result" where
  "apply_external_signal_received p data =
    (if p_status p \<noteq> RunStatus_Waiting then Inl (InvalidHistory (Fold_waits_rs 43))
     else
       and_then (ok_or (bt_get (p_durable_waits p) (esr_wait_id data)) (InvalidHistory (Fold_waits_rs 48)))
       (\<lambda>wait.
         if dwp_status wait \<noteq> DurableWaitStatus_Registered
           \<or> \<not> list_ex (\<lambda>signal. signal = esr_signal data) (dwp_signals wait)
           \<or> list_ex (\<lambda>signal. esr_idempotency_digest signal = esr_idempotency_digest data
               \<or> esr_signal_id signal = esr_signal_id data) (p_external_signals p)
         then Inl (InvalidHistory (Fold_waits_rs 58))
         else Inr (p\<lparr>p_external_signals := p_external_signals p @ [data]\<rparr>)))"

definition wait_winner_proven :: "run_projection \<Rightarrow> durable_wait_projection \<Rightarrow> wait_satisfied_data \<Rightarrow> bool" where
  "wait_winner_proven p wait data = (case ws_winner data of
     DurableWaitWinner_Timer \<Rightarrow>
       dwp_kind wait \<in> {DurableWaitKind_Duration, DurableWaitKind_Until}
       \<and> \<not> is_none_or (dwp_deadline wait) (\<lambda>deadline. ws_resolved_at data < deadline)
   | DurableWaitWinner_Signal \<Rightarrow>
       list_ex (\<lambda>signal. esr_wait_id signal = ws_wait_id data
         \<and> esr_received_at signal \<le> ws_resolved_at data) (p_external_signals p))"

definition apply_wait_satisfied :: "run_projection \<Rightarrow> wait_satisfied_data \<Rightarrow> fold_result" where
  "apply_wait_satisfied p data =
    (if p_status p \<noteq> RunStatus_Waiting then Inl (InvalidHistory (Fold_waits_rs 71))
     else
       and_then (ok_or (bt_get (p_durable_waits p) (ws_wait_id data)) (InvalidHistory (Fold_waits_rs 79)))
       (\<lambda>wait.
         if dwp_status wait \<noteq> DurableWaitStatus_Registered \<or> \<not> wait_winner_proven p wait data
         then Inl (InvalidHistory (Fold_waits_rs 95))
         else Inr (p\<lparr>
           p_durable_waits := bt_insert (ws_wait_id data)
             (wait\<lparr>dwp_status := DurableWaitStatus_Satisfied (ws_winner data),
                   dwp_resolved_at := Some (ws_resolved_at data)\<rparr>) (p_durable_waits p),
           p_context := (p_context p)\<lparr>ctx_steps :=
             obj_insert (ws_wait_id data) (ws_result data) (ctx_steps (p_context p))\<rparr>,
           p_status := RunStatus_Running\<rparr>)))"

definition timed_out_output :: "externals \<Rightarrow> wait_timed_out_data \<Rightarrow> json" where
  "timed_out_output E data = JObject
    [(''status'', JString ''timed_out''),
     (''deadline'', JString (rfc3339_millis E (wto_deadline data))),
     (''resumedAt'', JString (rfc3339_millis E (wto_resolved_at data)))]"

definition apply_wait_timed_out ::
  "externals \<Rightarrow> run_projection \<Rightarrow> wait_timed_out_data \<Rightarrow> fold_result" where
  "apply_wait_timed_out E p data =
    (if p_status p \<noteq> RunStatus_Waiting then Inl (InvalidHistory (Fold_waits_rs 116))
     else
       and_then (ok_or (bt_get (p_durable_waits p) (wto_wait_id data)) (InvalidHistory (Fold_waits_rs 124)))
       (\<lambda>wait.
         if dwp_status wait \<noteq> DurableWaitStatus_Registered
           \<or> dwp_kind wait \<noteq> DurableWaitKind_Signal
           \<or> dwp_deadline wait \<noteq> Some (wto_deadline data)
         then Inl (InvalidHistory (Fold_waits_rs 130))
         else Inr (p\<lparr>
           p_durable_waits := bt_insert (wto_wait_id data)
             (wait\<lparr>dwp_status := DurableWaitStatus_TimedOut (wto_behavior data),
                   dwp_resolved_at := Some (wto_resolved_at data)\<rparr>) (p_durable_waits p),
           p_context :=
             (if wto_behavior data = DurableWaitTimeoutBehavior_Continue
              then (p_context p)\<lparr>ctx_steps :=
                obj_insert (wto_wait_id data) (timed_out_output E data) (ctx_steps (p_context p))\<rparr>
              else p_context p),
           p_status := RunStatus_Running\<rparr>)))"

definition apply_wait_cancelled :: "run_projection \<Rightarrow> wait_cancelled_data \<Rightarrow> fold_result" where
  "apply_wait_cancelled p data =
    and_then (ok_or (bt_get (p_durable_waits p) (wc_wait_id data)) (InvalidHistory (Fold_waits_rs 160)))
    (\<lambda>wait.
      if dwp_status wait \<noteq> DurableWaitStatus_Registered
        \<or> p_status p \<notin> {RunStatus_Waiting, RunStatus_Cancelling}
      then Inl (InvalidHistory (Fold_waits_rs 168))
      else Inr (p\<lparr>
        p_durable_waits := bt_insert (wc_wait_id data)
          (wait\<lparr>dwp_status := DurableWaitStatus_Cancelled,
                dwp_resolved_at := Some (wc_cancelled_at data)\<rparr>) (p_durable_waits p)\<rparr>))"

lemmas fold_waits_defs =
  apply_wait_registered_def apply_external_signal_received_def apply_wait_satisfied_def
  apply_wait_timed_out_def apply_wait_cancelled_def

end
