(* ===== verification/Fold_Operations.thy ===== *)
theory Fold_Operations
  imports Fold_Guards
begin

text \<open>
  Capability operations and infrastructure policy decisions
  (\<^verbatim>\<open>projection/fold_operations.rs\<close>).
\<close>

definition apply_infrastructure_policy_decision_recorded ::
  "run_projection \<Rightarrow> infrastructure_policy_decision_recorded_data \<Rightarrow> fold_result" where
  "apply_infrastructure_policy_decision_recorded p data =
    and_then (require_operation_settlement p) (\<lambda>_.
    if list_ex (\<lambda>existing. ipdr_decision_id (ipdrec_decision existing)
        = ipdr_decision_id (ipdrec_decision data)) (p_infrastructure_policy_decisions p)
    then Inl (InvalidHistory (Fold_operations_rs 19))
    else Inr (p\<lparr>p_infrastructure_policy_decisions :=
      p_infrastructure_policy_decisions p @ [data]\<rparr>))"

definition started_operation :: "operation_started_data \<Rightarrow> operation_projection" where
  "started_operation data =
    \<lparr>op_identity = OperationIdentity (ost_invocation_id data) (ost_call_id data),
     op_node_id = ost_node_id data,
     op_attempt_number = ost_attempt_number data,
     op_operation_key = ost_operation_key data,
     op_capability = ost_capability data,
     op_operation = ost_operation data,
     op_execution_mode = ost_execution_mode data,
     op_metadata = ost_metadata data,
     op_status = OperationStatus_Started\<rparr>"

definition apply_operation_started ::
  "externals \<Rightarrow> run_projection \<Rightarrow> operation_started_data \<Rightarrow> fold_result" where
  "apply_operation_started E p data =
    and_then (require_operation_runtime E p (ost_node_id data) (ost_attempt_number data)
      (ost_invocation_id data)) (\<lambda>_.
    and_then (require_active_operation_attempt E p (ost_node_id data) (ost_attempt_number data)
      (ost_invocation_id data)) (\<lambda>_.
    let key = OperationIdentity (ost_invocation_id data) (ost_call_id data) in
    if bt_contains (p_operations p) key then Inl (InvalidHistory (Fold_operations_rs 50))
    else if list_ex (\<lambda>op. oi_invocation_id (op_identity op) = ost_invocation_id data
        \<and> op_operation_key op = ost_operation_key data) (bt_values (p_operations p))
    then Inl (InvalidHistory (Fold_operations_rs 59))
    else Inr (p\<lparr>p_operations := bt_insert key (started_operation data) (p_operations p)\<rparr>)))"

definition apply_operation_succeeded ::
  "externals \<Rightarrow> run_projection \<Rightarrow> operation_succeeded_data \<Rightarrow> fold_result" where
  "apply_operation_succeeded E p data =
    and_then (require_operation_runtime E p (osu_node_id data) (osu_attempt_number data)
      (osu_invocation_id data)) (\<lambda>_.
    and_then (require_active_operation_attempt E p (osu_node_id data) (osu_attempt_number data)
      (osu_invocation_id data)) (\<lambda>_.
    let key = OperationIdentity (osu_invocation_id data) (osu_call_id data) in
    and_then (ok_or (bt_get (p_operations p) key) (InvalidHistory (Fold_operations_rs 102))) (\<lambda>op.
    and_then (validate_operation_terminal_identity op (osu_node_id data) (osu_attempt_number data)
      (osu_operation_key data) (osu_capability data) (osu_operation data) (osu_execution_mode data)) (\<lambda>_.
    Inr (p\<lparr>p_operations := bt_insert key
      (op\<lparr>op_metadata := osu_metadata data,
          op_status := OperationStatus_Succeeded (osu_duration_ms data) (osu_result_bytes data)
            (osu_result_digest data)\<rparr>) (p_operations p)\<rparr>)))))"

definition apply_operation_failed ::
  "externals \<Rightarrow> run_projection \<Rightarrow> operation_failed_data \<Rightarrow> fold_result" where
  "apply_operation_failed E p data =
    and_then (require_operation_settlement p) (\<lambda>_.
    and_then (require_active_operation_attempt E p (ofa_node_id data) (ofa_attempt_number data)
      (ofa_invocation_id data)) (\<lambda>_.
    let key = OperationIdentity (ofa_invocation_id data) (ofa_call_id data) in
    and_then (ok_or (bt_get (p_operations p) key) (InvalidHistory (Fold_operations_rs 138))) (\<lambda>op.
    and_then (validate_operation_terminal_identity op (ofa_node_id data) (ofa_attempt_number data)
      (ofa_operation_key data) (ofa_capability data) (ofa_operation data) (ofa_execution_mode data)) (\<lambda>_.
    Inr (p\<lparr>p_operations := bt_insert key
      (op\<lparr>op_metadata := ofa_metadata data,
          op_status := OperationStatus_Failed (ofa_duration_ms data) (ofa_failure data)\<rparr>)
      (p_operations p)\<rparr>)))))"

lemmas fold_operations_defs =
  apply_infrastructure_policy_decision_recorded_def apply_operation_started_def
  apply_operation_succeeded_def apply_operation_failed_def

end
