(* ===== verification/Fold_Correction.thy ===== *)
theory Fold_Correction
  imports Fold_Guards
begin

text \<open>
  Sagas: registration of compensations, correction attempts, retries and manual
  recovery (\<^verbatim>\<open>projection/fold_correction.rs\<close>).
\<close>

definition require_settled_operations ::
  "externals \<Rightarrow> run_projection \<Rightarrow> string \<Rightarrow> string \<Rightarrow> u32 \<Rightarrow> (fold_error, unit) result" where
  "require_settled_operations E p saga_id action_id attempt =
    (let invocation_id = correction_invocation_id E
           (case p_run_id p of None \<Rightarrow> [] | Some r \<Rightarrow> r) saga_id action_id attempt
     in require (\<not> list_ex (\<lambda>op. oi_invocation_id (op_identity op) = invocation_id
            \<and> op_status op = OperationStatus_Started) (bt_values (p_operations p)))
          (InvalidHistory (Fold_correction_rs 27)))"

definition apply_saga_started ::
  "run_projection \<Rightarrow> run_event \<Rightarrow> saga_identity_data \<Rightarrow> fold_result" where
  "apply_saga_started p event data =
    and_then (require_running p) (\<lambda>_.
    if bt_contains (p_sagas p) (si_saga_id data) then Inl (InvalidHistory (Fold_correction_rs 41))
    else Inr (p\<lparr>p_sagas := bt_insert (si_saga_id data)
      \<lparr>sp_saga_id = si_saga_id data,
       sp_phase = SagaPhase_Forward,
       sp_reason = None,
       sp_started_sequence = ev_sequence event,
       sp_forward_succeeded_sequence = None,
       sp_correction_completed_sequence = None,
       sp_actions = bt_empty\<rparr> (p_sagas p)\<rparr>))"

definition registered_action ::
  "string \<Rightarrow> corrective_action_kind \<Rightarrow> string option \<Rightarrow> u64 option \<Rightarrow> correction_action_projection" where
  "registered_action action_id kind for_step_id completion_sequence =
    \<lparr>cap_action_id = action_id,
     cap_action_kind = kind,
     cap_for_step_id = for_step_id,
     cap_completion_sequence = completion_sequence,
     cap_status = CorrectionActionStatus_Registered,
     cap_attempts = 0,
     cap_active_attempt = None,
     cap_retry_at = None,
     cap_failure_code = None,
     cap_ambiguous = False\<rparr>"

definition proven_forward_success ::
  "compensation_registered_data \<Rightarrow> run_event option \<Rightarrow> bool" where
  "proven_forward_success data previous_event =
    is_some_and previous_event (\<lambda>previous.
      case ev_payload previous of
        StepAttemptSucceeded succeeded \<Rightarrow>
          sasu_node_id succeeded = compr_for_step_id data
          \<and> ev_sequence previous = compr_completion_sequence data
      | _ \<Rightarrow> False)"

definition apply_compensation_registered ::
  "run_projection \<Rightarrow> run_event \<Rightarrow> compensation_registered_data \<Rightarrow> run_event option \<Rightarrow> fold_result" where
  "apply_compensation_registered p event data previous_event =
    and_then (require_running_or_cancelling p) (\<lambda>_.
    and_then (ok_or (bt_get (p_sagas p) (compr_saga_id data)) (InvalidHistory (Fold_correction_rs 69)))
    (\<lambda>saga.
      if sp_phase saga \<noteq> SagaPhase_Forward
        \<or> bt_contains (sp_actions saga) (compr_action_id data)
        \<or> ev_sequence event \<le> compr_completion_sequence data
        \<or> \<not> proven_forward_success data previous_event
      then Inl (InvalidHistory (Fold_correction_rs 81))
      else Inr (p\<lparr>p_sagas := bt_insert (compr_saga_id data)
        (saga\<lparr>sp_actions := bt_insert (compr_action_id data)
          (registered_action (compr_action_id data) CorrectiveActionKind_Compensation
            (Some (compr_for_step_id data)) (Some (compr_completion_sequence data)))
          (sp_actions saga)\<rparr>) (p_sagas p)\<rparr>)))"

definition apply_saga_forward_succeeded ::
  "run_projection \<Rightarrow> run_event \<Rightarrow> saga_identity_data \<Rightarrow> fold_result" where
  "apply_saga_forward_succeeded p event data =
    and_then (require_running p) (\<lambda>_.
    and_then (ok_or (bt_get (p_sagas p) (si_saga_id data)) (InvalidHistory (Fold_correction_rs 110)))
    (\<lambda>saga.
      if sp_phase saga \<noteq> SagaPhase_Forward then Inl (InvalidHistory (Fold_correction_rs 113))
      else Inr (p\<lparr>p_sagas := bt_insert (si_saga_id data)
        (saga\<lparr>sp_phase := SagaPhase_ForwardSucceeded,
              sp_forward_succeeded_sequence := Some (ev_sequence event)\<rparr>) (p_sagas p)\<rparr>)))"

definition apply_saga_correction_started ::
  "run_projection \<Rightarrow> saga_correction_started_data \<Rightarrow> fold_result" where
  "apply_saga_correction_started p data =
    and_then (require_running_or_cancelling p) (\<lambda>_.
    and_then (ok_or (bt_get (p_sagas p) (scs_saga_id data)) (InvalidHistory (Fold_correction_rs 128)))
    (\<lambda>saga.
      if sp_phase saga \<noteq>
        (case scs_reason data of
           SagaCorrectionReason_Success \<Rightarrow> SagaPhase_ForwardSucceeded
         | SagaCorrectionReason_Failure \<Rightarrow> SagaPhase_Forward
         | SagaCorrectionReason_Cancel \<Rightarrow> SagaPhase_Forward)
      then Inl (InvalidHistory (Fold_correction_rs 137))
      else Inr (p\<lparr>p_sagas := bt_insert (scs_saga_id data)
        (saga\<lparr>sp_phase := SagaPhase_Correcting, sp_reason := Some (scs_reason data)\<rparr>)
        (p_sagas p)\<rparr>)))"

definition in_correction :: "saga_projection \<Rightarrow> bool" where
  "in_correction saga = (sp_phase saga \<in> {SagaPhase_Correcting, SagaPhase_ManualRecovery})"

definition apply_correction_attempt_started ::
  "run_projection \<Rightarrow> run_event \<Rightarrow> correction_attempt_identity_data \<Rightarrow> fold_result" where
  "apply_correction_attempt_started p event data =
    and_then (require_running_or_cancelling p) (\<lambda>_.
    and_then (ok_or (bt_get (p_sagas p) (cai_saga_id data)) (InvalidHistory (Fold_correction_rs 153)))
    (\<lambda>saga.
      if \<not> in_correction saga
        \<or> list_ex (\<lambda>action. cap_status action = CorrectionActionStatus_Started)
            (bt_values (sp_actions saga))
      then Inl (InvalidHistory (Fold_correction_rs 163))
      else
        let action = (case bt_get (sp_actions saga) (cai_action_id data) of
              Some action \<Rightarrow> action
            | None \<Rightarrow> registered_action (cai_action_id data) (cai_action_kind data) None None)
        in
          if cap_action_kind action = cai_action_kind data
            \<and> cai_attempt data = cap_attempts action + 1
            \<and> cap_status action \<in> {CorrectionActionStatus_Registered,
                CorrectionActionStatus_RetryScheduled}
            \<and> is_none_or (cap_retry_at action) (\<lambda>retry_at. retry_at \<le> ev_occurred_at event)
          then Inr (p\<lparr>p_sagas := bt_insert (cai_saga_id data)
            (saga\<lparr>sp_actions := bt_insert (cai_action_id data)
              (action\<lparr>cap_attempts := cai_attempt data,
                      cap_active_attempt := Some (cai_attempt data),
                      cap_retry_at := None,
                      cap_status := CorrectionActionStatus_Started\<rparr>)
              (sp_actions saga)\<rparr>) (p_sagas p)\<rparr>)
          else Inl (InvalidHistory (Fold_correction_rs 192))))"

definition closes_active_attempt ::
  "correction_action_projection \<Rightarrow> corrective_action_kind \<Rightarrow> u32 \<Rightarrow> bool" where
  "closes_active_attempt action kind attempt =
    (cap_action_kind action = kind
     \<and> cap_status action = CorrectionActionStatus_Started
     \<and> cap_active_attempt action = Some attempt)"

definition apply_correction_attempt_succeeded ::
  "externals \<Rightarrow> run_projection \<Rightarrow> correction_attempt_identity_data \<Rightarrow> fold_result" where
  "apply_correction_attempt_succeeded E p data =
    and_then (require_settled_operations E p (cai_saga_id data) (cai_action_id data) (cai_attempt data)) (\<lambda>_.
    and_then (ok_or (bt_get (p_sagas p) (cai_saga_id data)) (InvalidHistory (Fold_correction_rs 209)))
    (\<lambda>saga.
    and_then (ok_or (bt_get (sp_actions saga) (cai_action_id data)) (InvalidHistory (Fold_correction_rs 214)))
    (\<lambda>action.
      if \<not> in_correction saga
        \<or> \<not> closes_active_attempt action (cai_action_kind data) (cai_attempt data)
      then Inl (InvalidHistory (Fold_correction_rs 222))
      else Inr (p\<lparr>p_sagas := bt_insert (cai_saga_id data)
        (saga\<lparr>sp_actions := bt_insert (cai_action_id data)
          (action\<lparr>cap_status := CorrectionActionStatus_Succeeded, cap_active_attempt := None\<rparr>)
          (sp_actions saga)\<rparr>) (p_sagas p)\<rparr>))))"

definition apply_correction_attempt_failed ::
  "externals \<Rightarrow> run_projection \<Rightarrow> correction_attempt_failed_data \<Rightarrow> fold_result" where
  "apply_correction_attempt_failed E p data =
    and_then (require_settled_operations E p (caf_saga_id data) (caf_action_id data) (caf_attempt data)) (\<lambda>_.
    and_then (ok_or (bt_get (p_sagas p) (caf_saga_id data)) (InvalidHistory (Fold_correction_rs 237)))
    (\<lambda>saga.
    and_then (ok_or (bt_get (sp_actions saga) (caf_action_id data)) (InvalidHistory (Fold_correction_rs 242)))
    (\<lambda>action.
      if \<not> in_correction saga
        \<or> \<not> closes_active_attempt action (caf_action_kind data) (caf_attempt data)
      then Inl (InvalidHistory (Fold_correction_rs 250))
      else Inr (p\<lparr>p_sagas := bt_insert (caf_saga_id data)
        (saga\<lparr>sp_actions := bt_insert (caf_action_id data)
          (action\<lparr>cap_status := CorrectionActionStatus_Failed,
                  cap_active_attempt := None,
                  cap_failure_code := Some (caf_code data),
                  cap_ambiguous := caf_ambiguous data\<rparr>)
          (sp_actions saga)\<rparr>) (p_sagas p)\<rparr>))))"

definition apply_correction_retry_scheduled ::
  "run_projection \<Rightarrow> correction_retry_scheduled_data \<Rightarrow> fold_result" where
  "apply_correction_retry_scheduled p data =
    and_then (ok_or (bt_get (p_sagas p) (crs_saga_id data)) (InvalidHistory (Fold_correction_rs 266)))
    (\<lambda>saga.
    and_then (ok_or (bt_get (sp_actions saga) (crs_action_id data)) (InvalidHistory (Fold_correction_rs 271)))
    (\<lambda>action.
      let automatic_retry = (sp_phase saga = SagaPhase_Correcting
            \<and> cap_status action = CorrectionActionStatus_Failed \<and> \<not> cap_ambiguous action);
          operator_retry = (sp_phase saga = SagaPhase_ManualRecovery
            \<and> cap_status action = CorrectionActionStatus_ManualRecovery \<and> cap_ambiguous action)
      in
        if cap_action_kind action \<noteq> crs_action_kind data
          \<or> cap_attempts action \<noteq> crs_attempt data
          \<or> \<not> (automatic_retry \<or> operator_retry)
        then Inl (InvalidHistory (Fold_correction_rs 282))
        else
          let saga = (if operator_retry then saga\<lparr>sp_phase := SagaPhase_Correcting\<rparr> else saga);
              action = (if operator_retry
                then action\<lparr>cap_ambiguous := False, cap_failure_code := None\<rparr> else action)
          in Inr (p\<lparr>p_sagas := bt_insert (crs_saga_id data)
            (saga\<lparr>sp_actions := bt_insert (crs_action_id data)
              (action\<lparr>cap_status := CorrectionActionStatus_RetryScheduled,
                      cap_retry_at := Some (crs_retry_at data)\<rparr>)
              (sp_actions saga)\<rparr>) (p_sagas p)\<rparr>)))"

definition apply_correction_interrupted ::
  "externals \<Rightarrow> run_projection \<Rightarrow> correction_interrupted_data \<Rightarrow> fold_result" where
  "apply_correction_interrupted E p data =
    and_then (require_settled_operations E p (cint_saga_id data) (cint_action_id data) (cint_attempt data)) (\<lambda>_.
    and_then (ok_or (bt_get (p_sagas p) (cint_saga_id data)) (InvalidHistory (Fold_correction_rs 303)))
    (\<lambda>saga.
    and_then (ok_or (bt_get (sp_actions saga) (cint_action_id data)) (InvalidHistory (Fold_correction_rs 306)))
    (\<lambda>action.
      if \<not> closes_active_attempt action (cint_action_kind data) (cint_attempt data)
      then Inl (InvalidHistory (Fold_correction_rs 312))
      else Inr (p\<lparr>p_sagas := bt_insert (cint_saga_id data)
        (saga\<lparr>sp_actions := bt_insert (cint_action_id data)
          (action\<lparr>cap_status := CorrectionActionStatus_Interrupted,
                  cap_active_attempt := None,
                  cap_ambiguous := cint_ambiguous data\<rparr>)
          (sp_actions saga)\<rparr>) (p_sagas p)\<rparr>))))"

definition apply_manual_recovery_required ::
  "run_projection \<Rightarrow> manual_recovery_required_data \<Rightarrow> fold_result" where
  "apply_manual_recovery_required p data =
    and_then (ok_or (bt_get (p_sagas p) (mrr_saga_id data)) (InvalidHistory (Fold_correction_rs 327)))
    (\<lambda>saga.
    and_then (ok_or (bt_get (sp_actions saga) (mrr_action_id data)) (InvalidHistory (Fold_correction_rs 330)))
    (\<lambda>action.
      if cap_action_kind action \<noteq> mrr_action_kind data
        \<or> cap_status action \<notin> {CorrectionActionStatus_Failed, CorrectionActionStatus_Interrupted}
        \<or> \<not> cap_ambiguous action
      then Inl (InvalidHistory (Fold_correction_rs 339))
      else Inr (p\<lparr>p_sagas := bt_insert (mrr_saga_id data)
        (saga\<lparr>sp_actions := bt_insert (mrr_action_id data)
            (action\<lparr>cap_status := CorrectionActionStatus_ManualRecovery,
                    cap_failure_code := Some (mrr_code data)\<rparr>)
            (sp_actions saga),
          sp_phase := SagaPhase_ManualRecovery\<rparr>) (p_sagas p)\<rparr>)))"

definition corrective_work_pending :: "saga_projection \<Rightarrow> bool" where
  "corrective_work_pending saga =
    (let success_exit = (sp_reason saga = Some SagaCorrectionReason_Success) in
     list_ex (\<lambda>action.
       cap_status action \<in> {CorrectionActionStatus_Started, CorrectionActionStatus_RetryScheduled}
       \<or> cap_status action = CorrectionActionStatus_Registered
         \<and> \<not> (success_exit \<and> cap_action_kind action = CorrectiveActionKind_Compensation))
       (bt_values (sp_actions saga)))"

definition apply_saga_correction_completed ::
  "run_projection \<Rightarrow> run_event \<Rightarrow> saga_identity_data \<Rightarrow> fold_result" where
  "apply_saga_correction_completed p event data =
    and_then (ok_or (bt_get (p_sagas p) (si_saga_id data)) (InvalidHistory (Fold_correction_rs 355)))
    (\<lambda>saga.
      if \<not> in_correction saga \<or> corrective_work_pending saga
      then Inl (InvalidHistory (Fold_correction_rs 368))
      else Inr (p\<lparr>p_sagas := bt_insert (si_saga_id data)
        (saga\<lparr>sp_phase := SagaPhase_CorrectionCompleted,
              sp_correction_completed_sequence := Some (ev_sequence event)\<rparr>) (p_sagas p)\<rparr>))"

lemmas fold_correction_defs =
  apply_saga_started_def apply_compensation_registered_def apply_saga_forward_succeeded_def
  apply_saga_correction_started_def apply_correction_attempt_started_def
  apply_correction_attempt_succeeded_def apply_correction_attempt_failed_def
  apply_correction_retry_scheduled_def apply_correction_interrupted_def
  apply_manual_recovery_required_def apply_saga_correction_completed_def

end
