(* ===== verification/Fold_Control_Flow.thy ===== *)
theory Fold_Control_Flow
  imports Fold_Guards
begin

text \<open>
  Branches, choices, forks, parallel groups and for-each loops
  (\<^verbatim>\<open>projection/fold_control_flow.rs\<close>).
\<close>

section \<open>Selections and forks\<close>

definition apply_branch_selected :: "run_projection \<Rightarrow> branch_selected_data \<Rightarrow> fold_result" where
  "apply_branch_selected p data =
    and_then (require_running p) (\<lambda>_.
    if bt_contains (p_branch_selections p) (brs_branch_id data)
    then Inl (InvalidHistory (Fold_control_flow_rs 23))
    else Inr (p\<lparr>p_branch_selections :=
      bt_insert (brs_branch_id data) (brs_arm_id data) (p_branch_selections p)\<rparr>))"

definition apply_choice_selected :: "run_projection \<Rightarrow> choice_selected_data \<Rightarrow> fold_result" where
  "apply_choice_selected p data =
    and_then (require_running p) (\<lambda>_.
    if bt_contains (p_choice_selections p) (chs_choice_id data)
    then Inl (InvalidHistory (Fold_control_flow_rs 40))
    else Inr (p\<lparr>p_choice_selections :=
      bt_insert (chs_choice_id data) (chs_arm_id data) (p_choice_selections p)\<rparr>))"

definition apply_fork_opened :: "run_projection \<Rightarrow> fork_opened_data \<Rightarrow> fold_result" where
  "apply_fork_opened p data =
    and_then (require_running p) (\<lambda>_.
    if bt_contains (p_forks p) (fo_fork_id data) then Inl (InvalidHistory (Fold_control_flow_rs 57))
    else Inr (p\<lparr>p_forks := bt_insert (fo_fork_id data)
      \<lparr>fp_fork_id = fo_fork_id data,
       fp_branches = bt_empty,
       fp_join_status = ForkJoinStatus_Pending,
       fp_blocking_branch_id = None\<rparr> (p_forks p)\<rparr>))"

definition apply_fork_branch_settled ::
  "run_projection \<Rightarrow> fork_branch_settled_data \<Rightarrow> fold_result" where
  "apply_fork_branch_settled p data =
    and_then (require_running_or_cancelling p) (\<lambda>_.
    and_then (ok_or (bt_get (p_forks p) (fbs_fork_id data)) (InvalidHistory (Fold_control_flow_rs 80)))
    (\<lambda>fork.
      if bt_contains (fp_branches fork) (fbs_branch_id data)
      then Inl (InvalidHistory (Fold_control_flow_rs 86))
      else Inr (p\<lparr>p_forks := bt_insert (fbs_fork_id data)
        (fork\<lparr>fp_branches := bt_insert (fbs_branch_id data)
          \<lparr>fbp_branch_id = fbs_branch_id data,
           fbp_terminal_node_id = Some (fbs_terminal_node_id data),
           fbp_outcome = Some (fbs_outcome data)\<rparr> (fp_branches fork)\<rparr>) (p_forks p)\<rparr>)))"

fun branch_outcome_proves :: "fork_join_outcome \<Rightarrow> fork_branch_outcome \<Rightarrow> bool" where
  "branch_outcome_proves ForkJoinOutcome_Failed b = (b = ForkBranchOutcome_Failed)"
| "branch_outcome_proves ForkJoinOutcome_Cancelled b = (b = ForkBranchOutcome_Cancelled)"
| "branch_outcome_proves ForkJoinOutcome_Succeeded b = False"

definition join_outcome_proven :: "fork_projection \<Rightarrow> fork_join_settled_data \<Rightarrow> bool" where
  "join_outcome_proven fork data =
    is_none_or (fjs_blocking_branch_id data) (\<lambda>blocking.
      is_some_and (Option.bind (bt_get (fp_branches fork) blocking) fbp_outcome)
        (branch_outcome_proves (fjs_outcome data)))"

fun join_status_of :: "fork_join_outcome \<Rightarrow> fork_join_status" where
  "join_status_of ForkJoinOutcome_Succeeded = ForkJoinStatus_Succeeded"
| "join_status_of ForkJoinOutcome_Failed = ForkJoinStatus_Failed"
| "join_status_of ForkJoinOutcome_Cancelled = ForkJoinStatus_Cancelled"

definition apply_fork_join_settled :: "run_projection \<Rightarrow> fork_join_settled_data \<Rightarrow> fold_result" where
  "apply_fork_join_settled p data =
    and_then (require_running_or_cancelling p) (\<lambda>_.
    and_then (ok_or (bt_get (p_forks p) (fjs_fork_id data)) (InvalidHistory (Fold_control_flow_rs 108)))
    (\<lambda>fork.
      if fp_join_status fork \<noteq> ForkJoinStatus_Pending
      then Inl (InvalidHistory (Fold_control_flow_rs 114))
      else if \<not> join_outcome_proven fork data then Inl (InvalidHistory (Fold_control_flow_rs 130))
      else Inr (p\<lparr>p_forks := bt_insert (fjs_fork_id data)
        (fork\<lparr>fp_join_status := join_status_of (fjs_outcome data),
              fp_blocking_branch_id := fjs_blocking_branch_id data\<rparr>) (p_forks p)\<rparr>)))"

section \<open>For-each loops\<close>

definition apply_for_each_opened :: "run_projection \<Rightarrow> for_each_opened_data \<Rightarrow> fold_result" where
  "apply_for_each_opened p data =
    and_then (require_running p) (\<lambda>_.
    if bt_contains (p_for_each p) (feo_for_each_id data)
    then Inl (InvalidHistory (Fold_control_flow_rs 151))
    else Inr (p\<lparr>p_for_each := bt_insert (feo_for_each_id data)
      \<lparr>fep_for_each_id = feo_for_each_id data,
       fep_total = feo_total data,
       fep_items_digest = feo_items_digest data,
       fep_concurrency = feo_concurrency data,
       fep_status = ForEachStatus_Open,
       fep_iterations = bt_empty,
       fep_executions = bt_empty\<rparr> (p_for_each p)\<rparr>))"

text \<open>\<^verbatim>\<open>event.iteration.as_ref().expect("validated iteration scope")\<close>.\<close>

definition expect_scope :: "run_event \<Rightarrow> nat \<Rightarrow> (fold_error, for_each_iteration_scope) result" where
  "expect_scope event line = ok_or (ev_iteration event) (Panic (Fold_control_flow_rs line))"

definition iteration_can_open :: "for_each_projection \<Rightarrow> u32 \<Rightarrow> bool" where
  "iteration_can_open loop index =
    (fep_status loop = ForEachStatus_Open \<and> index < fep_total loop
     \<and> \<not> bt_contains (fep_iterations loop) index)"

definition apply_for_each_iteration_started ::
  "run_projection \<Rightarrow> run_event \<Rightarrow> for_each_iteration_identity_data \<Rightarrow> fold_result" where
  "apply_for_each_iteration_started p event data =
    and_then (require_running p) (\<lambda>_.
    and_then (expect_scope event 177) (\<lambda>scope.
    and_then (ok_or (bt_get (p_for_each p) (feii_for_each_id data)) (InvalidHistory (Fold_control_flow_rs 182)))
    (\<lambda>loop.
      if \<not> iteration_can_open loop (scope_index scope)
      then Inl (InvalidHistory (Fold_control_flow_rs 191))
      else Inr (p\<lparr>p_for_each := bt_insert (feii_for_each_id data)
        (loop\<lparr>fep_iterations :=
            bt_insert (scope_index scope) ForEachIterationStatus_Started (fep_iterations loop),
          fep_executions :=
            bt_insert (scope_index scope)
              (empty_iteration_execution\<lparr>feix_context := p_context p\<rparr>) (fep_executions loop)\<rparr>)
        (p_for_each p)\<rparr>))))"

definition apply_for_each_iteration_succeeded ::
  "externals \<Rightarrow> run_projection \<Rightarrow> run_event \<Rightarrow> for_each_iteration_succeeded_data \<Rightarrow> fold_result" where
  "apply_for_each_iteration_succeeded E p event data =
    and_then (require_running p) (\<lambda>_.
    and_then (expect_scope event 215) (\<lambda>scope.
    and_then
      (case (feisu_result data, feisu_result_digest data) of
         (Some result, Some expected_digest) \<Rightarrow>
           and_then (projection_digest E result) (\<lambda>digest.
             require (digest = expected_digest) (InvalidHistory (Fold_control_flow_rs 218)))
       | _ \<Rightarrow> Inr ()) (\<lambda>_.
    and_then (ok_or (bt_get (p_for_each p) (feisu_for_each_id data)) (InvalidHistory (Fold_control_flow_rs 228)))
    (\<lambda>loop.
      if bt_get (fep_iterations loop) (scope_index scope) = Some ForEachIterationStatus_Started
      then Inr (p\<lparr>p_for_each := bt_insert (feisu_for_each_id data)
        (loop\<lparr>fep_iterations := bt_insert (scope_index scope)
          (ForEachIterationStatus_Succeeded (feisu_result data)) (fep_iterations loop)\<rparr>)
        (p_for_each p)\<rparr>)
      else Inl (InvalidHistory (Fold_control_flow_rs 237))))))"

definition apply_for_each_iteration_failed ::
  "run_projection \<Rightarrow> run_event \<Rightarrow> for_each_iteration_failed_data \<Rightarrow> fold_result" where
  "apply_for_each_iteration_failed p event data =
    and_then (require_running_or_cancelling p) (\<lambda>_.
    and_then (expect_scope event 252) (\<lambda>scope.
    and_then (ok_or (bt_get (p_for_each p) (feif_for_each_id data)) (InvalidHistory (Fold_control_flow_rs 257)))
    (\<lambda>loop.
      if bt_get (fep_iterations loop) (scope_index scope) = Some ForEachIterationStatus_Started
      then Inr (p\<lparr>p_for_each := bt_insert (feif_for_each_id data)
        (loop\<lparr>fep_iterations := bt_insert (scope_index scope)
            (ForEachIterationStatus_Failed (feif_failed_node_id data)) (fep_iterations loop),
          fep_executions := bt_update (scope_index scope)
            (\<lambda>execution. execution\<lparr>feix_pending_retries := bt_empty\<rparr>) (fep_executions loop)\<rparr>)
        (p_for_each p)\<rparr>)
      else Inl (InvalidHistory (Fold_control_flow_rs 269)))))"

definition apply_for_each_iteration_skipped ::
  "run_projection \<Rightarrow> run_event \<Rightarrow> for_each_iteration_skipped_data \<Rightarrow> fold_result" where
  "apply_for_each_iteration_skipped p event data =
    and_then (require_running_or_cancelling p) (\<lambda>_.
    and_then (expect_scope event 284) (\<lambda>scope.
    and_then (ok_or (bt_get (p_for_each p) (feisk_for_each_id data)) (InvalidHistory (Fold_control_flow_rs 289)))
    (\<lambda>loop.
      if \<not> iteration_can_open loop (scope_index scope)
      then Inl (InvalidHistory (Fold_control_flow_rs 295))
      else Inr (p\<lparr>p_for_each := bt_insert (feisk_for_each_id data)
        (loop\<lparr>fep_iterations := bt_insert (scope_index scope) ForEachIterationStatus_Skipped
          (fep_iterations loop)\<rparr>) (p_for_each p)\<rparr>))))"

subsection \<open>Settlement\<close>

fun iteration_succeeded :: "for_each_iteration_status \<Rightarrow> bool" where
  "iteration_succeeded (ForEachIterationStatus_Succeeded _) = True"
| "iteration_succeeded _ = False"

fun iteration_failed :: "for_each_iteration_status \<Rightarrow> bool" where
  "iteration_failed (ForEachIterationStatus_Failed _) = True"
| "iteration_failed _ = False"

definition iteration_skipped :: "for_each_iteration_status \<Rightarrow> bool" where
  "iteration_skipped s = (s = ForEachIterationStatus_Skipped)"

text \<open>\<^verbatim>\<open>values().filter(..).count() as u32\<close>.\<close>

definition count_iterations :: "(for_each_iteration_status \<Rightarrow> bool) \<Rightarrow> for_each_projection \<Rightarrow> u32" where
  "count_iterations P loop = of_nat (length (filter P (bt_values (fep_iterations loop))))"

definition execution_owns_work :: "for_each_iteration_execution_projection \<Rightarrow> bool" where
  "execution_owns_work x =
    (bt_entries (feix_pending_retries x) \<noteq> []
     \<or> list_ex (\<lambda>a. ap_status a = AttemptStatus_Started) (feix_attempts x)
     \<or> list_ex (\<lambda>op. op_status op = OperationStatus_Started) (bt_values (feix_operations x))
     \<or> list_ex (\<lambda>hook. lhp_status hook \<in> {LifecycleHookStatus_Requested, LifecycleHookStatus_Running})
         (bt_values (feix_lifecycle_hooks x))
     \<or> list_ex (\<lambda>hook. rlp_status hook \<in> {ReusableLifecycleStatus_Requested, ReusableLifecycleStatus_Running})
         (bt_values (feix_reusable_lifecycle_hooks x))
     \<or> list_ex (\<lambda>grp. pgp_status grp = ParallelGroupStatus_Started)
         (bt_values (feix_parallel_groups x)))"

definition owns_active_work :: "for_each_projection \<Rightarrow> bool" where
  "owns_active_work loop = list_ex execution_owns_work (bt_values (fep_executions loop))"

definition ordered_results :: "for_each_projection \<Rightarrow> json list" where
  "ordered_results loop =
    List.map_filter (\<lambda>index.
      case bt_get (fep_iterations loop) (of_nat index) of
        Some (ForEachIterationStatus_Succeeded (Some result)) \<Rightarrow> Some result
      | _ \<Rightarrow> None) [0 ..< unat (fep_total loop)]"

definition json_u32 :: "u32 \<Rightarrow> json" where
  "json_u32 w = JNumber (PosInt (ucast w))"

definition for_each_output :: "for_each_projection \<Rightarrow> json" where
  "for_each_output loop = JObject
    ([(''total'', json_u32 (fep_total loop)),
      (''succeeded'', json_u32 (count_iterations iteration_succeeded loop))]
     @ (if ordered_results loop \<noteq> [] then [(''results'', JArray (ordered_results loop))] else []))"

definition apply_for_each_settled ::
  "externals \<Rightarrow> run_projection \<Rightarrow> run_event \<Rightarrow> for_each_settled_data \<Rightarrow> fold_result" where
  "apply_for_each_settled E p event data =
    and_then (require_running_or_cancelling p) (\<lambda>_.
    let is_success = (case ev_payload event of ForEachSucceeded _ \<Rightarrow> True | _ \<Rightarrow> False);
        is_cancelled = (case ev_payload event of ForEachCancelled _ \<Rightarrow> True | _ \<Rightarrow> False)
    in
    and_then (ok_or (bt_get (p_for_each p) (fes_for_each_id data)) (InvalidHistory (Fold_control_flow_rs 317)))
    (\<lambda>loop.
      let succeeded = count_iterations iteration_succeeded loop;
          failed = count_iterations iteration_failed loop;
          skipped = count_iterations iteration_skipped loop
      in
        if fep_status loop \<noteq> ForEachStatus_Open
          \<or> fes_total data \<noteq> fep_total loop
          \<or> (fes_succeeded data, fes_failed data, fes_skipped data) \<noteq> (succeeded, failed, skipped)
          \<or> succeeded + failed + skipped \<noteq> fep_total loop
          \<or> is_success \<and> (failed \<noteq> 0 \<or> skipped \<noteq> 0)
          \<or> owns_active_work loop
        then Inl (InvalidHistory (Fold_control_flow_rs 410))
        else
          let loop' = loop\<lparr>fep_status :=
                (if is_success then ForEachStatus_Succeeded
                 else if is_cancelled then ForEachStatus_Cancelled
                 else ForEachStatus_Failed)\<rparr>;
              p' = p\<lparr>p_for_each := bt_insert (fes_for_each_id data) loop' (p_for_each p)\<rparr>
          in
            if is_success then
              and_then (projection_digest E (for_each_output loop)) (\<lambda>digest.
                if digest \<noteq> fes_aggregate_digest data
                then Inl (InvalidHistory (Fold_control_flow_rs 439))
                else Inr (p'\<lparr>p_context := (p_context p)\<lparr>ctx_steps :=
                  obj_insert (fes_for_each_id data) (for_each_output loop) (ctx_steps (p_context p))\<rparr>\<rparr>))
            else Inr p'))"

section \<open>Parallel groups\<close>

definition started_group :: "string \<Rightarrow> workflow_context \<Rightarrow> parallel_group_projection" where
  "started_group parallel_id context =
    \<lparr>pgp_parallel_id = parallel_id, pgp_fork_context = context,
     pgp_status = ParallelGroupStatus_Started\<rparr>"

definition completed_group ::
  "parallel_group_completed_data \<Rightarrow> parallel_group_projection \<Rightarrow> parallel_group_projection" where
  "completed_group data grp = grp\<lparr>pgp_status :=
     ParallelGroupStatus_Completed (pgc_outcome data) (pgc_failed_node_ids data)
       (pgc_cancelled_node_ids data)\<rparr>"

definition apply_parallel_group_started ::
  "run_projection \<Rightarrow> parallel_group_started_data \<Rightarrow> fold_result" where
  "apply_parallel_group_started p data =
    and_then (require_running p) (\<lambda>_.
    if bt_contains (p_parallel_groups p) (pgs_parallel_id data)
    then Inl (InvalidHistory (Fold_control_flow_rs 458))
    else Inr (p\<lparr>p_parallel_groups := bt_insert (pgs_parallel_id data)
      (started_group (pgs_parallel_id data) (p_context p)) (p_parallel_groups p)\<rparr>))"

definition apply_parallel_group_completed ::
  "run_projection \<Rightarrow> parallel_group_completed_data \<Rightarrow> fold_result" where
  "apply_parallel_group_completed p data =
    and_then (require_running_or_cancelling p) (\<lambda>_.
    and_then (ok_or (bt_get (p_parallel_groups p) (pgc_parallel_id data))
      (InvalidHistory (Fold_control_flow_rs 483))) (\<lambda>grp.
      if pgp_status grp \<noteq> ParallelGroupStatus_Started
      then Inl (InvalidHistory (Fold_control_flow_rs 489))
      else Inr (p\<lparr>p_parallel_groups := bt_insert (pgc_parallel_id data)
        (completed_group data grp) (p_parallel_groups p)\<rparr>)))"

lemmas fold_control_flow_defs =
  apply_branch_selected_def apply_choice_selected_def apply_fork_opened_def
  apply_fork_branch_settled_def apply_fork_join_settled_def apply_for_each_opened_def
  apply_for_each_iteration_started_def apply_for_each_iteration_succeeded_def
  apply_for_each_iteration_failed_def apply_for_each_iteration_skipped_def
  apply_for_each_settled_def apply_parallel_group_started_def apply_parallel_group_completed_def

end
