(* ===== verification/Fold_Approvals.thy ===== *)
theory Fold_Approvals
  imports Event_Identities Fold_Guards Fold_Control_Flow
begin

text \<open>
  Basic and rich approvals (\<^verbatim>\<open>projection/fold_approvals.rs\<close>).
\<close>

definition apply_approval_requested ::
  "run_projection \<Rightarrow> run_event \<Rightarrow> approval_requested_data \<Rightarrow> fold_result" where
  "apply_approval_requested p event data =
    and_then (require_running p) (\<lambda>_.
    if bt_contains (p_approval_requests p) (areq_approval_id data)
    then Inl (InvalidHistory (Fold_approvals_rs 24))
    else if list_ex (\<lambda>request. arp_request_id request = areq_request_id data)
      (bt_values (p_approval_requests p))
    then Inl (InvalidHistory (Fold_approvals_rs 34))
    else Inr (p\<lparr>
      p_approval_requests := bt_insert (areq_approval_id data)
        \<lparr>arp_approval_id = areq_approval_id data,
         arp_request_id = areq_request_id data,
         arp_requested_at = ev_occurred_at event,
         arp_expires_at = areq_expires_at data,
         arp_on_timeout = areq_on_timeout data,
         arp_status = ApprovalRequestStatus_Waiting\<rparr> (p_approval_requests p),
      p_status := RunStatus_Waiting\<rparr>))"

definition apply_approval_review_requested ::
  "run_projection \<Rightarrow> run_event \<Rightarrow> approval_review_requested_data \<Rightarrow> fold_result" where
  "apply_approval_review_requested p event data =
    and_then (require_running p) (\<lambda>_.
    if bt_contains (p_rich_approval_requests p) (arvr_approval_id data)
      \<or> list_ex (\<lambda>request. rarp_request_id request = arvr_request_id data)
          (bt_values (p_rich_approval_requests p))
    then Inl (InvalidHistory (Fold_approvals_rs 68))
    else Inr (p\<lparr>
      p_rich_approval_requests := bt_insert (arvr_approval_id data)
        \<lparr>rarp_approval_id = arvr_approval_id data,
         rarp_request_id = arvr_request_id data,
         rarp_review_digest = arvr_review_digest data,
         rarp_directory_version = arvr_directory_version data,
         rarp_required = arvr_required data,
         rarp_required_roles = arvr_required_roles data,
         rarp_represented_roles = [],
         rarp_requested_at = ev_occurred_at event,
         rarp_resolved_at = None,
         rarp_status = RichApprovalRequestStatus_Waiting,
         rarp_decisions = bt_empty\<rparr> (p_rich_approval_requests p),
      p_status := RunStatus_Waiting\<rparr>))"

definition apply_approval_reviewer_decision_recorded ::
  "run_projection \<Rightarrow> run_event \<Rightarrow> approval_reviewer_decision_recorded_data \<Rightarrow> fold_result" where
  "apply_approval_reviewer_decision_recorded p event data =
    and_then (ok_or (bt_get (p_rich_approval_requests p) (ardr_approval_id data))
      (InvalidHistory (Fold_approvals_rs 101))) (\<lambda>request.
    if p_status p \<noteq> RunStatus_Waiting
      \<or> rarp_status request \<noteq> RichApprovalRequestStatus_Waiting
      \<or> rarp_request_id request \<noteq> ardr_request_id data
      \<or> rarp_review_digest request \<noteq> ardr_review_digest data
      \<or> bt_contains (rarp_decisions request) (ardr_principal_id data)
    then Inl (InvalidHistory (Fold_approvals_rs 111))
    else Inr (p\<lparr>p_rich_approval_requests := bt_insert (ardr_approval_id data)
      (request\<lparr>rarp_decisions := bt_insert (ardr_principal_id data)
        \<lparr>rardp_principal_id = ardr_principal_id data,
         rardp_decision = ardr_decision data,
         rardp_decided_at = ev_occurred_at event\<rparr> (rarp_decisions request)\<rparr>)
      (p_rich_approval_requests p)\<rparr>))"

definition approved_count :: "rich_approval_request_projection \<Rightarrow> u32" where
  "approved_count request =
    of_nat (length (filter (\<lambda>d. rardp_decision d = ApprovalDecision_Approved)
      (bt_values (rarp_decisions request))))"

definition apply_approval_quorum_progressed ::
  "run_projection \<Rightarrow> approval_quorum_progressed_data \<Rightarrow> fold_result" where
  "apply_approval_quorum_progressed p data =
    and_then (ok_or (bt_get (p_rich_approval_requests p) (aqp_approval_id data))
      (InvalidHistory (Fold_approvals_rs 134))) (\<lambda>request.
    if rarp_status request \<noteq> RichApprovalRequestStatus_Waiting
      \<or> rarp_request_id request \<noteq> aqp_request_id data
      \<or> rarp_review_digest request \<noteq> aqp_review_digest data
      \<or> rarp_required request \<noteq> aqp_required data
      \<or> rarp_required_roles request \<noteq> aqp_required_roles data
      \<or> approved_count request \<noteq> aqp_received data
    then Inl (InvalidHistory (Fold_approvals_rs 148))
    else Inr (p\<lparr>p_rich_approval_requests := bt_insert (aqp_approval_id data)
      (request\<lparr>rarp_represented_roles := aqp_represented_roles data\<rparr>)
      (p_rich_approval_requests p)\<rparr>))"

section \<open>Resolution\<close>

fun decision_text :: "approval_decision \<Rightarrow> string" where
  "decision_text ApprovalDecision_Approved = ''approved''"
| "decision_text ApprovalDecision_Rejected = ''rejected''"

fun decision_source_text :: "approval_decision_source \<Rightarrow> string" where
  "decision_source_text ApprovalDecisionSource_Human = ''human''"
| "decision_source_text ApprovalDecisionSource_Timeout = ''timeout''"

fun rich_status_of :: "rich_approval_resolution_reason \<Rightarrow> rich_approval_request_status" where
  "rich_status_of RichApprovalResolutionReason_Quorum = RichApprovalRequestStatus_Approved"
| "rich_status_of RichApprovalResolutionReason_Rejection = RichApprovalRequestStatus_Rejected"
| "rich_status_of RichApprovalResolutionReason_Timeout = RichApprovalRequestStatus_Expired"
| "rich_status_of RichApprovalResolutionReason_Cancellation = RichApprovalRequestStatus_Cancelled"
| "rich_status_of RichApprovalResolutionReason_ArtifactInvalidated = RichApprovalRequestStatus_Invalidated"

definition rich_output ::
  "externals \<Rightarrow> run_event \<Rightarrow> approval_decision \<Rightarrow> rich_approval_request_projection \<Rightarrow> u32 \<Rightarrow> json" where
  "rich_output E event decision request received = JObject
    [(''decision'', JString (decision_text decision)),
     (''source'', JString ''human''),
     (''decidedAt'', JString (rfc3339_millis E (ev_occurred_at event))),
     (''review'', JObject [(''digest'', JString (rarp_review_digest request))]),
     (''authority'', JObject
       [(''required'', json_u32 (rarp_required request)),
        (''received'', json_u32 received),
        (''requiredRoles'', JArray (map JString (rarp_required_roles request)))])]"

definition apply_rich_approval_resolved ::
  "externals \<Rightarrow> run_projection \<Rightarrow> run_event \<Rightarrow> approval_resolved_data \<Rightarrow> fold_result" where
  "apply_rich_approval_resolved E p event data =
    and_then (ok_or (bt_get (p_rich_approval_requests p) (ares_approval_id data))
      (InvalidHistory (Fold_approvals_rs 166))) (\<lambda>request.
    and_then (ok_or (ares_decision data) (InvalidHistory (Fold_approvals_rs 171))) (\<lambda>decision.
    let cancellation_resolution =
          (ares_reason data = Some RichApprovalResolutionReason_Cancellation
           \<and> p_status p = RunStatus_Cancelling)
    in
    if p_status p \<noteq> RunStatus_Waiting \<and> \<not> cancellation_resolution
      \<or> rarp_status request \<noteq> RichApprovalRequestStatus_Waiting
      \<or> rarp_request_id request \<noteq> ares_request_id data
      \<or> ares_review_digest data \<noteq> Some (rarp_review_digest request)
      \<or> ares_required data \<noteq> Some (rarp_required request)
      \<or> ares_required_roles data \<noteq> Some (rarp_required_roles request)
    then Inl (InvalidHistory (Fold_approvals_rs 183))
    else
      and_then (ok_or (ares_reason data) (InvalidHistory (Fold_approvals_rs 199))) (\<lambda>reason.
      Inr (p\<lparr>
        p_rich_approval_requests := bt_insert (ares_approval_id data)
          (request\<lparr>
            rarp_represented_roles :=
              (case ares_represented_roles data of None \<Rightarrow> [] | Some roles \<Rightarrow> roles),
            rarp_status := rich_status_of reason,
            rarp_resolved_at := Some (ev_occurred_at event)\<rparr>) (p_rich_approval_requests p),
        p_context := (p_context p)\<lparr>ctx_steps := obj_insert (ares_approval_id data)
          (rich_output E event decision request
            (case ares_received data of None \<Rightarrow> 0 | Some n \<Rightarrow> n)) (ctx_steps (p_context p))\<rparr>,
        p_status := (if cancellation_resolution then RunStatus_Cancelling else RunStatus_Running)\<rparr>))))"

definition deadline_reached :: "approval_request_projection \<Rightarrow> run_event \<Rightarrow> bool" where
  "deadline_reached request event =
    is_some_and (arp_expires_at request) (\<lambda>deadline. deadline \<le> ev_occurred_at event)"

text \<open>The match on the resolution (lines 259 to 294).\<close>

definition resolution_allowed ::
  "approval_request_projection \<Rightarrow> run_event \<Rightarrow> approval_resolution \<Rightarrow> (fold_error, unit) result" where
  "resolution_allowed request event resolution = (case resolution of
     ApprovalResolution_Decision _ ApprovalDecisionSource_Human \<Rightarrow>
       if deadline_reached request event then Inl (InvalidHistory (Fold_approvals_rs 267)) else Inr ()
   | ApprovalResolution_Decision ApprovalDecision_Rejected ApprovalDecisionSource_Timeout \<Rightarrow>
       require (arp_on_timeout request = ApprovalTimeoutPolicy_Reject \<and> deadline_reached request event)
         (InvalidHistory (Fold_approvals_rs 289))
   | ApprovalResolution_TimeoutFailure \<Rightarrow>
       require (arp_on_timeout request = ApprovalTimeoutPolicy_Fail \<and> deadline_reached request event)
         (InvalidHistory (Fold_approvals_rs 289))
   | _ \<Rightarrow> Inl (InvalidHistory (Fold_approvals_rs 289)))"

definition publish_decision ::
  "externals \<Rightarrow> run_event \<Rightarrow> string \<Rightarrow> approval_resolution \<Rightarrow> workflow_context \<Rightarrow> workflow_context" where
  "publish_decision E event approval_id resolution ctx = (case resolution of
     ApprovalResolution_Decision decision source \<Rightarrow>
       ctx\<lparr>ctx_steps := obj_insert approval_id (JObject
         [(''decision'', JString (decision_text decision)),
          (''source'', JString (decision_source_text source)),
          (''decidedAt'', JString (rfc3339_millis E (ev_occurred_at event)))]) (ctx_steps ctx)\<rparr>
   | ApprovalResolution_TimeoutFailure \<Rightarrow> ctx)"

definition apply_basic_approval_resolved ::
  "externals \<Rightarrow> run_projection \<Rightarrow> run_event \<Rightarrow> approval_resolved_data \<Rightarrow> fold_result" where
  "apply_basic_approval_resolved E p event data =
    (if p_status p \<noteq> RunStatus_Waiting then Inl (InvalidHistory (Fold_approvals_rs 231))
     else
       and_then (ok_or (bt_get (p_approval_requests p) (ares_approval_id data))
         (InvalidHistory (Fold_approvals_rs 239))) (\<lambda>request.
       if arp_request_id request \<noteq> ares_request_id data then Inl (InvalidHistory (Fold_approvals_rs 245))
       else if arp_status request \<noteq> ApprovalRequestStatus_Waiting
       then Inl (InvalidHistory (Fold_approvals_rs 251))
       else
         and_then (ok_or (ares_resolution data) (InvalidHistory (Fold_approvals_rs 257))) (\<lambda>resolution.
         and_then (resolution_allowed request event resolution) (\<lambda>_.
         Inr (p\<lparr>
           p_context := publish_decision E event (ares_approval_id data) resolution (p_context p),
           p_approval_requests := bt_insert (ares_approval_id data)
             (request\<lparr>arp_status := ApprovalRequestStatus_Resolved resolution (ev_occurred_at event)\<rparr>)
             (p_approval_requests p),
           p_status := RunStatus_Running\<rparr>)))))"

definition apply_approval_resolved ::
  "externals \<Rightarrow> run_projection \<Rightarrow> run_event \<Rightarrow> approval_resolved_data \<Rightarrow> fold_result" where
  "apply_approval_resolved E p event data =
    (if is_rich data then apply_rich_approval_resolved E p event data
     else apply_basic_approval_resolved E p event data)"

definition apply_approval_invalidated :: "run_projection \<Rightarrow> approval_invalidated_data \<Rightarrow> fold_result" where
  "apply_approval_invalidated p data =
    and_then (ok_or (bt_get (p_rich_approval_requests p) (ainv_approval_id data))
      (InvalidHistory (Fold_approvals_rs 330))) (\<lambda>request.
    if p_status p \<noteq> RunStatus_Waiting
      \<or> rarp_status request \<noteq> RichApprovalRequestStatus_Waiting
      \<or> rarp_request_id request \<noteq> ainv_request_id data
      \<or> rarp_review_digest request \<noteq> ainv_review_digest data
    then Inl (InvalidHistory (Fold_approvals_rs 337))
    else Inr p)"

lemmas fold_approvals_defs =
  apply_approval_requested_def apply_approval_review_requested_def
  apply_approval_reviewer_decision_recorded_def apply_approval_quorum_progressed_def
  apply_rich_approval_resolved_def apply_basic_approval_resolved_def apply_approval_resolved_def
  apply_approval_invalidated_def

end
