(* ===== verification/Fold_Notifications.thy ===== *)
theory Fold_Notifications
  imports Fold_Guards Fold_Run
begin

text \<open>
  Notification deliveries, the decision they carry back and message updates
  (\<^verbatim>\<open>projection/fold_notifications.rs\<close>).
\<close>

definition apply_notification_delivery_requested ::
  "run_projection \<Rightarrow> notification_delivery_requested_data \<Rightarrow> fold_result" where
  "apply_notification_delivery_requested p data =
    (if p_status p \<noteq> RunStatus_Waiting then Inl (InvalidHistory (Fold_notifications_rs 14))
     else
       and_then (ok_or (bt_get (p_approval_requests p) (ndr_approval_id data))
         (InvalidHistory (Fold_notifications_rs 22))) (\<lambda>request.
       if arp_request_id request \<noteq> ndr_request_id data
         \<or> arp_status request \<noteq> ApprovalRequestStatus_Waiting
         \<or> bt_contains (p_notification_deliveries p) (ndr_delivery_id data)
       then Inl (InvalidHistory (Fold_notifications_rs 30))
       else Inr (p\<lparr>p_notification_deliveries := bt_insert (ndr_delivery_id data)
         \<lparr>ndp_approval_id = ndr_approval_id data,
          ndp_request_id = ndr_request_id data,
          ndp_delivery_id = ndr_delivery_id data,
          ndp_provider = ndr_provider data,
          ndp_destination = ndr_destination data,
          ndp_status = NotificationDeliveryStatus_Requested\<rparr> (p_notification_deliveries p)\<rparr>)))"

fun expected_delivery_attempt :: "notification_delivery_status \<Rightarrow> u32" where
  "expected_delivery_attempt NotificationDeliveryStatus_Requested = 1"
| "expected_delivery_attempt (NotificationDeliveryStatus_Failed attempt _ final failure _) =
    (if \<not> final \<and> nsf_retryable failure then attempt + 1 else 0)"
| "expected_delivery_attempt _ = 0"

definition apply_notification_delivery_attempt_started ::
  "run_projection \<Rightarrow> notification_delivery_attempt_started_data \<Rightarrow> fold_result" where
  "apply_notification_delivery_attempt_started p data =
    (if p_status p \<noteq> RunStatus_Waiting then Inl (InvalidHistory (Fold_notifications_rs 53))
     else
       and_then (ok_or (bt_get (p_notification_deliveries p) (ndas_delivery_id data))
         (InvalidHistory (Fold_notifications_rs 61))) (\<lambda>delivery.
       if ndp_approval_id delivery \<noteq> ndas_approval_id data
         \<or> ndp_request_id delivery \<noteq> ndas_request_id data
       then Inl (InvalidHistory (Fold_notifications_rs 66))
       else if ndas_attempt data \<noteq> expected_delivery_attempt (ndp_status delivery)
       then Inl (InvalidHistory (Fold_notifications_rs 81))
       else Inr (p\<lparr>p_notification_deliveries := bt_insert (ndas_delivery_id data)
         (delivery\<lparr>ndp_status := NotificationDeliveryStatus_AttemptStarted (ndas_attempt data)
           (ndas_attempt_id data) (ndas_idempotency_key data)\<rparr>) (p_notification_deliveries p)\<rparr>)))"

fun delivery_attempt_active :: "notification_delivery_status \<Rightarrow> u32 \<Rightarrow> string \<Rightarrow> bool" where
  "delivery_attempt_active (NotificationDeliveryStatus_AttemptStarted attempt attempt_id _) a i =
    (attempt = a \<and> attempt_id = i)"
| "delivery_attempt_active _ a i = False"

definition apply_notification_delivery_succeeded ::
  "run_projection \<Rightarrow> notification_delivery_succeeded_data \<Rightarrow> fold_result" where
  "apply_notification_delivery_succeeded p data =
    and_then (ok_or (bt_get (p_notification_deliveries p) (nds_delivery_id data))
      (InvalidHistory (Fold_notifications_rs 101))) (\<lambda>delivery.
    if \<not> delivery_attempt_active (ndp_status delivery) (nds_attempt data) (nds_attempt_id data)
    then Inl (InvalidHistory (Fold_notifications_rs 105))
    else Inr (p\<lparr>p_notification_deliveries := bt_insert (nds_delivery_id data)
      (delivery\<lparr>ndp_status := NotificationDeliveryStatus_Succeeded (nds_attempt data)
        (nds_attempt_id data) (nds_provider_message data)\<rparr>) (p_notification_deliveries p)\<rparr>))"

definition apply_notification_delivery_failed ::
  "run_projection \<Rightarrow> run_event \<Rightarrow> notification_delivery_failed_data \<Rightarrow> fold_result" where
  "apply_notification_delivery_failed p event data =
    and_then (ok_or (bt_get (p_notification_deliveries p) (ndf_delivery_id data))
      (InvalidHistory (Fold_notifications_rs 126))) (\<lambda>delivery.
    if \<not> delivery_attempt_active (ndp_status delivery) (ndf_attempt data) (ndf_attempt_id data)
    then Inl (InvalidHistory (Fold_notifications_rs 130))
    else Inr (p\<lparr>p_notification_deliveries := bt_insert (ndf_delivery_id data)
      (delivery\<lparr>ndp_status := NotificationDeliveryStatus_Failed (ndf_attempt data)
        (ndf_attempt_id data) (ndf_final data) (ndf_failure data) (ev_occurred_at event)\<rparr>)
      (p_notification_deliveries p)\<rparr>))"

definition apply_notification_decision_accepted ::
  "run_projection \<Rightarrow> notification_decision_accepted_data \<Rightarrow> fold_result" where
  "apply_notification_decision_accepted p data =
    (if p_status p \<noteq> RunStatus_Waiting \<or> p_notification_decisions p \<noteq> []
     then Inl (InvalidHistory (Fold_notifications_rs 149))
     else
       and_then (ok_or (bt_get (p_notification_deliveries p) (ndac_delivery_id data))
         (InvalidHistory (Fold_notifications_rs 157))) (\<lambda>delivery.
       if ndp_approval_id delivery \<noteq> ndac_approval_id data
         \<or> ndp_request_id delivery \<noteq> ndac_request_id data
         \<or> \<not> delivery_succeeded (ndp_status delivery)
       then Inl (InvalidHistory (Fold_notifications_rs 166))
       else Inr (p\<lparr>p_notification_decisions := p_notification_decisions p @ [data]\<rparr>)))"

definition apply_notification_message_update_requested ::
  "run_projection \<Rightarrow> notification_message_update_requested_data \<Rightarrow> fold_result" where
  "apply_notification_message_update_requested p data =
    (if p_status p \<noteq> RunStatus_Running then Inl (InvalidHistory (Fold_notifications_rs 179))
     else
       and_then (ok_or (bt_get (p_notification_deliveries p) (nmur_delivery_id data))
         (InvalidHistory (Fold_notifications_rs 187))) (\<lambda>delivery.
       if ndp_approval_id delivery \<noteq> nmur_approval_id data
         \<or> ndp_request_id delivery \<noteq> nmur_request_id data
         \<or> \<not> delivery_succeeded (ndp_status delivery)
         \<or> bt_contains (p_notification_updates p) (nmur_delivery_id data)
       then Inl (InvalidHistory (Fold_notifications_rs 199))
       else Inr (p\<lparr>p_notification_updates := bt_insert (nmur_delivery_id data)
         \<lparr>nmup_approval_id = nmur_approval_id data,
          nmup_request_id = nmur_request_id data,
          nmup_delivery_id = nmur_delivery_id data,
          nmup_update_id = nmur_update_id data,
          nmup_resolution = nmur_resolution data,
          nmup_status = NotificationMessageUpdateStatus_Requested\<rparr> (p_notification_updates p)\<rparr>)))"

fun expected_update_attempt :: "notification_message_update_status \<Rightarrow> u32" where
  "expected_update_attempt NotificationMessageUpdateStatus_Requested = 1"
| "expected_update_attempt (NotificationMessageUpdateStatus_Failed attempt _ final failure _) =
    (if \<not> final \<and> nsf_retryable failure then attempt + 1 else 0)"
| "expected_update_attempt _ = 0"

definition apply_notification_message_update_attempt_started ::
  "run_projection \<Rightarrow> notification_message_update_attempt_started_data \<Rightarrow> fold_result" where
  "apply_notification_message_update_attempt_started p data =
    and_then (ok_or (bt_get (p_notification_updates p) (nmuas_delivery_id data))
      (InvalidHistory (Fold_notifications_rs 225))) (\<lambda>update.
    if nmup_update_id update \<noteq> nmuas_update_id data
      \<or> nmuas_attempt data \<noteq> expected_update_attempt (nmup_status update)
    then Inl (InvalidHistory (Fold_notifications_rs 238))
    else Inr (p\<lparr>p_notification_updates := bt_insert (nmuas_delivery_id data)
      (update\<lparr>nmup_status := NotificationMessageUpdateStatus_AttemptStarted (nmuas_attempt data)
        (nmuas_attempt_id data)\<rparr>) (p_notification_updates p)\<rparr>))"

fun update_attempt_active :: "notification_message_update_status \<Rightarrow> u32 \<Rightarrow> string \<Rightarrow> bool" where
  "update_attempt_active (NotificationMessageUpdateStatus_AttemptStarted attempt attempt_id) a i =
    (attempt = a \<and> attempt_id = i)"
| "update_attempt_active _ a i = False"

definition apply_notification_message_updated ::
  "run_projection \<Rightarrow> notification_message_update_attempt_started_data \<Rightarrow> fold_result" where
  "apply_notification_message_updated p data =
    and_then (ok_or (bt_get (p_notification_updates p) (nmuas_delivery_id data))
      (InvalidHistory (Fold_notifications_rs 257))) (\<lambda>update.
    if \<not> update_attempt_active (nmup_status update) (nmuas_attempt data) (nmuas_attempt_id data)
    then Inl (InvalidHistory (Fold_notifications_rs 261))
    else Inr (p\<lparr>p_notification_updates := bt_insert (nmuas_delivery_id data)
      (update\<lparr>nmup_status := NotificationMessageUpdateStatus_Updated (nmuas_attempt data)
        (nmuas_attempt_id data)\<rparr>) (p_notification_updates p)\<rparr>))"

definition apply_notification_message_update_failed ::
  "run_projection \<Rightarrow> run_event \<Rightarrow> notification_message_update_failed_data \<Rightarrow> fold_result" where
  "apply_notification_message_update_failed p event data =
    and_then (ok_or (bt_get (p_notification_updates p) (nmuf_delivery_id data))
      (InvalidHistory (Fold_notifications_rs 281))) (\<lambda>update.
    if \<not> update_attempt_active (nmup_status update) (nmuf_attempt data) (nmuf_attempt_id data)
    then Inl (InvalidHistory (Fold_notifications_rs 285))
    else Inr (p\<lparr>p_notification_updates := bt_insert (nmuf_delivery_id data)
      (update\<lparr>nmup_status := NotificationMessageUpdateStatus_Failed (nmuf_attempt data)
        (nmuf_attempt_id data) (nmuf_final data) (nmuf_failure data) (ev_occurred_at event)\<rparr>)
      (p_notification_updates p)\<rparr>))"

lemmas fold_notifications_defs =
  apply_notification_delivery_requested_def apply_notification_delivery_attempt_started_def
  apply_notification_delivery_succeeded_def apply_notification_delivery_failed_def
  apply_notification_decision_accepted_def apply_notification_message_update_requested_def
  apply_notification_message_update_attempt_started_def apply_notification_message_updated_def
  apply_notification_message_update_failed_def

end
