(* ===== verification/Fold_Lifecycle.thy ===== *)
theory Fold_Lifecycle
  imports Fold_Guards
begin

text \<open>
  Lifecycle hooks, reusable lifecycle hooks, the business outcome and finalization
  (\<^verbatim>\<open>projection/fold_lifecycle.rs\<close>).
\<close>

section \<open>Hooks\<close>

definition requested_hook :: "lifecycle_hook_requested_data \<Rightarrow> lifecycle_hook_projection" where
  "requested_hook data =
    \<lparr>lhp_hook_invocation_id = lhr_hook_invocation_id data,
     lhp_hook_id = lhr_hook_id data,
     lhp_event = lhr_event data,
     lhp_subject = lhr_subject data,
     lhp_status = LifecycleHookStatus_Requested,
     lhp_actions = bt_empty,
     lhp_failed_actions = 0\<rparr>"

definition started_action :: "lifecycle_action_identity_data \<Rightarrow> lifecycle_action_projection" where
  "started_action data =
    \<lparr>lap_action_id = lai_action_id data,
     lap_attempt = lai_attempt data,
     lap_status = LifecycleActionStatus_Started,
     lap_failure = None\<rparr>"

definition hook_has_active_action :: "lifecycle_hook_projection \<Rightarrow> bool" where
  "hook_has_active_action hook =
    list_ex (\<lambda>action. lap_status action = LifecycleActionStatus_Started) (bt_values (lhp_actions hook))"

fun hook_status_of :: "lifecycle_hook_completion_status \<Rightarrow> lifecycle_hook_status" where
  "hook_status_of LifecycleHookCompletionStatus_Completed = LifecycleHookStatus_Completed"
| "hook_status_of LifecycleHookCompletionStatus_CompletedWithWarnings =
    LifecycleHookStatus_CompletedWithWarnings"

definition hook_completed :: "lifecycle_hook_projection \<Rightarrow> bool" where
  "hook_completed hook = (lhp_status hook \<in>
    {LifecycleHookStatus_Completed, LifecycleHookStatus_CompletedWithWarnings})"

definition apply_lifecycle_hook_requested ::
  "run_projection \<Rightarrow> lifecycle_hook_requested_data \<Rightarrow> fold_result" where
  "apply_lifecycle_hook_requested p data =
    (if p_run_id p = None
       \<or> p_status p \<in> {RunStatus_NotStarted, RunStatus_Queued, RunStatus_Succeeded,
           RunStatus_Failed, RunStatus_Cancelled}
       \<or> bt_contains (p_lifecycle_hooks p) (lhr_hook_invocation_id data)
       \<or> list_ex (\<lambda>hook. lhp_hook_id hook = lhr_hook_id data \<and> lhp_subject hook = lhr_subject data)
           (bt_values (p_lifecycle_hooks p))
     then Inl (InvalidHistory (Fold_lifecycle_rs 35))
     else Inr (p\<lparr>
       p_lifecycle_hooks := bt_insert (lhr_hook_invocation_id data) (requested_hook data)
         (p_lifecycle_hooks p),
       p_lifecycle_status := LifecycleStatus_Running\<rparr>))"

definition apply_lifecycle_action_attempt_started ::
  "run_projection \<Rightarrow> lifecycle_action_identity_data \<Rightarrow> fold_result" where
  "apply_lifecycle_action_attempt_started p data =
    and_then (ok_or (bt_get (p_lifecycle_hooks p) (lai_hook_invocation_id data))
      (InvalidHistory (Fold_lifecycle_rs 63))) (\<lambda>hook.
    if hook_completed hook
      \<or> bt_contains (lhp_actions hook) (lai_action_id data)
      \<or> hook_has_active_action hook
    then Inl (InvalidHistory (Fold_lifecycle_rs 76))
    else Inr (p\<lparr>p_lifecycle_hooks := bt_insert (lai_hook_invocation_id data)
      (hook\<lparr>lhp_actions := bt_insert (lai_action_id data) (started_action data) (lhp_actions hook),
            lhp_status := LifecycleHookStatus_Running\<rparr>) (p_lifecycle_hooks p)\<rparr>))"

definition apply_lifecycle_action_succeeded ::
  "run_projection \<Rightarrow> lifecycle_action_identity_data \<Rightarrow> fold_result" where
  "apply_lifecycle_action_succeeded p data =
    and_then (ok_or (bt_get (p_lifecycle_hooks p) (lai_hook_invocation_id data))
      (InvalidHistory (Fold_lifecycle_rs 100))) (\<lambda>hook.
    and_then (ok_or (bt_get (lhp_actions hook) (lai_action_id data))
      (InvalidHistory (Fold_lifecycle_rs 102))) (\<lambda>action.
    if lap_status action \<noteq> LifecycleActionStatus_Started \<or> lap_attempt action \<noteq> lai_attempt data
    then Inl (InvalidHistory (Fold_lifecycle_rs 105))
    else Inr (p\<lparr>p_lifecycle_hooks := bt_insert (lai_hook_invocation_id data)
      (hook\<lparr>lhp_actions := bt_insert (lai_action_id data)
        (action\<lparr>lap_status := LifecycleActionStatus_Succeeded\<rparr>) (lhp_actions hook)\<rparr>)
      (p_lifecycle_hooks p)\<rparr>)))"

definition apply_lifecycle_action_failed ::
  "run_projection \<Rightarrow> lifecycle_action_failed_data \<Rightarrow> fold_result" where
  "apply_lifecycle_action_failed p data =
    and_then (ok_or (bt_get (p_lifecycle_hooks p) (laf_hook_invocation_id data))
      (InvalidHistory (Fold_lifecycle_rs 120))) (\<lambda>hook.
    and_then (ok_or (bt_get (lhp_actions hook) (laf_action_id data))
      (InvalidHistory (Fold_lifecycle_rs 122))) (\<lambda>action.
    if lap_status action \<noteq> LifecycleActionStatus_Started \<or> lap_attempt action \<noteq> laf_attempt data
    then Inl (InvalidHistory (Fold_lifecycle_rs 125))
    else Inr (p\<lparr>p_lifecycle_hooks := bt_insert (laf_hook_invocation_id data)
      (hook\<lparr>lhp_actions := bt_insert (laf_action_id data)
          (action\<lparr>lap_status := LifecycleActionStatus_Failed, lap_failure := Some (laf_failure data)\<rparr>)
          (lhp_actions hook),
        lhp_failed_actions := lhp_failed_actions hook + 1\<rparr>) (p_lifecycle_hooks p)\<rparr>)))"

definition apply_lifecycle_hook_completed ::
  "run_projection \<Rightarrow> lifecycle_hook_completed_data \<Rightarrow> fold_result" where
  "apply_lifecycle_hook_completed p data =
    and_then (ok_or (bt_get (p_lifecycle_hooks p) (lhc_hook_invocation_id data))
      (InvalidHistory (Fold_lifecycle_rs 142))) (\<lambda>hook.
    if hook_completed hook
      \<or> hook_has_active_action hook
      \<or> lhp_failed_actions hook \<noteq> lhc_failed_actions data
    then Inl (InvalidHistory (Fold_lifecycle_rs 152))
    else Inr (p\<lparr>p_lifecycle_hooks := bt_insert (lhc_hook_invocation_id data)
      (hook\<lparr>lhp_status := hook_status_of (lhc_status data)\<rparr>) (p_lifecycle_hooks p)\<rparr>))"

section \<open>Reusable hooks\<close>

fun hook_debug :: "reusable_lifecycle_hook \<Rightarrow> string" where
  "hook_debug ReusableLifecycleHook_OnSuccess = ''OnSuccess''"
| "hook_debug ReusableLifecycleHook_OnError = ''OnError''"
| "hook_debug ReusableLifecycleHook_OnComplete = ''OnComplete''"

definition reusable_key :: "string \<Rightarrow> reusable_lifecycle_hook \<Rightarrow> string" where
  "reusable_key invocation_id hook = invocation_id @ '':'' @ hook_debug hook"

definition requested_reusable :: "reusable_lifecycle_requested_data \<Rightarrow> reusable_lifecycle_projection" where
  "requested_reusable data =
    \<lparr>rlp_invocation_id = rlr_invocation_id data,
     rlp_definition_digest = rlr_definition_digest data,
     rlp_hook = rlr_hook data,
     rlp_status = ReusableLifecycleStatus_Requested,
     rlp_active_action_id = None,
     rlp_completed_action_ids = [],
     rlp_warning_codes = []\<rparr>"

definition reusable_status_of :: "reusable_lifecycle_outcome \<Rightarrow> reusable_lifecycle_status" where
  "reusable_status_of outcome =
    (if outcome = ReusableLifecycleOutcome_CompletedWithWarnings
     then ReusableLifecycleStatus_CompletedWithWarnings else ReusableLifecycleStatus_Completed)"

definition apply_reusable_lifecycle_requested ::
  "run_projection \<Rightarrow> reusable_lifecycle_requested_data \<Rightarrow> fold_result" where
  "apply_reusable_lifecycle_requested p data =
    (let key = reusable_key (rlr_invocation_id data) (rlr_hook data) in
     if bt_contains (p_reusable_lifecycle_hooks p) key then Inl (InvalidHistory (Fold_lifecycle_rs 171))
     else Inr (p\<lparr>p_reusable_lifecycle_hooks :=
       bt_insert key (requested_reusable data) (p_reusable_lifecycle_hooks p)\<rparr>))"

definition apply_reusable_lifecycle_action_started ::
  "run_projection \<Rightarrow> reusable_lifecycle_action_started_data \<Rightarrow> fold_result" where
  "apply_reusable_lifecycle_action_started p data =
    (let key = reusable_key (rlast_invocation_id data) (rlast_hook data) in
     and_then (ok_or (bt_get (p_reusable_lifecycle_hooks p) key) (InvalidHistory (Fold_lifecycle_rs 199)))
     (\<lambda>hook.
       if rlp_definition_digest hook \<noteq> rlast_definition_digest data
         \<or> is_some (rlp_active_action_id hook)
         \<or> rlast_action_id data \<in> set (rlp_completed_action_ids hook)
         \<or> rlp_status hook \<in> {ReusableLifecycleStatus_Completed,
             ReusableLifecycleStatus_CompletedWithWarnings}
       then Inl (InvalidHistory (Fold_lifecycle_rs 211))
       else Inr (p\<lparr>p_reusable_lifecycle_hooks := bt_insert key
         (hook\<lparr>rlp_active_action_id := Some (rlast_action_id data),
               rlp_status := ReusableLifecycleStatus_Running\<rparr>) (p_reusable_lifecycle_hooks p)\<rparr>)))"

definition apply_reusable_lifecycle_action_succeeded ::
  "run_projection \<Rightarrow> reusable_lifecycle_action_succeeded_data \<Rightarrow> fold_result" where
  "apply_reusable_lifecycle_action_succeeded p data =
    (let key = reusable_key (rlasu_invocation_id data) (rlasu_hook data) in
     and_then (ok_or (bt_get (p_reusable_lifecycle_hooks p) key) (InvalidHistory (Fold_lifecycle_rs 228)))
     (\<lambda>hook.
       if rlp_definition_digest hook \<noteq> rlasu_definition_digest data
         \<or> rlp_active_action_id hook \<noteq> Some (rlasu_action_id data)
       then Inl (InvalidHistory (Fold_lifecycle_rs 232))
       else Inr (p\<lparr>p_reusable_lifecycle_hooks := bt_insert key
         (hook\<lparr>rlp_active_action_id := None,
               rlp_completed_action_ids := rlp_completed_action_ids hook @ [rlasu_action_id data]\<rparr>)
         (p_reusable_lifecycle_hooks p)\<rparr>)))"

definition apply_reusable_lifecycle_action_failed ::
  "run_projection \<Rightarrow> reusable_lifecycle_action_failed_data \<Rightarrow> fold_result" where
  "apply_reusable_lifecycle_action_failed p data =
    (let key = reusable_key (rlaf_invocation_id data) (rlaf_hook data) in
     and_then (ok_or (bt_get (p_reusable_lifecycle_hooks p) key) (InvalidHistory (Fold_lifecycle_rs 249)))
     (\<lambda>hook.
       if rlp_definition_digest hook \<noteq> rlaf_definition_digest data
         \<or> is_some_and (rlp_active_action_id hook) (\<lambda>active. active \<noteq> rlaf_action_id data)
         \<or> rlaf_action_id data \<in> set (rlp_completed_action_ids hook)
       then Inl (InvalidHistory (Fold_lifecycle_rs 257))
       else Inr (p\<lparr>p_reusable_lifecycle_hooks := bt_insert key
         (hook\<lparr>rlp_active_action_id := None,
               rlp_completed_action_ids := rlp_completed_action_ids hook @ [rlaf_action_id data],
               rlp_warning_codes := rlp_warning_codes hook @ [rlaf_warning_code data]\<rparr>)
         (p_reusable_lifecycle_hooks p)\<rparr>)))"

definition apply_reusable_lifecycle_completed ::
  "run_projection \<Rightarrow> reusable_lifecycle_completed_data \<Rightarrow> fold_result" where
  "apply_reusable_lifecycle_completed p data =
    (let key = reusable_key (rlc_invocation_id data) (rlc_hook data) in
     and_then (ok_or (bt_get (p_reusable_lifecycle_hooks p) key) (InvalidHistory (Fold_lifecycle_rs 275)))
     (\<lambda>hook.
       if rlp_definition_digest hook \<noteq> rlc_definition_digest data \<or> is_some (rlp_active_action_id hook)
       then Inl (InvalidHistory (Fold_lifecycle_rs 277))
       else Inr (p\<lparr>p_reusable_lifecycle_hooks := bt_insert key
         (hook\<lparr>rlp_status := reusable_status_of (rlc_outcome data)\<rparr>) (p_reusable_lifecycle_hooks p)\<rparr>)))"

section \<open>Outcome and finalization\<close>

definition fork_unsettled :: "fork_projection \<Rightarrow> bool" where
  "fork_unsettled fork =
    (fp_join_status fork = ForkJoinStatus_Pending
     \<or> list_ex (\<lambda>branch. fbp_outcome branch = None) (bt_values (fp_branches fork)))"

definition apply_run_outcome_decided ::
  "run_projection \<Rightarrow> run_outcome_decided_data \<Rightarrow> fold_result" where
  "apply_run_outcome_decided p data =
    (if is_some (p_business_outcome p)
       \<or> p_status p \<notin> {RunStatus_Running, RunStatus_Waiting, RunStatus_Cancelling}
     then Inl (InvalidHistory (Fold_lifecycle_rs 299))
     else if list_ex fork_unsettled (bt_values (p_forks p))
     then Inl (InvalidHistory (Fold_lifecycle_rs 310))
     else
       and_then
         (case data of
            RunOutcomeDecidedData_Succeeded result \<Rightarrow>
              if p_status p \<noteq> RunStatus_Running then Inl (InvalidHistory (Fold_lifecycle_rs 317))
              else Inr (p\<lparr>p_result := Some result\<rparr>)
          | RunOutcomeDecidedData_Failed failure \<Rightarrow> Inr (p\<lparr>p_lifecycle_failure := Some failure\<rparr>)
          | RunOutcomeDecidedData_Cancelled request_id \<Rightarrow>
              if p_cancellation_request_id p \<noteq> Some request_id
              then Inl (InvalidHistory (Fold_lifecycle_rs 330))
              else Inr p)
       (\<lambda>p. Inr (p\<lparr>
         p_business_outcome := Some (outcome_of data),
         p_lifecycle_status := LifecycleStatus_Finalizing,
         p_status := RunStatus_Finalizing\<rparr>)))"

definition hook_failures ::
  "lifecycle_hook_projection \<Rightarrow> (string \<times> string \<times> string option \<times> string) list" where
  "hook_failures hook =
    List.map_filter (\<lambda>action. map_option (\<lambda>failure.
        (lhp_hook_id hook, lap_action_id action,
         if ls_kind (lhp_subject hook) = LifecycleSubjectKind_Step
         then Some (ls_id (lhp_subject hook)) else None,
         lf_code failure)) (lap_failure action))
      (bt_values (lhp_actions hook))"

definition failed_actions :: "run_projection \<Rightarrow> (string \<times> string \<times> string option \<times> string) list" where
  "failed_actions p = concat (map hook_failures (bt_values (p_lifecycle_hooks p)))"

definition warnings_match :: "run_projection \<Rightarrow> run_finalized_data \<Rightarrow> bool" where
  "warnings_match p data =
    (length (failed_actions p) = length (rfin_warnings data)
     \<and> list_all (\<lambda>(hook_id, action_id, step_id, code).
         list_ex (\<lambda>warning. lw_hook_id warning = hook_id \<and> lw_action_id warning = action_id
           \<and> lw_step_id warning = step_id \<and> lw_code warning = code) (rfin_warnings data))
       (failed_actions p))"

fun final_status_of :: "business_outcome \<Rightarrow> run_status" where
  "final_status_of BusinessOutcome_Succeeded = RunStatus_Succeeded"
| "final_status_of BusinessOutcome_Failed = RunStatus_Failed"
| "final_status_of BusinessOutcome_Cancelled = RunStatus_Cancelled"

fun final_lifecycle_of :: "final_lifecycle_status \<Rightarrow> lifecycle_status" where
  "final_lifecycle_of FinalLifecycleStatus_Completed = LifecycleStatus_Completed"
| "final_lifecycle_of FinalLifecycleStatus_CompletedWithWarnings = LifecycleStatus_CompletedWithWarnings"

definition apply_run_finalized :: "run_projection \<Rightarrow> run_finalized_data \<Rightarrow> fold_result" where
  "apply_run_finalized p data =
    (if p_status p \<noteq> RunStatus_Finalizing
       \<or> p_business_outcome p \<noteq> Some (rfin_outcome data)
       \<or> \<not> warnings_match p data
       \<or> list_ex (\<lambda>hook. lhp_status hook \<in> {LifecycleHookStatus_Requested, LifecycleHookStatus_Running})
           (bt_values (p_lifecycle_hooks p))
     then Inl (InvalidHistory (Fold_lifecycle_rs 384))
     else Inr (p\<lparr>
       p_lifecycle_warnings := rfin_warnings data,
       p_lifecycle_status := final_lifecycle_of (rfin_lifecycle_status data),
       p_status := final_status_of (rfin_outcome data)\<rparr>))"

lemmas fold_lifecycle_defs =
  apply_lifecycle_hook_requested_def apply_lifecycle_action_attempt_started_def
  apply_lifecycle_action_succeeded_def apply_lifecycle_action_failed_def
  apply_lifecycle_hook_completed_def apply_reusable_lifecycle_requested_def
  apply_reusable_lifecycle_action_started_def apply_reusable_lifecycle_action_succeeded_def
  apply_reusable_lifecycle_action_failed_def apply_reusable_lifecycle_completed_def
  apply_run_outcome_decided_def apply_run_finalized_def

end
