(* ===== verification/Fold_Iteration.thy ===== *)
theory Fold_Iteration
  imports Fold_Attempts Fold_Locks Fold_Operations Fold_Lifecycle Fold_Control_Flow
begin

text \<open>
  Work owned by one iteration of a for-each loop
  (\<^verbatim>\<open>projection/iteration_fold.rs\<close>): every transition acts on the execution
  projection of the iteration only.
\<close>

type_synonym iteration_result = "(fold_error, for_each_iteration_execution_projection) result"

definition latest_iteration_attempt ::
  "for_each_iteration_execution_projection \<Rightarrow> string \<Rightarrow> attempt_projection option" where
  "latest_iteration_attempt x node_id =
    find_last (\<lambda>a. ai_node_id (ap_identity a) = node_id) (feix_attempts x)"

definition iteration_operation_active :: "for_each_iteration_execution_projection \<Rightarrow> string \<Rightarrow> bool" where
  "iteration_operation_active x invocation_id =
    list_ex (\<lambda>op. oi_invocation_id (op_identity op) = invocation_id
      \<and> op_status op = OperationStatus_Started) (bt_values (feix_operations x))"

definition attempt_position ::
  "for_each_iteration_execution_projection \<Rightarrow> string \<Rightarrow> u32 \<Rightarrow> string \<Rightarrow> nat option" where
  "attempt_position x node_id attempt invocation_id =
    position (\<lambda>a. ai_node_id (ap_identity a) = node_id \<and> ai_attempt (ap_identity a) = attempt
      \<and> ai_invocation_id (ap_identity a) = invocation_id) (feix_attempts x)"

section \<open>Attempts\<close>

definition iteration_attempt_started ::
  "for_each_iteration_execution_projection \<Rightarrow> run_event \<Rightarrow> step_attempt_started_data \<Rightarrow> iteration_result" where
  "iteration_attempt_started x event data =
    (if list_ex (\<lambda>a. ai_invocation_id (ap_identity a) = sast_invocation_id data) (feix_attempts x)
       \<or> is_some_and (latest_iteration_attempt x (sast_node_id data))
           (\<lambda>a. ap_status a = AttemptStatus_Started)
     then Inl (InvalidHistory (Iteration_fold_rs 60))
     else
       let previous = latest_iteration_attempt x (sast_node_id data);
           expected = (case previous of None \<Rightarrow> 1 | Some a \<Rightarrow> ai_attempt (ap_identity a) + 1)
       in
         if sast_attempt data \<noteq> expected then Inl (InvalidHistory (Iteration_fold_rs 72))
         else
           and_then
             (case previous of
                None \<Rightarrow> Inr x
              | Some prev \<Rightarrow>
                  and_then (ok_or (bt_get (feix_pending_retries x) (sast_node_id data))
                    (InvalidHistory (Iteration_fold_rs 82))) (\<lambda>retry.
                  if \<not> is_failed (ap_status prev)
                    \<or> rsp_next_attempt retry \<noteq> sast_attempt data
                    \<or> ev_occurred_at event < rsp_scheduled_at retry
                  then Inl (InvalidHistory (Iteration_fold_rs 88))
                  else Inr (x\<lparr>feix_pending_retries :=
                    bt_remove (sast_node_id data) (feix_pending_retries x)\<rparr>)))
           (\<lambda>x. Inr (x\<lparr>feix_attempts := feix_attempts x @ [started_attempt data]\<rparr>)))"

definition iteration_attempt_succeeded ::
  "for_each_iteration_execution_projection \<Rightarrow> step_attempt_succeeded_data \<Rightarrow> iteration_result" where
  "iteration_attempt_succeeded x data =
    (if iteration_operation_active x (sasu_invocation_id data)
     then Inl (InvalidHistory (Iteration_fold_rs 101))
     else
       and_then (ok_or (attempt_position x (sasu_node_id data) (sasu_attempt data) (sasu_invocation_id data))
         (InvalidHistory (Iteration_fold_rs 114))) (\<lambda>i.
       if ap_status (feix_attempts x ! i) \<noteq> AttemptStatus_Started
         \<or> obj_contains (ctx_steps (feix_context x)) (sasu_node_id data)
       then Inl (InvalidHistory (Iteration_fold_rs 119))
       else Inr (x\<lparr>
         feix_attempts := (feix_attempts x)[i :=
           (feix_attempts x ! i)\<lparr>ap_status := AttemptStatus_Succeeded (sasu_output data)\<rparr>],
         feix_context := (feix_context x)\<lparr>ctx_steps :=
           obj_insert (sasu_node_id data) (sasu_output data) (ctx_steps (feix_context x))\<rparr>\<rparr>)))"

definition iteration_attempt_failed ::
  "for_each_iteration_execution_projection \<Rightarrow> step_attempt_failed_data \<Rightarrow> iteration_result" where
  "iteration_attempt_failed x data =
    (if iteration_operation_active x (saf_invocation_id data)
     then Inl (InvalidHistory (Iteration_fold_rs 136))
     else
       and_then (ok_or (attempt_position x (saf_node_id data) (saf_attempt data) (saf_invocation_id data))
         (InvalidHistory (Iteration_fold_rs 149))) (\<lambda>i.
       if ap_status (feix_attempts x ! i) \<noteq> AttemptStatus_Started
       then Inl (InvalidHistory (Iteration_fold_rs 152))
       else Inr (x\<lparr>
         feix_attempts := (feix_attempts x)[i :=
           (feix_attempts x ! i)\<lparr>ap_status := AttemptStatus_Failed (saf_failure data)\<rparr>]\<rparr>)))"

definition iteration_retry_scheduled ::
  "for_each_iteration_execution_projection \<Rightarrow> for_each_iteration_scope \<Rightarrow> step_retry_scheduled_data
    \<Rightarrow> run_event option \<Rightarrow> iteration_result" where
  "iteration_retry_scheduled x scope data previous_event =
    (let adjacent = is_some_and previous_event (\<lambda>previous.
           ev_iteration previous = Some scope
           \<and> (case ev_payload previous of
                StepAttemptFailed failed \<Rightarrow>
                  saf_node_id failed = srs_node_id data \<and> saf_attempt failed = srs_failed_attempt data
              | _ \<Rightarrow> False))
     in
     if \<not> adjacent
       \<or> \<not> is_some_and (latest_iteration_attempt x (srs_node_id data)) (\<lambda>a.
             ai_attempt (ap_identity a) = srs_failed_attempt data \<and> is_failed (ap_status a))
       \<or> srs_next_attempt data \<noteq> srs_failed_attempt data + 1
       \<or> bt_contains (feix_pending_retries x) (srs_node_id data)
     then Inl (InvalidHistory (Iteration_fold_rs 177))
     else Inr (x\<lparr>feix_pending_retries :=
       bt_insert (srs_node_id data) (retry_schedule data) (feix_pending_retries x)\<rparr>))"

section \<open>Selections and parallel groups\<close>

definition iteration_choice_selected ::
  "for_each_iteration_execution_projection \<Rightarrow> choice_selected_data \<Rightarrow> iteration_result" where
  "iteration_choice_selected x data =
    (if bt_contains (feix_choice_selections x) (chs_choice_id data)
     then Inl (InvalidHistory (Iteration_fold_rs 197))
     else Inr (x\<lparr>feix_choice_selections :=
       bt_insert (chs_choice_id data) (chs_arm_id data) (feix_choice_selections x)\<rparr>))"

definition iteration_branch_selected ::
  "for_each_iteration_execution_projection \<Rightarrow> branch_selected_data \<Rightarrow> iteration_result" where
  "iteration_branch_selected x data =
    (if bt_contains (feix_branch_selections x) (brs_branch_id data)
     then Inl (InvalidHistory (Iteration_fold_rs 208))
     else Inr (x\<lparr>feix_branch_selections :=
       bt_insert (brs_branch_id data) (brs_arm_id data) (feix_branch_selections x)\<rparr>))"

definition iteration_parallel_started ::
  "for_each_iteration_execution_projection \<Rightarrow> parallel_group_started_data \<Rightarrow> iteration_result" where
  "iteration_parallel_started x data =
    (if bt_contains (feix_parallel_groups x) (pgs_parallel_id data)
     then Inl (InvalidHistory (Iteration_fold_rs 215))
     else Inr (x\<lparr>feix_parallel_groups := bt_insert (pgs_parallel_id data)
       (started_group (pgs_parallel_id data) (feix_context x)) (feix_parallel_groups x)\<rparr>))"

definition iteration_parallel_completed ::
  "for_each_iteration_execution_projection \<Rightarrow> parallel_group_completed_data \<Rightarrow> iteration_result" where
  "iteration_parallel_completed x data =
    and_then (ok_or (bt_get (feix_parallel_groups x) (pgc_parallel_id data))
      (InvalidHistory (Iteration_fold_rs 233))) (\<lambda>grp.
    if pgp_status grp \<noteq> ParallelGroupStatus_Started then Inl (InvalidHistory (Iteration_fold_rs 236))
    else Inr (x\<lparr>feix_parallel_groups :=
      bt_insert (pgc_parallel_id data) (completed_group data grp) (feix_parallel_groups x)\<rparr>))"

section \<open>Locks\<close>

definition iteration_lock_wait_registered ::
  "for_each_iteration_execution_projection \<Rightarrow> lock_wait_registered_data \<Rightarrow> iteration_result" where
  "iteration_lock_wait_registered x data =
    (if bt_contains (feix_locks x) (lwr_lock_id data) then Inl (InvalidHistory (Iteration_fold_rs 248))
     else Inr (x\<lparr>feix_locks := bt_insert (lwr_lock_id data) (waiting_lock data) (feix_locks x)\<rparr>))"

definition iteration_lock_acquired ::
  "for_each_iteration_execution_projection \<Rightarrow> lock_acquired_data \<Rightarrow> iteration_result" where
  "iteration_lock_acquired x data =
    and_then (ok_or (bt_get (feix_locks x) (lacq_lock_id data)) (InvalidHistory (Iteration_fold_rs 272)))
    (\<lambda>lock.
      if lp_status lock \<noteq> LockStatus_Waiting
        \<or> lp_key lock \<noteq> lacq_key data
        \<or> lp_execution_identity lock \<noteq> lacq_execution_identity data
      then Inl (InvalidHistory (Iteration_fold_rs 278))
      else Inr (x\<lparr>feix_locks :=
        bt_insert (lacq_lock_id data) (acquired_lock data lock) (feix_locks x)\<rparr>))"

definition iteration_lock_released ::
  "for_each_iteration_execution_projection \<Rightarrow> lock_released_data \<Rightarrow> iteration_result" where
  "iteration_lock_released x data =
    and_then (ok_or (bt_get (feix_locks x) (lrel_lock_id data)) (InvalidHistory (Iteration_fold_rs 290)))
    (\<lambda>lock.
      if \<not> holds_lease lock (lrel_key data) (lrel_lease_id data) (lrel_fencing_token data)
      then Inl (InvalidHistory (Iteration_fold_rs 297))
      else Inr (x\<lparr>
        feix_locks := bt_insert (lrel_lock_id data)
          (resolve_lock LockStatus_Released (lrel_released_at data) lock) (feix_locks x),
        feix_context := (feix_context x)\<lparr>ctx_steps :=
          obj_insert (lrel_lock_id data) (lrel_result data) (ctx_steps (feix_context x))\<rparr>\<rparr>))"

definition iteration_lock_acquire_timed_out ::
  "for_each_iteration_execution_projection \<Rightarrow> lock_acquire_timed_out_data \<Rightarrow> iteration_result" where
  "iteration_lock_acquire_timed_out x data =
    and_then (ok_or (bt_get (feix_locks x) (lato_lock_id data)) (InvalidHistory (Iteration_fold_rs 310)))
    (\<lambda>lock.
      if lp_status lock \<noteq> LockStatus_Waiting
        \<or> lp_key lock \<noteq> lato_key data
        \<or> lp_deadline lock \<noteq> lato_deadline data
      then Inl (InvalidHistory (Iteration_fold_rs 316))
      else Inr (x\<lparr>feix_locks := bt_insert (lato_lock_id data)
        (resolve_lock LockStatus_AcquireTimedOut (lato_resolved_at data) lock) (feix_locks x)\<rparr>))"

definition iteration_lock_acquisition_cancelled ::
  "for_each_iteration_execution_projection \<Rightarrow> lock_acquisition_cancelled_data \<Rightarrow> iteration_result" where
  "iteration_lock_acquisition_cancelled x data =
    and_then (ok_or (bt_get (feix_locks x) (lacan_lock_id data)) (InvalidHistory (Iteration_fold_rs 325)))
    (\<lambda>lock.
      if lp_status lock \<noteq> LockStatus_Waiting \<or> lp_key lock \<noteq> lacan_key data
      then Inl (InvalidHistory (Iteration_fold_rs 328))
      else Inr (x\<lparr>feix_locks := bt_insert (lacan_lock_id data)
        (resolve_lock LockStatus_AcquisitionCancelled (lacan_cancelled_at data) lock) (feix_locks x)\<rparr>))"

definition iteration_lock_lease_lost ::
  "for_each_iteration_execution_projection \<Rightarrow> lock_lease_lost_data \<Rightarrow> iteration_result" where
  "iteration_lock_lease_lost x data =
    and_then (ok_or (bt_get (feix_locks x) (lll_lock_id data)) (InvalidHistory (Iteration_fold_rs 337)))
    (\<lambda>lock.
      if \<not> holds_lease lock (lll_key data) (lll_lease_id data) (lll_fencing_token data)
      then Inl (InvalidHistory (Iteration_fold_rs 344))
      else Inr (x\<lparr>feix_locks := bt_insert (lll_lock_id data)
        (resolve_lock LockStatus_LeaseLost (lll_detected_at data) lock) (feix_locks x)\<rparr>))"

section \<open>Operations\<close>

definition iteration_operation_started ::
  "for_each_iteration_execution_projection \<Rightarrow> operation_started_data \<Rightarrow> iteration_result" where
  "iteration_operation_started x data =
    (let key = OperationIdentity (ost_invocation_id data) (ost_call_id data) in
     if \<not> list_ex (\<lambda>a. ai_node_id (ap_identity a) = ost_node_id data
          \<and> ai_attempt (ap_identity a) = ost_attempt_number data
          \<and> ai_invocation_id (ap_identity a) = ost_invocation_id data
          \<and> ap_status a = AttemptStatus_Started) (feix_attempts x)
       \<or> bt_contains (feix_operations x) key
     then Inl (InvalidHistory (Iteration_fold_rs 368))
     else Inr (x\<lparr>feix_operations := bt_insert key (started_operation data) (feix_operations x)\<rparr>))"

definition iteration_operation_succeeded ::
  "for_each_iteration_execution_projection \<Rightarrow> operation_succeeded_data \<Rightarrow> iteration_result" where
  "iteration_operation_succeeded x data =
    (let key = OperationIdentity (osu_invocation_id data) (osu_call_id data) in
     and_then (ok_or (bt_get (feix_operations x) key) (InvalidHistory (Iteration_fold_rs 393))) (\<lambda>op.
     if op_status op \<noteq> OperationStatus_Started then Inl (InvalidHistory (Iteration_fold_rs 396))
     else Inr (x\<lparr>feix_operations := bt_insert key
       (op\<lparr>op_status := OperationStatus_Succeeded (osu_duration_ms data) (osu_result_bytes data)
         (osu_result_digest data)\<rparr>) (feix_operations x)\<rparr>)))"

definition iteration_operation_failed ::
  "for_each_iteration_execution_projection \<Rightarrow> operation_failed_data \<Rightarrow> iteration_result" where
  "iteration_operation_failed x data =
    (let key = OperationIdentity (ofa_invocation_id data) (ofa_call_id data) in
     and_then (ok_or (bt_get (feix_operations x) key) (InvalidHistory (Iteration_fold_rs 412))) (\<lambda>op.
     if op_status op \<noteq> OperationStatus_Started then Inl (InvalidHistory (Iteration_fold_rs 415))
     else Inr (x\<lparr>feix_operations := bt_insert key
       (op\<lparr>op_status := OperationStatus_Failed (ofa_duration_ms data) (ofa_failure data)\<rparr>)
       (feix_operations x)\<rparr>)))"

section \<open>Lifecycle hooks\<close>

definition iteration_hook_requested ::
  "for_each_iteration_execution_projection \<Rightarrow> lifecycle_hook_requested_data \<Rightarrow> iteration_result" where
  "iteration_hook_requested x data =
    (if bt_contains (feix_lifecycle_hooks x) (lhr_hook_invocation_id data)
     then Inl (InvalidHistory (Iteration_fold_rs 429))
     else Inr (x\<lparr>feix_lifecycle_hooks :=
       bt_insert (lhr_hook_invocation_id data) (requested_hook data) (feix_lifecycle_hooks x)\<rparr>))"

definition iteration_action_started ::
  "for_each_iteration_execution_projection \<Rightarrow> lifecycle_action_identity_data \<Rightarrow> iteration_result" where
  "iteration_action_started x data =
    and_then (ok_or (bt_get (feix_lifecycle_hooks x) (lai_hook_invocation_id data))
      (InvalidHistory (Iteration_fold_rs 451))) (\<lambda>hook.
    if bt_contains (lhp_actions hook) (lai_action_id data) \<or> hook_has_active_action hook
    then Inl (InvalidHistory (Iteration_fold_rs 461))
    else Inr (x\<lparr>feix_lifecycle_hooks := bt_insert (lai_hook_invocation_id data)
      (hook\<lparr>lhp_actions := bt_insert (lai_action_id data) (started_action data) (lhp_actions hook),
            lhp_status := LifecycleHookStatus_Running\<rparr>) (feix_lifecycle_hooks x)\<rparr>))"

definition iteration_action_succeeded ::
  "for_each_iteration_execution_projection \<Rightarrow> lifecycle_action_identity_data \<Rightarrow> iteration_result" where
  "iteration_action_succeeded x data =
    and_then (ok_or (bt_get (feix_lifecycle_hooks x) (lai_hook_invocation_id data))
      (InvalidHistory (Iteration_fold_rs 481))) (\<lambda>hook.
    and_then (ok_or (bt_get (lhp_actions hook) (lai_action_id data))
      (InvalidHistory (Iteration_fold_rs 484))) (\<lambda>action.
    if lap_status action \<noteq> LifecycleActionStatus_Started \<or> lap_attempt action \<noteq> lai_attempt data
    then Inl (InvalidHistory (Iteration_fold_rs 487))
    else Inr (x\<lparr>feix_lifecycle_hooks := bt_insert (lai_hook_invocation_id data)
      (hook\<lparr>lhp_actions := bt_insert (lai_action_id data)
        (action\<lparr>lap_status := LifecycleActionStatus_Succeeded\<rparr>) (lhp_actions hook)\<rparr>)
      (feix_lifecycle_hooks x)\<rparr>)))"

definition iteration_action_failed ::
  "for_each_iteration_execution_projection \<Rightarrow> lifecycle_action_failed_data \<Rightarrow> iteration_result" where
  "iteration_action_failed x data =
    and_then (ok_or (bt_get (feix_lifecycle_hooks x) (laf_hook_invocation_id data))
      (InvalidHistory (Iteration_fold_rs 498))) (\<lambda>hook.
    and_then (ok_or (bt_get (lhp_actions hook) (laf_action_id data))
      (InvalidHistory (Iteration_fold_rs 501))) (\<lambda>action.
    if lap_status action \<noteq> LifecycleActionStatus_Started \<or> lap_attempt action \<noteq> laf_attempt data
    then Inl (InvalidHistory (Iteration_fold_rs 504))
    else Inr (x\<lparr>feix_lifecycle_hooks := bt_insert (laf_hook_invocation_id data)
      (hook\<lparr>lhp_actions := bt_insert (laf_action_id data)
          (action\<lparr>lap_status := LifecycleActionStatus_Failed, lap_failure := Some (laf_failure data)\<rparr>)
          (lhp_actions hook),
        lhp_failed_actions := lhp_failed_actions hook + 1\<rparr>) (feix_lifecycle_hooks x)\<rparr>)))"

definition iteration_hook_completed ::
  "for_each_iteration_execution_projection \<Rightarrow> lifecycle_hook_completed_data \<Rightarrow> iteration_result" where
  "iteration_hook_completed x data =
    and_then (ok_or (bt_get (feix_lifecycle_hooks x) (lhc_hook_invocation_id data))
      (InvalidHistory (Iteration_fold_rs 517))) (\<lambda>hook.
    if hook_has_active_action hook \<or> lhp_failed_actions hook \<noteq> lhc_failed_actions data
    then Inl (InvalidHistory (Iteration_fold_rs 525))
    else Inr (x\<lparr>feix_lifecycle_hooks := bt_insert (lhc_hook_invocation_id data)
      (hook\<lparr>lhp_status := hook_status_of (lhc_status data)\<rparr>) (feix_lifecycle_hooks x)\<rparr>))"

section \<open>Reusable hooks\<close>

definition iteration_reusable_requested ::
  "for_each_iteration_execution_projection \<Rightarrow> reusable_lifecycle_requested_data \<Rightarrow> iteration_result" where
  "iteration_reusable_requested x data =
    (let key = reusable_key (rlr_invocation_id data) (rlr_hook data) in
     if bt_contains (feix_reusable_lifecycle_hooks x) key then Inl (InvalidHistory (Iteration_fold_rs 539))
     else Inr (x\<lparr>feix_reusable_lifecycle_hooks :=
       bt_insert key (requested_reusable data) (feix_reusable_lifecycle_hooks x)\<rparr>))"

definition iteration_reusable_action_started ::
  "for_each_iteration_execution_projection \<Rightarrow> reusable_lifecycle_action_started_data \<Rightarrow> iteration_result" where
  "iteration_reusable_action_started x data =
    (let key = reusable_key (rlast_invocation_id data) (rlast_hook data) in
     and_then (ok_or (bt_get (feix_reusable_lifecycle_hooks x) key) (InvalidHistory (Iteration_fold_rs 561)))
     (\<lambda>hook.
       if is_some (rlp_active_action_id hook) \<or> rlast_action_id data \<in> set (rlp_completed_action_ids hook)
       then Inl (InvalidHistory (Iteration_fold_rs 563))
       else Inr (x\<lparr>feix_reusable_lifecycle_hooks := bt_insert key
         (hook\<lparr>rlp_active_action_id := Some (rlast_action_id data),
               rlp_status := ReusableLifecycleStatus_Running\<rparr>) (feix_reusable_lifecycle_hooks x)\<rparr>)))"

definition iteration_reusable_action_succeeded ::
  "for_each_iteration_execution_projection \<Rightarrow> reusable_lifecycle_action_succeeded_data \<Rightarrow> iteration_result" where
  "iteration_reusable_action_succeeded x data =
    (let key = reusable_key (rlasu_invocation_id data) (rlasu_hook data) in
     and_then (ok_or (bt_get (feix_reusable_lifecycle_hooks x) key) (InvalidHistory (Iteration_fold_rs 575)))
     (\<lambda>hook.
       if rlp_active_action_id hook \<noteq> Some (rlasu_action_id data)
       then Inl (InvalidHistory (Iteration_fold_rs 577))
       else Inr (x\<lparr>feix_reusable_lifecycle_hooks := bt_insert key
         (hook\<lparr>rlp_active_action_id := None,
               rlp_completed_action_ids := rlp_completed_action_ids hook @ [rlasu_action_id data]\<rparr>)
         (feix_reusable_lifecycle_hooks x)\<rparr>)))"

definition iteration_reusable_action_failed ::
  "for_each_iteration_execution_projection \<Rightarrow> reusable_lifecycle_action_failed_data \<Rightarrow> iteration_result" where
  "iteration_reusable_action_failed x data =
    (let key = reusable_key (rlaf_invocation_id data) (rlaf_hook data) in
     and_then (ok_or (bt_get (feix_reusable_lifecycle_hooks x) key) (InvalidHistory (Iteration_fold_rs 589)))
     (\<lambda>hook.
       if rlp_active_action_id hook \<noteq> Some (rlaf_action_id data)
       then Inl (InvalidHistory (Iteration_fold_rs 591))
       else Inr (x\<lparr>feix_reusable_lifecycle_hooks := bt_insert key
         (hook\<lparr>rlp_active_action_id := None,
               rlp_completed_action_ids := rlp_completed_action_ids hook @ [rlaf_action_id data],
               rlp_warning_codes := rlp_warning_codes hook @ [rlaf_warning_code data]\<rparr>)
         (feix_reusable_lifecycle_hooks x)\<rparr>)))"

definition iteration_reusable_completed ::
  "for_each_iteration_execution_projection \<Rightarrow> reusable_lifecycle_completed_data \<Rightarrow> iteration_result" where
  "iteration_reusable_completed x data =
    (let key = reusable_key (rlc_invocation_id data) (rlc_hook data) in
     and_then (ok_or (bt_get (feix_reusable_lifecycle_hooks x) key) (InvalidHistory (Iteration_fold_rs 604)))
     (\<lambda>hook.
       if is_some (rlp_active_action_id hook) then Inl (InvalidHistory (Iteration_fold_rs 606))
       else Inr (x\<lparr>feix_reusable_lifecycle_hooks := bt_insert key
         (hook\<lparr>rlp_status := reusable_status_of (rlc_outcome data)\<rparr>) (feix_reusable_lifecycle_hooks x)\<rparr>)))"

section \<open>Dispatch\<close>

definition apply_iteration_payload ::
  "for_each_iteration_execution_projection \<Rightarrow> for_each_iteration_scope \<Rightarrow> run_event
    \<Rightarrow> run_event option \<Rightarrow> iteration_result" where
  "apply_iteration_payload x scope event previous_event = (case ev_payload event of
     StepAttemptStarted data \<Rightarrow> iteration_attempt_started x event data
   | StepAttemptSucceeded data \<Rightarrow> iteration_attempt_succeeded x data
   | StepAttemptFailed data \<Rightarrow> iteration_attempt_failed x data
   | StepRetryScheduled data \<Rightarrow> iteration_retry_scheduled x scope data previous_event
   | ChoiceSelected data \<Rightarrow> iteration_choice_selected x data
   | BranchSelected data \<Rightarrow> iteration_branch_selected x data
   | ParallelGroupStarted data \<Rightarrow> iteration_parallel_started x data
   | ParallelGroupCompleted data \<Rightarrow> iteration_parallel_completed x data
   | LockWaitRegistered data \<Rightarrow> iteration_lock_wait_registered x data
   | LockAcquired data \<Rightarrow> iteration_lock_acquired x data
   | LockReleased data \<Rightarrow> iteration_lock_released x data
   | LockAcquireTimedOut data \<Rightarrow> iteration_lock_acquire_timed_out x data
   | LockAcquisitionCancelled data \<Rightarrow> iteration_lock_acquisition_cancelled x data
   | LockLeaseLost data \<Rightarrow> iteration_lock_lease_lost x data
   | InfrastructurePolicyDecisionRecorded _ \<Rightarrow> Inl (InvalidHistory (Iteration_fold_rs 352))
   | OperationStarted data \<Rightarrow> iteration_operation_started x data
   | OperationSucceeded data \<Rightarrow> iteration_operation_succeeded x data
   | OperationFailed data \<Rightarrow> iteration_operation_failed x data
   | LifecycleHookRequested data \<Rightarrow> iteration_hook_requested x data
   | LifecycleActionAttemptStarted data \<Rightarrow> iteration_action_started x data
   | LifecycleActionSucceeded data \<Rightarrow> iteration_action_succeeded x data
   | LifecycleActionFailed data \<Rightarrow> iteration_action_failed x data
   | LifecycleHookCompleted data \<Rightarrow> iteration_hook_completed x data
   | ReusableLifecycleRequested data \<Rightarrow> iteration_reusable_requested x data
   | ReusableLifecycleActionStarted data \<Rightarrow> iteration_reusable_action_started x data
   | ReusableLifecycleActionSucceeded data \<Rightarrow> iteration_reusable_action_succeeded x data
   | ReusableLifecycleActionFailed data \<Rightarrow> iteration_reusable_action_failed x data
   | ReusableLifecycleCompleted data \<Rightarrow> iteration_reusable_completed x data
   | _ \<Rightarrow> Inl (InvalidHistory (Iteration_fold_rs 617)))"

definition apply_iteration_scoped_event ::
  "run_projection \<Rightarrow> run_event \<Rightarrow> run_event option \<Rightarrow> fold_result" where
  "apply_iteration_scoped_event p event previous_event =
    and_then (require_running_or_cancelling p) (\<lambda>_.
    and_then (ok_or (ev_iteration event) (InvalidHistory (Iteration_fold_rs 22))) (\<lambda>scope.
    and_then (ok_or (bt_get (p_for_each p) (scope_for_each_id scope))
      (InvalidHistory (Iteration_fold_rs 28))) (\<lambda>loop.
    if fep_status loop \<noteq> ForEachStatus_Open
      \<or> bt_get (fep_iterations loop) (scope_index scope) \<noteq> Some ForEachIterationStatus_Started
    then Inl (InvalidHistory (Iteration_fold_rs 39))
    else
      and_then (ok_or (bt_get (fep_executions loop) (scope_index scope))
        (InvalidHistory (Iteration_fold_rs 45))) (\<lambda>execution.
      and_then (apply_iteration_payload execution scope event previous_event) (\<lambda>execution'.
      Inr (p\<lparr>p_for_each := bt_insert (scope_for_each_id scope)
        (loop\<lparr>fep_executions := bt_insert (scope_index scope) execution' (fep_executions loop)\<rparr>)
        (p_for_each p)\<rparr>))))))"

lemmas fold_iteration_defs =
  iteration_attempt_started_def iteration_attempt_succeeded_def iteration_attempt_failed_def
  iteration_retry_scheduled_def iteration_choice_selected_def iteration_branch_selected_def
  iteration_parallel_started_def iteration_parallel_completed_def iteration_lock_wait_registered_def
  iteration_lock_acquired_def iteration_lock_released_def iteration_lock_acquire_timed_out_def
  iteration_lock_acquisition_cancelled_def iteration_lock_lease_lost_def
  iteration_operation_started_def iteration_operation_succeeded_def iteration_operation_failed_def
  iteration_hook_requested_def iteration_action_started_def iteration_action_succeeded_def
  iteration_action_failed_def iteration_hook_completed_def iteration_reusable_requested_def
  iteration_reusable_action_started_def iteration_reusable_action_succeeded_def
  iteration_reusable_action_failed_def iteration_reusable_completed_def

end
