(* ===== verification/Projection_Fold.thy ===== *)
theory Projection_Fold
  imports Event_Validation Fold_Run Fold_Attempts Fold_Locks Fold_Waits Fold_Operations
    Fold_Correction Fold_Control_Flow Fold_Approvals Fold_Notifications Fold_Lifecycle Fold_Iteration
begin

text \<open>
  The projection fold (\<^verbatim>\<open>projection/fold.rs\<close>): the gate every event of a history passes
  (validation, sequence, identity, schema version, no event after a terminal one), the
  dispatch of the payload to its transition, and the fold of a history.  An error of
  \<^verbatim>\<open>apply\<close> leaves no state behind: every caller applies the event to a clone and
  publishes it only on success, which is what returning the state inside the result says.
\<close>

section \<open>State\<close>

record fold_state =
  fs_projection :: run_projection
  fs_event_ids :: "string set"
  fs_attempt_indexes :: attempt_indexes
  fs_previous_event :: "run_event option"

definition default_fold_state :: fold_state where
  "default_fold_state =
    \<lparr>fs_projection = empty_projection,
     fs_event_ids = {},
     fs_attempt_indexes = Map.empty,
     fs_previous_event = None\<rparr>"

definition last_event_id :: "fold_state \<Rightarrow> string option" where
  "last_event_id state = map_option ev_event_id (fs_previous_event state)"

section \<open>Dispatch\<close>

definition keep_indexes ::
  "attempt_indexes \<Rightarrow> fold_result \<Rightarrow> (fold_error, run_projection \<times> attempt_indexes) result" where
  "keep_indexes ix r = and_then r (\<lambda>p. Inr (p, ix))"

fun apply_payload ::
  "externals \<Rightarrow> nat \<Rightarrow> run_projection \<Rightarrow> attempt_indexes \<Rightarrow> run_event option \<Rightarrow> run_event
    \<Rightarrow> run_event_payload \<Rightarrow> (fold_error, run_projection \<times> attempt_indexes) result" where
  "apply_payload E index p ix previous event (RunAdmitted data) =
    keep_indexes ix (apply_run_admitted p event data index)"
| "apply_payload E index p ix previous event (RunExecutionStarted data) =
    keep_indexes ix (apply_run_execution_started p data)"
| "apply_payload E index p ix previous event (RunTimeoutReached data) =
    keep_indexes ix (apply_run_timeout_reached p data)"
| "apply_payload E index p ix previous event (RunStarted data) =
    keep_indexes ix (apply_run_started p event data index)"
| "apply_payload E index p ix previous event (StepAttemptStarted data) =
    apply_step_attempt_started p event data ix"
| "apply_payload E index p ix previous event (StepAttemptSucceeded data) =
    keep_indexes ix (apply_step_attempt_succeeded p data ix)"
| "apply_payload E index p ix previous event (StepAttemptFailed data) =
    keep_indexes ix (apply_step_attempt_failed p data ix)"
| "apply_payload E index p ix previous event (StepRetryScheduled data) =
    keep_indexes ix (apply_step_retry_scheduled p data previous)"
| "apply_payload E index p ix previous event (BranchSelected data) =
    keep_indexes ix (apply_branch_selected p data)"
| "apply_payload E index p ix previous event (ChoiceSelected data) =
    keep_indexes ix (apply_choice_selected p data)"
| "apply_payload E index p ix previous event (ParallelGroupStarted data) =
    keep_indexes ix (apply_parallel_group_started p data)"
| "apply_payload E index p ix previous event (ParallelGroupCompleted data) =
    keep_indexes ix (apply_parallel_group_completed p data)"
| "apply_payload E index p ix previous event (ApprovalRequested data) =
    keep_indexes ix (apply_approval_requested p event data)"
| "apply_payload E index p ix previous event (ApprovalReviewRequested data) =
    keep_indexes ix (apply_approval_review_requested p event data)"
| "apply_payload E index p ix previous event (ApprovalReviewerDecisionRecorded data) =
    keep_indexes ix (apply_approval_reviewer_decision_recorded p event data)"
| "apply_payload E index p ix previous event (ApprovalQuorumProgressed data) =
    keep_indexes ix (apply_approval_quorum_progressed p data)"
| "apply_payload E index p ix previous event (ApprovalResolved data) =
    keep_indexes ix (apply_approval_resolved E p event data)"
| "apply_payload E index p ix previous event (ApprovalInvalidated data) =
    keep_indexes ix (apply_approval_invalidated p data)"
| "apply_payload E index p ix previous event (NotificationDeliveryRequested data) =
    keep_indexes ix (apply_notification_delivery_requested p data)"
| "apply_payload E index p ix previous event (NotificationDeliveryAttemptStarted data) =
    keep_indexes ix (apply_notification_delivery_attempt_started p data)"
| "apply_payload E index p ix previous event (NotificationDeliverySucceeded data) =
    keep_indexes ix (apply_notification_delivery_succeeded p data)"
| "apply_payload E index p ix previous event (NotificationDeliveryFailed data) =
    keep_indexes ix (apply_notification_delivery_failed p event data)"
| "apply_payload E index p ix previous event (NotificationDecisionAccepted data) =
    keep_indexes ix (apply_notification_decision_accepted p data)"
| "apply_payload E index p ix previous event (NotificationMessageUpdateRequested data) =
    keep_indexes ix (apply_notification_message_update_requested p data)"
| "apply_payload E index p ix previous event (NotificationMessageUpdateAttemptStarted data) =
    keep_indexes ix (apply_notification_message_update_attempt_started p data)"
| "apply_payload E index p ix previous event (NotificationMessageUpdated data) =
    keep_indexes ix (apply_notification_message_updated p data)"
| "apply_payload E index p ix previous event (NotificationMessageUpdateFailed data) =
    keep_indexes ix (apply_notification_message_update_failed p event data)"
| "apply_payload E index p ix previous event (InfrastructurePolicyDecisionRecorded data) =
    keep_indexes ix (apply_infrastructure_policy_decision_recorded p data)"
| "apply_payload E index p ix previous event (RemoteDispatchTransitioned _) =
    Inr (p, ix)"
| "apply_payload E index p ix previous event (OperationStarted data) =
    keep_indexes ix (apply_operation_started E p data)"
| "apply_payload E index p ix previous event (OperationSucceeded data) =
    keep_indexes ix (apply_operation_succeeded E p data)"
| "apply_payload E index p ix previous event (OperationFailed data) =
    keep_indexes ix (apply_operation_failed E p data)"
| "apply_payload E index p ix previous event (ForkOpened data) =
    keep_indexes ix (apply_fork_opened p data)"
| "apply_payload E index p ix previous event (ForkBranchSettled data) =
    keep_indexes ix (apply_fork_branch_settled p data)"
| "apply_payload E index p ix previous event (ForkJoinSettled data) =
    keep_indexes ix (apply_fork_join_settled p data)"
| "apply_payload E index p ix previous event (RunCancellationRequested data) =
    keep_indexes ix (apply_run_cancellation_requested p data)"
| "apply_payload E index p ix previous event (LifecycleHookRequested data) =
    keep_indexes ix (apply_lifecycle_hook_requested p data)"
| "apply_payload E index p ix previous event (LifecycleActionAttemptStarted data) =
    keep_indexes ix (apply_lifecycle_action_attempt_started p data)"
| "apply_payload E index p ix previous event (LifecycleActionSucceeded data) =
    keep_indexes ix (apply_lifecycle_action_succeeded p data)"
| "apply_payload E index p ix previous event (LifecycleActionFailed data) =
    keep_indexes ix (apply_lifecycle_action_failed p data)"
| "apply_payload E index p ix previous event (LifecycleHookCompleted data) =
    keep_indexes ix (apply_lifecycle_hook_completed p data)"
| "apply_payload E index p ix previous event (ReusableLifecycleRequested data) =
    keep_indexes ix (apply_reusable_lifecycle_requested p data)"
| "apply_payload E index p ix previous event (ReusableLifecycleActionStarted data) =
    keep_indexes ix (apply_reusable_lifecycle_action_started p data)"
| "apply_payload E index p ix previous event (ReusableLifecycleActionSucceeded data) =
    keep_indexes ix (apply_reusable_lifecycle_action_succeeded p data)"
| "apply_payload E index p ix previous event (ReusableLifecycleActionFailed data) =
    keep_indexes ix (apply_reusable_lifecycle_action_failed p data)"
| "apply_payload E index p ix previous event (ReusableLifecycleCompleted data) =
    keep_indexes ix (apply_reusable_lifecycle_completed p data)"
| "apply_payload E index p ix previous event (ForEachOpened data) =
    keep_indexes ix (apply_for_each_opened p data)"
| "apply_payload E index p ix previous event (ForEachIterationStarted data) =
    keep_indexes ix (apply_for_each_iteration_started p event data)"
| "apply_payload E index p ix previous event (ForEachIterationSucceeded data) =
    keep_indexes ix (apply_for_each_iteration_succeeded E p event data)"
| "apply_payload E index p ix previous event (ForEachIterationFailed data) =
    keep_indexes ix (apply_for_each_iteration_failed p event data)"
| "apply_payload E index p ix previous event (ForEachIterationSkipped data) =
    keep_indexes ix (apply_for_each_iteration_skipped p event data)"
| "apply_payload E index p ix previous event (ForEachSucceeded data) =
    keep_indexes ix (apply_for_each_settled E p event data)"
| "apply_payload E index p ix previous event (ForEachFailed data) =
    keep_indexes ix (apply_for_each_settled E p event data)"
| "apply_payload E index p ix previous event (ForEachCancelled data) =
    keep_indexes ix (apply_for_each_settled E p event data)"
| "apply_payload E index p ix previous event (WaitRegistered data) =
    keep_indexes ix (apply_wait_registered p data)"
| "apply_payload E index p ix previous event (ExternalSignalReceived data) =
    keep_indexes ix (apply_external_signal_received p data)"
| "apply_payload E index p ix previous event (WaitSatisfied data) =
    keep_indexes ix (apply_wait_satisfied p data)"
| "apply_payload E index p ix previous event (WaitTimedOut data) =
    keep_indexes ix (apply_wait_timed_out E p data)"
| "apply_payload E index p ix previous event (WaitCancelled data) =
    keep_indexes ix (apply_wait_cancelled p data)"
| "apply_payload E index p ix previous event (LockWaitRegistered data) =
    keep_indexes ix (apply_lock_wait_registered p data)"
| "apply_payload E index p ix previous event (LockAcquired data) =
    keep_indexes ix (apply_lock_acquired p data)"
| "apply_payload E index p ix previous event (LockReleased data) =
    keep_indexes ix (apply_lock_released p data)"
| "apply_payload E index p ix previous event (LockAcquireTimedOut data) =
    keep_indexes ix (apply_lock_acquire_timed_out p data)"
| "apply_payload E index p ix previous event (LockAcquisitionCancelled data) =
    keep_indexes ix (apply_lock_acquisition_cancelled p data)"
| "apply_payload E index p ix previous event (LockLeaseLost data) =
    keep_indexes ix (apply_lock_lease_lost p data)"
| "apply_payload E index p ix previous event (SagaStarted data) =
    keep_indexes ix (apply_saga_started p event data)"
| "apply_payload E index p ix previous event (CompensationRegistered data) =
    keep_indexes ix (apply_compensation_registered p event data previous)"
| "apply_payload E index p ix previous event (SagaForwardSucceeded data) =
    keep_indexes ix (apply_saga_forward_succeeded p event data)"
| "apply_payload E index p ix previous event (SagaCorrectionStarted data) =
    keep_indexes ix (apply_saga_correction_started p data)"
| "apply_payload E index p ix previous event (CorrectionAttemptStarted data) =
    keep_indexes ix (apply_correction_attempt_started p event data)"
| "apply_payload E index p ix previous event (CorrectionAttemptSucceeded data) =
    keep_indexes ix (apply_correction_attempt_succeeded E p data)"
| "apply_payload E index p ix previous event (CorrectionAttemptFailed data) =
    keep_indexes ix (apply_correction_attempt_failed E p data)"
| "apply_payload E index p ix previous event (CorrectionRetryScheduled data) =
    keep_indexes ix (apply_correction_retry_scheduled p data)"
| "apply_payload E index p ix previous event (CorrectionInterrupted data) =
    keep_indexes ix (apply_correction_interrupted E p data)"
| "apply_payload E index p ix previous event (SagaCorrectionCompleted data) =
    keep_indexes ix (apply_saga_correction_completed p event data)"
| "apply_payload E index p ix previous event (ManualRecoveryRequired data) =
    keep_indexes ix (apply_manual_recovery_required p data)"
| "apply_payload E index p ix previous event (RunOutcomeDecided data) =
    keep_indexes ix (apply_run_outcome_decided p data)"
| "apply_payload E index p ix previous event (RunFinalized data) =
    keep_indexes ix (apply_run_finalized p data)"
| "apply_payload E index p ix previous event (RunSucceeded data) =
    keep_indexes ix (apply_run_succeeded p data)"
| "apply_payload E index p ix previous event (RunFailed data) =
    keep_indexes ix (apply_run_failed p data ix)"

definition is_top_level_scoped_event :: "run_event_payload \<Rightarrow> bool" where
  "is_top_level_scoped_event payload = (case payload of
     ForEachIterationStarted _ \<Rightarrow> True
   | ForEachIterationSucceeded _ \<Rightarrow> True
   | ForEachIterationFailed _ \<Rightarrow> True
   | ForEachIterationSkipped _ \<Rightarrow> True
   | CompensationRegistered _ \<Rightarrow> True
   | _ \<Rightarrow> False)"

definition is_terminal :: "run_status \<Rightarrow> bool" where
  "is_terminal status = (status \<in> {RunStatus_Succeeded, RunStatus_Failed, RunStatus_Cancelled})"

text \<open>
  \<^verbatim>\<open>apply\<close>.  The machine word \<^verbatim>\<open>last_sequence as usize\<close> indexes the history; the addition
  of one to it is the wrapping addition of u64.
\<close>

definition apply_transition ::
  "externals \<Rightarrow> fold_state \<Rightarrow> run_event \<Rightarrow> (fold_error, run_projection \<times> attempt_indexes) result" where
  "apply_transition E state event =
    (if is_some (ev_iteration event) \<and> \<not> is_top_level_scoped_event (ev_payload event)
     then keep_indexes (fs_attempt_indexes state)
       (apply_iteration_scoped_event (fs_projection state) event (fs_previous_event state))
     else apply_payload E (unat (p_last_sequence (fs_projection state))) (fs_projection state)
       (fs_attempt_indexes state) (fs_previous_event state) event (ev_payload event))"

fun fold_check :: "check \<Rightarrow> (fold_error, unit) result" where
  "fold_check (Inl error) = Inl (InvalidEvent error)"
| "fold_check (Inr u) = Inr u"

definition apply_event :: "externals \<Rightarrow> fold_state \<Rightarrow> run_event \<Rightarrow> (fold_error, fold_state) result" where
  "apply_event E state event =
    and_then (fold_check (validate_event E event)) (\<lambda>_.
    if ev_sequence event \<noteq> p_last_sequence (fs_projection state) + 1
    then Inl (InvalidHistory (Fold_rs 103))
    else if ev_event_id event \<in> fs_event_ids state then Inl (InvalidHistory (Fold_rs 109))
    else if is_some_and (p_run_id (fs_projection state)) (\<lambda>run_id. run_id \<noteq> ev_run_id event)
    then Inl (InvalidHistory (Fold_rs 116))
    else if is_some_and (p_event_schema_version (fs_projection state)) (\<lambda>v. v \<noteq> version event)
    then Inl (InvalidHistory (Fold_rs 124))
    else if is_terminal (p_status (fs_projection state)) then Inl (InvalidHistory (Fold_rs 134))
    else
      and_then (apply_transition E state event) (\<lambda>(p, ix).
      Inr \<lparr>fs_projection = p\<lparr>p_last_sequence := ev_sequence event\<rparr>,
           fs_event_ids = insert (ev_event_id event) (fs_event_ids state),
           fs_attempt_indexes = ix,
           fs_previous_event = Some event\<rparr>))"

section \<open>Folding a history\<close>

fun apply_events :: "externals \<Rightarrow> fold_state \<Rightarrow> run_event list \<Rightarrow> (fold_error, fold_state) result" where
  "apply_events E state [] = Inr state"
| "apply_events E state (event # events) =
    and_then (apply_event E state event) (\<lambda>state'. apply_events E state' events)"

definition from_events :: "externals \<Rightarrow> run_event list \<Rightarrow> (fold_error, fold_state) result" where
  "from_events E events = apply_events E default_fold_state events"

definition fold_events :: "externals \<Rightarrow> run_event list \<Rightarrow> fold_result" where
  "fold_events E events = and_then (from_events E events) (\<lambda>state. Inr (fs_projection state))"

end
