(* ===== verification/Fold_Frames.thy ===== *)
theory Fold_Frames
  imports Projection_Fold
begin

text \<open>
  Footprints: which fields of the projection the transitions of a component may write.
  A footprint says that the new projection is the old one with only those fields
  replaced; an invariant on other fields passes through the component unchanged.
\<close>

named_theorems footprints \<open>the footprint of every transition\<close>
named_theorems footprint_elims \<open>elimination of footprints\<close>

section \<open>Run\<close>

definition writes_run :: "run_projection \<Rightarrow> run_projection \<Rightarrow> bool" where
  "writes_run p q = (q = p\<lparr>p_event_schema_version := p_event_schema_version q,
      p_run_id := p_run_id q, p_workflow_id := p_workflow_id q,
      p_definition_hash := p_definition_hash q, p_policy_hash := p_policy_hash q,
      p_queue := p_queue q, p_occurrence_sequence := p_occurrence_sequence q,
      p_admitted_at := p_admitted_at q, p_started_at := p_started_at q,
      p_timeout_at := p_timeout_at q, p_timeout_reached_at := p_timeout_reached_at q,
      p_trigger_id := p_trigger_id q, p_trigger_handler := p_trigger_handler q,
      p_trigger_occurrence_id := p_trigger_occurrence_id q, p_ingress := p_ingress q,
      p_status := p_status q, p_context := p_context q\<rparr>)"

lemma writes_runE [footprint_elims]:
  assumes "writes_run p q"
  obtains x0 x1 x2 x3 x4 x5 x6 x7 x8 x9 x10 x11 x12 x13 x14 x15 x16 where "q = p\<lparr>
    p_event_schema_version := x0, p_run_id := x1, p_workflow_id := x2,
    p_definition_hash := x3, p_policy_hash := x4, p_queue := x5, p_occurrence_sequence := x6,
    p_admitted_at := x7, p_started_at := x8, p_timeout_at := x9, p_timeout_reached_at := x10,
    p_trigger_id := x11, p_trigger_handler := x12, p_trigger_occurrence_id := x13,
    p_ingress := x14, p_status := x15, p_context := x16\<rparr>"
  using assms unfolding writes_run_def by blast

lemma run_footprints [footprints]:
  "apply_run_admitted p event d0 index = Inr q \<Longrightarrow> writes_run p q"
  "apply_run_execution_started p d1 = Inr q \<Longrightarrow> writes_run p q"
  "apply_run_timeout_reached p d2 = Inr q \<Longrightarrow> writes_run p q"
  "apply_run_started p event d3 index = Inr q \<Longrightarrow> writes_run p q"
  by (auto simp: fold_run_defs writes_run_def ok_simps Let_def split: if_splits option.splits)

section \<open>Outcome\<close>

definition writes_outcome :: "run_projection \<Rightarrow> run_projection \<Rightarrow> bool" where
  "writes_outcome p q = (q = p\<lparr>p_status := p_status q,
      p_business_outcome := p_business_outcome q, p_lifecycle_status := p_lifecycle_status q,
      p_cancellation_request_id := p_cancellation_request_id q,
      p_lifecycle_warnings := p_lifecycle_warnings q,
      p_pending_retries := p_pending_retries q, p_terminal_node_id := p_terminal_node_id q,
      p_result := p_result q, p_failure := p_failure q,
      p_lifecycle_failure := p_lifecycle_failure q\<rparr>)"

lemma writes_outcomeE [footprint_elims]:
  assumes "writes_outcome p q"
  obtains x0 x1 x2 x3 x4 x5 x6 x7 x8 x9 where "q = p\<lparr>p_status := x0,
    p_business_outcome := x1, p_lifecycle_status := x2, p_cancellation_request_id := x3,
    p_lifecycle_warnings := x4, p_pending_retries := x5, p_terminal_node_id := x6,
    p_result := x7, p_failure := x8, p_lifecycle_failure := x9\<rparr>"
  using assms unfolding writes_outcome_def by blast

lemma outcome_footprints [footprints]:
  "apply_run_cancellation_requested p d0 = Inr q \<Longrightarrow> writes_outcome p q"
  "apply_run_succeeded p d1 = Inr q \<Longrightarrow> writes_outcome p q"
  "apply_run_failed p d2 ix = Inr q \<Longrightarrow> writes_outcome p q"
  "apply_run_outcome_decided p d3 = Inr q \<Longrightarrow> writes_outcome p q"
  "apply_run_finalized p d4 = Inr q \<Longrightarrow> writes_outcome p q"
  by (auto simp: fold_run_defs fold_lifecycle_defs writes_outcome_def ok_simps Let_def split: if_splits option.splits run_outcome_decided_data.splits)

section \<open>Attempts\<close>

definition writes_attempts :: "run_projection \<Rightarrow> run_projection \<Rightarrow> bool" where
  "writes_attempts p q = (q = p\<lparr>p_context := p_context q, p_attempts := p_attempts q,
      p_pending_retries := p_pending_retries q\<rparr>)"

lemma writes_attemptsE [footprint_elims]:
  assumes "writes_attempts p q"
  obtains x0 x1 x2 where "q = p\<lparr>p_context := x0, p_attempts := x1,
    p_pending_retries := x2\<rparr>"
  using assms unfolding writes_attempts_def by blast

lemma attempts_footprints [footprints]:
  "apply_step_attempt_started p event d0 ix = Inr (q, ix') \<Longrightarrow> writes_attempts p q"
  "apply_step_attempt_succeeded p d1 ix = Inr q \<Longrightarrow> writes_attempts p q"
  "apply_step_attempt_failed p d2 ix = Inr q \<Longrightarrow> writes_attempts p q"
  "apply_step_retry_scheduled p d3 previous = Inr q \<Longrightarrow> writes_attempts p q"
  by (auto simp: fold_attempts_defs writes_attempts_def ok_simps Let_def split: if_splits option.splits)

section \<open>Locks\<close>

definition writes_locks :: "run_projection \<Rightarrow> run_projection \<Rightarrow> bool" where
  "writes_locks p q = (q = p\<lparr>p_status := p_status q, p_context := p_context q,
      p_locks := p_locks q\<rparr>)"

lemma writes_locksE [footprint_elims]:
  assumes "writes_locks p q"
  obtains x0 x1 x2 where "q = p\<lparr>p_status := x0, p_context := x1, p_locks := x2\<rparr>"
  using assms unfolding writes_locks_def by blast

lemma locks_footprints [footprints]:
  "apply_lock_wait_registered p d0 = Inr q \<Longrightarrow> writes_locks p q"
  "apply_lock_acquired p d1 = Inr q \<Longrightarrow> writes_locks p q"
  "apply_lock_released p d2 = Inr q \<Longrightarrow> writes_locks p q"
  "apply_lock_acquire_timed_out p d3 = Inr q \<Longrightarrow> writes_locks p q"
  "apply_lock_acquisition_cancelled p d4 = Inr q \<Longrightarrow> writes_locks p q"
  "apply_lock_lease_lost p d5 = Inr q \<Longrightarrow> writes_locks p q"
  by (auto simp: fold_locks_defs writes_locks_def ok_simps Let_def split: if_splits option.splits)

section \<open>Waits\<close>

definition writes_waits :: "run_projection \<Rightarrow> run_projection \<Rightarrow> bool" where
  "writes_waits p q = (q = p\<lparr>p_status := p_status q, p_context := p_context q,
      p_durable_waits := p_durable_waits q, p_external_signals := p_external_signals q\<rparr>)"

lemma writes_waitsE [footprint_elims]:
  assumes "writes_waits p q"
  obtains x0 x1 x2 x3 where "q = p\<lparr>p_status := x0, p_context := x1,
    p_durable_waits := x2, p_external_signals := x3\<rparr>"
  using assms unfolding writes_waits_def by blast

lemma waits_footprints [footprints]:
  "apply_wait_registered p d0 = Inr q \<Longrightarrow> writes_waits p q"
  "apply_external_signal_received p d1 = Inr q \<Longrightarrow> writes_waits p q"
  "apply_wait_satisfied p d2 = Inr q \<Longrightarrow> writes_waits p q"
  "apply_wait_timed_out E p d3 = Inr q \<Longrightarrow> writes_waits p q"
  "apply_wait_cancelled p d4 = Inr q \<Longrightarrow> writes_waits p q"
  by (auto simp: fold_waits_defs writes_waits_def ok_simps Let_def split: if_splits option.splits)

section \<open>Operations\<close>

definition writes_operations :: "run_projection \<Rightarrow> run_projection \<Rightarrow> bool" where
  "writes_operations p q = (q = p\<lparr>
      p_infrastructure_policy_decisions := p_infrastructure_policy_decisions q,
      p_operations := p_operations q\<rparr>)"

lemma writes_operationsE [footprint_elims]:
  assumes "writes_operations p q"
  obtains x0 x1 where "q = p\<lparr>p_infrastructure_policy_decisions := x0, p_operations := x1\<rparr>"
  using assms unfolding writes_operations_def by blast

lemma operations_footprints [footprints]:
  "apply_infrastructure_policy_decision_recorded p d0 = Inr q \<Longrightarrow> writes_operations p q"
  "apply_operation_started E p d1 = Inr q \<Longrightarrow> writes_operations p q"
  "apply_operation_succeeded E p d2 = Inr q \<Longrightarrow> writes_operations p q"
  "apply_operation_failed E p d3 = Inr q \<Longrightarrow> writes_operations p q"
  by (auto simp: fold_operations_defs writes_operations_def ok_simps Let_def split: if_splits option.splits)

section \<open>Sagas\<close>

definition writes_sagas :: "run_projection \<Rightarrow> run_projection \<Rightarrow> bool" where
  "writes_sagas p q = (q = p\<lparr>p_sagas := p_sagas q\<rparr>)"

lemma writes_sagasE [footprint_elims]:
  assumes "writes_sagas p q"
  obtains x0 where "q = p\<lparr>p_sagas := x0\<rparr>"
  using assms unfolding writes_sagas_def by blast

lemma sagas_footprints [footprints]:
  "apply_saga_started p event d0 = Inr q \<Longrightarrow> writes_sagas p q"
  "apply_compensation_registered p event d1 previous = Inr q \<Longrightarrow> writes_sagas p q"
  "apply_saga_forward_succeeded p event d2 = Inr q \<Longrightarrow> writes_sagas p q"
  "apply_saga_correction_started p d3 = Inr q \<Longrightarrow> writes_sagas p q"
  "apply_correction_attempt_started p event d4 = Inr q \<Longrightarrow> writes_sagas p q"
  "apply_correction_attempt_succeeded E p d5 = Inr q \<Longrightarrow> writes_sagas p q"
  "apply_correction_attempt_failed E p d6 = Inr q \<Longrightarrow> writes_sagas p q"
  "apply_correction_retry_scheduled p d7 = Inr q \<Longrightarrow> writes_sagas p q"
  "apply_correction_interrupted E p d8 = Inr q \<Longrightarrow> writes_sagas p q"
  "apply_manual_recovery_required p d9 = Inr q \<Longrightarrow> writes_sagas p q"
  "apply_saga_correction_completed p event d10 = Inr q \<Longrightarrow> writes_sagas p q"
  by (clarsimp simp: fold_correction_defs writes_sagas_def ok_simps Let_def)+

section \<open>Flow\<close>

definition writes_flow :: "run_projection \<Rightarrow> run_projection \<Rightarrow> bool" where
  "writes_flow p q = (q = p\<lparr>p_branch_selections := p_branch_selections q,
      p_choice_selections := p_choice_selections q, p_parallel_groups := p_parallel_groups q,
      p_forks := p_forks q\<rparr>)"

lemma writes_flowE [footprint_elims]:
  assumes "writes_flow p q"
  obtains x0 x1 x2 x3 where "q = p\<lparr>p_branch_selections := x0,
    p_choice_selections := x1, p_parallel_groups := x2, p_forks := x3\<rparr>"
  using assms unfolding writes_flow_def by blast

lemma flow_footprints [footprints]:
  "apply_branch_selected p d0 = Inr q \<Longrightarrow> writes_flow p q"
  "apply_choice_selected p d1 = Inr q \<Longrightarrow> writes_flow p q"
  "apply_fork_opened p d2 = Inr q \<Longrightarrow> writes_flow p q"
  "apply_fork_branch_settled p d3 = Inr q \<Longrightarrow> writes_flow p q"
  "apply_fork_join_settled p d4 = Inr q \<Longrightarrow> writes_flow p q"
  "apply_parallel_group_started p d5 = Inr q \<Longrightarrow> writes_flow p q"
  "apply_parallel_group_completed p d6 = Inr q \<Longrightarrow> writes_flow p q"
  by (auto simp: fold_control_flow_defs writes_flow_def ok_simps Let_def split: if_splits option.splits)

section \<open>Loops\<close>

definition writes_loops :: "run_projection \<Rightarrow> run_projection \<Rightarrow> bool" where
  "writes_loops p q = (q = p\<lparr>p_context := p_context q, p_for_each := p_for_each q\<rparr>)"

lemma writes_loopsE [footprint_elims]:
  assumes "writes_loops p q"
  obtains x0 x1 where "q = p\<lparr>p_context := x0, p_for_each := x1\<rparr>"
  using assms unfolding writes_loops_def by blast

lemma loops_footprints [footprints]:
  "apply_for_each_opened p d0 = Inr q \<Longrightarrow> writes_loops p q"
  "apply_for_each_iteration_started p event d1 = Inr q \<Longrightarrow> writes_loops p q"
  "apply_for_each_iteration_succeeded E p event d2 = Inr q \<Longrightarrow> writes_loops p q"
  "apply_for_each_iteration_failed p event d3 = Inr q \<Longrightarrow> writes_loops p q"
  "apply_for_each_iteration_skipped p event d4 = Inr q \<Longrightarrow> writes_loops p q"
  "apply_for_each_settled E p event d5 = Inr q \<Longrightarrow> writes_loops p q"
  "apply_iteration_scoped_event p event previous = Inr q \<Longrightarrow> writes_loops p q"
  by (auto simp: fold_control_flow_defs apply_iteration_scoped_event_def writes_loops_def ok_simps Let_def split: if_splits option.splits)

section \<open>Approvals\<close>

definition writes_approvals :: "run_projection \<Rightarrow> run_projection \<Rightarrow> bool" where
  "writes_approvals p q = (q = p\<lparr>p_status := p_status q, p_context := p_context q,
      p_approval_requests := p_approval_requests q,
      p_rich_approval_requests := p_rich_approval_requests q\<rparr>)"

lemma writes_approvalsE [footprint_elims]:
  assumes "writes_approvals p q"
  obtains x0 x1 x2 x3 where "q = p\<lparr>p_status := x0, p_context := x1,
    p_approval_requests := x2, p_rich_approval_requests := x3\<rparr>"
  using assms unfolding writes_approvals_def by blast

lemma approvals_footprints [footprints]:
  "apply_approval_requested p event d0 = Inr q \<Longrightarrow> writes_approvals p q"
  "apply_approval_review_requested p event d1 = Inr q \<Longrightarrow> writes_approvals p q"
  "apply_approval_reviewer_decision_recorded p event d2 = Inr q \<Longrightarrow> writes_approvals p q"
  "apply_approval_quorum_progressed p d3 = Inr q \<Longrightarrow> writes_approvals p q"
  "apply_approval_resolved E p event d4 = Inr q \<Longrightarrow> writes_approvals p q"
  "apply_approval_invalidated p d5 = Inr q \<Longrightarrow> writes_approvals p q"
  by (auto simp: fold_approvals_defs writes_approvals_def ok_simps Let_def split: if_splits option.splits)

section \<open>Notifications\<close>

definition writes_notifications :: "run_projection \<Rightarrow> run_projection \<Rightarrow> bool" where
  "writes_notifications p q = (q = p\<lparr>
      p_notification_deliveries := p_notification_deliveries q,
      p_notification_updates := p_notification_updates q,
      p_notification_decisions := p_notification_decisions q\<rparr>)"

lemma writes_notificationsE [footprint_elims]:
  assumes "writes_notifications p q"
  obtains x0 x1 x2 where "q = p\<lparr>p_notification_deliveries := x0,
    p_notification_updates := x1, p_notification_decisions := x2\<rparr>"
  using assms unfolding writes_notifications_def by blast

lemma notifications_footprints [footprints]:
  "apply_notification_delivery_requested p d0 = Inr q \<Longrightarrow> writes_notifications p q"
  "apply_notification_delivery_attempt_started p d1 = Inr q \<Longrightarrow> writes_notifications p q"
  "apply_notification_delivery_succeeded p d2 = Inr q \<Longrightarrow> writes_notifications p q"
  "apply_notification_delivery_failed p event d3 = Inr q \<Longrightarrow> writes_notifications p q"
  "apply_notification_decision_accepted p d4 = Inr q \<Longrightarrow> writes_notifications p q"
  "apply_notification_message_update_requested p d5 = Inr q \<Longrightarrow> writes_notifications p q"
  "apply_notification_message_update_attempt_started p d6 = Inr q \<Longrightarrow> writes_notifications p q"
  "apply_notification_message_updated p d7 = Inr q \<Longrightarrow> writes_notifications p q"
  "apply_notification_message_update_failed p event d8 = Inr q \<Longrightarrow> writes_notifications p q"
  by (auto simp: fold_notifications_defs writes_notifications_def ok_simps Let_def split: if_splits option.splits)

section \<open>Hooks\<close>

definition writes_hooks :: "run_projection \<Rightarrow> run_projection \<Rightarrow> bool" where
  "writes_hooks p q = (q = p\<lparr>p_lifecycle_status := p_lifecycle_status q,
      p_lifecycle_hooks := p_lifecycle_hooks q,
      p_reusable_lifecycle_hooks := p_reusable_lifecycle_hooks q\<rparr>)"

lemma writes_hooksE [footprint_elims]:
  assumes "writes_hooks p q"
  obtains x0 x1 x2 where "q = p\<lparr>p_lifecycle_status := x0, p_lifecycle_hooks := x1,
    p_reusable_lifecycle_hooks := x2\<rparr>"
  using assms unfolding writes_hooks_def by blast

lemma hooks_footprints [footprints]:
  "apply_lifecycle_hook_requested p d0 = Inr q \<Longrightarrow> writes_hooks p q"
  "apply_lifecycle_action_attempt_started p d1 = Inr q \<Longrightarrow> writes_hooks p q"
  "apply_lifecycle_action_succeeded p d2 = Inr q \<Longrightarrow> writes_hooks p q"
  "apply_lifecycle_action_failed p d3 = Inr q \<Longrightarrow> writes_hooks p q"
  "apply_lifecycle_hook_completed p d4 = Inr q \<Longrightarrow> writes_hooks p q"
  "apply_reusable_lifecycle_requested p d5 = Inr q \<Longrightarrow> writes_hooks p q"
  "apply_reusable_lifecycle_action_started p d6 = Inr q \<Longrightarrow> writes_hooks p q"
  "apply_reusable_lifecycle_action_succeeded p d7 = Inr q \<Longrightarrow> writes_hooks p q"
  "apply_reusable_lifecycle_action_failed p d8 = Inr q \<Longrightarrow> writes_hooks p q"
  "apply_reusable_lifecycle_completed p d9 = Inr q \<Longrightarrow> writes_hooks p q"
  by (auto simp: fold_lifecycle_defs writes_hooks_def ok_simps Let_def split: if_splits option.splits)

end
