(* ===== verification/Fold_Reachable.thy ===== *)
theory Fold_Reachable
  imports Fold_Frames
begin

text \<open>
  Reasoning about histories: the inversion of a successful fold step, the locale of
  invariants over histories and the locale of relations every step respects.
\<close>

section \<open>Inversion of a step\<close>

lemma fold_check_Inr_iff [ok_simps]: "fold_check r = Inr u \<longleftrightarrow> r = Inr u"
  by (cases r) auto

lemma keep_indexes_Inr_iff [ok_simps]: "keep_indexes ix r = Inr (p, ix') \<longleftrightarrow> r = Inr p \<and> ix' = ix"
  by (auto simp: keep_indexes_def ok_simps)

definition gate_open :: "externals \<Rightarrow> fold_state \<Rightarrow> run_event \<Rightarrow> bool" where
  "gate_open E state event =
    (validate_event E event = Inr ()
     \<and> ev_sequence event = p_last_sequence (fs_projection state) + 1
     \<and> ev_event_id event \<notin> fs_event_ids state
     \<and> is_none_or (p_run_id (fs_projection state)) (\<lambda>r. r = ev_run_id event)
     \<and> is_none_or (p_event_schema_version (fs_projection state)) (\<lambda>v. v = version event)
     \<and> \<not> is_terminal (p_status (fs_projection state)))"

lemma apply_event_Inr_iff:
  "apply_event E state event = Inr state' \<longleftrightarrow>
    gate_open E state event \<and>
    (\<exists>p ix. apply_transition E state event = Inr (p, ix)
      \<and> state' = \<lparr>fs_projection = p\<lparr>p_last_sequence := ev_sequence event\<rparr>,
           fs_event_ids = insert (ev_event_id event) (fs_event_ids state),
           fs_attempt_indexes = ix,
           fs_previous_event = Some event\<rparr>)"
  by (auto simp: apply_event_def gate_open_def ok_simps is_some_and_iff is_none_or_iff)

lemma apply_eventE:
  assumes "apply_event E state event = Inr state'"
  obtains p ix where "gate_open E state event" "apply_transition E state event = Inr (p, ix)"
    "state' = \<lparr>fs_projection = p\<lparr>p_last_sequence := ev_sequence event\<rparr>,
       fs_event_ids = insert (ev_event_id event) (fs_event_ids state),
       fs_attempt_indexes = ix,
       fs_previous_event = Some event\<rparr>"
  using assms by (auto simp: apply_event_Inr_iff)

section \<open>Histories\<close>

lemma apply_events_append:
  "apply_events E state (xs @ ys) =
    and_then (apply_events E state xs) (\<lambda>state'. apply_events E state' ys)"
  by (induction xs arbitrary: state) (simp_all add: and_then_assoc)

lemma from_events_Nil [simp]: "from_events E [] = Inr default_fold_state"
  by (simp add: from_events_def)

lemma from_events_append:
  "from_events E (xs @ ys) = and_then (from_events E xs) (\<lambda>state. apply_events E state ys)"
  by (simp add: from_events_def apply_events_append)

lemma from_events_snoc:
  "from_events E (xs @ [e]) = and_then (from_events E xs) (\<lambda>state. apply_event E state e)"
  by (simp add: from_events_append)

lemma from_events_snocE:
  assumes "from_events E (xs @ [e]) = Inr state'"
  obtains state where "from_events E xs = Inr state" "apply_event E state e = Inr state'"
  using assms by (auto simp: from_events_snoc ok_simps)

lemma from_events_prefix:
  assumes "from_events E (xs @ ys) = Inr state'"
  obtains state where "from_events E xs = Inr state" "apply_events E state ys = Inr state'"
  using assms by (auto simp: from_events_append ok_simps)

text \<open>
  An invariant of histories: it holds of the empty history, and it passes from a
  history that folds to the history with one more event, when the step succeeds.
\<close>

locale history_invariant =
  fixes E :: externals
    and inv :: "run_event list \<Rightarrow> fold_state \<Rightarrow> bool"
  assumes inv_init: "inv [] default_fold_state"
    and inv_step: "\<And>es state e state'.
      from_events E es = Inr state \<Longrightarrow> inv es state \<Longrightarrow> apply_event E state e = Inr state'
      \<Longrightarrow> inv (es @ [e]) state'"
begin

lemma holds: "from_events E es = Inr state \<Longrightarrow> inv es state"
proof (induction es arbitrary: state rule: rev_induct)
  case Nil
  then show ?case using inv_init by simp
next
  case (snoc e es)
  then obtain state0 where "from_events E es = Inr state0" "apply_event E state0 e = Inr state"
    by (auto elim: from_events_snocE)
  then show ?case using snoc.IH inv_step by blast
qed

lemma holds_prefix:
  assumes "from_events E (xs @ ys) = Inr state'"
  obtains state where "from_events E xs = Inr state" "inv xs state"
  using assms holds by (auto elim: from_events_prefix)

end

text \<open>
  An invariant of projections: it does not read the sequence counter, and every
  transition the gate lets through preserves it.
\<close>

locale projection_invariant =
  fixes E :: externals
    and pinv :: "run_projection \<Rightarrow> attempt_indexes \<Rightarrow> bool"
  assumes pinv_init: "pinv empty_projection Map.empty"
    and pinv_sequence: "\<And>p ix n. pinv (p\<lparr>p_last_sequence := n\<rparr>) ix = pinv p ix"
    and pinv_step: "\<And>state e p ix.
      gate_open E state e \<Longrightarrow> pinv (fs_projection state) (fs_attempt_indexes state)
      \<Longrightarrow> apply_transition E state e = Inr (p, ix) \<Longrightarrow> pinv p ix"
begin

lemma step: "apply_event E state e = Inr state'
    \<Longrightarrow> pinv (fs_projection state) (fs_attempt_indexes state)
    \<Longrightarrow> pinv (fs_projection state') (fs_attempt_indexes state')"
  by (erule apply_eventE) (simp add: pinv_sequence pinv_step)

end

sublocale projection_invariant \<subseteq> history_invariant E
  "\<lambda>_ state. pinv (fs_projection state) (fs_attempt_indexes state)"
  by unfold_locales (auto simp: default_fold_state_def pinv_init intro: step)

text \<open>
  A relation every step from a reachable state respects, and so every extension of a
  history.
\<close>

locale step_relation =
  fixes E :: externals
    and rel :: "run_projection \<Rightarrow> run_projection \<Rightarrow> bool"
  assumes rel_refl: "\<And>p. rel p p"
    and rel_trans: "\<And>p q r. rel p q \<Longrightarrow> rel q r \<Longrightarrow> rel p r"
    and rel_sequence: "\<And>p q n. rel p q \<Longrightarrow> rel p (q\<lparr>p_last_sequence := n\<rparr>)"
    and rel_step: "\<And>es state e p ix.
      from_events E es = Inr state \<Longrightarrow> gate_open E state e
      \<Longrightarrow> apply_transition E state e = Inr (p, ix) \<Longrightarrow> rel (fs_projection state) p"
begin

lemma apply_event_rel:
  assumes "from_events E es = Inr state" "apply_event E state e = Inr state'"
  shows "rel (fs_projection state) (fs_projection state')"
  using assms(2) by (elim apply_eventE) (auto intro: rel_sequence rel_step assms(1))

lemma extension_rel:
  assumes "from_events E xs = Inr state" "from_events E (xs @ ys) = Inr state'"
  shows "rel (fs_projection state) (fs_projection state')"
  using assms(2)
proof (induction ys arbitrary: state' rule: rev_induct)
  case Nil
  then show ?case using assms(1) by (simp add: rel_refl)
next
  case (snoc y ys)
  then have "from_events E ((xs @ ys) @ [y]) = Inr state'" by simp
  then obtain mid where "from_events E (xs @ ys) = Inr mid" "apply_event E mid y = Inr state'"
    by (rule from_events_snocE)
  then show ?case using snoc.IH apply_event_rel rel_trans by blast
qed

end

end
