(* ===== verification/Fold_Owners.thy ===== *)
theory Fold_Owners
  imports Fold_Reachable
begin

text \<open>
  Every payload belongs to one component, the one whose fields its transition may
  write.  A loop-owned event (one with an iteration scope) belongs to the loops,
  whatever its payload.
\<close>

datatype owner =
    Owner_Run
  | Owner_Outcome
  | Owner_Attempts
  | Owner_Locks
  | Owner_Waits
  | Owner_Operations
  | Owner_Sagas
  | Owner_Flow
  | Owner_Loops
  | Owner_Approvals
  | Owner_Notifications
  | Owner_Hooks
  | Owner_None

fun payload_owner :: "run_event_payload \<Rightarrow> owner" where
  "payload_owner (RunAdmitted _) = Owner_Run"
| "payload_owner (RunExecutionStarted _) = Owner_Run"
| "payload_owner (RunTimeoutReached _) = Owner_Run"
| "payload_owner (RunStarted _) = Owner_Run"
| "payload_owner (StepAttemptStarted _) = Owner_Attempts"
| "payload_owner (StepAttemptSucceeded _) = Owner_Attempts"
| "payload_owner (StepAttemptFailed _) = Owner_Attempts"
| "payload_owner (StepRetryScheduled _) = Owner_Attempts"
| "payload_owner (BranchSelected _) = Owner_Flow"
| "payload_owner (ChoiceSelected _) = Owner_Flow"
| "payload_owner (ParallelGroupStarted _) = Owner_Flow"
| "payload_owner (ParallelGroupCompleted _) = Owner_Flow"
| "payload_owner (ApprovalRequested _) = Owner_Approvals"
| "payload_owner (ApprovalReviewRequested _) = Owner_Approvals"
| "payload_owner (ApprovalReviewerDecisionRecorded _) = Owner_Approvals"
| "payload_owner (ApprovalQuorumProgressed _) = Owner_Approvals"
| "payload_owner (ApprovalResolved _) = Owner_Approvals"
| "payload_owner (ApprovalInvalidated _) = Owner_Approvals"
| "payload_owner (NotificationDeliveryRequested _) = Owner_Notifications"
| "payload_owner (NotificationDeliveryAttemptStarted _) = Owner_Notifications"
| "payload_owner (NotificationDeliverySucceeded _) = Owner_Notifications"
| "payload_owner (NotificationDeliveryFailed _) = Owner_Notifications"
| "payload_owner (NotificationDecisionAccepted _) = Owner_Notifications"
| "payload_owner (NotificationMessageUpdateRequested _) = Owner_Notifications"
| "payload_owner (NotificationMessageUpdateAttemptStarted _) = Owner_Notifications"
| "payload_owner (NotificationMessageUpdated _) = Owner_Notifications"
| "payload_owner (NotificationMessageUpdateFailed _) = Owner_Notifications"
| "payload_owner (InfrastructurePolicyDecisionRecorded _) = Owner_Operations"
| "payload_owner (RemoteDispatchTransitioned _) = Owner_None"
| "payload_owner (OperationStarted _) = Owner_Operations"
| "payload_owner (OperationSucceeded _) = Owner_Operations"
| "payload_owner (OperationFailed _) = Owner_Operations"
| "payload_owner (ForkOpened _) = Owner_Flow"
| "payload_owner (ForkBranchSettled _) = Owner_Flow"
| "payload_owner (ForkJoinSettled _) = Owner_Flow"
| "payload_owner (RunCancellationRequested _) = Owner_Outcome"
| "payload_owner (LifecycleHookRequested _) = Owner_Hooks"
| "payload_owner (LifecycleActionAttemptStarted _) = Owner_Hooks"
| "payload_owner (LifecycleActionSucceeded _) = Owner_Hooks"
| "payload_owner (LifecycleActionFailed _) = Owner_Hooks"
| "payload_owner (LifecycleHookCompleted _) = Owner_Hooks"
| "payload_owner (ReusableLifecycleRequested _) = Owner_Hooks"
| "payload_owner (ReusableLifecycleActionStarted _) = Owner_Hooks"
| "payload_owner (ReusableLifecycleActionSucceeded _) = Owner_Hooks"
| "payload_owner (ReusableLifecycleActionFailed _) = Owner_Hooks"
| "payload_owner (ReusableLifecycleCompleted _) = Owner_Hooks"
| "payload_owner (ForEachOpened _) = Owner_Loops"
| "payload_owner (ForEachIterationStarted _) = Owner_Loops"
| "payload_owner (ForEachIterationSucceeded _) = Owner_Loops"
| "payload_owner (ForEachIterationFailed _) = Owner_Loops"
| "payload_owner (ForEachIterationSkipped _) = Owner_Loops"
| "payload_owner (ForEachSucceeded _) = Owner_Loops"
| "payload_owner (ForEachFailed _) = Owner_Loops"
| "payload_owner (ForEachCancelled _) = Owner_Loops"
| "payload_owner (WaitRegistered _) = Owner_Waits"
| "payload_owner (ExternalSignalReceived _) = Owner_Waits"
| "payload_owner (WaitSatisfied _) = Owner_Waits"
| "payload_owner (WaitTimedOut _) = Owner_Waits"
| "payload_owner (WaitCancelled _) = Owner_Waits"
| "payload_owner (LockWaitRegistered _) = Owner_Locks"
| "payload_owner (LockAcquired _) = Owner_Locks"
| "payload_owner (LockReleased _) = Owner_Locks"
| "payload_owner (LockAcquireTimedOut _) = Owner_Locks"
| "payload_owner (LockAcquisitionCancelled _) = Owner_Locks"
| "payload_owner (LockLeaseLost _) = Owner_Locks"
| "payload_owner (SagaStarted _) = Owner_Sagas"
| "payload_owner (CompensationRegistered _) = Owner_Sagas"
| "payload_owner (SagaForwardSucceeded _) = Owner_Sagas"
| "payload_owner (SagaCorrectionStarted _) = Owner_Sagas"
| "payload_owner (CorrectionAttemptStarted _) = Owner_Sagas"
| "payload_owner (CorrectionAttemptSucceeded _) = Owner_Sagas"
| "payload_owner (CorrectionAttemptFailed _) = Owner_Sagas"
| "payload_owner (CorrectionRetryScheduled _) = Owner_Sagas"
| "payload_owner (CorrectionInterrupted _) = Owner_Sagas"
| "payload_owner (SagaCorrectionCompleted _) = Owner_Sagas"
| "payload_owner (ManualRecoveryRequired _) = Owner_Sagas"
| "payload_owner (RunOutcomeDecided _) = Owner_Outcome"
| "payload_owner (RunFinalized _) = Owner_Outcome"
| "payload_owner (RunSucceeded _) = Owner_Outcome"
| "payload_owner (RunFailed _) = Owner_Outcome"

definition event_owner :: "run_event \<Rightarrow> owner" where
  "event_owner e =
    (if is_some (ev_iteration e) \<and> \<not> is_top_level_scoped_event (ev_payload e)
     then Owner_Loops else payload_owner (ev_payload e))"

fun owner_writes :: "owner \<Rightarrow> run_projection \<Rightarrow> run_projection \<Rightarrow> bool" where
  "owner_writes Owner_Run p q = writes_run p q"
| "owner_writes Owner_Outcome p q = writes_outcome p q"
| "owner_writes Owner_Attempts p q = writes_attempts p q"
| "owner_writes Owner_Locks p q = writes_locks p q"
| "owner_writes Owner_Waits p q = writes_waits p q"
| "owner_writes Owner_Operations p q = writes_operations p q"
| "owner_writes Owner_Sagas p q = writes_sagas p q"
| "owner_writes Owner_Flow p q = writes_flow p q"
| "owner_writes Owner_Loops p q = writes_loops p q"
| "owner_writes Owner_Approvals p q = writes_approvals p q"
| "owner_writes Owner_Notifications p q = writes_notifications p q"
| "owner_writes Owner_Hooks p q = writes_hooks p q"
| "owner_writes Owner_None p q = (q = p)"

lemma apply_payload_writes:
  assumes "apply_payload E index p ix previous event payload = Inr (q, ix')"
  shows "owner_writes (payload_owner payload) p q"
  using assms by (cases payload) (auto simp: ok_simps intro: footprints)

lemma apply_payload_indexes:
  assumes "apply_payload E index p ix previous event payload = Inr (q, ix')"
    and "payload_owner payload \<noteq> Owner_Attempts"
  shows "ix' = ix"
  using assms by (cases payload) (auto simp: ok_simps)

lemma transition_writes:
  assumes "apply_transition E state e = Inr (q, ix)"
  shows "owner_writes (event_owner e) (fs_projection state) q"
  using assms
  by (auto simp: apply_transition_def event_owner_def ok_simps split: if_splits
      intro: footprints apply_payload_writes)

lemma transition_indexes:
  assumes "apply_transition E state e = Inr (q, ix)" "event_owner e \<noteq> Owner_Attempts"
  shows "ix = fs_attempt_indexes state"
  using assms
  by (auto simp: apply_transition_def event_owner_def ok_simps split: if_splits
      dest: apply_payload_indexes)

lemma transition_payload:
  assumes "event_owner e \<noteq> Owner_Loops"
  shows "apply_transition E state e =
    apply_payload E (unat (p_last_sequence (fs_projection state))) (fs_projection state)
      (fs_attempt_indexes state) (fs_previous_event state) e (ev_payload e)"
    and "event_owner e = payload_owner (ev_payload e)"
  using assms by (auto simp: apply_transition_def event_owner_def split: if_splits)

section \<open>Fields with one writer\<close>

text \<open>A field keeps its value through the transitions of the components that do not own it.\<close>

lemma transition_frame:
  assumes "apply_transition E state e = Inr (q, ix)"
  shows
    "event_owner e \<noteq> Owner_Run \<Longrightarrow>
      p_event_schema_version q = p_event_schema_version (fs_projection state)"
    and "event_owner e \<noteq> Owner_Run \<Longrightarrow>
      p_run_id q = p_run_id (fs_projection state)"
    and "event_owner e \<noteq> Owner_Run \<Longrightarrow>
      p_started_at q = p_started_at (fs_projection state)"
    and "event_owner e \<noteq> Owner_Run \<Longrightarrow>
      p_timeout_at q = p_timeout_at (fs_projection state)"
    and "event_owner e \<noteq> Owner_Run \<Longrightarrow>
      p_timeout_reached_at q = p_timeout_reached_at (fs_projection state)"
    and "event_owner e \<noteq> Owner_Run \<Longrightarrow>
      p_admitted_at q = p_admitted_at (fs_projection state)"
    and "event_owner e \<noteq> Owner_Run \<Longrightarrow>
      p_definition_hash q = p_definition_hash (fs_projection state)"
    and "event_owner e \<noteq> Owner_Run \<Longrightarrow>
      p_workflow_id q = p_workflow_id (fs_projection state)"
    and "event_owner e \<noteq> Owner_Outcome \<Longrightarrow>
      p_business_outcome q = p_business_outcome (fs_projection state)"
    and "event_owner e \<noteq> Owner_Outcome \<Longrightarrow>
      p_cancellation_request_id q = p_cancellation_request_id (fs_projection state)"
    and "event_owner e \<noteq> Owner_Outcome \<Longrightarrow>
      p_result q = p_result (fs_projection state)"
    and "event_owner e \<noteq> Owner_Outcome \<Longrightarrow>
      p_failure q = p_failure (fs_projection state)"
    and "event_owner e \<noteq> Owner_Outcome \<Longrightarrow>
      p_lifecycle_failure q = p_lifecycle_failure (fs_projection state)"
    and "event_owner e \<noteq> Owner_Outcome \<Longrightarrow>
      p_terminal_node_id q = p_terminal_node_id (fs_projection state)"
    and "event_owner e \<noteq> Owner_Outcome \<Longrightarrow>
      p_lifecycle_warnings q = p_lifecycle_warnings (fs_projection state)"
    and "event_owner e \<noteq> Owner_Hooks \<Longrightarrow>
      p_lifecycle_hooks q = p_lifecycle_hooks (fs_projection state)"
    and "event_owner e \<noteq> Owner_Hooks \<Longrightarrow>
      p_reusable_lifecycle_hooks q = p_reusable_lifecycle_hooks (fs_projection state)"
    and "event_owner e \<noteq> Owner_Attempts \<Longrightarrow>
      p_attempts q = p_attempts (fs_projection state)"
    and "event_owner e \<noteq> Owner_Operations \<Longrightarrow>
      p_operations q = p_operations (fs_projection state)"
    and "event_owner e \<noteq> Owner_Operations \<Longrightarrow>
      p_infrastructure_policy_decisions q = p_infrastructure_policy_decisions (fs_projection state)"
    and "event_owner e \<noteq> Owner_Flow \<Longrightarrow>
      p_parallel_groups q = p_parallel_groups (fs_projection state)"
    and "event_owner e \<noteq> Owner_Flow \<Longrightarrow>
      p_forks q = p_forks (fs_projection state)"
    and "event_owner e \<noteq> Owner_Flow \<Longrightarrow>
      p_branch_selections q = p_branch_selections (fs_projection state)"
    and "event_owner e \<noteq> Owner_Flow \<Longrightarrow>
      p_choice_selections q = p_choice_selections (fs_projection state)"
    and "event_owner e \<noteq> Owner_Loops \<Longrightarrow>
      p_for_each q = p_for_each (fs_projection state)"
    and "event_owner e \<noteq> Owner_Approvals \<Longrightarrow>
      p_approval_requests q = p_approval_requests (fs_projection state)"
    and "event_owner e \<noteq> Owner_Approvals \<Longrightarrow>
      p_rich_approval_requests q = p_rich_approval_requests (fs_projection state)"
    and "event_owner e \<noteq> Owner_Waits \<Longrightarrow>
      p_durable_waits q = p_durable_waits (fs_projection state)"
    and "event_owner e \<noteq> Owner_Waits \<Longrightarrow>
      p_external_signals q = p_external_signals (fs_projection state)"
    and "event_owner e \<noteq> Owner_Locks \<Longrightarrow>
      p_locks q = p_locks (fs_projection state)"
    and "event_owner e \<noteq> Owner_Sagas \<Longrightarrow>
      p_sagas q = p_sagas (fs_projection state)"
    and "event_owner e \<noteq> Owner_Notifications \<Longrightarrow>
      p_notification_deliveries q = p_notification_deliveries (fs_projection state)"
    and "event_owner e \<noteq> Owner_Notifications \<Longrightarrow>
      p_notification_updates q = p_notification_updates (fs_projection state)"
    and "event_owner e \<noteq> Owner_Notifications \<Longrightarrow>
      p_notification_decisions q = p_notification_decisions (fs_projection state)"
    and "event_owner e \<notin> {Owner_Run, Owner_Outcome, Owner_Locks, Owner_Waits, Owner_Approvals} \<Longrightarrow>
      p_status q = p_status (fs_projection state)"
    and "event_owner e \<notin> {Owner_Outcome, Owner_Attempts} \<Longrightarrow>
      p_pending_retries q = p_pending_retries (fs_projection state)"
    and "event_owner e \<notin> {Owner_Run, Owner_Attempts, Owner_Locks, Owner_Waits, Owner_Loops, Owner_Approvals} \<Longrightarrow>
      p_context q = p_context (fs_projection state)"
    and "event_owner e \<notin> {Owner_Outcome, Owner_Hooks} \<Longrightarrow>
      p_lifecycle_status q = p_lifecycle_status (fs_projection state)"
  using transition_writes [OF assms]
  by (cases "event_owner e"; auto elim!: footprint_elims)+

section \<open>Transitions by owner\<close>

text \<open>The transitions an event of a component can make.\<close>

lemma run_transitionE:
  assumes "apply_transition E state e = Inr (q, ix)" "event_owner e = Owner_Run"
  obtains
    (RunAdmitted) data where "ev_payload e = RunAdmitted data"
      "apply_run_admitted (fs_projection state) e data (unat (p_last_sequence (fs_projection state))) = Inr q" "ix = fs_attempt_indexes state"
  | (RunExecutionStarted) data where "ev_payload e = RunExecutionStarted data"
      "apply_run_execution_started (fs_projection state) data = Inr q" "ix = fs_attempt_indexes state"
  | (RunTimeoutReached) data where "ev_payload e = RunTimeoutReached data"
      "apply_run_timeout_reached (fs_projection state) data = Inr q" "ix = fs_attempt_indexes state"
  | (RunStarted) data where "ev_payload e = RunStarted data"
      "apply_run_started (fs_projection state) e data (unat (p_last_sequence (fs_projection state))) = Inr q" "ix = fs_attempt_indexes state"
proof -
  have owner: "payload_owner (ev_payload e) = Owner_Run" "event_owner e \<noteq> Owner_Loops"
    using assms(2) transition_payload(2) [of e] by auto
  have "(\<exists>d. ev_payload e = RunAdmitted d)
    \<or> (\<exists>d. ev_payload e = RunExecutionStarted d)
    \<or> (\<exists>d. ev_payload e = RunTimeoutReached d)
    \<or> (\<exists>d. ev_payload e = RunStarted d)"
    using owner(1) by (cases "ev_payload e") simp_all
  with assms(1) that show ?thesis
    by (elim disjE exE) (simp_all add: transition_payload(1) [OF owner(2)] ok_simps)
qed

lemma outcome_transitionE:
  assumes "apply_transition E state e = Inr (q, ix)" "event_owner e = Owner_Outcome"
  obtains
    (RunCancellationRequested) data where "ev_payload e = RunCancellationRequested data"
      "apply_run_cancellation_requested (fs_projection state) data = Inr q" "ix = fs_attempt_indexes state"
  | (RunOutcomeDecided) data where "ev_payload e = RunOutcomeDecided data"
      "apply_run_outcome_decided (fs_projection state) data = Inr q" "ix = fs_attempt_indexes state"
  | (RunFinalized) data where "ev_payload e = RunFinalized data"
      "apply_run_finalized (fs_projection state) data = Inr q" "ix = fs_attempt_indexes state"
  | (RunSucceeded) data where "ev_payload e = RunSucceeded data"
      "apply_run_succeeded (fs_projection state) data = Inr q" "ix = fs_attempt_indexes state"
  | (RunFailed) data where "ev_payload e = RunFailed data"
      "apply_run_failed (fs_projection state) data (fs_attempt_indexes state) = Inr q" "ix = fs_attempt_indexes state"
proof -
  have owner: "payload_owner (ev_payload e) = Owner_Outcome" "event_owner e \<noteq> Owner_Loops"
    using assms(2) transition_payload(2) [of e] by auto
  have "(\<exists>d. ev_payload e = RunCancellationRequested d)
    \<or> (\<exists>d. ev_payload e = RunOutcomeDecided d)
    \<or> (\<exists>d. ev_payload e = RunFinalized d)
    \<or> (\<exists>d. ev_payload e = RunSucceeded d)
    \<or> (\<exists>d. ev_payload e = RunFailed d)"
    using owner(1) by (cases "ev_payload e") simp_all
  with assms(1) that show ?thesis
    by (elim disjE exE) (simp_all add: transition_payload(1) [OF owner(2)] ok_simps)
qed

lemma attempts_transitionE:
  assumes "apply_transition E state e = Inr (q, ix)" "event_owner e = Owner_Attempts"
  obtains
    (StepAttemptStarted) data where "ev_payload e = StepAttemptStarted data"
      "apply_step_attempt_started (fs_projection state) e data (fs_attempt_indexes state) = Inr (q, ix)"
  | (StepAttemptSucceeded) data where "ev_payload e = StepAttemptSucceeded data"
      "apply_step_attempt_succeeded (fs_projection state) data (fs_attempt_indexes state) = Inr q" "ix = fs_attempt_indexes state"
  | (StepAttemptFailed) data where "ev_payload e = StepAttemptFailed data"
      "apply_step_attempt_failed (fs_projection state) data (fs_attempt_indexes state) = Inr q" "ix = fs_attempt_indexes state"
  | (StepRetryScheduled) data where "ev_payload e = StepRetryScheduled data"
      "apply_step_retry_scheduled (fs_projection state) data (fs_previous_event state) = Inr q" "ix = fs_attempt_indexes state"
proof -
  have owner: "payload_owner (ev_payload e) = Owner_Attempts" "event_owner e \<noteq> Owner_Loops"
    using assms(2) transition_payload(2) [of e] by auto
  have "(\<exists>d. ev_payload e = StepAttemptStarted d)
    \<or> (\<exists>d. ev_payload e = StepAttemptSucceeded d)
    \<or> (\<exists>d. ev_payload e = StepAttemptFailed d)
    \<or> (\<exists>d. ev_payload e = StepRetryScheduled d)"
    using owner(1) by (cases "ev_payload e") simp_all
  with assms(1) that show ?thesis
    by (elim disjE exE) (simp_all add: transition_payload(1) [OF owner(2)] ok_simps)
qed

lemma locks_transitionE:
  assumes "apply_transition E state e = Inr (q, ix)" "event_owner e = Owner_Locks"
  obtains
    (LockWaitRegistered) data where "ev_payload e = LockWaitRegistered data"
      "apply_lock_wait_registered (fs_projection state) data = Inr q" "ix = fs_attempt_indexes state"
  | (LockAcquired) data where "ev_payload e = LockAcquired data"
      "apply_lock_acquired (fs_projection state) data = Inr q" "ix = fs_attempt_indexes state"
  | (LockReleased) data where "ev_payload e = LockReleased data"
      "apply_lock_released (fs_projection state) data = Inr q" "ix = fs_attempt_indexes state"
  | (LockAcquireTimedOut) data where "ev_payload e = LockAcquireTimedOut data"
      "apply_lock_acquire_timed_out (fs_projection state) data = Inr q" "ix = fs_attempt_indexes state"
  | (LockAcquisitionCancelled) data where "ev_payload e = LockAcquisitionCancelled data"
      "apply_lock_acquisition_cancelled (fs_projection state) data = Inr q" "ix = fs_attempt_indexes state"
  | (LockLeaseLost) data where "ev_payload e = LockLeaseLost data"
      "apply_lock_lease_lost (fs_projection state) data = Inr q" "ix = fs_attempt_indexes state"
proof -
  have owner: "payload_owner (ev_payload e) = Owner_Locks" "event_owner e \<noteq> Owner_Loops"
    using assms(2) transition_payload(2) [of e] by auto
  have "(\<exists>d. ev_payload e = LockWaitRegistered d)
    \<or> (\<exists>d. ev_payload e = LockAcquired d)
    \<or> (\<exists>d. ev_payload e = LockReleased d)
    \<or> (\<exists>d. ev_payload e = LockAcquireTimedOut d)
    \<or> (\<exists>d. ev_payload e = LockAcquisitionCancelled d)
    \<or> (\<exists>d. ev_payload e = LockLeaseLost d)"
    using owner(1) by (cases "ev_payload e") simp_all
  with assms(1) that show ?thesis
    by (elim disjE exE) (simp_all add: transition_payload(1) [OF owner(2)] ok_simps)
qed

lemma waits_transitionE:
  assumes "apply_transition E state e = Inr (q, ix)" "event_owner e = Owner_Waits"
  obtains
    (WaitRegistered) data where "ev_payload e = WaitRegistered data"
      "apply_wait_registered (fs_projection state) data = Inr q" "ix = fs_attempt_indexes state"
  | (ExternalSignalReceived) data where "ev_payload e = ExternalSignalReceived data"
      "apply_external_signal_received (fs_projection state) data = Inr q" "ix = fs_attempt_indexes state"
  | (WaitSatisfied) data where "ev_payload e = WaitSatisfied data"
      "apply_wait_satisfied (fs_projection state) data = Inr q" "ix = fs_attempt_indexes state"
  | (WaitTimedOut) data where "ev_payload e = WaitTimedOut data"
      "apply_wait_timed_out E (fs_projection state) data = Inr q" "ix = fs_attempt_indexes state"
  | (WaitCancelled) data where "ev_payload e = WaitCancelled data"
      "apply_wait_cancelled (fs_projection state) data = Inr q" "ix = fs_attempt_indexes state"
proof -
  have owner: "payload_owner (ev_payload e) = Owner_Waits" "event_owner e \<noteq> Owner_Loops"
    using assms(2) transition_payload(2) [of e] by auto
  have "(\<exists>d. ev_payload e = WaitRegistered d)
    \<or> (\<exists>d. ev_payload e = ExternalSignalReceived d)
    \<or> (\<exists>d. ev_payload e = WaitSatisfied d)
    \<or> (\<exists>d. ev_payload e = WaitTimedOut d)
    \<or> (\<exists>d. ev_payload e = WaitCancelled d)"
    using owner(1) by (cases "ev_payload e") simp_all
  with assms(1) that show ?thesis
    by (elim disjE exE) (simp_all add: transition_payload(1) [OF owner(2)] ok_simps)
qed

lemma operations_transitionE:
  assumes "apply_transition E state e = Inr (q, ix)" "event_owner e = Owner_Operations"
  obtains
    (InfrastructurePolicyDecisionRecorded) data where "ev_payload e = InfrastructurePolicyDecisionRecorded data"
      "apply_infrastructure_policy_decision_recorded (fs_projection state) data = Inr q" "ix = fs_attempt_indexes state"
  | (OperationStarted) data where "ev_payload e = OperationStarted data"
      "apply_operation_started E (fs_projection state) data = Inr q" "ix = fs_attempt_indexes state"
  | (OperationSucceeded) data where "ev_payload e = OperationSucceeded data"
      "apply_operation_succeeded E (fs_projection state) data = Inr q" "ix = fs_attempt_indexes state"
  | (OperationFailed) data where "ev_payload e = OperationFailed data"
      "apply_operation_failed E (fs_projection state) data = Inr q" "ix = fs_attempt_indexes state"
proof -
  have owner: "payload_owner (ev_payload e) = Owner_Operations" "event_owner e \<noteq> Owner_Loops"
    using assms(2) transition_payload(2) [of e] by auto
  have "(\<exists>d. ev_payload e = InfrastructurePolicyDecisionRecorded d)
    \<or> (\<exists>d. ev_payload e = OperationStarted d)
    \<or> (\<exists>d. ev_payload e = OperationSucceeded d)
    \<or> (\<exists>d. ev_payload e = OperationFailed d)"
    using owner(1) by (cases "ev_payload e") simp_all
  with assms(1) that show ?thesis
    by (elim disjE exE) (simp_all add: transition_payload(1) [OF owner(2)] ok_simps)
qed

lemma sagas_transitionE:
  assumes "apply_transition E state e = Inr (q, ix)" "event_owner e = Owner_Sagas"
  obtains
    (SagaStarted) data where "ev_payload e = SagaStarted data"
      "apply_saga_started (fs_projection state) e data = Inr q" "ix = fs_attempt_indexes state"
  | (CompensationRegistered) data where "ev_payload e = CompensationRegistered data"
      "apply_compensation_registered (fs_projection state) e data (fs_previous_event state) = Inr q" "ix = fs_attempt_indexes state"
  | (SagaForwardSucceeded) data where "ev_payload e = SagaForwardSucceeded data"
      "apply_saga_forward_succeeded (fs_projection state) e data = Inr q" "ix = fs_attempt_indexes state"
  | (SagaCorrectionStarted) data where "ev_payload e = SagaCorrectionStarted data"
      "apply_saga_correction_started (fs_projection state) data = Inr q" "ix = fs_attempt_indexes state"
  | (CorrectionAttemptStarted) data where "ev_payload e = CorrectionAttemptStarted data"
      "apply_correction_attempt_started (fs_projection state) e data = Inr q" "ix = fs_attempt_indexes state"
  | (CorrectionAttemptSucceeded) data where "ev_payload e = CorrectionAttemptSucceeded data"
      "apply_correction_attempt_succeeded E (fs_projection state) data = Inr q" "ix = fs_attempt_indexes state"
  | (CorrectionAttemptFailed) data where "ev_payload e = CorrectionAttemptFailed data"
      "apply_correction_attempt_failed E (fs_projection state) data = Inr q" "ix = fs_attempt_indexes state"
  | (CorrectionRetryScheduled) data where "ev_payload e = CorrectionRetryScheduled data"
      "apply_correction_retry_scheduled (fs_projection state) data = Inr q" "ix = fs_attempt_indexes state"
  | (CorrectionInterrupted) data where "ev_payload e = CorrectionInterrupted data"
      "apply_correction_interrupted E (fs_projection state) data = Inr q" "ix = fs_attempt_indexes state"
  | (SagaCorrectionCompleted) data where "ev_payload e = SagaCorrectionCompleted data"
      "apply_saga_correction_completed (fs_projection state) e data = Inr q" "ix = fs_attempt_indexes state"
  | (ManualRecoveryRequired) data where "ev_payload e = ManualRecoveryRequired data"
      "apply_manual_recovery_required (fs_projection state) data = Inr q" "ix = fs_attempt_indexes state"
proof -
  have owner: "payload_owner (ev_payload e) = Owner_Sagas" "event_owner e \<noteq> Owner_Loops"
    using assms(2) transition_payload(2) [of e] by auto
  have "(\<exists>d. ev_payload e = SagaStarted d)
    \<or> (\<exists>d. ev_payload e = CompensationRegistered d)
    \<or> (\<exists>d. ev_payload e = SagaForwardSucceeded d)
    \<or> (\<exists>d. ev_payload e = SagaCorrectionStarted d)
    \<or> (\<exists>d. ev_payload e = CorrectionAttemptStarted d)
    \<or> (\<exists>d. ev_payload e = CorrectionAttemptSucceeded d)
    \<or> (\<exists>d. ev_payload e = CorrectionAttemptFailed d)
    \<or> (\<exists>d. ev_payload e = CorrectionRetryScheduled d)
    \<or> (\<exists>d. ev_payload e = CorrectionInterrupted d)
    \<or> (\<exists>d. ev_payload e = SagaCorrectionCompleted d)
    \<or> (\<exists>d. ev_payload e = ManualRecoveryRequired d)"
    using owner(1) by (cases "ev_payload e") simp_all
  with assms(1) that show ?thesis
    by (elim disjE exE) (simp_all add: transition_payload(1) [OF owner(2)] ok_simps)
qed

lemma flow_transitionE:
  assumes "apply_transition E state e = Inr (q, ix)" "event_owner e = Owner_Flow"
  obtains
    (BranchSelected) data where "ev_payload e = BranchSelected data"
      "apply_branch_selected (fs_projection state) data = Inr q" "ix = fs_attempt_indexes state"
  | (ChoiceSelected) data where "ev_payload e = ChoiceSelected data"
      "apply_choice_selected (fs_projection state) data = Inr q" "ix = fs_attempt_indexes state"
  | (ParallelGroupStarted) data where "ev_payload e = ParallelGroupStarted data"
      "apply_parallel_group_started (fs_projection state) data = Inr q" "ix = fs_attempt_indexes state"
  | (ParallelGroupCompleted) data where "ev_payload e = ParallelGroupCompleted data"
      "apply_parallel_group_completed (fs_projection state) data = Inr q" "ix = fs_attempt_indexes state"
  | (ForkOpened) data where "ev_payload e = ForkOpened data"
      "apply_fork_opened (fs_projection state) data = Inr q" "ix = fs_attempt_indexes state"
  | (ForkBranchSettled) data where "ev_payload e = ForkBranchSettled data"
      "apply_fork_branch_settled (fs_projection state) data = Inr q" "ix = fs_attempt_indexes state"
  | (ForkJoinSettled) data where "ev_payload e = ForkJoinSettled data"
      "apply_fork_join_settled (fs_projection state) data = Inr q" "ix = fs_attempt_indexes state"
proof -
  have owner: "payload_owner (ev_payload e) = Owner_Flow" "event_owner e \<noteq> Owner_Loops"
    using assms(2) transition_payload(2) [of e] by auto
  have "(\<exists>d. ev_payload e = BranchSelected d)
    \<or> (\<exists>d. ev_payload e = ChoiceSelected d)
    \<or> (\<exists>d. ev_payload e = ParallelGroupStarted d)
    \<or> (\<exists>d. ev_payload e = ParallelGroupCompleted d)
    \<or> (\<exists>d. ev_payload e = ForkOpened d)
    \<or> (\<exists>d. ev_payload e = ForkBranchSettled d)
    \<or> (\<exists>d. ev_payload e = ForkJoinSettled d)"
    using owner(1) by (cases "ev_payload e") simp_all
  with assms(1) that show ?thesis
    by (elim disjE exE) (simp_all add: transition_payload(1) [OF owner(2)] ok_simps)
qed

lemma loops_transitionE:
  assumes "apply_transition E state e = Inr (q, ix)" "event_owner e = Owner_Loops"
  obtains
    (scoped) "is_some (ev_iteration e)" "\<not> is_top_level_scoped_event (ev_payload e)"
      "apply_iteration_scoped_event (fs_projection state) e (fs_previous_event state) = Inr q"
      "ix = fs_attempt_indexes state"
  | (ForEachOpened) data where "ev_payload e = ForEachOpened data"
      "apply_for_each_opened (fs_projection state) data = Inr q" "ix = fs_attempt_indexes state"
  | (ForEachIterationStarted) data where "ev_payload e = ForEachIterationStarted data"
      "apply_for_each_iteration_started (fs_projection state) e data = Inr q" "ix = fs_attempt_indexes state"
  | (ForEachIterationSucceeded) data where "ev_payload e = ForEachIterationSucceeded data"
      "apply_for_each_iteration_succeeded E (fs_projection state) e data = Inr q" "ix = fs_attempt_indexes state"
  | (ForEachIterationFailed) data where "ev_payload e = ForEachIterationFailed data"
      "apply_for_each_iteration_failed (fs_projection state) e data = Inr q" "ix = fs_attempt_indexes state"
  | (ForEachIterationSkipped) data where "ev_payload e = ForEachIterationSkipped data"
      "apply_for_each_iteration_skipped (fs_projection state) e data = Inr q" "ix = fs_attempt_indexes state"
  | (ForEachSucceeded) data where "ev_payload e = ForEachSucceeded data"
      "apply_for_each_settled E (fs_projection state) e data = Inr q" "ix = fs_attempt_indexes state"
  | (ForEachFailed) data where "ev_payload e = ForEachFailed data"
      "apply_for_each_settled E (fs_projection state) e data = Inr q" "ix = fs_attempt_indexes state"
  | (ForEachCancelled) data where "ev_payload e = ForEachCancelled data"
      "apply_for_each_settled E (fs_projection state) e data = Inr q" "ix = fs_attempt_indexes state"
proof (cases "is_some (ev_iteration e) \<and> \<not> is_top_level_scoped_event (ev_payload e)")
  case True
  then show ?thesis using assms(1) scoped by (simp add: apply_transition_def ok_simps)
next
  case False
  then have owner: "payload_owner (ev_payload e) = Owner_Loops"
    using assms(2) by (simp add: event_owner_def split: if_splits)
  have "(\<exists>d. ev_payload e = ForEachOpened d)
    \<or> (\<exists>d. ev_payload e = ForEachIterationStarted d)
    \<or> (\<exists>d. ev_payload e = ForEachIterationSucceeded d)
    \<or> (\<exists>d. ev_payload e = ForEachIterationFailed d)
    \<or> (\<exists>d. ev_payload e = ForEachIterationSkipped d)
    \<or> (\<exists>d. ev_payload e = ForEachSucceeded d)
    \<or> (\<exists>d. ev_payload e = ForEachFailed d)
    \<or> (\<exists>d. ev_payload e = ForEachCancelled d)"
    using owner by (cases "ev_payload e") simp_all
  with assms(1) [unfolded apply_transition_def if_not_P [OF False]] that show ?thesis
    by (elim disjE exE) (simp_all add: ok_simps)
qed

lemma approvals_transitionE:
  assumes "apply_transition E state e = Inr (q, ix)" "event_owner e = Owner_Approvals"
  obtains
    (ApprovalRequested) data where "ev_payload e = ApprovalRequested data"
      "apply_approval_requested (fs_projection state) e data = Inr q" "ix = fs_attempt_indexes state"
  | (ApprovalReviewRequested) data where "ev_payload e = ApprovalReviewRequested data"
      "apply_approval_review_requested (fs_projection state) e data = Inr q" "ix = fs_attempt_indexes state"
  | (ApprovalReviewerDecisionRecorded) data where "ev_payload e = ApprovalReviewerDecisionRecorded data"
      "apply_approval_reviewer_decision_recorded (fs_projection state) e data = Inr q" "ix = fs_attempt_indexes state"
  | (ApprovalQuorumProgressed) data where "ev_payload e = ApprovalQuorumProgressed data"
      "apply_approval_quorum_progressed (fs_projection state) data = Inr q" "ix = fs_attempt_indexes state"
  | (ApprovalResolved) data where "ev_payload e = ApprovalResolved data"
      "apply_approval_resolved E (fs_projection state) e data = Inr q" "ix = fs_attempt_indexes state"
  | (ApprovalInvalidated) data where "ev_payload e = ApprovalInvalidated data"
      "apply_approval_invalidated (fs_projection state) data = Inr q" "ix = fs_attempt_indexes state"
proof -
  have owner: "payload_owner (ev_payload e) = Owner_Approvals" "event_owner e \<noteq> Owner_Loops"
    using assms(2) transition_payload(2) [of e] by auto
  have "(\<exists>d. ev_payload e = ApprovalRequested d)
    \<or> (\<exists>d. ev_payload e = ApprovalReviewRequested d)
    \<or> (\<exists>d. ev_payload e = ApprovalReviewerDecisionRecorded d)
    \<or> (\<exists>d. ev_payload e = ApprovalQuorumProgressed d)
    \<or> (\<exists>d. ev_payload e = ApprovalResolved d)
    \<or> (\<exists>d. ev_payload e = ApprovalInvalidated d)"
    using owner(1) by (cases "ev_payload e") simp_all
  with assms(1) that show ?thesis
    by (elim disjE exE) (simp_all add: transition_payload(1) [OF owner(2)] ok_simps)
qed

lemma notifications_transitionE:
  assumes "apply_transition E state e = Inr (q, ix)" "event_owner e = Owner_Notifications"
  obtains
    (NotificationDeliveryRequested) data where "ev_payload e = NotificationDeliveryRequested data"
      "apply_notification_delivery_requested (fs_projection state) data = Inr q" "ix = fs_attempt_indexes state"
  | (NotificationDeliveryAttemptStarted) data where "ev_payload e = NotificationDeliveryAttemptStarted data"
      "apply_notification_delivery_attempt_started (fs_projection state) data = Inr q" "ix = fs_attempt_indexes state"
  | (NotificationDeliverySucceeded) data where "ev_payload e = NotificationDeliverySucceeded data"
      "apply_notification_delivery_succeeded (fs_projection state) data = Inr q" "ix = fs_attempt_indexes state"
  | (NotificationDeliveryFailed) data where "ev_payload e = NotificationDeliveryFailed data"
      "apply_notification_delivery_failed (fs_projection state) e data = Inr q" "ix = fs_attempt_indexes state"
  | (NotificationDecisionAccepted) data where "ev_payload e = NotificationDecisionAccepted data"
      "apply_notification_decision_accepted (fs_projection state) data = Inr q" "ix = fs_attempt_indexes state"
  | (NotificationMessageUpdateRequested) data where "ev_payload e = NotificationMessageUpdateRequested data"
      "apply_notification_message_update_requested (fs_projection state) data = Inr q" "ix = fs_attempt_indexes state"
  | (NotificationMessageUpdateAttemptStarted) data where "ev_payload e = NotificationMessageUpdateAttemptStarted data"
      "apply_notification_message_update_attempt_started (fs_projection state) data = Inr q" "ix = fs_attempt_indexes state"
  | (NotificationMessageUpdated) data where "ev_payload e = NotificationMessageUpdated data"
      "apply_notification_message_updated (fs_projection state) data = Inr q" "ix = fs_attempt_indexes state"
  | (NotificationMessageUpdateFailed) data where "ev_payload e = NotificationMessageUpdateFailed data"
      "apply_notification_message_update_failed (fs_projection state) e data = Inr q" "ix = fs_attempt_indexes state"
proof -
  have owner: "payload_owner (ev_payload e) = Owner_Notifications" "event_owner e \<noteq> Owner_Loops"
    using assms(2) transition_payload(2) [of e] by auto
  have "(\<exists>d. ev_payload e = NotificationDeliveryRequested d)
    \<or> (\<exists>d. ev_payload e = NotificationDeliveryAttemptStarted d)
    \<or> (\<exists>d. ev_payload e = NotificationDeliverySucceeded d)
    \<or> (\<exists>d. ev_payload e = NotificationDeliveryFailed d)
    \<or> (\<exists>d. ev_payload e = NotificationDecisionAccepted d)
    \<or> (\<exists>d. ev_payload e = NotificationMessageUpdateRequested d)
    \<or> (\<exists>d. ev_payload e = NotificationMessageUpdateAttemptStarted d)
    \<or> (\<exists>d. ev_payload e = NotificationMessageUpdated d)
    \<or> (\<exists>d. ev_payload e = NotificationMessageUpdateFailed d)"
    using owner(1) by (cases "ev_payload e") simp_all
  with assms(1) that show ?thesis
    by (elim disjE exE) (simp_all add: transition_payload(1) [OF owner(2)] ok_simps)
qed

lemma hooks_transitionE:
  assumes "apply_transition E state e = Inr (q, ix)" "event_owner e = Owner_Hooks"
  obtains
    (LifecycleHookRequested) data where "ev_payload e = LifecycleHookRequested data"
      "apply_lifecycle_hook_requested (fs_projection state) data = Inr q" "ix = fs_attempt_indexes state"
  | (LifecycleActionAttemptStarted) data where "ev_payload e = LifecycleActionAttemptStarted data"
      "apply_lifecycle_action_attempt_started (fs_projection state) data = Inr q" "ix = fs_attempt_indexes state"
  | (LifecycleActionSucceeded) data where "ev_payload e = LifecycleActionSucceeded data"
      "apply_lifecycle_action_succeeded (fs_projection state) data = Inr q" "ix = fs_attempt_indexes state"
  | (LifecycleActionFailed) data where "ev_payload e = LifecycleActionFailed data"
      "apply_lifecycle_action_failed (fs_projection state) data = Inr q" "ix = fs_attempt_indexes state"
  | (LifecycleHookCompleted) data where "ev_payload e = LifecycleHookCompleted data"
      "apply_lifecycle_hook_completed (fs_projection state) data = Inr q" "ix = fs_attempt_indexes state"
  | (ReusableLifecycleRequested) data where "ev_payload e = ReusableLifecycleRequested data"
      "apply_reusable_lifecycle_requested (fs_projection state) data = Inr q" "ix = fs_attempt_indexes state"
  | (ReusableLifecycleActionStarted) data where "ev_payload e = ReusableLifecycleActionStarted data"
      "apply_reusable_lifecycle_action_started (fs_projection state) data = Inr q" "ix = fs_attempt_indexes state"
  | (ReusableLifecycleActionSucceeded) data where "ev_payload e = ReusableLifecycleActionSucceeded data"
      "apply_reusable_lifecycle_action_succeeded (fs_projection state) data = Inr q" "ix = fs_attempt_indexes state"
  | (ReusableLifecycleActionFailed) data where "ev_payload e = ReusableLifecycleActionFailed data"
      "apply_reusable_lifecycle_action_failed (fs_projection state) data = Inr q" "ix = fs_attempt_indexes state"
  | (ReusableLifecycleCompleted) data where "ev_payload e = ReusableLifecycleCompleted data"
      "apply_reusable_lifecycle_completed (fs_projection state) data = Inr q" "ix = fs_attempt_indexes state"
proof -
  have owner: "payload_owner (ev_payload e) = Owner_Hooks" "event_owner e \<noteq> Owner_Loops"
    using assms(2) transition_payload(2) [of e] by auto
  have "(\<exists>d. ev_payload e = LifecycleHookRequested d)
    \<or> (\<exists>d. ev_payload e = LifecycleActionAttemptStarted d)
    \<or> (\<exists>d. ev_payload e = LifecycleActionSucceeded d)
    \<or> (\<exists>d. ev_payload e = LifecycleActionFailed d)
    \<or> (\<exists>d. ev_payload e = LifecycleHookCompleted d)
    \<or> (\<exists>d. ev_payload e = ReusableLifecycleRequested d)
    \<or> (\<exists>d. ev_payload e = ReusableLifecycleActionStarted d)
    \<or> (\<exists>d. ev_payload e = ReusableLifecycleActionSucceeded d)
    \<or> (\<exists>d. ev_payload e = ReusableLifecycleActionFailed d)
    \<or> (\<exists>d. ev_payload e = ReusableLifecycleCompleted d)"
    using owner(1) by (cases "ev_payload e") simp_all
  with assms(1) that show ?thesis
    by (elim disjE exE) (simp_all add: transition_payload(1) [OF owner(2)] ok_simps)
qed

end
