(* ===== verification/Validation_Facts.thy ===== *)
theory Validation_Facts
  imports Event_Validation
begin

text \<open>
  What an accepted event guarantees: its envelope, and the contract of its payload at
  the schema version that owns the payload.
\<close>

section \<open>Envelope\<close>

lemma validate_event_envelope:
  assumes "validate_event E e = Inr u"
  shows "1 \<le> version e" "version e \<le> 20" "valid_id (ev_event_id e)" "valid_id (ev_run_id e)"
    "ev_sequence e \<noteq> 0"
  using assms
  by (subst (asm) validate_event.simps, simp add: ok_simps Let_def version_in_def)+

section \<open>The owning version\<close>

text \<open>
  \<open>owned_as e e'\<close>: the event is validated as \<open>e'\<close>, the same event at the version that
  owns its payload.  Versions up to 11 own every payload they meet; a later version is
  validated at 11 or above.
\<close>

definition owned_as :: "run_event \<Rightarrow> run_event \<Rightarrow> bool" where
  "owned_as e e' \<longleftrightarrow>
    ev_event_id e' = ev_event_id e \<and> ev_run_id e' = ev_run_id e \<and> ev_sequence e' = ev_sequence e
    \<and> ev_occurred_at e' = ev_occurred_at e \<and> ev_payload e' = ev_payload e
    \<and> version e' \<le> version e \<and> (version e \<le> 11 \<longrightarrow> version e' = version e)
    \<and> (11 \<le> version e \<longrightarrow> 11 \<le> version e')"

text \<open>The payloads a version above 11 validates itself.\<close>

definition owns_payload :: "u32 \<Rightarrow> run_event_payload \<Rightarrow> bool" where
  "owns_payload v payload \<longleftrightarrow>
    (v = 12 \<longrightarrow> is_fork_event payload) \<and> (v = 13 \<longrightarrow> is_reusable_event payload) \<and> v \<noteq> 14
    \<and> (v = 15 \<longrightarrow> is_loop_event payload) \<and> (v = 16 \<longrightarrow> is_wait_event payload)
    \<and> (v = 17 \<longrightarrow> is_lock_event payload) \<and> (v = 18 \<longrightarrow> is_correction_event payload)
    \<and> (v = 19 \<longrightarrow> is_rich_approval_event payload)
    \<and> (v = 20 \<longrightarrow> is_remote_dispatch_event payload)"

lemma owned_as_refl: "owned_as e e"
  by (simp add: owned_as_def)

lemma owned_as_inherit:
  assumes "owned_as (inherit v e) e'" "11 \<le> v" "v < version e"
  shows "owned_as e e'"
  using assms by (auto simp: owned_as_def inherit_def)

lemma owned_as_iteration: "owned_as (e\<lparr>ev_iteration := i\<rparr>) e' \<longleftrightarrow> owned_as e e'"
  by (simp add: owned_as_def)

lemma inherit_simps [simp]:
  "ev_payload (inherit v e) = ev_payload e" "version (inherit v e) = v"
  "ev_iteration (inherit v e) = ev_iteration e"
  by (simp_all add: inherit_def)

lemma if_resultE:
  assumes "(if b then x else y) = z"
  obtains "b" "x = z" | "\<not> b" "y = z"
  using assms by (cases b) auto

text \<open>The payloads that may carry an iteration scope.\<close>

definition may_be_scoped :: "run_event_payload \<Rightarrow> bool" where
  "may_be_scoped payload \<longleftrightarrow>
    is_scoped_work payload \<or> is_loop_event payload \<or> is_wait_event payload \<or> is_lock_event payload
    \<or> is_compensation_registered payload \<or> is_remote_dispatch_event payload"

lemma validate_event_step:
  assumes "validate_event E e = Inr u"
  obtains (owned) "validate_payload E e (ev_payload e) = Inr u" "owns_payload (version e) (ev_payload e)"
      "\<not> (version e \<notin> {15, 16, 17, 18, 20} \<and> is_some (ev_iteration e))"
      "\<not> (version e = 18 \<and> is_some (ev_iteration e)
        \<and> \<not> is_compensation_registered (ev_payload e))"
    | (inherited) v where "validate_event E (inherit v e) = Inr u" "11 \<le> v" "v < version e"
    | (unscoped) v where "validate_event E ((inherit v e)\<lparr>ev_iteration := None\<rparr>) = Inr u"
      "11 \<le> v" "v < version e"
      "\<not> (is_some (ev_iteration e) \<and> (\<not> is_scoped_work (ev_payload e) \<or> invalid_scope e))"
  using assms [unfolded validate_event.simps [of E e] Let_def]
  by (elim if_resultE)
    ((erule sum.distinct(1) [THEN notE]) | ((elim conjE)?, (erule inherited | erule unscoped);
        assumption | simp; fail)
      | (erule owned, simp add: owns_payload_def; assumption))+

lemma validate_event_owned:
  assumes "validate_event E e = Inr u"
  shows "\<exists>e'. owned_as e e' \<and> owns_payload (version e') (ev_payload e)
    \<and> validate_payload E e' (ev_payload e) = Inr u"
  using assms
proof (induction "unat (version e)" arbitrary: e rule: less_induct)
  case less
  from less.prems show ?case
  proof (cases rule: validate_event_step)
    case owned
    then show ?thesis using owned_as_refl by blast
  next
    case (inherited v)
    then obtain e' where "owned_as (inherit v e) e'" "owns_payload (version e') (ev_payload e)"
      "validate_payload E e' (ev_payload e) = Inr u"
      using less.hyps[of "inherit v e"] by (auto simp: word_less_nat_alt)
    then show ?thesis using inherited owned_as_inherit by blast
  next
    case (unscoped v)
    then obtain e' where "owned_as (inherit v e) e'" "owns_payload (version e') (ev_payload e)"
      "validate_payload E e' (ev_payload e) = Inr u"
      using less.hyps[of "(inherit v e)\<lparr>ev_iteration := None\<rparr>"]
      by (auto simp: word_less_nat_alt owned_as_iteration)
    then show ?thesis using unscoped owned_as_inherit by blast
  qed
qed

lemma scoped_payload:
  assumes "validate_event E e = Inr u" "ev_iteration e \<noteq> None"
  shows "may_be_scoped (ev_payload e)"
  using assms
proof (induction "unat (version e)" arbitrary: e rule: less_induct)
  case less
  from less.prems(1) show ?case
  proof (cases rule: validate_event_step)
    case (inherited v)
    then show ?thesis
      using less.hyps [of "inherit v e"] less.prems(2) by (simp add: word_less_nat_alt)
  next
    case owned
    then have "version e \<in> {15, 16, 17, 18, 20}" using less.prems(2) by blast
    then show ?thesis
      using owned(2,4) less.prems(2) by (auto simp: may_be_scoped_def owns_payload_def)
  next
    case (unscoped v)
    then show ?thesis using less.prems(2) by (auto simp: may_be_scoped_def)
  qed
qed

text \<open>A payload that is not scoped work keeps its scope down to the version that validates it.\<close>

lemma validated_iteration:
  assumes "validate_event E e = Inr u" "\<not> is_scoped_work (ev_payload e)"
  shows "\<exists>e'. ev_iteration e' = ev_iteration e \<and> validate_payload E e' (ev_payload e) = Inr u"
  using assms
proof (induction "unat (version e)" arbitrary: e rule: less_induct)
  case less
  from less.prems(1) show ?case
  proof (cases rule: validate_event_step)
    case owned
    then show ?thesis by blast
  next
    case (inherited v)
    then show ?thesis
      using less.hyps [of "inherit v e"] less.prems(2) by (simp add: word_less_nat_alt)
  next
    case (unscoped v)
    then have "ev_iteration e = None" using less.prems(2) by (cases "ev_iteration e") auto
    then show ?thesis
      using unscoped less.hyps [of "(inherit v e)\<lparr>ev_iteration := None\<rparr>"] less.prems(2)
      by (simp add: word_less_nat_alt)
  qed
qed

lemma validate_event_ownedE:
  assumes "validate_event E e = Inr u"
  obtains e' where "owned_as e e'" "owns_payload (version e') (ev_payload e)" "version e' \<le> 20"
    "validate_payload E e' (ev_payload e) = Inr u"
proof -
  obtain e' where e': "owned_as e e'" "owns_payload (version e') (ev_payload e)"
    "validate_payload E e' (ev_payload e) = Inr u"
    using validate_event_owned [OF assms] by blast
  moreover have "version e' \<le> 20"
    using e'(1) validate_event_envelope(2) [OF assms] by (auto simp: owned_as_def)
  ultimately show thesis using that by blast
qed

section \<open>Versions of payloads\<close>

lemmas payload_class_defs =
  is_fork_event_def is_reusable_event_def is_loop_event_def is_wait_event_def is_lock_event_def
  is_correction_event_def is_rich_approval_event_def is_remote_dispatch_event_def

text \<open>A payload no later version owns is validated at version 11 or below.\<close>

lemma u32_range_12_20:
  assumes "(v :: u32) \<le> 20" "\<not> v \<le> 11"
  shows "v \<in> {12, 13, 14, 15, 16, 17, 18, 19, 20}"
proof -
  have "unat v \<le> 20" "\<not> unat v \<le> 11"
    using assms by (simp_all add: word_le_nat_alt)
  then have "unat v \<in> {12, 13, 14, 15, 16, 17, 18, 19, 20}" by auto
  then show ?thesis by (auto simp: word_unat_eq_iff)
qed

lemma u32_versions:
  "(v :: u32) \<le> 9 \<Longrightarrow> \<not> 10 \<le> v" "\<not> (v :: u32) \<le> 11 \<Longrightarrow> 10 \<le> v"
  "(11 :: u32) \<le> v \<Longrightarrow> 10 \<le> v" "(v :: u32) < 10 \<Longrightarrow> v < 11"
  by (simp_all add: word_le_nat_alt word_less_nat_alt)

lemma u32_9_10: "(10 :: u32) \<le> v \<Longrightarrow> v \<le> 9 \<Longrightarrow> P"
  using u32_versions(1) by blast

lemma unowned_version:
  assumes "validate_event E e = Inr u"
    and "\<not> is_fork_event (ev_payload e)" "\<not> is_reusable_event (ev_payload e)"
      "\<not> is_loop_event (ev_payload e)" "\<not> is_wait_event (ev_payload e)"
      "\<not> is_lock_event (ev_payload e)" "\<not> is_correction_event (ev_payload e)"
      "\<not> is_rich_approval_event (ev_payload e)" "\<not> is_remote_dispatch_event (ev_payload e)"
  obtains e' where "owned_as e e'" "version e' = min (version e) 11"
    "validate_payload E e' (ev_payload e) = Inr u"
proof -
  obtain e' where e': "owned_as e e'" "owns_payload (version e') (ev_payload e)" "version e' \<le> 20"
    "validate_payload E e' (ev_payload e) = Inr u"
    using assms(1) by (rule validate_event_ownedE)
  have "version e' \<le> 11"
    using u32_range_12_20 [OF e'(3)] e'(2) assms(2-) unfolding owns_payload_def by blast
  then have "version e' = min (version e) 11"
    using e'(1) by (auto simp: owned_as_def min_def)
  then show thesis using that e' by blast
qed

lemma legacy_terminal_version:
  assumes "validate_event E e = Inr u"
    and "ev_payload e = RunSucceeded d1 \<or> ev_payload e = RunFailed d2"
  shows "version e < 10"
proof -
  obtain e' where e': "version e' = min (version e) 11" "validate_payload E e' (ev_payload e) = Inr u"
    using assms by (elim unowned_version) (auto simp: payload_class_defs)
  from e'(2) have "\<not> version_in 10 11 e'"
    using assms(2)
    by (auto simp: validate_run_succeeded_def validate_run_failed_def version_in_def ok_simps
        split: run_failed_data.splits run_failed_data_v2.splits run_failed_data_v3.splits
          run_failed_data_v4.splits run_failed_data_v5.splits if_splits elim: u32_9_10)
  then show ?thesis using e'(1) by (auto simp: version_in_def min_def not_le u32_versions split: if_splits)
qed

lemma outcome_version:
  assumes "validate_event E e = Inr u"
    and "ev_payload e = RunOutcomeDecided d1 \<or> ev_payload e = RunFinalized d2
      \<or> ev_payload e = RunCancellationRequested d3"
  shows "10 \<le> version e"
proof -
  obtain e' where e': "version e' = min (version e) 11" "validate_payload E e' (ev_payload e) = Inr u"
    using assms by (elim unowned_version) (auto simp: payload_class_defs)
  then have "version_in 10 11 e'"
    using assms(2)
    by (auto simp: validate_run_outcome_decided_def validate_run_finalized_def
        validate_run_cancellation_requested_def ok_simps)
  then show ?thesis using e'(1) by (auto simp: version_in_def min_def not_le u32_versions split: if_splits)
qed

lemma admission_version:
  assumes "validate_event E e = Inr u" "ev_payload e = RunAdmitted d"
  shows "11 \<le> version e"
proof -
  obtain e' where e': "version e' = min (version e) 11" "validate_payload E e' (ev_payload e) = Inr u"
    using assms by (elim unowned_version) (auto simp: payload_class_defs)
  then show ?thesis
    using assms(2) by (auto simp: validate_run_admitted_def ok_simps min_def split: if_splits)
qed

lemma start_version:
  assumes "validate_event E e = Inr u" "ev_payload e = RunStarted d"
  shows "version e < 11"
proof -
  obtain e' where e': "version e' = min (version e) 11" "validate_payload E e' (ev_payload e) = Inr u"
    using assms by (elim unowned_version) (auto simp: payload_class_defs)
  then show ?thesis
    using assms(2) by (auto simp: validate_run_started_def ok_simps min_def split: if_splits)
qed

end
