(* ===== verification/Run_Machine.thy ===== *)
theory Run_Machine
  imports Fold_Owners Validation_Facts
begin

text \<open>
  The state machine of a run: the abstract specification of how the status of a run
  moves, as a step relation labelled by the payload of the event, and the proof that
  the fold refines it.
\<close>

section \<open>The machine\<close>

definition moves_status :: "run_event_payload \<Rightarrow> bool" where
  "moves_status payload = (case payload of
     RunAdmitted _ \<Rightarrow> True | RunStarted _ \<Rightarrow> True | RunExecutionStarted _ \<Rightarrow> True
   | RunTimeoutReached _ \<Rightarrow> True | RunCancellationRequested _ \<Rightarrow> True
   | RunSucceeded _ \<Rightarrow> True | RunFailed _ \<Rightarrow> True
   | RunOutcomeDecided _ \<Rightarrow> True | RunFinalized _ \<Rightarrow> True
   | WaitRegistered _ \<Rightarrow> True | WaitSatisfied _ \<Rightarrow> True | WaitTimedOut _ \<Rightarrow> True
   | LockWaitRegistered _ \<Rightarrow> True | LockAcquired _ \<Rightarrow> True | LockReleased _ \<Rightarrow> True
   | LockAcquireTimedOut _ \<Rightarrow> True | LockLeaseLost _ \<Rightarrow> True
   | ApprovalRequested _ \<Rightarrow> True | ApprovalReviewRequested _ \<Rightarrow> True | ApprovalResolved _ \<Rightarrow> True
   | _ \<Rightarrow> False)"

inductive run_step :: "run_event_payload \<Rightarrow> run_status \<Rightarrow> run_status \<Rightarrow> bool" where
  admit: "run_step (RunAdmitted d1) RunStatus_NotStarted RunStatus_Queued"
| start: "run_step (RunStarted d2) RunStatus_NotStarted RunStatus_Running"
| execute: "run_step (RunExecutionStarted d3) RunStatus_Queued RunStatus_Running"
| time_out: "s \<in> {RunStatus_Running, RunStatus_Waiting} \<Longrightarrow> run_step (RunTimeoutReached d4) s s"
| cancel: "s \<in> {RunStatus_Queued, RunStatus_Running, RunStatus_Waiting} \<Longrightarrow>
    run_step (RunCancellationRequested d5) s RunStatus_Cancelling"
| succeed: "run_step (RunSucceeded d6) RunStatus_Running RunStatus_Succeeded"
| fail: "s \<in> {RunStatus_Running, RunStatus_Waiting} \<Longrightarrow> run_step (RunFailed d7) s RunStatus_Failed"
| decide: "s \<in> {RunStatus_Running, RunStatus_Waiting, RunStatus_Cancelling} \<Longrightarrow>
    run_step (RunOutcomeDecided d8) s RunStatus_Finalizing"
| finalize: "run_step (RunFinalized d9) RunStatus_Finalizing (final_status_of (rfin_outcome d9))"
| suspend_wait: "run_step (WaitRegistered d10) RunStatus_Running RunStatus_Waiting"
| suspend_lock: "run_step (LockWaitRegistered d11) RunStatus_Running RunStatus_Waiting"
| suspend_approval: "run_step (ApprovalRequested d12) RunStatus_Running RunStatus_Waiting"
| suspend_review: "run_step (ApprovalReviewRequested d13) RunStatus_Running RunStatus_Waiting"
| satisfy: "run_step (WaitSatisfied d14) RunStatus_Waiting RunStatus_Running"
| wait_expire: "run_step (WaitTimedOut d15) RunStatus_Waiting RunStatus_Running"
| acquire: "run_step (LockAcquired d16) RunStatus_Waiting RunStatus_Running"
| release: "s \<in> {RunStatus_Running, RunStatus_Cancelling} \<Longrightarrow>
    run_step (LockReleased d17) s RunStatus_Running"
| acquire_expire: "run_step (LockAcquireTimedOut d18) s RunStatus_Running"
| lose_lease: "run_step (LockLeaseLost d19) s RunStatus_Running"
| resolve: "run_step (ApprovalResolved d20) RunStatus_Waiting RunStatus_Running"
| resolve_cancelled: "run_step (ApprovalResolved d21) RunStatus_Cancelling RunStatus_Cancelling"
| keep: "\<not> moves_status payload \<Longrightarrow> run_step payload s s"

inductive_cases run_step_keepE: "run_step payload s s'"

text \<open>A loop-owned event does not move the run.\<close>

definition event_step :: "run_event \<Rightarrow> run_status \<Rightarrow> run_status \<Rightarrow> bool" where
  "event_step e s s' =
    (if event_owner e = Owner_Loops then s' = s else run_step (ev_payload e) s s')"

section \<open>The fold refines the machine\<close>

lemma payload_refines:
  assumes "apply_payload E index p ix previous event payload = Inr (q, ix')"
    and "payload_owner payload \<in> {Owner_Run, Owner_Outcome, Owner_Locks, Owner_Waits, Owner_Approvals}"
  shows "run_step payload (p_status p) (p_status q)"
  using assms
  by (cases payload)
    (auto simp: ok_simps fold_run_defs fold_locks_defs fold_waits_defs fold_approvals_defs
      apply_run_outcome_decided_def apply_run_finalized_def require_running_def
      require_running_or_cancelling_def Let_def moves_status_def run_step.simps
      split: if_splits run_outcome_decided_data.splits)

lemma owner_keeps_status:
  assumes "payload_owner payload \<notin> {Owner_Run, Owner_Outcome, Owner_Locks, Owner_Waits, Owner_Approvals}"
  shows "\<not> moves_status payload"
  using assms by (cases payload) (simp_all add: moves_status_def)

lemma transition_refines:
  assumes "apply_transition E state e = Inr (q, ix)"
  shows "event_step e (p_status (fs_projection state)) (p_status q)"
proof (cases "event_owner e = Owner_Loops")
  case True
  then show ?thesis
    using transition_frame [OF assms] by (simp add: event_step_def)
next
  case False
  note payload = transition_payload [OF False]
  show ?thesis
  proof (cases "event_owner e \<in> {Owner_Run, Owner_Outcome, Owner_Locks, Owner_Waits, Owner_Approvals}")
    case True
    then show ?thesis
      using assms False payload_refines by (simp add: payload event_step_def)
  next
    case keeps: False
    then have "p_status q = p_status (fs_projection state)"
      using transition_frame [OF assms] by simp
    then show ?thesis
      using False keeps owner_keeps_status [of "ev_payload e"] by (auto simp: event_step_def payload intro: keep)
  qed
qed

end
