(* ===== verification/Run_History.thy ===== *)
theory Run_History
  imports Run_Machine
begin

text \<open>
  Invariants of every history that folds: its shape (consecutive sequence numbers,
  distinct event identifiers), the identity of its run, its beginning, its end, and the
  business outcome.
\<close>

section \<open>Shape\<close>

definition history_shape :: "externals \<Rightarrow> run_event list \<Rightarrow> fold_state \<Rightarrow> bool" where
  "history_shape E es state \<longleftrightarrow>
    unat (p_last_sequence (fs_projection state)) = length es
    \<and> map (unat \<circ> ev_sequence) es = [1 ..< length es + 1]
    \<and> distinct (map ev_event_id es)
    \<and> fs_event_ids state = set (map ev_event_id es)
    \<and> fs_previous_event state = (if es = [] then None else Some (last es))
    \<and> list_all (\<lambda>e. validate_event E e = Inr ()) es"

lemma unat_succ:
  assumes "(w :: u64) + 1 \<noteq> 0"
  shows "unat (w + 1) = Suc (unat w)"
  using assms unatSuc [of w] by (simp add: add.commute)

interpretation shape: history_invariant E "history_shape E" for E
proof unfold_locales
  show "history_shape E [] default_fold_state"
    by (simp add: history_shape_def default_fold_state_def empty_projection_def)
next
  fix es state e state'
  assume "history_shape E es state" "apply_event E state e = Inr state'"
  then show "history_shape E (es @ [e]) state'"
    by (elim apply_eventE)
      (auto simp: history_shape_def gate_open_def unat_succ dest: validate_event_envelope(5))
qed

section \<open>Identity\<close>

text \<open>
  A run has an identity from the event that admits or starts it, which is the first of
  its history; every event carries that run identifier and that schema version.
\<close>

definition starts_run :: "run_event_payload \<Rightarrow> bool" where
  "starts_run payload = (case payload of RunAdmitted _ \<Rightarrow> True | RunStarted _ \<Rightarrow> True | _ \<Rightarrow> False)"

definition run_identity :: "run_event list \<Rightarrow> fold_state \<Rightarrow> bool" where
  "run_identity es state \<longleftrightarrow>
    (case p_run_id (fs_projection state) of
       None \<Rightarrow> p_event_schema_version (fs_projection state) = None
         \<and> p_status (fs_projection state) = RunStatus_NotStarted
         \<and> p_locks (fs_projection state) = bt_empty
         \<and> p_business_outcome (fs_projection state) = None
         \<and> p_cancellation_request_id (fs_projection state) = None
         \<and> list_all (\<lambda>e. \<not> starts_run (ev_payload e)) es
     | Some r \<Rightarrow> es \<noteq> [] \<and> starts_run (ev_payload (hd es))
         \<and> list_all (\<lambda>e. ev_run_id e = r) es
         \<and> list_all (\<lambda>e. \<not> starts_run (ev_payload e)) (tl es)
         \<and> p_event_schema_version (fs_projection state) = Some (version (hd es))
         \<and> list_all (\<lambda>e. version e = version (hd es)) es
         \<and> p_status (fs_projection state) \<noteq> RunStatus_NotStarted)"

lemma start_owner:
  assumes "starts_run (ev_payload e)"
  shows "event_owner e = (if ev_iteration e = None then Owner_Run else Owner_Loops)"
  using assms
  by (auto simp: event_owner_def starts_run_def is_top_level_scoped_event_def
      split: run_event_payload.splits)

lemma start_transition:
  assumes "apply_transition E state e = Inr (q, ix)" "event_owner e = Owner_Run"
    and "starts_run (ev_payload e)"
  shows "p_last_sequence (fs_projection state) = 0" "p_run_id q = Some (ev_run_id e)"
    "p_event_schema_version q = Some (version e)" "p_status q \<noteq> RunStatus_NotStarted"
    "p_status (fs_projection state) = RunStatus_NotStarted"
  using assms(1,2)
  by (cases rule: run_transitionE;
      use assms(3) in \<open>auto simp: starts_run_def apply_run_admitted_def apply_run_started_def ok_simps
        unat_eq_zero split: if_splits\<close>)+

lemma identity_kept:
  assumes "apply_transition E state e = Inr (q, ix)"
    and "event_owner e = Owner_Loops \<or> \<not> starts_run (ev_payload e)"
  shows "p_run_id q = p_run_id (fs_projection state)
    \<and> p_event_schema_version q = p_event_schema_version (fs_projection state)"
proof (cases "event_owner e = Owner_Run")
  case True
  with assms(1) show ?thesis
    by (cases rule: run_transitionE)
      (use True assms(2) in \<open>auto simp: starts_run_def apply_run_execution_started_def
        apply_run_timeout_reached_def split: if_splits\<close>)
next
  case False
  then show ?thesis using transition_frame [OF assms(1)] by simp
qed

lemma run_step_not_started:
  assumes "run_step payload RunStatus_NotStarted s'" "\<not> starts_run payload"
    and "payload_owner payload \<noteq> Owner_Locks"
  shows "s' = RunStatus_NotStarted"
  using assms by (cases rule: run_step.cases) (auto simp: starts_run_def)

lemma final_status_terminal [simp]: "is_terminal (final_status_of outcome)"
  by (cases outcome) (simp_all add: is_terminal_def)

lemma final_status_distinct [simp]:
  "final_status_of outcome \<noteq> RunStatus_NotStarted" "final_status_of outcome \<noteq> RunStatus_Cancelling"
  "final_status_of outcome \<noteq> RunStatus_Finalizing"
  by (cases outcome; simp)+

lemma run_step_started: "run_step payload s s' \<Longrightarrow> s \<noteq> RunStatus_NotStarted \<Longrightarrow> s' \<noteq> RunStatus_NotStarted"
  by (induction rule: run_step.induct) simp_all

lemma event_step_started:
  "event_step e s s' \<Longrightarrow> s \<noteq> RunStatus_NotStarted \<Longrightarrow> s' \<noteq> RunStatus_NotStarted"
  by (auto simp: event_step_def split: if_splits dest: run_step_started)

lemma not_started_owner:
  assumes step: "apply_transition E state e = Inr (q, ix)"
    and "p_status (fs_projection state) = RunStatus_NotStarted"
    and "p_locks (fs_projection state) = bt_empty" "\<not> starts_run (ev_payload e)"
  shows "event_owner e \<notin> {Owner_Run, Owner_Outcome, Owner_Locks}"
proof
  assume "event_owner e \<in> {Owner_Run, Owner_Outcome, Owner_Locks}"
  then consider "event_owner e = Owner_Run" | "event_owner e = Owner_Outcome" | "event_owner e = Owner_Locks"
    by blast
  then show False
  proof cases
    case 1
    with step show False
      by (cases rule: run_transitionE) (use assms in \<open>auto simp: fold_run_defs starts_run_def ok_simps\<close>)
  next
    case 2
    with step show False
      by (cases rule: outcome_transitionE)
        (use assms in \<open>auto simp: fold_run_defs fold_lifecycle_defs ok_simps split: if_splits\<close>)
  next
    case 3
    with step show False
      by (cases rule: locks_transitionE) (use assms in \<open>auto simp: fold_locks_defs ok_simps\<close>)
  qed
qed

lemma not_started_kept:
  assumes step: "apply_transition E state e = Inr (q, ix)"
    and pre: "p_status (fs_projection state) = RunStatus_NotStarted"
      "p_locks (fs_projection state) = bt_empty" "\<not> starts_run (ev_payload e)"
  shows "p_status q = RunStatus_NotStarted" "p_locks q = bt_empty"
    "p_business_outcome q = p_business_outcome (fs_projection state)"
    "p_cancellation_request_id q = p_cancellation_request_id (fs_projection state)"
proof -
  note owner = not_started_owner [OF step pre]
  show "p_locks q = bt_empty" "p_business_outcome q = p_business_outcome (fs_projection state)"
    "p_cancellation_request_id q = p_cancellation_request_id (fs_projection state)"
    using transition_frame [OF step] owner pre by simp_all
  show "p_status q = RunStatus_NotStarted"
    using transition_refines [OF step] owner pre transition_payload(2) [of e]
    by (auto simp: event_step_def split: if_splits intro: run_step_not_started)
qed

lemma scoped_event_not_start:
  assumes "validate_event E e = Inr u" "starts_run (ev_payload e)"
  shows "ev_iteration e = None"
proof (rule ccontr)
  assume "ev_iteration e \<noteq> None"
  with assms(1) have "may_be_scoped (ev_payload e)" by (rule scoped_payload)
  then show False
    using assms(2) by (auto simp: starts_run_def may_be_scoped_def payload_class_defs is_scoped_work_def
      is_compensation_registered_def split: run_event_payload.splits)
qed

interpretation identity: history_invariant E run_identity for E
proof unfold_locales
  show "run_identity [] default_fold_state"
    by (simp add: run_identity_def default_fold_state_def empty_projection_def)
next
  fix es state e state'
  assume es: "from_events E es = Inr state" and inv: "run_identity es state"
    and "apply_event E state e = Inr state'"
  then obtain q ix where gate: "gate_open E state e" and step: "apply_transition E state e = Inr (q, ix)"
    and state': "fs_projection state' = q\<lparr>p_last_sequence := ev_sequence e\<rparr>"
    by (elim apply_eventE) simp
  note shape = shape.holds [OF es, unfolded history_shape_def]
  show "run_identity (es @ [e]) state'"
  proof (cases "starts_run (ev_payload e)")
    case True
    then have owner: "event_owner e = Owner_Run"
      using gate scoped_event_not_start start_owner by (auto simp: gate_open_def)
    note start = start_transition [OF step owner True]
    have "es = []" using shape start(1) by simp
    then show ?thesis using start True by (simp add: run_identity_def state')
  next
    case False
    note kept = identity_kept [OF step disjI2 [OF False]]
    show ?thesis
    proof (cases "p_run_id (fs_projection state)")
      case None
      then show ?thesis
        using inv kept not_started_kept [OF step _ _ False] False
        by (simp add: run_identity_def state')
    next
      case (Some r)
      then show ?thesis
        using inv kept False gate event_step_started [OF transition_refines [OF step]]
        by (auto simp: run_identity_def state' gate_open_def)
    qed
  qed
qed

text \<open>Consequences for a step from a reachable state.\<close>

lemma started_version:
  assumes "from_events E es = Inr state" "gate_open E state e" "apply_transition E state e = Inr (q, ix)"
    and "event_owner e \<in> {Owner_Outcome, Owner_Locks}"
  shows "p_event_schema_version (fs_projection state) = Some (version e)"
proof -
  have start: "\<not> starts_run (ev_payload e)"
    using assms(4) start_owner [of e] by (auto split: if_splits)
  show ?thesis
  proof (cases "p_run_id (fs_projection state)")
    case None
    then show ?thesis
      using identity.holds [OF assms(1)] not_started_owner [OF assms(3) _ _ start] assms(4)
      by (simp add: run_identity_def)
  next
    case (Some r)
    then show ?thesis
      using identity.holds [OF assms(1)] assms(2) by (auto simp: run_identity_def gate_open_def)
  qed
qed

lemma version_kept:
  assumes "from_events E es = Inr state" "apply_transition E state e = Inr (q, ix)"
  shows "p_event_schema_version q = p_event_schema_version (fs_projection state)
    \<or> p_business_outcome (fs_projection state) = None
      \<and> p_run_id (fs_projection state) = None \<and> p_cancellation_request_id (fs_projection state) = None"
proof (cases "event_owner e = Owner_Run \<and> starts_run (ev_payload e)")
  case True
  then have "p_status (fs_projection state) = RunStatus_NotStarted"
    using start_transition(5) [OF assms(2)] by blast
  then show ?thesis
    using identity.holds [OF assms(1)] by (auto simp: run_identity_def split: option.splits)
next
  case False
  then have "event_owner e = Owner_Loops \<or> \<not> starts_run (ev_payload e)"
    using start_owner [of e] by (auto split: if_splits)
  then show ?thesis using identity_kept [OF assms(2)] by simp
qed

end
