(* ===== verification/Run_Outcome.thy ===== *)
theory Run_Outcome
  imports Run_History
begin

text \<open>
  The business outcome of a run: it is decided once, it is the status a finished run
  ends with, and a cancellation has one request.
\<close>

definition outcome_sound :: "run_projection \<Rightarrow> bool" where
  "outcome_sound p \<longleftrightarrow>
    (is_terminal (p_status p) \<longrightarrow>
      (\<exists>outcome. p_business_outcome p = Some outcome \<and> p_status p = final_status_of outcome))
    \<and> (p_status p = RunStatus_Finalizing \<longrightarrow> p_business_outcome p \<noteq> None)
    \<and> (p_status p = RunStatus_Cancelling \<longrightarrow> p_cancellation_request_id p \<noteq> None)
    \<and> (p_business_outcome p = Some BusinessOutcome_Cancelled \<longrightarrow> p_cancellation_request_id p \<noteq> None)
    \<and> (p_business_outcome p = Some BusinessOutcome_Succeeded \<longleftrightarrow> p_result p \<noteq> None)
    \<and> (p_business_outcome p = Some BusinessOutcome_Failed \<longleftrightarrow>
        p_failure p \<noteq> None \<or> p_lifecycle_failure p \<noteq> None)
    \<and> (p_business_outcome p \<noteq> None \<and> \<not> is_terminal (p_status p) \<longrightarrow>
        (\<exists>v. p_event_schema_version p = Some v \<and> 10 \<le> v))"

lemma run_step_active:
  assumes "run_step payload s s'" "payload_owner payload \<noteq> Owner_Outcome"
  shows "s' = s \<or> s' \<in> {RunStatus_Queued, RunStatus_Running, RunStatus_Waiting}"
  using assms by (cases rule: run_step.cases) auto

lemma event_step_active:
  assumes "event_step e s s'" "event_owner e \<noteq> Owner_Outcome"
  shows "s' = s \<or> s' \<in> {RunStatus_Queued, RunStatus_Running, RunStatus_Waiting}"
  using assms transition_payload(2) [of e] run_step_active
  by (auto simp: event_step_def split: if_splits)

lemma active_not_terminal [simp]:
  "\<not> is_terminal RunStatus_NotStarted" "\<not> is_terminal RunStatus_Queued" "\<not> is_terminal RunStatus_Running"
  "\<not> is_terminal RunStatus_Waiting" "\<not> is_terminal RunStatus_Cancelling" "\<not> is_terminal RunStatus_Finalizing"
  "is_terminal RunStatus_Succeeded" "is_terminal RunStatus_Failed" "is_terminal RunStatus_Cancelled"
  by (simp_all add: is_terminal_def)

lemma legacy_undecided:
  assumes "outcome_sound p" "\<not> is_terminal (p_status p)" "p_event_schema_version p = Some v" "v < 10"
  shows "p_business_outcome p = None"
  using assms unfolding outcome_sound_def by (metis leD option.inject)

lemma outcome_transition_sound:
  assumes step: "apply_transition E state e = Inr (q, ix)" and owner: "event_owner e = Owner_Outcome"
    and gate: "gate_open E state e" and inv: "outcome_sound (fs_projection state)"
    and version: "p_event_schema_version (fs_projection state) = Some (version e)"
  shows "outcome_sound q"
proof -
  have valid: "validate_event E e = Inr ()" and live: "\<not> is_terminal (p_status (fs_projection state))"
    using gate by (auto simp: gate_open_def)
  note inv = inv [unfolded outcome_sound_def]
  from step owner show ?thesis
  proof (cases rule: outcome_transitionE)
    case (RunCancellationRequested data)
    then have "q = fs_projection state\<lparr>p_cancellation_request_id := Some (rcr_request_id data),
        p_status := RunStatus_Cancelling\<rparr>"
      and "p_status (fs_projection state) \<in> {RunStatus_Queued, RunStatus_Running, RunStatus_Waiting}"
      by (auto simp: apply_run_cancellation_requested_def split: if_splits)
    then show ?thesis using inv live by (simp add: outcome_sound_def)
  next
    case (RunOutcomeDecided data)
    then have "10 \<le> version e" using outcome_version [OF valid] by simp
    then show ?thesis
      using RunOutcomeDecided inv live version
      by (cases data; clarsimp simp: outcome_sound_def apply_run_outcome_decided_def ok_simps)
  next
    case (RunFinalized data)
    then show ?thesis
      using inv live by (clarsimp simp: outcome_sound_def apply_run_finalized_def ok_simps)
  next
    case (RunSucceeded data)
    then have "version e < 10" using legacy_terminal_version [OF valid] by simp
    then have "p_business_outcome (fs_projection state) = None"
      using assms(4) live version by (intro legacy_undecided)
    then show ?thesis
      using RunSucceeded inv by (clarsimp simp: outcome_sound_def apply_run_succeeded_def ok_simps)
  next
    case (RunFailed data)
    then have "version e < 10" using legacy_terminal_version [OF valid] by simp
    then have "p_business_outcome (fs_projection state) = None"
      using assms(4) live version by (intro legacy_undecided)
    then show ?thesis
      using RunFailed inv by (clarsimp simp: outcome_sound_def apply_run_failed_def ok_simps)
  qed
qed

lemma active_status_sound:
  assumes "outcome_sound p" "p_business_outcome q = p_business_outcome p" "p_result q = p_result p"
    and "p_cancellation_request_id q = p_cancellation_request_id p" "p_failure q = p_failure p"
    and "p_lifecycle_failure q = p_lifecycle_failure p"
    and "p_event_schema_version q = p_event_schema_version p \<or> p_business_outcome p = None"
    and "p_status q = p_status p \<or> p_status q \<in> {RunStatus_Queued, RunStatus_Running, RunStatus_Waiting}"
    and "\<not> is_terminal (p_status p)"
  shows "outcome_sound q"
  using assms unfolding outcome_sound_def by (elim disjE; (elim insertE emptyE)?; clarsimp)

lemma outcome_frame:
  assumes "apply_transition E state e = Inr (q, ix)" "event_owner e \<noteq> Owner_Outcome"
  shows "p_business_outcome q = p_business_outcome (fs_projection state)"
    "p_result q = p_result (fs_projection state)"
    "p_cancellation_request_id q = p_cancellation_request_id (fs_projection state)"
    "p_failure q = p_failure (fs_projection state)"
    "p_lifecycle_failure q = p_lifecycle_failure (fs_projection state)"
  by (simp_all only: transition_frame [OF assms(1)] assms(2) not_False_eq_True)

interpretation outcome: history_invariant E "\<lambda>_ state. outcome_sound (fs_projection state)" for E
proof unfold_locales
  show "outcome_sound (fs_projection default_fold_state)"
    by (simp add: outcome_sound_def default_fold_state_def empty_projection_def)
next
  fix es state e state'
  assume es: "from_events E es = Inr state" and inv: "outcome_sound (fs_projection state)"
    and "apply_event E state e = Inr state'"
  then obtain q ix where gate: "gate_open E state e" and step: "apply_transition E state e = Inr (q, ix)"
    and state': "fs_projection state' = q\<lparr>p_last_sequence := ev_sequence e\<rparr>"
    by (elim apply_eventE) simp
  have "outcome_sound q"
  proof (cases "event_owner e = Owner_Outcome")
    case True
    then have "p_event_schema_version (fs_projection state) = Some (version e)"
      using started_version [OF es gate step] by blast
    then show ?thesis using outcome_transition_sound [OF step True gate inv] by simp
  next
    case False
    have "p_event_schema_version q = p_event_schema_version (fs_projection state)
      \<or> p_business_outcome (fs_projection state) = None"
      using version_kept [OF es step] by (elim disjE conjE) simp_all
    moreover have "\<not> is_terminal (p_status (fs_projection state))"
      using gate by (simp add: gate_open_def)
    ultimately show ?thesis
      using active_status_sound [OF inv outcome_frame [OF step False]]
        event_step_active [OF transition_refines [OF step] False] by simp
  qed
  then show "outcome_sound (fs_projection state')"
    by (simp add: state' outcome_sound_def)
qed

section \<open>Decisions are final\<close>

definition kept :: "'a option \<Rightarrow> 'a option \<Rightarrow> bool" where
  "kept x y \<longleftrightarrow> x = None \<or> y = x"

definition keeps_decisions :: "run_projection \<Rightarrow> run_projection \<Rightarrow> bool" where
  "keeps_decisions p q \<longleftrightarrow>
    kept (p_run_id p) (p_run_id q) \<and> kept (p_event_schema_version p) (p_event_schema_version q)
    \<and> kept (p_business_outcome p) (p_business_outcome q)
    \<and> kept (p_cancellation_request_id p) (p_cancellation_request_id q)
    \<and> kept (p_result p) (p_result q)"

lemma kept_refl [simp]: "kept x x"
  by (simp add: kept_def)

lemma kept_None [simp]: "kept None y"
  by (simp add: kept_def)

lemma kept_trans: "kept x y \<Longrightarrow> kept y z \<Longrightarrow> kept x z"
  by (auto simp: kept_def)

lemma undecided_result:
  "outcome_sound p \<Longrightarrow> p_business_outcome p = None \<Longrightarrow> p_result p = None"
  by (simp add: outcome_sound_def)

lemma outcome_transition_keeps:
  assumes step: "apply_transition E state e = Inr (q, ix)" and owner: "event_owner e = Owner_Outcome"
    and gate: "gate_open E state e" and inv: "outcome_sound (fs_projection state)"
    and version: "p_event_schema_version (fs_projection state) = Some (version e)"
  shows "kept (p_business_outcome (fs_projection state)) (p_business_outcome q)
    \<and> kept (p_cancellation_request_id (fs_projection state)) (p_cancellation_request_id q)
    \<and> kept (p_result (fs_projection state)) (p_result q)"
proof -
  have valid: "validate_event E e = Inr ()" and live: "\<not> is_terminal (p_status (fs_projection state))"
    using gate by (auto simp: gate_open_def)
  from step owner show ?thesis
  proof (cases rule: outcome_transitionE)
    case (RunCancellationRequested data)
    then show ?thesis by (auto simp: apply_run_cancellation_requested_def split: if_splits)
  next
    case (RunOutcomeDecided data)
    then have "p_business_outcome (fs_projection state) = None"
      by (simp add: apply_run_outcome_decided_def ok_simps)
    then show ?thesis
      using RunOutcomeDecided undecided_result [OF inv]
      by (cases data; clarsimp simp: apply_run_outcome_decided_def ok_simps)
  next
    case (RunFinalized data)
    then show ?thesis by (clarsimp simp: apply_run_finalized_def ok_simps)
  next
    case (RunSucceeded data)
    then have "p_business_outcome (fs_projection state) = None"
      using legacy_undecided [OF inv live version] legacy_terminal_version [OF valid] by blast
    then show ?thesis
      using RunSucceeded undecided_result [OF inv] by (clarsimp simp: apply_run_succeeded_def ok_simps)
  next
    case (RunFailed data)
    then have "p_business_outcome (fs_projection state) = None"
      using legacy_undecided [OF inv live version] legacy_terminal_version [OF valid] by blast
    then show ?thesis
      using RunFailed by (clarsimp simp: apply_run_failed_def ok_simps)
  qed
qed

lemma identity_transition_keeps:
  assumes "from_events E es = Inr state" "apply_transition E state e = Inr (q, ix)"
  shows "kept (p_run_id (fs_projection state)) (p_run_id q)"
    "kept (p_event_schema_version (fs_projection state)) (p_event_schema_version q)"
proof -
  have "kept (p_run_id (fs_projection state)) (p_run_id q)
    \<and> kept (p_event_schema_version (fs_projection state)) (p_event_schema_version q)"
  proof (cases "event_owner e = Owner_Run \<and> starts_run (ev_payload e)")
    case True
    then have "p_status (fs_projection state) = RunStatus_NotStarted"
      using start_transition(5) [OF assms(2)] by blast
    then have "p_run_id (fs_projection state) = None \<and> p_event_schema_version (fs_projection state) = None"
      using identity.holds [OF assms(1)] by (simp add: run_identity_def split: option.splits)
    then show ?thesis by simp
  next
    case False
    then have "event_owner e = Owner_Loops \<or> \<not> starts_run (ev_payload e)"
      using start_owner [of e] by (auto split: if_splits)
    then show ?thesis using identity_kept [OF assms(2)] by simp
  qed
  then show "kept (p_run_id (fs_projection state)) (p_run_id q)"
    "kept (p_event_schema_version (fs_projection state)) (p_event_schema_version q)" by simp_all
qed

interpretation decisions: step_relation E keeps_decisions for E
proof unfold_locales
  show "keeps_decisions p p" for p by (simp add: keeps_decisions_def)
  show "keeps_decisions p q \<Longrightarrow> keeps_decisions q r \<Longrightarrow> keeps_decisions p r" for p q r
    unfolding keeps_decisions_def using kept_trans by metis
  show "keeps_decisions p q \<Longrightarrow> keeps_decisions p (q\<lparr>p_last_sequence := n\<rparr>)" for p q n
    by (simp add: keeps_decisions_def)
  fix es state e q ix
  assume es: "from_events E es = Inr state" and gate: "gate_open E state e"
    and step: "apply_transition E state e = Inr (q, ix)"
  show "keeps_decisions (fs_projection state) q"
  proof (cases "event_owner e = Owner_Outcome")
    case True
    then show ?thesis
      using outcome_transition_keeps [OF step True gate outcome.holds [OF es]]
        started_version [OF es gate step] identity_transition_keeps [OF es step]
      by (simp add: keeps_decisions_def)
  next
    case False
    then show ?thesis
      using identity_transition_keeps [OF es step] by (simp add: keeps_decisions_def outcome_frame [OF step])
  qed
qed

section \<open>Stranded runs\<close>

text \<open>
  A run whose outcome is decided but which is back in an active status.  The loss of a
  lock lease reaches it, and nothing leads out of it.
\<close>

definition stranded :: "run_projection \<Rightarrow> bool" where
  "stranded p \<longleftrightarrow> p_business_outcome p \<noteq> None \<and> \<not> is_terminal (p_status p)
    \<and> p_status p \<noteq> RunStatus_Finalizing"

lemma stranded_step:
  assumes es: "from_events E es = Inr state" and gate: "gate_open E state e"
    and step: "apply_transition E state e = Inr (q, ix)" and stranded: "stranded (fs_projection state)"
  shows "stranded q"
proof (cases "event_owner e = Owner_Outcome")
  case True
  have valid: "validate_event E e = Inr ()" and live: "\<not> is_terminal (p_status (fs_projection state))"
    using gate by (auto simp: gate_open_def)
  have version: "p_event_schema_version (fs_projection state) = Some (version e)"
    using started_version [OF es gate step] True by blast
  from step True show ?thesis
  proof (cases rule: outcome_transitionE)
    case (RunSucceeded data)
    then show ?thesis
      using stranded legacy_undecided [OF outcome.holds [OF es] live version]
        legacy_terminal_version [OF valid] by (simp add: stranded_def)
  next
    case (RunFailed data)
    then show ?thesis
      using stranded legacy_undecided [OF outcome.holds [OF es] live version]
        legacy_terminal_version [OF valid] by (simp add: stranded_def)
  qed (use stranded in \<open>clarsimp simp: stranded_def apply_run_cancellation_requested_def
      apply_run_outcome_decided_def apply_run_finalized_def ok_simps\<close>)+
next
  case False
  then show ?thesis
    using stranded event_step_active [OF transition_refines [OF step] False]
    by (auto simp: stranded_def outcome_frame [OF step])
qed

interpretation stranding: step_relation E "\<lambda>p q. stranded p \<longrightarrow> stranded q" for E
  by unfold_locales (auto simp: stranded_def dest: stranded_step)

end
