(* ===== verification/Run_Attempts.thy ===== *)
theory Run_Attempts
  imports Run_Outcome
begin

text \<open>
  Step attempts.  The attempt list of a run is a journal: per step at most the latest
  attempt is active, the index map finds every attempt, and from schema version 6 the
  attempts of a step are numbered from one, at most ten, all but the latest failed, all
  with one idempotency key; a pending retry follows the latest failure.
\<close>

section \<open>Journals\<close>

definition node_of :: "attempt_projection \<Rightarrow> string" where
  "node_of a = ai_node_id (ap_identity a)"

definition attempts_of :: "attempt_projection list \<Rightarrow> string \<Rightarrow> attempt_projection list" where
  "attempts_of xs n = filter (\<lambda>a. node_of a = n) xs"

definition indexed :: "attempt_projection list \<Rightarrow> attempt_indexes \<Rightarrow> bool" where
  "indexed xs ix \<longleftrightarrow> (\<forall>key i. ix key = Some i \<longleftrightarrow> i < length xs \<and> ap_identity (xs ! i) = key)"

definition journal :: "attempt_projection list \<Rightarrow> bool" where
  "journal xs \<longleftrightarrow>
    distinct (map (ai_invocation_id \<circ> ap_identity) xs)
    \<and> (\<forall>n. list_all (\<lambda>a. ap_status a \<noteq> AttemptStatus_Started) (butlast (attempts_of xs n)))"

definition numbered :: "attempt_projection list \<Rightarrow> bool" where
  "numbered xs \<longleftrightarrow> (\<forall>n.
    map (unat \<circ> ai_attempt \<circ> ap_identity) (attempts_of xs n) = [1 ..< Suc (length (attempts_of xs n))]
    \<and> length (attempts_of xs n) \<le> 10
    \<and> list_all (\<lambda>a. is_failed (ap_status a)) (butlast (attempts_of xs n))
    \<and> (\<exists>key. set (map ap_idempotency_key (attempts_of xs n)) \<subseteq> {Some key}))"

definition pending_follows ::
  "attempt_projection list \<Rightarrow> (string, retry_schedule_projection) btree \<Rightarrow> bool" where
  "pending_follows xs pending \<longleftrightarrow> (\<forall>n r. bt_get pending n = Some r \<longrightarrow>
    attempts_of xs n \<noteq> []
    \<and> is_failed (ap_status (last (attempts_of xs n)))
    \<and> rsp_node_id r = n
    \<and> rsp_failed_attempt r = ai_attempt (ap_identity (last (attempts_of xs n)))
    \<and> rsp_next_attempt r = rsp_failed_attempt r + 1)"

lemmas journal_defs = journal_def numbered_def pending_follows_def

lemma attempts_of_simps [simp]:
  "attempts_of [] n = []"
  "attempts_of (xs @ ys) n = attempts_of xs n @ attempts_of ys n"
  "attempts_of (a # xs) n = (if node_of a = n then a # attempts_of xs n else attempts_of xs n)"
  by (simp_all add: attempts_of_def)

lemma latest_attempt_eq:
  "latest_attempt p n =
    (if attempts_of (p_attempts p) n = [] then None else Some (last (attempts_of (p_attempts p) n)))"
  by (simp add: latest_attempt_def last_filter_find_last attempts_of_def node_of_def)

lemma started_attempt_node [simp]:
  "node_of (started_attempt d) = sast_node_id d"
  "ap_identity (started_attempt d) = identity (sast_node_id d) (sast_attempt d) (sast_invocation_id d)"
  "ap_status (started_attempt d) = AttemptStatus_Started"
  "ap_idempotency_key (started_attempt d) = sast_idempotency_key d"
  by (simp_all add: started_attempt_def node_of_def identity_def)

subsection \<open>A started attempt joins the journal\<close>

lemma indexed_start:
  assumes "indexed xs ix" "ap_identity a = key" "ix key = None"
  shows "indexed (xs @ [a]) (ix(key \<mapsto> length xs))"
proof -
  have "ap_identity (xs ! i) \<noteq> key" if "i < length xs" for i
    using assms(1,3) that unfolding indexed_def by (metis option.distinct(1))
  then show ?thesis
    using assms(1,2) by (auto simp: indexed_def nth_append less_Suc_eq)
qed

lemma journal_start:
  assumes "journal xs"
    and fresh: "ai_invocation_id (ap_identity a) \<notin> (ai_invocation_id \<circ> ap_identity) ` set xs"
    and idle: "attempts_of xs (node_of a) = []
      \<or> ap_status (last (attempts_of xs (node_of a))) \<noteq> AttemptStatus_Started"
  shows "journal (xs @ [a])"
proof -
  have "list_all (\<lambda>a. ap_status a \<noteq> AttemptStatus_Started) (attempts_of xs (node_of a))"
    using assms(1) [unfolded journal_def, THEN conjunct2, rule_format, of "node_of a"] idle
    by (cases "attempts_of xs (node_of a)" rule: rev_cases) auto
  then show ?thesis
    using assms(1) fresh by (auto simp: journal_def butlast_append)
qed

subsection \<open>An active attempt settles\<close>

lemma active_is_latest:
  assumes "journal (us @ a # vs)" "ap_status a = AttemptStatus_Started"
  shows "attempts_of vs (node_of a) = []"
proof (rule ccontr)
  assume "attempts_of vs (node_of a) \<noteq> []"
  then have "a \<in> set (butlast (attempts_of (us @ a # vs) (node_of a)))"
    by (simp add: butlast_append)
  then show False
    using assms unfolding journal_def list_all_iff by blast
qed

lemma settle_butlast:
  assumes "attempts_of vs (node_of a) = []" "node_of a' = node_of a"
  shows "butlast (attempts_of (us @ a' # vs) n) = butlast (attempts_of (us @ a # vs) n)"
  using assms by (cases "n = node_of a") (simp_all add: butlast_append)

lemma settle_map:
  assumes "node_of a' = node_of a" "f a' = f a"
  shows "map f (attempts_of (us @ a' # vs) n) = map f (attempts_of (us @ a # vs) n)"
  using assms by simp

lemma settle_length:
  assumes "node_of a' = node_of a"
  shows "length (attempts_of (us @ a' # vs) n) = length (attempts_of (us @ a # vs) n)"
  using assms by simp

lemma same_node: "ap_identity a' = ap_identity a \<Longrightarrow> node_of a' = node_of a"
  by (simp add: node_of_def)

lemma journal_settle:
  assumes "journal (us @ a # vs)" "ap_status a = AttemptStatus_Started"
    and "ap_identity a' = ap_identity a"
  shows "journal (us @ a' # vs)"
  using assms(1) assms(3)
  unfolding journal_def settle_butlast [OF active_is_latest [OF assms(1,2)] same_node [OF assms(3)]]
  by simp

lemma numbered_settle:
  assumes "journal (us @ a # vs)" "ap_status a = AttemptStatus_Started" "numbered (us @ a # vs)"
    and "ap_identity a' = ap_identity a" "ap_idempotency_key a' = ap_idempotency_key a"
  shows "numbered (us @ a' # vs)"
proof -
  note node = same_node [OF assms(4)]
  have num: "(unat \<circ> ai_attempt \<circ> ap_identity) a' = (unat \<circ> ai_attempt \<circ> ap_identity) a"
    using assms(4) by simp
  from assms(3) show ?thesis
    unfolding numbered_def settle_butlast [OF active_is_latest [OF assms(1,2)] node]
      settle_length [OF node] settle_map [OF node num] settle_map [OF node assms(5)] .
qed

lemma pending_settle:
  assumes "journal (us @ a # vs)" "ap_status a = AttemptStatus_Started"
    and pending: "pending_follows (us @ a # vs) pending" and "ap_identity a' = ap_identity a"
  shows "pending_follows (us @ a' # vs) pending"
  unfolding pending_follows_def
proof (intro allI impI)
  fix n r
  assume get: "bt_get pending n = Some r"
  note follows = pending [unfolded pending_follows_def, rule_format, OF get]
  have "n \<noteq> node_of a"
    using follows assms(2) active_is_latest [OF assms(1,2)] by auto
  then have same: "attempts_of (us @ a' # vs) n = attempts_of (us @ a # vs) n"
    using same_node [OF assms(4)] by simp
  show "attempts_of (us @ a' # vs) n \<noteq> [] \<and> is_failed (ap_status (last (attempts_of (us @ a' # vs) n)))
      \<and> rsp_node_id r = n
      \<and> rsp_failed_attempt r = ai_attempt (ap_identity (last (attempts_of (us @ a' # vs) n)))
      \<and> rsp_next_attempt r = rsp_failed_attempt r + 1"
    unfolding same by (rule follows)
qed

lemma indexed_settle:
  assumes "indexed xs ix" "i < length xs" "ap_identity a' = ap_identity (xs ! i)"
  shows "indexed (xs[i := a']) ix"
  using assms by (auto simp: indexed_def nth_list_update)

subsection \<open>A numbered attempt joins the journal\<close>

lemma unat_succ_u32:
  assumes "unat (w :: u32) \<le> 10"
  shows "unat (w + 1) = Suc (unat w)"
  using assms by (simp add: unat_word_ariths)

lemma numbered_last:
  assumes "numbered xs" "attempts_of xs n \<noteq> []"
  shows "unat (ai_attempt (ap_identity (last (attempts_of xs n)))) = length (attempts_of xs n)"
proof -
  have "last (map (unat \<circ> ai_attempt \<circ> ap_identity) (attempts_of xs n)) = length (attempts_of xs n)"
    using assms(1) [unfolded numbered_def, rule_format, of n] assms(2) by (simp add: Suc_le_eq)
  then show ?thesis using assms(2) by (simp add: last_map)
qed

lemma numbered_start:
  assumes xs: "numbered xs"
    and first: "attempts_of xs (node_of a) = [] \<Longrightarrow> ai_attempt (ap_identity a) = 1"
    and again: "attempts_of xs (node_of a) \<noteq> [] \<Longrightarrow>
      ai_attempt (ap_identity a) = ai_attempt (ap_identity (last (attempts_of xs (node_of a)))) + 1
      \<and> is_failed (ap_status (last (attempts_of xs (node_of a))))
      \<and> ap_idempotency_key a = ap_idempotency_key (hd (attempts_of xs (node_of a)))"
    and bound: "ai_attempt (ap_identity a) \<le> 10" and key: "ap_idempotency_key a \<noteq> None"
  shows "numbered (xs @ [a])"
proof -
  let ?ys = "attempts_of xs (node_of a)"
  note ys = xs [unfolded numbered_def, rule_format, of "node_of a"]
  have num: "unat (ai_attempt (ap_identity a)) = Suc (length ?ys)"
  proof (cases "?ys = []")
    case False
    then show ?thesis
      using again [OF False] numbered_last [OF xs False] ys by (simp add: unat_succ_u32)
  qed (simp add: first)
  have "unat (ai_attempt (ap_identity a)) \<le> 10"
    using bound by (simp add: word_le_nat_alt)
  moreover have "list_all (\<lambda>a. is_failed (ap_status a)) ?ys"
    using again ys by (cases ?ys rule: rev_cases) auto
  moreover have "\<exists>key. set (map ap_idempotency_key (?ys @ [a])) \<subseteq> {Some key}"
    using again ys key by (cases ?ys) auto
  ultimately have "map (unat \<circ> ai_attempt \<circ> ap_identity) (?ys @ [a]) = [1 ..< Suc (length (?ys @ [a]))]
      \<and> length (?ys @ [a]) \<le> 10 \<and> list_all (\<lambda>a. is_failed (ap_status a)) (butlast (?ys @ [a]))
      \<and> (\<exists>key. set (map ap_idempotency_key (?ys @ [a])) \<subseteq> {Some key})"
    using ys num by simp
  moreover have "attempts_of (xs @ [a]) n = (if n = node_of a then ?ys @ [a] else attempts_of xs n)" for n
    by simp
  ultimately show ?thesis
    using xs unfolding numbered_def by (simp only: split: if_split) blast
qed

section \<open>Attempts of a run\<close>

definition attempts_sound :: "run_projection \<Rightarrow> attempt_indexes \<Rightarrow> bool" where
  "attempts_sound p ix \<longleftrightarrow>
    indexed (p_attempts p) ix \<and> journal (p_attempts p)
    \<and> (p_run_id p = None \<longrightarrow> p_attempts p = [] \<and> p_pending_retries p = bt_empty)
    \<and> (\<forall>v. p_event_schema_version p = Some v \<and> 6 \<le> v \<longrightarrow>
        numbered (p_attempts p) \<and> pending_follows (p_attempts p) (p_pending_retries p))"

lemma attempt_contract:
  assumes "validate_event E e = Inr u" "ev_payload e = StepAttemptStarted d" "6 \<le> version e"
  shows "sast_attempt d \<le> 10" "sast_idempotency_key d \<noteq> None"
proof -
  obtain e' where e': "version e' = min (version e) 11" "validate_payload E e' (ev_payload e) = Inr u"
    using assms by (elim unowned_version) (auto simp: payload_class_defs)
  then have "6 \<le> version e'"
    using assms(3) by (auto simp: min_def word_le_nat_alt)
  then have "sast_attempt d \<le> 10 \<and> sast_idempotency_key d \<noteq> None"
    using e'(2) assms(2) by (auto simp: validate_step_attempt_started_def ok_simps is_some_and_iff)
  then show "sast_attempt d \<le> 10" "sast_idempotency_key d \<noteq> None" by simp_all
qed

lemma find_filter: "List.find P xs = (if filter P xs = [] then None else Some (hd (filter P xs)))"
  by (induction xs) auto

lemma first_key_eq:
  "first_idempotency_key p n =
    (if attempts_of (p_attempts p) n = [] then None
     else ap_idempotency_key (hd (attempts_of (p_attempts p) n)))"
  by (simp add: first_idempotency_key_def find_filter attempts_of_def node_of_def)

lemma numbered_key:
  assumes "numbered xs" "attempts_of xs n \<noteq> []"
  shows "ap_idempotency_key (hd (attempts_of xs n)) \<noteq> None"
  using assms(1) [unfolded numbered_def, rule_format, of n] assms(2) by (cases "attempts_of xs n") auto

lemma started_version_running:
  assumes "from_events E es = Inr state" "gate_open E state e"
    and "p_status (fs_projection state) \<noteq> RunStatus_NotStarted"
  shows "p_event_schema_version (fs_projection state) = Some (version e)"
    "p_run_id (fs_projection state) \<noteq> None"
  using identity.holds [OF assms(1)] assms(2,3)
  by (auto simp: run_identity_def gate_open_def split: option.splits)

lemma pending_start:
  assumes "pending_follows xs pending"
  shows "pending_follows (xs @ [a]) (bt_remove (node_of a) pending)"
  using assms by (auto simp: pending_follows_def)

lemma start_fields:
  assumes "apply_step_attempt_started p e d ix = Inr (q, ix')"
  shows "p_status p = RunStatus_Running"
    "ai_invocation_id (ap_identity (started_attempt d)) \<notin> (ai_invocation_id \<circ> ap_identity) ` set (p_attempts p)"
    "attempts_of (p_attempts p) (sast_node_id d) = []
      \<or> ap_status (last (attempts_of (p_attempts p) (sast_node_id d))) \<noteq> AttemptStatus_Started"
    "ix (ap_identity (started_attempt d)) = None"
    "ix' = ix(ap_identity (started_attempt d) \<mapsto> length (p_attempts p))"
    "p_attempts q = p_attempts p @ [started_attempt d]" "p_run_id q = p_run_id p"
    "p_event_schema_version q = p_event_schema_version p"
  using assms
  by (auto simp: apply_step_attempt_started_def ok_simps latest_attempt_eq Let_def list_ex_iff identity_def
      split: if_splits)

lemma start_numbered:
  assumes step: "apply_step_attempt_started p e d ix = Inr (q, ix')" and v6: "6 \<le> version e"
    and num: "numbered (p_attempts p)" and pending: "pending_follows (p_attempts p) (p_pending_retries p)"
    and bound: "sast_attempt d \<le> 10" "sast_idempotency_key d \<noteq> None"
  shows "numbered (p_attempts q)" "pending_follows (p_attempts q) (p_pending_retries q)"
proof -
  let ?ys = "attempts_of (p_attempts p) (sast_node_id d)"
  have expected: "sast_attempt d = (if ?ys = [] then 1 else ai_attempt (ap_identity (last ?ys)) + 1)"
    and key: "\<not> is_some_and (first_idempotency_key p (sast_node_id d)) (\<lambda>k. sast_idempotency_key d \<noteq> Some k)"
    and retry: "retry_matches e d (if ?ys = [] then None else Some (last ?ys))
      (bt_get (p_pending_retries p) (sast_node_id d)) = Inr ()"
    and q: "p_attempts q = p_attempts p @ [started_attempt d]"
      "p_pending_retries q = bt_remove (sast_node_id d) (p_pending_retries p)"
    using step v6
    by (auto simp: apply_step_attempt_started_def ok_simps latest_attempt_eq Let_def
        RUN_EVENT_SCHEMA_VERSION_V6_def split: if_splits)
  show "pending_follows (p_attempts q) (p_pending_retries q)"
    using pending_start [OF pending, of "started_attempt d"] q by simp
  have "numbered (p_attempts p @ [started_attempt d])"
  proof (rule numbered_start [OF num])
    assume "attempts_of (p_attempts p) (node_of (started_attempt d)) \<noteq> []"
    then have ys: "?ys \<noteq> []" by simp
    have "is_failed (ap_status (last ?ys))"
      using retry ys by (auto simp: retry_matches_def split: option.splits if_splits)
    moreover have "sast_idempotency_key d = ap_idempotency_key (hd ?ys)"
      using key ys numbered_key [OF num ys] by (auto simp: first_key_eq)
    ultimately show "ai_attempt (ap_identity (started_attempt d))
        = ai_attempt (ap_identity (last (attempts_of (p_attempts p) (node_of (started_attempt d))))) + 1
      \<and> is_failed (ap_status (last (attempts_of (p_attempts p) (node_of (started_attempt d)))))
      \<and> ap_idempotency_key (started_attempt d)
        = ap_idempotency_key (hd (attempts_of (p_attempts p) (node_of (started_attempt d))))"
      using expected ys by (simp add: identity_def)
  qed (use expected bound in \<open>simp_all add: identity_def\<close>)
  then show "numbered (p_attempts q)" using q by simp
qed

lemma settle_sound:
  assumes inv: "attempts_sound p ix" and "i < length (p_attempts p)" "p_attempts p ! i = a"
    and "ap_status a = AttemptStatus_Started" "ap_identity a' = ap_identity a"
    and "ap_idempotency_key a' = ap_idempotency_key a" "p_attempts q = (p_attempts p)[i := a']"
    and "p_run_id q = p_run_id p" "p_run_id p \<noteq> None" "p_pending_retries q = p_pending_retries p"
    and "p_event_schema_version q = p_event_schema_version p"
  shows "attempts_sound q ix"
proof -
  obtain us vs where split: "p_attempts p = us @ a # vs" "length us = i"
    using assms(2,3) by (metis id_take_nth_drop length_take min.absorb4)
  then have "p_attempts q = us @ a' # vs" using assms(7) by (simp add: list_update_append)
  then show ?thesis
    using inv assms journal_settle [of us a vs a'] numbered_settle [of us a vs a']
      pending_settle [of us a vs "p_pending_retries p" a'] indexed_settle [of "p_attempts p" ix i a']
    by (auto simp: attempts_sound_def split(1))
qed

lemma attempts_transition_sound:
  assumes es: "from_events E es = Inr state" and gate: "gate_open E state e"
    and inv: "attempts_sound (fs_projection state) (fs_attempt_indexes state)"
    and step: "apply_transition E state e = Inr (q, ix)" and owner: "event_owner e = Owner_Attempts"
  shows "attempts_sound q ix"
proof -
  have valid: "validate_event E e = Inr ()" using gate by (simp add: gate_open_def)
  note started = started_version_running [OF es gate]
  from step owner show ?thesis
  proof (cases rule: attempts_transitionE)
    case (StepAttemptStarted data)
    note fields = start_fields [OF StepAttemptStarted(2)]
    have version: "p_event_schema_version (fs_projection state) = Some (version e)"
      and run: "p_run_id (fs_projection state) \<noteq> None"
      using started fields(1) by simp_all
    have "numbered (p_attempts q) \<and> pending_follows (p_attempts q) (p_pending_retries q)"
      if "6 \<le> version e"
      using that inv version start_numbered [OF StepAttemptStarted(2) that]
        attempt_contract [OF valid StepAttemptStarted(1) that] by (simp add: attempts_sound_def)
    moreover have "journal (p_attempts q)" "indexed (p_attempts q) ix"
      using inv fields(2-6) journal_start [of "p_attempts (fs_projection state)" "started_attempt data"]
        indexed_start [of "p_attempts (fs_projection state)" "fs_attempt_indexes state" "started_attempt data"]
      by (simp_all add: attempts_sound_def)
    ultimately show ?thesis
      using fields(7,8) version run by (auto simp: attempts_sound_def)
  next
    case (StepAttemptSucceeded data)
    then obtain i where i: "i < length (p_attempts (fs_projection state))"
      "ap_status (p_attempts (fs_projection state) ! i) = AttemptStatus_Started"
      "p_attempts q = (p_attempts (fs_projection state))[i :=
        (p_attempts (fs_projection state) ! i)\<lparr>ap_status := AttemptStatus_Succeeded (sasu_output data)\<rparr>]"
      and fields: "p_run_id q = p_run_id (fs_projection state)"
        "p_event_schema_version q = p_event_schema_version (fs_projection state)"
        "p_pending_retries q = p_pending_retries (fs_projection state)"
        "p_status (fs_projection state) \<noteq> RunStatus_NotStarted"
      by (auto simp: apply_step_attempt_succeeded_def ok_simps)
    show ?thesis
      unfolding StepAttemptSucceeded(3)
      by (rule settle_sound [OF inv i(1) refl i(2) _ _ i(3)])
        (use fields started in simp_all)
  next
    case (StepAttemptFailed data)
    then obtain i where i: "i < length (p_attempts (fs_projection state))"
      "ap_status (p_attempts (fs_projection state) ! i) = AttemptStatus_Started"
      "p_attempts q = (p_attempts (fs_projection state))[i :=
        (p_attempts (fs_projection state) ! i)\<lparr>ap_status := AttemptStatus_Failed (saf_failure data)\<rparr>]"
      and fields: "p_run_id q = p_run_id (fs_projection state)"
        "p_event_schema_version q = p_event_schema_version (fs_projection state)"
        "p_pending_retries q = p_pending_retries (fs_projection state)"
        "p_status (fs_projection state) \<noteq> RunStatus_NotStarted"
      by (auto simp: apply_step_attempt_failed_def ok_simps)
    show ?thesis
      unfolding StepAttemptFailed(3)
      by (rule settle_sound [OF inv i(1) refl i(2) _ _ i(3)])
        (use fields started in simp_all)
  next
    case (StepRetryScheduled data)
    then show ?thesis
      using inv started
      by (auto simp: apply_step_retry_scheduled_def ok_simps attempts_sound_def pending_follows_def
          retry_schedule_def latest_attempt_eq split: if_splits)
  qed
qed

lemma attempts_frame:
  assumes "apply_transition E state e = Inr (q, ix)" "event_owner e \<noteq> Owner_Attempts"
  shows "p_attempts q = p_attempts (fs_projection state)" "ix = fs_attempt_indexes state"
    "p_pending_retries q = p_pending_retries (fs_projection state) \<or> p_pending_retries q = bt_empty"
proof -
  show "p_attempts q = p_attempts (fs_projection state)"
    by (simp only: transition_frame [OF assms(1)] assms(2) not_False_eq_True)
  show "ix = fs_attempt_indexes state" using transition_indexes [OF assms] .
  show "p_pending_retries q = p_pending_retries (fs_projection state) \<or> p_pending_retries q = bt_empty"
  proof (cases "event_owner e = Owner_Outcome")
    case True
    with assms(1) show ?thesis
      by (cases rule: outcome_transitionE)
        (auto simp: fold_run_defs apply_run_outcome_decided_def apply_run_finalized_def ok_simps
          split: if_splits run_outcome_decided_data.splits)
  next
    case False
    then show ?thesis using assms by (simp add: transition_frame [OF assms(1)])
  qed
qed

lemma numbered_Nil [simp]: "numbered []"
  by (simp add: numbered_def)

lemma pending_empty [simp]: "pending_follows xs bt_empty"
  by (simp add: pending_follows_def)

interpretation attempts: history_invariant E
  "\<lambda>_ state. attempts_sound (fs_projection state) (fs_attempt_indexes state)" for E
proof unfold_locales
  show "attempts_sound (fs_projection default_fold_state) (fs_attempt_indexes default_fold_state)"
    by (simp add: attempts_sound_def default_fold_state_def empty_projection_def indexed_def journal_def)
next
  fix es state e state'
  assume es: "from_events E es = Inr state"
    and inv: "attempts_sound (fs_projection state) (fs_attempt_indexes state)"
    and "apply_event E state e = Inr state'"
  then obtain q ix where gate: "gate_open E state e" and step: "apply_transition E state e = Inr (q, ix)"
    and state': "fs_projection state' = q\<lparr>p_last_sequence := ev_sequence e\<rparr>" "fs_attempt_indexes state' = ix"
    by (elim apply_eventE) simp
  have "attempts_sound q ix"
  proof (cases "event_owner e = Owner_Attempts")
    case True
    then show ?thesis using attempts_transition_sound [OF es gate inv step] by simp
  next
    case False
    note frame = attempts_frame [OF step False]
    have identity: "p_run_id q = p_run_id (fs_projection state)
        \<and> p_event_schema_version q = p_event_schema_version (fs_projection state)
      \<or> p_run_id (fs_projection state) = None"
      using identity_transition_keeps [OF es step] version_kept [OF es step] by (auto simp: kept_def)
    show ?thesis
      using inv frame identity unfolding attempts_sound_def by (elim disjE conjE) simp_all
  qed
  then show "attempts_sound (fs_projection state') (fs_attempt_indexes state')"
    by (simp add: state' attempts_sound_def)
qed

end
