(* ===== verification/Keyed_Lifecycle.thy ===== *)
theory Keyed_Lifecycle
  imports Fold_Owners Validation_Facts
begin

text \<open>
  The contract the keyed components of a projection share: locks, waits, operations,
  sagas, approvals, deliveries and hooks are maps of objects, in which every step adds
  one fresh object or moves one object along its life cycle, and removes none.
\<close>

section \<open>Steps on a map of objects\<close>

definition object_step ::
  "('k::linorder \<Rightarrow> 'v \<Rightarrow> bool) \<Rightarrow> ('v \<Rightarrow> 'v \<Rightarrow> bool) \<Rightarrow> ('k, 'v) btree \<Rightarrow> ('k, 'v) btree \<Rightarrow> bool" where
  "object_step fresh moves m m' \<longleftrightarrow>
    m' = m
    \<or> (\<exists>k v. bt_get m k = None \<and> fresh k v \<and> m' = bt_insert k v m)
    \<or> (\<exists>k v v'. bt_get m k = Some v \<and> moves v v' \<and> m' = bt_insert k v' m)"

lemma object_step_refl: "object_step fresh moves m m"
  by (simp add: object_step_def)

lemma object_step_insert:
  "\<not> bt_contains m k \<Longrightarrow> fresh k v \<Longrightarrow> object_step fresh moves m (bt_insert k v m)"
  by (auto simp: object_step_def bt_contains_def)

lemma object_step_move:
  "bt_get m k = Some v \<Longrightarrow> moves v v' \<Longrightarrow> object_step fresh moves m (bt_insert k v' m)"
  unfolding object_step_def by blast

lemma object_stepE:
  assumes "object_step fresh moves m m'" "bt_get m' k = Some v'"
  obtains (same) "bt_get m k = Some v'"
    | (fresh) "bt_get m k = None" "fresh k v'"
    | (moved) v where "bt_get m k = Some v" "moves v v'"
  using assms by (auto simp: object_step_def split: if_splits)

lemma object_step_keeps:
  assumes "object_step fresh moves m m'" "bt_get m k = Some v"
  shows "\<exists>v'. bt_get m' k = Some v' \<and> moves\<^sup>*\<^sup>* v v'"
  using assms by (auto simp: object_step_def)

section \<open>Life cycles along histories\<close>

text \<open>
  The component \<open>objects\<close> of the projection is written by the events of one owner only.
  What the clients get: every object of a folded history started fresh and came to its
  present state by moves, and along an extension of a history an object only moves.
\<close>

locale keyed_lifecycle =
  fixes E :: externals
    and part :: owner
    and objects :: "run_projection \<Rightarrow> ('k::linorder, 'v) btree"
    and fresh :: "'k \<Rightarrow> 'v \<Rightarrow> bool"
    and moves :: "'v \<Rightarrow> 'v \<Rightarrow> bool"
  assumes objects_empty: "objects empty_projection = bt_empty"
    and objects_sequence: "\<And>p n. objects (p\<lparr>p_last_sequence := n\<rparr>) = objects p"
    and objects_frame: "\<And>state e q ix. apply_transition E state e = Inr (q, ix) \<Longrightarrow>
      event_owner e \<noteq> part \<Longrightarrow> objects q = objects (fs_projection state)"
    and objects_step: "\<And>state e q ix. validate_event E e = Inr () \<Longrightarrow>
      apply_transition E state e = Inr (q, ix) \<Longrightarrow> event_owner e = part \<Longrightarrow>
      object_step fresh moves (objects (fs_projection state)) (objects q)"
begin

lemma transition_step:
  assumes "gate_open E state e" "apply_transition E state e = Inr (q, ix)"
  shows "object_step fresh moves (objects (fs_projection state)) (objects q)"
  using assms objects_frame objects_step object_step_refl
  by (cases "event_owner e = part") (auto simp: gate_open_def)

lemma event_object_step:
  assumes "apply_event E state e = Inr state'"
  shows "object_step fresh moves (objects (fs_projection state)) (objects (fs_projection state'))"
  using assms by (elim apply_eventE) (simp add: objects_sequence transition_step)

end

sublocale keyed_lifecycle \<subseteq> keeps: step_relation E
  "\<lambda>p q. \<forall>k v. bt_get (objects p) k = Some v \<longrightarrow> (\<exists>v'. bt_get (objects q) k = Some v' \<and> moves\<^sup>*\<^sup>* v v')"
proof unfold_locales
  fix p q r :: run_projection
  assume "\<forall>k v. bt_get (objects p) k = Some v \<longrightarrow> (\<exists>v'. bt_get (objects q) k = Some v' \<and> moves\<^sup>*\<^sup>* v v')"
    "\<forall>k v. bt_get (objects q) k = Some v \<longrightarrow> (\<exists>v'. bt_get (objects r) k = Some v' \<and> moves\<^sup>*\<^sup>* v v')"
  then show "\<forall>k v. bt_get (objects p) k = Some v \<longrightarrow> (\<exists>v'. bt_get (objects r) k = Some v' \<and> moves\<^sup>*\<^sup>* v v')"
    by (meson rtranclp_trans)
qed (auto simp: objects_sequence dest: transition_step intro: object_step_keeps)

sublocale keyed_lifecycle \<subseteq> origins: history_invariant E
  "\<lambda>_ state. \<forall>k v. bt_get (objects (fs_projection state)) k = Some v \<longrightarrow> (\<exists>v0. fresh k v0 \<and> moves\<^sup>*\<^sup>* v0 v)"
proof unfold_locales
  fix es state e state'
  assume inv: "\<forall>k v. bt_get (objects (fs_projection state)) k = Some v \<longrightarrow> (\<exists>v0. fresh k v0 \<and> moves\<^sup>*\<^sup>* v0 v)"
    and "apply_event E state e = Inr state'"
  from this(2) have step: "object_step fresh moves (objects (fs_projection state)) (objects (fs_projection state'))"
    by (rule event_object_step)
  show "\<forall>k v. bt_get (objects (fs_projection state')) k = Some v \<longrightarrow> (\<exists>v0. fresh k v0 \<and> moves\<^sup>*\<^sup>* v0 v)"
  proof (intro allI impI)
    fix k v
    assume "bt_get (objects (fs_projection state')) k = Some v"
    with step show "\<exists>v0. fresh k v0 \<and> moves\<^sup>*\<^sup>* v0 v"
    proof (cases rule: object_stepE)
      case same
      then show ?thesis using inv by blast
    next
      case fresh
      then show ?thesis by blast
    next
      case (moved u)
      then show ?thesis using inv by (meson rtranclp.rtrancl_into_rtrancl)
    qed
  qed
qed (simp add: default_fold_state_def objects_empty)

context keyed_lifecycle
begin

lemma origin:
  assumes "from_events E es = Inr state" "bt_get (objects (fs_projection state)) k = Some v"
  obtains v0 where "fresh k v0" "moves\<^sup>*\<^sup>* v0 v"
  using origins.holds [OF assms(1)] assms(2) by blast

lemma evolution:
  assumes "from_events E xs = Inr state" "from_events E (xs @ ys) = Inr state'"
    and "bt_get (objects (fs_projection state)) k = Some v"
  obtains v' where "bt_get (objects (fs_projection state')) k = Some v'" "moves\<^sup>*\<^sup>* v v'"
  using keeps.extension_rel [OF assms(1,2)] assms(3) by blast

lemma every_object:
  assumes "from_events E es = Inr state" "bt_get (objects (fs_projection state)) k = Some v"
    and "\<And>v0. fresh k v0 \<Longrightarrow> I k v0" "\<And>u w. I k u \<Longrightarrow> moves u w \<Longrightarrow> I k w"
  shows "I k v"
proof -
  obtain v0 where "fresh k v0" "moves\<^sup>*\<^sup>* v0 v" using assms(1,2) by (rule origin)
  from this(2) show ?thesis
    by induction (auto intro: assms(3,4) \<open>fresh k v0\<close>)
qed

end

end
