(* ===== verification/Lock_Lifecycle.thy ===== *)
theory Lock_Lifecycle
  imports Keyed_Lifecycle
begin

text \<open>
  The life cycle of a durable lock: a waiter acquires a lease, times out or is cancelled;
  a lease is released or lost.  The fold keeps every lock on this cycle.
\<close>

section \<open>Specification\<close>

definition lock_fresh :: "string \<Rightarrow> lock_projection \<Rightarrow> bool" where
  "lock_fresh k lock \<longleftrightarrow>
    lp_lock_id lock = k \<and> valid_lock_key (lp_key lock) \<and> lp_waiter_sequence lock \<noteq> 0
    \<and> lp_registered_at lock \<le> lp_deadline lock \<and> lp_status lock = LockStatus_Waiting
    \<and> lp_lease_id lock = None \<and> lp_fencing_token lock = None
    \<and> lp_acquired_at lock = None \<and> lp_expires_at lock = None \<and> lp_resolved_at lock = None"

inductive lock_moves :: "lock_projection \<Rightarrow> lock_projection \<Rightarrow> bool" where
  acquire: "lp_status lock = LockStatus_Waiting \<Longrightarrow>
    valid_prefixed_id (lacq_lease_id data) ''lease_'' 7 \<Longrightarrow>
    valid_fencing_token (lacq_fencing_token data) \<Longrightarrow>
    lacq_acquired_at data < lacq_expires_at data \<Longrightarrow>
    lock_moves lock (acquired_lock data lock)"
| release: "lp_status lock = LockStatus_Held \<Longrightarrow>
    lock_moves lock (resolve_lock LockStatus_Released at lock)"
| lose: "lp_status lock = LockStatus_Held \<Longrightarrow>
    lock_moves lock (resolve_lock LockStatus_LeaseLost at lock)"
| expire: "lp_status lock = LockStatus_Waiting \<Longrightarrow> lp_deadline lock \<le> at \<Longrightarrow>
    lock_moves lock (resolve_lock LockStatus_AcquireTimedOut at lock)"
| abandon: "lp_status lock = LockStatus_Waiting \<Longrightarrow>
    lock_moves lock (resolve_lock LockStatus_AcquisitionCancelled at lock)"

inductive_cases lock_movesE: "lock_moves lock lock'"

section \<open>Contracts of the accepted lock events\<close>

lemma lock_registration_contract:
  assumes "validate_event E e = Inr ()" "ev_payload e = LockWaitRegistered d"
  shows "valid_lock_key (lwr_key d)" "lwr_waiter_sequence d \<noteq> 0" "lwr_registered_at d \<le> lwr_deadline d"
  using assms(1) by (elim validate_event_ownedE; use assms(2) in
      \<open>auto simp: validate_lock_wait_registered_def ok_simps\<close>)+

lemma lock_acquisition_contract:
  assumes "validate_event E e = Inr ()" "ev_payload e = LockAcquired d"
  shows "valid_prefixed_id (lacq_lease_id d) ''lease_'' 7" "valid_fencing_token (lacq_fencing_token d)"
    "lacq_acquired_at d < lacq_expires_at d"
  using assms(1) by (elim validate_event_ownedE; use assms(2) in
      \<open>auto simp: validate_lock_acquired_def ok_simps\<close>)+

lemma lock_timeout_contract:
  assumes "validate_event E e = Inr ()" "ev_payload e = LockAcquireTimedOut d"
  shows "lato_deadline d \<le> lato_resolved_at d"
  using assms(1) by (elim validate_event_ownedE; use assms(2) in
      \<open>auto simp: validate_lock_acquire_timed_out_def ok_simps\<close>)+

section \<open>The fold implements the cycle\<close>

interpretation lock: keyed_lifecycle E Owner_Locks p_locks lock_fresh lock_moves for E
proof unfold_locales
  fix state e q ix
  assume valid: "validate_event E e = Inr ()" and "apply_transition E state e = Inr (q, ix)"
    and "event_owner e = Owner_Locks"
  from this(2,3) show "object_step lock_fresh lock_moves (p_locks (fs_projection state)) (p_locks q)"
  proof (cases rule: locks_transitionE)
    case (LockWaitRegistered data)
    then show ?thesis
      using lock_registration_contract [OF valid LockWaitRegistered(1)]
      by (auto simp: apply_lock_wait_registered_def ok_simps lock_fresh_def waiting_lock_def
          intro!: object_step_insert)
  next
    case (LockAcquired data)
    then show ?thesis
      using lock_acquisition_contract [OF valid LockAcquired(1)]
      by (auto simp: apply_lock_acquired_def ok_simps intro!: object_step_move acquire)
  next
    case (LockAcquireTimedOut data)
    then show ?thesis
      using lock_timeout_contract [OF valid LockAcquireTimedOut(1)]
      by (auto simp: apply_lock_acquire_timed_out_def ok_simps intro!: object_step_move expire)
  qed (auto simp: fold_locks_defs ok_simps holds_lease_def intro!: object_step_move intro: lock_moves.intros)
qed (simp_all add: empty_projection_def transition_frame)

section \<open>What the cycle guarantees\<close>

definition lock_evidence :: "string \<Rightarrow> lock_projection \<Rightarrow> bool" where
  "lock_evidence k lock \<longleftrightarrow>
    lp_lock_id lock = k \<and> valid_lock_key (lp_key lock) \<and> lp_waiter_sequence lock \<noteq> 0
    \<and> (lp_resolved_at lock = None \<longleftrightarrow> lp_status lock \<in> {LockStatus_Waiting, LockStatus_Held})
    \<and> (if lp_status lock \<in> {LockStatus_Held, LockStatus_Released, LockStatus_LeaseLost}
       then (\<exists>lease token at until. lp_lease_id lock = Some lease \<and> valid_prefixed_id lease ''lease_'' 7
         \<and> lp_fencing_token lock = Some token \<and> valid_fencing_token token
         \<and> lp_acquired_at lock = Some at \<and> lp_expires_at lock = Some until \<and> at < until)
       else lp_lease_id lock = None \<and> lp_fencing_token lock = None
         \<and> lp_acquired_at lock = None \<and> lp_expires_at lock = None)
    \<and> (lp_status lock = LockStatus_AcquireTimedOut \<longrightarrow> (\<exists>at. lp_resolved_at lock = Some at \<and> lp_deadline lock \<le> at))"

lemma lock_fresh_evidence: "lock_fresh k lock \<Longrightarrow> lock_evidence k lock"
  by (auto simp: lock_fresh_def lock_evidence_def)

lemma lock_moves_evidence: "lock_moves lock lock' \<Longrightarrow> lock_evidence k lock \<Longrightarrow> lock_evidence k lock'"
  by (induction rule: lock_moves.induct) (auto simp: lock_evidence_def acquired_lock_def resolve_lock_def)

definition lock_settled :: "lock_projection \<Rightarrow> bool" where
  "lock_settled lock \<longleftrightarrow> lp_status lock \<notin> {LockStatus_Waiting, LockStatus_Held}"

lemma settled_lock_stays: "lock_moves\<^sup>*\<^sup>* lock lock' \<Longrightarrow> lock_settled lock \<Longrightarrow> lock' = lock"
  by (induction rule: rtranclp_induct) (auto simp: lock_settled_def elim: lock_movesE)

definition same_waiter :: "lock_projection \<Rightarrow> lock_projection \<Rightarrow> bool" where
  "same_waiter lock lock' \<longleftrightarrow>
    lp_lock_id lock' = lp_lock_id lock \<and> lp_key lock' = lp_key lock
    \<and> lp_waiter_sequence lock' = lp_waiter_sequence lock
    \<and> lp_execution_identity lock' = lp_execution_identity lock
    \<and> lp_registered_at lock' = lp_registered_at lock \<and> lp_deadline lock' = lp_deadline lock"

lemma waiter_stays: "lock_moves\<^sup>*\<^sup>* lock lock' \<Longrightarrow> same_waiter lock lock'"
  by (induction rule: rtranclp_induct)
    (auto simp: same_waiter_def acquired_lock_def resolve_lock_def elim: lock_movesE)

lemma held_lease_stays:
  assumes "lock_moves\<^sup>*\<^sup>* lock lock'" "lp_status lock = LockStatus_Held"
  shows "lp_lease_id lock' = lp_lease_id lock \<and> lp_fencing_token lock' = lp_fencing_token lock
    \<and> lp_status lock' \<in> {LockStatus_Held, LockStatus_Released, LockStatus_LeaseLost}"
  using assms by (induction rule: rtranclp_induct) (auto simp: resolve_lock_def elim: lock_movesE)

end
