(* ===== verification/Wait_Lifecycle.thy ===== *)
theory Wait_Lifecycle
  imports Keyed_Lifecycle
begin

text \<open>
  The life cycle of a durable wait: a registered wait is satisfied by its timer or by a
  signal, times out or is cancelled, once.  A signal that satisfied a wait is on record,
  and no signal is recorded twice.
\<close>

section \<open>Specification\<close>

definition wait_fresh :: "string \<Rightarrow> durable_wait_projection \<Rightarrow> bool" where
  "wait_fresh k wait \<longleftrightarrow>
    dwp_wait_id wait = k \<and> dwp_node_id wait = k \<and> dwp_status wait = DurableWaitStatus_Registered
    \<and> dwp_resolved_at wait = None
    \<and> (if dwp_kind wait = DurableWaitKind_Signal
       then dwp_signals wait \<noteq> [] \<and> distinct (dwp_signals wait) \<and> length (dwp_signals wait) \<le> 16
       else dwp_signals wait = [] \<and> dwp_deadline wait \<noteq> None)"

definition resolve_wait ::
  "durable_wait_status \<Rightarrow> instant \<Rightarrow> durable_wait_projection \<Rightarrow> durable_wait_projection" where
  "resolve_wait status at wait = wait\<lparr>dwp_status := status, dwp_resolved_at := Some at\<rparr>"

inductive wait_moves :: "durable_wait_projection \<Rightarrow> durable_wait_projection \<Rightarrow> bool" where
  elapse: "dwp_status wait = DurableWaitStatus_Registered \<Longrightarrow> dwp_kind wait \<noteq> DurableWaitKind_Signal \<Longrightarrow>
    dwp_deadline wait = Some d \<Longrightarrow> d \<le> at \<Longrightarrow>
    wait_moves wait (resolve_wait (DurableWaitStatus_Satisfied DurableWaitWinner_Timer) at wait)"
| signal: "dwp_status wait = DurableWaitStatus_Registered \<Longrightarrow>
    wait_moves wait (resolve_wait (DurableWaitStatus_Satisfied DurableWaitWinner_Signal) at wait)"
| expire: "dwp_status wait = DurableWaitStatus_Registered \<Longrightarrow> dwp_kind wait = DurableWaitKind_Signal \<Longrightarrow>
    dwp_deadline wait = Some d \<Longrightarrow> d \<le> at \<Longrightarrow>
    wait_moves wait (resolve_wait (DurableWaitStatus_TimedOut behavior) at wait)"
| abandon: "dwp_status wait = DurableWaitStatus_Registered \<Longrightarrow>
    wait_moves wait (resolve_wait DurableWaitStatus_Cancelled at wait)"

inductive_cases wait_movesE: "wait_moves wait wait'"

section \<open>Contracts of the accepted wait events\<close>

lemma wait_registration_contract:
  assumes "validate_event E e = Inr ()" "ev_payload e = WaitRegistered d"
  shows "wait_fresh (wr_wait_id d) (registered_wait d)"
  using assms(1) by (elim validate_event_ownedE; use assms(2) in
      \<open>auto simp: validate_wait_registered_def ok_simps wait_fresh_def registered_wait_def
        wait_shape_valid_def is_some_and_iff split: durable_wait_kind.splits option.splits\<close>)

lemma wait_timeout_contract:
  assumes "validate_event E e = Inr ()" "ev_payload e = WaitTimedOut d"
  shows "wto_deadline d \<le> wto_resolved_at d"
  using assms(1) by (elim validate_event_ownedE; use assms(2) in
      \<open>auto simp: validate_wait_timed_out_def ok_simps\<close>)

section \<open>The fold implements the cycle\<close>

lemma satisfied_moves:
  assumes "dwp_status wait = DurableWaitStatus_Registered" "wait_winner_proven p wait data"
  shows "wait_moves wait (resolve_wait (DurableWaitStatus_Satisfied (ws_winner data)) (ws_resolved_at data) wait)"
  using assms by (cases "ws_winner data")
    (auto simp: wait_winner_proven_def is_none_or_iff not_less intro: wait_moves.intros)

interpretation wait: keyed_lifecycle E Owner_Waits p_durable_waits wait_fresh wait_moves for E
proof unfold_locales
  fix state e q ix
  assume valid: "validate_event E e = Inr ()" and "apply_transition E state e = Inr (q, ix)"
    and "event_owner e = Owner_Waits"
  from this(2,3)
  show "object_step wait_fresh wait_moves (p_durable_waits (fs_projection state)) (p_durable_waits q)"
  proof (cases rule: waits_transitionE)
    case (WaitRegistered data)
    then show ?thesis
      using wait_registration_contract [OF valid WaitRegistered(1)]
      by (auto simp: apply_wait_registered_def ok_simps intro!: object_step_insert)
  next
    case (ExternalSignalReceived data)
    then show ?thesis
      by (auto simp: apply_external_signal_received_def ok_simps intro!: object_step_refl)
  next
    case (WaitSatisfied data)
    then show ?thesis
      by (auto simp: apply_wait_satisfied_def ok_simps
          intro!: object_step_move satisfied_moves [unfolded resolve_wait_def])
  next
    case (WaitTimedOut data)
    then show ?thesis
      using wait_timeout_contract [OF valid WaitTimedOut(1)]
      by (auto simp: apply_wait_timed_out_def ok_simps
          intro!: object_step_move expire [unfolded resolve_wait_def])
  next
    case (WaitCancelled data)
    then show ?thesis
      by (auto simp: apply_wait_cancelled_def ok_simps
          intro!: object_step_move abandon [unfolded resolve_wait_def])
  qed
qed (simp_all add: empty_projection_def transition_frame)

section \<open>What the cycle guarantees\<close>

lemma resolved_wait_stays:
  "wait_moves\<^sup>*\<^sup>* wait wait' \<Longrightarrow> dwp_status wait \<noteq> DurableWaitStatus_Registered \<Longrightarrow> wait' = wait"
  by (induction rule: rtranclp_induct) (auto elim: wait_movesE)

definition wait_identity :: "durable_wait_projection \<Rightarrow>
    string \<times> string \<times> durable_wait_kind \<times> instant \<times> instant option \<times> string list \<times> string option" where
  "wait_identity wait =
    (dwp_wait_id wait, dwp_node_id wait, dwp_kind wait, dwp_registered_at wait, dwp_deadline wait,
     dwp_signals wait, dwp_correlation_digest wait)"

lemma wait_identity_stays: "wait_moves\<^sup>*\<^sup>* wait wait' \<Longrightarrow> wait_identity wait' = wait_identity wait"
  by (induction rule: rtranclp_induct) (auto simp: resolve_wait_def wait_identity_def elim!: wait_movesE)

section \<open>Signals\<close>

definition wait_evidence ::
  "external_signal_received_data list \<Rightarrow> string \<Rightarrow> durable_wait_projection \<Rightarrow> bool" where
  "wait_evidence signals k wait \<longleftrightarrow>
    dwp_wait_id wait = k
    \<and> (dwp_kind wait \<noteq> DurableWaitKind_Signal \<longrightarrow> dwp_signals wait = [])
    \<and> (case dwp_status wait of
         DurableWaitStatus_Registered \<Rightarrow> dwp_resolved_at wait = None
       | DurableWaitStatus_Satisfied DurableWaitWinner_Timer \<Rightarrow> dwp_kind wait \<noteq> DurableWaitKind_Signal
           \<and> (\<exists>d at. dwp_deadline wait = Some d \<and> dwp_resolved_at wait = Some at \<and> d \<le> at)
       | DurableWaitStatus_Satisfied DurableWaitWinner_Signal \<Rightarrow> dwp_kind wait = DurableWaitKind_Signal
           \<and> (\<exists>s at. s \<in> set signals \<and> esr_wait_id s = k \<and> esr_signal s \<in> set (dwp_signals wait)
               \<and> dwp_resolved_at wait = Some at \<and> esr_received_at s \<le> at)
       | DurableWaitStatus_TimedOut _ \<Rightarrow> dwp_kind wait = DurableWaitKind_Signal
           \<and> (\<exists>d at. dwp_deadline wait = Some d \<and> dwp_resolved_at wait = Some at \<and> d \<le> at)
       | DurableWaitStatus_Cancelled \<Rightarrow> dwp_resolved_at wait \<noteq> None)"

definition waits_sound :: "run_projection \<Rightarrow> bool" where
  "waits_sound p \<longleftrightarrow>
    (\<forall>k wait. bt_get (p_durable_waits p) k = Some wait \<longrightarrow> wait_evidence (p_external_signals p) k wait)
    \<and> (\<forall>s \<in> set (p_external_signals p). \<exists>wait. bt_get (p_durable_waits p) (esr_wait_id s) = Some wait
        \<and> esr_signal s \<in> set (dwp_signals wait))
    \<and> distinct (map esr_signal_id (p_external_signals p))
    \<and> distinct (map esr_idempotency_digest (p_external_signals p))"

lemma wait_evidence_more:
  "wait_evidence signals k wait \<Longrightarrow> set signals \<subseteq> set signals' \<Longrightarrow> wait_evidence signals' k wait"
  by (auto simp: wait_evidence_def split: durable_wait_status.splits durable_wait_winner.splits)

lemma waits_soundD:
  "waits_sound p \<Longrightarrow> bt_get (p_durable_waits p) k = Some wait \<Longrightarrow> wait_evidence (p_external_signals p) k wait"
  by (simp add: waits_sound_def)

lemma waits_sound_replace:
  assumes "waits_sound p" "wait_evidence (p_external_signals p) k wait'"
    and "p_durable_waits q = bt_insert k wait' (p_durable_waits p)" "p_external_signals q = p_external_signals p"
    and "\<And>wait. bt_get (p_durable_waits p) k = Some wait \<Longrightarrow> dwp_signals wait' = dwp_signals wait"
  shows "waits_sound q"
  using assms by (fastforce simp: waits_sound_def)

lemma signal_sound:
  assumes "waits_sound p" "apply_external_signal_received p data = Inr q"
  shows "waits_sound q"
proof -
  have fields: "p_durable_waits q = p_durable_waits p" "p_external_signals q = p_external_signals p @ [data]"
    and wait: "\<exists>wait. bt_get (p_durable_waits p) (esr_wait_id data) = Some wait
      \<and> esr_signal data \<in> set (dwp_signals wait)"
    and new: "esr_signal_id data \<notin> esr_signal_id ` set (p_external_signals p)"
      "esr_idempotency_digest data \<notin> esr_idempotency_digest ` set (p_external_signals p)"
    using assms(2) by (auto simp: apply_external_signal_received_def ok_simps list_ex_iff)
  have "wait_evidence (p_external_signals p @ [data]) k wait"
    if "bt_get (p_durable_waits p) k = Some wait" for k wait
    using waits_soundD [OF assms(1) that] by (rule wait_evidence_more) auto
  then show ?thesis
    using assms(1) wait new unfolding waits_sound_def fields by simp
qed

lemma satisfied_evidence:
  assumes "waits_sound p" "bt_get (p_durable_waits p) (ws_wait_id data) = Some wait"
    and "dwp_status wait = DurableWaitStatus_Registered" "wait_winner_proven p wait data"
  shows "wait_evidence (p_external_signals p) (ws_wait_id data)
    (resolve_wait (DurableWaitStatus_Satisfied (ws_winner data)) (ws_resolved_at data) wait)"
proof -
  have base: "wait_evidence (p_external_signals p) (ws_wait_id data) wait"
    using assms(1,2) by (auto simp: waits_sound_def)
  show ?thesis
  proof (cases "ws_winner data")
    case DurableWaitWinner_Timer
    then show ?thesis
      using base assms(3,4)
      by (auto simp: wait_winner_proven_def wait_evidence_def resolve_wait_def is_none_or_iff not_less)
  next
    case DurableWaitWinner_Signal
    then obtain s where s: "s \<in> set (p_external_signals p)" "esr_wait_id s = ws_wait_id data"
      "esr_received_at s \<le> ws_resolved_at data"
      using assms(4) by (auto simp: wait_winner_proven_def list_ex_iff)
    then have "esr_signal s \<in> set (dwp_signals wait)"
      using assms(1,2) by (auto simp: waits_sound_def)
    then show ?thesis
      using base assms(3) DurableWaitWinner_Signal s by (auto simp: wait_evidence_def resolve_wait_def)
  qed
qed

lemma fresh_evidence: "wait_fresh k wait \<Longrightarrow> wait_evidence signals k wait"
  by (auto simp: wait_fresh_def wait_evidence_def split: if_splits)

interpretation wait_record: projection_invariant E "\<lambda>p _. waits_sound p" for E
proof unfold_locales
  fix state e q and ix :: attempt_indexes
  assume gate: "gate_open E state e" and inv: "waits_sound (fs_projection state)"
    and step: "apply_transition E state e = Inr (q, ix)"
  have valid: "validate_event E e = Inr ()" using gate by (simp add: gate_open_def)
  show "waits_sound q"
  proof (cases "event_owner e = Owner_Waits")
    case False
    then show ?thesis using inv by (simp add: waits_sound_def transition_frame [OF step])
  next
    case True
    from step True show ?thesis
    proof (cases rule: waits_transitionE)
      case (WaitRegistered data)
      then show ?thesis
        using fresh_evidence [OF wait_registration_contract [OF valid WaitRegistered(1)]]
        by (intro waits_sound_replace [OF inv])
          (auto simp: apply_wait_registered_def ok_simps bt_contains_def)
    next
      case (ExternalSignalReceived data)
      then show ?thesis using signal_sound [OF inv] by simp
    next
      case (WaitSatisfied data)
      then obtain wait where "bt_get (p_durable_waits (fs_projection state)) (ws_wait_id data) = Some wait"
        "dwp_status wait = DurableWaitStatus_Registered" "wait_winner_proven (fs_projection state) wait data"
        and "p_durable_waits q = bt_insert (ws_wait_id data)
          (resolve_wait (DurableWaitStatus_Satisfied (ws_winner data)) (ws_resolved_at data) wait)
          (p_durable_waits (fs_projection state))"
          "p_external_signals q = p_external_signals (fs_projection state)"
        by (auto simp: apply_wait_satisfied_def ok_simps resolve_wait_def)
      then show ?thesis
        using satisfied_evidence [OF inv] by (intro waits_sound_replace [OF inv]) (auto simp: resolve_wait_def)
    next
      case (WaitTimedOut data)
      then obtain wait where "bt_get (p_durable_waits (fs_projection state)) (wto_wait_id data) = Some wait"
        "dwp_kind wait = DurableWaitKind_Signal" "dwp_deadline wait = Some (wto_deadline data)"
        and fields: "p_durable_waits q = bt_insert (wto_wait_id data)
          (resolve_wait (DurableWaitStatus_TimedOut (wto_behavior data)) (wto_resolved_at data) wait)
          (p_durable_waits (fs_projection state))"
          "p_external_signals q = p_external_signals (fs_projection state)"
        by (auto simp: apply_wait_timed_out_def ok_simps resolve_wait_def)
      moreover from this have "wait_evidence (p_external_signals (fs_projection state)) (wto_wait_id data)
          (resolve_wait (DurableWaitStatus_TimedOut (wto_behavior data)) (wto_resolved_at data) wait)"
        using waits_soundD [OF inv] wait_timeout_contract [OF valid WaitTimedOut(1)]
        by (simp add: wait_evidence_def resolve_wait_def)
      ultimately show ?thesis
        by (intro waits_sound_replace [OF inv]) (auto simp: resolve_wait_def)
    next
      case (WaitCancelled data)
      then obtain wait where "bt_get (p_durable_waits (fs_projection state)) (wc_wait_id data) = Some wait"
        and fields: "p_durable_waits q = bt_insert (wc_wait_id data)
          (resolve_wait DurableWaitStatus_Cancelled (wc_cancelled_at data) wait)
          (p_durable_waits (fs_projection state))"
          "p_external_signals q = p_external_signals (fs_projection state)"
        by (auto simp: apply_wait_cancelled_def ok_simps resolve_wait_def)
      moreover from this have "wait_evidence (p_external_signals (fs_projection state)) (wc_wait_id data)
          (resolve_wait DurableWaitStatus_Cancelled (wc_cancelled_at data) wait)"
        using waits_soundD [OF inv] by (simp add: wait_evidence_def resolve_wait_def)
      ultimately show ?thesis
        by (intro waits_sound_replace [OF inv]) (auto simp: resolve_wait_def)
    qed
  qed
qed (simp_all add: waits_sound_def empty_projection_def)

end
