(* ===== verification/Saga_Lifecycle.thy ===== *)
theory Saga_Lifecycle
  imports Keyed_Lifecycle
begin

text \<open>
  The life cycle of a saga: forward work registers compensations, then the saga corrects
  by attempts of its actions, one at a time, until the correction completes.
\<close>

section \<open>Specification\<close>

definition saga_fresh :: "string \<Rightarrow> saga_projection \<Rightarrow> bool" where
  "saga_fresh k saga \<longleftrightarrow>
    sp_saga_id saga = k \<and> sp_phase saga = SagaPhase_Forward \<and> sp_reason saga = None
    \<and> sp_forward_succeeded_sequence saga = None \<and> sp_correction_completed_sequence saga = None
    \<and> sp_actions saga = bt_empty"

definition action_active :: "correction_action_projection \<Rightarrow> bool" where
  "action_active action \<longleftrightarrow> cap_status action = CorrectionActionStatus_Started"

definition no_active_action :: "saga_projection \<Rightarrow> bool" where
  "no_active_action saga \<longleftrightarrow> \<not> list_ex action_active (bt_values (sp_actions saga))"

definition set_action ::
  "string \<Rightarrow> correction_action_projection \<Rightarrow> saga_projection \<Rightarrow> saga_projection" where
  "set_action k action saga = saga\<lparr>sp_actions := bt_insert k action (sp_actions saga)\<rparr>"

definition action_at ::
  "saga_projection \<Rightarrow> string \<Rightarrow> correction_action_projection \<Rightarrow> bool" where
  "action_at saga k action \<longleftrightarrow> bt_get (sp_actions saga) k = Some action"

definition begin_attempt :: "correction_action_projection \<Rightarrow> correction_action_projection" where
  "begin_attempt action = action\<lparr>cap_attempts := cap_attempts action + 1,
     cap_active_attempt := Some (cap_attempts action + 1), cap_retry_at := None,
     cap_status := CorrectionActionStatus_Started\<rparr>"

inductive saga_moves :: "saga_projection \<Rightarrow> saga_projection \<Rightarrow> bool" where
  register: "sp_phase saga = SagaPhase_Forward \<Longrightarrow> bt_get (sp_actions saga) k = None \<Longrightarrow>
    saga_moves saga (set_action k (registered_action k kind step sequence) saga)"
| succeed: "sp_phase saga = SagaPhase_Forward \<Longrightarrow>
    saga_moves saga (saga\<lparr>sp_phase := SagaPhase_ForwardSucceeded,
      sp_forward_succeeded_sequence := Some sequence\<rparr>)"
| correct: "sp_phase saga = (if reason = SagaCorrectionReason_Success
      then SagaPhase_ForwardSucceeded else SagaPhase_Forward) \<Longrightarrow>
    saga_moves saga (saga\<lparr>sp_phase := SagaPhase_Correcting, sp_reason := Some reason\<rparr>)"
| attempt: "in_correction saga \<Longrightarrow> no_active_action saga \<Longrightarrow>
    action_at saga k action \<or> bt_get (sp_actions saga) k = None \<and> action = registered_action k kind None None \<Longrightarrow>
    cap_status action \<in> {CorrectionActionStatus_Registered, CorrectionActionStatus_RetryScheduled} \<Longrightarrow>
    cap_attempts action + 1 \<le> 10 \<Longrightarrow>
    saga_moves saga (set_action k (begin_attempt action) saga)"
| attempt_succeeded: "action_at saga k action \<Longrightarrow> action_active action \<Longrightarrow>
    saga_moves saga (set_action k (action\<lparr>cap_status := CorrectionActionStatus_Succeeded,
      cap_active_attempt := None\<rparr>) saga)"
| attempt_failed: "action_at saga k action \<Longrightarrow> action_active action \<Longrightarrow>
    saga_moves saga (set_action k (action\<lparr>cap_status := CorrectionActionStatus_Failed,
      cap_active_attempt := None, cap_failure_code := Some code, cap_ambiguous := ambiguous\<rparr>) saga)"
| attempt_interrupted: "action_at saga k action \<Longrightarrow> action_active action \<Longrightarrow>
    saga_moves saga (set_action k (action\<lparr>cap_status := CorrectionActionStatus_Interrupted,
      cap_active_attempt := None, cap_ambiguous := ambiguous\<rparr>) saga)"
| reschedule: "action_at saga k action \<Longrightarrow> sp_phase saga = SagaPhase_Correcting \<Longrightarrow>
    cap_status action = CorrectionActionStatus_Failed \<Longrightarrow> \<not> cap_ambiguous action \<Longrightarrow>
    saga_moves saga (set_action k (action\<lparr>cap_status := CorrectionActionStatus_RetryScheduled,
      cap_retry_at := Some at\<rparr>) saga)"
| operator_retry: "action_at saga k action \<Longrightarrow> sp_phase saga = SagaPhase_ManualRecovery \<Longrightarrow>
    cap_status action = CorrectionActionStatus_ManualRecovery \<Longrightarrow>
    saga_moves saga (set_action k (action\<lparr>cap_ambiguous := False, cap_failure_code := None,
      cap_status := CorrectionActionStatus_RetryScheduled, cap_retry_at := Some at\<rparr>)
      (saga\<lparr>sp_phase := SagaPhase_Correcting\<rparr>))"
| escalate: "action_at saga k action \<Longrightarrow> cap_ambiguous action \<Longrightarrow>
    cap_status action \<in> {CorrectionActionStatus_Failed, CorrectionActionStatus_Interrupted} \<Longrightarrow>
    saga_moves saga ((set_action k (action\<lparr>cap_status := CorrectionActionStatus_ManualRecovery,
      cap_failure_code := Some code\<rparr>) saga)\<lparr>sp_phase := SagaPhase_ManualRecovery\<rparr>)"
| complete: "in_correction saga \<Longrightarrow> \<not> corrective_work_pending saga \<Longrightarrow>
    saga_moves saga (saga\<lparr>sp_phase := SagaPhase_CorrectionCompleted,
      sp_correction_completed_sequence := Some sequence\<rparr>)"

section \<open>The fold implements the cycle\<close>

lemma correction_attempt_contract:
  assumes "validate_event E e = Inr ()" "ev_payload e = CorrectionAttemptStarted d"
  shows "cai_attempt d \<le> 10"
  using assms(1) by (elim validate_event_ownedE; use assms(2) in
      \<open>auto simp: validate_correction_attempt_def valid_correction_attempt_def ok_simps\<close>)

lemma attempt_step:
  assumes "apply_correction_attempt_started p e data = Inr q" "cai_attempt data \<le> 10"
  shows "object_step saga_fresh saga_moves (p_sagas p) (p_sagas q)"
proof -
  obtain saga where saga: "bt_get (p_sagas p) (cai_saga_id data) = Some saga"
    using assms(1) by (auto simp: apply_correction_attempt_started_def ok_simps)
  define action where "action = (case bt_get (sp_actions saga) (cai_action_id data) of
      Some action \<Rightarrow> action
    | None \<Rightarrow> registered_action (cai_action_id data) (cai_action_kind data) None None)"
  then have known: "action_at saga (cai_action_id data) action
      \<or> bt_get (sp_actions saga) (cai_action_id data) = None
        \<and> action = registered_action (cai_action_id data) (cai_action_kind data) None None"
    by (simp add: action_at_def split: option.splits)
  have "in_correction saga" "no_active_action saga"
    and status: "cap_status action \<in> {CorrectionActionStatus_Registered, CorrectionActionStatus_RetryScheduled}"
    and number: "cai_attempt data = cap_attempts action + 1"
    and q: "p_sagas q = bt_insert (cai_saga_id data)
      (set_action (cai_action_id data) (begin_attempt action) saga) (p_sagas p)"
    using assms(1) saga
    by (auto simp: apply_correction_attempt_started_def ok_simps Let_def no_active_action_def
        action_active_def [abs_def] set_action_def begin_attempt_def simp flip: action_def)
  then have "saga_moves saga (set_action (cai_action_id data) (begin_attempt action) saga)"
    using assms(2) known by (intro attempt) auto
  then show ?thesis unfolding q by (rule object_step_move [where moves = saga_moves, OF saga])
qed

lemma retry_step:
  assumes "apply_correction_retry_scheduled p data = Inr q"
  shows "object_step saga_fresh saga_moves (p_sagas p) (p_sagas q)"
proof -
  obtain saga action where saga: "bt_get (p_sagas p) (crs_saga_id data) = Some saga"
    and action: "action_at saga (crs_action_id data) action"
    using assms by (auto simp: apply_correction_retry_scheduled_def ok_simps action_at_def)
  consider "sp_phase saga = SagaPhase_Correcting" "cap_status action = CorrectionActionStatus_Failed"
      "\<not> cap_ambiguous action"
    | "sp_phase saga = SagaPhase_ManualRecovery" "cap_status action = CorrectionActionStatus_ManualRecovery"
      "cap_ambiguous action"
    using assms saga action
    by (auto simp: apply_correction_retry_scheduled_def ok_simps action_at_def Let_def split: if_splits)
  then show ?thesis
  proof cases
    case 1
    then show ?thesis
      using assms saga action reschedule [OF action 1, of "crs_retry_at data"]
      by (auto simp: apply_correction_retry_scheduled_def ok_simps action_at_def Let_def set_action_def
          intro!: object_step_move split: if_splits)
  next
    case 2
    then show ?thesis
      using assms saga action operator_retry [OF action 2(1,2), of "crs_retry_at data"]
      by (auto simp: apply_correction_retry_scheduled_def ok_simps action_at_def Let_def set_action_def
          intro!: object_step_move split: if_splits)
  qed
qed

lemmas move_rules =
  saga_moves.intros [unfolded action_at_def action_active_def set_action_def]

interpretation saga: keyed_lifecycle E Owner_Sagas p_sagas saga_fresh saga_moves for E
proof unfold_locales
  fix state e q ix
  assume valid: "validate_event E e = Inr ()" and "apply_transition E state e = Inr (q, ix)"
    and "event_owner e = Owner_Sagas"
  from this(2,3) show "object_step saga_fresh saga_moves (p_sagas (fs_projection state)) (p_sagas q)"
  proof (cases rule: sagas_transitionE)
    case (SagaStarted data)
    then show ?thesis
      by (auto simp: apply_saga_started_def ok_simps saga_fresh_def intro!: object_step_insert)
  next
    case (CompensationRegistered data)
    then show ?thesis
      by (auto simp: apply_compensation_registered_def ok_simps bt_contains_def
          intro!: object_step_move move_rules)
  next
    case (SagaForwardSucceeded data)
    then show ?thesis
      by (auto simp: apply_saga_forward_succeeded_def ok_simps intro!: object_step_move succeed)
  next
    case (SagaCorrectionStarted data)
    then show ?thesis
      by (auto simp: apply_saga_correction_started_def ok_simps split: saga_correction_reason.splits
          intro!: object_step_move correct)
  next
    case (CorrectionAttemptStarted data)
    then show ?thesis using attempt_step correction_attempt_contract [OF valid] by blast
  next
    case (CorrectionAttemptSucceeded data)
    then show ?thesis
      by (auto simp: apply_correction_attempt_succeeded_def ok_simps closes_active_attempt_def
          intro!: object_step_move move_rules)
  next
    case (CorrectionAttemptFailed data)
    then show ?thesis
      by (auto simp: apply_correction_attempt_failed_def ok_simps closes_active_attempt_def
          intro!: object_step_move move_rules)
  next
    case (CorrectionRetryScheduled data)
    then show ?thesis using retry_step by blast
  next
    case (CorrectionInterrupted data)
    then show ?thesis
      by (auto simp: apply_correction_interrupted_def ok_simps closes_active_attempt_def
          intro!: object_step_move move_rules)
  next
    case (ManualRecoveryRequired data)
    then show ?thesis
      by (auto simp: apply_manual_recovery_required_def ok_simps
          intro!: object_step_move move_rules)
  next
    case (SagaCorrectionCompleted data)
    then show ?thesis
      by (auto simp: apply_saga_correction_completed_def ok_simps intro!: object_step_move complete)
  qed
qed (simp_all add: empty_projection_def transition_frame)

section \<open>What the cycle guarantees\<close>

definition action_sound :: "string \<Rightarrow> correction_action_projection \<Rightarrow> bool" where
  "action_sound k action \<longleftrightarrow>
    cap_action_id action = k \<and> cap_attempts action \<le> 10
    \<and> (cap_active_attempt action = (if action_active action then Some (cap_attempts action) else None))
    \<and> (cap_retry_at action \<noteq> None \<longrightarrow> cap_status action = CorrectionActionStatus_RetryScheduled)
    \<and> (cap_status action \<noteq> CorrectionActionStatus_Registered \<longrightarrow> 0 < cap_attempts action)"

definition actions_sound :: "saga_projection \<Rightarrow> bool" where
  "actions_sound saga \<longleftrightarrow>
    (\<forall>a action. action_at saga a action \<longrightarrow> action_sound a action)
    \<and> (\<forall>a b x y. action_at saga a x \<and> action_at saga b y \<and> action_active x \<and> action_active y \<longrightarrow> a = b)"

definition phase_sound :: "saga_projection \<Rightarrow> bool" where
  "phase_sound saga \<longleftrightarrow>
    (sp_reason saga = None \<longleftrightarrow> sp_phase saga \<in> {SagaPhase_Forward, SagaPhase_ForwardSucceeded})
    \<and> (sp_reason saga = None \<longrightarrow>
        (\<forall>a action. action_at saga a action \<longrightarrow> cap_status action = CorrectionActionStatus_Registered))
    \<and> (sp_reason saga = Some SagaCorrectionReason_Success \<or> sp_phase saga = SagaPhase_ForwardSucceeded \<longrightarrow>
        sp_forward_succeeded_sequence saga \<noteq> None)
    \<and> (sp_phase saga = SagaPhase_CorrectionCompleted \<longrightarrow>
        sp_correction_completed_sequence saga \<noteq> None \<and> no_active_action saga)"

definition saga_sound :: "string \<Rightarrow> saga_projection \<Rightarrow> bool" where
  "saga_sound k saga \<longleftrightarrow> sp_saga_id saga = k \<and> actions_sound saga \<and> phase_sound saga"

lemmas saga_sound_defs = saga_sound_def actions_sound_def phase_sound_def

lemma action_at_set [simp]:
  "action_at (set_action k action saga) a x \<longleftrightarrow> (if a = k then x = action else action_at saga a x)"
  by (auto simp: action_at_def set_action_def)

lemma set_action_fields [simp]:
  "sp_saga_id (set_action k action saga) = sp_saga_id saga"
  "sp_phase (set_action k action saga) = sp_phase saga"
  "sp_reason (set_action k action saga) = sp_reason saga"
  "sp_forward_succeeded_sequence (set_action k action saga) = sp_forward_succeeded_sequence saga"
  "sp_correction_completed_sequence (set_action k action saga) = sp_correction_completed_sequence saga"
  by (simp_all add: set_action_def)

lemma action_at_update [simp]:
  "action_at (saga\<lparr>sp_phase := phase\<rparr>) = action_at saga"
  "action_at (saga\<lparr>sp_reason := reason\<rparr>) = action_at saga"
  "action_at (saga\<lparr>sp_forward_succeeded_sequence := n\<rparr>) = action_at saga"
  "action_at (saga\<lparr>sp_correction_completed_sequence := n\<rparr>) = action_at saga"
  by (simp_all add: action_at_def fun_eq_iff)

lemma no_active_action_iff: "no_active_action saga \<longleftrightarrow> (\<forall>k action. action_at saga k action \<longrightarrow> \<not> action_active action)"
  by (auto simp: no_active_action_def list_ex_iff in_bt_values_iff action_at_def)

lemma saga_fresh_sound: "saga_fresh k saga \<Longrightarrow> saga_sound k saga"
  by (simp add: saga_fresh_def saga_sound_defs action_at_def no_active_action_iff)

lemma completed_no_active: "\<not> corrective_work_pending saga \<Longrightarrow> no_active_action saga"
  by (auto simp: corrective_work_pending_def no_active_action_def action_active_def list_ex_iff)

lemma next_attempt: "(n :: u32) \<le> 10 \<Longrightarrow> 0 < n + 1"
  by (simp add: word_le_nat_alt word_less_nat_alt unat_word_ariths)

lemma actions_sound_set:
  assumes "actions_sound saga" "action_sound a action"
    and "action_active action \<Longrightarrow> no_active_action saga"
  shows "actions_sound (set_action a action saga)"
  using assms unfolding actions_sound_def no_active_action_iff action_at_set by metis

lemma actions_soundD: "actions_sound saga \<Longrightarrow> action_at saga a action \<Longrightarrow> action_sound a action"
  by (simp add: actions_sound_def)

lemma attempt_action_sound:
  assumes "actions_sound saga"
    and "action_at saga a action \<or> bt_get (sp_actions saga) a = None \<and> action = registered_action a kind None None"
    and "cap_attempts action + 1 \<le> 10"
  shows "action_sound a (begin_attempt action)"
proof -
  have "action_sound a action"
    using assms(2)
  proof
    assume "action_at saga a action"
    then show ?thesis by (rule actions_soundD [OF assms(1)])
  qed (simp add: action_sound_def registered_action_def action_active_def)
  then show ?thesis
    using assms(3) next_attempt by (simp add: action_sound_def begin_attempt_def action_active_def)
qed

lemma active_in_correction:
  assumes "phase_sound saga" "action_at saga a action" "cap_status action \<noteq> CorrectionActionStatus_Registered"
  shows "sp_reason saga \<noteq> None"
  using assms by (auto simp: phase_sound_def)

lemma phase_sound_set:
  assumes "phase_sound saga" "sp_reason saga \<noteq> None" "action_active action \<Longrightarrow> sp_phase saga \<noteq> SagaPhase_CorrectionCompleted"
  shows "phase_sound (set_action a action saga)"
  using assms by (auto simp: phase_sound_def no_active_action_iff)

lemma settled_action_sound:
  assumes "saga_sound k saga" "action_at saga a action" "action_active action"
    and "action_sound a action'" "\<not> action_active action'"
  shows "saga_sound k (set_action a action' saga)"
proof -
  have "sp_reason saga \<noteq> None"
    using assms(1-3) by (intro active_in_correction) (auto simp: saga_sound_def action_active_def)
  then show ?thesis
    using assms by (auto simp: saga_sound_def intro!: actions_sound_set phase_sound_set)
qed

lemma rescheduled_action_sound:
  assumes "saga_sound k saga" "action_at saga a action"
    and "sp_phase saga \<in> {SagaPhase_Correcting, SagaPhase_ManualRecovery}"
    and "action_sound a action'" "\<not> action_active action'"
  shows "saga_sound k (set_action a action' saga)"
proof -
  have "sp_reason saga \<noteq> None"
    using assms(1,3) by (auto simp: saga_sound_def phase_sound_def)
  then show ?thesis
    using assms by (auto simp: saga_sound_def intro!: actions_sound_set phase_sound_set)
qed

lemma saga_phase_sound:
  assumes "saga_sound k saga" "sp_reason saga \<noteq> None"
    and "phase \<in> {SagaPhase_Correcting, SagaPhase_ManualRecovery}"
  shows "saga_sound k (saga\<lparr>sp_phase := phase\<rparr>)"
  using assms by (auto simp: saga_sound_defs)

lemma saga_moves_sound: "saga_moves saga saga' \<Longrightarrow> saga_sound k saga \<Longrightarrow> saga_sound k saga'"
proof (induction rule: saga_moves.induct)
  case (register saga a kind step n)
  then show ?case
    by (auto simp: saga_sound_def phase_sound_def action_sound_def action_active_def registered_action_def
        intro!: actions_sound_set)
next
  case (attempt saga a action kind)
  have "action_sound a (begin_attempt action)"
    using attempt.prems by (intro attempt_action_sound [OF _ attempt.hyps(3,5)]) (simp add: saga_sound_def)
  moreover have "sp_reason saga \<noteq> None" "sp_phase saga \<noteq> SagaPhase_CorrectionCompleted"
    using attempt.prems attempt.hyps(1) by (auto simp: saga_sound_def phase_sound_def in_correction_def)
  ultimately show ?case
    using attempt.hyps(2) attempt.prems
    by (simp add: saga_sound_def actions_sound_set phase_sound_set)
next
  case (complete saga n)
  then show ?case
    using completed_no_active [of saga]
    by (auto simp: saga_sound_defs in_correction_def no_active_action_iff)
next
  case (attempt_succeeded saga a action)
  then show ?case
    using actions_soundD [of saga a action]
    by (intro settled_action_sound) (auto simp: saga_sound_def action_sound_def action_active_def)
next
  case (attempt_failed saga a action code ambiguous)
  then show ?case
    using actions_soundD [of saga a action]
    by (intro settled_action_sound) (auto simp: saga_sound_def action_sound_def action_active_def)
next
  case (attempt_interrupted saga a action ambiguous)
  then show ?case
    using actions_soundD [of saga a action]
    by (intro settled_action_sound) (auto simp: saga_sound_def action_sound_def action_active_def)
next
  case (reschedule saga a action at)
  then show ?case
    using actions_soundD [of saga a action]
    by (intro rescheduled_action_sound) (auto simp: saga_sound_def action_sound_def action_active_def)
next
  case (operator_retry saga a action at)
  then have "saga_sound k (saga\<lparr>sp_phase := SagaPhase_Correcting\<rparr>)"
    by (intro saga_phase_sound active_in_correction) (auto simp: saga_sound_def)
  then show ?case
    using operator_retry actions_soundD [of saga a action]
    by (intro rescheduled_action_sound) (auto simp: saga_sound_def action_sound_def action_active_def)
next
  case (escalate saga a action code)
  then show ?case
    using actions_soundD [of saga a action] active_in_correction [of saga a action]
    by (intro saga_phase_sound) (auto simp: saga_sound_def action_sound_def action_active_def
        intro!: actions_sound_set phase_sound_set)
qed (auto simp: saga_sound_defs no_active_action_iff split: if_splits)

end
