(* ===== verification/Operation_Lifecycle.thy ===== *)
theory Operation_Lifecycle
  imports Keyed_Lifecycle
begin

text \<open>
  The life cycle of a capability operation: it starts once under its identity and settles
  once; within an invocation a logical operation key is used once.  Policy decisions are
  recorded once.
\<close>

section \<open>Specification\<close>

definition operation_fresh :: "operation_identity \<Rightarrow> operation_projection \<Rightarrow> bool" where
  "operation_fresh k op \<longleftrightarrow> op_identity op = k \<and> op_status op = OperationStatus_Started"

fun settlement_valid :: "operation_status \<Rightarrow> bool" where
  "settlement_valid OperationStatus_Started = False"
| "settlement_valid (OperationStatus_Succeeded duration bytes digest) =
    (duration_valid duration \<and> bytes \<le> 8388608 \<and> valid_sha256 digest)"
| "settlement_valid (OperationStatus_Failed duration failure) = duration_valid duration"

inductive operation_moves :: "operation_projection \<Rightarrow> operation_projection \<Rightarrow> bool" where
  settle: "op_status op = OperationStatus_Started \<Longrightarrow> settlement_valid status \<Longrightarrow>
    operation_moves op (op\<lparr>op_metadata := metadata, op_status := status\<rparr>)"

inductive_cases operation_movesE: "operation_moves op op'"

section \<open>The fold implements the cycle\<close>

lemma operation_success_contract:
  assumes "validate_event E e = Inr ()" "ev_payload e = OperationSucceeded d"
  shows "settlement_valid (OperationStatus_Succeeded (osu_duration_ms d) (osu_result_bytes d) (osu_result_digest d))"
  using assms(1) by (elim validate_event_ownedE; use assms(2) in
      \<open>auto simp: validate_operation_succeeded_def ok_simps\<close>)

lemma operation_failure_contract:
  assumes "validate_event E e = Inr ()" "ev_payload e = OperationFailed d"
  shows "settlement_valid (OperationStatus_Failed (ofa_duration_ms d) (ofa_failure d))"
  using assms(1) by (elim validate_event_ownedE; use assms(2) in
      \<open>auto simp: validate_operation_failed_def ok_simps split: if_splits\<close>)

lemma terminal_identity_started:
  "validate_operation_terminal_identity op n a k c opn m = Inr u \<Longrightarrow> op_status op = OperationStatus_Started"
  by (auto simp: validate_operation_terminal_identity_def split: if_splits)

interpretation operation: keyed_lifecycle E Owner_Operations p_operations operation_fresh operation_moves for E
proof unfold_locales
  fix state e q ix
  assume valid: "validate_event E e = Inr ()" and "apply_transition E state e = Inr (q, ix)"
    and "event_owner e = Owner_Operations"
  from this(2,3)
  show "object_step operation_fresh operation_moves (p_operations (fs_projection state)) (p_operations q)"
  proof (cases rule: operations_transitionE)
    case (InfrastructurePolicyDecisionRecorded data)
    then show ?thesis
      by (auto simp: apply_infrastructure_policy_decision_recorded_def ok_simps intro: object_step_refl)
  next
    case (OperationStarted data)
    then show ?thesis
      by (auto simp: apply_operation_started_def ok_simps Let_def operation_fresh_def started_operation_def
          intro!: object_step_insert)
  next
    case (OperationSucceeded data)
    then show ?thesis
      using operation_success_contract [OF valid OperationSucceeded(1)]
      by (auto simp: apply_operation_succeeded_def ok_simps Let_def dest!: terminal_identity_started
          simp del: settlement_valid.simps intro!: object_step_move settle)
  next
    case (OperationFailed data)
    then show ?thesis
      using operation_failure_contract [OF valid OperationFailed(1)]
      by (auto simp: apply_operation_failed_def ok_simps Let_def dest!: terminal_identity_started
          simp del: settlement_valid.simps intro!: object_step_move settle)
  qed
qed (simp_all add: empty_projection_def transition_frame)

section \<open>What the cycle guarantees\<close>

lemma settled_operation_stays:
  "operation_moves\<^sup>*\<^sup>* op op' \<Longrightarrow> op_status op \<noteq> OperationStatus_Started \<Longrightarrow> op' = op"
  by (induction rule: rtranclp_induct) (auto elim: operation_movesE)

definition operation_request :: "operation_projection \<Rightarrow>
    operation_identity \<times> string \<times> u32 \<times> string \<times> string \<times> string \<times> operation_execution_mode" where
  "operation_request op = (op_identity op, op_node_id op, op_attempt_number op, op_operation_key op,
    op_capability op, op_operation op, op_execution_mode op)"

lemma operation_request_stays:
  "operation_moves\<^sup>*\<^sup>* op op' \<Longrightarrow> operation_request op' = operation_request op"
  by (induction rule: rtranclp_induct) (auto simp: operation_request_def elim!: operation_movesE)

lemma operation_settlement_valid:
  "operation_moves\<^sup>*\<^sup>* op op' \<Longrightarrow> op_status op = OperationStatus_Started \<Longrightarrow>
    op_status op' = OperationStatus_Started \<or> settlement_valid (op_status op')"
  by (induction rule: rtranclp_induct) (auto elim!: operation_movesE)

section \<open>Keys and decisions are used once\<close>

definition operations_sound :: "run_projection \<Rightarrow> bool" where
  "operations_sound p \<longleftrightarrow>
    (\<forall>k op. bt_get (p_operations p) k = Some op \<longrightarrow> op_identity op = k)
    \<and> (\<forall>j k op op'. bt_get (p_operations p) j = Some op \<longrightarrow> bt_get (p_operations p) k = Some op' \<longrightarrow>
        oi_invocation_id j = oi_invocation_id k \<longrightarrow> op_operation_key op = op_operation_key op' \<longrightarrow> j = k)
    \<and> distinct (map (ipdr_decision_id \<circ> ipdrec_decision) (p_infrastructure_policy_decisions p))"

lemma operations_soundD: "operations_sound p \<Longrightarrow> bt_get (p_operations p) k = Some op \<Longrightarrow> op_identity op = k"
  by (simp add: operations_sound_def)

lemma start_operation_sound:
  assumes "operations_sound p" "op_identity op = k"
    and "\<not> list_ex (\<lambda>x. oi_invocation_id (op_identity x) = oi_invocation_id k
      \<and> op_operation_key x = op_operation_key op) (bt_values (p_operations p))"
  shows "operations_sound (p\<lparr>p_operations := bt_insert k op (p_operations p)\<rparr>)"
proof -
  have new: "op_operation_key x \<noteq> op_operation_key op"
    if "bt_get (p_operations p) j = Some x" "oi_invocation_id j = oi_invocation_id k" for j x
    using assms(3) that operations_soundD [OF assms(1) that(1)]
    by (auto simp: list_ex_iff in_bt_values_iff)
  show ?thesis
    using assms(1,2) new unfolding operations_sound_def by simp metis
qed

lemma settle_operation_sound:
  assumes "operations_sound p" "bt_get (p_operations p) k = Some op"
    and "op_identity op' = op_identity op" "op_operation_key op' = op_operation_key op"
  shows "operations_sound (p\<lparr>p_operations := bt_insert k op' (p_operations p)\<rparr>)"
  using assms unfolding operations_sound_def by simp metis

interpretation operation_record: projection_invariant E "\<lambda>p _. operations_sound p" for E
proof unfold_locales
  fix state e q and ix :: attempt_indexes
  assume inv: "operations_sound (fs_projection state)"
    and step: "apply_transition E state e = Inr (q, ix)"
  show "operations_sound q"
  proof (cases "event_owner e = Owner_Operations")
    case False
    then show ?thesis using inv by (simp add: operations_sound_def transition_frame [OF step])
  next
    case True
    from step True show ?thesis
    proof (cases rule: operations_transitionE)
      case (InfrastructurePolicyDecisionRecorded data)
      then have "q = fs_projection state\<lparr>p_infrastructure_policy_decisions :=
          p_infrastructure_policy_decisions (fs_projection state) @ [data]\<rparr>"
        and "ipdr_decision_id (ipdrec_decision data)
          \<notin> (ipdr_decision_id \<circ> ipdrec_decision) ` set (p_infrastructure_policy_decisions (fs_projection state))"
        by (auto simp: apply_infrastructure_policy_decision_recorded_def ok_simps list_ex_iff)
      then show ?thesis using inv by (simp add: operations_sound_def)
    next
      case (OperationStarted data)
      then show ?thesis
        using inv by (auto simp: apply_operation_started_def ok_simps Let_def started_operation_def
            intro!: start_operation_sound)
    next
      case (OperationSucceeded data)
      then show ?thesis
        using inv by (auto simp: apply_operation_succeeded_def ok_simps Let_def
            intro!: settle_operation_sound)
    next
      case (OperationFailed data)
      then show ?thesis
        using inv by (auto simp: apply_operation_failed_def ok_simps Let_def
            intro!: settle_operation_sound)
    qed
  qed
qed (simp_all add: operations_sound_def empty_projection_def)

end
