(* ===== verification/Flow_Lifecycle.thy ===== *)
theory Flow_Lifecycle
  imports Keyed_Lifecycle
begin

text \<open>
  Life cycles of the control flow: a selected arm stays selected, a parallel group
  completes once, and a fork settles each branch once and joins once, on the evidence of
  the branch that blocked it.
\<close>

section \<open>Selections\<close>

interpretation branch_selection: keyed_lifecycle E Owner_Flow p_branch_selections "\<lambda>_ _. True" "\<lambda>_ _. False" for E
proof unfold_locales
  fix state e q ix
  assume "apply_transition E state e = Inr (q, ix)" "event_owner e = Owner_Flow"
  then show "object_step (\<lambda>_ _. True) (\<lambda>_ _. False) (p_branch_selections (fs_projection state)) (p_branch_selections q)"
    by (cases rule: flow_transitionE)
      (auto simp: fold_control_flow_defs ok_simps intro: object_step_insert object_step_refl)
qed (simp_all add: empty_projection_def transition_frame)

interpretation choice_selection: keyed_lifecycle E Owner_Flow p_choice_selections "\<lambda>_ _. True" "\<lambda>_ _. False" for E
proof unfold_locales
  fix state e q ix
  assume "apply_transition E state e = Inr (q, ix)" "event_owner e = Owner_Flow"
  then show "object_step (\<lambda>_ _. True) (\<lambda>_ _. False) (p_choice_selections (fs_projection state)) (p_choice_selections q)"
    by (cases rule: flow_transitionE)
      (auto simp: fold_control_flow_defs ok_simps intro: object_step_insert object_step_refl)
qed (simp_all add: empty_projection_def transition_frame)

lemma selection_stays: "(\<lambda>_ _. False)\<^sup>*\<^sup>* a b \<Longrightarrow> b = a"
  by (induction rule: rtranclp_induct) simp_all

section \<open>Parallel groups\<close>

definition group_fresh :: "string \<Rightarrow> parallel_group_projection \<Rightarrow> bool" where
  "group_fresh k grp \<longleftrightarrow> pgp_parallel_id grp = k \<and> pgp_status grp = ParallelGroupStatus_Started"

inductive group_moves :: "parallel_group_projection \<Rightarrow> parallel_group_projection \<Rightarrow> bool" where
  complete: "pgp_status grp = ParallelGroupStatus_Started \<Longrightarrow> group_moves grp (completed_group data grp)"

inductive_cases group_movesE: "group_moves grp grp'"

interpretation parallel_group: keyed_lifecycle E Owner_Flow p_parallel_groups group_fresh group_moves for E
proof unfold_locales
  fix state e q ix
  assume "apply_transition E state e = Inr (q, ix)" "event_owner e = Owner_Flow"
  then show "object_step group_fresh group_moves (p_parallel_groups (fs_projection state)) (p_parallel_groups q)"
  proof (cases rule: flow_transitionE)
    case (ParallelGroupStarted data)
    then show ?thesis
      by (auto simp: fold_control_flow_defs ok_simps group_fresh_def started_group_def
          intro!: object_step_insert)
  next
    case (ParallelGroupCompleted data)
    then show ?thesis
      by (auto simp: fold_control_flow_defs ok_simps intro!: object_step_move complete)
  qed (auto simp: fold_control_flow_defs ok_simps intro: object_step_refl)
qed (simp_all add: empty_projection_def transition_frame)

lemma completed_group_stays:
  "group_moves\<^sup>*\<^sup>* grp grp' \<Longrightarrow> pgp_status grp \<noteq> ParallelGroupStatus_Started \<Longrightarrow> grp' = grp"
  by (induction rule: rtranclp_induct) (auto elim: group_movesE)

section \<open>Forks\<close>

definition fork_fresh :: "string \<Rightarrow> fork_projection \<Rightarrow> bool" where
  "fork_fresh k fork \<longleftrightarrow> fp_fork_id fork = k \<and> fp_branches fork = bt_empty
    \<and> fp_join_status fork = ForkJoinStatus_Pending \<and> fp_blocking_branch_id fork = None"

definition settled_branch :: "string \<Rightarrow> fork_branch_projection \<Rightarrow> bool" where
  "settled_branch b branch \<longleftrightarrow> fbp_branch_id branch = b \<and> fbp_terminal_node_id branch \<noteq> None
    \<and> fbp_outcome branch \<noteq> None"

definition blocked_by :: "fork_projection \<Rightarrow> string \<Rightarrow> fork_branch_outcome \<Rightarrow> bool" where
  "blocked_by fork b outcome \<longleftrightarrow>
    (\<exists>branch. bt_get (fp_branches fork) b = Some branch \<and> fbp_outcome branch = Some outcome)"

definition join_proven :: "fork_projection \<Rightarrow> fork_join_status \<Rightarrow> string option \<Rightarrow> bool" where
  "join_proven fork status blocking \<longleftrightarrow>
    (case status of
       ForkJoinStatus_Pending \<Rightarrow> blocking = None
     | ForkJoinStatus_Succeeded \<Rightarrow> blocking = None
     | ForkJoinStatus_Failed \<Rightarrow> (\<exists>b. blocking = Some b \<and> blocked_by fork b ForkBranchOutcome_Failed)
     | ForkJoinStatus_Cancelled \<Rightarrow> (\<exists>b. blocking = Some b \<and> blocked_by fork b ForkBranchOutcome_Cancelled))"

inductive fork_moves :: "fork_projection \<Rightarrow> fork_projection \<Rightarrow> bool" where
  settle_branch: "bt_get (fp_branches fork) b = None \<Longrightarrow> settled_branch b branch \<Longrightarrow>
    fork_moves fork (fork\<lparr>fp_branches := bt_insert b branch (fp_branches fork)\<rparr>)"
| join: "fp_join_status fork = ForkJoinStatus_Pending \<Longrightarrow> status \<noteq> ForkJoinStatus_Pending \<Longrightarrow>
    join_proven fork status blocking \<Longrightarrow>
    fork_moves fork (fork\<lparr>fp_join_status := status, fp_blocking_branch_id := blocking\<rparr>)"

inductive_cases fork_movesE: "fork_moves fork fork'"

lemma join_contract:
  assumes "validate_event E e = Inr ()" "ev_payload e = ForkJoinSettled d"
  shows "blocking_valid d"
  using assms(1) by (elim validate_event_ownedE; use assms(2) in
      \<open>auto simp: validate_fork_join_settled_def ok_simps\<close>)

lemma join_outcome_proves:
  assumes "blocking_valid data" "join_outcome_proven fork data"
  shows "join_proven fork (join_status_of (fjs_outcome data)) (fjs_blocking_branch_id data)"
  using assms by (cases "fjs_outcome data")
    (auto simp: blocking_valid_def join_outcome_proven_def join_proven_def blocked_by_def is_none_or_iff
      is_some_and_iff bind_eq_Some_conv split: option.splits)

lemma join_status_settled [simp]: "join_status_of outcome \<noteq> ForkJoinStatus_Pending"
  by (cases outcome) simp_all

interpretation fork: keyed_lifecycle E Owner_Flow p_forks fork_fresh fork_moves for E
proof unfold_locales
  fix state e q ix
  assume valid: "validate_event E e = Inr ()" and "apply_transition E state e = Inr (q, ix)"
    and "event_owner e = Owner_Flow"
  from this(2,3) show "object_step fork_fresh fork_moves (p_forks (fs_projection state)) (p_forks q)"
  proof (cases rule: flow_transitionE)
    case (ForkOpened data)
    then show ?thesis
      by (auto simp: apply_fork_opened_def ok_simps fork_fresh_def intro!: object_step_insert)
  next
    case (ForkBranchSettled data)
    then show ?thesis
      by (auto simp: apply_fork_branch_settled_def ok_simps bt_contains_def settled_branch_def
          intro!: object_step_move settle_branch)
  next
    case (ForkJoinSettled data)
    then show ?thesis
      using join_outcome_proves [OF join_contract [OF valid ForkJoinSettled(1)]]
      by (auto simp: apply_fork_join_settled_def ok_simps intro!: object_step_move join)
  qed (auto simp: fold_control_flow_defs ok_simps intro: object_step_refl)
qed (simp_all add: empty_projection_def transition_frame)

definition fork_sound :: "string \<Rightarrow> fork_projection \<Rightarrow> bool" where
  "fork_sound k fork \<longleftrightarrow>
    fp_fork_id fork = k
    \<and> (\<forall>b branch. bt_get (fp_branches fork) b = Some branch \<longrightarrow> settled_branch b branch)
    \<and> join_proven fork (fp_join_status fork) (fp_blocking_branch_id fork)"

lemma fork_fresh_sound: "fork_fresh k fork \<Longrightarrow> fork_sound k fork"
  by (auto simp: fork_fresh_def fork_sound_def join_proven_def)

lemma blocked_by_insert:
  "bt_get (fp_branches fork) b = None \<Longrightarrow> blocked_by fork c outcome \<Longrightarrow>
    blocked_by (fork\<lparr>fp_branches := bt_insert b branch (fp_branches fork)\<rparr>) c outcome"
  by (auto simp: blocked_by_def)

lemma fork_moves_sound: "fork_moves fork fork' \<Longrightarrow> fork_sound k fork \<Longrightarrow> fork_sound k fork'"
proof (induction rule: fork_moves.induct)
  case (settle_branch fork b branch)
  then show ?case
    by (auto simp: fork_sound_def join_proven_def split: fork_join_status.splits intro: blocked_by_insert)
next
  case (join fork status blocking)
  then show ?case
    by (auto simp: fork_sound_def join_proven_def blocked_by_def split: fork_join_status.splits)
qed

lemma settled_fork_stays:
  assumes "fork_moves\<^sup>*\<^sup>* fork fork'"
  shows "(fp_join_status fork \<noteq> ForkJoinStatus_Pending \<longrightarrow>
      fp_join_status fork' = fp_join_status fork \<and> fp_blocking_branch_id fork' = fp_blocking_branch_id fork)
    \<and> (\<forall>b branch. bt_get (fp_branches fork) b = Some branch \<longrightarrow> bt_get (fp_branches fork') b = Some branch)"
  using assms by (induction rule: rtranclp_induct) (auto elim!: fork_movesE)

end
