(* ===== verification/Loop_Lifecycle.thy ===== *)
theory Loop_Lifecycle
  imports Keyed_Lifecycle Run_Attempts
begin

text \<open>
  The life cycle of a for-each loop.  Iterations open once, below the total of the loop,
  and settle once; the work of an iteration is folded only while the iteration is
  started; a loop settles when the counts of its iterations add up to the total.  Since
  iteration indexes are distinct and below the total, the count makes the settled loop
  complete: every index has a settled iteration, and nothing of the loop changes again.
\<close>

section \<open>Specification\<close>

definition loop_fresh :: "string \<Rightarrow> for_each_projection \<Rightarrow> bool" where
  "loop_fresh k loop \<longleftrightarrow> fep_for_each_id loop = k \<and> fep_total loop \<le> 10000
    \<and> 1 \<le> fep_concurrency loop \<and> fep_concurrency loop \<le> 64
    \<and> fep_status loop = ForEachStatus_Open
    \<and> fep_iterations loop = bt_empty \<and> fep_executions loop = bt_empty"

definition execution_step ::
  "for_each_iteration_execution_projection \<Rightarrow> for_each_iteration_execution_projection \<Rightarrow> bool" where
  "execution_step x x' \<longleftrightarrow> (\<exists>scope event previous. apply_iteration_payload x scope event previous = Inr x')"

definition all_accounted :: "for_each_projection \<Rightarrow> bool" where
  "all_accounted loop \<longleftrightarrow>
    count_iterations iteration_succeeded loop + count_iterations iteration_failed loop
      + count_iterations iteration_skipped loop = fep_total loop"

inductive loop_moves :: "for_each_projection \<Rightarrow> for_each_projection \<Rightarrow> bool" where
  start: "iteration_can_open loop i \<Longrightarrow> loop_moves loop (loop\<lparr>
      fep_iterations := bt_insert i ForEachIterationStatus_Started (fep_iterations loop),
      fep_executions := bt_insert i (empty_iteration_execution\<lparr>feix_context := context\<rparr>)
        (fep_executions loop)\<rparr>)"
| skip: "iteration_can_open loop i \<Longrightarrow> loop_moves loop (loop\<lparr>
      fep_iterations := bt_insert i ForEachIterationStatus_Skipped (fep_iterations loop)\<rparr>)"
| succeed: "bt_get (fep_iterations loop) i = Some ForEachIterationStatus_Started \<Longrightarrow>
    loop_moves loop (loop\<lparr>
      fep_iterations := bt_insert i (ForEachIterationStatus_Succeeded r) (fep_iterations loop)\<rparr>)"
| fail: "bt_get (fep_iterations loop) i = Some ForEachIterationStatus_Started \<Longrightarrow>
    loop_moves loop (loop\<lparr>
      fep_iterations := bt_insert i (ForEachIterationStatus_Failed n) (fep_iterations loop),
      fep_executions := bt_update i (\<lambda>x. x\<lparr>feix_pending_retries := bt_empty\<rparr>) (fep_executions loop)\<rparr>)"
| work: "fep_status loop = ForEachStatus_Open \<Longrightarrow>
    bt_get (fep_iterations loop) i = Some ForEachIterationStatus_Started \<Longrightarrow>
    bt_get (fep_executions loop) i = Some x \<Longrightarrow> execution_step x x' \<Longrightarrow>
    loop_moves loop (loop\<lparr>fep_executions := bt_insert i x' (fep_executions loop)\<rparr>)"
| settle: "fep_status loop = ForEachStatus_Open \<Longrightarrow> status \<noteq> ForEachStatus_Open \<Longrightarrow>
    all_accounted loop \<Longrightarrow> \<not> owns_active_work loop \<Longrightarrow>
    (status = ForEachStatus_Succeeded \<longrightarrow> count_iterations iteration_failed loop = 0
      \<and> count_iterations iteration_skipped loop = 0) \<Longrightarrow>
    loop_moves loop (loop\<lparr>fep_status := status\<rparr>)"

inductive_cases loop_movesE: "loop_moves loop loop'"

section \<open>The fold implements the cycle\<close>

lemma loop_contract:
  assumes "validate_event E e = Inr ()" "ev_payload e = ForEachOpened d"
  shows "feo_total d \<le> 10000 \<and> 1 \<le> feo_concurrency d \<and> feo_concurrency d \<le> 64"
  using assms(1) by (elim validate_event_ownedE; use assms(2) in
      \<open>auto simp: validate_for_each_opened_def ok_simps\<close>)

lemma settled_loop_step:
  assumes "apply_for_each_settled E p e d = Inr q"
  shows "object_step loop_fresh loop_moves (p_for_each p) (p_for_each q)"
proof -
  define status where "status =
    (case ev_payload e of ForEachSucceeded _ \<Rightarrow> ForEachStatus_Succeeded
     | ForEachCancelled _ \<Rightarrow> ForEachStatus_Cancelled | _ \<Rightarrow> ForEachStatus_Failed)"
  obtain loop where loop: "bt_get (p_for_each p) (fes_for_each_id d) = Some loop"
    "fep_status loop = ForEachStatus_Open" "all_accounted loop" "\<not> owns_active_work loop"
    "status \<noteq> ForEachStatus_Open"
    "status = ForEachStatus_Succeeded \<longrightarrow> count_iterations iteration_failed loop = 0
      \<and> count_iterations iteration_skipped loop = 0"
    "p_for_each q = bt_insert (fes_for_each_id d) (loop\<lparr>fep_status := status\<rparr>) (p_for_each p)"
    using assms by (cases "ev_payload e")
      (auto simp: status_def apply_for_each_settled_def ok_simps Let_def all_accounted_def)
  show ?thesis
    unfolding loop(7) by (rule object_step_move [where moves = loop_moves, OF loop(1)]) (intro settle loop)
qed

interpretation loop: keyed_lifecycle E Owner_Loops p_for_each loop_fresh loop_moves for E
proof unfold_locales
  fix state e q ix
  assume valid: "validate_event E e = Inr ()" and "apply_transition E state e = Inr (q, ix)"
    and "event_owner e = Owner_Loops"
  from this(2,3) show "object_step loop_fresh loop_moves (p_for_each (fs_projection state)) (p_for_each q)"
  proof (cases rule: loops_transitionE)
    case scoped
    then obtain scope loop x x' where
      loop: "bt_get (p_for_each (fs_projection state)) (scope_for_each_id scope) = Some loop"
        "fep_status loop = ForEachStatus_Open"
        "bt_get (fep_iterations loop) (scope_index scope) = Some ForEachIterationStatus_Started"
        "bt_get (fep_executions loop) (scope_index scope) = Some x"
      and payload: "apply_iteration_payload x scope e (fs_previous_event state) = Inr x'"
      and q: "p_for_each q = bt_insert (scope_for_each_id scope)
          (loop\<lparr>fep_executions := bt_insert (scope_index scope) x' (fep_executions loop)\<rparr>)
          (p_for_each (fs_projection state))"
      by (auto simp: apply_iteration_scoped_event_def ok_simps split: if_splits)
    from payload have "execution_step x x'" by (auto simp: execution_step_def)
    with loop show ?thesis
      unfolding q by (intro object_step_move [where moves = loop_moves, OF loop(1)] work)
  next
    case (ForEachOpened data)
    then show ?thesis
      using loop_contract [OF valid ForEachOpened(1)]
      by (auto simp: apply_for_each_opened_def ok_simps loop_fresh_def intro!: object_step_insert)
  next
    case (ForEachIterationStarted data)
    then show ?thesis
      by (auto simp: apply_for_each_iteration_started_def ok_simps intro!: object_step_move start)
  next
    case (ForEachIterationSucceeded data)
    then show ?thesis
      by (auto simp: apply_for_each_iteration_succeeded_def ok_simps split: if_splits
          intro!: object_step_move succeed)
  next
    case (ForEachIterationFailed data)
    then show ?thesis
      by (auto simp: apply_for_each_iteration_failed_def ok_simps split: if_splits
          intro!: object_step_move fail)
  next
    case (ForEachIterationSkipped data)
    then show ?thesis
      by (auto simp: apply_for_each_iteration_skipped_def ok_simps intro!: object_step_move skip)
  qed (rule settled_loop_step, assumption)+
qed (simp_all add: empty_projection_def transition_frame)

section \<open>Counting iterations\<close>

lemma unat_below_u32: "unat (w :: u32) < 4294967296"
  using unsigned_less [of w, where 'a = nat] by simp

lemma unat_of_nat_u32: "n < 4294967296 \<Longrightarrow> unat (of_nat n :: u32) = n"
  by (simp add: unat_of_nat)

lemma card_below_u32: "card {i :: u32. i < n} = unat n"
proof -
  have "unat ` {i. i < n} = {..< unat n}"
  proof (intro equalityI subsetI)
    fix x assume "x \<in> {..< unat n}"
    moreover from this have "unat (of_nat x :: u32) = x"
      using unat_below_u32 [of n] by (simp add: unat_of_nat_u32)
    ultimately show "x \<in> unat ` {i. i < n}"
      by (intro image_eqI [of _ _ "of_nat x"]) (simp_all add: word_less_nat_alt)
  qed (auto simp: word_less_nat_alt)
  then show ?thesis
    using card_image [of unat "{i. i < n}"] by (simp add: inj_onI unsigned_word_eqI)
qed

lemma length_bt_values: "length (bt_values m) = card (dom (bt_get m))"
proof -
  have "dom (bt_get m) = fst ` set (bt_entries m)"
    by (rule set_eqI) (unfold bt.in_keys_iff, auto)
  then show ?thesis
    using bt.entries_distinct [of m] distinct_card [of "map fst (bt_entries m)"] by (simp add: bt_values_def)
qed

lemma filters_cover:
  assumes "\<And>s. \<not> (P s \<and> Q s)" "\<And>s. \<not> (P s \<and> R s)" "\<And>s. \<not> (Q s \<and> R s)"
  shows "length (filter P xs) + length (filter Q xs) + length (filter R xs)
    = length (filter (\<lambda>s. P s \<or> Q s \<or> R s) xs)"
  using assms by (induction xs) auto

lemma settled_kinds:
  "iteration_succeeded s \<or> iteration_failed s \<or> iteration_skipped s \<longleftrightarrow> s \<noteq> ForEachIterationStatus_Started"
  by (cases s) (simp_all add: iteration_skipped_def)

lemma count_settled:
  "count_iterations iteration_succeeded loop + count_iterations iteration_failed loop
    + count_iterations iteration_skipped loop
   = of_nat (length (filter (\<lambda>s. s \<noteq> ForEachIterationStatus_Started) (bt_values (fep_iterations loop))))"
proof -
  have disjoint: "\<not> (iteration_succeeded s \<and> iteration_failed s)" "\<not> (iteration_succeeded s \<and> iteration_skipped s)"
    "\<not> (iteration_failed s \<and> iteration_skipped s)" for s
    by (cases s; simp add: iteration_skipped_def)+
  show ?thesis
    using filters_cover [of iteration_succeeded iteration_failed iteration_skipped, OF disjoint]
    by (simp add: count_iterations_def settled_kinds flip: of_nat_add)
qed

lemma accounted_complete:
  assumes below: "\<forall>i s. bt_get (fep_iterations loop) i = Some s \<longrightarrow> i < fep_total loop"
    and "all_accounted loop"
  shows "i < fep_total loop \<Longrightarrow> \<exists>s. bt_get (fep_iterations loop) i = Some s"
    and "bt_get (fep_iterations loop) i = Some s \<Longrightarrow> s \<noteq> ForEachIterationStatus_Started"
proof -
  let ?settled = "filter (\<lambda>s. s \<noteq> ForEachIterationStatus_Started) (bt_values (fep_iterations loop))"
  have sub: "dom (bt_get (fep_iterations loop)) \<subseteq> {i. i < fep_total loop}"
    using below by auto
  then have "card (dom (bt_get (fep_iterations loop))) \<le> unat (fep_total loop)"
    using card_mono [of "{i. i < fep_total loop}"] by (simp add: card_below_u32)
  then have le: "length (bt_values (fep_iterations loop)) \<le> unat (fep_total loop)"
    by (simp add: length_bt_values)
  have settled_le: "length ?settled \<le> length (bt_values (fep_iterations loop))"
    by (rule length_filter_le)
  with le have "length ?settled < 4294967296"
    using unat_below_u32 [of "fep_total loop"] by linarith
  then have "unat (of_nat (length ?settled) :: u32) = length ?settled"
    by (rule unat_of_nat_u32)
  then have settled: "length ?settled = unat (fep_total loop)"
    using assms(2) unfolding all_accounted_def count_settled by simp
  with le settled_le have all: "length ?settled = length (bt_values (fep_iterations loop))" by simp
  then have "card (dom (bt_get (fep_iterations loop))) = card {i. i < fep_total loop}"
    using settled by (simp add: card_below_u32 length_bt_values)
  then have "dom (bt_get (fep_iterations loop)) = {i. i < fep_total loop}"
    using sub by (intro card_subset_eq) simp_all
  then show "i < fep_total loop \<Longrightarrow> \<exists>s. bt_get (fep_iterations loop) i = Some s"
    by auto
  show "bt_get (fep_iterations loop) i = Some s \<Longrightarrow> s \<noteq> ForEachIterationStatus_Started"
    using all in_bt_values_iff [of s "fep_iterations loop"]
      length_filter_less [of s "bt_values (fep_iterations loop)" "\<lambda>s. s \<noteq> ForEachIterationStatus_Started"]
    by auto
qed

lemma no_iteration_of_kind:
  assumes "bt_get (fep_iterations loop) i = Some s" "P s"
    and "length (bt_values (fep_iterations loop)) < 2 ^ 32"
  shows "count_iterations P loop \<noteq> 0"
proof -
  have "filter P (bt_values (fep_iterations loop)) \<noteq> []"
    using assms(1,2) in_bt_values_iff by (metis filter_empty_conv)
  then have "0 < length (filter P (bt_values (fep_iterations loop)))" by simp
  moreover have "length (filter P (bt_values (fep_iterations loop))) < 2 ^ 32"
    using length_filter_le [of P "bt_values (fep_iterations loop)"] assms(3) by linarith
  ultimately show ?thesis
    by (simp add: count_iterations_def word_of_nat_eq_0_iff nat_dvd_not_less)
qed

section \<open>What the cycle guarantees\<close>

definition complete :: "for_each_projection \<Rightarrow> bool" where
  "complete loop \<longleftrightarrow>
    (\<forall>i < fep_total loop. \<exists>s. bt_get (fep_iterations loop) i = Some s)
    \<and> (\<forall>i s. bt_get (fep_iterations loop) i = Some s \<longrightarrow> s \<noteq> ForEachIterationStatus_Started)
    \<and> \<not> owns_active_work loop"

definition loop_sound :: "string \<Rightarrow> for_each_projection \<Rightarrow> bool" where
  "loop_sound k loop \<longleftrightarrow>
    fep_for_each_id loop = k \<and> fep_total loop \<le> 10000
    \<and> (\<forall>i s. bt_get (fep_iterations loop) i = Some s \<longrightarrow> i < fep_total loop)
    \<and> (fep_status loop \<noteq> ForEachStatus_Open \<longrightarrow> complete loop)
    \<and> (fep_status loop = ForEachStatus_Succeeded \<longrightarrow>
        (\<forall>i s. bt_get (fep_iterations loop) i = Some s \<longrightarrow> iteration_succeeded s))"

lemma loop_fresh_sound: "loop_fresh k loop \<Longrightarrow> loop_sound k loop"
  by (simp add: loop_fresh_def loop_sound_def)

lemma loop_open:
  "loop_sound k loop \<Longrightarrow> bt_get (fep_iterations loop) i = Some ForEachIterationStatus_Started \<Longrightarrow>
    fep_status loop = ForEachStatus_Open"
  by (auto simp: loop_sound_def complete_def)

lemma open_loop_sound:
  assumes "loop_sound k loop" "fep_status loop = ForEachStatus_Open"
    and "i < fep_total loop"
  shows "loop_sound k (loop\<lparr>fep_iterations := bt_insert i s (fep_iterations loop)\<rparr>)"
    and "loop_sound k (loop\<lparr>fep_iterations := bt_insert i s (fep_iterations loop), fep_executions := xs\<rparr>)"
  using assms by (auto simp: loop_sound_def)

lemma settled_loop_sound:
  assumes "loop_sound k loop" "all_accounted loop" "\<not> owns_active_work loop"
    and success: "status = ForEachStatus_Succeeded \<Longrightarrow> count_iterations iteration_failed loop = 0
      \<and> count_iterations iteration_skipped loop = 0"
  shows "loop_sound k (loop\<lparr>fep_status := status\<rparr>)"
proof -
  have below: "\<forall>i s. bt_get (fep_iterations loop) i = Some s \<longrightarrow> i < fep_total loop"
    using assms(1) by (simp add: loop_sound_def)
  note complete = accounted_complete [OF below assms(2)]
  have "length (bt_values (fep_iterations loop)) \<le> unat (fep_total loop)"
    using card_mono [of "{i. i < fep_total loop}" "dom (bt_get (fep_iterations loop))"] below
    by (auto simp: card_below_u32 length_bt_values)
  then have few: "length (bt_values (fep_iterations loop)) < 2 ^ 32"
    using unat_below_u32 [of "fep_total loop"] by simp
  have "iteration_succeeded s"
    if "status = ForEachStatus_Succeeded" "bt_get (fep_iterations loop) i = Some s" for i s
    using success [OF that(1)] complete(2) [OF that(2)] settled_kinds [of s]
      no_iteration_of_kind [OF that(2) _ few] by blast
  then show ?thesis
    using assms(1,3) complete by (auto simp: loop_sound_def complete_def owns_active_work_def)
qed

lemma started_below:
  "loop_sound k loop \<Longrightarrow> bt_get (fep_iterations loop) i = Some s \<Longrightarrow> i < fep_total loop"
  by (simp add: loop_sound_def)

lemma loop_moves_sound:
  assumes "loop_moves loop loop'" "loop_sound k loop"
  shows "loop_sound k loop'"
  using assms(1)
proof (cases rule: loop_moves.cases)
  case (start i ctx)
  then show ?thesis using assms(2) by (simp add: iteration_can_open_def open_loop_sound)
next
  case (skip i)
  then show ?thesis using assms(2) by (simp add: iteration_can_open_def open_loop_sound)
next
  case (succeed i r)
  show ?thesis
    unfolding succeed(1)
    by (rule open_loop_sound(1) [OF assms(2) loop_open [OF assms(2) succeed(2)] started_below [OF assms(2) succeed(2)]])
next
  case (fail i n)
  show ?thesis
    unfolding fail(1)
    by (rule open_loop_sound(2) [OF assms(2) loop_open [OF assms(2) fail(2)] started_below [OF assms(2) fail(2)]])
next
  case (work i x x')
  then show ?thesis using assms(2) unfolding loop_sound_def by simp
next
  case (settle status)
  then show ?thesis using settled_loop_sound [OF assms(2)] by blast
qed

lemma settled_loop_frozen:
  assumes "loop_moves loop loop'" "loop_sound k loop" "fep_status loop \<noteq> ForEachStatus_Open"
  shows "False"
  using assms(1) assms(2-) loop_open
  by (cases rule: loop_moves.cases) (auto simp: iteration_can_open_def)

lemma settled_loop_stays:
  assumes "loop_moves\<^sup>*\<^sup>* loop loop'" "loop_sound k loop" "fep_status loop \<noteq> ForEachStatus_Open"
  shows "loop' = loop"
  using assms by (cases rule: converse_rtranclpE) (auto dest: settled_loop_frozen)

definition settled_iteration :: "for_each_iteration_status \<Rightarrow> bool" where
  "settled_iteration s \<longleftrightarrow> s \<noteq> ForEachIterationStatus_Started"

lemma settled_iteration_stays:
  assumes "loop_moves\<^sup>*\<^sup>* loop loop'" "bt_get (fep_iterations loop) i = Some s" "settled_iteration s"
  shows "bt_get (fep_iterations loop') i = Some s
    \<and> bt_get (fep_executions loop') i = bt_get (fep_executions loop) i"
  using assms
  by (induction rule: rtranclp_induct)
    (auto simp: settled_iteration_def iteration_can_open_def bt_contains_def elim!: loop_movesE)

section \<open>The journal of an iteration\<close>

lemma journal_Nil [simp]: "journal []"
  by (simp add: journal_def)

lemma iteration_start_journal:
  assumes "iteration_attempt_started x e d = Inr x'" "journal (feix_attempts x)"
  shows "journal (feix_attempts x')"
proof -
  have "feix_attempts x' = feix_attempts x @ [started_attempt d]"
    and fresh: "sast_invocation_id d \<notin> (ai_invocation_id \<circ> ap_identity) ` set (feix_attempts x)"
    and "\<not> is_some_and (latest_iteration_attempt x (sast_node_id d)) (\<lambda>a. ap_status a = AttemptStatus_Started)"
    using assms(1) by (auto simp: iteration_attempt_started_def Let_def ok_simps list_ex_iff split: option.splits)
  moreover from this(3) have "attempts_of (feix_attempts x) (sast_node_id d) = []
      \<or> ap_status (last (attempts_of (feix_attempts x) (sast_node_id d))) \<noteq> AttemptStatus_Started"
    by (auto simp: latest_iteration_attempt_def last_filter_find_last attempts_of_def node_of_def
        split: if_splits)
  ultimately show ?thesis
    using assms(2) by (simp add: journal_start identity_def)
qed

lemma journal_update:
  assumes "journal xs" "i < length xs" "ap_status (xs ! i) = AttemptStatus_Started"
    and "ap_identity a = ap_identity (xs ! i)"
  shows "journal (xs[i := a])"
  using assms journal_settle [of "take i xs" "xs ! i" "drop (Suc i) xs" a]
  by (simp add: upd_conv_take_nth_drop id_take_nth_drop [symmetric])

lemma execution_step_journal:
  assumes "execution_step x x'" "journal (feix_attempts x)"
  shows "journal (feix_attempts x')"
proof -
  obtain scope e previous where step: "apply_iteration_payload x scope e previous = Inr x'"
    using assms(1) by (auto simp: execution_step_def)
  consider (started) d where "iteration_attempt_started x e d = Inr x'"
    | (succeeded) d where "iteration_attempt_succeeded x d = Inr x'"
    | (failed) d where "iteration_attempt_failed x d = Inr x'"
    | (other) "feix_attempts x' = feix_attempts x"
    using step by (cases "ev_payload e")
      (auto simp: apply_iteration_payload_def fold_iteration_defs ok_simps Let_def split: if_splits)
  then show ?thesis
  proof cases
    case started
    then show ?thesis using assms(2) by (rule iteration_start_journal)
  next
    case succeeded
    then show ?thesis
      using assms(2) by (auto simp: iteration_attempt_succeeded_def attempt_position_def ok_simps
          dest!: position_Some intro!: journal_update)
  next
    case failed
    then show ?thesis
      using assms(2) by (auto simp: iteration_attempt_failed_def attempt_position_def ok_simps
          dest!: position_Some intro!: journal_update)
  qed (simp add: assms(2))
qed

definition executions_sound :: "string \<Rightarrow> for_each_projection \<Rightarrow> bool" where
  "executions_sound k loop \<longleftrightarrow>
    (\<forall>i x. bt_get (fep_executions loop) i = Some x \<longrightarrow> journal (feix_attempts x))"

lemma loop_fresh_executions: "loop_fresh k loop \<Longrightarrow> executions_sound k loop"
  by (simp add: loop_fresh_def executions_sound_def)

lemma loop_moves_executions: "loop_moves loop loop' \<Longrightarrow> executions_sound k loop \<Longrightarrow> executions_sound k loop'"
  by (induction rule: loop_moves.induct)
    (auto simp: executions_sound_def empty_iteration_execution_def split: if_splits
      intro: execution_step_journal)

section \<open>Events in the scope of an iteration\<close>

text \<open>A loop that differs from another in one iteration only.\<close>

definition changes_iteration :: "u32 \<Rightarrow> for_each_projection \<Rightarrow> for_each_projection \<Rightarrow> bool" where
  "changes_iteration i loop loop' \<longleftrightarrow>
    (\<exists>its xs. loop' = loop\<lparr>fep_iterations := its, fep_executions := xs\<rparr>
      \<and> (\<forall>j. j \<noteq> i \<longrightarrow> bt_get its j = bt_get (fep_iterations loop) j
          \<and> bt_get xs j = bt_get (fep_executions loop) j))"

lemma changes_iterationI:
  assumes "\<And>j. j \<noteq> i \<Longrightarrow> bt_get its j = bt_get (fep_iterations loop) j"
    and "\<And>j. j \<noteq> i \<Longrightarrow> bt_get xs j = bt_get (fep_executions loop) j"
  shows "changes_iteration i loop (loop\<lparr>fep_iterations := its, fep_executions := xs\<rparr>)"
  using assms unfolding changes_iteration_def by blast

lemma changes_iteration_simps [simp]:
  "changes_iteration i loop (loop\<lparr>fep_iterations := bt_insert i s (fep_iterations loop)\<rparr>)"
  "changes_iteration i loop (loop\<lparr>fep_executions := bt_insert i x (fep_executions loop)\<rparr>)"
  "changes_iteration i loop (loop\<lparr>fep_iterations := bt_insert i s (fep_iterations loop),
     fep_executions := bt_insert i x (fep_executions loop)\<rparr>)"
  "changes_iteration i loop (loop\<lparr>fep_iterations := bt_insert i s (fep_iterations loop),
     fep_executions := bt_update i f (fep_executions loop)\<rparr>)"
  using changes_iterationI [of i "bt_insert i s (fep_iterations loop)" loop "fep_executions loop"]
    changes_iterationI [of i "fep_iterations loop" loop "bt_insert i x (fep_executions loop)"]
  by (auto intro!: changes_iterationI)

lemma boundary_scope:
  assumes "validate_event E e = Inr ()" "ev_iteration e = Some scope"
  shows "ev_payload e = ForEachIterationStarted started \<Longrightarrow> feii_for_each_id started = scope_for_each_id scope"
    and "ev_payload e = ForEachIterationSucceeded succeeded \<Longrightarrow> feisu_for_each_id succeeded = scope_for_each_id scope"
    and "ev_payload e = ForEachIterationFailed failed \<Longrightarrow> feif_for_each_id failed = scope_for_each_id scope"
    and "ev_payload e = ForEachIterationSkipped skipped \<Longrightarrow> feisk_for_each_id skipped = scope_for_each_id scope"
  using validated_iteration [OF assms(1)] assms(2)
  by (auto simp: is_scoped_work_def validate_for_each_iteration_event_def ok_simps
      validate_for_each_iteration_succeeded_def validate_for_each_iteration_failed_def)

lemma changed_loopI:
  "P loop \<Longrightarrow> \<exists>loop'. p\<lparr>p_for_each := bt_insert k loop m\<rparr> = p\<lparr>p_for_each := bt_insert k loop' m\<rparr> \<and> P loop'"
  by blast

lemma scoped_transition:
  assumes valid: "validate_event E e = Inr ()" and scope: "ev_iteration e = Some scope"
    and step: "apply_transition E state e = Inr (q, ix)" and p: "p = fs_projection state"
  shows "(\<exists>data saga action. ev_payload e = CompensationRegistered data
      \<and> bt_get (p_sagas p) (compr_saga_id data) = Some saga \<and> bt_get (sp_actions saga) (compr_action_id data) = None
      \<and> q = p\<lparr>p_sagas := bt_insert (compr_saga_id data)
          (saga\<lparr>sp_actions := bt_insert (compr_action_id data) action (sp_actions saga)\<rparr>) (p_sagas p)\<rparr>)
    \<or> (\<exists>loop loop'. bt_get (p_for_each p) (scope_for_each_id scope) = Some loop
      \<and> q = p\<lparr>p_for_each := bt_insert (scope_for_each_id scope) loop' (p_for_each p)\<rparr>
      \<and> changes_iteration (scope_index scope) loop loop'
      \<and> (\<not> is_top_level_scoped_event (ev_payload e) \<longrightarrow> fep_status loop = ForEachStatus_Open
          \<and> bt_get (fep_iterations loop) (scope_index scope) = Some ForEachIterationStatus_Started
          \<and> fep_iterations loop' = fep_iterations loop))"
proof (cases "is_top_level_scoped_event (ev_payload e)")
  case False
  then obtain loop x where "bt_get (p_for_each p) (scope_for_each_id scope) = Some loop"
    "fep_status loop = ForEachStatus_Open"
    "bt_get (fep_iterations loop) (scope_index scope) = Some ForEachIterationStatus_Started"
    "q = p\<lparr>p_for_each := bt_insert (scope_for_each_id scope)
      (loop\<lparr>fep_executions := bt_insert (scope_index scope) x (fep_executions loop)\<rparr>) (p_for_each p)\<rparr>"
    using step scope
    by (auto simp: p apply_transition_def apply_iteration_scoped_event_def ok_simps keep_indexes_def
        split: if_splits)
  then show ?thesis
    by (intro disjI2 exI [of _ loop] exI [of _ "loop\<lparr>fep_executions := bt_insert (scope_index scope) x (fep_executions loop)\<rparr>"]) simp
next
  case True
  note id = boundary_scope [OF valid scope]
  note fold = step [unfolded apply_transition_def p [symmetric]]
  consider data where "ev_payload e = CompensationRegistered data"
    | data where "ev_payload e = ForEachIterationStarted data"
    | data where "ev_payload e = ForEachIterationSucceeded data"
    | data where "ev_payload e = ForEachIterationFailed data"
    | data where "ev_payload e = ForEachIterationSkipped data"
    using True by (auto simp: is_top_level_scoped_event_def split: run_event_payload.splits)
  then show ?thesis
  proof cases
    case 1
    then show ?thesis
      using fold True by (auto simp: keep_indexes_def apply_compensation_registered_def ok_simps bt_contains_def)
  next
    case 2
    then show ?thesis
      using fold True id(1) scope
      by (auto simp: keep_indexes_def apply_for_each_iteration_started_def expect_scope_def ok_simps intro!: changed_loopI)
  next
    case 3
    then show ?thesis
      using fold True id(2) scope
      by (auto simp: keep_indexes_def apply_for_each_iteration_succeeded_def expect_scope_def ok_simps
          split: if_splits intro!: changed_loopI)
  next
    case 4
    then show ?thesis
      using fold True id(3) scope
      by (auto simp: keep_indexes_def apply_for_each_iteration_failed_def expect_scope_def ok_simps
          split: if_splits intro!: changed_loopI)
  next
    case 5
    then show ?thesis
      using fold True id(4) scope
      by (auto simp: keep_indexes_def apply_for_each_iteration_skipped_def expect_scope_def ok_simps intro!: changed_loopI)
  qed
qed

end
