(* ===== verification/Approval_Lifecycle.thy ===== *)
theory Approval_Lifecycle
  imports Keyed_Lifecycle
begin

text \<open>
  Life cycles of approval requests.  A basic request is resolved once: by a person before
  its deadline, or by the timeout policy it was requested with once the deadline has
  passed.  A rich request collects one decision per reviewer while it waits and is
  resolved once.
\<close>

section \<open>Basic requests\<close>

definition approval_fresh :: "string \<Rightarrow> approval_request_projection \<Rightarrow> bool" where
  "approval_fresh k r \<longleftrightarrow> arp_approval_id r = k \<and> arp_status r = ApprovalRequestStatus_Waiting"

inductive approval_moves :: "approval_request_projection \<Rightarrow> approval_request_projection \<Rightarrow> bool" where
  resolve: "arp_status r = ApprovalRequestStatus_Waiting \<Longrightarrow>
    resolution_allowed r event resolution = Inr () \<Longrightarrow>
    approval_moves r (r\<lparr>arp_status := ApprovalRequestStatus_Resolved resolution (ev_occurred_at event)\<rparr>)"

inductive_cases approval_movesE: "approval_moves r r'"

lemma basic_resolution_step:
  assumes "apply_basic_approval_resolved E p e d = Inr q"
  shows "object_step approval_fresh approval_moves (p_approval_requests p) (p_approval_requests q)"
  using assms by (auto simp: apply_basic_approval_resolved_def ok_simps intro!: object_step_move resolve)

interpretation approval: keyed_lifecycle E Owner_Approvals p_approval_requests approval_fresh approval_moves for E
proof unfold_locales
  fix state e q ix
  assume "apply_transition E state e = Inr (q, ix)" "event_owner e = Owner_Approvals"
  then show "object_step approval_fresh approval_moves (p_approval_requests (fs_projection state))
      (p_approval_requests q)"
  proof (cases rule: approvals_transitionE)
    case (ApprovalRequested data)
    then show ?thesis
      by (auto simp: apply_approval_requested_def ok_simps approval_fresh_def intro!: object_step_insert)
  next
    case (ApprovalResolved data)
    then show ?thesis
      by (auto simp: apply_approval_resolved_def apply_rich_approval_resolved_def ok_simps Let_def
          split: if_splits intro: basic_resolution_step object_step_refl)
  qed (auto simp: fold_approvals_defs ok_simps intro: object_step_refl)
qed (simp_all add: empty_projection_def transition_frame)

fun resolution_timely :: "approval_request_projection \<Rightarrow> approval_request_status \<Rightarrow> bool" where
  "resolution_timely r ApprovalRequestStatus_Waiting \<longleftrightarrow> True"
| "resolution_timely r (ApprovalRequestStatus_Resolved resolution at) \<longleftrightarrow>
    (case resolution of
       ApprovalResolution_Decision decision ApprovalDecisionSource_Human \<Rightarrow>
         (\<forall>deadline. arp_expires_at r = Some deadline \<longrightarrow> at < deadline)
     | ApprovalResolution_Decision decision ApprovalDecisionSource_Timeout \<Rightarrow>
         decision = ApprovalDecision_Rejected \<and> arp_on_timeout r = ApprovalTimeoutPolicy_Reject
         \<and> (\<exists>deadline. arp_expires_at r = Some deadline \<and> deadline \<le> at)
     | ApprovalResolution_TimeoutFailure \<Rightarrow>
         arp_on_timeout r = ApprovalTimeoutPolicy_Fail
         \<and> (\<exists>deadline. arp_expires_at r = Some deadline \<and> deadline \<le> at))"

definition approval_sound :: "string \<Rightarrow> approval_request_projection \<Rightarrow> bool" where
  "approval_sound k r \<longleftrightarrow> arp_approval_id r = k \<and> resolution_timely r (arp_status r)"

lemma approval_fresh_sound: "approval_fresh k r \<Longrightarrow> approval_sound k r"
  by (simp add: approval_fresh_def approval_sound_def)

lemma resolution_timely_cong:
  "arp_expires_at r' = arp_expires_at r \<Longrightarrow> arp_on_timeout r' = arp_on_timeout r \<Longrightarrow>
    resolution_timely r' s = resolution_timely r s"
  by (cases s) (simp_all split: approval_resolution.splits approval_decision_source.splits)

lemma allowed_timely:
  "resolution_allowed r event resolution = Inr () \<Longrightarrow>
    resolution_timely r (ApprovalRequestStatus_Resolved resolution (ev_occurred_at event))"
  by (auto simp: resolution_allowed_def deadline_reached_def is_some_and_iff ok_simps
      split: approval_resolution.splits approval_decision.splits approval_decision_source.splits if_splits)

lemma approval_moves_sound: "approval_moves r r' \<Longrightarrow> approval_sound k r \<Longrightarrow> approval_sound k r'"
proof (induction rule: approval_moves.induct)
  case (resolve r event resolution)
  then show ?case
    using allowed_timely [OF resolve(2)] resolution_timely_cong [of "r\<lparr>arp_status := _\<rparr>" r]
    by (simp add: approval_sound_def del: resolution_timely.simps)
qed

lemma resolved_approval_stays:
  "approval_moves\<^sup>*\<^sup>* r r' \<Longrightarrow> arp_status r \<noteq> ApprovalRequestStatus_Waiting \<Longrightarrow> r' = r"
  by (induction rule: rtranclp_induct) (auto elim: approval_movesE)

section \<open>Rich requests\<close>

definition rich_fresh :: "string \<Rightarrow> rich_approval_request_projection \<Rightarrow> bool" where
  "rich_fresh k r \<longleftrightarrow> rarp_approval_id r = k \<and> rarp_status r = RichApprovalRequestStatus_Waiting
    \<and> rarp_resolved_at r = None \<and> rarp_decisions r = bt_empty"

inductive rich_moves :: "rich_approval_request_projection \<Rightarrow> rich_approval_request_projection \<Rightarrow> bool" where
  decide: "rarp_status r = RichApprovalRequestStatus_Waiting \<Longrightarrow>
    bt_get (rarp_decisions r) (rardp_principal_id d) = None \<Longrightarrow>
    rich_moves r (r\<lparr>rarp_decisions := bt_insert (rardp_principal_id d) d (rarp_decisions r)\<rparr>)"
| progress: "rarp_status r = RichApprovalRequestStatus_Waiting \<Longrightarrow>
    rich_moves r (r\<lparr>rarp_represented_roles := roles\<rparr>)"
| conclude: "rarp_status r = RichApprovalRequestStatus_Waiting \<Longrightarrow>
    rich_moves r (r\<lparr>rarp_represented_roles := roles, rarp_status := rich_status_of reason,
      rarp_resolved_at := Some at\<rparr>)"

inductive_cases rich_movesE: "rich_moves r r'"

lemma rich_status_settled [simp]: "rich_status_of reason \<noteq> RichApprovalRequestStatus_Waiting"
  by (cases reason) simp_all

lemma rich_decision_step:
  assumes "apply_approval_reviewer_decision_recorded p e d = Inr q"
  shows "object_step rich_fresh rich_moves (p_rich_approval_requests p) (p_rich_approval_requests q)"
proof -
  let ?d = "\<lparr>rardp_principal_id = ardr_principal_id d, rardp_decision = ardr_decision d,
    rardp_decided_at = ev_occurred_at e\<rparr>"
  obtain r where r: "bt_get (p_rich_approval_requests p) (ardr_approval_id d) = Some r"
    "rarp_status r = RichApprovalRequestStatus_Waiting"
    "bt_get (rarp_decisions r) (rardp_principal_id ?d) = None"
    and q: "p_rich_approval_requests q = bt_insert (ardr_approval_id d)
      (r\<lparr>rarp_decisions := bt_insert (rardp_principal_id ?d) ?d (rarp_decisions r)\<rparr>)
      (p_rich_approval_requests p)"
    using assms by (auto simp: apply_approval_reviewer_decision_recorded_def ok_simps bt_contains_def)
  show ?thesis
    unfolding q by (rule object_step_move [where moves = rich_moves, OF r(1) decide [OF r(2,3)]])
qed

lemma rich_resolution_step:
  assumes "apply_rich_approval_resolved E p e d = Inr q"
  shows "object_step rich_fresh rich_moves (p_rich_approval_requests p) (p_rich_approval_requests q)"
proof -
  obtain r roles reason where r: "bt_get (p_rich_approval_requests p) (ares_approval_id d) = Some r"
    "rarp_status r = RichApprovalRequestStatus_Waiting"
    and q: "p_rich_approval_requests q = bt_insert (ares_approval_id d)
      (r\<lparr>rarp_represented_roles := roles, rarp_status := rich_status_of reason,
        rarp_resolved_at := Some (ev_occurred_at e)\<rparr>) (p_rich_approval_requests p)"
    using assms by (auto simp: apply_rich_approval_resolved_def ok_simps Let_def
        simp del: rich_status_of.simps split: if_splits)
  show ?thesis
    unfolding q by (rule object_step_move [where moves = rich_moves, OF r(1) conclude [OF r(2)]])
qed

interpretation rich_approval: keyed_lifecycle E Owner_Approvals p_rich_approval_requests rich_fresh rich_moves for E
proof unfold_locales
  fix state e q ix
  assume "apply_transition E state e = Inr (q, ix)" "event_owner e = Owner_Approvals"
  then show "object_step rich_fresh rich_moves (p_rich_approval_requests (fs_projection state))
      (p_rich_approval_requests q)"
  proof (cases rule: approvals_transitionE)
    case (ApprovalReviewRequested data)
    then show ?thesis
      by (auto simp: apply_approval_review_requested_def ok_simps rich_fresh_def intro!: object_step_insert)
  next
    case (ApprovalReviewerDecisionRecorded data)
    then show ?thesis by (intro rich_decision_step)
  next
    case (ApprovalQuorumProgressed data)
    then show ?thesis
      by (auto simp: apply_approval_quorum_progressed_def ok_simps intro!: object_step_move progress)
  next
    case (ApprovalResolved data)
    then show ?thesis
      by (auto simp: apply_approval_resolved_def apply_basic_approval_resolved_def ok_simps
          split: if_splits intro: rich_resolution_step object_step_refl)
  qed (auto simp: fold_approvals_defs ok_simps intro: object_step_refl)
qed (simp_all add: empty_projection_def transition_frame)

definition rich_sound :: "string \<Rightarrow> rich_approval_request_projection \<Rightarrow> bool" where
  "rich_sound k r \<longleftrightarrow> rarp_approval_id r = k
    \<and> (rarp_resolved_at r = None \<longleftrightarrow> rarp_status r = RichApprovalRequestStatus_Waiting)
    \<and> (\<forall>who d. bt_get (rarp_decisions r) who = Some d \<longrightarrow> rardp_principal_id d = who)"

lemma rich_fresh_sound: "rich_fresh k r \<Longrightarrow> rich_sound k r"
  by (simp add: rich_fresh_def rich_sound_def)

lemma rich_moves_sound: "rich_moves r r' \<Longrightarrow> rich_sound k r \<Longrightarrow> rich_sound k r'"
  by (induction rule: rich_moves.induct) (auto simp: rich_sound_def)

lemma resolved_rich_stays:
  "rich_moves\<^sup>*\<^sup>* r r' \<Longrightarrow> rarp_status r \<noteq> RichApprovalRequestStatus_Waiting \<Longrightarrow> r' = r"
  by (induction rule: rtranclp_induct) (auto elim: rich_movesE)

lemma reviewer_decision_stays:
  "rich_moves\<^sup>*\<^sup>* r r' \<Longrightarrow> bt_get (rarp_decisions r) who = Some d \<Longrightarrow>
    bt_get (rarp_decisions r') who = Some d"
  by (induction rule: rtranclp_induct) (auto elim!: rich_movesE)

definition review_subject :: "rich_approval_request_projection \<Rightarrow> string \<times> string \<times> u32 \<times> string list" where
  "review_subject r = (rarp_request_id r, rarp_review_digest r, rarp_required r, rarp_required_roles r)"

lemma review_subject_stays: "rich_moves\<^sup>*\<^sup>* r r' \<Longrightarrow> review_subject r' = review_subject r"
  by (induction rule: rtranclp_induct) (auto simp: review_subject_def elim!: rich_movesE)

end
