(* ===== verification/Notification_Lifecycle.thy ===== *)
theory Notification_Lifecycle
  imports Keyed_Lifecycle
begin

text \<open>
  Life cycles of notification deliveries and message updates: attempts are numbered from
  one to at most three, the next one follows a retryable failure that was not final, and
  a delivered notification is never attempted again.  At most one decision is accepted
  from the notifications of a run, over a delivery that succeeded; it blocks the decisions on
  every other approval.
\<close>

section \<open>Deliveries\<close>

definition delivery_fresh :: "string \<Rightarrow> notification_delivery_projection \<Rightarrow> bool" where
  "delivery_fresh k d \<longleftrightarrow> ndp_delivery_id d = k \<and> ndp_status d = NotificationDeliveryStatus_Requested"

inductive delivery_moves :: "notification_delivery_projection \<Rightarrow> notification_delivery_projection \<Rightarrow> bool" where
  first: "ndp_status d = NotificationDeliveryStatus_Requested \<Longrightarrow>
    delivery_moves d (d\<lparr>ndp_status := NotificationDeliveryStatus_AttemptStarted 1 attempt_id key\<rparr>)"
| retry: "ndp_status d = NotificationDeliveryStatus_Failed n prev_id False failure at \<Longrightarrow>
    nsf_retryable failure \<Longrightarrow> n + 1 \<le> 3 \<Longrightarrow>
    delivery_moves d (d\<lparr>ndp_status := NotificationDeliveryStatus_AttemptStarted (n + 1) attempt_id key\<rparr>)"
| deliver: "ndp_status d = NotificationDeliveryStatus_AttemptStarted n attempt_id key \<Longrightarrow>
    delivery_moves d (d\<lparr>ndp_status := NotificationDeliveryStatus_Succeeded n attempt_id msg\<rparr>)"
| fail: "ndp_status d = NotificationDeliveryStatus_AttemptStarted n attempt_id key \<Longrightarrow>
    (\<not> final \<longrightarrow> nsf_retryable failure \<and> n \<noteq> 3) \<Longrightarrow>
    delivery_moves d (d\<lparr>ndp_status := NotificationDeliveryStatus_Failed n attempt_id final failure at\<rparr>)"

inductive_cases delivery_movesE: "delivery_moves d d'"

lemma delivery_attempt_contract:
  assumes "validate_event E e = Inr ()" "ev_payload e = NotificationDeliveryAttemptStarted d"
  shows "1 \<le> ndas_attempt d \<and> ndas_attempt d \<le> 3"
  using assms(1) by (elim validate_event_ownedE; use assms(2) in
      \<open>auto simp: validate_notification_delivery_attempt_started_def ok_simps\<close>)

lemma delivery_failure_contract:
  assumes "validate_event E e = Inr ()" "ev_payload e = NotificationDeliveryFailed d"
  shows "\<not> ndf_final d \<longrightarrow> nsf_retryable (ndf_failure d) \<and> ndf_attempt d \<noteq> 3"
  using assms(1) by (elim validate_event_ownedE; use assms(2) in
      \<open>auto simp: validate_notification_delivery_failed_def ok_simps\<close>)

lemma delivery_attempt_step:
  assumes "apply_notification_delivery_attempt_started p d = Inr q"
    and "1 \<le> ndas_attempt d \<and> ndas_attempt d \<le> 3"
  shows "object_step delivery_fresh delivery_moves (p_notification_deliveries p) (p_notification_deliveries q)"
proof -
  obtain r where r: "bt_get (p_notification_deliveries p) (ndas_delivery_id d) = Some r"
    "ndas_attempt d = expected_delivery_attempt (ndp_status r)"
    and q: "p_notification_deliveries q = bt_insert (ndas_delivery_id d)
      (r\<lparr>ndp_status := NotificationDeliveryStatus_AttemptStarted (ndas_attempt d)
        (ndas_attempt_id d) (ndas_idempotency_key d)\<rparr>) (p_notification_deliveries p)"
    using assms(1) by (auto simp: apply_notification_delivery_attempt_started_def ok_simps split: if_splits)
  have "delivery_moves r (r\<lparr>ndp_status := NotificationDeliveryStatus_AttemptStarted (ndas_attempt d)
        (ndas_attempt_id d) (ndas_idempotency_key d)\<rparr>)"
    using r(2) assms(2)
    by (cases "ndp_status r") (auto intro: delivery_moves.first delivery_moves.retry split: if_splits)
  then show ?thesis
    unfolding q by (rule object_step_move [where moves = delivery_moves, OF r(1)])
qed

lemma delivery_attempt_activeE:
  assumes "delivery_attempt_active s n i"
  obtains key where "s = NotificationDeliveryStatus_AttemptStarted n i key"
  using assms by (cases s) auto

interpretation delivery: keyed_lifecycle E Owner_Notifications p_notification_deliveries delivery_fresh
  delivery_moves for E
proof unfold_locales
  fix state e q ix
  assume valid: "validate_event E e = Inr ()" and "apply_transition E state e = Inr (q, ix)"
    and "event_owner e = Owner_Notifications"
  from this(2,3) show "object_step delivery_fresh delivery_moves
      (p_notification_deliveries (fs_projection state)) (p_notification_deliveries q)"
  proof (cases rule: notifications_transitionE)
    case (NotificationDeliveryRequested data)
    then show ?thesis
      by (auto simp: apply_notification_delivery_requested_def ok_simps delivery_fresh_def
          split: if_splits intro!: object_step_insert)
  next
    case (NotificationDeliveryAttemptStarted data)
    then show ?thesis
      using delivery_attempt_contract [OF valid NotificationDeliveryAttemptStarted(1)]
      by (intro delivery_attempt_step)
  next
    case (NotificationDeliverySucceeded data)
    then show ?thesis
      by (auto simp: apply_notification_delivery_succeeded_def ok_simps elim!: delivery_attempt_activeE
          intro!: object_step_move intro: deliver)
  next
    case (NotificationDeliveryFailed data)
    then show ?thesis
      using delivery_failure_contract [OF valid NotificationDeliveryFailed(1)]
      by (auto simp: apply_notification_delivery_failed_def ok_simps elim!: delivery_attempt_activeE
          intro!: object_step_move intro: fail)
  qed (auto simp: fold_notifications_defs ok_simps split: if_splits intro: object_step_refl)
qed (simp_all add: empty_projection_def transition_frame)

fun delivery_attempts :: "notification_delivery_status \<Rightarrow> nat" where
  "delivery_attempts NotificationDeliveryStatus_Requested = 0"
| "delivery_attempts (NotificationDeliveryStatus_AttemptStarted n _ _) = unat n"
| "delivery_attempts (NotificationDeliveryStatus_Succeeded n _ _) = unat n"
| "delivery_attempts (NotificationDeliveryStatus_Failed n _ _ _ _) = unat n"

fun delivery_closed :: "notification_delivery_status \<Rightarrow> bool" where
  "delivery_closed (NotificationDeliveryStatus_Succeeded _ _ _) = True"
| "delivery_closed (NotificationDeliveryStatus_Failed _ _ final _ _) = final"
| "delivery_closed _ = False"

definition delivery_sound :: "string \<Rightarrow> notification_delivery_projection \<Rightarrow> bool" where
  "delivery_sound k d \<longleftrightarrow> ndp_delivery_id d = k \<and> delivery_attempts (ndp_status d) \<le> 3"

lemma delivery_fresh_sound: "delivery_fresh k d \<Longrightarrow> delivery_sound k d"
  by (simp add: delivery_fresh_def delivery_sound_def)

lemma unat_le_3: "(n :: u32) \<le> 3 \<Longrightarrow> unat n \<le> 3"
  by (simp add: word_le_nat_alt)

lemma delivery_moves_sound: "delivery_moves d d' \<Longrightarrow> delivery_sound k d \<Longrightarrow> delivery_sound k d'"
  by (induction rule: delivery_moves.induct) (auto simp: delivery_sound_def unat_le_3)

lemma closed_delivery_stays:
  "delivery_moves\<^sup>*\<^sup>* d d' \<Longrightarrow> delivery_closed (ndp_status d) \<Longrightarrow> d' = d"
  by (induction rule: rtranclp_induct) (auto elim: delivery_movesE)

section \<open>Message updates\<close>

definition update_fresh :: "string \<Rightarrow> notification_message_update_projection \<Rightarrow> bool" where
  "update_fresh k u \<longleftrightarrow> nmup_delivery_id u = k \<and> nmup_status u = NotificationMessageUpdateStatus_Requested"

inductive update_moves ::
  "notification_message_update_projection \<Rightarrow> notification_message_update_projection \<Rightarrow> bool" where
  attempt: "n = expected_update_attempt (nmup_status u) \<Longrightarrow> 1 \<le> n \<Longrightarrow> n \<le> 3 \<Longrightarrow>
    update_moves u (u\<lparr>nmup_status := NotificationMessageUpdateStatus_AttemptStarted n attempt_id\<rparr>)"
| updated: "nmup_status u = NotificationMessageUpdateStatus_AttemptStarted n attempt_id \<Longrightarrow>
    update_moves u (u\<lparr>nmup_status := NotificationMessageUpdateStatus_Updated n attempt_id\<rparr>)"
| failed: "nmup_status u = NotificationMessageUpdateStatus_AttemptStarted n attempt_id \<Longrightarrow>
    update_moves u (u\<lparr>nmup_status := NotificationMessageUpdateStatus_Failed n attempt_id final failure at\<rparr>)"

inductive_cases update_movesE: "update_moves u u'"

lemma update_attempt_contract:
  assumes "validate_event E e = Inr ()" "ev_payload e = NotificationMessageUpdateAttemptStarted d"
  shows "1 \<le> nmuas_attempt d \<and> nmuas_attempt d \<le> 3"
  using assms(1) by (elim validate_event_ownedE; use assms(2) in
      \<open>auto simp: validate_notification_message_update_attempt_def ok_simps\<close>)

lemma update_attempt_activeE:
  assumes "update_attempt_active s n i"
  obtains "s = NotificationMessageUpdateStatus_AttemptStarted n i"
  using assms by (cases s) auto

interpretation message_update: keyed_lifecycle E Owner_Notifications p_notification_updates update_fresh
  update_moves for E
proof unfold_locales
  fix state e q ix
  assume valid: "validate_event E e = Inr ()" and "apply_transition E state e = Inr (q, ix)"
    and "event_owner e = Owner_Notifications"
  from this(2,3) show "object_step update_fresh update_moves
      (p_notification_updates (fs_projection state)) (p_notification_updates q)"
  proof (cases rule: notifications_transitionE)
    case (NotificationMessageUpdateRequested data)
    then show ?thesis
      by (auto simp: apply_notification_message_update_requested_def ok_simps update_fresh_def
          split: if_splits intro!: object_step_insert)
  next
    case (NotificationMessageUpdateAttemptStarted data)
    then show ?thesis
      using update_attempt_contract [OF valid NotificationMessageUpdateAttemptStarted(1)]
      by (auto simp: apply_notification_message_update_attempt_started_def ok_simps
          intro!: object_step_move intro: attempt)
  next
    case (NotificationMessageUpdated data)
    then show ?thesis
      by (auto simp: apply_notification_message_updated_def ok_simps elim!: update_attempt_activeE
          intro!: object_step_move intro: updated)
  next
    case (NotificationMessageUpdateFailed data)
    then show ?thesis
      by (auto simp: apply_notification_message_update_failed_def ok_simps elim!: update_attempt_activeE
          intro!: object_step_move intro: failed)
  qed (auto simp: fold_notifications_defs ok_simps split: if_splits intro: object_step_refl)
qed (simp_all add: empty_projection_def transition_frame)

fun update_attempts :: "notification_message_update_status \<Rightarrow> nat" where
  "update_attempts NotificationMessageUpdateStatus_Requested = 0"
| "update_attempts (NotificationMessageUpdateStatus_AttemptStarted n _) = unat n"
| "update_attempts (NotificationMessageUpdateStatus_Updated n _) = unat n"
| "update_attempts (NotificationMessageUpdateStatus_Failed n _ _ _ _) = unat n"

definition update_sound :: "string \<Rightarrow> notification_message_update_projection \<Rightarrow> bool" where
  "update_sound k u \<longleftrightarrow> nmup_delivery_id u = k \<and> update_attempts (nmup_status u) \<le> 3"

lemma update_fresh_sound: "update_fresh k u \<Longrightarrow> update_sound k u"
  by (simp add: update_fresh_def update_sound_def)

lemma update_moves_sound: "update_moves u u' \<Longrightarrow> update_sound k u \<Longrightarrow> update_sound k u'"
  by (induction rule: update_moves.induct) (auto simp: update_sound_def unat_le_3)

section \<open>Decisions\<close>

text \<open>The delivery that carried a decision back.\<close>

definition carried_by :: "notification_decision_accepted_data \<Rightarrow> notification_delivery_projection \<Rightarrow> bool" where
  "carried_by d r \<longleftrightarrow> delivery_succeeded (ndp_status r) \<and> ndp_approval_id r = ndac_approval_id d
    \<and> ndp_request_id r = ndac_request_id d"

definition decisions_sound :: "run_projection \<Rightarrow> bool" where
  "decisions_sound p \<longleftrightarrow> length (p_notification_decisions p) \<le> 1
    \<and> (\<forall>d \<in> set (p_notification_decisions p).
        \<exists>r. bt_get (p_notification_deliveries p) (ndac_delivery_id d) = Some r \<and> carried_by d r)"

lemma succeeded_closed: "delivery_succeeded s \<Longrightarrow> delivery_closed s"
  by (cases s) simp_all

lemma carried_kept:
  assumes "object_step delivery_fresh delivery_moves m m'"
    and "bt_get m k = Some r" "carried_by d r"
  shows "\<exists>r. bt_get m' k = Some r \<and> carried_by d r"
proof -
  obtain r' where "bt_get m' k = Some r'" "delivery_moves\<^sup>*\<^sup>* r r'"
    using object_step_keeps [OF assms(1,2)] by blast
  moreover from this(2) have "r' = r"
    using assms(3) by (intro closed_delivery_stays) (simp_all add: carried_by_def succeeded_closed)
  ultimately show ?thesis using assms(3) by blast
qed

lemma decisions_transition:
  assumes "apply_transition E state e = Inr (q, ix)" "event_owner e = Owner_Notifications"
  shows "p_notification_decisions q = p_notification_decisions (fs_projection state)
    \<or> (\<exists>d r. p_notification_decisions (fs_projection state) = [] \<and> p_notification_decisions q = [d]
        \<and> bt_get (p_notification_deliveries q) (ndac_delivery_id d) = Some r \<and> carried_by d r)"
  using assms
  by (cases rule: notifications_transitionE)
    (auto simp: fold_notifications_defs carried_by_def ok_simps split: if_splits)

interpretation decision: projection_invariant E "\<lambda>p _. decisions_sound p" for E
proof unfold_locales
  fix state e q and ix :: attempt_indexes
  assume gate: "gate_open E state e" and inv: "decisions_sound (fs_projection state)"
    and step: "apply_transition E state e = Inr (q, ix)"
  have kept: "\<exists>r. bt_get (p_notification_deliveries q) (ndac_delivery_id d) = Some r \<and> carried_by d r"
    if "d \<in> set (p_notification_decisions (fs_projection state))" for d
    using inv that carried_kept [OF delivery.transition_step [OF gate step]]
    unfolding decisions_sound_def by blast
  show "decisions_sound q"
  proof (cases "event_owner e = Owner_Notifications")
    case True
    then show ?thesis
      using decisions_transition [OF step True] kept inv unfolding decisions_sound_def by auto
  next
    case False
    then show ?thesis
      using kept inv by (simp add: decisions_sound_def transition_frame [OF step])
  qed
qed (simp_all add: decisions_sound_def empty_projection_def)

text \<open>An accepted decision stays, and while there is one no other is accepted.\<close>

lemma decisions_kept:
  assumes "from_events E xs = Inr state" "from_events E (xs @ ys) = Inr state'"
  shows "set (p_notification_decisions (fs_projection state)) \<subseteq> set (p_notification_decisions (fs_projection state'))"
  using assms(2)
proof (induction ys arbitrary: state' rule: rev_induct)
  case Nil
  then show ?case using assms(1) by simp
next
  case (snoc e ys)
  then have "from_events E ((xs @ ys) @ [e]) = Inr state'" by simp
  then obtain mid where mid: "from_events E (xs @ ys) = Inr mid" "apply_event E mid e = Inr state'"
    by (rule from_events_snocE)
  from mid(2) have "set (p_notification_decisions (fs_projection mid)) \<subseteq> set (p_notification_decisions (fs_projection state'))"
  proof (cases rule: apply_eventE)
    case (1 q ix)
    then show ?thesis
      using decisions_transition [OF 1(2)] transition_frame [OF 1(2)]
      by (cases "event_owner e = Owner_Notifications") auto
  qed
  with snoc.IH [OF mid(1)] show ?case by blast
qed

lemma decision_refused:
  assumes "apply_event E state e = Inr state'" "ev_payload e = NotificationDecisionAccepted d"
  shows "p_notification_decisions (fs_projection state) = []"
  using assms(1)
proof (cases rule: apply_eventE)
  case (1 q ix)
  have "\<not> may_be_scoped (ev_payload e)"
    using assms(2) by (simp add: may_be_scoped_def payload_class_defs is_scoped_work_def is_compensation_registered_def)
  then have "ev_iteration e = None"
    using 1(1) scoped_payload unfolding gate_open_def by blast
  then show ?thesis
    using 1(2) assms(2)
    by (auto simp: apply_transition_def keep_indexes_def apply_notification_decision_accepted_def ok_simps
        split: if_splits)
qed

end
