(* ===== verification/Hook_Lifecycle.thy ===== *)
theory Hook_Lifecycle
  imports Keyed_Lifecycle
begin

text \<open>
  Life cycles of lifecycle hooks and of the hooks of reusable definitions: at most one
  action of a hook is active, every action runs once, failures are counted, and a hook
  completes without an active action, with warnings exactly when an action failed.
\<close>

section \<open>Hooks\<close>

definition hook_fresh :: "string \<Rightarrow> lifecycle_hook_projection \<Rightarrow> bool" where
  "hook_fresh k h \<longleftrightarrow> lhp_hook_invocation_id h = k \<and> lhp_status h = LifecycleHookStatus_Requested
    \<and> lhp_actions h = bt_empty \<and> lhp_failed_actions h = 0"

definition action_running :: "lifecycle_hook_projection \<Rightarrow> string \<Rightarrow> bool" where
  "action_running h a \<longleftrightarrow>
    (\<exists>x. bt_get (lhp_actions h) a = Some x \<and> lap_status x = LifecycleActionStatus_Started)"

inductive hook_moves :: "lifecycle_hook_projection \<Rightarrow> lifecycle_hook_projection \<Rightarrow> bool" where
  start: "\<not> hook_completed h \<Longrightarrow> bt_get (lhp_actions h) a = None \<Longrightarrow> (\<forall>b. \<not> action_running h b) \<Longrightarrow>
    lap_status x = LifecycleActionStatus_Started \<Longrightarrow>
    hook_moves h (h\<lparr>lhp_actions := bt_insert a x (lhp_actions h), lhp_status := LifecycleHookStatus_Running\<rparr>)"
| succeed: "bt_get (lhp_actions h) a = Some x \<Longrightarrow> lap_status x = LifecycleActionStatus_Started \<Longrightarrow>
    hook_moves h (h\<lparr>lhp_actions :=
      bt_insert a (x\<lparr>lap_status := LifecycleActionStatus_Succeeded\<rparr>) (lhp_actions h)\<rparr>)"
| fail: "bt_get (lhp_actions h) a = Some x \<Longrightarrow> lap_status x = LifecycleActionStatus_Started \<Longrightarrow>
    hook_moves h (h\<lparr>lhp_actions :=
      bt_insert a (x\<lparr>lap_status := LifecycleActionStatus_Failed, lap_failure := Some failure\<rparr>) (lhp_actions h),
      lhp_failed_actions := lhp_failed_actions h + 1\<rparr>)"
| complete: "\<not> hook_completed h \<Longrightarrow> (\<forall>b. \<not> action_running h b) \<Longrightarrow>
    status = (if lhp_failed_actions h = 0 then LifecycleHookStatus_Completed
      else LifecycleHookStatus_CompletedWithWarnings) \<Longrightarrow>
    hook_moves h (h\<lparr>lhp_status := status\<rparr>)"

inductive_cases hook_movesE: "hook_moves h h'"

lemma no_running_action_iff: "\<not> hook_has_active_action h \<longleftrightarrow> (\<forall>b. \<not> action_running h b)"
  by (auto simp: hook_has_active_action_def action_running_def list_ex_iff in_bt_values_iff)

lemma hook_completion_contract:
  assumes "validate_event E e = Inr ()" "ev_payload e = LifecycleHookCompleted d"
  shows "hook_status_of (lhc_status d) = (if lhc_failed_actions d = 0 then LifecycleHookStatus_Completed
      else LifecycleHookStatus_CompletedWithWarnings)"
  using assms(1) by (elim validate_event_ownedE; use assms(2) in
      \<open>cases "lhc_status d"; auto simp: validate_lifecycle_hook_completed_def ok_simps\<close>)

lemma started_action_status [simp]: "lap_status (started_action d) = LifecycleActionStatus_Started"
  by (simp add: started_action_def)

interpretation hook: keyed_lifecycle E Owner_Hooks p_lifecycle_hooks hook_fresh hook_moves for E
proof unfold_locales
  fix state e q ix
  assume valid: "validate_event E e = Inr ()" and "apply_transition E state e = Inr (q, ix)"
    and "event_owner e = Owner_Hooks"
  from this(2,3) show "object_step hook_fresh hook_moves (p_lifecycle_hooks (fs_projection state)) (p_lifecycle_hooks q)"
  proof (cases rule: hooks_transitionE)
    case (LifecycleHookRequested data)
    then show ?thesis
      by (auto simp: apply_lifecycle_hook_requested_def ok_simps hook_fresh_def requested_hook_def
          split: if_splits intro!: object_step_insert)
  next
    case (LifecycleActionAttemptStarted data)
    then show ?thesis
      by (auto simp: apply_lifecycle_action_attempt_started_def ok_simps bt_contains_def no_running_action_iff
          intro!: object_step_move start)
  next
    case (LifecycleActionSucceeded data)
    then show ?thesis
      by (auto simp: apply_lifecycle_action_succeeded_def ok_simps intro!: object_step_move succeed)
  next
    case (LifecycleActionFailed data)
    then show ?thesis
      by (auto simp: apply_lifecycle_action_failed_def ok_simps intro!: object_step_move fail)
  next
    case (LifecycleHookCompleted data)
    then show ?thesis
      using hook_completion_contract [OF valid LifecycleHookCompleted(1)]
      by (auto simp: apply_lifecycle_hook_completed_def ok_simps no_running_action_iff
          intro!: object_step_move complete)
  qed (auto simp: fold_lifecycle_defs ok_simps Let_def split: if_splits intro: object_step_refl)
qed (simp_all add: empty_projection_def transition_frame)

definition failed_keys :: "lifecycle_hook_projection \<Rightarrow> string set" where
  "failed_keys h =
    {a. \<exists>x. bt_get (lhp_actions h) a = Some x \<and> lap_status x = LifecycleActionStatus_Failed}"

definition hook_sound :: "string \<Rightarrow> lifecycle_hook_projection \<Rightarrow> bool" where
  "hook_sound k h \<longleftrightarrow> lhp_hook_invocation_id h = k
    \<and> (\<forall>a b. action_running h a \<longrightarrow> action_running h b \<longrightarrow> a = b)
    \<and> lhp_failed_actions h = of_nat (card (failed_keys h))
    \<and> (hook_completed h \<longrightarrow> (\<forall>a. \<not> action_running h a)
        \<and> (lhp_status h = LifecycleHookStatus_Completed \<longleftrightarrow> lhp_failed_actions h = 0))"

lemma hook_fresh_sound: "hook_fresh k h \<Longrightarrow> hook_sound k h"
  by (simp add: hook_fresh_def hook_sound_def action_running_def failed_keys_def hook_completed_def)

lemma finite_failed_keys: "finite (failed_keys h)"
  by (rule finite_subset [OF _ bt.finite_dom_get [of "lhp_actions h"]]) (auto simp: failed_keys_def)

lemma running_not_completed: "hook_sound k h \<Longrightarrow> action_running h a \<Longrightarrow> \<not> hook_completed h"
  by (auto simp: hook_sound_def)

lemma failed_keys_insert:
  "failed_keys (h\<lparr>lhp_actions := bt_insert a x (lhp_actions h)\<rparr>) =
    (if lap_status x = LifecycleActionStatus_Failed then insert a (failed_keys h) else failed_keys h - {a})"
  by (auto simp: failed_keys_def)

lemma action_running_insert:
  "action_running (h\<lparr>lhp_actions := bt_insert a x (lhp_actions h)\<rparr>) b \<longleftrightarrow>
    (if b = a then lap_status x = LifecycleActionStatus_Started else action_running h b)"
  by (auto simp: action_running_def)

lemma hook_cong [simp]:
  "failed_keys (h\<lparr>lhp_status := s\<rparr>) = failed_keys h"
  "failed_keys (h\<lparr>lhp_failed_actions := n\<rparr>) = failed_keys h"
  "action_running (h\<lparr>lhp_status := s\<rparr>) a = action_running h a"
  "action_running (h\<lparr>lhp_failed_actions := n\<rparr>) a = action_running h a"
  by (simp_all add: failed_keys_def action_running_def)

lemma hook_moves_sound: "hook_moves h h' \<Longrightarrow> hook_sound k h \<Longrightarrow> hook_sound k h'"
proof (induction rule: hook_moves.induct)
  case (start h a x)
  have "failed_keys h - {a} = failed_keys h"
    using start(2) by (auto simp: failed_keys_def)
  with start show ?case
    by (auto simp: hook_sound_def failed_keys_insert action_running_insert hook_completed_def)
next
  case (succeed h a x)
  have run: "action_running h a" using succeed by (auto simp: action_running_def)
  have "failed_keys h - {a} = failed_keys h"
    using succeed(1,2) by (auto simp: failed_keys_def)
  with succeed running_not_completed [OF succeed(3) run] run show ?case
    by (auto simp: hook_sound_def failed_keys_insert action_running_insert hook_completed_def)
next
  case (fail h a x failure)
  have run: "action_running h a" using fail by (auto simp: action_running_def)
  have "a \<notin> failed_keys h" using fail(1,2) by (auto simp: failed_keys_def)
  with fail running_not_completed [OF fail(3) run] run finite_failed_keys [of h] show ?case
    by (auto simp: hook_sound_def failed_keys_insert action_running_insert hook_completed_def)
next
  case (complete h status)
  then show ?case by (auto simp: hook_sound_def hook_completed_def)
qed

lemma completed_hook_frozen:
  assumes "hook_moves h h'" "hook_sound k h" "hook_completed h"
  shows False
  using assms(1)
  by (cases rule: hook_moves.cases)
    (use assms(2,3) in \<open>auto simp: hook_sound_def action_running_def\<close>)

lemma completed_hook_stays:
  assumes "hook_moves\<^sup>*\<^sup>* h h'" "hook_sound k h" "hook_completed h"
  shows "h' = h"
  using assms by (cases rule: converse_rtranclpE) (auto dest: completed_hook_frozen)

definition action_settled :: "lifecycle_action_projection \<Rightarrow> bool" where
  "action_settled x \<longleftrightarrow> lap_status x \<noteq> LifecycleActionStatus_Started"

lemma settled_action_stays:
  assumes "hook_moves\<^sup>*\<^sup>* h h'" "bt_get (lhp_actions h) a = Some x" "action_settled x"
  shows "bt_get (lhp_actions h') a = Some x"
  using assms by (induction rule: rtranclp_induct) (auto simp: action_settled_def elim!: hook_movesE)

section \<open>Hooks of reusable definitions\<close>

lemma reusable_key_inject: "reusable_key i h = reusable_key j g \<longleftrightarrow> i = j \<and> h = g"
proof
  assume eq: "reusable_key i h = reusable_key j g"
  then have "last (reusable_key i h) = last (reusable_key j g)" by simp
  then have "h = g" by (cases h; cases g) (simp_all add: reusable_key_def)
  with eq show "i = j \<and> h = g" by (simp add: reusable_key_def)
qed simp

definition reusable_fresh :: "string \<Rightarrow> reusable_lifecycle_projection \<Rightarrow> bool" where
  "reusable_fresh k h \<longleftrightarrow> k = reusable_key (rlp_invocation_id h) (rlp_hook h)
    \<and> rlp_status h = ReusableLifecycleStatus_Requested \<and> rlp_active_action_id h = None
    \<and> rlp_completed_action_ids h = [] \<and> rlp_warning_codes h = []"

inductive reusable_moves :: "reusable_lifecycle_projection \<Rightarrow> reusable_lifecycle_projection \<Rightarrow> bool" where
  begin_action: "rlp_active_action_id h = None \<Longrightarrow> a \<notin> set (rlp_completed_action_ids h) \<Longrightarrow>
    reusable_moves h (h\<lparr>rlp_active_action_id := Some a, rlp_status := ReusableLifecycleStatus_Running\<rparr>)"
| end_action: "rlp_active_action_id h = Some a \<Longrightarrow>
    reusable_moves h (h\<lparr>rlp_active_action_id := None,
      rlp_completed_action_ids := rlp_completed_action_ids h @ [a]\<rparr>)"
| warn: "\<forall>b. rlp_active_action_id h = Some b \<longrightarrow> b = a \<Longrightarrow>
    a \<notin> set (rlp_completed_action_ids h) \<Longrightarrow>
    reusable_moves h (h\<lparr>rlp_active_action_id := None,
      rlp_completed_action_ids := rlp_completed_action_ids h @ [a],
      rlp_warning_codes := rlp_warning_codes h @ [w]\<rparr>)"
| finish: "rlp_active_action_id h = None \<Longrightarrow>
    reusable_moves h (h\<lparr>rlp_status := reusable_status_of outcome\<rparr>)"

interpretation reusable_hook: keyed_lifecycle E Owner_Hooks p_reusable_lifecycle_hooks reusable_fresh
  reusable_moves for E
proof unfold_locales
  fix state e q ix
  assume "apply_transition E state e = Inr (q, ix)" "event_owner e = Owner_Hooks"
  then show "object_step reusable_fresh reusable_moves (p_reusable_lifecycle_hooks (fs_projection state))
      (p_reusable_lifecycle_hooks q)"
  proof (cases rule: hooks_transitionE)
    case (ReusableLifecycleRequested data)
    then show ?thesis
      by (auto simp: apply_reusable_lifecycle_requested_def ok_simps Let_def reusable_fresh_def
          requested_reusable_def split: if_splits intro!: object_step_insert)
  next
    case (ReusableLifecycleActionStarted data)
    then show ?thesis
      by (auto simp: apply_reusable_lifecycle_action_started_def ok_simps Let_def
          intro!: object_step_move begin_action)
  next
    case (ReusableLifecycleActionSucceeded data)
    then show ?thesis
      by (auto simp: apply_reusable_lifecycle_action_succeeded_def ok_simps Let_def
          intro!: object_step_move end_action)
  next
    case (ReusableLifecycleActionFailed data)
    then show ?thesis
      by (auto simp: apply_reusable_lifecycle_action_failed_def ok_simps Let_def is_some_and_iff
          intro!: object_step_move warn)
  next
    case (ReusableLifecycleCompleted data)
    then show ?thesis
      by (auto simp: apply_reusable_lifecycle_completed_def ok_simps Let_def
          intro!: object_step_move finish)
  qed (auto simp: fold_lifecycle_defs ok_simps split: if_splits intro: object_step_refl)
qed (simp_all add: empty_projection_def transition_frame)

definition reusable_sound :: "string \<Rightarrow> reusable_lifecycle_projection \<Rightarrow> bool" where
  "reusable_sound k h \<longleftrightarrow> k = reusable_key (rlp_invocation_id h) (rlp_hook h)
    \<and> distinct (rlp_completed_action_ids h)
    \<and> (\<forall>a. rlp_active_action_id h = Some a \<longrightarrow> a \<notin> set (rlp_completed_action_ids h))
    \<and> length (rlp_warning_codes h) \<le> length (rlp_completed_action_ids h)"

lemma reusable_fresh_sound: "reusable_fresh k h \<Longrightarrow> reusable_sound k h"
  by (simp add: reusable_fresh_def reusable_sound_def)

lemma reusable_moves_sound: "reusable_moves h h' \<Longrightarrow> reusable_sound k h \<Longrightarrow> reusable_sound k h'"
  by (induction rule: reusable_moves.induct) (auto simp: reusable_sound_def)

end
