(* ===== verification/Sample_Histories.thy ===== *)
theory Sample_Histories
  imports Projection_Fold
begin

text \<open>
  Concrete histories that fold, with concrete third-party functions: inputs at which the
  theorems about histories apply.
\<close>

section \<open>Building blocks\<close>

definition sample_externals :: externals where
  "sample_externals =
    \<lparr>sha256_hex = (\<lambda>_. replicate 64 (CHR ''0'')),
     canonical_json = (\<lambda>_. Some ''{}''),
     json_to_vec = (\<lambda>_. Some ''{}''),
     policy_decision_to_vec = (\<lambda>_. Some ''{}''),
     rfc3339_millis = (\<lambda>_. ''2026-01-01T00:00:00.000Z'')\<rparr>"

definition sample_digest :: string where
  "sample_digest = ''sha256:'' @ replicate 64 (CHR ''0'')"

definition sample_event :: "u32 \<Rightarrow> string \<Rightarrow> u64 \<Rightarrow> run_event_payload \<Rightarrow> run_event" where
  "sample_event v event_id sequence payload =
    \<lparr>ev_event_schema_version = v, ev_event_id = event_id, ev_run_id = ''r'', ev_sequence = sequence,
     ev_occurred_at = int (unat sequence), ev_iteration = None, ev_payload = payload\<rparr>"

definition sample_admission :: run_event_payload where
  "sample_admission = RunAdmitted
    \<lparr>radm_definition_hash = sample_digest, radm_policy_hash = sample_digest,
     radm_trigger = \<lparr>rat_id = ''m'', rat_handler = ''trigger.manual''\<rparr>,
     radm_payload = [],
     radm_queue = \<lparr>raq_name = ''q'', raq_discipline = QueueDiscipline_WorkConservingFifo\<rparr>,
     radm_admitted_at = 1, radm_occurrence_sequence = 1\<rparr>"

definition sample_execution :: run_event_payload where
  "sample_execution = RunExecutionStarted \<lparr>res_started_at = 2, res_timeout_at = None\<rparr>"

definition sample_failure :: attempt_failure where
  "sample_failure =
    \<lparr>af_kind = AttemptFailureKind_ScriptThrew, af_code = attempt_failure_code AttemptFailureKind_ScriptThrew,
     af_message = ''x'', af_details = None, af_capability = None, af_operation = None, af_call_id = None,
     af_retryable = None, af_ambiguous = None, af_cause = None\<rparr>"

definition sample_attempt :: "u32 \<Rightarrow> string \<Rightarrow> run_event_payload" where
  "sample_attempt n invocation_id = StepAttemptStarted
    \<lparr>sast_node_id = ''s'', sast_attempt = n, sast_invocation_id = invocation_id, sast_handler = ''h'',
     sast_idempotency_key = Some sample_digest\<rparr>"

section \<open>A run that retries a step and succeeds\<close>

definition running_history :: "run_event list" where
  "running_history =
    [sample_event 11 ''1'' 1 sample_admission,
     sample_event 11 ''2'' 2 sample_execution,
     sample_event 11 ''3'' 3 (sample_attempt 1 ''i''),
     sample_event 11 ''4'' 4 (StepAttemptFailed
       \<lparr>saf_node_id = ''s'', saf_attempt = 1, saf_invocation_id = ''i'', saf_failure = sample_failure\<rparr>),
     sample_event 11 ''5'' 5 (StepRetryScheduled
       \<lparr>srs_node_id = ''s'', srs_failed_attempt = 1, srs_next_attempt = 2, srs_scheduled_at = 6\<rparr>),
     sample_event 11 ''6'' 6 (sample_attempt 2 ''j'')]"

definition finishing_events :: "run_event list" where
  "finishing_events =
    [sample_event 11 ''7'' 7 (StepAttemptSucceeded
       \<lparr>sasu_node_id = ''s'', sasu_attempt = 2, sasu_invocation_id = ''j'', sasu_output = JNull\<rparr>),
     sample_event 11 ''8'' 8 (RunOutcomeDecided (RunOutcomeDecidedData_Succeeded JNull)),
     sample_event 11 ''9'' 9 (RunFinalized
       \<lparr>rfin_outcome = BusinessOutcome_Succeeded, rfin_lifecycle_status = FinalLifecycleStatus_Completed,
        rfin_warnings = []\<rparr>)]"

section \<open>A run that loses a lease after its outcome\<close>

definition locked_history :: "run_event list" where
  "locked_history =
    [sample_event 17 ''1'' 1 sample_admission,
     sample_event 17 ''2'' 2 sample_execution,
     sample_event 17 ''3'' 3 (LockWaitRegistered
       \<lparr>lwr_lock_id = ''l'', lwr_key = ''k'', lwr_waiter_sequence = 1, lwr_registered_at = 3,
        lwr_deadline = 9, lwr_execution_identity = ''x''\<rparr>),
     sample_event 17 ''4'' 4 (LockAcquired
       \<lparr>lacq_lock_id = ''l'', lacq_key = ''k'', lacq_lease_id = ''lease_1'', lacq_fencing_token = ''1'',
        lacq_acquired_at = 4, lacq_expires_at = 6, lacq_execution_identity = ''x''\<rparr>),
     sample_event 17 ''5'' 5 (RunOutcomeDecided (RunOutcomeDecidedData_Failed
       \<lparr>lf_kind = LifecycleFailureKind_ScriptThrew, lf_code = ''WOML_X'', lf_message = ''x''\<rparr>))]"

definition lease_lost_event :: run_event where
  "lease_lost_event = sample_event 17 ''6'' 6 (LockLeaseLost
    \<lparr>lll_lock_id = ''l'', lll_key = ''k'', lll_lease_id = ''lease_1'', lll_fencing_token = ''1'',
     lll_expired_at = 6, lll_detected_at = 6, lll_ambiguous = False\<rparr>)"

section \<open>Evaluation\<close>

named_theorems evaluate \<open>definitions the samples evaluate\<close>

lemma sample_digest_valid [evaluate]: "valid_sha256 sample_digest" "is_definition_hash sample_digest"
  by (code_simp, code_simp)

lemma sample_text_valid [evaluate]: "is_trimmed ''k''" "\<not> has_control ''k''" "valid_fencing_token ''1''"
  by (simp_all add: is_trimmed_def begins_with_whitespace_def ends_with_whitespace_def
      whitespace_encodings_def strip_suffix_def has_control_def byte_def valid_fencing_token_def
      is_ascii_digit_def starts_with_def parse_u64_def digits_value_def digit_value_def)

lemma empty_projection_fields [evaluate]:
  "p_event_schema_version empty_projection = None"
  "p_run_id empty_projection = None"
  "p_workflow_id empty_projection = None"
  "p_definition_hash empty_projection = None"
  "p_policy_hash empty_projection = None"
  "p_queue empty_projection = None"
  "p_occurrence_sequence empty_projection = None"
  "p_admitted_at empty_projection = None"
  "p_started_at empty_projection = None"
  "p_timeout_at empty_projection = None"
  "p_timeout_reached_at empty_projection = None"
  "p_trigger_id empty_projection = None"
  "p_trigger_handler empty_projection = None"
  "p_trigger_occurrence_id empty_projection = None"
  "p_ingress empty_projection = None"
  "p_status empty_projection = RunStatus_NotStarted"
  "p_business_outcome empty_projection = None"
  "p_lifecycle_status empty_projection = LifecycleStatus_Idle"
  "p_cancellation_request_id empty_projection = None"
  "p_lifecycle_hooks empty_projection = bt_empty"
  "p_reusable_lifecycle_hooks empty_projection = bt_empty"
  "p_lifecycle_warnings empty_projection = []"
  "p_context empty_projection = empty_context"
  "p_attempts empty_projection = []"
  "p_infrastructure_policy_decisions empty_projection = []"
  "p_operations empty_projection = bt_empty"
  "p_pending_retries empty_projection = bt_empty"
  "p_branch_selections empty_projection = bt_empty"
  "p_choice_selections empty_projection = bt_empty"
  "p_parallel_groups empty_projection = bt_empty"
  "p_forks empty_projection = bt_empty"
  "p_for_each empty_projection = bt_empty"
  "p_approval_requests empty_projection = bt_empty"
  "p_rich_approval_requests empty_projection = bt_empty"
  "p_durable_waits empty_projection = bt_empty"
  "p_locks empty_projection = bt_empty"
  "p_sagas empty_projection = bt_empty"
  "p_external_signals empty_projection = []"
  "p_notification_deliveries empty_projection = bt_empty"
  "p_notification_updates empty_projection = bt_empty"
  "p_notification_decisions empty_projection = []"
  "p_terminal_node_id empty_projection = None"
  "p_result empty_projection = None"
  "p_failure empty_projection = None"
  "p_lifecycle_failure empty_projection = None"
  "p_last_sequence empty_projection = 0"
  by (simp_all add: empty_projection_def)

declare
  sample_event_def [evaluate] sample_admission_def [evaluate] sample_execution_def [evaluate]
  sample_attempt_def [evaluate] sample_failure_def [evaluate]
  validate_event.simps [evaluate] version_in_def [evaluate] inherit_def [evaluate]
  is_lock_event_def [evaluate] is_wait_event_def [evaluate] is_loop_event_def [evaluate]
  is_reusable_event_def [evaluate] is_fork_event_def [evaluate] is_correction_event_def [evaluate]
  valid_id_def [evaluate] chars_count_def [evaluate] byte_def [evaluate] valid_trigger_handler_def [evaluate]
  validate_run_admitted_def [evaluate] validate_run_execution_started_def [evaluate]
  validate_step_attempt_started_def [evaluate] validate_step_attempt_succeeded_def [evaluate]
  validate_step_attempt_failed_def [evaluate] validate_step_retry_scheduled_def [evaluate]
  validate_identity_def [evaluate] validate_attempt_failure_def [evaluate] has_service_fields_def [evaluate]
  from_events_def [evaluate] apply_event_def [evaluate] apply_transition_def [evaluate]
  default_fold_state_def [evaluate] is_terminal_def [evaluate] keep_indexes_def [evaluate]
  apply_run_admitted_def [evaluate] apply_run_execution_started_def [evaluate]
  fold_attempts_defs [evaluate] require_running_def [evaluate] require_running_or_cancelling_def [evaluate]
  latest_attempt_def [evaluate] find_last_def [evaluate] started_attempt_def [evaluate] identity_def [evaluate]
  RUN_EVENT_SCHEMA_VERSION_V6_def [evaluate] retry_matches_def [evaluate] first_idempotency_key_def [evaluate]
  index_or_panic_def [evaluate] active_managed_operations_def [evaluate] closes_previous_failure_def [evaluate]
  validate_run_outcome_decided_def [evaluate] validate_run_finalized_def [evaluate]
  valid_lifecycle_failure_def [evaluate] is_code_byte_def [evaluate] is_ascii_uppercase_def [evaluate]
  is_ascii_lowercase_def [evaluate] is_ascii_digit_def [evaluate] is_ascii_alphanumeric_def [evaluate]
  starts_with_def [evaluate] apply_run_outcome_decided_def [evaluate] apply_run_finalized_def [evaluate]
  warnings_match_def [evaluate] failed_actions_def [evaluate] empty_context_def [evaluate]
  validate_lock_wait_registered_def [evaluate] validate_lock_acquired_def [evaluate]
  validate_lock_lease_lost_def [evaluate] valid_lock_key_def [evaluate] valid_public_structural_id_def [evaluate]
  valid_prefixed_id_def [evaluate] invalid_scope_def [evaluate]
  fold_locks_defs [evaluate] waiting_lock_def [evaluate] acquired_lock_def [evaluate]
  holds_lease_def [evaluate] resolve_lock_def [evaluate]
  retry_schedule_def [evaluate] Let_def [evaluate]

lemma running_history_folds:
  "\<exists>state. from_events sample_externals running_history = Inr state
    \<and> p_status (fs_projection state) = RunStatus_Running
    \<and> p_run_id (fs_projection state) = Some ''r''
    \<and> p_event_schema_version (fs_projection state) = Some 11
    \<and> map (unat \<circ> ai_attempt \<circ> ap_identity) (p_attempts (fs_projection state)) = [1, 2]"
  by (simp add: evaluate running_history_def)

lemma finished_history_folds:
  "\<exists>state. from_events sample_externals (running_history @ finishing_events) = Inr state
    \<and> p_status (fs_projection state) = RunStatus_Succeeded
    \<and> p_business_outcome (fs_projection state) = Some BusinessOutcome_Succeeded"
  by (simp add: evaluate running_history_def finishing_events_def)

lemma locked_history_folds:
  "\<exists>state. from_events sample_externals locked_history = Inr state
    \<and> p_status (fs_projection state) = RunStatus_Finalizing
    \<and> p_business_outcome (fs_projection state) = Some BusinessOutcome_Failed"
  by (simp add: evaluate locked_history_def)

lemma stranded_history_folds:
  "\<exists>state. from_events sample_externals (locked_history @ [lease_lost_event]) = Inr state
    \<and> p_status (fs_projection state) = RunStatus_Running
    \<and> p_business_outcome (fs_projection state) = Some BusinessOutcome_Failed"
  by (simp add: evaluate locked_history_def lease_lost_event_def)

end
