(* ===== verification/Sample_Lifecycles.thy ===== *)
theory Sample_Lifecycles
  imports Sample_Histories
begin

text \<open>
  Concrete histories of the objects a run owns: a wait, a saga, an operation, a loop, a
  fork, approvals, a notification and a hook, each with the projection it folds to.
\<close>

definition sample_start :: "u32 \<Rightarrow> run_event list" where
  "sample_start v = [sample_event v ''1'' 1 sample_admission, sample_event v ''2'' 2 sample_execution]"

definition waiting_history :: "run_event list" where
  "waiting_history = sample_start 16 @
    [sample_event 16 ''3'' 3 (WaitRegistered
       \<lparr>wr_wait_id = ''w'', wr_node_id = ''w'', wr_kind = DurableWaitKind_Duration, wr_registered_at = 3,
        wr_deadline = Some 4, wr_signals = None, wr_correlation_digest = None\<rparr>),
     sample_event 16 ''4'' 4 (WaitSatisfied
       \<lparr>ws_wait_id = ''w'', ws_winner = DurableWaitWinner_Timer, ws_result = JObject [],
        ws_resolved_at = 4\<rparr>)]"

definition saga_history :: "run_event list" where
  "saga_history = sample_start 18 @
    [sample_event 18 ''3'' 3 (SagaStarted \<lparr>si_saga_id = ''g''\<rparr>),
     sample_event 18 ''4'' 4 (SagaCorrectionStarted \<lparr>scs_saga_id = ''g'', scs_reason = SagaCorrectionReason_Failure\<rparr>),
     sample_event 18 ''5'' 5 (CorrectionAttemptStarted
       \<lparr>cai_saga_id = ''g'', cai_action_id = ''c'', cai_action_kind = CorrectiveActionKind_Cleanup,
        cai_attempt = 1\<rparr>)]"

definition operation_history :: "run_event list" where
  "operation_history = sample_start 11 @
    [sample_event 11 ''3'' 3 (sample_attempt 1 ''i''),
     sample_event 11 ''4'' 4 (OperationStarted
       \<lparr>ost_node_id = ''s'', ost_attempt_number = 1, ost_invocation_id = ''i'', ost_call_id = ''c'',
        ost_operation_key = sample_digest, ost_capability = ''http'', ost_operation = ''fetch'',
        ost_execution_mode = OperationExecutionMode_Observed, ost_metadata = []\<rparr>),
     sample_event 11 ''5'' 5 (OperationSucceeded
       \<lparr>osu_node_id = ''s'', osu_attempt_number = 1, osu_invocation_id = ''i'', osu_call_id = ''c'',
        osu_operation_key = sample_digest, osu_capability = ''http'', osu_operation = ''fetch'',
        osu_execution_mode = OperationExecutionMode_Observed, osu_metadata = [],
        osu_duration_ms = 0, osu_result_bytes = 2, osu_result_digest = sample_digest\<rparr>)]"

definition in_iteration :: "string \<Rightarrow> u32 \<Rightarrow> run_event \<Rightarrow> run_event" where
  "in_iteration loop index e = e\<lparr>ev_iteration := Some \<lparr>scope_for_each_id = loop, scope_index = index\<rparr>\<rparr>"

definition loop_opening :: "run_event list" where
  "loop_opening = sample_start 15 @
    [sample_event 15 ''3'' 3 (ForEachOpened
       \<lparr>feo_for_each_id = ''f'', feo_total = 1, feo_items_digest = sample_digest, feo_concurrency = 1\<rparr>),
     in_iteration ''f'' 0 (sample_event 15 ''4'' 4 (ForEachIterationStarted \<lparr>feii_for_each_id = ''f''\<rparr>))]"

definition iteration_attempt_event :: run_event where
  "iteration_attempt_event = in_iteration ''f'' 0 (sample_event 15 ''5'' 5 (sample_attempt 1 ''i''))"

definition loop_history :: "run_event list" where
  "loop_history = loop_opening @
    [in_iteration ''f'' 0 (sample_event 15 ''5'' 5 (ForEachIterationSucceeded
       \<lparr>feisu_for_each_id = ''f'', feisu_result = None, feisu_result_digest = None\<rparr>)),
     sample_event 15 ''6'' 6 (ForEachSucceeded
       \<lparr>fes_for_each_id = ''f'', fes_total = 1, fes_succeeded = 1, fes_failed = 0, fes_skipped = 0,
        fes_aggregate_digest = sample_digest\<rparr>)]"

definition fork_history :: "run_event list" where
  "fork_history = sample_start 12 @
    [sample_event 12 ''3'' 3 (ForkOpened \<lparr>fo_fork_id = ''f''\<rparr>),
     sample_event 12 ''4'' 4 (ForkBranchSettled
       \<lparr>fbs_fork_id = ''f'', fbs_branch_id = ''b'', fbs_terminal_node_id = ''t'',
        fbs_outcome = ForkBranchOutcome_Failed\<rparr>),
     sample_event 12 ''5'' 5 (ForkJoinSettled
       \<lparr>fjs_fork_id = ''f'', fjs_outcome = ForkJoinOutcome_Failed, fjs_blocking_branch_id = Some ''b''\<rparr>)]"

definition sample_request :: string where
  "sample_request = ''aprreq_1234''"

definition approval_history :: "run_event list" where
  "approval_history = sample_start 11 @
    [sample_event 11 ''3'' 3 (ApprovalRequested
       \<lparr>areq_approval_id = ''a'', areq_request_id = sample_request, areq_expires_at = Some 9,
        areq_on_timeout = ApprovalTimeoutPolicy_Reject\<rparr>)]"

definition approval_decision_event :: run_event where
  "approval_decision_event = sample_event 11 ''4'' 4 (ApprovalResolved
     (basic_resolution ''a'' sample_request
       (ApprovalResolution_Decision ApprovalDecision_Approved ApprovalDecisionSource_Human)))"

definition review_history :: "run_event list" where
  "review_history = sample_start 19 @
    [sample_event 19 ''3'' 3 (ApprovalReviewRequested
       \<lparr>arvr_approval_id = ''a'', arvr_request_id = sample_request, arvr_review_digest = sample_digest,
        arvr_directory_version = ''1'', arvr_required = 1, arvr_required_roles = []\<rparr>),
     sample_event 19 ''4'' 4 (ApprovalReviewerDecisionRecorded
       \<lparr>ardr_approval_id = ''a'', ardr_request_id = sample_request, ardr_review_digest = sample_digest,
        ardr_principal_id = ''p'', ardr_decision = ApprovalDecision_Approved\<rparr>),
     sample_event 19 ''5'' 5 (ApprovalResolved
       \<lparr>ares_approval_id = ''a'', ares_request_id = sample_request, ares_resolution = None,
        ares_review_digest = Some sample_digest, ares_decision = Some ApprovalDecision_Approved,
        ares_reason = Some RichApprovalResolutionReason_Quorum, ares_required = Some 1,
        ares_received = Some 1, ares_required_roles = Some [], ares_represented_roles = Some []\<rparr>)]"

definition sample_delivery :: string where
  "sample_delivery = ''a:notify:0:channel:0''"

definition notification_history :: "run_event list" where
  "notification_history = approval_history @
    [sample_event 11 ''4'' 4 (NotificationDeliveryRequested
       \<lparr>ndr_approval_id = ''a'', ndr_request_id = sample_request, ndr_delivery_id = sample_delivery,
        ndr_provider = ''custom'', ndr_destination = ''d''\<rparr>),
     sample_event 11 ''5'' 5 (NotificationDeliveryAttemptStarted
       \<lparr>ndas_approval_id = ''a'', ndas_request_id = sample_request, ndas_delivery_id = sample_delivery,
        ndas_attempt = 1, ndas_attempt_id = ''nattempt_123'', ndas_idempotency_key = sample_digest\<rparr>),
     sample_event 11 ''6'' 6 (NotificationDeliverySucceeded
       \<lparr>nds_approval_id = ''a'', nds_request_id = sample_request, nds_delivery_id = sample_delivery,
        nds_attempt = 1, nds_attempt_id = ''nattempt_123'',
        nds_provider_message = ProviderMessageIdentity_Communication
          \<lparr>comm_provider = ''telegram'', comm_account_id = ''a'', comm_conversation_id = ''c'',
           comm_message_id = ''m'', comm_thread_id = None\<rparr>\<rparr>),
     sample_event 11 ''7'' 7 (NotificationDecisionAccepted
       \<lparr>ndac_approval_id = ''a'', ndac_request_id = sample_request, ndac_delivery_id = sample_delivery,
        ndac_provider = ''custom'', ndac_provider_actor_id = ''custom-provider'',
        ndac_decision = ApprovalDecision_Approved\<rparr>)]"

text \<open>A run with two approvals, both announced by a delivered notification: the first is decided
  through its notification, the second waits.\<close>

definition second_request :: string where
  "second_request = ''aprreq_1235''"

definition second_delivery :: string where
  "second_delivery = ''b:notify:0:channel:0''"

definition second_approval_history :: "run_event list" where
  "second_approval_history = notification_history @
    [sample_event 11 ''8'' 8 (ApprovalResolved
       (basic_resolution ''a'' sample_request
         (ApprovalResolution_Decision ApprovalDecision_Approved ApprovalDecisionSource_Human))),
     sample_event 11 ''9'' 9 (ApprovalRequested
       \<lparr>areq_approval_id = ''b'', areq_request_id = second_request, areq_expires_at = None,
        areq_on_timeout = ApprovalTimeoutPolicy_Reject\<rparr>),
     sample_event 11 ''10'' 10 (NotificationDeliveryRequested
       \<lparr>ndr_approval_id = ''b'', ndr_request_id = second_request, ndr_delivery_id = second_delivery,
        ndr_provider = ''custom'', ndr_destination = ''d''\<rparr>),
     sample_event 11 ''11'' 11 (NotificationDeliveryAttemptStarted
       \<lparr>ndas_approval_id = ''b'', ndas_request_id = second_request, ndas_delivery_id = second_delivery,
        ndas_attempt = 1, ndas_attempt_id = ''nattempt_124'', ndas_idempotency_key = sample_digest\<rparr>),
     sample_event 11 ''12'' 12 (NotificationDeliverySucceeded
       \<lparr>nds_approval_id = ''b'', nds_request_id = second_request, nds_delivery_id = second_delivery,
        nds_attempt = 1, nds_attempt_id = ''nattempt_124'',
        nds_provider_message = ProviderMessageIdentity_Communication
          \<lparr>comm_provider = ''telegram'', comm_account_id = ''a'', comm_conversation_id = ''c'',
           comm_message_id = ''n'', comm_thread_id = None\<rparr>\<rparr>)]"

definition second_decision :: notification_decision_accepted_data where
  "second_decision =
    \<lparr>ndac_approval_id = ''b'', ndac_request_id = second_request, ndac_delivery_id = second_delivery,
     ndac_provider = ''custom'', ndac_provider_actor_id = ''custom-provider'',
     ndac_decision = ApprovalDecision_Approved\<rparr>"

text \<open>Two events of different runs in one history that no event starts.\<close>

definition reusable_request :: "string \<Rightarrow> run_event_payload" where
  "reusable_request invocation = ReusableLifecycleRequested
    \<lparr>rlr_invocation_id = invocation, rlr_definition_digest = sample_digest,
     rlr_hook = ReusableLifecycleHook_OnSuccess\<rparr>"

definition unstarted_history :: "run_event list" where
  "unstarted_history =
    [sample_event 13 ''1'' 1 (reusable_request ''i''),
     (sample_event 13 ''2'' 2 (reusable_request ''j''))\<lparr>ev_run_id := ''q''\<rparr>]"

definition hook_history :: "run_event list" where
  "hook_history = sample_start 11 @
    [sample_event 11 ''3'' 3 (LifecycleHookRequested
       \<lparr>lhr_hook_invocation_id = sample_digest, lhr_hook_id = ''h'', lhr_event = LifecycleEventName_RunStart,
        lhr_subject = \<lparr>ls_kind = LifecycleSubjectKind_Workflow, ls_id = ''w''\<rparr>\<rparr>),
     sample_event 11 ''4'' 4 (LifecycleActionAttemptStarted
       \<lparr>lai_hook_invocation_id = sample_digest, lai_action_id = ''a'', lai_attempt = 1\<rparr>),
     sample_event 11 ''5'' 5 (LifecycleActionFailed
       \<lparr>laf_hook_invocation_id = sample_digest, laf_action_id = ''a'', laf_attempt = 1,
        laf_failure = \<lparr>lf_kind = LifecycleFailureKind_ScriptThrew, lf_code = ''WOML_X'', lf_message = ''x''\<rparr>\<rparr>),
     sample_event 11 ''6'' 6 (LifecycleHookCompleted
       \<lparr>lhc_hook_invocation_id = sample_digest,
        lhc_status = LifecycleHookCompletionStatus_CompletedWithWarnings, lhc_failed_actions = 1\<rparr>)]"

section \<open>Evaluation\<close>

lemma sample_names_valid [evaluate]:
  "is_approval_request_id sample_request"
  "is_notification_delivery_id sample_delivery ''a''"
  "valid_prefixed_id ''nattempt_123'' ''nattempt_'' 12"
  "valid_capability_name ''http''" "valid_capability_name ''fetch''"
  "valid_rich_approval_roles []" "duration_valid 0" "validate_safe_metadata []"
  by (simp_all add: is_approval_request_id_def sample_request_def is_notification_delivery_id_def
      sample_delivery_def canonical_decimal_def valid_prefixed_id_def valid_capability_name_def
      is_ascii_alphanumeric_def is_ascii_uppercase_def is_ascii_lowercase_def is_ascii_digit_def byte_def
      starts_with_def valid_rich_approval_roles_def duration_valid_def f64_is_finite_def
      f64_is_negative_def validate_safe_metadata_def)

lemma sample_externals_eval [evaluate]:
  "projection_digest sample_externals v = Inr sample_digest"
  "json_to_vec sample_externals v = Some ''{}''"
  by (simp_all add: projection_digest_def sample_externals_def sample_digest_def)

declare
  sample_start_def [evaluate] in_iteration_def [evaluate]
  fold_waits_defs [evaluate] registered_wait_def [evaluate] wait_winner_proven_def [evaluate]
  validate_wait_registered_def [evaluate] validate_wait_satisfied_def [evaluate]
  wait_deadline_valid_def [evaluate] wait_shape_valid_def [evaluate] to_vec_exceeds_def [evaluate]
 
  fold_correction_defs [evaluate] registered_action_def [evaluate] in_correction_def [evaluate]
  validate_saga_identity_def [evaluate] validate_saga_correction_started_def [evaluate]
  validate_correction_attempt_def [evaluate] valid_action_id_def [evaluate] valid_correction_attempt_def [evaluate]
  fold_operations_defs [evaluate] started_operation_def [evaluate] require_operation_runtime_def [evaluate]
  require_active_operation_attempt_def [evaluate] validate_operation_terminal_identity_def [evaluate]
  validate_operation_started_def [evaluate] validate_operation_succeeded_def [evaluate]
  validate_operation_base_def [evaluate]
  fold_control_flow_defs [evaluate] expect_scope_def [evaluate] iteration_can_open_def [evaluate]
  empty_iteration_execution_def [evaluate] count_iterations_def [evaluate] owns_active_work_def [evaluate]
  execution_owns_work_def [evaluate] for_each_output_def [evaluate] ordered_results_def [evaluate]
  iteration_skipped_def [evaluate] is_top_level_scoped_event_def [evaluate]
  validate_for_each_opened_def [evaluate] validate_for_each_iteration_succeeded_def [evaluate]
  validate_for_each_iteration_event_def [evaluate] validate_for_each_settled_def [evaluate]
  is_scoped_work_def [evaluate] apply_iteration_scoped_event_def [evaluate] apply_iteration_payload_def [evaluate]
  iteration_attempt_started_def [evaluate] latest_iteration_attempt_def [evaluate]
  join_outcome_proven_def [evaluate] validate_fork_opened_def [evaluate] validate_fork_branch_settled_def [evaluate]
  validate_fork_join_settled_def [evaluate] blocking_valid_def [evaluate]
  fold_approvals_defs [evaluate] basic_resolution_def [evaluate] is_rich_def [evaluate]
  resolution_allowed_def [evaluate] deadline_reached_def [evaluate] publish_decision_def [evaluate]
  rich_output_def [evaluate] is_rich_approval_event_def [evaluate]
  validate_approval_requested_def [evaluate] validate_approval_resolved_def [evaluate]
  validate_approval_resolution_def [evaluate] validate_approval_review_requested_def [evaluate]
  validate_approval_reviewer_decision_recorded_def [evaluate] valid_rich_approval_identity_def [evaluate]
  rich_resolution_valid_def [evaluate] rich_outcome_valid_def [evaluate]
  fold_notifications_defs [evaluate] validate_notification_delivery_requested_def [evaluate]
  validate_notification_delivery_attempt_started_def [evaluate]
  validate_notification_delivery_succeeded_def [evaluate]
  validate_notification_decision_accepted_def [evaluate] validate_notification_identity_def [evaluate]
  provider_actor_valid_def [evaluate]
  fold_lifecycle_defs [evaluate] requested_hook_def [evaluate] started_action_def [evaluate]
  hook_has_active_action_def [evaluate] hook_completed_def [evaluate]
  validate_lifecycle_hook_requested_def [evaluate] validate_lifecycle_action_def [evaluate]
  validate_lifecycle_action_failed_def [evaluate] validate_lifecycle_hook_completed_def [evaluate]
  valid_lifecycle_action_identity_def [evaluate]

lemma locked_history_lock:
  "\<exists>state lock. from_events sample_externals locked_history = Inr state
    \<and> bt_get (p_locks (fs_projection state)) ''l'' = Some lock
    \<and> lp_status lock = LockStatus_Held \<and> lp_key lock = ''k''"
  by (simp add: evaluate locked_history_def)

lemma waiting_history_folds:
  "\<exists>state w. from_events sample_externals waiting_history = Inr state
    \<and> bt_get (p_durable_waits (fs_projection state)) ''w'' = Some w
    \<and> dwp_status w = DurableWaitStatus_Satisfied DurableWaitWinner_Timer"
  by (simp add: evaluate waiting_history_def)

lemma saga_history_folds:
  "\<exists>state saga. from_events sample_externals saga_history = Inr state
    \<and> bt_get (p_sagas (fs_projection state)) ''g'' = Some saga
    \<and> sp_phase saga = SagaPhase_Correcting \<and> bt_get (sp_actions saga) ''c'' \<noteq> None"
  by (simp add: evaluate saga_history_def)

lemma operation_history_folds:
  "\<exists>state op. from_events sample_externals operation_history = Inr state
    \<and> bt_get (p_operations (fs_projection state)) (OperationIdentity ''i'' ''c'') = Some op
    \<and> op_status op = OperationStatus_Succeeded 0 2 sample_digest"
  by (simp add: evaluate operation_history_def)

lemma loop_history_folds:
  "\<exists>state loop. from_events sample_externals loop_history = Inr state
    \<and> bt_get (p_for_each (fs_projection state)) ''f'' = Some loop
    \<and> fep_status loop = ForEachStatus_Succeeded \<and> fep_total loop = 1"
  by (simp add: evaluate loop_opening_def loop_history_def)

lemma iteration_history_folds:
  "\<exists>state. from_events sample_externals (loop_opening @ [iteration_attempt_event]) = Inr state"
  by (simp add: evaluate loop_opening_def iteration_attempt_event_def)

lemma fork_history_folds:
  "\<exists>state fork. from_events sample_externals fork_history = Inr state
    \<and> bt_get (p_forks (fs_projection state)) ''f'' = Some fork
    \<and> fp_join_status fork = ForkJoinStatus_Failed"
  by (simp add: evaluate fork_history_def)

lemma approval_history_folds:
  "\<exists>state r. from_events sample_externals (approval_history @ [approval_decision_event]) = Inr state
    \<and> bt_get (p_approval_requests (fs_projection state)) ''a'' = Some r
    \<and> arp_status r = ApprovalRequestStatus_Resolved
      (ApprovalResolution_Decision ApprovalDecision_Approved ApprovalDecisionSource_Human) 4"
  by (simp add: evaluate approval_history_def approval_decision_event_def)

lemma review_history_folds:
  "\<exists>state r. from_events sample_externals review_history = Inr state
    \<and> bt_get (p_rich_approval_requests (fs_projection state)) ''a'' = Some r
    \<and> rarp_status r = RichApprovalRequestStatus_Approved"
  by (simp add: evaluate review_history_def)

lemma notification_history_folds:
  "\<exists>state d. from_events sample_externals notification_history = Inr state
    \<and> bt_get (p_notification_deliveries (fs_projection state)) sample_delivery = Some d
    \<and> delivery_succeeded (ndp_status d)
    \<and> length (p_notification_decisions (fs_projection state)) = 1"
  by (simp add: evaluate approval_history_def notification_history_def)

lemma second_names_valid [evaluate]:
  "is_notification_delivery_id second_delivery ''b''" "valid_prefixed_id ''nattempt_124'' ''nattempt_'' 12"
  "is_approval_request_id second_request" "second_request \<noteq> sample_request" "sample_request \<noteq> second_request"
  "second_delivery \<noteq> sample_delivery" "sample_delivery \<noteq> second_delivery"
  by (simp_all add: is_notification_delivery_id_def second_delivery_def sample_delivery_def
      is_approval_request_id_def second_request_def sample_request_def
      canonical_decimal_def valid_prefixed_id_def is_ascii_alphanumeric_def is_ascii_uppercase_def
      is_ascii_lowercase_def is_ascii_digit_def byte_def starts_with_def)

lemma second_approval_history_folds:
  "\<exists>state d. from_events sample_externals second_approval_history = Inr state
    \<and> p_status (fs_projection state) = RunStatus_Waiting
    \<and> bt_get (p_notification_deliveries (fs_projection state)) second_delivery = Some d
    \<and> delivery_succeeded (ndp_status d) \<and> ndp_approval_id d = ''b'' \<and> ndp_request_id d = second_request
    \<and> length (p_notification_decisions (fs_projection state)) = 1"
  by (simp add: evaluate approval_history_def notification_history_def second_approval_history_def)

lemma unstarted_history_folds:
  "\<exists>state. from_events sample_externals unstarted_history = Inr state"
  by (simp add: evaluate unstarted_history_def reusable_request_def validate_reusable_lifecycle_requested_def
      apply_reusable_lifecycle_requested_def reusable_key_def)

lemma hook_history_folds:
  "\<exists>state h. from_events sample_externals hook_history = Inr state
    \<and> bt_get (p_lifecycle_hooks (fs_projection state)) sample_digest = Some h
    \<and> lhp_status h = LifecycleHookStatus_CompletedWithWarnings"
  by (simp add: evaluate hook_history_def)

end
