(* ===== verification/Object_Guarantees.thy ===== *)
theory Object_Guarantees
  imports Lock_Lifecycle Wait_Lifecycle Saga_Lifecycle Operation_Lifecycle Flow_Lifecycle
    Loop_Lifecycle Approval_Lifecycle Notification_Lifecycle Hook_Lifecycle Sample_Lifecycles
begin

text \<open>
  What the projection guarantees of the objects a run owns, over every history that folds:
  each property is the life cycle of one kind of object read through its interpretation.
\<close>

section \<open>Locks\<close>

text \<open>
  C10.  A lock that has been granted carries a well-formed lease, a fencing token and a
  non-empty validity interval; one that has not carries none of them.  It has a resolution
  time exactly when it neither waits nor is held, and it times out only after its deadline.
\<close>

theorem locks_carry_evidence:
  assumes "from_events E es = Inr state" "bt_get (p_locks (fs_projection state)) k = Some lock"
  shows "lp_lock_id lock = k
    \<and> (lp_resolved_at lock = None \<longleftrightarrow> lp_status lock \<in> {LockStatus_Waiting, LockStatus_Held})
    \<and> (if lp_status lock \<in> {LockStatus_Held, LockStatus_Released, LockStatus_LeaseLost}
       then \<exists>lease token at until. lp_lease_id lock = Some lease \<and> valid_prefixed_id lease ''lease_'' 7
         \<and> lp_fencing_token lock = Some token \<and> valid_fencing_token token
         \<and> lp_acquired_at lock = Some at \<and> lp_expires_at lock = Some until \<and> at < until
       else lp_lease_id lock = None \<and> lp_fencing_token lock = None)
    \<and> (lp_status lock = LockStatus_AcquireTimedOut \<longrightarrow>
        (\<exists>at. lp_resolved_at lock = Some at \<and> lp_deadline lock \<le> at))"
proof -
  have "lock_evidence k lock"
    using assms by (rule lock.every_object) (auto intro: lock_fresh_evidence lock_moves_evidence)
  then show ?thesis unfolding lock_evidence_def by (auto split: if_splits)
qed

theorem locks_carry_evidence_witness:
  "\<exists>state lock. from_events sample_externals locked_history = Inr state
    \<and> bt_get (p_locks (fs_projection state)) ''l'' = Some lock \<and> lp_lease_id lock \<noteq> None"
proof -
  obtain state lock where state: "from_events sample_externals locked_history = Inr state"
    "bt_get (p_locks (fs_projection state)) ''l'' = Some lock" "lp_status lock = LockStatus_Held"
    using locked_history_lock by blast
  then show ?thesis using locks_carry_evidence [OF state(1,2)] by auto
qed

text \<open>
  C11.  Along an extension of a history a lock keeps its key, its place in the queue and
  its execution; a granted lease and its fencing token never change, and a settled lock
  does not change at all.
\<close>

theorem leases_are_final:
  assumes "from_events E xs = Inr state" "from_events E (xs @ ys) = Inr state'"
    and "bt_get (p_locks (fs_projection state)) k = Some lock"
  shows "\<exists>lock'. bt_get (p_locks (fs_projection state')) k = Some lock'
    \<and> lp_key lock' = lp_key lock \<and> lp_waiter_sequence lock' = lp_waiter_sequence lock
    \<and> lp_execution_identity lock' = lp_execution_identity lock
    \<and> (lp_status lock = LockStatus_Held \<longrightarrow>
        lp_lease_id lock' = lp_lease_id lock \<and> lp_fencing_token lock' = lp_fencing_token lock)
    \<and> (lp_status lock \<notin> {LockStatus_Waiting, LockStatus_Held} \<longrightarrow> lock' = lock)"
proof -
  obtain lock' where "bt_get (p_locks (fs_projection state')) k = Some lock'" "lock_moves\<^sup>*\<^sup>* lock lock'"
    using assms by (rule lock.evolution)
  then show ?thesis
    using waiter_stays held_lease_stays settled_lock_stays unfolding same_waiter_def lock_settled_def by blast
qed

theorem leases_are_final_witness:
  "\<exists>state' lock'. from_events sample_externals (locked_history @ [lease_lost_event]) = Inr state'
    \<and> bt_get (p_locks (fs_projection state')) ''l'' = Some lock' \<and> lp_key lock' = ''k''"
proof -
  obtain state lock where state: "from_events sample_externals locked_history = Inr state"
    "bt_get (p_locks (fs_projection state)) ''l'' = Some lock" "lp_key lock = ''k''"
    using locked_history_lock by blast
  obtain state' where state': "from_events sample_externals (locked_history @ [lease_lost_event]) = Inr state'"
    using stranded_history_folds by blast
  show ?thesis using leases_are_final [OF state(1) state' state(2)] state(3) state' by auto
qed

section \<open>Waits and signals\<close>

text \<open>
  C12.  A resolved wait has the evidence of its kind.  A wait for a duration or an instant
  is satisfied by its timer, at or after the deadline it was registered with; a signal wait
  is satisfied by a recorded signal of one of its names, received no later than the
  resolution, and only a signal wait times out, at or after its deadline.  Signals are
  recorded once per identifier and once per idempotency digest.
\<close>

theorem waits_resolve_on_evidence:
  assumes "from_events E es = Inr state" and p: "p = fs_projection state"
  shows "(\<forall>k wait. bt_get (p_durable_waits p) k = Some wait \<longrightarrow>
      (\<forall>winner. dwp_status wait = DurableWaitStatus_Satisfied winner \<longrightarrow>
        (winner = DurableWaitWinner_Signal \<longleftrightarrow> dwp_kind wait = DurableWaitKind_Signal))
      \<and> (dwp_status wait = DurableWaitStatus_Satisfied DurableWaitWinner_Timer \<longrightarrow>
        (\<exists>d at. dwp_deadline wait = Some d \<and> dwp_resolved_at wait = Some at \<and> d \<le> at))
      \<and> (dwp_status wait = DurableWaitStatus_Satisfied DurableWaitWinner_Signal \<longrightarrow>
        (\<exists>s at. s \<in> set (p_external_signals p) \<and> esr_wait_id s = k \<and> esr_signal s \<in> set (dwp_signals wait)
          \<and> dwp_resolved_at wait = Some at \<and> esr_received_at s \<le> at))
      \<and> (\<forall>behavior. dwp_status wait = DurableWaitStatus_TimedOut behavior \<longrightarrow>
        dwp_kind wait = DurableWaitKind_Signal
        \<and> (\<exists>d at. dwp_deadline wait = Some d \<and> dwp_resolved_at wait = Some at \<and> d \<le> at)))
    \<and> distinct (map esr_signal_id (p_external_signals p))
    \<and> distinct (map esr_idempotency_digest (p_external_signals p))"
proof -
  have sound: "waits_sound p" unfolding p by (rule wait_record.holds [OF assms(1)])
  have evidence: "wait_evidence (p_external_signals p) k wait" if "bt_get (p_durable_waits p) k = Some wait" for k wait
    using sound that by (rule waits_soundD)
  have winner: "winner = DurableWaitWinner_Signal \<longleftrightarrow> dwp_kind wait = DurableWaitKind_Signal"
    if "bt_get (p_durable_waits p) k = Some wait" "dwp_status wait = DurableWaitStatus_Satisfied winner" for k wait winner
    using evidence [OF that(1)] that(2) by (cases winner) (simp_all add: wait_evidence_def)
  show ?thesis
    using sound evidence winner unfolding waits_sound_def wait_evidence_def by fastforce
qed

theorem waits_resolve_on_evidence_witness:
  "\<exists>state wait d. from_events sample_externals waiting_history = Inr state
    \<and> bt_get (p_durable_waits (fs_projection state)) ''w'' = Some wait \<and> dwp_deadline wait = Some d"
proof -
  obtain state wait where state: "from_events sample_externals waiting_history = Inr state"
    "bt_get (p_durable_waits (fs_projection state)) ''w'' = Some wait"
    "dwp_status wait = DurableWaitStatus_Satisfied DurableWaitWinner_Timer"
    using waiting_history_folds by blast
  then show ?thesis using waits_resolve_on_evidence [OF state(1) refl] by blast
qed

text \<open>
  C13.  A wait resolves once: along an extension of a history a wait keeps what it was
  registered with, and a resolved wait does not change.
\<close>

theorem waits_resolve_once:
  assumes "from_events E xs = Inr state" "from_events E (xs @ ys) = Inr state'"
    and "bt_get (p_durable_waits (fs_projection state)) k = Some wait"
  shows "\<exists>wait'. bt_get (p_durable_waits (fs_projection state')) k = Some wait'
    \<and> wait_identity wait' = wait_identity wait
    \<and> (dwp_status wait \<noteq> DurableWaitStatus_Registered \<longrightarrow> wait' = wait)"
proof -
  obtain wait' where "bt_get (p_durable_waits (fs_projection state')) k = Some wait'" "wait_moves\<^sup>*\<^sup>* wait wait'"
    using assms by (rule wait.evolution)
  then show ?thesis using wait_identity_stays resolved_wait_stays by blast
qed

theorem waits_resolve_once_witness:
  "\<exists>state wait. from_events sample_externals waiting_history = Inr state
    \<and> bt_get (p_durable_waits (fs_projection state)) ''w'' = Some wait
    \<and> dwp_status wait = DurableWaitStatus_Satisfied DurableWaitWinner_Timer"
proof -
  obtain state wait where state: "from_events sample_externals waiting_history = Inr state"
    "bt_get (p_durable_waits (fs_projection state)) ''w'' = Some wait"
    "dwp_status wait = DurableWaitStatus_Satisfied DurableWaitWinner_Timer"
    using waiting_history_folds by blast
  have "from_events sample_externals (waiting_history @ []) = Inr state" using state(1) by simp
  then show ?thesis using waits_resolve_once [OF state(1) _ state(2)] state by auto
qed

section \<open>Sagas\<close>

text \<open>
  C14.  The corrective actions of a saga run one at a time, at most ten attempts each; no
  action leaves its registration before the correction has a reason; a correction because
  of success follows a recorded forward success; and a completed correction has no active
  action.
\<close>

theorem sagas_correct_in_order:
  assumes "from_events E es = Inr state" "bt_get (p_sagas (fs_projection state)) k = Some saga"
  shows "(\<forall>a x. bt_get (sp_actions saga) a = Some x \<longrightarrow> cap_attempts x \<le> 10
      \<and> (sp_reason saga = None \<longrightarrow> cap_status x = CorrectionActionStatus_Registered)
      \<and> (sp_phase saga = SagaPhase_CorrectionCompleted \<longrightarrow> cap_status x \<noteq> CorrectionActionStatus_Started))
    \<and> (\<forall>a b x y. bt_get (sp_actions saga) a = Some x \<longrightarrow> bt_get (sp_actions saga) b = Some y \<longrightarrow>
        cap_status x = CorrectionActionStatus_Started \<longrightarrow> cap_status y = CorrectionActionStatus_Started \<longrightarrow> a = b)
    \<and> (sp_reason saga = Some SagaCorrectionReason_Success \<longrightarrow> sp_forward_succeeded_sequence saga \<noteq> None)"
proof -
  have sound: "saga_sound k saga"
    using assms by (rule saga.every_object) (auto intro: saga_fresh_sound saga_moves_sound)
  have "\<And>a x. action_at saga a x \<Longrightarrow> action_sound a x"
    "\<And>a b x y. action_at saga a x \<Longrightarrow> action_at saga b y \<Longrightarrow> action_active x \<Longrightarrow> action_active y \<Longrightarrow> a = b"
    using sound unfolding saga_sound_def actions_sound_def by blast+
  moreover have "phase_sound saga" using sound by (simp add: saga_sound_def)
  ultimately show ?thesis
    unfolding phase_sound_def no_active_action_iff action_at_def action_sound_def action_active_def by blast
qed

theorem sagas_correct_in_order_witness:
  "\<exists>state saga x. from_events sample_externals saga_history = Inr state
    \<and> bt_get (p_sagas (fs_projection state)) ''g'' = Some saga
    \<and> bt_get (sp_actions saga) ''c'' = Some x \<and> cap_attempts x \<le> 10"
proof -
  obtain state saga x where state: "from_events sample_externals saga_history = Inr state"
    "bt_get (p_sagas (fs_projection state)) ''g'' = Some saga" "bt_get (sp_actions saga) ''c'' = Some x"
    using saga_history_folds by blast
  then show ?thesis using sagas_correct_in_order [OF state(1,2)] by blast
qed

section \<open>Operations\<close>

text \<open>
  C15.  An operation settles once: along an extension of a history it keeps its identity,
  its key and what it called, and a settled operation does not change; a recorded
  settlement has a finite, non-negative duration, and a success a bounded result.
\<close>

theorem operations_settle_once:
  assumes "from_events E xs = Inr state" "from_events E (xs @ ys) = Inr state'"
    and "bt_get (p_operations (fs_projection state)) k = Some op"
  shows "\<exists>op'. bt_get (p_operations (fs_projection state')) k = Some op'
    \<and> operation_request op' = operation_request op
    \<and> (op_status op \<noteq> OperationStatus_Started \<longrightarrow> op' = op)
    \<and> (op_status op' \<noteq> OperationStatus_Started \<longrightarrow> settlement_valid (op_status op'))"
proof -
  obtain op' where op': "bt_get (p_operations (fs_projection state')) k = Some op'" "operation_moves\<^sup>*\<^sup>* op op'"
    using assms by (rule operation.evolution)
  obtain op0 where "operation_fresh k op0" "operation_moves\<^sup>*\<^sup>* op0 op'"
    using assms(2) op'(1) by (rule operation.origin)
  then have "op_status op' = OperationStatus_Started \<or> settlement_valid (op_status op')"
    by (intro operation_settlement_valid) (auto simp: operation_fresh_def)
  with op' show ?thesis using operation_request_stays settled_operation_stays by blast
qed

theorem operations_settle_once_witness:
  "\<exists>state op. from_events sample_externals operation_history = Inr state
    \<and> bt_get (p_operations (fs_projection state)) (OperationIdentity ''i'' ''c'') = Some op
    \<and> settlement_valid (op_status op)"
proof -
  obtain state op where state: "from_events sample_externals operation_history = Inr state"
    "bt_get (p_operations (fs_projection state)) (OperationIdentity ''i'' ''c'') = Some op"
    "op_status op = OperationStatus_Succeeded 0 2 sample_digest"
    using operation_history_folds by blast
  have "from_events sample_externals (operation_history @ []) = Inr state" using state(1) by simp
  from operations_settle_once [OF state(1) this state(2)] show ?thesis
    using state unfolding append_Nil2 by auto
qed

text \<open>
  C16.  Outside loops the operations of one invocation have distinct operation keys and every
  operation is filed under its own identity; no policy decision of a run is recorded twice.
\<close>

theorem operation_keys_are_unique:
  assumes "from_events E es = Inr state" and p: "p = fs_projection state"
  shows "(\<forall>k op. bt_get (p_operations p) k = Some op \<longrightarrow> op_identity op = k)
    \<and> (\<forall>j k op op'. bt_get (p_operations p) j = Some op \<longrightarrow> bt_get (p_operations p) k = Some op' \<longrightarrow>
        oi_invocation_id j = oi_invocation_id k \<longrightarrow> op_operation_key op = op_operation_key op' \<longrightarrow> j = k)
    \<and> distinct (map (ipdr_decision_id \<circ> ipdrec_decision) (p_infrastructure_policy_decisions p))"
  using operation_record.holds [OF assms(1)] unfolding p operations_sound_def .

theorem operation_keys_are_unique_witness:
  "\<exists>state op. from_events sample_externals operation_history = Inr state
    \<and> bt_get (p_operations (fs_projection state)) (OperationIdentity ''i'' ''c'') = Some op
    \<and> op_identity op = OperationIdentity ''i'' ''c''"
proof -
  obtain state op where state: "from_events sample_externals operation_history = Inr state"
    "bt_get (p_operations (fs_projection state)) (OperationIdentity ''i'' ''c'') = Some op"
    using operation_history_folds by blast
  then show ?thesis using operation_keys_are_unique [OF state(1) refl] by blast
qed

section \<open>Control flow\<close>

text \<open>
  C17.  Control-flow decisions are final: along an extension of a history a selected
  branch or choice arm stays selected, a completed parallel group does not change, and a
  settled fork branch and a settled join keep their outcome.
\<close>

theorem flow_decisions_are_final:
  assumes "from_events E xs = Inr state" "from_events E (xs @ ys) = Inr state'"
    and p: "p = fs_projection state" and p': "p' = fs_projection state'"
  shows "(\<forall>k arm. bt_get (p_branch_selections p) k = Some arm \<longrightarrow> bt_get (p_branch_selections p') k = Some arm)
    \<and> (\<forall>k arm. bt_get (p_choice_selections p) k = Some arm \<longrightarrow> bt_get (p_choice_selections p') k = Some arm)
    \<and> (\<forall>k grp. bt_get (p_parallel_groups p) k = Some grp \<longrightarrow> pgp_status grp \<noteq> ParallelGroupStatus_Started \<longrightarrow>
        bt_get (p_parallel_groups p') k = Some grp)
    \<and> (\<forall>k fork. bt_get (p_forks p) k = Some fork \<longrightarrow>
        (\<exists>fork'. bt_get (p_forks p') k = Some fork'
          \<and> (fp_join_status fork \<noteq> ForkJoinStatus_Pending \<longrightarrow>
              fp_join_status fork' = fp_join_status fork
              \<and> fp_blocking_branch_id fork' = fp_blocking_branch_id fork)
          \<and> (\<forall>b branch. bt_get (fp_branches fork) b = Some branch \<longrightarrow>
              bt_get (fp_branches fork') b = Some branch)))"
proof (intro conjI allI impI)
  show "bt_get (p_branch_selections p') k = Some arm" if "bt_get (p_branch_selections p) k = Some arm" for k arm
    using branch_selection.evolution [OF assms(1,2) that [unfolded p]] selection_stays
    unfolding p' by metis
  show "bt_get (p_choice_selections p') k = Some arm" if "bt_get (p_choice_selections p) k = Some arm" for k arm
    using choice_selection.evolution [OF assms(1,2) that [unfolded p]] selection_stays
    unfolding p' by metis
  show "bt_get (p_parallel_groups p') k = Some grp"
    if "bt_get (p_parallel_groups p) k = Some grp" "pgp_status grp \<noteq> ParallelGroupStatus_Started" for k grp
    using parallel_group.evolution [OF assms(1,2) that(1) [unfolded p]] completed_group_stays that(2)
    unfolding p' by metis
  show "\<exists>fork'. bt_get (p_forks p') k = Some fork'
      \<and> (fp_join_status fork \<noteq> ForkJoinStatus_Pending \<longrightarrow>
          fp_join_status fork' = fp_join_status fork \<and> fp_blocking_branch_id fork' = fp_blocking_branch_id fork)
      \<and> (\<forall>b branch. bt_get (fp_branches fork) b = Some branch \<longrightarrow> bt_get (fp_branches fork') b = Some branch)"
    if "bt_get (p_forks p) k = Some fork" for k fork
    using fork.evolution [OF assms(1,2) that [unfolded p]] settled_fork_stays unfolding p' by metis
qed

theorem flow_decisions_are_final_witness:
  "\<exists>state fork. from_events sample_externals (fork_history @ []) = Inr state
    \<and> bt_get (p_forks (fs_projection state)) ''f'' = Some fork
    \<and> fp_join_status fork = ForkJoinStatus_Failed"
proof -
  obtain state fork where state: "from_events sample_externals fork_history = Inr state"
    "bt_get (p_forks (fs_projection state)) ''f'' = Some fork" "fp_join_status fork = ForkJoinStatus_Failed"
    using fork_history_folds by blast
  have extended: "from_events sample_externals (fork_history @ []) = Inr state" using state(1) by simp
  have "\<exists>fork'. bt_get (p_forks (fs_projection state)) ''f'' = Some fork'
      \<and> (fp_join_status fork \<noteq> ForkJoinStatus_Pending \<longrightarrow> fp_join_status fork' = fp_join_status fork)"
    using flow_decisions_are_final [OF state(1) extended refl refl] state(2) by blast
  then show ?thesis using extended state(3) by auto
qed

text \<open>
  C18.  A failed or cancelled join names the branch that blocked it, and that branch is
  settled with the same outcome; a pending or successful join names none.
\<close>

theorem joins_are_proven:
  assumes "from_events E es = Inr state" "bt_get (p_forks (fs_projection state)) k = Some fork"
  shows "fp_fork_id fork = k
    \<and> (fp_join_status fork = ForkJoinStatus_Failed \<longrightarrow>
        (\<exists>b branch. fp_blocking_branch_id fork = Some b \<and> bt_get (fp_branches fork) b = Some branch
          \<and> fbp_outcome branch = Some ForkBranchOutcome_Failed))
    \<and> (fp_join_status fork = ForkJoinStatus_Cancelled \<longrightarrow>
        (\<exists>b branch. fp_blocking_branch_id fork = Some b \<and> bt_get (fp_branches fork) b = Some branch
          \<and> fbp_outcome branch = Some ForkBranchOutcome_Cancelled))
    \<and> (fp_join_status fork \<in> {ForkJoinStatus_Pending, ForkJoinStatus_Succeeded} \<longrightarrow>
        fp_blocking_branch_id fork = None)"
proof -
  have "fork_sound k fork"
    using assms by (rule fork.every_object) (auto intro: fork_fresh_sound fork_moves_sound)
  then show ?thesis
    by (auto simp: fork_sound_def join_proven_def blocked_by_def split: fork_join_status.splits)
qed

theorem joins_are_proven_witness:
  "\<exists>state fork b branch. from_events sample_externals fork_history = Inr state
    \<and> bt_get (p_forks (fs_projection state)) ''f'' = Some fork
    \<and> bt_get (fp_branches fork) b = Some branch \<and> fbp_outcome branch = Some ForkBranchOutcome_Failed"
proof -
  obtain state fork where state: "from_events sample_externals fork_history = Inr state"
    "bt_get (p_forks (fs_projection state)) ''f'' = Some fork" "fp_join_status fork = ForkJoinStatus_Failed"
    using fork_history_folds by blast
  then show ?thesis using joins_are_proven [OF state(1,2)] by blast
qed

section \<open>Loops\<close>

text \<open>
  C19.  A settled loop is complete: every index below its total has exactly one settled
  iteration and no iteration has active work; a successful loop has only successful
  iterations; and nothing of a settled loop changes in an extension of the history.
\<close>

theorem settled_loops_are_complete:
  assumes "from_events E xs = Inr state" "from_events E (xs @ ys) = Inr state'"
    and "bt_get (p_for_each (fs_projection state)) k = Some loop" "fep_status loop \<noteq> ForEachStatus_Open"
  shows "(\<forall>i. (\<exists>s. bt_get (fep_iterations loop) i = Some s) \<longleftrightarrow> i < fep_total loop)
    \<and> (\<forall>i s. bt_get (fep_iterations loop) i = Some s \<longrightarrow> s \<noteq> ForEachIterationStatus_Started
        \<and> (fep_status loop = ForEachStatus_Succeeded \<longrightarrow> iteration_succeeded s))
    \<and> \<not> owns_active_work loop
    \<and> bt_get (p_for_each (fs_projection state')) k = Some loop"
proof -
  have sound: "loop_sound k loop"
    using assms(1,3) by (rule loop.every_object) (auto intro: loop_fresh_sound loop_moves_sound)
  obtain loop' where loop': "bt_get (p_for_each (fs_projection state')) k = Some loop'" "loop_moves\<^sup>*\<^sup>* loop loop'"
    using assms(1-3) by (rule loop.evolution)
  have "loop' = loop" using settled_loop_stays [OF loop'(2) sound assms(4)] .
  with loop'(1) sound assms(4) show ?thesis
    unfolding loop_sound_def complete_def by blast
qed

theorem settled_loops_are_complete_witness:
  "\<exists>state loop s. from_events sample_externals loop_history = Inr state
    \<and> bt_get (p_for_each (fs_projection state)) ''f'' = Some loop
    \<and> bt_get (fep_iterations loop) 0 = Some s \<and> iteration_succeeded s"
proof -
  obtain state loop where state: "from_events sample_externals loop_history = Inr state"
    "bt_get (p_for_each (fs_projection state)) ''f'' = Some loop" "fep_status loop = ForEachStatus_Succeeded"
    "fep_total loop = 1"
    using loop_history_folds by blast
  have extended: "from_events sample_externals (loop_history @ []) = Inr state" using state(1) by simp
  have settled: "fep_status loop \<noteq> ForEachStatus_Open" using state(3) by simp
  have "(0 :: u32) < fep_total loop" using state(4) by simp
  then obtain s where "bt_get (fep_iterations loop) 0 = Some s" "iteration_succeeded s"
    using settled_loops_are_complete [OF state(1) extended state(2) settled] state(3) by blast
  then show ?thesis using state(1,2) by blast
qed



section \<open>Approvals\<close>

text \<open>
  C21.  An approval is resolved once and in time: a person decides strictly before the
  deadline; the timeout decides at or after the deadline, only by rejection or failure,
  whichever policy the request was made with; a resolved request does not change.
\<close>

theorem approvals_resolve_in_time:
  assumes "from_events E xs = Inr state" "from_events E (xs @ ys) = Inr state'"
    and "bt_get (p_approval_requests (fs_projection state)) k = Some r"
    and "arp_status r = ApprovalRequestStatus_Resolved resolution at"
  shows "(case resolution of
       ApprovalResolution_Decision decision ApprovalDecisionSource_Human \<Rightarrow>
         (\<forall>deadline. arp_expires_at r = Some deadline \<longrightarrow> at < deadline)
     | ApprovalResolution_Decision decision ApprovalDecisionSource_Timeout \<Rightarrow>
         decision = ApprovalDecision_Rejected \<and> arp_on_timeout r = ApprovalTimeoutPolicy_Reject
         \<and> (\<exists>deadline. arp_expires_at r = Some deadline \<and> deadline \<le> at)
     | ApprovalResolution_TimeoutFailure \<Rightarrow>
         arp_on_timeout r = ApprovalTimeoutPolicy_Fail
         \<and> (\<exists>deadline. arp_expires_at r = Some deadline \<and> deadline \<le> at))
    \<and> bt_get (p_approval_requests (fs_projection state')) k = Some r"
proof -
  have "approval_sound k r"
    using assms(1,3) by (rule approval.every_object) (auto intro: approval_fresh_sound approval_moves_sound)
  moreover obtain r' where "bt_get (p_approval_requests (fs_projection state')) k = Some r'" "approval_moves\<^sup>*\<^sup>* r r'"
    using assms(1-3) by (rule approval.evolution)
  moreover from this(2) have "r' = r" using assms(4) by (intro resolved_approval_stays) simp_all
  ultimately show ?thesis using assms(4) by (simp add: approval_sound_def)
qed

theorem approvals_resolve_in_time_witness:
  "\<exists>state r. from_events sample_externals (approval_history @ [approval_decision_event]) = Inr state
    \<and> bt_get (p_approval_requests (fs_projection state)) ''a'' = Some r \<and> arp_expires_at r \<noteq> Some 4"
proof -
  obtain state r where state: "from_events sample_externals (approval_history @ [approval_decision_event]) = Inr state"
    "bt_get (p_approval_requests (fs_projection state)) ''a'' = Some r"
    "arp_status r = ApprovalRequestStatus_Resolved
      (ApprovalResolution_Decision ApprovalDecision_Approved ApprovalDecisionSource_Human) 4"
    using approval_history_folds by blast
  have "from_events sample_externals ((approval_history @ [approval_decision_event]) @ []) = Inr state"
    using state(1) by simp
  from approvals_resolve_in_time [OF state(1) this state(2,3)] show ?thesis using state by auto
qed

text \<open>
  C22.  A review records one decision per reviewer, filed under the reviewer, and no
  decision changes; what is reviewed and the quorum it needs never change; a resolved
  review does not change and has a resolution time.
\<close>

theorem reviews_are_final:
  assumes "from_events E xs = Inr state" "from_events E (xs @ ys) = Inr state'"
    and "bt_get (p_rich_approval_requests (fs_projection state)) k = Some r"
  shows "(rarp_resolved_at r = None \<longleftrightarrow> rarp_status r = RichApprovalRequestStatus_Waiting)
    \<and> (\<forall>who d. bt_get (rarp_decisions r) who = Some d \<longrightarrow> rardp_principal_id d = who)
    \<and> (\<exists>r'. bt_get (p_rich_approval_requests (fs_projection state')) k = Some r'
        \<and> rarp_review_digest r' = rarp_review_digest r \<and> rarp_required r' = rarp_required r
        \<and> rarp_required_roles r' = rarp_required_roles r
        \<and> (\<forall>who d. bt_get (rarp_decisions r) who = Some d \<longrightarrow> bt_get (rarp_decisions r') who = Some d)
        \<and> (rarp_status r \<noteq> RichApprovalRequestStatus_Waiting \<longrightarrow> r' = r))"
proof -
  have "rich_sound k r"
    using assms(1,3) by (rule rich_approval.every_object) (auto intro: rich_fresh_sound rich_moves_sound)
  moreover obtain r' where "bt_get (p_rich_approval_requests (fs_projection state')) k = Some r'" "rich_moves\<^sup>*\<^sup>* r r'"
    using assms by (rule rich_approval.evolution)
  moreover from this(2) have "review_subject r' = review_subject r" by (rule review_subject_stays)
  ultimately show ?thesis
    using reviewer_decision_stays resolved_rich_stays unfolding rich_sound_def review_subject_def by blast
qed

theorem reviews_are_final_witness:
  "\<exists>state r. from_events sample_externals review_history = Inr state
    \<and> bt_get (p_rich_approval_requests (fs_projection state)) ''a'' = Some r \<and> rarp_resolved_at r \<noteq> None"
proof -
  obtain state r where state: "from_events sample_externals review_history = Inr state"
    "bt_get (p_rich_approval_requests (fs_projection state)) ''a'' = Some r"
    "rarp_status r = RichApprovalRequestStatus_Approved"
    using review_history_folds by blast
  have "from_events sample_externals (review_history @ []) = Inr state" using state(1) by simp
  from reviews_are_final [OF state(1) this state(2)] show ?thesis using state by auto
qed

section \<open>Notifications\<close>

text \<open>
  C23.  A notification is attempted at most three times, and a delivery that succeeded or
  failed for good does not change: a delivered notification is never sent again.
\<close>

theorem deliveries_are_bounded:
  assumes "from_events E xs = Inr state" "from_events E (xs @ ys) = Inr state'"
    and "bt_get (p_notification_deliveries (fs_projection state)) k = Some d"
  shows "delivery_attempts (ndp_status d) \<le> 3
    \<and> (delivery_closed (ndp_status d) \<longrightarrow>
        bt_get (p_notification_deliveries (fs_projection state')) k = Some d)"
proof -
  have "delivery_sound k d"
    using assms(1,3) by (rule delivery.every_object) (auto intro: delivery_fresh_sound delivery_moves_sound)
  moreover obtain d' where "bt_get (p_notification_deliveries (fs_projection state')) k = Some d'" "delivery_moves\<^sup>*\<^sup>* d d'"
    using assms by (rule delivery.evolution)
  ultimately show ?thesis using closed_delivery_stays unfolding delivery_sound_def by metis
qed

theorem deliveries_are_bounded_witness:
  "\<exists>state d. from_events sample_externals notification_history = Inr state
    \<and> bt_get (p_notification_deliveries (fs_projection state)) sample_delivery = Some d
    \<and> delivery_attempts (ndp_status d) \<le> 3"
proof -
  obtain state d where state: "from_events sample_externals notification_history = Inr state"
    "bt_get (p_notification_deliveries (fs_projection state)) sample_delivery = Some d"
    using notification_history_folds by blast
  have "from_events sample_externals (notification_history @ []) = Inr state" using state(1) by simp
  from deliveries_are_bounded [OF state(1) this state(2)] show ?thesis using state by blast
qed

text \<open>
  C24.  A decision that came back through a notification was carried by a successful delivery
  of the same approval request, and it blocks the notifications of every other approval: in
  no extension of the history is a decision on any request of the run accepted again.
\<close>

theorem first_decision_blocks_others:
  assumes "from_events E xs = Inr state" "d \<in> set (p_notification_decisions (fs_projection state))"
  shows "(\<exists>r. bt_get (p_notification_deliveries (fs_projection state)) (ndac_delivery_id d) = Some r
      \<and> delivery_succeeded (ndp_status r)
      \<and> ndp_approval_id r = ndac_approval_id d \<and> ndp_request_id r = ndac_request_id d)
    \<and> (\<forall>ys e other. ev_payload e = NotificationDecisionAccepted other \<longrightarrow>
        \<not> is_ok (from_events E (xs @ ys @ [e])))"
proof -
  have "\<not> is_ok (from_events E (xs @ ys @ [e]))" if "ev_payload e = NotificationDecisionAccepted other" for ys e other
  proof
    assume "is_ok (from_events E (xs @ ys @ [e]))"
    then obtain final where "from_events E ((xs @ ys) @ [e]) = Inr final" by (auto simp: is_ok_iff)
    then obtain mid where mid: "from_events E (xs @ ys) = Inr mid" "apply_event E mid e = Inr final"
      by (rule from_events_snocE)
    have "p_notification_decisions (fs_projection mid) \<noteq> []"
      using decisions_kept [OF assms(1) mid(1)] assms(2) by auto
    with decision_refused [OF mid(2) that] show False by simp
  qed
  then show ?thesis
    using decision.holds [OF assms(1)] assms(2) unfolding decisions_sound_def carried_by_def by blast
qed

theorem first_decision_blocks_others_witness:
  "\<exists>state r. from_events sample_externals second_approval_history = Inr state
    \<and> p_status (fs_projection state) = RunStatus_Waiting
    \<and> bt_get (p_notification_deliveries (fs_projection state)) second_delivery = Some r
    \<and> delivery_succeeded (ndp_status r)
    \<and> \<not> is_ok (from_events sample_externals
        (second_approval_history @ [] @ [sample_event 11 ''13'' 13 (NotificationDecisionAccepted second_decision)]))"
proof -
  obtain state r where state: "from_events sample_externals second_approval_history = Inr state"
    "p_status (fs_projection state) = RunStatus_Waiting"
    "bt_get (p_notification_deliveries (fs_projection state)) second_delivery = Some r"
    "delivery_succeeded (ndp_status r)" "length (p_notification_decisions (fs_projection state)) = 1"
    using second_approval_history_folds by blast
  then obtain d where "d \<in> set (p_notification_decisions (fs_projection state))"
    by (metis length_0_conv list.set_sel(1) one_neq_zero)
  note blocked = first_decision_blocks_others [OF state(1) this]
  have "ev_payload (sample_event 11 ''13'' 13 (NotificationDecisionAccepted second_decision))
      = NotificationDecisionAccepted second_decision"
    by (simp add: sample_event_def)
  with blocked show ?thesis using state(1-4) by blast
qed

section \<open>Hooks\<close>

text \<open>
  C25.  A lifecycle hook has at most one running action, counts its failed actions, and
  completes without a running action, with warnings exactly when an action failed; a
  completed hook does not change.
\<close>

theorem hooks_complete_once:
  assumes "from_events E xs = Inr state" "from_events E (xs @ ys) = Inr state'"
    and "bt_get (p_lifecycle_hooks (fs_projection state)) k = Some h"
  shows "(\<forall>a b x y. bt_get (lhp_actions h) a = Some x \<longrightarrow> bt_get (lhp_actions h) b = Some y \<longrightarrow>
      lap_status x = LifecycleActionStatus_Started \<longrightarrow> lap_status y = LifecycleActionStatus_Started \<longrightarrow> a = b)
    \<and> lhp_failed_actions h = of_nat (card {a. \<exists>x. bt_get (lhp_actions h) a = Some x
        \<and> lap_status x = LifecycleActionStatus_Failed})
    \<and> (hook_completed h \<longrightarrow>
        (\<forall>a x. bt_get (lhp_actions h) a = Some x \<longrightarrow> lap_status x \<noteq> LifecycleActionStatus_Started)
        \<and> (lhp_status h = LifecycleHookStatus_Completed \<longleftrightarrow> lhp_failed_actions h = 0)
        \<and> bt_get (p_lifecycle_hooks (fs_projection state')) k = Some h)"
proof -
  have sound: "hook_sound k h"
    using assms(1,3) by (rule hook.every_object) (auto intro: hook_fresh_sound hook_moves_sound)
  obtain h' where h': "bt_get (p_lifecycle_hooks (fs_projection state')) k = Some h'" "hook_moves\<^sup>*\<^sup>* h h'"
    using assms by (rule hook.evolution)
  have "hook_completed h \<longrightarrow> h' = h" using completed_hook_stays [OF h'(2) sound] by blast
  with h'(1) sound show ?thesis
    unfolding hook_sound_def failed_keys_def action_running_def by blast
qed

theorem hooks_complete_once_witness:
  "\<exists>state h. from_events sample_externals hook_history = Inr state
    \<and> bt_get (p_lifecycle_hooks (fs_projection state)) sample_digest = Some h
    \<and> lhp_failed_actions h \<noteq> 0"
proof -
  obtain state h where state: "from_events sample_externals hook_history = Inr state"
    "bt_get (p_lifecycle_hooks (fs_projection state)) sample_digest = Some h"
    "lhp_status h = LifecycleHookStatus_CompletedWithWarnings"
    using hook_history_folds by blast
  have "from_events sample_externals (hook_history @ []) = Inr state" using state(1) by simp
  from hooks_complete_once [OF state(1) this state(2)] show ?thesis
    using state by (auto simp: hook_completed_def)
qed

end
