(* ===== verification/Event_Store.thy ===== *)
theory Event_Store
  imports Run_History "HOL-Library.Multiset"
begin

text \<open>
  The in-memory event store (\<^verbatim>\<open>store.rs\<close>): the logs of all runs, the identifiers of all
  their events, and the fold state of every run.  An append is checked on a copy of the
  fold state and published only when it succeeds.  The locale \<open>run_log\<close> states what a
  store promises to the engine; it is interpreted on the store below, and its lemmas say
  what an interleaving of the appends of several runs leaves behind.
\<close>

section \<open>The store\<close>

datatype event_store_error =
    EventStoreError_DuplicateEventId string
  | EventStoreError_InvalidHistory fold_error

record in_memory_event_store =
  st_runs :: "string \<rightharpoonup> run_event list"
  st_event_ids :: "string set"
  st_projections :: "string \<rightharpoonup> fold_state"

definition default_store :: in_memory_event_store where
  "default_store = \<lparr>st_runs = Map.empty, st_event_ids = {}, st_projections = Map.empty\<rparr>"

definition store_events :: "in_memory_event_store \<Rightarrow> string \<Rightarrow> run_event list" where
  "store_events store run_id = (case st_runs store run_id of None \<Rightarrow> [] | Some events \<Rightarrow> events)"

definition store_projection :: "in_memory_event_store \<Rightarrow> string \<Rightarrow> run_projection" where
  "store_projection store run_id =
    (case st_projections store run_id of None \<Rightarrow> empty_projection | Some state \<Rightarrow> fs_projection state)"

definition store_candidate :: "in_memory_event_store \<Rightarrow> string \<Rightarrow> fold_state" where
  "store_candidate store run_id =
    (case st_projections store run_id of None \<Rightarrow> default_fold_state | Some state \<Rightarrow> state)"

definition store_append ::
  "externals \<Rightarrow> in_memory_event_store \<Rightarrow> run_event
    \<Rightarrow> (event_store_error, run_projection) result \<times> in_memory_event_store" where
  "store_append E store event =
    (if ev_event_id event \<in> st_event_ids store
     then (Inl (EventStoreError_DuplicateEventId (ev_event_id event)), store)
     else (case apply_event E (store_candidate store (ev_run_id event)) event of
       Inl error \<Rightarrow> (Inl (EventStoreError_InvalidHistory error), store)
     | Inr candidate \<Rightarrow> (Inr (fs_projection candidate),
         \<lparr>st_runs = (st_runs store)(ev_run_id event \<mapsto> store_events store (ev_run_id event) @ [event]),
          st_event_ids = insert (ev_event_id event) (st_event_ids store),
          st_projections = (st_projections store)(ev_run_id event \<mapsto> candidate)\<rparr>)))"

section \<open>The interface of a run log\<close>

text \<open>
  What the engine relies on: every log folds; an append that is refused changes nothing;
  an append that is accepted adds the event to the log of its run alone and answers with
  the projection of that log; and the identifier of an event is new to all runs.
\<close>

locale run_log =
  fixes E :: externals
    and init :: 's
    and ok :: "'s \<Rightarrow> bool"
    and log :: "'s \<Rightarrow> string \<Rightarrow> run_event list"
    and append :: "'s \<Rightarrow> run_event \<Rightarrow> (event_store_error, run_projection) result \<times> 's"
  assumes ok_init: "ok init" and log_init: "log init r = []"
    and ok_folds: "ok s \<Longrightarrow> is_ok (fold_events E (log s r))"
    and ok_append: "ok s \<Longrightarrow> ok (snd (append s e))"
    and append_result: "ok s \<Longrightarrow> fst (append s e) =
      (if \<exists>r. ev_event_id e \<in> ev_event_id ` set (log s r)
       then Inl (EventStoreError_DuplicateEventId (ev_event_id e))
       else case fold_events E (log s (ev_run_id e) @ [e]) of
         Inl error \<Rightarrow> Inl (EventStoreError_InvalidHistory error)
       | Inr p \<Rightarrow> Inr p)"
    and append_log: "ok s \<Longrightarrow> log (snd (append s e)) =
      (if is_ok (fst (append s e)) then (log s)(ev_run_id e := log s (ev_run_id e) @ [e]) else log s)"
    and append_refused: "\<not> is_ok (fst (append s e)) \<Longrightarrow> snd (append s e) = s"
begin

text \<open>A schedule of appends, all of which must be accepted.\<close>

definition accepts :: "run_event list \<Rightarrow> bool" where
  "accepts es \<longleftrightarrow> distinct (map ev_event_id es)
    \<and> (\<forall>r. is_ok (fold_events E (filter (\<lambda>e. ev_run_id e = r) es)))"

fun append_all :: "'s \<Rightarrow> run_event list \<Rightarrow> 's option" where
  "append_all s [] = Some s"
| "append_all s (e # es) =
    (if is_ok (fst (append s e)) then append_all (snd (append s e)) es else None)"

lemma append_all_snoc:
  "append_all s (es @ [e]) = (case append_all s es of None \<Rightarrow> None
    | Some s' \<Rightarrow> if is_ok (fst (append s' e)) then Some (snd (append s' e)) else None)"
  by (induction es arbitrary: s) auto

lemma accepts_prefix: "accepts (es @ [e]) \<Longrightarrow> accepts es"
  unfolding accepts_def fold_events_def
  by (auto simp: is_ok_iff ok_simps from_events_snoc split: if_splits)

lemma append_accepted_iff:
  assumes "ok s"
  shows "is_ok (fst (append s e)) \<longleftrightarrow>
    (\<forall>r. ev_event_id e \<notin> ev_event_id ` set (log s r))
    \<and> is_ok (fold_events E (log s (ev_run_id e) @ [e]))"
  using append_result [OF assms, of e] by (auto simp: is_ok_def split: sum.splits if_splits)

text \<open>The schedule is accepted exactly when its identifiers are distinct and the events
  of every run fold in the order they have in the schedule.\<close>

lemma schedule:
  "case append_all init es of
     None \<Rightarrow> \<not> accepts es
   | Some s \<Rightarrow> accepts es \<and> ok s \<and> (\<forall>r. log s r = filter (\<lambda>e. ev_run_id e = r) es)"
proof (induction es rule: rev_induct)
  case Nil
  then show ?case
    by (simp add: accepts_def ok_init log_init fold_events_def)
next
  case (snoc e es)
  show ?case
  proof (cases "append_all init es")
    case None
    then show ?thesis using snoc accepts_prefix by (auto simp: append_all_snoc)
  next
    case (Some s)
    with snoc have s: "accepts es" "ok s" "\<And>r. log s r = filter (\<lambda>e. ev_run_id e = r) es"
      by auto
    have fresh: "(\<forall>r. ev_event_id e \<notin> ev_event_id ` set (log s r)) \<longleftrightarrow> ev_event_id e \<notin> ev_event_id ` set es"
      by (auto simp: s(3))
    have "is_ok (fst (append s e)) \<longleftrightarrow> accepts (es @ [e])"
      using s(1) unfolding append_accepted_iff [OF s(2)] fresh accepts_def s(3) by auto
    then show ?thesis
      using s ok_append [OF s(2)] append_log [OF s(2)] Some by (auto simp: append_all_snoc)
  qed
qed

lemma schedule_accepted: "append_all init es \<noteq> None \<longleftrightarrow> accepts es"
  using schedule [of es] by (auto split: option.splits)

lemma schedule_log:
  "append_all init es = Some s \<Longrightarrow> log s r = filter (\<lambda>e. ev_run_id e = r) es"
  using schedule [of es] by simp

lemma schedule_ok: "append_all init es = Some s \<Longrightarrow> ok s"
  using schedule [of es] by simp

text \<open>Two schedules with the same events of every run are accepted together.\<close>

lemma accepts_interleaving:
  assumes "\<And>r. filter (\<lambda>e. ev_run_id e = r) xs = filter (\<lambda>e. ev_run_id e = r) ys"
  shows "accepts xs \<longleftrightarrow> accepts ys"
proof -
  have "mset xs = mset ys"
  proof (rule multiset_eqI)
    fix e :: run_event
    have "count (mset zs) e = count (mset (filter (\<lambda>x. ev_run_id x = ev_run_id e) zs)) e" for zs
      by simp
    then show "count (mset xs) e = count (mset ys) e" using assms by metis
  qed
  then have "mset (map ev_event_id xs) = mset (map ev_event_id ys)" by simp
  then have "distinct (map ev_event_id xs) = distinct (map ev_event_id ys)"
    by (rule mset_eq_imp_distinct_iff)
  then show ?thesis using assms by (simp add: accepts_def)
qed

end

section \<open>The store is a run log\<close>

definition store_ok :: "externals \<Rightarrow> in_memory_event_store \<Rightarrow> bool" where
  "store_ok E store \<longleftrightarrow>
    (\<forall>r. from_events E (store_events store r) = Inr (store_candidate store r))
    \<and> st_event_ids store = (\<Union>r. ev_event_id ` set (store_events store r))
    \<and> dom (st_projections store) = {r. store_events store r \<noteq> []}
    \<and> dom (st_runs store) = {r. store_events store r \<noteq> []}"

lemma store_append_accepted:
  assumes "ev_event_id e \<notin> st_event_ids store"
    and "apply_event E (store_candidate store (ev_run_id e)) e = Inr state"
  shows "fst (store_append E store e) = Inr (fs_projection state)"
    and "store_events (snd (store_append E store e)) =
      (store_events store)(ev_run_id e := store_events store (ev_run_id e) @ [e])"
    and "store_candidate (snd (store_append E store e)) = (store_candidate store)(ev_run_id e := state)"
    and "st_event_ids (snd (store_append E store e)) = insert (ev_event_id e) (st_event_ids store)"
    and "dom (st_projections (snd (store_append E store e))) =
      insert (ev_run_id e) (dom (st_projections store))"
    and "dom (st_runs (snd (store_append E store e))) = insert (ev_run_id e) (dom (st_runs store))"
  using assms by (auto simp: store_append_def store_events_def store_candidate_def fun_eq_iff)

lemma store_append_refused:
  "\<not> is_ok (fst (store_append E store e)) \<Longrightarrow> snd (store_append E store e) = store"
  by (auto simp: store_append_def split: if_splits sum.splits)

lemma Union_image_snoc:
  "(\<Union>r. f ` set ((g(k := g k @ [e])) r)) = insert (f e) (\<Union>r. f ` set (g r))"
proof -
  have "f ` set ((g(k := g k @ [e])) r) = f ` set (g r) \<union> (if r = k then {f e} else {})" for r
    by auto
  then have "(\<Union>r. f ` set ((g(k := g k @ [e])) r)) = (\<Union>r. f ` set (g r)) \<union> (\<Union>r. if r = k then {f e} else {})"
    by (simp only: UN_Un_distrib)
  then show ?thesis by auto
qed

lemma store_append_ok:
  assumes "store_ok E store"
  shows "store_ok E (snd (store_append E store e))"
proof (cases "is_ok (fst (store_append E store e))")
  case False
  then show ?thesis using assms store_append_refused by metis
next
  case True
  then obtain state where "ev_event_id e \<notin> st_event_ids store"
    "apply_event E (store_candidate store (ev_run_id e)) e = Inr state"
    by (auto simp: store_append_def split: if_splits sum.splits)
  note accepted = store_append_accepted [OF this] and step = this(2)
  show ?thesis
    using assms step unfolding store_ok_def accepted Union_image_snoc
    by (auto simp: from_events_snoc)
qed

lemma store_ok_default: "store_ok E default_store"
  by (simp add: store_ok_def default_store_def store_events_def store_candidate_def)

lemma fold_events_store:
  assumes "store_ok E store"
  shows "fold_events E (store_events store r) = Inr (fs_projection (store_candidate store r))"
    and "fold_events E (store_events store r @ [e]) =
      and_then (apply_event E (store_candidate store r) e) (\<lambda>state. Inr (fs_projection state))"
  using assms by (simp_all add: store_ok_def fold_events_def from_events_snoc)

lemma store_append_result:
  assumes "store_ok E store"
  shows "fst (store_append E store e) =
      (if \<exists>r. ev_event_id e \<in> ev_event_id ` set (store_events store r)
       then Inl (EventStoreError_DuplicateEventId (ev_event_id e))
       else case fold_events E (store_events store (ev_run_id e) @ [e]) of
         Inl error \<Rightarrow> Inl (EventStoreError_InvalidHistory error)
       | Inr p \<Rightarrow> Inr p)"
proof -
  have "ev_event_id e \<in> st_event_ids store \<longleftrightarrow>
      (\<exists>r. ev_event_id e \<in> ev_event_id ` set (store_events store r))"
    using assms by (auto simp: store_ok_def)
  then show ?thesis
    unfolding fold_events_store(2) [OF assms] by (auto simp: store_append_def split: sum.splits)
qed

interpretation store: run_log E default_store "store_ok E" store_events "store_append E" for E
proof unfold_locales
  show "store_ok E default_store" by (rule store_ok_default)
  show "store_events default_store r = []" for r
    by (simp add: store_events_def default_store_def)
  fix s e r assume ok: "store_ok E s"
  show "is_ok (fold_events E (store_events s r))" using fold_events_store(1) [OF ok] by simp
  show "store_ok E (snd (store_append E s e))" using ok by (rule store_append_ok)
  show "store_events (snd (store_append E s e)) =
      (if is_ok (fst (store_append E s e))
       then (store_events s)(ev_run_id e := store_events s (ev_run_id e) @ [e]) else store_events s)"
    using store_append_accepted(2) [of e s E] store_append_refused [of E s e]
    by (auto simp: store_append_def split: sum.splits)
qed (rule store_append_result store_append_refused; assumption)+

text \<open>A store is determined by the logs of its runs.\<close>

lemma store_determined:
  assumes "store_ok E s" "store_ok E t" "store_events s = store_events t"
  shows "s = t"
proof -
  have candidate: "store_candidate s r = store_candidate t r" for r
    using assms by (metis store_ok_def sum.inject(2))
  have "st_projections s r = st_projections t r" for r
  proof (cases "store_events s r = []")
    case True
    then have "r \<notin> dom (st_projections s)" "r \<notin> dom (st_projections t)"
      using assms by (simp_all add: store_ok_def)
    then show ?thesis by (simp add: domIff)
  next
    case False
    then have "r \<in> dom (st_projections s)" "r \<in> dom (st_projections t)"
      using assms by (simp_all add: store_ok_def)
    then show ?thesis using candidate [of r] by (auto simp: store_candidate_def)
  qed
  moreover have "st_runs s r = st_runs t r" for r
  proof (cases "store_events s r = []")
    case True
    then have "r \<notin> dom (st_runs s)" "r \<notin> dom (st_runs t)"
      using assms by (simp_all add: store_ok_def)
    then show ?thesis by (simp add: domIff)
  next
    case False
    then have "r \<in> dom (st_runs s)" "r \<in> dom (st_runs t)"
      using assms by (simp_all add: store_ok_def)
    then show ?thesis using fun_cong [OF assms(3), of r] by (auto simp: store_events_def)
  qed
  moreover have "st_event_ids s = st_event_ids t"
    using assms by (simp add: store_ok_def)
  ultimately show ?thesis
    by (intro in_memory_event_store.equality) (simp_all add: fun_eq_iff)
qed

text \<open>The schedules of the store, as a definition of its own.\<close>

fun store_append_all :: "externals \<Rightarrow> in_memory_event_store \<Rightarrow> run_event list \<Rightarrow> in_memory_event_store option" where
  "store_append_all E store [] = Some store"
| "store_append_all E store (event # events) =
    (case store_append E store event of
       (Inl _, _) \<Rightarrow> None
     | (Inr _, store') \<Rightarrow> store_append_all E store' events)"

lemma store_append_all_eq: "store_append_all E s es = store.append_all E s es"
  by (induction es arbitrary: s) (auto simp: store.append_all.simps split: prod.splits sum.splits)

end
