(* ===== verification/Workflow_Model.thy ===== *)
theory Workflow_Model
  imports Projection_Fold
begin

text \<open>
  The compiled workflow definition (\<^verbatim>\<open>model/contracts.rs\<close>, \<^verbatim>\<open>control_flow.rs\<close>,
  \<^verbatim>\<open>expressions.rs\<close>, \<^verbatim>\<open>policies.rs\<close>, \<^verbatim>\<open>lifecycle.rs\<close>, \<^verbatim>\<open>reusable.rs\<close>) and the queries the
  engine makes of it (\<^verbatim>\<open>model/queries.rs\<close>).  The searches of the graph are worklist loops
  over a visited set; they are total functions here, because the part of the graph not
  yet visited shrinks, and they are shown to decide reachability.
\<close>

section \<open>Expressions\<close>

datatype template_part =
    TemplatePart_Text string
  | TemplatePart_ContextReference "string list"
  | TemplatePart_LifecycleReference "string list"

datatype value_expression =
    ValueExpression_Literal json
  | ValueExpression_ContextReference "string list"
  | ValueExpression_LifecycleReference "string list"
  | ValueExpression_SecretReference string
  | ValueExpression_Object "(string \<times> value_expression) list"
  | ValueExpression_Array "value_expression list"
  | ValueExpression_Template "template_part list"

datatype edge_condition =
    EdgeCondition_Always
  | EdgeCondition_Boolean value_expression
  | EdgeCondition_Truthy value_expression
  | EdgeCondition_Equals value_expression value_expression

section \<open>Policies, hooks and reusable definitions\<close>

datatype rate_limit_algorithm = RateLimitAlgorithm_RollingWindow

record compiled_rate_limit_policy =
  crl_count :: u32
  crl_window_ms :: u64
  crl_algorithm :: rate_limit_algorithm

datatype queue_discipline = QueueDiscipline_WorkConservingFifo

record compiled_queue_policy =
  cqp_name :: string
  cqp_discipline :: queue_discipline

record compiled_runtime_policy =
  crp_profile_version :: u32
  crp_concurrency :: "u32 option"
  crp_timeout_ms :: "u64 option"
  crp_rate_limit :: "compiled_rate_limit_policy option"
  crp_queue :: "compiled_queue_policy option"

datatype backoff_policy =
    BackoffPolicy_None
  | BackoffPolicy_Fixed u64
  | BackoffPolicy_Exponential u64 f64 "u64 option"

record retry_policy =
  rtp_max_attempts :: u32
  rtp_backoff :: backoff_policy

record script_runtime_bindings =
  srb_binding_version :: u32
  srb_bindings :: "string list"
  srb_required_secrets :: "string list"

record compiled_lifecycle_action =
  cla_action_id :: string
  cla_handler :: string
  cla_inputs :: value_expression
  cla_script_runtime :: "script_runtime_bindings option"

record compiled_lifecycle_hook =
  clh_hook_id :: string
  clh_event :: lifecycle_event_name
  clh_step_ids :: "string list option"
  clh_actions :: "compiled_lifecycle_action list"

record compiled_lifecycle_definition =
  cld_profile_version :: u32
  cld_hooks :: "compiled_lifecycle_hook list"

datatype compiled_reusable_prop_expression =
    CompiledReusablePropExpression_Literal string
  | CompiledReusablePropExpression_Context string
  | CompiledReusablePropExpression_Secret string

record compiled_reusable_bound_prop =
  crbp_name :: string
  crbp_binding_name :: string
  crbp_secret :: bool
  crbp_expression :: compiled_reusable_prop_expression

record compiled_reusable_lifecycle =
  crlc_on_success :: "string list option"
  crlc_on_error :: "string list option"
  crlc_on_complete :: "string list option"

datatype compiled_reusable_invocation =
    CompiledReusableInvocation_Step
      (cri_invocation_id: string) (cri_node_id: string) (cri_alias: string)
      (cri_definition_digest: string) (cri_source: string) (cri_script_artifact_id: string)
      (cri_props: "compiled_reusable_bound_prop list")
      (cri_lifecycle: "compiled_reusable_lifecycle option")
  | CompiledReusableInvocation_NotificationProvider
      (cri_provider_id: string) (cri_alias: string)
      (cri_definition_digest: string) (cri_source: string) (cri_script_artifact_id: string)
      (cri_props: "compiled_reusable_bound_prop list")
      (cri_lifecycle: "compiled_reusable_lifecycle option")

section \<open>The graph\<close>

record compiled_execution_placement =
  cep_profile_version :: u32
  cep_target :: string
  cep_required_capabilities :: "string list"

record compiled_workflow_node =
  nd_id :: string
  nd_handler :: string
  nd_inputs :: value_expression
  nd_timeout_ms :: "u64 option"
  nd_retry_policy :: "retry_policy option"
  nd_script_runtime :: "script_runtime_bindings option"
  nd_execution :: "compiled_execution_placement option"
  nd_metadata :: "json_object option"

record compiled_workflow_edge =
  ed_id :: string
  ed_from :: string
  ed_to :: string
  ed_condition :: edge_condition
  ed_branch_id :: "string option"
  ed_parallel_id :: "string option"
  ed_approval_id :: "string option"

datatype compiled_correction_identity =
    CompiledCorrectionIdentity_Static string
  | CompiledCorrectionIdentity_ForEachIteration string string

record compiled_corrective_action =
  cca_action_id :: string
  cca_node :: compiled_workflow_node
  cca_identity :: compiled_correction_identity
  cca_visible_step_ids :: "string list"
  cca_for_step_id :: "string option"

record compiled_saga =
  sg_saga_id :: string
  sg_open_node_id :: string
  sg_commit_node_id :: string
  sg_result_node_id :: string
  sg_body_entry_node_id :: string
  sg_body_terminal_node_id :: string
  sg_body_result_node_id :: string
  sg_outer_step_ids :: "string list"
  sg_compensations :: "compiled_corrective_action list"
  sg_cleanup :: "compiled_corrective_action list"
  sg_metadata :: "json_object option"

record compiled_lock =
  lk_lock_id :: string
  lk_acquire_node_id :: string
  lk_release_node_id :: string
  lk_result_node_id :: string
  lk_body_entry_node_id :: string
  lk_body_terminal_node_id :: string
  lk_key :: value_expression
  lk_acquire_timeout_ms :: u64
  lk_lease_ms :: u64
  lk_outer_step_ids :: "string list"
  lk_metadata :: "json_object option"

record compiled_wait_signal =
  cws_signal :: string
  cws_schema :: json

datatype compiled_wait =
    CompiledWait_Duration (wt_wait_id: string) (wt_node_id: string) "json_object option" u64
  | CompiledWait_Until (wt_wait_id: string) (wt_node_id: string) "json_object option" value_expression
  | CompiledWait_Signal (wt_wait_id: string) (wt_node_id: string) "json_object option"
      "compiled_wait_signal list" value_expression "u64 option" string

record compiled_string_choice_case =
  csc_arm_id :: string
  csc_value :: string

record compiled_control_choice =
  ch_choice_id :: string
  ch_selector_node_id :: string
  ch_join_node_id :: string
  ch_arm_ids :: "string list"
  ch_string_selector :: "value_expression option"
  ch_string_cases :: "compiled_string_choice_case list option"
  ch_default_arm_id :: "string option"
  ch_result_node_id :: "string option"

record compiled_context_visibility =
  cv_node_id :: string
  cv_step_ids :: "string list"

record compiled_for_each_body =
  fb_entry_node_ids :: "string list"
  fb_nodes :: "compiled_workflow_node list"
  fb_edges :: "compiled_workflow_edge list"
  fb_choices :: "compiled_control_choice list"
  fb_context_visibility :: "compiled_context_visibility list"
  fb_terminal_node_id :: string

record compiled_for_each =
  fe_for_each_id :: string
  fe_open_node_id :: string
  fe_result_node_id :: string
  fe_metadata :: "json_object option"
  fe_items :: value_expression
  fe_concurrency :: u32
  fe_outer_step_ids :: "string list"
  fe_body :: compiled_for_each_body
  fe_result :: "value_expression option"

record compiled_fork_branch =
  br_branch_id :: string
  br_entry_node_id :: string
  br_terminal_node_id :: string

record compiled_fork =
  fk_fork_id :: string
  fk_open_node_id :: string
  fk_join_node_id :: string
  fk_branches :: "compiled_fork_branch list"
  fk_joined_branch_ids :: "string list"

record compiled_workflow_settlement =
  se_node_id :: string
  se_main_result_node_id :: string
  se_owned_branch_terminal_node_ids :: "string list"

record compiled_workflow_graph =
  gr_entry_node_ids :: "string list"
  gr_nodes :: "compiled_workflow_node list"
  gr_edges :: "compiled_workflow_edge list"
  gr_forks :: "compiled_fork list option"
  gr_choices :: "compiled_control_choice list option"
  gr_context_visibility :: "compiled_context_visibility list option"
  gr_settlement :: "compiled_workflow_settlement option"
  gr_for_each :: "compiled_for_each list option"
  gr_waits :: "compiled_wait list option"
  gr_locks :: "compiled_lock list option"
  gr_sagas :: "compiled_saga list option"

section \<open>The definition\<close>

record compiled_trigger =
  ct_id :: string
  ct_handler :: string
  ct_config :: value_expression

record compiled_workflow_metadata =
  cwm_name :: "string option"
  cwm_description :: "string option"
  cwm_version :: "string option"
  cwm_labels :: "(string, string) btree option"

record compiled_module_binding =
  cmb_name :: string
  cmb_bundle_digest :: string
  cmb_source_map_digest :: string
  cmb_exports :: "string list"

record compiled_module_runtime =
  cmr_profile_version :: u32
  cmr_modules :: "compiled_module_binding list"

record compiled_communication_provider_requirement =
  ccp_provider :: string
  ccp_trigger_ids :: "string list"
  ccp_notification_delivery_ids :: "string list"
  ccp_messaging :: bool
  ccp_credential_names :: "string list"

record compiled_communication_requirements =
  ccr_profile_version :: u32
  ccr_providers :: "compiled_communication_provider_requirement list"

record compiled_workflow_definition =
  wd_schema_version :: u32
  wd_workflow_id :: string
  wd_metadata :: "compiled_workflow_metadata option"
  wd_triggers :: "compiled_trigger list"
  wd_graph :: compiled_workflow_graph
  wd_module_runtime :: "compiled_module_runtime option"
  wd_lifecycle :: "compiled_lifecycle_definition option"
  wd_runtime_policy :: "compiled_runtime_policy option"
  wd_reusable_definitions :: "compiled_reusable_invocation list option"
  wd_communication :: "compiled_communication_requirements option"

section \<open>Lookups\<close>

text \<open>\<^verbatim>\<open>Option<Vec<T>>::as_deref().unwrap_or_default()\<close>.\<close>

definition unwrap_or_default :: "'a list option \<Rightarrow> 'a list" where
  "unwrap_or_default xs = (case xs of None \<Rightarrow> [] | Some ys \<Rightarrow> ys)"

definition wf_node :: "compiled_workflow_definition \<Rightarrow> string \<Rightarrow> compiled_workflow_node option" where
  "wf_node workflow node_id = List.find (\<lambda>node. nd_id node = node_id) (gr_nodes (wd_graph workflow))"

definition wf_trigger :: "compiled_workflow_definition \<Rightarrow> string \<Rightarrow> compiled_trigger option" where
  "wf_trigger workflow trigger_id = List.find (\<lambda>t. ct_id t = trigger_id) (wd_triggers workflow)"

definition durable_wait :: "compiled_workflow_definition \<Rightarrow> string \<Rightarrow> compiled_wait option" where
  "durable_wait workflow wait_id =
    List.find (\<lambda>wait. wt_wait_id wait = wait_id) (unwrap_or_default (gr_waits (wd_graph workflow)))"

definition durable_lock :: "compiled_workflow_definition \<Rightarrow> string \<Rightarrow> compiled_lock option" where
  "durable_lock workflow lock_id =
    List.find (\<lambda>lock. lk_lock_id lock = lock_id) (unwrap_or_default (gr_locks (wd_graph workflow)))"

definition wf_saga :: "compiled_workflow_definition \<Rightarrow> string \<Rightarrow> compiled_saga option" where
  "wf_saga workflow saga_id =
    List.find (\<lambda>saga. sg_saga_id saga = saga_id) (unwrap_or_default (gr_sagas (wd_graph workflow)))"

definition saga_for_control_node :: "compiled_workflow_definition \<Rightarrow> string \<Rightarrow> compiled_saga option" where
  "saga_for_control_node workflow node_id =
    List.find (\<lambda>saga. sg_open_node_id saga = node_id \<or> sg_commit_node_id saga = node_id
        \<or> sg_result_node_id saga = node_id)
      (unwrap_or_default (gr_sagas (wd_graph workflow)))"

definition lifecycle_hook :: "compiled_workflow_definition \<Rightarrow> string \<Rightarrow> compiled_lifecycle_hook option" where
  "lifecycle_hook workflow hook_id =
    Option.bind (wd_lifecycle workflow) (\<lambda>lifecycle.
      List.find (\<lambda>hook. clh_hook_id hook = hook_id) (cld_hooks lifecycle))"

definition lifecycle_hook_for_event ::
  "compiled_workflow_definition \<Rightarrow> lifecycle_event_name \<Rightarrow> compiled_lifecycle_hook option" where
  "lifecycle_hook_for_event workflow event =
    Option.bind (wd_lifecycle workflow) (\<lambda>lifecycle.
      List.find (\<lambda>hook. clh_event hook = event) (cld_hooks lifecycle))"

definition is_step_event :: "lifecycle_event_name \<Rightarrow> bool" where
  "is_step_event event =
    (event \<in> {LifecycleEventName_StepStart, LifecycleEventName_StepSuccess,
      LifecycleEventName_StepFailure, LifecycleEventName_StepComplete})"

text \<open>\<^verbatim>\<open>Option::or_else\<close>.\<close>

definition or_else :: "'a option \<Rightarrow> 'a option \<Rightarrow> 'a option" where
  "or_else x y = (case x of None \<Rightarrow> y | Some a \<Rightarrow> Some a)"

definition lifecycle_hook_for_step_event ::
  "compiled_workflow_definition \<Rightarrow> lifecycle_event_name \<Rightarrow> string \<Rightarrow> compiled_lifecycle_hook option" where
  "lifecycle_hook_for_step_event workflow event step_id =
    Option.bind (lifecycle_hook_for_event workflow event) (\<lambda>hook.
      if \<not> is_step_event event
        \<or> is_none_or
            (or_else (wf_node workflow step_id)
              (List.find (\<lambda>node. nd_id node = step_id)
                (concat (map (\<lambda>descriptor. fb_nodes (fe_body descriptor))
                  (unwrap_or_default (gr_for_each (wd_graph workflow)))))))
            (\<lambda>node. nd_handler node \<noteq> ''runtime.script'')
        \<or> is_some_and (clh_step_ids hook) (\<lambda>step_ids. step_id \<notin> set step_ids)
      then None else Some hook)"

section \<open>Parallel groups\<close>

fun as_str :: "json \<Rightarrow> string option" where
  "as_str (JString s) = Some s"
| "as_str _ = None"

fun as_u64 :: "json \<Rightarrow> u64 option" where
  "as_u64 (JNumber (PosInt n)) = Some n"
| "as_u64 _ = None"

definition literal_of :: "(json \<Rightarrow> 'a option) \<Rightarrow> value_expression \<Rightarrow> 'a option" where
  "literal_of f expression =
    (case expression of ValueExpression_Literal value \<Rightarrow> f value | _ \<Rightarrow> None)"

definition object_fields :: "value_expression \<Rightarrow> (string \<times> value_expression) list option" where
  "object_fields expression =
    (case expression of ValueExpression_Object entries \<Rightarrow> Some entries | _ \<Rightarrow> None)"

record parallel_group_definition =
  pgd_parallel_id :: string
  pgd_start_node_id :: string
  pgd_child_node_ids :: "string list"
  pgd_concurrency :: nat
  pgd_on_error :: string

definition USIZE_MAX :: nat where
  "USIZE_MAX = 2 ^ 64 - 1"

definition child_ordinal :: "string \<Rightarrow> compiled_workflow_edge \<Rightarrow> nat" where
  "child_ordinal parallel_id edge =
    (case Option.bind (strip_prefix (parallel_id @ '':child:'') (ed_id edge)) parse_u64 of
       None \<Rightarrow> USIZE_MAX
     | Some index \<Rightarrow> unat index)"

definition parallel_group :: "compiled_workflow_definition \<Rightarrow> string \<Rightarrow> parallel_group_definition option" where
  "parallel_group workflow parallel_id =
    (let start_node_id = ''__woml_parallel__'' @ parallel_id @ ''__start'' in
     Option.bind (wf_node workflow start_node_id) (\<lambda>start.
     if nd_handler start \<noteq> ''engine.parallel-start'' then None
     else Option.bind (object_fields (nd_inputs start)) (\<lambda>entries.
       Option.bind (Option.bind (map_of entries ''concurrency'') (literal_of as_u64)) (\<lambda>concurrency.
       Option.bind (Option.bind (map_of entries ''onError'') (literal_of as_str)) (\<lambda>on_error.
       Some
         \<lparr>pgd_parallel_id = parallel_id,
          pgd_start_node_id = start_node_id,
          pgd_child_node_ids = map ed_to (sort_key (child_ordinal parallel_id)
            (filter (\<lambda>edge. ed_from edge = start_node_id \<and> ed_parallel_id edge = Some parallel_id)
              (gr_edges (wd_graph workflow)))),
          pgd_concurrency = unat concurrency,
          pgd_on_error = on_error\<rparr>)))))"

definition parallel_group_for_child ::
  "compiled_workflow_definition \<Rightarrow> string \<Rightarrow> parallel_group_definition option" where
  "parallel_group_for_child workflow node_id =
    Option.bind (List.find (\<lambda>edge. ed_to edge = node_id \<and> is_some (ed_parallel_id edge))
      (gr_edges (wd_graph workflow))) (\<lambda>edge.
    Option.bind (ed_parallel_id edge) (parallel_group workflow))"

definition script_source :: "compiled_workflow_node \<Rightarrow> string option" where
  "script_source node =
    Option.bind (object_fields (nd_inputs node)) (\<lambda>entries.
    Option.bind (map_of entries ''source'') (literal_of as_str))"

section \<open>Worklists\<close>

text \<open>
  What every worklist loop over the graph has in common: a node taken from the worklist
  is new or was visited before.  When it is new, the nodes not yet visited among the
  worklist and the targets of edges become fewer; when it is not, they do not become
  more, and the worklist becomes shorter.
\<close>

definition unvisited :: "'a set \<Rightarrow> 'a list \<Rightarrow> 'a set \<Rightarrow> nat" where
  "unvisited targets pending visited = card ((set pending \<union> targets) - visited)"

lemma unvisited_pop:
  "finite T \<Longrightarrow> unvisited T pending visited < unvisited T (x # pending) visited
    \<or> unvisited T pending visited = unvisited T (x # pending) visited"
  unfolding unvisited_def le_eq_less_or_eq [symmetric] by (rule card_mono) auto

lemma unvisited_visit:
  assumes "finite T" "x \<notin> visited" "set pending' \<subseteq> set pending \<union> T"
  shows "unvisited T pending' (insert x visited) < unvisited T (x # pending) visited"
  unfolding unvisited_def using assms by (intro psubset_card_mono) auto

text \<open>
  The relation the worklist follows, and when the visited nodes are exactly the
  reachable ones: they are reachable, the worklist is, and an edge out of a visited node
  leads to the worklist or to a visited node.
\<close>

definition worklist_inv :: "('a \<Rightarrow> 'a set) \<Rightarrow> 'a set \<Rightarrow> 'a list \<Rightarrow> 'a set \<Rightarrow> bool" where
  "worklist_inv succs start pending visited \<longleftrightarrow>
    start \<subseteq> set pending \<union> visited
    \<and> set pending \<union> visited \<subseteq> {y. \<exists>x \<in> start. (x, y) \<in> {(a, b). b \<in> succs a}\<^sup>*}
    \<and> (\<forall>x \<in> visited. succs x \<subseteq> set pending \<union> visited)"

lemma worklist_inv_init: "worklist_inv succs (set start) start {}"
  by (auto simp: worklist_inv_def)

lemma worklist_inv_skip:
  "worklist_inv succs start (x # pending) visited \<Longrightarrow> x \<in> visited
    \<Longrightarrow> worklist_inv succs start pending visited"
  by (auto simp: worklist_inv_def)

lemma worklist_inv_visit:
  assumes "worklist_inv succs start (x # pending) visited" "set pending' = set pending \<union> succs x"
  shows "worklist_inv succs start pending' (insert x visited)"
proof -
  have "\<exists>a \<in> start. (a, y) \<in> {(a, b). b \<in> succs a}\<^sup>*" if "y \<in> succs x" for y
  proof -
    obtain a where "a \<in> start" "(a, x) \<in> {(a, b). b \<in> succs a}\<^sup>*"
      using assms(1) by (auto simp: worklist_inv_def)
    then show ?thesis using that by (blast intro: rtrancl_into_rtrancl)
  qed
  then show ?thesis using assms unfolding worklist_inv_def by auto
qed

lemma worklist_inv_done:
  assumes "worklist_inv succs start [] visited"
  shows "visited = {y. \<exists>x \<in> start. (x, y) \<in> {(a, b). b \<in> succs a}\<^sup>*}"
proof -
  have "y \<in> visited" if "(x, y) \<in> {(a, b). b \<in> succs a}\<^sup>*" "x \<in> start" for x y
    using that by induction (use assms in \<open>auto simp: worklist_inv_def\<close>)
  then show ?thesis using assms by (auto simp: worklist_inv_def)
qed

section \<open>Searches\<close>

definition successors :: "compiled_workflow_edge list \<Rightarrow> string \<Rightarrow> string list" where
  "successors edges node_id = map ed_to (filter (\<lambda>edge. ed_from edge = node_id) edges)"

text \<open>
  The loop of \<^verbatim>\<open>saga_for_body_node\<close> and \<^verbatim>\<open>fork_branch_owner\<close>: does the body between an
  entry and a terminal node contain a node?  The vector is a stack, its top the head of
  the list here; the successors of the terminal node are not followed.
\<close>

function body_contains :: "compiled_workflow_edge list \<Rightarrow> string \<Rightarrow> string \<Rightarrow> string list \<Rightarrow> string set \<Rightarrow> bool" where
  "body_contains edges terminal target [] visited = False"
| "body_contains edges terminal target (candidate # pending) visited =
    (if candidate \<in> visited then body_contains edges terminal target pending visited
     else if candidate = target then True
     else if candidate = terminal
     then body_contains edges terminal target pending (insert candidate visited)
     else body_contains edges terminal target (rev (successors edges candidate) @ pending)
       (insert candidate visited))"
  by pat_completeness auto
termination
  by (relation "measures [\<lambda>(edges, terminal, target, pending, visited).
        unvisited (ed_to ` set edges) pending visited,
      \<lambda>(edges, terminal, target, pending, visited). length pending]")
    (auto simp: successors_def unvisited_pop intro!: unvisited_visit)

definition saga_for_body_node :: "compiled_workflow_definition \<Rightarrow> string \<Rightarrow> compiled_saga option" where
  "saga_for_body_node workflow node_id =
    List.find (\<lambda>saga. body_contains (gr_edges (wd_graph workflow)) (sg_body_terminal_node_id saga)
        node_id [sg_body_entry_node_id saga] {})
      (unwrap_or_default (gr_sagas (wd_graph workflow)))"

definition fork_branch_owner ::
  "compiled_workflow_definition \<Rightarrow> string \<Rightarrow> (compiled_fork \<times> compiled_fork_branch) option" where
  "fork_branch_owner workflow node_id =
    find_map (\<lambda>fork. find_map (\<lambda>branch.
        if body_contains (gr_edges (wd_graph workflow)) (br_terminal_node_id branch) node_id
          [br_entry_node_id branch] {}
        then Some (fork, branch) else None) (fk_branches fork))
      (unwrap_or_default (gr_forks (wd_graph workflow)))"

text \<open>The body is what an entry reaches without leaving its terminal node.\<close>

definition body_edges :: "compiled_workflow_edge list \<Rightarrow> string \<Rightarrow> (string \<times> string) set" where
  "body_edges edges terminal = {(a, b). a \<noteq> terminal \<and> b \<in> set (successors edges a)}"

lemma body_contains_worklist:
  assumes "worklist_inv (\<lambda>a. {b. (a, b) \<in> body_edges edges terminal}) start pending visited"
    and "target \<notin> visited"
  shows "body_contains edges terminal target pending visited
    \<longleftrightarrow> (\<exists>x \<in> start. (x, target) \<in> (body_edges edges terminal)\<^sup>*)"
  using assms
proof (induction edges terminal target pending visited rule: body_contains.induct)
  case (1 edges terminal target visited)
  then show ?case using worklist_inv_done by fastforce
next
  case (2 edges terminal target candidate pending visited)
  let ?succs = "\<lambda>a. {b. (a, b) \<in> body_edges edges terminal}"
  consider "candidate \<in> visited" | "candidate \<notin> visited" "candidate = target"
    | "candidate \<notin> visited" "candidate \<noteq> target" "candidate = terminal"
    | "candidate \<notin> visited" "candidate \<noteq> target" "candidate \<noteq> terminal"
    by blast
  then show ?case
  proof cases
    case 1
    then show ?thesis using 2(1) worklist_inv_skip [OF 2(4)] 2(5) by simp
  next
    case 2
    then show ?thesis using "2.prems"(1) by (auto simp: worklist_inv_def)
  next
    case 3
    then have "?succs candidate = {}" by (simp add: body_edges_def)
    then have "worklist_inv ?succs start pending (insert candidate visited)"
      using worklist_inv_visit [OF "2.prems"(1)] by simp
    then show ?thesis using 3 "2.IH"(2) "2.prems"(2) by simp
  next
    case 4
    then have "set (rev (successors edges candidate) @ pending) = set pending \<union> ?succs candidate"
      by (auto simp: body_edges_def)
    then have "worklist_inv ?succs start (rev (successors edges candidate) @ pending) (insert candidate visited)"
      using worklist_inv_visit [OF "2.prems"(1)] by blast
    then show ?thesis using 4 "2.IH"(3) "2.prems"(2) by simp
  qed
qed

lemma body_contains_iff:
  "body_contains edges terminal target [entry] {} \<longleftrightarrow> (entry, target) \<in> (body_edges edges terminal)\<^sup>*"
  using body_contains_worklist [OF worklist_inv_init [of _ "[entry]"]] by simp

section \<open>The terminal node\<close>

text \<open>
  \<^verbatim>\<open>terminal_node_id\<close> counts the edges out of every node in a table, and answers when one
  node alone has none; the order in which the table is read does not matter then.
\<close>

definition outgoing_counts :: "compiled_workflow_definition \<Rightarrow> (string, nat) btree" where
  "outgoing_counts workflow =
    fold (\<lambda>edge counts. bt_update (ed_from edge) Suc counts) (gr_edges (wd_graph workflow))
      (fold (\<lambda>node counts. bt_insert (nd_id node) 0 counts) (gr_nodes (wd_graph workflow)) bt_empty)"

definition terminal_node_id :: "compiled_workflow_definition \<Rightarrow> string option" where
  "terminal_node_id workflow =
    (case map fst (filter (\<lambda>(id, count). count = 0) (bt_entries (outgoing_counts workflow))) of
       [first] \<Rightarrow> Some first
     | _ \<Rightarrow> None)"

end
