(* ===== verification/Readiness_Index.thy ===== *)
theory Readiness_Index
  imports Workflow_Model
begin

text \<open>
  The topology of a definition (\<^verbatim>\<open>engine/readiness/index.rs\<close>): the tables of a graph that
  borrows nodes and edges, the tables of a prepared definition that keeps ordinals, and
  the graph that reads either.  The locale \<open>definition_index\<close> states what readiness relies
  on, the first node of an identifier and the edges at a node in source order; both
  kinds of graph interpret it.
\<close>

section \<open>Tables\<close>

text \<open>\<^verbatim>\<open>entry(key).or_insert(value)\<close> and \<^verbatim>\<open>entry(key).or_default().push(value)\<close>.  The tables
  are hash maps that are only looked up.\<close>

definition or_insert :: "'k::linorder \<Rightarrow> 'v \<Rightarrow> ('k, 'v) btree \<Rightarrow> ('k, 'v) btree" where
  "or_insert k v m = (if bt_contains m k then m else bt_insert k v m)"

definition or_default_push :: "'k::linorder \<Rightarrow> 'v \<Rightarrow> ('k, 'v list) btree \<Rightarrow> ('k, 'v list) btree" where
  "or_default_push k v m = bt_insert k ((case bt_get m k of None \<Rightarrow> [] | Some vs \<Rightarrow> vs) @ [v]) m"

definition table_list :: "('k::linorder, 'v list) btree \<Rightarrow> 'k \<Rightarrow> 'v list" where
  "table_list m k = (case bt_get m k of None \<Rightarrow> [] | Some vs \<Rightarrow> vs)"

record owned_topology =
  ot_nodes :: "(string, nat) btree"
  ot_incoming :: "(string, nat list) btree"
  ot_outgoing :: "(string, nat list) btree"

definition owned_topology_new :: "compiled_workflow_definition \<Rightarrow> owned_topology" where
  "owned_topology_new workflow =
    (let nodes = fold (\<lambda>(index, node). or_insert (nd_id node) index)
           (List.enumerate 0 (gr_nodes (wd_graph workflow))) bt_empty;
         (incoming, outgoing) = fold (\<lambda>(index, edge) (incoming, outgoing).
             (or_default_push (ed_to edge) index incoming, or_default_push (ed_from edge) index outgoing))
           (List.enumerate 0 (gr_edges (wd_graph workflow))) (bt_empty, bt_empty)
     in \<lparr>ot_nodes = nodes, ot_incoming = incoming, ot_outgoing = outgoing\<rparr>)"

record borrowed_topology =
  bw_nodes :: "(string, compiled_workflow_node) btree"
  bw_incoming :: "(string, compiled_workflow_edge list) btree"
  bw_outgoing :: "(string, compiled_workflow_edge list) btree"

datatype graph_index = GraphIndex_Borrowed borrowed_topology | GraphIndex_Prepared owned_topology

record readiness_graph =
  rg_workflow :: compiled_workflow_definition
  rg_index :: graph_index

definition readiness_graph_new :: "compiled_workflow_definition \<Rightarrow> readiness_graph" where
  "readiness_graph_new workflow =
    (let nodes = fold (\<lambda>node. or_insert (nd_id node) node) (gr_nodes (wd_graph workflow)) bt_empty;
         (incoming, outgoing) = fold (\<lambda>edge (incoming, outgoing).
             (or_default_push (ed_to edge) edge incoming, or_default_push (ed_from edge) edge outgoing))
           (gr_edges (wd_graph workflow)) (bt_empty, bt_empty)
     in \<lparr>rg_workflow = workflow,
         rg_index = GraphIndex_Borrowed
           \<lparr>bw_nodes = nodes, bw_incoming = incoming, bw_outgoing = outgoing\<rparr>\<rparr>)"

text \<open>\<^verbatim>\<open>ReadinessDefinition::graph\<close>: the topology is computed at the first query and kept.\<close>

record readiness_definition =
  rd_workflow :: compiled_workflow_definition
  rd_topology :: "owned_topology option"

definition readiness_definition_new :: "compiled_workflow_definition \<Rightarrow> readiness_definition" where
  "readiness_definition_new workflow = \<lparr>rd_workflow = workflow, rd_topology = None\<rparr>"

definition definition_graph :: "readiness_definition \<Rightarrow> readiness_graph \<times> readiness_definition" where
  "definition_graph owner =
    (let topology = (case rd_topology owner of
           None \<Rightarrow> owned_topology_new (rd_workflow owner) | Some topology \<Rightarrow> topology)
     in (\<lparr>rg_workflow = rd_workflow owner, rg_index = GraphIndex_Prepared topology\<rparr>,
         owner\<lparr>rd_topology := Some topology\<rparr>))"

section \<open>Lookups\<close>

definition graph_node :: "readiness_graph \<Rightarrow> string \<Rightarrow> compiled_workflow_node option" where
  "graph_node g key = (case rg_index g of
     GraphIndex_Borrowed index \<Rightarrow> bt_get (bw_nodes index) key
   | GraphIndex_Prepared index \<Rightarrow>
       map_option (\<lambda>ordinal. gr_nodes (wd_graph (rg_workflow g)) ! ordinal) (bt_get (ot_nodes index) key))"

definition graph_incoming :: "readiness_graph \<Rightarrow> string \<Rightarrow> compiled_workflow_edge list" where
  "graph_incoming g key = (case rg_index g of
     GraphIndex_Borrowed index \<Rightarrow> table_list (bw_incoming index) key
   | GraphIndex_Prepared index \<Rightarrow>
       map (\<lambda>ordinal. gr_edges (wd_graph (rg_workflow g)) ! ordinal) (table_list (ot_incoming index) key))"

definition graph_outgoing :: "readiness_graph \<Rightarrow> string \<Rightarrow> compiled_workflow_edge list" where
  "graph_outgoing g key = (case rg_index g of
     GraphIndex_Borrowed index \<Rightarrow> table_list (bw_outgoing index) key
   | GraphIndex_Prepared index \<Rightarrow>
       map (\<lambda>ordinal. gr_edges (wd_graph (rg_workflow g)) ! ordinal) (table_list (ot_outgoing index) key))"

section \<open>The tables are right\<close>

lemma bt_get_or_insert [simp]:
  "bt_get (or_insert k v m) k' = (if k' = k then Some (case bt_get m k of None \<Rightarrow> v | Some w \<Rightarrow> w) else bt_get m k')"
  by (auto simp: or_insert_def bt_contains_def split: option.splits)

lemma table_list_empty [simp]: "table_list bt_empty k = []"
  by (simp add: table_list_def)

lemma table_list_push [simp]:
  "table_list (or_default_push k v m) k' = table_list m k' @ (if k' = k then [v] else [])"
  by (auto simp: table_list_def or_default_push_def split: option.splits)

lemma fold_or_insert:
  "bt_get (fold (\<lambda>x. or_insert (f x) (h x)) xs m) k =
    (case bt_get m k of Some v \<Rightarrow> Some v | None \<Rightarrow> map_option h (List.find (\<lambda>x. f x = k) xs))"
  by (induction xs arbitrary: m) (auto split: option.splits)

lemma fold_push:
  "fold (\<lambda>x q. (or_default_push (f x) (h x) (fst q), or_default_push (g x) (h x) (snd q))) xs q
    = (fold (\<lambda>x. or_default_push (f x) (h x)) xs (fst q), fold (\<lambda>x. or_default_push (g x) (h x)) xs (snd q))"
  by (induction xs arbitrary: q) auto

lemma table_list_fold_push:
  "table_list (fold (\<lambda>x. or_default_push (f x) (h x)) xs m) k =
    table_list m k @ map h (filter (\<lambda>x. f x = k) xs)"
  by (induction xs arbitrary: m) auto

lemma ordinals_from:
  assumes "ys = zs @ xs"
  shows "map_option ((!) ys \<circ> fst) (List.find (\<lambda>q. P (snd q)) (List.enumerate (length zs) xs)) = List.find P xs"
    and "map ((!) ys \<circ> fst) (filter (\<lambda>q. P (snd q)) (List.enumerate (length zs) xs)) = filter P xs"
proof -
  show "map_option ((!) ys \<circ> fst) (List.find (\<lambda>q. P (snd q)) (List.enumerate (length zs) xs)) = List.find P xs"
    using assms
  proof (induction xs arbitrary: zs)
    case (Cons x xs)
    then show ?case using Cons.IH [of "zs @ [x]"] by simp
  qed simp
  show "map ((!) ys \<circ> fst) (filter (\<lambda>q. P (snd q)) (List.enumerate (length zs) xs)) = filter P xs"
    using assms
  proof (induction xs arbitrary: zs)
    case (Cons x xs)
    then show ?case using Cons.IH [of "zs @ [x]"] by simp
  qed simp
qed

lemma by_ordinals:
  "map_option (\<lambda>q. xs ! fst q) (List.find (\<lambda>q. P (snd q)) (List.enumerate 0 xs)) = List.find P xs"
  "map (\<lambda>q. xs ! fst q) (filter (\<lambda>q. P (snd q)) (List.enumerate 0 xs)) = filter P xs"
  using ordinals_from [of xs "[]" xs P] by (simp_all add: o_def)

section \<open>What readiness relies on\<close>

locale definition_index =
  fixes g :: readiness_graph and workflow :: compiled_workflow_definition
  assumes graph_workflow: "rg_workflow g = workflow"
    and node_first: "graph_node g key = wf_node workflow key"
    and incoming_edges: "graph_incoming g key = filter (\<lambda>edge. ed_to edge = key) (gr_edges (wd_graph workflow))"
    and outgoing_edges: "graph_outgoing g key = filter (\<lambda>edge. ed_from edge = key) (gr_edges (wd_graph workflow))"

interpretation borrowed: definition_index "readiness_graph_new workflow" workflow for workflow
  by unfold_locales
    (auto simp: readiness_graph_new_def Let_def graph_node_def graph_incoming_def graph_outgoing_def
      wf_node_def case_prod_unfold fold_or_insert [where h = "\<lambda>x. x"] fold_push [where h = "\<lambda>x. x"]
      table_list_fold_push [where h = "\<lambda>x. x"] option.map_ident)

lemma owned_topology_tables:
  shows "bt_get (ot_nodes (owned_topology_new workflow)) key =
      map_option fst (List.find (\<lambda>(i, node). nd_id node = key) (List.enumerate 0 (gr_nodes (wd_graph workflow))))"
    and "table_list (ot_incoming (owned_topology_new workflow)) key =
      map fst (filter (\<lambda>(i, edge). ed_to edge = key) (List.enumerate 0 (gr_edges (wd_graph workflow))))"
    and "table_list (ot_outgoing (owned_topology_new workflow)) key =
      map fst (filter (\<lambda>(i, edge). ed_from edge = key) (List.enumerate 0 (gr_edges (wd_graph workflow))))"
  by (simp_all add: owned_topology_new_def Let_def case_prod_unfold fold_push [where h = fst]
      fold_or_insert [where h = fst] table_list_fold_push [where h = fst])

interpretation prepared: definition_index
  "\<lparr>rg_workflow = workflow, rg_index = GraphIndex_Prepared (owned_topology_new workflow)\<rparr>" workflow
  for workflow
proof unfold_locales
  let ?g = "\<lparr>rg_workflow = workflow, rg_index = GraphIndex_Prepared (owned_topology_new workflow)\<rparr>"
  show "graph_node ?g key = wf_node workflow key" for key
    by (simp add: graph_node_def owned_topology_tables wf_node_def option.map_comp o_def
      case_prod_unfold by_ordinals(1) [of _ "\<lambda>node. nd_id node = key"])
  show "graph_incoming ?g key = filter (\<lambda>edge. ed_to edge = key) (gr_edges (wd_graph workflow))" for key
    by (simp add: graph_incoming_def owned_topology_tables o_def case_prod_unfold 
      by_ordinals(2) [of _ "\<lambda>edge. ed_to edge = key"])
  show "graph_outgoing ?g key = filter (\<lambda>edge. ed_from edge = key) (gr_edges (wd_graph workflow))" for key
    by (simp add: graph_outgoing_def owned_topology_tables o_def case_prod_unfold
      by_ordinals(2) [of _ "\<lambda>edge. ed_from edge = key"])
qed simp

text \<open>The graph of a definition, before and after its topology is kept.\<close>

definition topology_ok :: "readiness_definition \<Rightarrow> bool" where
  "topology_ok owner \<longleftrightarrow> rd_topology owner \<in> {None, Some (owned_topology_new (rd_workflow owner))}"

lemma topology_ok_new: "topology_ok (readiness_definition_new workflow)"
  by (simp add: topology_ok_def readiness_definition_new_def)

lemma definition_graph_ok:
  assumes "topology_ok owner"
  shows "fst (definition_graph owner) =
      \<lparr>rg_workflow = rd_workflow owner, rg_index = GraphIndex_Prepared (owned_topology_new (rd_workflow owner))\<rparr>"
    and "topology_ok (snd (definition_graph owner))"
    and "rd_workflow (snd (definition_graph owner)) = rd_workflow owner"
  using assms by (auto simp: topology_ok_def definition_graph_def Let_def)

section \<open>Latest attempts\<close>

text \<open>\<^verbatim>\<open>LatestAttempts::new\<close>: the last attempt of a node in the vector wins.\<close>

definition latest_attempts :: "attempt_projection list \<Rightarrow> string \<rightharpoonup> attempt_projection" where
  "latest_attempts attempts =
    foldl (\<lambda>latest attempt. latest(ai_node_id (ap_identity attempt) \<mapsto> attempt)) Map.empty attempts"

lemma latest_attempts_eq: "latest_attempts (p_attempts p) node = latest_attempt p node"
proof -
  have "foldl (\<lambda>latest attempt. latest(ai_node_id (ap_identity attempt) \<mapsto> attempt)) Map.empty xs node
      = find_last (\<lambda>a. ai_node_id (ap_identity a) = node) xs" for xs :: "attempt_projection list"
    by (induction xs rule: rev_induct) auto
  then show ?thesis by (simp add: latest_attempts_def latest_attempt_def)
qed

text \<open>A finite graph.\<close>

lemma finite_table: "finite (\<Union>key. set (table_list m key))"
proof -
  have "(\<Union>key. set (table_list m key)) \<subseteq> (\<Union>vs \<in> set (bt_values m). set vs)"
    by (fastforce simp: table_list_def in_bt_values_iff split: option.splits)
  then show ?thesis by (rule finite_subset) simp
qed

lemma finite_outgoing: "finite (\<Union>key. set (graph_outgoing g key))"
proof (cases "rg_index g")
  case (GraphIndex_Borrowed index)
  then show ?thesis by (simp add: graph_outgoing_def finite_table)
next
  case (GraphIndex_Prepared index)
  then have "(\<Union>key. set (graph_outgoing g key)) =
      (\<lambda>i. gr_edges (wd_graph (rg_workflow g)) ! i) ` (\<Union>key. set (table_list (ot_outgoing index) key))"
    by (auto simp: graph_outgoing_def)
  then show ?thesis by (simp only: finite_imageI [OF finite_table])
qed

definition graph_targets :: "readiness_graph \<Rightarrow> string set" where
  "graph_targets g = ed_to ` (\<Union>key. set (graph_outgoing g key))"

lemma finite_graph_targets [simp]: "finite (graph_targets g)"
  by (simp add: graph_targets_def finite_outgoing)

lemma graph_targets_outgoing: "set (graph_outgoing g key) \<subseteq> {edge. ed_to edge \<in> graph_targets g}"
  by (auto simp: graph_targets_def)

end
