(* ===== verification/Readiness.thy ===== *)
theory Readiness
  imports Readiness_Index
begin

text \<open>
  Which nodes of a run are ready (\<^verbatim>\<open>engine/readiness.rs\<close>): the edges that are active in a
  projection, the nodes they reach, when a node is complete and when a candidate is
  ready.  \<^verbatim>\<open>node_is_complete\<close> recurses from a join to the nodes before it, which does not
  end on a cyclic graph: it has fuel here, and running out of it is the error
  \<open>Diverges\<close>.  On a graph whose edges have no cycle it does not occur.
\<close>

section \<open>Errors\<close>

datatype readiness_error = NotBound | Diverges | Panicked

text \<open>\<^verbatim>\<open>any\<close>, \<^verbatim>\<open>all\<close> and \<^verbatim>\<open>filter\<close> with a predicate that may fail, evaluated in order.\<close>

fun try_any :: "('a \<Rightarrow> ('e, bool) result) \<Rightarrow> 'a list \<Rightarrow> ('e, bool) result" where
  "try_any f [] = Inr False"
| "try_any f (x # xs) = and_then (f x) (\<lambda>b. if b then Inr True else try_any f xs)"

fun try_all :: "('a \<Rightarrow> ('e, bool) result) \<Rightarrow> 'a list \<Rightarrow> ('e, bool) result" where
  "try_all f [] = Inr True"
| "try_all f (x # xs) = and_then (f x) (\<lambda>b. if b then try_all f xs else Inr False)"

fun try_filter :: "('a \<Rightarrow> ('e, bool) result) \<Rightarrow> 'a list \<Rightarrow> ('e, 'a list) result" where
  "try_filter f [] = Inr []"
| "try_filter f (x # xs) = and_then (f x) (\<lambda>b.
    and_then (try_filter f xs) (\<lambda>ys. Inr (if b then x # ys else ys)))"

lemma try_any_cong [fundef_cong]:
  "xs = ys \<Longrightarrow> (\<And>x. x \<in> set ys \<Longrightarrow> f x = g x) \<Longrightarrow> try_any f xs = try_any g ys"
  by (induction ys arbitrary: xs) (auto intro!: and_then_cong)

lemma try_all_cong [fundef_cong]:
  "xs = ys \<Longrightarrow> (\<And>x. x \<in> set ys \<Longrightarrow> f x = g x) \<Longrightarrow> try_all f xs = try_all g ys"
  by (induction ys arbitrary: xs) (auto intro!: and_then_cong)

lemma try_filter_cong [fundef_cong]:
  "xs = ys \<Longrightarrow> (\<And>x. x \<in> set ys \<Longrightarrow> f x = g x) \<Longrightarrow> try_filter f xs = try_filter g ys"
  by (induction ys arbitrary: xs) (auto intro!: and_then_cong)

lemma try_total:
  "(\<And>x. x \<in> set xs \<Longrightarrow> f x = Inr (P x)) \<Longrightarrow> try_any f xs = Inr (list_ex P xs)"
  "(\<And>x. x \<in> set xs \<Longrightarrow> f x = Inr (P x)) \<Longrightarrow> try_all f xs = Inr (list_all P xs)"
  "(\<And>x. x \<in> set xs \<Longrightarrow> f x = Inr (P x)) \<Longrightarrow> try_filter f xs = Inr (filter P xs)"
  by (induction xs) auto

lemma try_ok:
  assumes "\<And>x. x \<in> set xs \<Longrightarrow> is_ok (f x)"
  shows "is_ok (try_any f xs)" "is_ok (try_all f xs)" "is_ok (try_filter f xs)"
proof -
  have "f x = Inr (projr (f x))" if "x \<in> set xs" for x
    using assms [OF that] by (auto simp: is_ok_iff)
  then show "is_ok (try_any f xs)" "is_ok (try_all f xs)" "is_ok (try_filter f xs)"
    using try_total [of xs f "\<lambda>x. projr (f x)"] by simp_all
qed

section \<open>Active edges\<close>

definition ends_with :: "string \<Rightarrow> string \<Rightarrow> bool" where
  "ends_with suffix s = (strip_suffix suffix s \<noteq> None)"

definition contains_str :: "string \<Rightarrow> string \<Rightarrow> bool" where
  "contains_str pattern s = (split_once pattern s \<noteq> None)"

text \<open>The decision the public output of an approval carries.\<close>

definition approval_output_decision :: "run_projection \<Rightarrow> string \<Rightarrow> string option" where
  "approval_output_decision p approval_id =
    Option.bind (Option.bind (Option.bind (obj_get (ctx_steps (p_context p)) approval_id) as_object)
      (\<lambda>output. obj_get output ''decision'')) as_str"

definition edge_is_active :: "compiled_workflow_edge \<Rightarrow> run_projection \<Rightarrow> bool" where
  "edge_is_active edge p =
    (case ed_approval_id edge of
       Some approval_id \<Rightarrow>
         (let decision = approval_output_decision p approval_id in
          if ed_id edge = approval_id @ '':approved'' \<or> ed_id edge = approval_id @ '':approved:join''
          then decision = Some ''approved''
          else if ed_id edge = approval_id @ '':rejected'' \<or> ed_id edge = approval_id @ '':rejected:join''
          then decision = Some ''rejected''
          else False)
     | None \<Rightarrow>
         (case List.find (\<lambda>(choice_id, _). starts_with (choice_id @ '':'') (ed_id edge))
             (bt_entries (p_choice_selections p)) of
            Some (_, selected_arm_id) \<Rightarrow>
              selected_arm_id = ed_id edge \<or> ed_id edge = selected_arm_id @ '':join''
          | None \<Rightarrow>
              if starts_with ''__woml_choice__'' (ed_id edge)
                \<and> (contains_str '':when:'' (ed_id edge) \<or> ends_with '':otherwise'' (ed_id edge)
                   \<or> contains_str '':case:'' (ed_id edge) \<or> ends_with '':default'' (ed_id edge))
              then False
              else (case ed_branch_id edge of
                  Some branch_id \<Rightarrow>
                    is_some_and (bt_get (p_branch_selections p) branch_id) (\<lambda>arm_id. arm_id = ed_id edge)
                | None \<Rightarrow> True)))"

section \<open>Active nodes\<close>

text \<open>The breadth-first loop of \<^verbatim>\<open>active_node_ids\<close>.\<close>

function active_search :: "readiness_graph \<Rightarrow> run_projection \<Rightarrow> string list \<Rightarrow> string set \<Rightarrow> string set" where
  "active_search g p [] active = active"
| "active_search g p (node_id # queue) active =
    (if node_id \<in> active then active_search g p queue active
     else active_search g p
       (queue @ map ed_to (filter (\<lambda>edge. edge_is_active edge p) (graph_outgoing g node_id)))
       (insert node_id active))"
  by pat_completeness auto
termination
  by (relation "measures [\<lambda>(g, p, queue, active).
        unvisited (graph_targets g) queue active,
      \<lambda>(g, p, queue, active). length queue]")
    (auto simp: unvisited_pop intro!: unvisited_visit dest: graph_targets_outgoing [THEN subsetD])

definition active_node_ids :: "readiness_graph \<Rightarrow> run_projection \<Rightarrow> string set" where
  "active_node_ids g p = active_search g p (gr_entry_node_ids (wd_graph (rg_workflow g))) {}"

section \<open>Complete nodes\<close>

definition selector_branch_id :: "string \<Rightarrow> string option" where
  "selector_branch_id selector_id =
    Option.bind (strip_prefix ''__woml_branch__'' selector_id) (strip_suffix ''__select'')"

text \<open>The lookups of \<^verbatim>\<open>node_is_complete_with_graph\<close>: in the graph when there is one, else in
  the vectors of the definition.\<close>

definition node_in :: "compiled_workflow_definition \<Rightarrow> readiness_graph option \<Rightarrow> string \<Rightarrow> compiled_workflow_node option" where
  "node_in workflow graph key = (case graph of Some g \<Rightarrow> graph_node g key | None \<Rightarrow> wf_node workflow key)"

definition incoming_in :: "compiled_workflow_definition \<Rightarrow> readiness_graph option \<Rightarrow> string \<Rightarrow> compiled_workflow_edge list" where
  "incoming_in workflow graph key =
    (case graph of Some g \<Rightarrow> graph_incoming g key
     | None \<Rightarrow> filter (\<lambda>edge. ed_to edge = key) (gr_edges (wd_graph workflow)))"

definition selected_join_edge ::
  "compiled_workflow_definition \<Rightarrow> readiness_graph option \<Rightarrow> run_projection \<Rightarrow> compiled_workflow_node
    \<Rightarrow> compiled_control_choice \<Rightarrow> compiled_workflow_edge option" where
  "selected_join_edge workflow graph p node choice =
    Option.bind (bt_get (p_choice_selections p) (ch_choice_id choice)) (\<lambda>selected.
      let matches = (\<lambda>edge. ed_to edge = nd_id node
            \<and> (ed_id edge = selected @ '':join'' \<or> ed_id edge = selected)) in
      case graph of
        Some g \<Rightarrow> List.find matches (graph_incoming g (nd_id node))
      | None \<Rightarrow> List.find matches (gr_edges (wd_graph workflow)))"

abbreviation has_output :: "run_projection \<Rightarrow> string \<Rightarrow> bool" where
  "has_output p node_id \<equiv> obj_contains (ctx_steps (p_context p)) node_id"

text \<open>The completion of the nodes that are no joins of arms, handler by handler.\<close>

definition saga_node_complete :: "compiled_workflow_definition \<Rightarrow> compiled_workflow_node \<Rightarrow> run_projection \<Rightarrow> bool" where
  "saga_node_complete workflow node p =
    (if nd_handler node = ''engine.saga-open'' then
       is_some_and (saga_for_control_node workflow (nd_id node)) (\<lambda>saga. bt_contains (p_sagas p) (sg_saga_id saga))
     else if nd_handler node = ''engine.saga-commit'' then
       is_some_and (Option.bind (saga_for_control_node workflow (nd_id node))
           (\<lambda>saga. bt_get (p_sagas p) (sg_saga_id saga)))
         (\<lambda>saga. sp_phase saga = SagaPhase_CorrectionCompleted)
     else has_output p (nd_id node))"

definition for_each_node_complete :: "compiled_workflow_definition \<Rightarrow> compiled_workflow_node \<Rightarrow> run_projection \<Rightarrow> bool" where
  "for_each_node_complete workflow node p =
    (if nd_handler node = ''engine.for-each-open'' then
       is_some_and (Option.bind
           (List.find (\<lambda>descriptor. fe_open_node_id descriptor = nd_id node)
             (unwrap_or_default (gr_for_each (wd_graph workflow))))
           (\<lambda>descriptor. bt_get (p_for_each p) (fe_for_each_id descriptor)))
         (\<lambda>loop. fep_status loop \<in> {ForEachStatus_Succeeded, ForEachStatus_Failed, ForEachStatus_Cancelled})
     else has_output p (nd_id node))"

definition fork_node_complete :: "compiled_workflow_definition \<Rightarrow> compiled_workflow_node \<Rightarrow> run_projection \<Rightarrow> bool" where
  "fork_node_complete workflow node p =
    (if nd_handler node = ''engine.fork-open'' then
       is_some_and (List.find (\<lambda>fork. fk_open_node_id fork = nd_id node)
           (unwrap_or_default (gr_forks (wd_graph workflow))))
         (\<lambda>fork. bt_contains (p_forks p) (fk_fork_id fork))
     else if nd_handler node = ''engine.fork-branch-terminal'' then
       is_some_and (find_map (\<lambda>fork. map_option (\<lambda>branch. (fork, branch))
             (List.find (\<lambda>branch. br_terminal_node_id branch = nd_id node) (fk_branches fork)))
           (unwrap_or_default (gr_forks (wd_graph workflow))))
         (\<lambda>(fork, branch). is_some (Option.bind (bt_get (p_forks p) (fk_fork_id fork))
           (\<lambda>projected. bt_get (fp_branches projected) (br_branch_id branch))))
     else
       is_some_and (Option.bind
           (List.find (\<lambda>fork. fk_join_node_id fork = nd_id node)
             (unwrap_or_default (gr_forks (wd_graph workflow))))
           (\<lambda>fork. bt_get (p_forks p) (fk_fork_id fork)))
         (\<lambda>fork. fp_join_status fork = ForkJoinStatus_Succeeded))"

definition parallel_node_complete :: "compiled_workflow_node \<Rightarrow> run_projection \<Rightarrow> bool" where
  "parallel_node_complete node p =
    (if nd_handler node = ''engine.parallel-start'' then
       is_some_and (Option.bind (strip_prefix ''__woml_parallel__'' (nd_id node)) (strip_suffix ''__start''))
         (bt_contains (p_parallel_groups p))
     else
       is_some_and (bt_get (p_parallel_groups p) (nd_id node)) (\<lambda>group.
         case pgp_status group of
           ParallelGroupStatus_Completed outcome _ _ \<Rightarrow> outcome = ParallelGroupOutcome_Succeeded
         | _ \<Rightarrow> False))"

definition lock_node_complete :: "compiled_workflow_definition \<Rightarrow> compiled_workflow_node \<Rightarrow> run_projection \<Rightarrow> bool" where
  "lock_node_complete workflow node p =
    (if nd_handler node = ''engine.lock-acquire'' then
       is_some_and (Option.bind
           (List.find (\<lambda>lock. lk_acquire_node_id lock = nd_id node)
             (unwrap_or_default (gr_locks (wd_graph workflow))))
           (\<lambda>lock. bt_get (p_locks p) (lk_lock_id lock)))
         (\<lambda>lock. lp_status lock \<in> {LockStatus_Held, LockStatus_Released})
     else if nd_handler node = ''engine.lock-release'' then
       is_some_and (Option.bind
           (List.find (\<lambda>lock. lk_release_node_id lock = nd_id node)
             (unwrap_or_default (gr_locks (wd_graph workflow))))
           (\<lambda>lock. bt_get (p_locks p) (lk_lock_id lock)))
         (\<lambda>lock. lp_status lock = LockStatus_Released)
     else has_output p (nd_id node))"

fun node_is_complete ::
  "nat \<Rightarrow> compiled_workflow_definition \<Rightarrow> readiness_graph option \<Rightarrow> run_projection \<Rightarrow> compiled_workflow_node
    \<Rightarrow> (readiness_error, bool) result" where
  "node_is_complete 0 workflow graph p node = Inl Diverges"
| "node_is_complete (Suc fuel) workflow graph p node =
    (if nd_handler node \<in> {''engine.saga-open'', ''engine.saga-commit'', ''engine.saga-result''}
     then Inr (saga_node_complete workflow node p)
     else if nd_handler node \<in> {''engine.for-each-open'', ''engine.for-each-result''}
     then Inr (for_each_node_complete workflow node p)
     else if nd_handler node = ''engine.choice-select''
     then Inr (is_some_and (List.find (\<lambda>choice. ch_selector_node_id choice = nd_id node)
           (unwrap_or_default (gr_choices (wd_graph workflow))))
         (\<lambda>choice. bt_contains (p_choice_selections p) (ch_choice_id choice)))
     else if nd_handler node = ''engine.choice-join''
     then (case Option.bind (Option.bind
           (List.find (\<lambda>choice. ch_join_node_id choice = nd_id node)
             (unwrap_or_default (gr_choices (wd_graph workflow))))
           (selected_join_edge workflow graph p node))
           (\<lambda>edge. node_in workflow graph (ed_from edge)) of
         None \<Rightarrow> Inr False
       | Some predecessor \<Rightarrow> node_is_complete fuel workflow graph p predecessor)
     else if nd_handler node \<in> {''engine.fork-open'', ''engine.fork-branch-terminal'', ''engine.fork-join''}
     then Inr (fork_node_complete workflow node p)
     else if nd_handler node = ''engine.branch-select''
     then Inr (is_some_and (selector_branch_id (nd_id node)) (bt_contains (p_branch_selections p)))
     else if nd_handler node \<in> {''engine.parallel-start'', ''engine.parallel-join''}
     then Inr (parallel_node_complete node p)
     else if nd_handler node = ''engine.approval-wait'' then Inr (has_output p (nd_id node))
     else if nd_handler node = ''engine.approval-join''
     then try_any (\<lambda>edge.
           if edge_is_active edge p
           then (case node_in workflow graph (ed_from edge) of
               None \<Rightarrow> Inr False
             | Some predecessor \<Rightarrow> node_is_complete fuel workflow graph p predecessor)
           else Inr False)
         (incoming_in workflow graph (nd_id node))
     else if nd_handler node \<in> {''engine.lock-acquire'', ''engine.lock-release'', ''engine.lock-result''}
     then Inr (lock_node_complete workflow node p)
     else Inr (has_output p (nd_id node)))"

declare node_is_complete.simps(2) [simp del]

text \<open>A recursion deeper than the number of nodes visits a node twice, and so never ends.\<close>

definition complete_fuel :: "compiled_workflow_definition \<Rightarrow> nat" where
  "complete_fuel workflow = length (gr_nodes (wd_graph workflow)) + 2"

definition graph_complete :: "readiness_graph \<Rightarrow> run_projection \<Rightarrow> compiled_workflow_node \<Rightarrow> (readiness_error, bool) result" where
  "graph_complete g p node =
    node_is_complete (complete_fuel (rg_workflow g)) (rg_workflow g) (Some g) p node"

section \<open>Settlement\<close>

text \<open>The loop of \<^verbatim>\<open>failure_can_inactivate_main_route\<close> over one branch.\<close>

function branch_search :: "readiness_graph \<Rightarrow> string \<Rightarrow> string \<Rightarrow> string list \<Rightarrow> string set \<Rightarrow> bool" where
  "branch_search g terminal target [] visited = False"
| "branch_search g terminal target (node_id # pending) visited =
    (if node_id \<in> visited then branch_search g terminal target pending visited
     else if node_id = target then True
     else if node_id = terminal then branch_search g terminal target pending (insert node_id visited)
     else branch_search g terminal target (pending @ map ed_to (graph_outgoing g node_id))
       (insert node_id visited))"
  by pat_completeness auto
termination
  by (relation "measures [\<lambda>(g, terminal, target, pending, visited).
        unvisited (graph_targets g) pending visited,
      \<lambda>(g, terminal, target, pending, visited). length pending]")
    (auto simp: unvisited_pop intro!: unvisited_visit dest: graph_targets_outgoing [THEN subsetD])

definition failure_can_inactivate_main_route :: "readiness_graph \<Rightarrow> string \<Rightarrow> bool" where
  "failure_can_inactivate_main_route g failed_node_id =
    (case find_map (\<lambda>fork. find_map (\<lambda>branch.
         if branch_search g (br_terminal_node_id branch) failed_node_id [br_entry_node_id branch] {}
         then Some (br_branch_id branch \<in> set (fk_joined_branch_ids fork)) else None) (fk_branches fork))
       (unwrap_or_default (gr_forks (wd_graph (rg_workflow g)))) of
       Some joined \<Rightarrow> joined
     | None \<Rightarrow> True)"

type_synonym latest_lookup = "string \<Rightarrow> (readiness_error, attempt_projection option) result"

definition is_final_failure ::
  "run_projection \<Rightarrow> latest_lookup \<Rightarrow> attempt_projection \<Rightarrow> (readiness_error, bool) result" where
  "is_final_failure p latest attempt =
    (let node_id = ai_node_id (ap_identity attempt) in
     and_then (latest node_id) (\<lambda>newest.
     Inr (is_some_and newest (\<lambda>a. ap_identity a = ap_identity attempt)
       \<and> is_failed (ap_status attempt)
       \<and> \<not> bt_contains (p_pending_retries p) node_id)))"

definition settlement_can_decide ::
  "readiness_graph \<Rightarrow> run_projection \<Rightarrow> latest_lookup \<Rightarrow> (readiness_error, bool) result" where
  "settlement_can_decide g p latest =
    (case gr_settlement (wd_graph (rg_workflow g)) of
       None \<Rightarrow> Inr False
     | Some settlement \<Rightarrow>
         if has_output p (se_main_result_node_id settlement) then Inr True
         else try_any (\<lambda>attempt. and_then (is_final_failure p latest attempt) (\<lambda>final.
             Inr (final \<and> failure_can_inactivate_main_route g (ai_node_id (ap_identity attempt)))))
           (rev (p_attempts p)))"

section \<open>Ready nodes\<close>

definition RUN_EVENT_SCHEMA_VERSION_V11 :: u32 where
  "RUN_EVENT_SCHEMA_VERSION_V11 = 11"

definition attempt_permits :: "run_projection \<Rightarrow> instant \<Rightarrow> string \<Rightarrow> attempt_projection option \<Rightarrow> bool" where
  "attempt_permits p now node_id newest = (case newest of
     None \<Rightarrow> True
   | Some attempt \<Rightarrow> (case ap_status attempt of
       AttemptStatus_Started \<Rightarrow> False
     | AttemptStatus_Succeeded _ \<Rightarrow> False
     | AttemptStatus_Failed _ \<Rightarrow>
         is_some_and (bt_get (p_pending_retries p) node_id) (\<lambda>schedule. rsp_scheduled_at schedule \<le> now)))"

definition candidate_is_ready ::
  "readiness_graph \<Rightarrow> run_projection \<Rightarrow> instant \<Rightarrow> string set \<Rightarrow> latest_lookup \<Rightarrow> compiled_workflow_node
    \<Rightarrow> (readiness_error, bool) result" where
  "candidate_is_ready g p now active latest node =
    (if nd_id node \<notin> active then Inr False
     else and_then (graph_complete g p node) (\<lambda>complete.
       if complete then Inr False
       else and_then
         (if nd_handler node \<noteq> ''engine.workflow-settlement'' then Inr True
          else settlement_can_decide g p latest) (\<lambda>decides.
       if \<not> decides then Inr False
       else and_then (latest (nd_id node)) (\<lambda>newest.
       if \<not> attempt_permits p now (nd_id node) newest then Inr False
       else try_all (\<lambda>edge. case graph_node g (ed_from edge) of
              None \<Rightarrow> Inr False
            | Some predecessor \<Rightarrow> graph_complete g p predecessor)
          (filter (\<lambda>edge. ed_from edge \<in> active \<and> edge_is_active edge p) (graph_incoming g (nd_id node)))))))"

definition readiness_binding ::
  "compiled_workflow_definition \<Rightarrow> string \<Rightarrow> run_projection \<Rightarrow> (readiness_error, bool) result" where
  "readiness_binding workflow definition_hash p =
    (if p_status p \<noteq> RunStatus_Running then Inr False
     else if \<not> (p_workflow_id p = Some (wd_workflow_id workflow)
         \<or> is_some_and (p_event_schema_version p) (\<lambda>v. RUN_EVENT_SCHEMA_VERSION_V11 \<le> v)
           \<and> p_workflow_id p = None)
       \<or> p_definition_hash p \<noteq> Some definition_hash
     then Inl NotBound
     else Inr True)"

text \<open>\<^verbatim>\<open>ready_at\<close> and \<^verbatim>\<open>is_ready_at\<close> on a current projection, whose latest attempts are the
  query's own table.\<close>

definition current_latest :: "run_projection \<Rightarrow> latest_lookup" where
  "current_latest p node_id = Inr (latest_attempts (p_attempts p) node_id)"

definition ready_vector ::
  "readiness_graph \<Rightarrow> run_projection \<Rightarrow> latest_lookup \<Rightarrow> instant \<Rightarrow> (readiness_error, string list) result" where
  "ready_vector g p latest now =
    (let active = active_node_ids g p in
     and_then (try_filter (candidate_is_ready g p now active latest) (gr_nodes (wd_graph (rg_workflow g))))
       (\<lambda>nodes. Inr (map nd_id nodes)))"

definition ready_member ::
  "readiness_graph \<Rightarrow> run_projection \<Rightarrow> latest_lookup \<Rightarrow> instant \<Rightarrow> string \<Rightarrow> (readiness_error, bool) result" where
  "ready_member g p latest now node_id =
    (let active = active_node_ids g p in
     try_any (\<lambda>node. if nd_id node = node_id then candidate_is_ready g p now active latest node else Inr False)
       (gr_nodes (wd_graph (rg_workflow g))))"

definition ready_at ::
  "readiness_graph \<Rightarrow> string \<Rightarrow> run_projection \<Rightarrow> instant \<Rightarrow> (readiness_error, string list) result" where
  "ready_at g definition_hash p now =
    and_then (readiness_binding (rg_workflow g) definition_hash p) (\<lambda>bound.
    if \<not> bound then Inr [] else ready_vector g p (current_latest p) now)"

definition is_ready_at ::
  "readiness_graph \<Rightarrow> string \<Rightarrow> run_projection \<Rightarrow> instant \<Rightarrow> string \<Rightarrow> (readiness_error, bool) result" where
  "is_ready_at g definition_hash p now node_id =
    and_then (readiness_binding (rg_workflow g) definition_hash p) (\<lambda>bound.
    if \<not> bound then Inr False else ready_member g p (current_latest p) now node_id)"

definition ready_node_ids_for_projection_at ::
  "compiled_workflow_definition \<Rightarrow> string \<Rightarrow> run_projection \<Rightarrow> instant \<Rightarrow> (readiness_error, string list) result" where
  "ready_node_ids_for_projection_at workflow definition_hash p now =
    and_then (readiness_binding workflow definition_hash p) (\<lambda>bound.
    if \<not> bound then Inr [] else ready_at (readiness_graph_new workflow) definition_hash p now)"

text \<open>The query of a prepared definition, which keeps the topology it computes.\<close>

definition definition_ready_at ::
  "readiness_definition \<Rightarrow> string \<Rightarrow> run_projection \<Rightarrow> instant
    \<Rightarrow> (readiness_error, string list) result \<times> readiness_definition" where
  "definition_ready_at owner definition_hash p now =
    (case readiness_binding (rd_workflow owner) definition_hash p of
       Inl error \<Rightarrow> (Inl error, owner)
     | Inr False \<Rightarrow> (Inr [], owner)
     | Inr True \<Rightarrow> (let (g, owner') = definition_graph owner in (ready_at g definition_hash p now, owner')))"

end
