(* ===== verification/Readiness_Facts.thy ===== *)
theory Readiness_Facts
  imports Readiness Run_Attempts
begin

text \<open>
  What readiness computes: the active nodes are the reachable ones, the answer does not
  depend on how the topology is stored, a membership query agrees with the full list, on a
  graph without cycles the query returns, and a node it reports can be started.
\<close>

section \<open>Active nodes are reachable nodes\<close>

definition active_edges :: "compiled_workflow_definition \<Rightarrow> run_projection \<Rightarrow> (string \<times> string) set" where
  "active_edges workflow p =
    {(ed_from edge, ed_to edge) | edge. edge \<in> set (gr_edges (wd_graph workflow)) \<and> edge_is_active edge p}"

lemma active_search_worklist:
  assumes "worklist_inv (\<lambda>a. ed_to ` {edge \<in> set (graph_outgoing g a). edge_is_active edge p}) start queue active"
  shows "active_search g p queue active =
    {y. \<exists>x \<in> start. (x, y) \<in> {(a, b). b \<in> ed_to ` {edge \<in> set (graph_outgoing g a). edge_is_active edge p}}\<^sup>*}"
  using assms
proof (induction g p queue active rule: active_search.induct)
  case (1 g p active)
  then show ?case by (simp add: worklist_inv_done)
next
  case (2 g p node_id queue active)
  show ?case
  proof (cases "node_id \<in> active")
    case True
    then show ?thesis using 2(1) worklist_inv_skip [OF 2(3)] by simp
  next
    case False
    then show ?thesis using 2(2) worklist_inv_visit [OF 2(3)] by simp
  qed
qed

context definition_index
begin

lemma active_node_ids_reachable:
  "active_node_ids g p =
    {y. \<exists>x \<in> set (gr_entry_node_ids (wd_graph workflow)). (x, y) \<in> (active_edges workflow p)\<^sup>*}"
proof -
  have "{(a, b). b \<in> ed_to ` {edge \<in> set (graph_outgoing g a). edge_is_active edge p}} = active_edges workflow p"
    by (auto simp: outgoing_edges active_edges_def)
  then show ?thesis
    using active_search_worklist [OF worklist_inv_init]
    by (simp add: active_node_ids_def graph_workflow)
qed

text \<open>Completion read from the graph is completion read from the vectors.\<close>

lemma find_incoming:
  "List.find (\<lambda>edge. ed_to edge = key \<and> P edge) (graph_incoming g key) =
    List.find (\<lambda>edge. ed_to edge = key \<and> P edge) (gr_edges (wd_graph workflow))"
proof -
  have "List.find (\<lambda>edge. ed_to edge = key \<and> P edge) (filter (\<lambda>edge. ed_to edge = key) xs) =
      List.find (\<lambda>edge. ed_to edge = key \<and> P edge) xs" for xs :: "compiled_workflow_edge list"
    by (induction xs) auto
  then show ?thesis by (simp add: incoming_edges)
qed

lemma node_in_index: "node_in workflow (Some g) = node_in workflow None"
  by (simp add: fun_eq_iff node_in_def node_first)

lemma incoming_in_index: "incoming_in workflow (Some g) = incoming_in workflow None"
  by (simp add: fun_eq_iff incoming_in_def incoming_edges)

lemma selected_join_edge_index:
  "selected_join_edge workflow (Some g) p = selected_join_edge workflow None p"
  by (intro ext) (simp add: selected_join_edge_def Let_def find_incoming)

lemma complete_index:
  "node_is_complete fuel workflow (Some g) p node = node_is_complete fuel workflow None p node"
proof (induction fuel arbitrary: node)
  case 0
  then show ?case by simp
next
  case (Suc fuel)
  then have IH: "node_is_complete fuel workflow (Some g) p = node_is_complete fuel workflow None p"
    by (rule ext)
  show ?case
    unfolding node_is_complete.simps IH node_in_index incoming_in_index selected_join_edge_index ..
qed

lemma graph_complete_index:
  "graph_complete g p = node_is_complete (complete_fuel workflow) workflow None p"
  by (simp add: fun_eq_iff graph_complete_def graph_workflow complete_index)

end

lemma branch_search_same:
  assumes "graph_outgoing g = graph_outgoing h"
  shows "branch_search g terminal target pending visited = branch_search h terminal target pending visited"
  using assms by (induction g terminal target pending visited rule: branch_search.induct) simp_all

text \<open>The answers of two indexes of one definition are the same.\<close>

locale same_definition = a: definition_index g workflow + b: definition_index h workflow
  for g h :: readiness_graph and workflow :: compiled_workflow_definition
begin

lemma failure_same: "failure_can_inactivate_main_route g = failure_can_inactivate_main_route h"
proof -
  have "graph_outgoing g = graph_outgoing h"
    by (simp add: fun_eq_iff a.outgoing_edges b.outgoing_edges)
  then have "branch_search g = branch_search h"
    by (intro ext, rule branch_search_same)
  then show ?thesis
    by (intro ext) (simp only: failure_can_inactivate_main_route_def a.graph_workflow b.graph_workflow)
qed

lemma settlement_same: "settlement_can_decide g = settlement_can_decide h"
  by (intro ext) (simp only: settlement_can_decide_def failure_same a.graph_workflow b.graph_workflow)

lemma candidate_same: "candidate_is_ready g = candidate_is_ready h"
  by (intro ext) (simp only: candidate_is_ready_def a.graph_complete_index b.graph_complete_index
      settlement_same a.node_first b.node_first a.incoming_edges b.incoming_edges)

lemma ready_vector_same: "ready_vector g = ready_vector h"
  by (intro ext) (simp only: ready_vector_def candidate_same a.active_node_ids_reachable
      b.active_node_ids_reachable a.graph_workflow b.graph_workflow)

lemma ready_member_same: "ready_member g = ready_member h"
  by (intro ext) (simp only: ready_member_def candidate_same a.active_node_ids_reachable
      b.active_node_ids_reachable a.graph_workflow b.graph_workflow)

lemma ready_same: "ready_at g = ready_at h" "is_ready_at g = is_ready_at h"
  by (intro ext; simp only: ready_at_def is_ready_at_def ready_vector_same ready_member_same
      a.graph_workflow b.graph_workflow)+

end

interpretation both: same_definition
  "\<lparr>rg_workflow = workflow, rg_index = GraphIndex_Prepared (owned_topology_new workflow)\<rparr>"
  "readiness_graph_new workflow" workflow for workflow
  by unfold_locales

lemma ready_node_ids_eq:
  "ready_node_ids_for_projection_at workflow h p now = ready_at (readiness_graph_new workflow) h p now"
  by (cases "readiness_binding workflow h p")
    (auto simp: ready_node_ids_for_projection_at_def ready_at_def borrowed.graph_workflow)

lemma definition_ready_eq:
  assumes "topology_ok owner"
  shows "fst (definition_ready_at owner h p now) = ready_node_ids_for_projection_at (rd_workflow owner) h p now"
    and "topology_ok (snd (definition_ready_at owner h p now))"
    and "rd_workflow (snd (definition_ready_at owner h p now)) = rd_workflow owner"
proof -
  obtain g owner' where graph: "definition_graph owner = (g, owner')" by force
  note ok = definition_graph_ok [OF assms, unfolded graph fst_conv snd_conv]
  show "fst (definition_ready_at owner h p now) = ready_node_ids_for_projection_at (rd_workflow owner) h p now"
    unfolding definition_ready_at_def graph ok(1) ready_node_ids_for_projection_at_def
    by (simp add: both.ready_same(1) split: sum.split bool.split)
  show "topology_ok (snd (definition_ready_at owner h p now))"
    "rd_workflow (snd (definition_ready_at owner h p now)) = rd_workflow owner"
    unfolding definition_ready_at_def graph using ok(2,3) assms
    by (simp_all split: sum.split bool.split)
qed

section \<open>Membership\<close>

lemma try_member:
  assumes "try_filter f xs = Inr ys"
  shows "try_any (\<lambda>x. if k x = n then f x else Inr False) xs = Inr (n \<in> set (map k ys))"
  using assms
proof (induction xs arbitrary: ys)
  case Nil
  then show ?case by auto
next
  case (Cons x xs)
  then obtain b zs where b: "f x = Inr b" "try_filter f xs = Inr zs" "ys = (if b then x # zs else zs)"
    by (auto simp: ok_simps)
  show ?case using Cons.IH [OF b(2)] by (simp add: b(1,3))
qed

lemma ready_vector_member:
  assumes "ready_vector g p latest now = Inr ids"
  shows "ready_member g p latest now n = Inr (n \<in> set ids)"
proof -
  obtain nodes where nodes: "try_filter (candidate_is_ready g p now (active_node_ids g p) latest)
      (gr_nodes (wd_graph (rg_workflow g))) = Inr nodes" "ids = map nd_id nodes"
    using assms by (auto simp: ready_vector_def Let_def ok_simps)
  show ?thesis
    unfolding ready_member_def Let_def nodes(2) by (rule try_member [OF nodes(1)])
qed

lemma ready_at_member:
  assumes "ready_at g h p now = Inr ids"
  shows "is_ready_at g h p now n = Inr (n \<in> set ids)"
proof -
  obtain bound where bound: "readiness_binding (rg_workflow g) h p = Inr bound"
    using assms unfolding ready_at_def by (cases "readiness_binding (rg_workflow g) h p") simp_all
  show ?thesis
  proof (cases bound)
    case True
    then have "ready_vector g p (current_latest p) now = Inr ids"
      using assms bound by (simp add: ready_at_def)
    then show ?thesis
      using bound True by (simp add: is_ready_at_def ready_vector_member)
  next
    case False
    then show ?thesis using assms bound by (simp add: ready_at_def is_ready_at_def)
  qed
qed

section \<open>Termination\<close>

text \<open>
  On a graph whose edges have no cycle the recursion of \<^verbatim>\<open>node_is_complete\<close> ends: the nodes
  before a predecessor are fewer than the nodes before the join, and there are no more of
  them than nodes.
\<close>

definition graph_edges :: "compiled_workflow_definition \<Rightarrow> (string \<times> string) set" where
  "graph_edges workflow = (\<lambda>edge. (ed_from edge, ed_to edge)) ` set (gr_edges (wd_graph workflow))"

lemma graph_edgesI:
  "edge \<in> set (gr_edges (wd_graph workflow)) \<Longrightarrow> ed_to edge = n \<Longrightarrow> (ed_from edge, n) \<in> graph_edges workflow"
  by (auto simp: graph_edges_def)

lemma is_ok_and_then: "is_ok r \<Longrightarrow> (\<And>x. is_ok (f x)) \<Longrightarrow> is_ok (and_then r f)"
  by (cases r) auto

definition nodes_before :: "compiled_workflow_definition \<Rightarrow> string \<Rightarrow> string set" where
  "nodes_before workflow n = {m \<in> nd_id ` set (gr_nodes (wd_graph workflow)). (m, n) \<in> (graph_edges workflow)\<^sup>+}"

lemma card_nodes_before: "card (nodes_before workflow n) \<le> length (gr_nodes (wd_graph workflow))"
proof -
  have "card (nodes_before workflow n) \<le> card (nd_id ` set (gr_nodes (wd_graph workflow)))"
    unfolding nodes_before_def by (rule card_mono) auto
  also have "\<dots> \<le> length (gr_nodes (wd_graph workflow))"
    by (metis card_length length_map list.set_map)
  finally show ?thesis .
qed

lemma wf_node_Some:
  assumes "wf_node workflow key = Some node"
  shows "node \<in> set (gr_nodes (wd_graph workflow))" "nd_id node = key"
  using assms by (auto simp: wf_node_def find_Some_iff)

lemma nodes_before_predecessor:
  assumes "acyclic (graph_edges workflow)" "wf_node workflow m = Some node" "(m, n) \<in> graph_edges workflow"
  shows "card (nodes_before workflow (nd_id node)) < card (nodes_before workflow n)"
proof (rule psubset_card_mono)
  show "finite (nodes_before workflow n)" by (simp add: nodes_before_def)
  have m: "m \<in> nd_id ` set (gr_nodes (wd_graph workflow))" "nd_id node = m"
    using wf_node_Some [OF assms(2)] by auto
  have "m \<in> nodes_before workflow n - nodes_before workflow m"
    using assms(1,3) m(1) by (auto simp: nodes_before_def acyclic_def)
  moreover have "nodes_before workflow m \<subseteq> nodes_before workflow n"
    using assms(3) by (auto simp: nodes_before_def intro: trancl_into_trancl)
  ultimately show "nodes_before workflow (nd_id node) \<subset> nodes_before workflow n"
    unfolding m(2) by blast
qed

lemma selected_join_edgeE:
  assumes "selected_join_edge workflow None p node choice = Some edge"
  shows "(ed_from edge, nd_id node) \<in> graph_edges workflow"
  using assms
  by (auto simp: selected_join_edge_def Let_def graph_edges_def bind_eq_Some_conv find_Some_iff)

lemma complete_returns:
  assumes "acyclic (graph_edges workflow)" "card (nodes_before workflow (nd_id node)) < fuel"
  shows "is_ok (node_is_complete fuel workflow None p node)"
  using assms(2)
proof (induction fuel arbitrary: node)
  case (Suc fuel)
  have pred: "is_ok (node_is_complete fuel workflow None p m)"
    if "node_in workflow None key = Some m" "(key, nd_id node) \<in> graph_edges workflow" for key m
    using Suc nodes_before_predecessor [OF assms(1) _ that(2), of m] that(1)
    by (simp add: node_in_def)
  have choice: "is_ok (case Option.bind (Option.bind
        (List.find (\<lambda>choice. ch_join_node_id choice = nd_id node) (unwrap_or_default (gr_choices (wd_graph workflow))))
        (selected_join_edge workflow None p node)) (\<lambda>edge. node_in workflow None (ed_from edge)) of
      None \<Rightarrow> Inr False | Some m \<Rightarrow> node_is_complete fuel workflow None p m)"
    by (auto split: option.split simp: bind_eq_Some_conv intro: pred dest: selected_join_edgeE)
  have approval: "is_ok (try_any (\<lambda>edge. if edge_is_active edge p
        then (case node_in workflow None (ed_from edge) of
            None \<Rightarrow> Inr False | Some m \<Rightarrow> node_is_complete fuel workflow None p m)
        else Inr False) (incoming_in workflow None (nd_id node)))"
    by (rule try_ok(1)) (auto split: option.split simp: incoming_in_def intro!: pred graph_edgesI)
  show ?case
    using choice approval by (simp add: node_is_complete.simps(2))
qed simp

context definition_index
begin

lemma graph_complete_returns:
  "acyclic (graph_edges workflow) \<Longrightarrow> is_ok (graph_complete g p node)"
  unfolding graph_complete_index
  using card_nodes_before [of workflow "nd_id node"] by (intro complete_returns) (simp_all add: complete_fuel_def)

lemma candidate_returns:
  assumes "acyclic (graph_edges workflow)" "\<And>key. is_ok (latest key)"
  shows "is_ok (candidate_is_ready g p now active latest node)"
proof -
  have "is_ok (settlement_can_decide g p latest)"
    unfolding settlement_can_decide_def is_final_failure_def
    by (auto split: option.split simp: Let_def intro!: try_ok(1) is_ok_and_then assms(2))
  moreover have "is_ok (try_all (\<lambda>edge. case graph_node g (ed_from edge) of
        None \<Rightarrow> Inr False | Some m \<Rightarrow> graph_complete g p m) edges)" for edges
    by (rule try_ok(2)) (auto split: option.split intro: graph_complete_returns [OF assms(1)])
  ultimately show ?thesis
    unfolding candidate_is_ready_def
    by (auto intro!: is_ok_and_then graph_complete_returns [OF assms(1)] assms(2))
qed

lemma ready_vector_returns:
  assumes "acyclic (graph_edges workflow)" "\<And>key. is_ok (latest key)"
  shows "is_ok (ready_vector g p latest now)"
proof -
  have "is_ok (try_filter (candidate_is_ready g p now (active_node_ids g p) latest)
      (gr_nodes (wd_graph (rg_workflow g))))"
    by (rule try_ok(3)) (rule candidate_returns [OF assms])
  then show ?thesis by (auto simp: ready_vector_def Let_def is_ok_iff ok_simps)
qed

lemma ready_at_returns:
  assumes "acyclic (graph_edges workflow)"
  shows "is_ok (ready_at g h p now) \<longleftrightarrow> is_ok (readiness_binding workflow h p)"
  using ready_vector_returns [OF assms, of "current_latest p" p now]
  by (cases "readiness_binding workflow h p") (auto simp: ready_at_def graph_workflow current_latest_def)

end

section \<open>A ready node can be started\<close>

lemma try_filter_set:
  "try_filter f xs = Inr ys \<Longrightarrow> y \<in> set ys \<longleftrightarrow> y \<in> set xs \<and> f y = Inr True"
proof (induction xs arbitrary: ys)
  case (Cons x xs)
  then obtain b zs where b: "f x = Inr b" "try_filter f xs = Inr zs" "ys = (if b then x # zs else zs)"
    by (auto simp: ok_simps)
  show ?case using Cons.IH [OF b(2)] by (auto simp: b(1,3))
qed auto

lemma ready_at_candidate:
  assumes "ready_at g h p now = Inr ids" "n \<in> set ids"
  obtains node where "p_status p = RunStatus_Running" "node \<in> set (gr_nodes (wd_graph (rg_workflow g)))"
    "nd_id node = n" "n \<in> active_node_ids g p"
    "candidate_is_ready g p now (active_node_ids g p) (current_latest p) node = Inr True"
proof -
  have running: "p_status p = RunStatus_Running" and vector: "ready_vector g p (current_latest p) now = Inr ids"
    using assms by (auto simp: ready_at_def readiness_binding_def ok_simps split: if_splits)
  obtain nodes where nodes: "try_filter (candidate_is_ready g p now (active_node_ids g p) (current_latest p))
      (gr_nodes (wd_graph (rg_workflow g))) = Inr nodes" "ids = map nd_id nodes"
    using vector by (auto simp: ready_vector_def Let_def ok_simps)
  obtain node where node: "node \<in> set nodes" "n = nd_id node" using assms(2) nodes(2) by auto
  then have "node \<in> set (gr_nodes (wd_graph (rg_workflow g)))"
    "candidate_is_ready g p now (active_node_ids g p) (current_latest p) node = Inr True"
    using try_filter_set [OF nodes(1)] by auto
  moreover from this(2) have "n \<in> active_node_ids g p"
    by (auto simp: candidate_is_ready_def node(2) split: if_splits)
  ultimately show ?thesis using that running node(2) by simp
qed

lemma candidate_permits:
  assumes "candidate_is_ready g p now active (current_latest p) node = Inr True"
  shows "attempt_permits p now (nd_id node) (latest_attempt p (nd_id node))"
    "graph_complete g p node = Inr False"
  using assms
  by (auto simp: candidate_is_ready_def current_latest_def latest_attempts_eq ok_simps split: if_splits)

definition next_attempt :: "run_projection \<Rightarrow> string \<Rightarrow> u32" where
  "next_attempt p n = (case latest_attempt p n of None \<Rightarrow> 1 | Some a \<Rightarrow> ai_attempt (ap_identity a) + 1)"

lemma start_accepted:
  assumes "p_status p = RunStatus_Running" and sound: "attempts_sound p ix"
    and v: "p_event_schema_version p = Some v" "6 \<le> v" and "6 \<le> version e"
    and permits: "attempt_permits p now (sast_node_id d) (latest_attempt p (sast_node_id d))"
    and "now \<le> ev_occurred_at e"
    and fresh: "sast_invocation_id d \<notin> (ai_invocation_id \<circ> ap_identity) ` set (p_attempts p)"
    and "sast_attempt d = next_attempt p (sast_node_id d)"
    and "is_none_or (first_idempotency_key p (sast_node_id d)) (\<lambda>k. sast_idempotency_key d = Some k)"
  shows "\<exists>q ix'. apply_step_attempt_started p e d ix = Inr (q, ix')"
proof -
  have pending: "pending_follows (p_attempts p) (p_pending_retries p)" and ix: "indexed (p_attempts p) ix"
    using sound v by (simp_all add: attempts_sound_def)
  have "ix (identity (sast_node_id d) (sast_attempt d) (sast_invocation_id d)) = None"
  proof (rule ccontr)
    assume "ix (identity (sast_node_id d) (sast_attempt d) (sast_invocation_id d)) \<noteq> None"
    then obtain i where "i < length (p_attempts p)"
      "ap_identity (p_attempts p ! i) = identity (sast_node_id d) (sast_attempt d) (sast_invocation_id d)"
      using ix unfolding indexed_def by blast
    then have "p_attempts p ! i \<in> set (p_attempts p)"
      "ai_invocation_id (ap_identity (p_attempts p ! i)) = sast_invocation_id d"
      by (simp_all add: identity_def)
    then show False using fresh by (metis comp_apply image_eqI)
  qed
  moreover have "retry_matches e d (latest_attempt p (sast_node_id d))
      (bt_get (p_pending_retries p) (sast_node_id d)) = Inr ()"
    using permits assms(7,9) pending [unfolded pending_follows_def, rule_format, of "sast_node_id d"]
    by (auto simp: retry_matches_def attempt_permits_def next_attempt_def latest_attempt_eq is_some_and_iff
        split: option.splits attempt_status.splits if_splits)
  moreover have "\<not> is_some_and (latest_attempt p (sast_node_id d)) (\<lambda>a. ap_status a = AttemptStatus_Started)"
    using permits by (auto simp: attempt_permits_def is_some_and_iff)
  moreover have "\<not> list_ex (\<lambda>a. ai_invocation_id (ap_identity a) = sast_invocation_id d) (p_attempts p)"
    using fresh by (auto simp: list_ex_iff image_iff)
  ultimately show ?thesis
    using assms(1,5,9,10)
    by (auto simp: apply_step_attempt_started_def Let_def next_attempt_def is_some_and_iff is_none_or_iff
        RUN_EVENT_SCHEMA_VERSION_V6_def require_running_def)
qed

end
