(* ===== verification/Frontier.thy ===== *)
theory Frontier
  imports Readiness_Facts
begin

text \<open>
  The incremental frontier of a history cursor (\<^verbatim>\<open>engine/readiness/frontier.rs\<close>).  For a
  definition of script nodes and unconditional edges it keeps, per node ordinal, whether
  the node is active and complete, how many active predecessors remain, whether its
  attempts permit a start and when a retry is due, and the set of candidates; an event
  of a step changes it in time proportional to the edges of that step.
\<close>

section \<open>Supported events\<close>

definition changed_node :: "run_event \<Rightarrow> (unit, string option) result" where
  "changed_node event =
    (if is_some (ev_iteration event) then Inl ()
     else (case ev_payload event of
       RunStarted _ \<Rightarrow> Inr None
     | StepAttemptStarted data \<Rightarrow> Inr (Some (sast_node_id data))
     | StepAttemptSucceeded data \<Rightarrow> Inr (Some (sasu_node_id data))
     | StepAttemptFailed data \<Rightarrow> Inr (Some (saf_node_id data))
     | StepRetryScheduled data \<Rightarrow> Inr (Some (srs_node_id data))
     | _ \<Rightarrow> Inl ()))"

section \<open>The frontier\<close>

record frontier =
  fr_definition :: compiled_workflow_definition
  fr_ids :: "(string, nat) btree"
  fr_outgoing :: "nat list list"
  fr_active :: "bool list"
  fr_complete :: "bool list"
  fr_remaining :: "nat list"
  fr_eligible :: "bool list"
  fr_retry_at :: "instant option list"
  fr_candidates :: "nat set"

definition COMPILED_MODEL_SCHEMA_VERSION_V21 :: u32 where
  "COMPILED_MODEL_SCHEMA_VERSION_V21 = 21"

definition frontier_supports :: "compiled_workflow_definition \<Rightarrow> bool" where
  "frontier_supports workflow =
    (let graph = wd_graph workflow in
     1 \<le> wd_schema_version workflow \<and> wd_schema_version workflow \<le> COMPILED_MODEL_SCHEMA_VERSION_V21
     \<and> wd_lifecycle workflow = None \<and> wd_runtime_policy workflow = None
     \<and> wd_reusable_definitions workflow = None \<and> wd_communication workflow = None
     \<and> gr_forks graph = None \<and> gr_choices graph = None \<and> gr_context_visibility graph = None
     \<and> gr_settlement graph = None \<and> gr_for_each graph = None \<and> gr_waits graph = None
     \<and> gr_locks graph = None \<and> gr_sagas graph = None
     \<and> list_all (\<lambda>node. nd_handler node = ''runtime.script'' \<and> nd_execution node = None) (gr_nodes graph)
     \<and> list_all (\<lambda>edge. ed_condition edge = EdgeCondition_Always \<and> ed_branch_id edge = None
          \<and> ed_parallel_id edge = None \<and> ed_approval_id edge = None
          \<and> \<not> starts_with ''__woml_choice__'' (ed_id edge)) (gr_edges graph))"

definition frontier_ids :: "compiled_workflow_node list \<Rightarrow> (string, nat) btree" where
  "frontier_ids nodes = fold (\<lambda>(i, node). bt_insert (nd_id node) i) (List.enumerate 0 nodes) bt_empty"

text \<open>The edges in ordinals; an edge at an unknown node ends the construction.\<close>

fun link_edges ::
  "(string, nat) btree \<Rightarrow> compiled_workflow_edge list \<Rightarrow> nat list list \<Rightarrow> nat list
    \<Rightarrow> (nat list list \<times> nat list) option" where
  "link_edges ids [] outgoing indegree = Some (outgoing, indegree)"
| "link_edges ids (edge # edges) outgoing indegree =
    (case (bt_get ids (ed_from edge), bt_get ids (ed_to edge)) of
       (Some from, Some to) \<Rightarrow>
         link_edges ids edges (outgoing[from := outgoing ! from @ [to]]) (indegree[to := Suc (indegree ! to)])
     | _ \<Rightarrow> None)"

text \<open>The topological pass that counts the nodes on no cycle.  An index out of range and
  the underflow of a counter are panics.\<close>

fun release :: "nat list \<Rightarrow> nat list \<Rightarrow> nat list \<Rightarrow> (readiness_error, nat list \<times> nat list) result" where
  "release [] indegree queue = Inr (indegree, queue)"
| "release (next # nexts) indegree queue =
    (if length indegree \<le> next \<or> indegree ! next = 0 then Inl Panicked
     else release nexts (indegree[next := indegree ! next - 1])
       (if indegree ! next - 1 = 0 then queue @ [next] else queue))"

lemma sum_list_update_nat:
  "i < length (xs :: nat list) \<Longrightarrow> sum_list (xs[i := v]) = sum_list xs + v - xs ! i"
  by (simp add: sum_list_update)

lemma release_measure:
  "release nexts indegree queue = Inr (indegree', queue')
    \<Longrightarrow> sum_list indegree' + length queue' \<le> sum_list indegree + length queue"
proof (induction nexts indegree queue rule: release.induct)
  case (2 nxt nexts indegree queue)
  then have i: "nxt < length indegree" "0 < indegree ! nxt" by (auto split: if_splits)
  have "indegree ! nxt \<le> sum_list indegree" using i(1) by (simp add: member_le_sum_list)
  then have "Suc (sum_list (indegree[nxt := indegree ! nxt - 1])) = sum_list indegree"
    using i by (simp add: sum_list_update_nat)
  then show ?case using 2 by (auto split: if_splits)
qed simp

function topological_count :: "nat list list \<Rightarrow> nat list \<Rightarrow> nat list \<Rightarrow> nat \<Rightarrow> (readiness_error, nat) result" where
  "topological_count outgoing indegree [] visited = Inr visited"
| "topological_count outgoing indegree (node # queue) visited =
    (if length outgoing \<le> node then Inl Panicked
     else and_then (release (outgoing ! node) indegree queue) (\<lambda>(indegree', queue').
       topological_count outgoing indegree' queue' (Suc visited)))"
  by pat_completeness auto
termination
  by (relation "measure (\<lambda>(outgoing, indegree, queue, visited). sum_list indegree + length queue)")
    (auto dest: release_measure)

text \<open>The nodes the entries reach.\<close>

lemma count_list_activate:
  assumes "node < length active" "\<not> active ! node"
  shows "count_list (active[node := True]) False < count_list active False"
proof -
  have "count_list active False = count_list (take node active @ False # drop (Suc node) active) False"
    using id_take_nth_drop [OF assms(1)] assms(2) by simp
  then show ?thesis using assms(1) by (simp add: upd_conv_take_nth_drop)
qed

function spread :: "nat list list \<Rightarrow> nat list \<Rightarrow> bool list \<Rightarrow> (readiness_error, bool list) result" where
  "spread outgoing [] active = Inr active"
| "spread outgoing (node # queue) active =
    (if length active \<le> node \<or> length outgoing \<le> node then Inl Panicked
     else if active ! node then spread outgoing queue active
     else spread outgoing (queue @ outgoing ! node) (active[node := True]))"
  by pat_completeness auto
termination
  by (relation "measures [\<lambda>(outgoing, queue, active). count_list active False,
      \<lambda>(outgoing, queue, active). length queue]") (auto simp: count_list_activate)

definition remaining_counts :: "nat list list \<Rightarrow> bool list \<Rightarrow> bool list \<Rightarrow> nat list" where
  "remaining_counts outgoing active complete =
    fold (\<lambda>(from, edges) remaining.
        if active ! from \<and> \<not> complete ! from
        then fold (\<lambda>to remaining. remaining[to := Suc (remaining ! to)]) edges remaining
        else remaining)
      (List.enumerate 0 outgoing) (replicate (length outgoing) 0)"

text \<open>Whether the newest attempt of a node permits a start, and when.\<close>

definition eligibility ::
  "run_projection \<Rightarrow> (string, nat) btree \<Rightarrow> string \<Rightarrow> bool
    \<Rightarrow> (readiness_error, bool \<times> instant option) result" where
  "eligibility p latest node_id complete =
    (if complete then Inr (False, None)
     else (case bt_get latest node_id of
       None \<Rightarrow> Inr (True, None)
     | Some i \<Rightarrow>
         if length (p_attempts p) \<le> i then Inl Panicked
         else (case ap_status (p_attempts p ! i) of
           AttemptStatus_Started \<Rightarrow> Inr (False, None)
         | AttemptStatus_Succeeded _ \<Rightarrow> Inr (False, None)
         | AttemptStatus_Failed _ \<Rightarrow>
             (let retry_at = map_option rsp_scheduled_at (bt_get (p_pending_retries p) node_id)
              in Inr (is_some retry_at, retry_at)))))"

definition frontier_refresh ::
  "nat \<Rightarrow> run_projection \<Rightarrow> (string, nat) btree \<Rightarrow> frontier \<Rightarrow> (readiness_error, frontier) result" where
  "frontier_refresh index p latest f =
    and_then (eligibility p latest (nd_id (gr_nodes (wd_graph (fr_definition f)) ! index)) (fr_complete f ! index))
      (\<lambda>(eligible, retry_at).
        Inr (f\<lparr>fr_retry_at := (fr_retry_at f)[index := retry_at],
               fr_eligible := (fr_eligible f)[index := eligible],
               fr_candidates :=
                 (if fr_active f ! index \<and> fr_remaining f ! index = 0 \<and> eligible
                  then insert index (fr_candidates f) else fr_candidates f - {index})\<rparr>))"

fun refresh_all ::
  "nat list \<Rightarrow> run_projection \<Rightarrow> (string, nat) btree \<Rightarrow> frontier \<Rightarrow> (readiness_error, frontier) result" where
  "refresh_all [] p latest f = Inr f"
| "refresh_all (index # indexes) p latest f =
    and_then (frontier_refresh index p latest f) (refresh_all indexes p latest)"

text \<open>\<^verbatim>\<open>Frontier::new\<close>: the answer None is a definition or a projection out of scope.\<close>

fun entry_ordinals :: "(string, nat) btree \<Rightarrow> string list \<Rightarrow> nat list option" where
  "entry_ordinals ids [] = Some []"
| "entry_ordinals ids (entry # entries) =
    Option.bind (bt_get ids entry) (\<lambda>i. map_option ((#) i) (entry_ordinals ids entries))"

definition frontier_start ::
  "compiled_workflow_definition \<Rightarrow> (string, nat) btree \<Rightarrow> nat list list \<Rightarrow> bool list \<Rightarrow> run_projection \<Rightarrow> frontier" where
  "frontier_start workflow ids outgoing active p =
    (let count = length (gr_nodes (wd_graph workflow));
         complete = map (\<lambda>node. has_output p (nd_id node)) (gr_nodes (wd_graph workflow))
     in \<lparr>fr_definition = workflow, fr_ids = ids, fr_outgoing = outgoing, fr_active = active,
         fr_complete = complete, fr_remaining = remaining_counts outgoing active complete,
         fr_eligible = replicate count False, fr_retry_at = replicate count None, fr_candidates = {}\<rparr>)"

definition frontier_new ::
  "compiled_workflow_definition \<Rightarrow> run_projection \<Rightarrow> (string, nat) btree
    \<Rightarrow> (readiness_error, frontier option) result" where
  "frontier_new workflow p latest =
    (let graph = wd_graph workflow; count = length (gr_nodes graph); ids = frontier_ids (gr_nodes graph) in
     if \<not> frontier_supports workflow then Inr None
     else if length (bt_entries ids) \<noteq> count then Inr None
     else if list_ex (\<lambda>id. \<not> bt_contains ids id) (bt_keys latest) then Inr None
     else (case link_edges ids (gr_edges graph) (replicate count []) (replicate count 0) of
       None \<Rightarrow> Inr None
     | Some (outgoing, indegree) \<Rightarrow>
         and_then (topological_count outgoing indegree (filter (\<lambda>i. indegree ! i = 0) [0 ..< count]) 0) (\<lambda>visited.
         if visited \<noteq> count then Inr None
         else (case entry_ordinals ids (gr_entry_node_ids graph) of
           None \<Rightarrow> Inr None
         | Some queue \<Rightarrow>
             and_then (spread outgoing queue (replicate count False)) (\<lambda>active.
             and_then (refresh_all [0 ..< count] p latest (frontier_start workflow ids outgoing active p)) (\<lambda>f.
             Inr (Some f)))))))"

section \<open>Updates\<close>

fun complete_edges :: "nat list \<Rightarrow> frontier \<Rightarrow> (readiness_error, frontier) result" where
  "complete_edges [] f = Inr f"
| "complete_edges (next # nexts) f =
    (if length (fr_remaining f) \<le> next \<or> fr_remaining f ! next = 0 then Inl Panicked
     else (let f' = f\<lparr>fr_remaining := (fr_remaining f)[next := fr_remaining f ! next - 1]\<rparr> in
       complete_edges nexts
         (if fr_remaining f' ! next = 0 \<and> fr_active f' ! next \<and> fr_eligible f' ! next
          then f'\<lparr>fr_candidates := insert next (fr_candidates f')\<rparr> else f')))"

text \<open>\<^verbatim>\<open>update\<close>: the answer None is the \<^verbatim>\<open>false\<close> that makes the cursor drop the frontier.\<close>

definition frontier_update ::
  "string \<Rightarrow> run_projection \<Rightarrow> (string, nat) btree \<Rightarrow> frontier \<Rightarrow> (readiness_error, frontier option) result" where
  "frontier_update node p latest f =
    (case bt_get (fr_ids f) node of
       None \<Rightarrow> Inr None
     | Some index \<Rightarrow>
         (let complete = has_output p node in
          if complete \<noteq> fr_complete f ! index \<and> \<not> complete then Inr None
          else and_then
            (if complete \<noteq> fr_complete f ! index then
               (let f' = f\<lparr>fr_complete := (fr_complete f)[index := True]\<rparr> in
                if fr_active f' ! index then complete_edges (fr_outgoing f' ! index) f' else Inr f')
             else Inr f) (\<lambda>f'.
          and_then (frontier_refresh index p latest f') (\<lambda>f''. Inr (Some f'')))))"

section \<open>Queries\<close>

definition frontier_due :: "frontier \<Rightarrow> instant \<Rightarrow> nat \<Rightarrow> bool" where
  "frontier_due f now index = is_none_or (fr_retry_at f ! index) (\<lambda>deadline. deadline \<le> now)"

definition frontier_contains :: "frontier \<Rightarrow> string \<Rightarrow> instant \<Rightarrow> bool" where
  "frontier_contains f node now =
    is_some_and (bt_get (fr_ids f) node) (\<lambda>index. index \<in> fr_candidates f \<and> frontier_due f now index)"

definition frontier_ready_at :: "frontier \<Rightarrow> instant \<Rightarrow> string list" where
  "frontier_ready_at f now =
    map (\<lambda>index. nd_id (gr_nodes (wd_graph (fr_definition f)) ! index))
      (filter (frontier_due f now) (sorted_list_of_set (fr_candidates f)))"

end
