(* ===== verification/Frontier_Tables.thy ===== *)
theory Frontier_Tables
  imports Frontier
begin

text \<open>
  The tables of the frontier: the ordinals of the nodes, the edges in ordinals, the
  topological pass, which does not panic, the nodes the entries reach, and the counts of
  the predecessors that remain.
\<close>

section \<open>Ordinals\<close>

lemma frontier_ids_snoc:
  "bt_get (frontier_ids (nodes @ [node])) k =
    (if k = nd_id node then Some (length nodes) else bt_get (frontier_ids nodes) k)"
  by (simp add: frontier_ids_def enumerate_append_eq)

lemma frontier_ids_Nil: "bt_get (frontier_ids []) k = None"
  by (simp add: frontier_ids_def)

lemma frontier_ids_sound:
  "bt_get (frontier_ids nodes) k = Some i \<Longrightarrow> i < length nodes \<and> nd_id (nodes ! i) = k"
proof (induction nodes rule: rev_induct)
  case (snoc node nodes)
  then show ?case by (auto simp: frontier_ids_snoc nth_append less_SucI split: if_splits)
qed (simp add: frontier_ids_Nil)

lemma frontier_ids_dom: "dom (bt_get (frontier_ids nodes)) = set (map nd_id nodes)"
proof (induction nodes rule: rev_induct)
  case (snoc node nodes)
  then show ?case by (auto simp: frontier_ids_snoc dom_def)
qed (simp add: frontier_ids_Nil)

lemma length_bt_entries: "length (bt_entries m) = card (dom (bt_get m))"
proof -
  have "dom (bt_get m) = fst ` set (bt_entries m)"
    by (rule set_eqI) (simp add: bt.in_keys_iff domIff)
  then show ?thesis using distinct_card [OF bt.entries_distinct [of m]] by simp
qed

lemma frontier_ids_distinct:
  assumes "length (bt_entries (frontier_ids nodes)) = length nodes"
  shows "distinct (map nd_id nodes)"
  using assms by (intro card_distinct) (simp add: length_bt_entries frontier_ids_dom)

lemma frontier_ids_iff:
  assumes "distinct (map nd_id nodes)"
  shows "bt_get (frontier_ids nodes) k = Some i \<longleftrightarrow> i < length nodes \<and> nd_id (nodes ! i) = k"
proof
  assume i: "i < length nodes \<and> nd_id (nodes ! i) = k"
  then have "k \<in> dom (bt_get (frontier_ids nodes))" by (auto simp: frontier_ids_dom)
  then obtain j where j: "bt_get (frontier_ids nodes) k = Some j" by blast
  then have "map nd_id nodes ! i = map nd_id nodes ! j" "j < length nodes"
    using frontier_ids_sound [OF j] i by simp_all
  then have "i = j" using assms i nth_eq_iff_index_eq [of "map nd_id nodes" i j] by simp
  then show "bt_get (frontier_ids nodes) k = Some i" using j by simp
qed (rule frontier_ids_sound)

section \<open>Edges in ordinals\<close>

lemma link_edges_length:
  "link_edges ids edges outgoing indegree = Some (outgoing', indegree')
    \<Longrightarrow> length outgoing' = length outgoing \<and> length indegree' = length indegree"
  by (induction ids edges outgoing indegree rule: link_edges.induct) (auto split: option.splits)

lemma link_edges_known:
  "link_edges ids edges outgoing indegree = Some result
    \<Longrightarrow> edge \<in> set edges \<Longrightarrow> \<exists>i j. bt_get ids (ed_from edge) = Some i \<and> bt_get ids (ed_to edge) = Some j"
  by (induction ids edges outgoing indegree rule: link_edges.induct) (auto split: option.splits)

lemma link_edges_outgoing:
  assumes "link_edges ids edges outgoing indegree = Some (outgoing', indegree')"
    and "\<And>k i. bt_get ids k = Some i \<Longrightarrow> i < length outgoing" "i < length outgoing"
  shows "outgoing' ! i = outgoing ! i
    @ map (\<lambda>edge. the (bt_get ids (ed_to edge))) (filter (\<lambda>edge. bt_get ids (ed_from edge) = Some i) edges)"
  using assms
  by (induction ids edges outgoing indegree rule: link_edges.induct) (auto split: option.splits simp: nth_list_update)

lemma link_edges_indegree:
  assumes "link_edges ids edges outgoing indegree = Some (outgoing', indegree')"
    and "\<And>k i. bt_get ids k = Some i \<Longrightarrow> i < length indegree" "j < length indegree"
  shows "indegree' ! j = indegree ! j + length (filter (\<lambda>edge. bt_get ids (ed_to edge) = Some j) edges)"
  using assms
  by (induction ids edges outgoing indegree rule: link_edges.induct) (auto split: option.splits simp: nth_list_update)

text \<open>The edges into a node are the occurrences of its ordinal in all lists.\<close>

lemma sum_count_filter:
  fixes n :: nat
  assumes "\<And>edge. edge \<in> set edges \<Longrightarrow> \<exists>i j. f edge = Some i \<and> i < n \<and> g edge = Some j"
  shows "(\<Sum>i < n. count_list (map (\<lambda>edge. the (g edge)) (filter (\<lambda>edge. f edge = Some i) edges)) j)
    = length (filter (\<lambda>edge. g edge = Some j) edges)"
  using assms
proof (induction edges)
  case (Cons edge edges)
  then obtain i0 j0 where e: "f edge = Some i0" "i0 < n" "g edge = Some j0" by fastforce
  have IH: "(\<Sum>i < n. count_list (map (\<lambda>edge. the (g edge)) (filter (\<lambda>edge. f edge = Some i) edges)) j)
    = length (filter (\<lambda>edge. g edge = Some j) edges)"
    using Cons by simp
  have "count_list (map (\<lambda>edge. the (g edge)) (filter (\<lambda>edge. f edge = Some i) (edge # edges))) j
    = count_list (map (\<lambda>edge. the (g edge)) (filter (\<lambda>edge. f edge = Some i) edges)) j
      + (if i = i0 \<and> j0 = j then 1 else 0)" for i
    using e by auto
  then have "(\<Sum>i < n. count_list (map (\<lambda>edge. the (g edge)) (filter (\<lambda>edge. f edge = Some i) (edge # edges))) j)
    = length (filter (\<lambda>edge. g edge = Some j) edges) + (\<Sum>i < n. if i = i0 \<and> j0 = j then 1 else 0)"
    by (simp only: sum.distrib IH)
  also have "(\<Sum>i < n. if i = i0 \<and> j0 = j then 1 else (0::nat)) = (if j0 = j then 1 else 0)"
    using e(2) by (simp add: sum.delta)
  finally show ?case using e(3) by simp
qed simp

section \<open>The topological pass does not panic\<close>

lemma release_spec:
  assumes "\<And>j. j < length indegree \<Longrightarrow> indegree ! j = c j + count_list nexts j"
    and "set nexts \<subseteq> {..< length indegree}"
  shows "\<exists>indegree' new. release nexts indegree queue = Inr (indegree', queue @ new)
    \<and> length indegree' = length indegree \<and> (\<forall>j < length indegree. indegree' ! j = c j)
    \<and> distinct new \<and> set new = {j \<in> set nexts. c j = 0}"
  using assms
proof (induction nexts arbitrary: indegree queue)
  case (Cons x nexts)
  let ?indegree = "indegree[x := indegree ! x - 1]"
  let ?queue = "if indegree ! x - 1 = 0 then queue @ [x] else queue"
  have x: "x < length indegree" "indegree ! x = Suc (c x + count_list nexts x)"
    using Cons.prems(1) [of x] Cons.prems(2) by simp_all
  have "?indegree ! j = c j + count_list nexts j" if "j < length ?indegree" for j
    using Cons.prems(1) [of j] that x by (auto simp: nth_list_update)
  moreover have "set nexts \<subseteq> {..< length ?indegree}" using Cons.prems(2) by simp
  ultimately obtain indegree' new where rest: "release nexts ?indegree ?queue = Inr (indegree', ?queue @ new)"
    "length indegree' = length ?indegree" "\<forall>j < length ?indegree. indegree' ! j = c j"
    "distinct new" "set new = {j \<in> set nexts. c j = 0}"
    using Cons.IH by blast
  have zero: "indegree ! x - 1 = 0 \<longleftrightarrow> c x = 0 \<and> x \<notin> set nexts"
    using x(2) by (simp add: count_list_0_iff)
  show ?case
  proof (cases "indegree ! x - 1 = 0")
    case True
    then show ?thesis
      using rest x zero by (intro exI [of _ indegree'] exI [of _ "x # new"]) auto
  next
    case False
    then have "{j \<in> set (x # nexts). c j = 0} = {j \<in> set nexts. c j = 0}" using zero by auto
    then show ?thesis
      using rest x(1) False by (intro exI [of _ indegree'] exI [of _ new] conjI) simp_all
  qed
qed (simp add: exI [of _ "[]"])

definition topological_inv :: "nat list list \<Rightarrow> nat list \<Rightarrow> nat list \<Rightarrow> nat set \<Rightarrow> bool" where
  "topological_inv outgoing indegree queue visited \<longleftrightarrow>
    (let n = length outgoing in
     length indegree = n \<and> set queue \<union> visited \<subseteq> {..< n} \<and> distinct queue \<and> set queue \<inter> visited = {}
     \<and> (\<forall>j < n. indegree ! j = (\<Sum>i \<in> {..< n} - visited. count_list (outgoing ! i) j))
     \<and> (\<forall>j < n. indegree ! j = 0 \<longleftrightarrow> j \<in> set queue \<union> visited))"

lemma topological_step:
  assumes inv: "topological_inv outgoing indegree (node # queue) visited"
    and range: "\<And>i. i < length outgoing \<Longrightarrow> set (outgoing ! i) \<subseteq> {..< length outgoing}"
  shows "\<exists>indegree' queue'. release (outgoing ! node) indegree queue = Inr (indegree', queue')
    \<and> topological_inv outgoing indegree' queue' (insert node visited)"
proof -
  let ?n = "length outgoing"
  define c where "c j = (\<Sum>i \<in> {..< ?n} - insert node visited. count_list (outgoing ! i) j)" for j
  have node: "node < ?n" "node \<notin> visited" "length indegree = ?n"
    using inv by (auto simp: topological_inv_def Let_def)
  have split: "indegree ! j = c j + count_list (outgoing ! node) j" if "j < ?n" for j
  proof -
    have "indegree ! j = (\<Sum>i \<in> {..< ?n} - visited. count_list (outgoing ! i) j)"
      using inv that by (simp add: topological_inv_def Let_def)
    also have "\<dots> = count_list (outgoing ! node) j + (\<Sum>i \<in> ({..< ?n} - visited) - {node}. count_list (outgoing ! i) j)"
      using node by (intro sum.remove) auto
    also have "({..< ?n} - visited) - {node} = {..< ?n} - insert node visited" by auto
    finally show ?thesis by (simp add: c_def)
  qed
  obtain indegree' new where r: "release (outgoing ! node) indegree queue = Inr (indegree', queue @ new)"
    "length indegree' = ?n" "\<forall>j < ?n. indegree' ! j = c j" "distinct new"
    "set new = {j \<in> set (outgoing ! node). c j = 0}"
    using release_spec [of indegree c "outgoing ! node" queue] split range [OF node(1)] node(3) by auto
  have zero: "indegree ! j = 0 \<longleftrightarrow> j = node \<or> j \<in> set queue \<union> visited" if "j < ?n" for j
    using inv that by (auto simp: topological_inv_def Let_def)
  have fresh: "j < ?n \<and> j \<noteq> node \<and> j \<notin> set queue \<union> visited" if "j \<in> set (outgoing ! node)" for j
  proof -
    have "j < ?n" using that range [OF node(1)] by auto
    moreover have "count_list (outgoing ! node) j \<noteq> 0" using that by (simp add: count_list_0_iff)
    ultimately show ?thesis using split zero by fastforce
  qed
  have now_zero: "c j = 0 \<longleftrightarrow> j \<in> set (queue @ new) \<union> insert node visited" if "j < ?n" for j
    using split [OF that] zero [OF that] r(5) by (auto simp: count_list_0_iff)
  have parts: "set queue \<union> visited \<subseteq> {..< ?n}" "distinct queue" "set queue \<inter> visited = {}" "node \<notin> set queue"
    using inv by (auto simp: topological_inv_def Let_def)
  have "set (queue @ new) \<union> insert node visited \<subseteq> {..< ?n}" "distinct (queue @ new)"
    "set (queue @ new) \<inter> insert node visited = {}"
    using parts fresh r(4,5) node by auto
  then have "topological_inv outgoing indegree' (queue @ new) (insert node visited)"
    unfolding topological_inv_def Let_def using r(2,3) now_zero by (simp add: c_def)
  then show ?thesis using r(1) by blast
qed

lemma topological_count_returns:
  assumes "topological_inv outgoing indegree queue visited"
    and "\<And>i. i < length outgoing \<Longrightarrow> set (outgoing ! i) \<subseteq> {..< length outgoing}"
  shows "is_ok (topological_count outgoing indegree queue k)"
  using assms
proof (induction outgoing indegree queue k arbitrary: visited rule: topological_count.induct)
  case (2 outgoing indegree node queue k)
  obtain indegree' queue' where step: "release (outgoing ! node) indegree queue = Inr (indegree', queue')"
    "topological_inv outgoing indegree' queue' (insert node visited)"
    using topological_step [OF 2(2,3)] by blast
  have "node < length outgoing" using 2(2) by (auto simp: topological_inv_def Let_def)
  then show ?case using 2(1) [OF _ step(1) refl step(2) 2(3)] step(1) by simp
qed simp

section \<open>Reached nodes\<close>

lemma spread_worklist:
  assumes "worklist_inv (\<lambda>i. set (outgoing ! i)) start queue {i. i < length active \<and> active ! i}"
    and "length active = length outgoing" "set queue \<subseteq> {..< length outgoing}"
    and "\<And>i. i < length outgoing \<Longrightarrow> set (outgoing ! i) \<subseteq> {..< length outgoing}"
  shows "\<exists>active'. spread outgoing queue active = Inr active' \<and> length active' = length outgoing
    \<and> {i. i < length active' \<and> active' ! i}
      = {y. \<exists>x \<in> start. (x, y) \<in> {(a, b). b \<in> set (outgoing ! a)}\<^sup>*}"
  using assms
proof (induction outgoing queue active rule: spread.induct)
  case (1 outgoing active)
  then show ?case using worklist_inv_done [OF 1(1)] by simp
next
  case (2 outgoing node queue active)
  have node: "node < length active" "node < length outgoing" using 2(4,5) by auto
  show ?case
  proof (cases "active ! node")
    case True
    then show ?thesis
      using 2(1) [OF _ True worklist_inv_skip [OF 2(3)] 2(4) _ 2(6)] node 2(5) by simp
  next
    case False
    have "{i. i < length (active[node := True]) \<and> active[node := True] ! i}
        = insert node {i. i < length active \<and> active ! i}"
      using node by (auto simp: nth_list_update)
    then have "worklist_inv (\<lambda>i. set (outgoing ! i)) start (queue @ outgoing ! node)
        {i. i < length (active[node := True]) \<and> active[node := True] ! i}"
      using worklist_inv_visit [OF 2(3), of "queue @ outgoing ! node"] by simp
    moreover have "set (queue @ outgoing ! node) \<subseteq> {..< length outgoing}"
      using 2(5) 2(6) [OF node(2)] by simp
    ultimately show ?thesis using 2(2) [OF _ False _ _ _ 2(6)] 2(4) node False by simp
  qed
qed

lemma spread_spec:
  assumes "set queue \<subseteq> {..< length outgoing}"
    and "\<And>i. i < length outgoing \<Longrightarrow> set (outgoing ! i) \<subseteq> {..< length outgoing}"
  shows "\<exists>active. spread outgoing queue (replicate (length outgoing) False) = Inr active
    \<and> length active = length outgoing
    \<and> (\<forall>i < length outgoing. active ! i
        \<longleftrightarrow> (\<exists>x \<in> set queue. (x, i) \<in> {(a, b). b \<in> set (outgoing ! a)}\<^sup>*))"
proof -
  have none: "{i. i < length (replicate (length outgoing) False) \<and> replicate (length outgoing) False ! i} = {}"
    by auto
  obtain active where active: "spread outgoing queue (replicate (length outgoing) False) = Inr active"
    "length active = length outgoing"
    "{i. i < length active \<and> active ! i} = {y. \<exists>x \<in> set queue. (x, y) \<in> {(a, b). b \<in> set (outgoing ! a)}\<^sup>*}"
    using spread_worklist [of outgoing "set queue" queue "replicate (length outgoing) False"]
      worklist_inv_init [of "\<lambda>i. set (outgoing ! i)" queue] assms unfolding none by auto
  have "active ! i \<longleftrightarrow> (\<exists>x \<in> set queue. (x, i) \<in> {(a, b). b \<in> set (outgoing ! a)}\<^sup>*)"
    if "i < length outgoing" for i
    using active(2,3) that by (auto simp: set_eq_iff)
  then show ?thesis using active(1,2) by blast
qed

section \<open>Remaining predecessors\<close>

lemma fold_increment:
  assumes "set edges \<subseteq> {..< length remaining}"
  shows "length (fold (\<lambda>to remaining. remaining[to := Suc (remaining ! to)]) edges remaining) = length remaining"
    and "j < length remaining \<Longrightarrow>
      fold (\<lambda>to remaining. remaining[to := Suc (remaining ! to)]) edges remaining ! j
        = remaining ! j + count_list edges j"
proof -
  show "length (fold (\<lambda>to remaining. remaining[to := Suc (remaining ! to)]) edges remaining) = length remaining"
    by (induction edges arbitrary: remaining) simp_all
  show "j < length remaining \<Longrightarrow>
      fold (\<lambda>to remaining. remaining[to := Suc (remaining ! to)]) edges remaining ! j
        = remaining ! j + count_list edges j"
    using assms
  proof (induction edges arbitrary: remaining)
    case (Cons x edges)
    then show ?case
      using Cons.IH [of "remaining[x := Suc (remaining ! x)]"] by (simp add: nth_list_update)
  qed simp
qed

definition pending_count :: "nat list list \<Rightarrow> bool list \<Rightarrow> bool list \<Rightarrow> nat \<Rightarrow> nat" where
  "pending_count outgoing active complete j =
    (\<Sum>i < length outgoing. if active ! i \<and> \<not> complete ! i then count_list (outgoing ! i) j else 0)"

lemma remaining_fold:
  assumes "\<And>edges. edges \<in> set os \<Longrightarrow> set edges \<subseteq> {..< length remaining}"
    and step: "step = (\<lambda>(from, edges) remaining.
        if active ! from \<and> \<not> complete ! from
        then fold (\<lambda>to remaining. remaining[to := Suc (remaining ! to)]) edges remaining else remaining)"
  shows "length (fold step (List.enumerate 0 os) remaining) = length remaining
    \<and> (\<forall>j < length remaining. fold step (List.enumerate 0 os) remaining ! j = remaining ! j
      + (\<Sum>i < length os. if active ! i \<and> \<not> complete ! i then count_list (os ! i) j else 0))"
  using assms(1)
proof (induction os rule: rev_induct)
  case (snoc edges os)
  let ?r = "fold step (List.enumerate 0 os) remaining"
  have len: "length ?r = length remaining"
    and IH: "\<And>j. j < length remaining \<Longrightarrow> ?r ! j = remaining ! j
      + (\<Sum>i < length os. if active ! i \<and> \<not> complete ! i then count_list (os ! i) j else 0)"
    using snoc by auto
  have range: "set edges \<subseteq> {..< length ?r}" using snoc.prems len by simp
  have "fold step (List.enumerate 0 (os @ [edges])) remaining =
      (if active ! length os \<and> \<not> complete ! length os
       then fold (\<lambda>to remaining. remaining[to := Suc (remaining ! to)]) edges ?r else ?r)"
    by (simp add: enumerate_append_eq step)
  moreover have "(\<Sum>i < length (os @ [edges]). if active ! i \<and> \<not> complete ! i
        then count_list ((os @ [edges]) ! i) j else 0)
      = (\<Sum>i < length os. if active ! i \<and> \<not> complete ! i then count_list (os ! i) j else 0)
        + (if active ! length os \<and> \<not> complete ! length os then count_list edges j else 0)" for j
  proof -
    have "(\<Sum>i < length os. if active ! i \<and> \<not> complete ! i then count_list ((os @ [edges]) ! i) j else 0)
        = (\<Sum>i < length os. if active ! i \<and> \<not> complete ! i then count_list (os ! i) j else 0)"
      by (rule sum.cong) (auto simp: nth_append)
    then show ?thesis by simp
  qed
  ultimately show ?case
    using fold_increment [OF range] len IH by (cases "active ! length os \<and> \<not> complete ! length os") auto
qed simp

lemma remaining_counts_spec:
  assumes "\<And>i. i < length outgoing \<Longrightarrow> set (outgoing ! i) \<subseteq> {..< length outgoing}"
  shows "length (remaining_counts outgoing active complete) = length outgoing"
    and "j < length outgoing \<Longrightarrow>
      remaining_counts outgoing active complete ! j = pending_count outgoing active complete j"
proof -
  have "set edges \<subseteq> {..< length (replicate (length outgoing) (0 :: nat))}" if "edges \<in> set outgoing" for edges
    using that assms by (auto simp: in_set_conv_nth)
  then have *: "length (remaining_counts outgoing active complete) = length (replicate (length outgoing) (0 :: nat))
    \<and> (\<forall>j < length (replicate (length outgoing) (0 :: nat)). remaining_counts outgoing active complete ! j
      = replicate (length outgoing) 0 ! j + pending_count outgoing active complete j)"
    using remaining_fold [OF _ refl, of outgoing "replicate (length outgoing) 0" active complete]
    unfolding remaining_counts_def pending_count_def by blast
  then show "length (remaining_counts outgoing active complete) = length outgoing"
    and "j < length outgoing \<Longrightarrow>
      remaining_counts outgoing active complete ! j = pending_count outgoing active complete j"
    by simp_all
qed

lemma pending_count_zero:
  "pending_count outgoing active complete j = 0 \<longleftrightarrow>
    (\<forall>i < length outgoing. active ! i \<and> j \<in> set (outgoing ! i) \<longrightarrow> complete ! i)"
  by (auto simp: pending_count_def count_list_0_iff)

lemma pending_count_complete:
  assumes "i < length outgoing" "\<not> complete ! i" "length complete = length outgoing"
  shows "pending_count outgoing active complete j
    = pending_count outgoing active (complete[i := True]) j
      + (if active ! i then count_list (outgoing ! i) j else 0)"
proof -
  have "pending_count outgoing active c j
      = (if active ! i \<and> \<not> c ! i then count_list (outgoing ! i) j else 0)
        + (\<Sum>k \<in> {..< length outgoing} - {i}. if active ! k \<and> \<not> c ! k then count_list (outgoing ! k) j else 0)" for c
    unfolding pending_count_def using assms(1) by (intro sum.remove) auto
  moreover have "(\<Sum>k \<in> {..< length outgoing} - {i}. if active ! k \<and> \<not> complete[i := True] ! k
        then count_list (outgoing ! k) j else 0)
      = (\<Sum>k \<in> {..< length outgoing} - {i}. if active ! k \<and> \<not> complete ! k then count_list (outgoing ! k) j else 0)"
    by (rule sum.cong) auto
  ultimately show ?thesis using assms by simp
qed

end
