(* ===== verification/Frontier_Facts.thy ===== *)
theory Frontier_Facts
  imports Frontier_Tables
begin

text \<open>
  The frontier answers what the full query answers.  The invariant \<open>frontier_ok\<close> relates it
  to the definition and to a projection; the construction establishes it, an update of
  the node an event changed keeps it, and under it the candidates that are due are the
  ready nodes of the full query.
\<close>

section \<open>The newest attempt\<close>

definition newest_ok :: "attempt_projection list \<Rightarrow> (string, nat) btree \<Rightarrow> bool" where
  "newest_ok xs latest \<longleftrightarrow> (\<forall>k i. bt_get latest k = Some i \<longleftrightarrow>
    i < length xs \<and> node_of (xs ! i) = k \<and> (\<forall>j. i < j \<and> j < length xs \<longrightarrow> node_of (xs ! j) \<noteq> k))"

lemma find_last_nth:
  assumes "i < length xs" "P (xs ! i)" "\<And>j. i < j \<Longrightarrow> j < length xs \<Longrightarrow> \<not> P (xs ! j)"
  shows "find_last P xs = Some (xs ! i)"
  using assms
proof (induction xs rule: rev_induct)
  case (snoc x xs)
  show ?case
  proof (cases "i = length xs")
    case True
    then show ?thesis using snoc.prems(2) by simp
  next
    case False
    then have i: "i < length xs" "\<not> P x"
      using snoc.prems(1) snoc.prems(3) [of "length xs"] by simp_all
    have "find_last P xs = Some (xs ! i)"
      using snoc.prems i by (intro snoc.IH) (auto simp: nth_append dest!: snoc.prems(3))
    then show ?thesis using i by (simp add: nth_append)
  qed
qed simp

lemma last_index:
  assumes "x \<in> set xs" "P x"
  obtains i where "i < length xs" "P (xs ! i)" "\<And>j. i < j \<Longrightarrow> j < length xs \<Longrightarrow> \<not> P (xs ! j)"
proof -
  let ?S = "{i. i < length xs \<and> P (xs ! i)}"
  have S: "finite ?S" "?S \<noteq> {}" using assms by (auto simp: in_set_conv_nth)
  have "Max ?S \<in> ?S" using Max_in [OF S] .
  moreover have "j \<le> Max ?S" if "j \<in> ?S" for j using Max_ge [OF S(1) that] .
  ultimately show ?thesis using that [of "Max ?S"] by fastforce
qed

lemma newest_latest:
  assumes "newest_ok (p_attempts p) latest"
  shows "latest_attempt p k = map_option ((!) (p_attempts p)) (bt_get latest k)"
    and "bt_get latest k = Some i \<Longrightarrow> i < length (p_attempts p)"
proof -
  show "bt_get latest k = Some i \<Longrightarrow> i < length (p_attempts p)"
    using assms by (simp add: newest_ok_def)
  show "latest_attempt p k = map_option ((!) (p_attempts p)) (bt_get latest k)"
  proof (cases "bt_get latest k")
    case None
    have "node_of a \<noteq> k" if a: "a \<in> set (p_attempts p)" for a
    proof
      assume "node_of a = k"
      then obtain i where "i < length (p_attempts p)" "node_of (p_attempts p ! i) = k"
        "\<And>j. i < j \<Longrightarrow> j < length (p_attempts p) \<Longrightarrow> node_of (p_attempts p ! j) \<noteq> k"
        using last_index [OF a, of "\<lambda>a. node_of a = k"] by metis
      then have "bt_get latest k = Some i" using assms by (simp add: newest_ok_def)
      then show False using None by simp
    qed
    then show ?thesis using None by (simp add: latest_attempt_def find_last_None node_of_def)
  next
    case (Some i)
    then have i: "i < length (p_attempts p)" "node_of (p_attempts p ! i) = k"
      "\<And>j. i < j \<Longrightarrow> j < length (p_attempts p) \<Longrightarrow> node_of (p_attempts p ! j) \<noteq> k"
      using assms by (auto simp: newest_ok_def)
    show ?thesis
      using find_last_nth [of i "p_attempts p" "\<lambda>a. ai_node_id (ap_identity a) = k"] i Some
      by (simp add: latest_attempt_def node_of_def)
  qed
qed

section \<open>What the frontier tracks of a projection\<close>

definition may_start :: "run_projection \<Rightarrow> string \<Rightarrow> bool" where
  "may_start p k \<longleftrightarrow> \<not> has_output p k \<and> (case map_option ap_status (latest_attempt p k) of
     None \<Rightarrow> True
   | Some (AttemptStatus_Failed _) \<Rightarrow> bt_contains (p_pending_retries p) k
   | Some _ \<Rightarrow> False)"

definition retry_time :: "run_projection \<Rightarrow> string \<Rightarrow> instant option" where
  "retry_time p k = (if has_output p k then None else (case map_option ap_status (latest_attempt p k) of
     Some (AttemptStatus_Failed _) \<Rightarrow> map_option rsp_scheduled_at (bt_get (p_pending_retries p) k)
   | _ \<Rightarrow> None))"

lemma eligibility_spec:
  assumes "newest_ok (p_attempts p) latest"
  shows "eligibility p latest k (has_output p k) = Inr (may_start p k, retry_time p k)"
  using newest_latest(2) [OF assms, of k]
  by (auto simp: eligibility_def may_start_def retry_time_def newest_latest(1) [OF assms] bt_contains_def
      split: option.splits attempt_status.splits)

lemma may_start_permits:
  "\<not> has_output p k \<Longrightarrow> attempt_permits p now k (latest_attempt p k)
    \<longleftrightarrow> may_start p k \<and> is_none_or (retry_time p k) (\<lambda>deadline. deadline \<le> now)"
  by (auto simp: attempt_permits_def may_start_def retry_time_def bt_contains_def is_some_and_iff
      is_none_or_iff split: option.splits attempt_status.splits)

section \<open>The invariant\<close>

abbreviation node_key :: "frontier \<Rightarrow> nat \<Rightarrow> string" where
  "node_key f i \<equiv> nd_id (gr_nodes (wd_graph (fr_definition f)) ! i)"

abbreviation node_count :: "frontier \<Rightarrow> nat" where
  "node_count f \<equiv> length (gr_nodes (wd_graph (fr_definition f)))"

definition tables_ok :: "compiled_workflow_definition \<Rightarrow> (string, nat) btree \<Rightarrow> nat list list \<Rightarrow> bool" where
  "tables_ok workflow ids outgoing \<longleftrightarrow>
    (let nodes = gr_nodes (wd_graph workflow); n = length nodes in
     distinct (map nd_id nodes)
     \<and> (\<forall>k i. bt_get ids k = Some i \<longleftrightarrow> i < n \<and> nd_id (nodes ! i) = k)
     \<and> (\<forall>edge \<in> set (gr_edges (wd_graph workflow)). bt_contains ids (ed_from edge) \<and> bt_contains ids (ed_to edge))
     \<and> length outgoing = n
     \<and> (\<forall>i < n. set (outgoing ! i) = {j. j < n \<and> (nd_id (nodes ! i), nd_id (nodes ! j)) \<in> graph_edges workflow}))"

definition frontier_static :: "frontier \<Rightarrow> bool" where
  "frontier_static f \<longleftrightarrow>
    frontier_supports (fr_definition f) \<and> tables_ok (fr_definition f) (fr_ids f) (fr_outgoing f)
    \<and> length (fr_active f) = node_count f
    \<and> (\<forall>i < node_count f. fr_active f ! i \<longleftrightarrow>
        (\<exists>x \<in> set (gr_entry_node_ids (wd_graph (fr_definition f))).
          (x, node_key f i) \<in> (graph_edges (fr_definition f))\<^sup>*))"

definition frontier_counts :: "frontier \<Rightarrow> bool" where
  "frontier_counts f \<longleftrightarrow>
    length (fr_complete f) = node_count f \<and> length (fr_remaining f) = node_count f
    \<and> length (fr_eligible f) = node_count f \<and> length (fr_retry_at f) = node_count f
    \<and> (\<forall>j < node_count f. fr_remaining f ! j = pending_count (fr_outgoing f) (fr_active f) (fr_complete f) j)"

definition is_candidate :: "frontier \<Rightarrow> nat \<Rightarrow> bool" where
  "is_candidate f i \<longleftrightarrow> i < node_count f \<and> fr_active f ! i \<and> fr_remaining f ! i = 0 \<and> fr_eligible f ! i"

definition candidates_but :: "nat set \<Rightarrow> frontier \<Rightarrow> bool" where
  "candidates_but S f \<longleftrightarrow> fr_candidates f \<subseteq> {..< node_count f}
    \<and> (\<forall>i. i \<notin> S \<longrightarrow> (i \<in> fr_candidates f \<longleftrightarrow> is_candidate f i))"

definition tracks :: "frontier \<Rightarrow> run_projection \<Rightarrow> nat \<Rightarrow> bool" where
  "tracks f p i \<longleftrightarrow> fr_complete f ! i = has_output p (node_key f i)
    \<and> fr_eligible f ! i = may_start p (node_key f i) \<and> fr_retry_at f ! i = retry_time p (node_key f i)"

definition frontier_ok :: "frontier \<Rightarrow> run_projection \<Rightarrow> bool" where
  "frontier_ok f p \<longleftrightarrow> frontier_static f \<and> frontier_counts f \<and> candidates_but {} f
    \<and> (\<forall>i < node_count f. tracks f p i)"

lemma tables_range:
  "tables_ok workflow ids outgoing \<Longrightarrow> i < length outgoing \<Longrightarrow> set (outgoing ! i) \<subseteq> {..< length outgoing}"
  by (auto simp: tables_ok_def Let_def)

subsection \<open>Refreshing a node\<close>

lemma refresh_ok:
  assumes "frontier_static f" "frontier_counts f" "candidates_but {index} f" "index < node_count f"
    and "newest_ok (p_attempts p) latest" "fr_complete f ! index = has_output p (node_key f index)"
  obtains f' where "frontier_refresh index p latest f = Inr f'" "frontier_static f'" "frontier_counts f'"
    "candidates_but {} f'" "tracks f' p index" "\<And>i. i \<noteq> index \<Longrightarrow> tracks f' p i = tracks f p i"
    "fr_definition f' = fr_definition f" "fr_complete f' = fr_complete f"
proof -
  define f' where "f' = f\<lparr>fr_retry_at := (fr_retry_at f)[index := retry_time p (node_key f index)],
      fr_eligible := (fr_eligible f)[index := may_start p (node_key f index)],
      fr_candidates := (if fr_active f ! index \<and> fr_remaining f ! index = 0 \<and> may_start p (node_key f index)
        then insert index (fr_candidates f) else fr_candidates f - {index})\<rparr>"
  have "frontier_refresh index p latest f = Inr f'"
    using eligibility_spec [OF assms(5)] assms(6) by (simp add: frontier_refresh_def f'_def)
  moreover have "frontier_static f'" "frontier_counts f'"
    using assms(1,2) by (simp_all add: f'_def frontier_static_def frontier_counts_def)
  moreover have len: "length (fr_eligible f) = node_count f" "length (fr_retry_at f) = node_count f"
    using assms(2) by (simp_all add: frontier_counts_def)
  moreover have "candidates_but {} f'"
    using assms(3,4) len by (auto simp: candidates_but_def is_candidate_def f'_def nth_list_update)
  moreover have "tracks f' p index" "\<And>i. i \<noteq> index \<Longrightarrow> tracks f' p i = tracks f p i"
    using assms(4,6) len by (simp_all add: tracks_def f'_def)
  ultimately show ?thesis by (intro that [of f']) (simp_all add: f'_def)
qed

lemma refresh_all_ok:
  assumes "frontier_static f" "frontier_counts f" "candidates_but {} f" "set indexes \<subseteq> {..< node_count f}"
    and "newest_ok (p_attempts p) latest"
    and "\<And>i. i < node_count f \<Longrightarrow> fr_complete f ! i = has_output p (node_key f i)"
  shows "\<exists>f'. refresh_all indexes p latest f = Inr f' \<and> frontier_static f' \<and> frontier_counts f'
    \<and> candidates_but {} f' \<and> (\<forall>i. i \<in> set indexes \<or> tracks f p i \<longrightarrow> tracks f' p i)
    \<and> fr_definition f' = fr_definition f"
  using assms
proof (induction indexes arbitrary: f)
  case (Cons index indexes)
  have "candidates_but {index} f" using Cons.prems(3) by (simp add: candidates_but_def)
  moreover have "index < node_count f" using Cons.prems(4) by simp
  ultimately obtain f1 where f1: "frontier_refresh index p latest f = Inr f1" "frontier_static f1"
    "frontier_counts f1" "candidates_but {} f1" "tracks f1 p index"
    "\<And>i. i \<noteq> index \<Longrightarrow> tracks f1 p i = tracks f p i"
    "fr_definition f1 = fr_definition f" "fr_complete f1 = fr_complete f"
    using refresh_ok Cons.prems by metis
  have "\<exists>f'. refresh_all indexes p latest f1 = Inr f' \<and> frontier_static f' \<and> frontier_counts f'
    \<and> candidates_but {} f' \<and> (\<forall>i. i \<in> set indexes \<or> tracks f1 p i \<longrightarrow> tracks f' p i)
    \<and> fr_definition f' = fr_definition f1"
    using Cons.prems f1 by (intro Cons.IH) simp_all
  then show ?case using f1 by auto metis
qed auto

subsection \<open>Construction\<close>

lemma link_tables:
  assumes ids: "ids = frontier_ids (gr_nodes (wd_graph workflow))"
    and n: "n = length (gr_nodes (wd_graph workflow))"
    and "length (bt_entries ids) = n"
    and link: "link_edges ids (gr_edges (wd_graph workflow)) (replicate n []) (replicate n 0) = Some (outgoing, indegree)"
  shows "tables_ok workflow ids outgoing" "length indegree = n"
    "j < n \<Longrightarrow> indegree ! j = (\<Sum>i < n. count_list (outgoing ! i) j)"
proof -
  let ?edges = "gr_edges (wd_graph workflow)" and ?nodes = "gr_nodes (wd_graph workflow)"
  have distinct: "distinct (map nd_id ?nodes)"
    using frontier_ids_distinct assms(3) by (simp add: ids n)
  have get: "bt_get ids k = Some i \<longleftrightarrow> i < n \<and> nd_id (?nodes ! i) = k" for k i
    using frontier_ids_iff [OF distinct] by (simp add: ids n)
  have len: "length outgoing = n" "length indegree = n"
    using link_edges_length [OF link] by simp_all
  have out: "outgoing ! i = map (\<lambda>edge. the (bt_get ids (ed_to edge)))
      (filter (\<lambda>edge. bt_get ids (ed_from edge) = Some i) ?edges)" if "i < n" for i
    using link_edges_outgoing [OF link, of i] that get by simp
  have known: "\<exists>i j. bt_get ids (ed_from edge) = Some i \<and> i < n \<and> bt_get ids (ed_to edge) = Some j \<and> j < n"
    if "edge \<in> set ?edges" for edge
    using link_edges_known [OF link that] get by blast
  have "j \<in> set (outgoing ! i) \<longleftrightarrow> j < n \<and> (nd_id (?nodes ! i), nd_id (?nodes ! j)) \<in> graph_edges workflow"
    if i: "i < n" for i j
  proof -
    have "j \<in> set (outgoing ! i) \<longleftrightarrow>
        (\<exists>edge \<in> set ?edges. bt_get ids (ed_from edge) = Some i \<and> bt_get ids (ed_to edge) = Some j)"
    proof
      assume "j \<in> set (outgoing ! i)"
      then obtain edge where "edge \<in> set ?edges" "bt_get ids (ed_from edge) = Some i" "j = the (bt_get ids (ed_to edge))"
        by (auto simp: out [OF i])
      then show "\<exists>edge \<in> set ?edges. bt_get ids (ed_from edge) = Some i \<and> bt_get ids (ed_to edge) = Some j"
        using known by fastforce
    next
      assume "\<exists>edge \<in> set ?edges. bt_get ids (ed_from edge) = Some i \<and> bt_get ids (ed_to edge) = Some j"
      then show "j \<in> set (outgoing ! i)" by (force simp: out [OF i])
    qed
    also have "\<dots> \<longleftrightarrow> j < n \<and> (nd_id (?nodes ! i), nd_id (?nodes ! j)) \<in> graph_edges workflow"
      using i by (auto simp: get graph_edges_def image_iff)
    finally show ?thesis .
  qed
  then have sets: "set (outgoing ! i) = {j. j < n \<and> (nd_id (?nodes ! i), nd_id (?nodes ! j)) \<in> graph_edges workflow}"
    if "i < n" for i
    using that by auto
  have contains: "bt_contains ids (ed_from edge) \<and> bt_contains ids (ed_to edge)" if "edge \<in> set ?edges" for edge
    using known [OF that] by (auto simp: bt_contains_def)
  show "tables_ok workflow ids outgoing"
    unfolding tables_ok_def Let_def n [symmetric] using distinct get len(1) sets contains by simp
  show "length indegree = n" by (rule len)
  assume j: "j < n"
  have "indegree ! j = length (filter (\<lambda>edge. bt_get ids (ed_to edge) = Some j) ?edges)"
    using link_edges_indegree [OF link, of j] j get by simp
  also have "\<dots> = (\<Sum>i < n. count_list (map (\<lambda>edge. the (bt_get ids (ed_to edge)))
      (filter (\<lambda>edge. bt_get ids (ed_from edge) = Some i) ?edges)) j)"
    by (rule sum_count_filter [symmetric]) (use known in blast)
  also have "\<dots> = (\<Sum>i < n. count_list (outgoing ! i) j)"
    by (rule sum.cong) (simp_all add: out)
  finally show "indegree ! j = (\<Sum>i < n. count_list (outgoing ! i) j)" .
qed

lemma topological_start:
  assumes "length indegree = length outgoing"
    and "\<And>j. j < length outgoing \<Longrightarrow> indegree ! j = (\<Sum>i < length outgoing. count_list (outgoing ! i) j)"
  shows "topological_inv outgoing indegree (filter (\<lambda>i. indegree ! i = 0) [0 ..< length outgoing]) {}"
  using assms by (auto simp: topological_inv_def Let_def)

lemma tables_target:
  assumes "tables_ok workflow ids outgoing" "(y, z) \<in> graph_edges workflow"
  obtains j where "j < length outgoing" "nd_id (gr_nodes (wd_graph workflow) ! j) = z"
proof -
  obtain edge where "edge \<in> set (gr_edges (wd_graph workflow))" "ed_to edge = z"
    using assms(2) by (auto simp: graph_edges_def)
  then have "bt_contains ids z" using assms(1) by (auto simp: tables_ok_def Let_def)
  then obtain j where "bt_get ids z = Some j" by (auto simp: bt_contains_def)
  then show ?thesis using that [of j] assms(1) by (simp add: tables_ok_def Let_def)
qed

lemma reach_ordinals:
  assumes tables: "tables_ok workflow ids outgoing"
    and "x < length outgoing" "i < length outgoing"
    and key: "key = (\<lambda>i. nd_id (gr_nodes (wd_graph workflow) ! i))"
  shows "(x, i) \<in> {(a, b). b \<in> set (outgoing ! a)}\<^sup>* \<longleftrightarrow> (key x, key i) \<in> (graph_edges workflow)\<^sup>*"
proof
  have out: "j \<in> set (outgoing ! i) \<longleftrightarrow> j < length outgoing \<and> (key i, key j) \<in> graph_edges workflow"
    if "i < length outgoing" for i j
    using tables that by (auto simp: tables_ok_def Let_def key)
  show "(key x, key i) \<in> (graph_edges workflow)\<^sup>*" if "(x, i) \<in> {(a, b). b \<in> set (outgoing ! a)}\<^sup>*"
  proof -
    have "(key x, key i) \<in> (graph_edges workflow)\<^sup>* \<and> i < length outgoing"
      using that assms(2) by induction (auto simp: out intro: rtrancl_into_rtrancl)
    then show ?thesis ..
  qed
  assume "(key x, key i) \<in> (graph_edges workflow)\<^sup>*"
  then have "\<exists>j < length outgoing. key j = key i \<and> (x, j) \<in> {(a, b). b \<in> set (outgoing ! a)}\<^sup>*"
  proof induction
    case base
    then show ?case using assms(2) by blast
  next
    case (step y z)
    then obtain j where j: "j < length outgoing" "key j = y" "(x, j) \<in> {(a, b). b \<in> set (outgoing ! a)}\<^sup>*"
      by blast
    obtain j' where j': "j' < length outgoing" "key j' = z"
      using tables_target [OF tables step(2)] by (auto simp: key)
    then have "j' \<in> set (outgoing ! j)" using out [OF j(1)] step(2) j(2) by simp
    then have "(x, j') \<in> {(a, b). b \<in> set (outgoing ! a)}\<^sup>*"
      using j(3) by (auto intro: rtrancl_into_rtrancl)
    then show ?case using j' by blast
  qed
  then obtain j where j: "j < length outgoing" "key j = key i" "(x, j) \<in> {(a, b). b \<in> set (outgoing ! a)}\<^sup>*"
    by blast
  have "distinct (map nd_id (gr_nodes (wd_graph workflow)))" "length outgoing = length (gr_nodes (wd_graph workflow))"
    using tables by (simp_all add: tables_ok_def Let_def)
  then have "j = i"
    using j(1,2) assms(3) nth_eq_iff_index_eq [of "map nd_id (gr_nodes (wd_graph workflow))" j i] by (simp add: key)
  then show "(x, i) \<in> {(a, b). b \<in> set (outgoing ! a)}\<^sup>*" using j(3) by simp
qed

lemma entry_ordinals_spec:
  "entry_ordinals ids entries = Some queue \<Longrightarrow>
    (\<forall>entry \<in> set entries. bt_contains ids entry) \<and> set queue = {i. \<exists>entry \<in> set entries. bt_get ids entry = Some i}"
  by (induction entries arbitrary: queue) (auto simp: bind_eq_Some_conv bt_contains_def)

lemma active_ok:
  assumes tables: "tables_ok workflow ids outgoing"
    and queue: "entry_ordinals ids (gr_entry_node_ids (wd_graph workflow)) = Some queue"
  obtains active where "spread outgoing queue (replicate (length outgoing) False) = Inr active"
    "length active = length outgoing"
    "\<And>i. i < length outgoing \<Longrightarrow> active ! i \<longleftrightarrow>
      (\<exists>x \<in> set (gr_entry_node_ids (wd_graph workflow)).
        (x, nd_id (gr_nodes (wd_graph workflow) ! i)) \<in> (graph_edges workflow)\<^sup>*)"
proof -
  define key where "key i = nd_id (gr_nodes (wd_graph workflow) ! i)" for i
  note entries = entry_ordinals_spec [OF queue]
  have get: "bt_get ids k = Some i \<longleftrightarrow> i < length outgoing \<and> key i = k" for k i
    using tables by (simp add: tables_ok_def Let_def key_def)
  then have range: "set queue \<subseteq> {..< length outgoing}" using entries by auto
  obtain active where active: "spread outgoing queue (replicate (length outgoing) False) = Inr active"
    "length active = length outgoing"
    "\<forall>i < length outgoing. active ! i \<longleftrightarrow> (\<exists>x \<in> set queue. (x, i) \<in> {(a, b). b \<in> set (outgoing ! a)}\<^sup>*)"
    using spread_spec [OF range tables_range [OF tables]] by blast
  have "active ! i \<longleftrightarrow> (\<exists>x \<in> set (gr_entry_node_ids (wd_graph workflow)). (x, key i) \<in> (graph_edges workflow)\<^sup>*)"
    if i: "i < length outgoing" for i
  proof -
    have reach: "(x, i) \<in> {(a, b). b \<in> set (outgoing ! a)}\<^sup>* \<longleftrightarrow> (key x, key i) \<in> (graph_edges workflow)\<^sup>*"
      if "x \<in> set queue" for x
      using reach_ordinals [OF tables _ i, of x key] range that by (auto simp: key_def fun_eq_iff)
    have "active ! i \<longleftrightarrow> (\<exists>x \<in> set queue. (key x, key i) \<in> (graph_edges workflow)\<^sup>*)"
      using active(3) i reach by blast
    also have "\<dots> \<longleftrightarrow> (\<exists>x \<in> set (gr_entry_node_ids (wd_graph workflow)). (x, key i) \<in> (graph_edges workflow)\<^sup>*)"
      using entries get by (fastforce simp: bt_contains_def)
    finally show ?thesis .
  qed
  then show ?thesis using that active(1,2) by (simp add: key_def)
qed

lemma frontier_start_ok:
  assumes "tables_ok workflow ids outgoing" "frontier_supports workflow" "length active = length outgoing"
    and "\<And>i. i < length outgoing \<Longrightarrow> active ! i \<longleftrightarrow>
      (\<exists>x \<in> set (gr_entry_node_ids (wd_graph workflow)).
        (x, nd_id (gr_nodes (wd_graph workflow) ! i)) \<in> (graph_edges workflow)\<^sup>*)"
  shows "frontier_static (frontier_start workflow ids outgoing active p)"
    "frontier_counts (frontier_start workflow ids outgoing active p)"
    "candidates_but {} (frontier_start workflow ids outgoing active p)"
proof -
  have n: "length outgoing = length (gr_nodes (wd_graph workflow))"
    using assms(1) by (simp add: tables_ok_def Let_def)
  show "frontier_static (frontier_start workflow ids outgoing active p)"
    using assms n by (simp add: frontier_start_def Let_def frontier_static_def)
  show "frontier_counts (frontier_start workflow ids outgoing active p)"
    using remaining_counts_spec [OF tables_range [OF assms(1)]] n
    by (simp add: frontier_start_def Let_def frontier_counts_def)
  show "candidates_but {} (frontier_start workflow ids outgoing active p)"
    by (auto simp: frontier_start_def Let_def candidates_but_def is_candidate_def)
qed

lemma frontier_new_cases:
  assumes "newest_ok (p_attempts p) latest"
  shows "frontier_new workflow p latest = Inr None
    \<or> (\<exists>f. frontier_new workflow p latest = Inr (Some f) \<and> frontier_ok f p \<and> fr_definition f = workflow)"
proof -
  let ?nodes = "gr_nodes (wd_graph workflow)" and ?ids = "frontier_ids (gr_nodes (wd_graph workflow))"
  let ?n = "length ?nodes"
  show ?thesis
  proof (cases "frontier_supports workflow \<and> length (bt_entries ?ids) = ?n
      \<and> \<not> list_ex (\<lambda>id. \<not> bt_contains ?ids id) (bt_keys latest)
      \<and> (\<exists>outgoing indegree queue. link_edges ?ids (gr_edges (wd_graph workflow)) (replicate ?n []) (replicate ?n 0)
          = Some (outgoing, indegree)
        \<and> entry_ordinals ?ids (gr_entry_node_ids (wd_graph workflow)) = Some queue)")
    case False
    have total: "is_ok (topological_count outgoing indegree (filter (\<lambda>i. indegree ! i = 0) [0 ..< ?n]) 0)"
      if "link_edges ?ids (gr_edges (wd_graph workflow)) (replicate ?n []) (replicate ?n 0) = Some (outgoing, indegree)"
        "length (bt_entries ?ids) = ?n" for outgoing indegree
      using link_tables [OF refl refl that(2,1)] topological_start [of indegree outgoing]
        topological_count_returns [OF _ tables_range] by (simp add: tables_ok_def Let_def)
    show ?thesis
      using False total
      by (auto simp: frontier_new_def Let_def is_ok_iff split: option.split)
  next
    case True
    then obtain outgoing indegree queue where
      link: "link_edges ?ids (gr_edges (wd_graph workflow)) (replicate ?n []) (replicate ?n 0) = Some (outgoing, indegree)"
      and queue: "entry_ordinals ?ids (gr_entry_node_ids (wd_graph workflow)) = Some queue"
      and ok: "frontier_supports workflow" "length (bt_entries ?ids) = ?n"
        "\<not> list_ex (\<lambda>id. \<not> bt_contains ?ids id) (bt_keys latest)"
      by blast
    note tables = link_tables [OF refl refl ok(2) link]
    have n: "length outgoing = ?n" using tables(1) by (simp add: tables_ok_def Let_def)
    obtain visited where visited:
      "topological_count outgoing indegree (filter (\<lambda>i. indegree ! i = 0) [0 ..< ?n]) 0 = Inr visited"
      using topological_count_returns [OF topological_start tables_range [OF tables(1)], of indegree 0] tables(2,3) n
      by (auto simp: is_ok_iff)
    obtain active where active: "spread outgoing queue (replicate (length outgoing) False) = Inr active"
      "length active = length outgoing"
      "\<And>i. i < length outgoing \<Longrightarrow> active ! i \<longleftrightarrow>
        (\<exists>x \<in> set (gr_entry_node_ids (wd_graph workflow)). (x, nd_id (?nodes ! i)) \<in> (graph_edges workflow)\<^sup>*)"
      using active_ok [OF tables(1) queue] by metis
    let ?f = "frontier_start workflow ?ids outgoing active p"
    have def: "fr_definition ?f = workflow" "\<And>i. i < ?n \<Longrightarrow> fr_complete ?f ! i = has_output p (nd_id (?nodes ! i))"
      by (simp_all add: frontier_start_def Let_def)
    obtain f where f: "refresh_all [0 ..< ?n] p latest ?f = Inr f" "frontier_static f" "frontier_counts f"
      "candidates_but {} f" "\<forall>i. i \<in> set [0 ..< ?n] \<or> tracks ?f p i \<longrightarrow> tracks f p i" "fr_definition f = workflow"
    proof -
      have "set [0 ..< ?n] \<subseteq> {..< node_count ?f}" unfolding def(1) by auto
      moreover have "fr_complete ?f ! i = has_output p (node_key ?f i)" if "i < node_count ?f" for i
        using that def by simp
      ultimately show ?thesis
        using that refresh_all_ok [OF frontier_start_ok [OF tables(1) ok(1) active(2,3)] _ assms] def(1) by metis
    qed
    have "frontier_ok f p" using f by (simp add: frontier_ok_def)
    then show ?thesis
      using f ok link queue visited active(1) n by (simp add: frontier_new_def Let_def)
  qed
qed

subsection \<open>Update\<close>

lemma complete_edges_spec:
  assumes "set nexts \<subseteq> {..< length (fr_remaining f)}"
    and "\<And>j. j < length (fr_remaining f) \<Longrightarrow> count_list nexts j \<le> fr_remaining f ! j"
  shows "\<exists>remaining candidates. complete_edges nexts f
      = Inr (f\<lparr>fr_remaining := remaining, fr_candidates := candidates\<rparr>)
    \<and> length remaining = length (fr_remaining f)
    \<and> (\<forall>j < length (fr_remaining f). fr_remaining f ! j = remaining ! j + count_list nexts j)
    \<and> candidates = fr_candidates f \<union> {j \<in> set nexts. remaining ! j = 0 \<and> fr_active f ! j \<and> fr_eligible f ! j}"
  using assms
proof (induction nexts arbitrary: f)
  case Nil
  then show ?case by (intro exI [of _ "fr_remaining f"] exI [of _ "fr_candidates f"]) simp
next
  case (Cons x nexts)
  have x: "x < length (fr_remaining f)" "fr_remaining f ! x \<noteq> 0" "count_list nexts x \<le> fr_remaining f ! x - 1"
    using Cons.prems(1) Cons.prems(2) [of x] by simp_all
  define f1 where "f1 = f\<lparr>fr_remaining := (fr_remaining f)[x := fr_remaining f ! x - 1],
      fr_candidates := (if fr_remaining f ! x - 1 = 0 \<and> fr_active f ! x \<and> fr_eligible f ! x
        then insert x (fr_candidates f) else fr_candidates f)\<rparr>"
  have step: "complete_edges (x # nexts) f = complete_edges nexts f1"
    using x by (auto simp: f1_def Let_def)
  have "count_list nexts j \<le> fr_remaining f1 ! j" if "j < length (fr_remaining f1)" for j
    using Cons.prems(2) [of j] x that by (auto simp: f1_def nth_list_update split: if_splits)
  moreover have "set nexts \<subseteq> {..< length (fr_remaining f1)}" using Cons.prems(1) by (simp add: f1_def)
  ultimately obtain remaining candidates where rest:
    "complete_edges nexts f1 = Inr (f1\<lparr>fr_remaining := remaining, fr_candidates := candidates\<rparr>)"
    "length remaining = length (fr_remaining f1)"
    "\<forall>j < length (fr_remaining f1). fr_remaining f1 ! j = remaining ! j + count_list nexts j"
    "candidates = fr_candidates f1 \<union> {j \<in> set nexts. remaining ! j = 0 \<and> fr_active f1 ! j \<and> fr_eligible f1 ! j}"
    using Cons.IH by blast
  have sum: "fr_remaining f ! j = remaining ! j + count_list (x # nexts) j" if "j < length (fr_remaining f)" for j
    using rest(3) [rule_format, of j] that x by (auto simp: f1_def nth_list_update split: if_splits)
  have "fr_remaining f ! x - 1 = 0 \<longleftrightarrow> remaining ! x = 0 \<and> x \<notin> set nexts"
    using sum [OF x(1)] by (auto simp: count_list_0_iff)
  then have "candidates = fr_candidates f
      \<union> {j \<in> set (x # nexts). remaining ! j = 0 \<and> fr_active f ! j \<and> fr_eligible f ! j}"
    using rest(4) by (auto simp: f1_def)
  moreover have "f1\<lparr>fr_remaining := remaining, fr_candidates := candidates\<rparr>
      = f\<lparr>fr_remaining := remaining, fr_candidates := candidates\<rparr>"
    by (simp add: f1_def)
  ultimately show ?case using rest(1,2) sum step by (auto simp: f1_def)
qed

text \<open>Marking a node complete keeps the counts; the candidates may be wrong at the node
  itself, which the refresh that follows corrects.\<close>

lemma mark_complete:
  assumes "frontier_static f" "frontier_counts f" "candidates_but {} f"
    and index: "index < node_count f" "\<not> fr_complete f ! index"
    and f1: "f1 = f\<lparr>fr_complete := (fr_complete f)[index := True]\<rparr>"
  obtains f2 where
    "(if fr_active f1 ! index then complete_edges (fr_outgoing f1 ! index) f1 else Inr f1) = Inr f2"
    "frontier_static f2" "frontier_counts f2" "candidates_but {index} f2" "fr_definition f2 = fr_definition f"
    "fr_complete f2 = (fr_complete f)[index := True]" "\<And>i p. i \<noteq> index \<Longrightarrow> tracks f2 p i = tracks f p i"
proof -
  have tables: "tables_ok (fr_definition f) (fr_ids f) (fr_outgoing f)"
    using assms(1) by (simp add: frontier_static_def)
  then have n: "length (fr_outgoing f) = node_count f" by (simp add: tables_ok_def Let_def)
  have count: "fr_remaining f ! j = pending_count (fr_outgoing f) (fr_active f) ((fr_complete f)[index := True]) j
      + (if fr_active f ! index then count_list (fr_outgoing f ! index) j else 0)" if "j < node_count f" for j
    using pending_count_complete [of index "fr_outgoing f" "fr_complete f" "fr_active f" j] assms(2) index n that
    by (simp add: frontier_counts_def)
  have len: "length (fr_remaining f) = node_count f" "length (fr_complete f) = node_count f"
    "length (fr_eligible f) = node_count f" "length (fr_retry_at f) = node_count f"
    using assms(2) by (simp_all add: frontier_counts_def)
  show ?thesis
  proof (cases "fr_active f ! index")
    case False
    have "frontier_static f1" using assms(1) by (simp add: f1 frontier_static_def)
    moreover have "frontier_counts f1" using len count False by (simp add: f1 frontier_counts_def)
    moreover have "candidates_but {index} f1"
      using assms(3) by (simp add: f1 candidates_but_def is_candidate_def)
    moreover have "tracks f1 p i = tracks f p i" if "i \<noteq> index" for i p
      using that by (simp add: f1 tracks_def)
    ultimately show ?thesis using False by (intro that [of f1]) (simp_all add: f1)
  next
    case True
    let ?nexts = "fr_outgoing f ! index"
    have range: "set ?nexts \<subseteq> {..< length (fr_remaining f1)}"
      using tables_range [OF tables, of index] index n len by (simp add: f1)
    have le: "count_list ?nexts j \<le> fr_remaining f1 ! j" if "j < length (fr_remaining f1)" for j
      using count that True len by (simp add: f1)
    from complete_edges_spec [OF range le] obtain remaining candidates where c:
      "complete_edges ?nexts f1 = Inr (f1\<lparr>fr_remaining := remaining, fr_candidates := candidates\<rparr>)"
      "length remaining = length (fr_remaining f1)"
      "\<forall>j < length (fr_remaining f1). fr_remaining f1 ! j = remaining ! j + count_list ?nexts j"
      "candidates = fr_candidates f1 \<union> {j \<in> set ?nexts. remaining ! j = 0 \<and> fr_active f1 ! j \<and> fr_eligible f1 ! j}"
      by blast
    define f2 where "f2 = f1\<lparr>fr_remaining := remaining, fr_candidates := candidates\<rparr>"
    have remaining: "remaining ! j = pending_count (fr_outgoing f) (fr_active f) ((fr_complete f)[index := True]) j"
      "fr_remaining f ! j = remaining ! j + count_list ?nexts j" if "j < node_count f" for j
      using count [OF that] c(3) that len True by (simp_all add: f1)
    have "frontier_static f2" using assms(1) by (simp add: f2_def f1 frontier_static_def)
    moreover have "frontier_counts f2"
      using len c(2) remaining(1) by (simp add: f2_def f1 frontier_counts_def)
    moreover have "candidates_but {index} f2"
    proof -
      have old: "i \<in> fr_candidates f \<longleftrightarrow> is_candidate f i" for i
        using assms(3) by (simp add: candidates_but_def)
      have new: "i \<in> candidates \<longleftrightarrow> i \<in> fr_candidates f
          \<or> i \<in> set ?nexts \<and> remaining ! i = 0 \<and> fr_active f ! i \<and> fr_eligible f ! i" for i
        using c(4) by (simp add: f1)
      have "i \<in> candidates \<longleftrightarrow> i < node_count f \<and> fr_active f ! i \<and> remaining ! i = 0 \<and> fr_eligible f ! i" for i
      proof (cases "i < node_count f")
        case True
        show ?thesis
          using remaining(2) [OF True] True by (auto simp: new old is_candidate_def count_list_0_iff)
      next
        case False
        then show ?thesis using range len by (auto simp: new old is_candidate_def f1)
      qed
      then show ?thesis by (auto simp: candidates_but_def is_candidate_def f2_def f1)
    qed
    moreover have "tracks f2 p i = tracks f p i" if "i \<noteq> index" for i p
      using that by (simp add: f2_def f1 tracks_def)
    ultimately show ?thesis
      using True c(1) by (intro that [of f2]) (simp_all add: f2_def f1)
  qed
qed

text \<open>The projections before and after an event agree on all nodes but one.\<close>

definition same_but :: "string \<Rightarrow> run_projection \<Rightarrow> run_projection \<Rightarrow> bool" where
  "same_but node p q \<longleftrightarrow> (\<forall>k. k \<noteq> node \<longrightarrow>
    has_output q k = has_output p k \<and> may_start q k = may_start p k \<and> retry_time q k = retry_time p k)"

lemma update_ok:
  assumes ok: "frontier_ok f p" and same: "same_but node p q" and "newest_ok (p_attempts q) latest"
  shows "frontier_update node q latest f = Inr None
    \<or> (\<exists>f'. frontier_update node q latest f = Inr (Some f') \<and> frontier_ok f' q \<and> fr_definition f' = fr_definition f)"
proof (cases "bt_get (fr_ids f) node")
  case None
  then show ?thesis by (simp add: frontier_update_def)
next
  case (Some index)
  note inv = ok [unfolded frontier_ok_def, THEN conjunct1] ok [unfolded frontier_ok_def, THEN conjunct2, THEN conjunct1]
    ok [unfolded frontier_ok_def, THEN conjunct2, THEN conjunct2, THEN conjunct1]
  have get: "bt_get (fr_ids f) k = Some i \<longleftrightarrow> i < node_count f \<and> node_key f i = k" for k i
    using inv(1) by (simp add: frontier_static_def tables_ok_def Let_def)
  then have index: "index < node_count f" "node_key f index = node" using Some by simp_all
  have other: "tracks f q i" if "i < node_count f" "i \<noteq> index" for i
  proof -
    have "node_key f i \<noteq> node" using get [of node] Some that by fastforce
    then show ?thesis using ok same that by (simp add: frontier_ok_def tracks_def same_but_def)
  qed
  have finish: "\<exists>f'. frontier_refresh index q latest f2 = Inr f' \<and> frontier_ok f' q \<and> fr_definition f' = fr_definition f"
    if f2: "frontier_static f2" "frontier_counts f2" "candidates_but {index} f2" "fr_definition f2 = fr_definition f"
      "fr_complete f2 ! index = has_output q node" "\<And>i. i \<noteq> index \<Longrightarrow> tracks f2 q i = tracks f q i" for f2
  proof -
    have "index < node_count f2" "fr_complete f2 ! index = has_output q (node_key f2 index)"
      using index f2(4,5) by simp_all
    then obtain f' where f': "frontier_refresh index q latest f2 = Inr f'" "frontier_static f'" "frontier_counts f'"
      "candidates_but {} f'" "tracks f' q index" "\<And>i. i \<noteq> index \<Longrightarrow> tracks f' q i = tracks f2 q i"
      "fr_definition f' = fr_definition f2"
      by (rule refresh_ok [OF f2(1-3) _ assms(3)]) blast
    have "tracks f' q i" if "i < node_count f'" for i
      using that f'(5,6,7) f2(4,6) other by (cases "i = index") simp_all
    then show ?thesis using f' f2(4) by (auto simp: frontier_ok_def)
  qed
  consider "has_output q node = fr_complete f ! index" | "\<not> has_output q node" "fr_complete f ! index"
    | "has_output q node" "\<not> fr_complete f ! index" by blast
  then show ?thesis
  proof cases
    case 1
    have "candidates_but {index} f" using inv(3) by (simp add: candidates_but_def)
    then obtain f' where "frontier_refresh index q latest f = Inr f'" "frontier_ok f' q" "fr_definition f' = fr_definition f"
      using finish [of f] inv 1 by auto
    then show ?thesis using Some 1 by (simp add: frontier_update_def Let_def)
  next
    case 2
    then show ?thesis using Some by (simp add: frontier_update_def)
  next
    case 3
    define f1 where "f1 = f\<lparr>fr_complete := (fr_complete f)[index := True]\<rparr>"
    obtain f2 where f2:
      "(if fr_active f1 ! index then complete_edges (fr_outgoing f1 ! index) f1 else Inr f1) = Inr f2"
      "frontier_static f2" "frontier_counts f2" "candidates_but {index} f2" "fr_definition f2 = fr_definition f"
      "fr_complete f2 = (fr_complete f)[index := True]" "\<And>i p. i \<noteq> index \<Longrightarrow> tracks f2 p i = tracks f p i"
      by (rule mark_complete [OF inv index(1) 3(2) f1_def]) blast
    moreover have "fr_complete f2 ! index = has_output q node"
      using 3 f2(6) inv(2) index by (simp add: frontier_counts_def)
    ultimately obtain f' where "frontier_refresh index q latest f2 = Inr f'" "frontier_ok f' q"
      "fr_definition f' = fr_definition f"
      using finish [of f2] by blast
    moreover have "frontier_update node q latest f =
        and_then (if fr_active f1 ! index then complete_edges (fr_outgoing f1 ! index) f1 else Inr f1)
          (\<lambda>f'. and_then (frontier_refresh index q latest f') (\<lambda>f''. Inr (Some f'')))"
      using Some 3 by (simp add: frontier_update_def Let_def f1_def)
    ultimately show ?thesis by (simp add: f2(1))
  qed
qed

section \<open>The frontier answers the full query\<close>

lemma supported_edge_active:
  assumes "frontier_supports workflow" "p_choice_selections p = bt_empty"
    and "edge \<in> set (gr_edges (wd_graph workflow))"
  shows "edge_is_active edge p"
  using assms by (auto simp: frontier_supports_def Let_def list_all_iff edge_is_active_def)

lemma supported_active_edges:
  assumes "frontier_supports workflow" "p_choice_selections p = bt_empty"
  shows "active_edges workflow p = graph_edges workflow"
  using supported_edge_active [OF assms] by (auto simp: active_edges_def graph_edges_def)

lemma script_complete:
  "nd_handler node = ''runtime.script'' \<Longrightarrow>
    node_is_complete (Suc fuel) workflow graph p node = Inr (has_output p (nd_id node))"
  by (simp add: node_is_complete.simps(2))

lemma supported_handler:
  "frontier_supports workflow \<Longrightarrow> node \<in> set (gr_nodes (wd_graph workflow)) \<Longrightarrow> nd_handler node = ''runtime.script''"
  by (simp add: frontier_supports_def Let_def list_all_iff)

lemma contains_key:
  assumes "frontier_static f" "i < node_count f"
  shows "frontier_contains f (node_key f i) now \<longleftrightarrow> i \<in> fr_candidates f \<and> frontier_due f now i"
proof -
  have "bt_get (fr_ids f) (node_key f i) = Some i"
    using assms by (simp add: frontier_static_def tables_ok_def Let_def)
  then show ?thesis by (simp add: frontier_contains_def)
qed

context definition_index
begin

lemma supported_complete:
  assumes "frontier_supports workflow" "node \<in> set (gr_nodes (wd_graph workflow))"
  shows "graph_complete g p node = Inr (has_output p (nd_id node))"
proof -
  have "complete_fuel workflow = Suc (Suc (length (gr_nodes (wd_graph workflow))))"
    by (simp add: complete_fuel_def)
  then show ?thesis
    using script_complete [OF supported_handler [OF assms]] by (simp only: graph_complete_index)
qed

lemma supported_predecessors:
  assumes ok: "frontier_ok f p" and f: "fr_definition f = workflow" and i: "i < node_count f"
    and choices: "p_choice_selections p = bt_empty"
    and active: "active = active_node_ids g p"
  shows "try_all (\<lambda>edge. case graph_node g (ed_from edge) of
        None \<Rightarrow> Inr False | Some predecessor \<Rightarrow> graph_complete g p predecessor)
      (filter (\<lambda>edge. ed_from edge \<in> active \<and> edge_is_active edge p) (graph_incoming g (node_key f i)))
    = Inr (fr_remaining f ! i = 0)"
proof -
  have supports: "frontier_supports workflow" and tables: "tables_ok workflow (fr_ids f) (fr_outgoing f)"
    using ok f by (simp_all add: frontier_ok_def frontier_static_def)
  have get: "bt_get (fr_ids f) k = Some j \<longleftrightarrow> j < node_count f \<and> node_key f j = k" for k j
    using tables f by (simp add: tables_ok_def Let_def)
  have reached: "node_key f j \<in> active \<longleftrightarrow> fr_active f ! j" if "j < node_count f" for j
    using ok that supported_active_edges [OF supports choices]
    by (simp add: active active_node_ids_reachable frontier_ok_def frontier_static_def f)
  let ?edges = "filter (\<lambda>edge. ed_from edge \<in> active \<and> edge_is_active edge p) (graph_incoming g (node_key f i))"
  have source: "\<exists>j < node_count f. node_key f j = ed_from edge" if "edge \<in> set (gr_edges (wd_graph workflow))" for edge
    using tables that get by (auto simp: tables_ok_def Let_def bt_contains_def f)
  have "(case graph_node g (ed_from edge) of None \<Rightarrow> Inr False | Some m \<Rightarrow> graph_complete g p m)
      = Inr (has_output p (ed_from edge))" if edge: "edge \<in> set ?edges" for edge
  proof -
    obtain j where j: "j < node_count f" "node_key f j = ed_from edge"
      using source edge by (auto simp: incoming_edges)
    then have "wf_node workflow (ed_from edge) \<noteq> None" by (auto simp: wf_node_def find_None_iff f intro: nth_mem)
    then obtain m where m: "wf_node workflow (ed_from edge) = Some m" by blast
    show ?thesis
      using supported_complete [OF supports wf_node_Some(1) [OF m]] wf_node_Some(2) [OF m] m
      by (simp add: node_first)
  qed
  then have "try_all (\<lambda>edge. case graph_node g (ed_from edge) of None \<Rightarrow> Inr False | Some m \<Rightarrow> graph_complete g p m) ?edges
      = Inr (list_all (\<lambda>edge. has_output p (ed_from edge)) ?edges)"
    by (rule try_total(2))
  also have "list_all (\<lambda>edge. has_output p (ed_from edge)) ?edges \<longleftrightarrow>
      (\<forall>j < node_count f. fr_active f ! j \<and> (node_key f j, node_key f i) \<in> graph_edges workflow
        \<longrightarrow> has_output p (node_key f j))"
  proof
    assume l: "list_all (\<lambda>edge. has_output p (ed_from edge)) ?edges"
    show "\<forall>j < node_count f. fr_active f ! j \<and> (node_key f j, node_key f i) \<in> graph_edges workflow
        \<longrightarrow> has_output p (node_key f j)"
    proof (intro allI impI)
      fix j
      assume j: "j < node_count f" "fr_active f ! j \<and> (node_key f j, node_key f i) \<in> graph_edges workflow"
      then obtain edge where edge: "edge \<in> set (gr_edges (wd_graph workflow))" "node_key f j = ed_from edge"
        "node_key f i = ed_to edge"
        by (auto simp: graph_edges_def)
      then have "ed_from edge \<in> active" using reached [OF j(1)] j(2) by simp
      then have "edge \<in> set ?edges"
        using edge supported_edge_active [OF supports choices edge(1)] by (simp add: incoming_edges)
      then show "has_output p (node_key f j)" using l edge(2) by (simp add: list_all_iff)
    qed
  next
    assume h: "\<forall>j < node_count f. fr_active f ! j \<and> (node_key f j, node_key f i) \<in> graph_edges workflow
        \<longrightarrow> has_output p (node_key f j)"
    show "list_all (\<lambda>edge. has_output p (ed_from edge)) ?edges"
      unfolding list_all_iff
    proof
      fix edge
      assume "edge \<in> set ?edges"
      then have edge: "edge \<in> set (gr_edges (wd_graph workflow))" "ed_to edge = node_key f i" "ed_from edge \<in> active"
        by (simp_all add: incoming_edges)
      obtain j where j: "j < node_count f" "node_key f j = ed_from edge" using source [OF edge(1)] by blast
      then have "fr_active f ! j" using reached [OF j(1)] edge(3) by simp
      then show "has_output p (ed_from edge)" using h j graph_edgesI [OF edge(1,2)] by metis
    qed
  qed
  also have "\<dots> \<longleftrightarrow> fr_remaining f ! i = 0"
  proof -
    have "fr_remaining f ! i = pending_count (fr_outgoing f) (fr_active f) (fr_complete f) i"
      "length (fr_outgoing f) = node_count f"
      using ok i tables by (simp_all add: frontier_ok_def frontier_counts_def tables_ok_def Let_def f)
    moreover have "fr_complete f ! j = has_output p (node_key f j)" if "j < node_count f" for j
      using ok that by (simp add: frontier_ok_def tracks_def)
    moreover have "i \<in> set (fr_outgoing f ! j) \<longleftrightarrow> (node_key f j, node_key f i) \<in> graph_edges workflow"
      if "j < node_count f" for j
      using tables that i by (simp add: tables_ok_def Let_def f)
    ultimately show ?thesis by (simp add: pending_count_zero)
  qed
  finally show ?thesis .
qed

lemma frontier_candidate:
  assumes ok: "frontier_ok f p" and f: "fr_definition f = workflow" and i: "i < node_count f"
    and choices: "p_choice_selections p = bt_empty" and latest: "\<And>k. latest k = Inr (latest_attempt p k)"
  shows "candidate_is_ready g p now (active_node_ids g p) latest (gr_nodes (wd_graph workflow) ! i)
    = Inr (frontier_contains f (node_key f i) now)"
proof -
  let ?node = "gr_nodes (wd_graph workflow) ! i"
  have supports: "frontier_supports workflow" and static: "frontier_static f"
    using ok f by (simp_all add: frontier_ok_def frontier_static_def)
  have node: "?node \<in> set (gr_nodes (wd_graph workflow))" using i f by simp
  have reached: "nd_id ?node \<in> active_node_ids g p \<longleftrightarrow> fr_active f ! i"
    using static i supported_active_edges [OF supports choices]
    by (simp add: active_node_ids_reachable frontier_static_def f)
  have track: "fr_eligible f ! i = may_start p (nd_id ?node)" "fr_retry_at f ! i = retry_time p (nd_id ?node)"
    using ok i f by (simp_all add: frontier_ok_def tracks_def)
  have "i \<in> fr_candidates f \<longleftrightarrow> fr_active f ! i \<and> fr_remaining f ! i = 0 \<and> may_start p (nd_id ?node)"
    using ok i f track by (simp add: frontier_ok_def candidates_but_def is_candidate_def)
  then have contains: "frontier_contains f (node_key f i) now \<longleftrightarrow>
      fr_active f ! i \<and> fr_remaining f ! i = 0 \<and> may_start p (nd_id ?node)
      \<and> is_none_or (retry_time p (nd_id ?node)) (\<lambda>deadline. deadline \<le> now)"
    using contains_key [OF static i] track by (auto simp: frontier_due_def)
  have "nd_handler ?node \<noteq> ''engine.workflow-settlement''"
    using supported_handler [OF supports node] by simp
  then show ?thesis
    using may_start_permits [of p "nd_id ?node" now] supported_predecessors [OF ok f i choices refl]
    unfolding candidate_is_ready_def reached supported_complete [OF supports node] latest contains
    by (cases "has_output p (nd_id ?node)") (auto simp: may_start_def f)
qed

lemma sorted_candidates:
  assumes "candidates \<subseteq> {..< n :: nat}"
  shows "sorted_list_of_set candidates = filter (\<lambda>i. i \<in> candidates) [0 ..< n]"
proof -
  have "set (filter (\<lambda>i. i \<in> candidates) [0 ..< n]) = candidates" using assms by auto
  then show ?thesis
    by (metis distinct_filter distinct_upt sorted_list_of_set.idem_if_sorted_distinct sorted_upt sorted_wrt_filter)
qed

lemma frontier_query:
  assumes ok: "frontier_ok f p" and f: "fr_definition f = workflow"
    and choices: "p_choice_selections p = bt_empty" and latest: "\<And>k. latest k = Inr (latest_attempt p k)"
  shows "ready_vector g p latest now = Inr (frontier_ready_at f now)"
proof -
  let ?nodes = "gr_nodes (wd_graph workflow)"
  have static: "frontier_static f" and subset: "fr_candidates f \<subseteq> {..< length ?nodes}"
    using ok f by (simp_all add: frontier_ok_def candidates_but_def)
  have "candidate_is_ready g p now (active_node_ids g p) latest node = Inr (frontier_contains f (nd_id node) now)"
    if "node \<in> set ?nodes" for node
    using that frontier_candidate [OF ok f _ choices latest] by (auto simp: in_set_conv_nth f)
  then have "try_filter (candidate_is_ready g p now (active_node_ids g p) latest) ?nodes
      = Inr (filter (\<lambda>node. frontier_contains f (nd_id node) now) ?nodes)"
    by (rule try_total(3))
  moreover have "map nd_id (filter (\<lambda>node. frontier_contains f (nd_id node) now) ?nodes) = frontier_ready_at f now"
  proof -
    have "map nd_id (filter (\<lambda>node. frontier_contains f (nd_id node) now) ?nodes)
        = map (\<lambda>i. nd_id (?nodes ! i)) (filter (\<lambda>i. frontier_contains f (nd_id (?nodes ! i)) now) [0 ..< length ?nodes])"
      using filter_map [of "\<lambda>node. frontier_contains f (nd_id node) now" "(!) ?nodes" "[0 ..< length ?nodes]"]
      by (simp add: map_nth o_def)
    also have "filter (\<lambda>i. frontier_contains f (nd_id (?nodes ! i)) now) [0 ..< length ?nodes]
        = filter (\<lambda>i. i \<in> fr_candidates f \<and> frontier_due f now i) [0 ..< length ?nodes]"
      by (rule filter_cong [OF refl]) (use contains_key [OF static] f in auto)
    finally show ?thesis
      by (simp add: frontier_ready_at_def sorted_candidates [OF subset] f conj_commute)
  qed
  ultimately show ?thesis by (simp add: ready_vector_def graph_workflow)
qed

lemma frontier_member:
  assumes ok: "frontier_ok f p" and f: "fr_definition f = workflow"
    and choices: "p_choice_selections p = bt_empty" and latest: "\<And>k. latest k = Inr (latest_attempt p k)"
  shows "ready_member g p latest now node = Inr (frontier_contains f node now)"
proof -
  have static: "frontier_static f" and subset: "fr_candidates f \<subseteq> {..< node_count f}"
    using ok by (simp_all add: frontier_ok_def candidates_but_def)
  have get: "bt_get (fr_ids f) k = Some i \<longleftrightarrow> i < node_count f \<and> node_key f i = k" for k i
    using static by (simp add: frontier_static_def tables_ok_def Let_def)
  have "node \<in> set (frontier_ready_at f now) \<longleftrightarrow> frontier_contains f node now"
    using subset finite_subset [OF subset]
    by (auto simp: frontier_ready_at_def frontier_contains_def is_some_and_iff get)
  then show ?thesis using ready_vector_member [OF frontier_query [OF assms]] by simp
qed

end

end
