(* ===== verification/History_Prefix.thy ===== *)
theory History_Prefix
  imports Frontier_Facts
begin

text \<open>
  The cursor that replays one immutable history (\<^verbatim>\<open>engine/history/prefix.rs\<close>) and the
  readiness queries on the prefix it has reached (\<^verbatim>\<open>engine/readiness.rs\<close>).  The cursor keeps
  the fold state of the prefix, the ordinals of the newest attempts and the frontier; a
  query through it is shown to be the query on the fold of the prefix.  The counters of
  the performance span are left out.
\<close>

section \<open>The cursor\<close>

datatype prefix_error = PrefixBounds | PrefixFold fold_error | PrefixPanic

record history_prefix =
  hp_events :: "run_event list"
  hp_state :: fold_state
  hp_next :: nat
  hp_latest :: "(string, nat) btree option"
  hp_poisoned :: "fold_error option"
  hp_frontier_definition :: "(compiled_workflow_definition \<times> string) option"
  hp_frontier :: "frontier option"

abbreviation hp_projection :: "history_prefix \<Rightarrow> run_projection" where
  "hp_projection c \<equiv> fs_projection (hp_state c)"

definition history_prefix_new :: "run_event list \<Rightarrow> history_prefix" where
  "history_prefix_new events =
    \<lparr>hp_events = events, hp_state = default_fold_state, hp_next = 0, hp_latest = None,
     hp_poisoned = None, hp_frontier_definition = None, hp_frontier = None\<rparr>"

definition history_prefix_with_definition ::
  "run_event list \<Rightarrow> compiled_workflow_definition \<Rightarrow> string \<Rightarrow> history_prefix" where
  "history_prefix_with_definition events workflow hash =
    (history_prefix_new events)\<lparr>hp_frontier_definition := Some (workflow, hash)\<rparr>"

definition invalidate_frontier :: "history_prefix \<Rightarrow> history_prefix" where
  "invalidate_frontier c = c\<lparr>hp_frontier_definition := None, hp_frontier := None\<rparr>"

text \<open>The ordinals of new attempts, each the newest of its node.\<close>

definition extend_latest :: "attempt_projection list \<Rightarrow> nat \<Rightarrow> (string, nat) btree \<Rightarrow> (string, nat) btree" where
  "extend_latest attempts previous latest =
    fold (\<lambda>index. bt_insert (ai_node_id (ap_identity (attempts ! index))) index)
      [previous ..< length attempts] latest"

text \<open>What the accepted event changes at the frontier.\<close>

definition advance_frontier :: "run_event \<Rightarrow> history_prefix \<Rightarrow> (prefix_error, history_prefix) result" where
  "advance_frontier event c =
    (if hp_frontier_definition c = None then Inr c
     else (case changed_node event of
       Inl () \<Rightarrow> Inr (invalidate_frontier c)
     | Inr None \<Rightarrow> Inr c
     | Inr (Some node) \<Rightarrow>
         (case (hp_frontier c, hp_latest c) of
            (Some f, Some latest) \<Rightarrow>
              (case frontier_update node (hp_projection c) latest f of
                 Inl _ \<Rightarrow> Inl PrefixPanic
               | Inr None \<Rightarrow> Inr (invalidate_frontier c)
               | Inr (Some f') \<Rightarrow> Inr (c\<lparr>hp_frontier := Some f'\<rparr>))
          | _ \<Rightarrow> Inr c)))"

text \<open>One round of the loop of \<^verbatim>\<open>at\<close>.  A refused event poisons the cursor.\<close>

definition apply_next :: "externals \<Rightarrow> history_prefix \<Rightarrow> (prefix_error, unit) result \<times> history_prefix" where
  "apply_next E c =
    (let event = hp_events c ! hp_next c; previous = length (p_attempts (hp_projection c)) in
     case apply_event E (hp_state c) event of
       Inl error \<Rightarrow>
         (Inl (PrefixFold error),
          (invalidate_frontier (c\<lparr>hp_latest := None\<rparr>))
            \<lparr>hp_state := default_fold_state, hp_poisoned := Some error\<rparr>)
     | Inr state \<Rightarrow>
         (let c1 = c\<lparr>hp_state := state\<rparr>;
              attempts = p_attempts (hp_projection c1);
              c2 = (if length attempts < previous then invalidate_frontier (c1\<lparr>hp_latest := None\<rparr>) else c1);
              c3 = c2\<lparr>hp_latest := map_option (extend_latest attempts previous) (hp_latest c2)\<rparr>
          in case advance_frontier event c3 of
               Inl error \<Rightarrow> (Inl error, c3)
             | Inr c4 \<Rightarrow> (Inr (), c4\<lparr>hp_next := Suc (hp_next c4)\<rparr>)))"

text \<open>The loop runs once for every event up to the bound.\<close>

fun advance :: "externals \<Rightarrow> nat \<Rightarrow> history_prefix \<Rightarrow> (prefix_error, unit) result \<times> history_prefix" where
  "advance E 0 c = (Inr (), c)"
| "advance E (Suc k) c = (case apply_next E c of
     (Inl error, c') \<Rightarrow> (Inl error, c')
   | (Inr _, c') \<Rightarrow> advance E k c')"

definition prefix_at ::
  "externals \<Rightarrow> nat \<Rightarrow> history_prefix \<Rightarrow> (prefix_error, run_projection) result \<times> history_prefix" where
  "prefix_at E stop c = (case hp_poisoned c of
     Some error \<Rightarrow> (Inl (PrefixFold error), c)
   | None \<Rightarrow>
       if stop < hp_next c \<or> length (hp_events c) < stop then (Inl PrefixBounds, c)
       else (case advance E (stop - hp_next c) c of
         (Inl error, c') \<Rightarrow> (Inl error, c')
       | (Inr _, c') \<Rightarrow> (Inr (hp_projection c'), c')))"

section \<open>The view of a prefix\<close>

record readiness_prefix =
  rp_projection :: run_projection
  rp_latest :: "(string, nat) btree option"
  rp_frontier :: "frontier option"

definition collect_latest :: "attempt_projection list \<Rightarrow> (string, nat) btree" where
  "collect_latest attempts =
    fold (\<lambda>(index, attempt). bt_insert (ai_node_id (ap_identity attempt)) index)
      (List.enumerate 0 attempts) bt_empty"

definition ensure_latest :: "history_prefix \<Rightarrow> history_prefix" where
  "ensure_latest c =
    (if hp_latest c = None \<and> p_status (hp_projection c) = RunStatus_Running
     then c\<lparr>hp_latest := Some (collect_latest (p_attempts (hp_projection c)))\<rparr> else c)"

definition ensure_frontier :: "history_prefix \<Rightarrow> (prefix_error, history_prefix) result" where
  "ensure_frontier c =
    (if hp_frontier c = None \<and> p_status (hp_projection c) = RunStatus_Running
     then (case hp_frontier_definition c of
       None \<Rightarrow> Inr c
     | Some (workflow, hash) \<Rightarrow>
         if readiness_binding workflow hash (hp_projection c) = Inr True
         then (case hp_latest c of
           None \<Rightarrow> Inl PrefixPanic
         | Some latest \<Rightarrow>
             (case frontier_new workflow (hp_projection c) latest of
                Inl _ \<Rightarrow> Inl PrefixPanic
              | Inr None \<Rightarrow> Inr (invalidate_frontier c)
              | Inr (Some f) \<Rightarrow> Inr (c\<lparr>hp_frontier := Some f\<rparr>)))
         else Inr c)
     else Inr c)"

definition prefix_query_at ::
  "externals \<Rightarrow> nat \<Rightarrow> history_prefix \<Rightarrow> (prefix_error, readiness_prefix) result \<times> history_prefix" where
  "prefix_query_at E stop c = (case prefix_at E stop c of
     (Inl error, c') \<Rightarrow> (Inl error, c')
   | (Inr _, c') \<Rightarrow>
       (case ensure_frontier (ensure_latest c') of
          Inl error \<Rightarrow> (Inl error, ensure_latest c')
        | Inr c'' \<Rightarrow>
            (Inr \<lparr>rp_projection = hp_projection c'', rp_latest = hp_latest c'', rp_frontier = hp_frontier c''\<rparr>, c'')))"

definition prefix_latest_attempt :: "readiness_prefix \<Rightarrow> latest_lookup" where
  "prefix_latest_attempt view node_id = (case rp_latest view of
     None \<Rightarrow> Inr (latest_attempt (rp_projection view) node_id)
   | Some latest \<Rightarrow> (case bt_get latest node_id of
       None \<Rightarrow> Inr None
     | Some index \<Rightarrow>
         if length (p_attempts (rp_projection view)) \<le> index then Inl Panicked
         else Inr (Some (p_attempts (rp_projection view) ! index))))"

text \<open>\<^verbatim>\<open>frontier_for\<close>: the frontier answers for the definition it was built from.  Whether
  two references are the same is the parameter \<open>ptr_eq\<close>.\<close>

definition frontier_for ::
  "(compiled_workflow_definition \<Rightarrow> compiled_workflow_definition \<Rightarrow> bool)
    \<Rightarrow> readiness_prefix \<Rightarrow> compiled_workflow_definition \<Rightarrow> frontier option" where
  "frontier_for ptr_eq view workflow =
    Option.bind (rp_frontier view) (\<lambda>f. if ptr_eq (fr_definition f) workflow then Some f else None)"

definition ready_from_prefix_at ::
  "(compiled_workflow_definition \<Rightarrow> compiled_workflow_definition \<Rightarrow> bool)
    \<Rightarrow> readiness_graph \<Rightarrow> string \<Rightarrow> readiness_prefix \<Rightarrow> instant \<Rightarrow> (readiness_error, string list) result" where
  "ready_from_prefix_at ptr_eq g definition_hash view now =
    and_then (readiness_binding (rg_workflow g) definition_hash (rp_projection view)) (\<lambda>bound.
    if \<not> bound then Inr []
    else (case frontier_for ptr_eq view (rg_workflow g) of
      Some f \<Rightarrow> Inr (frontier_ready_at f now)
    | None \<Rightarrow> ready_vector g (rp_projection view) (prefix_latest_attempt view) now))"

definition is_ready_from_prefix_at ::
  "(compiled_workflow_definition \<Rightarrow> compiled_workflow_definition \<Rightarrow> bool)
    \<Rightarrow> readiness_graph \<Rightarrow> string \<Rightarrow> readiness_prefix \<Rightarrow> instant \<Rightarrow> string \<Rightarrow> (readiness_error, bool) result" where
  "is_ready_from_prefix_at ptr_eq g definition_hash view now node_id =
    (if p_status (rp_projection view) \<noteq> RunStatus_Running
     then is_ready_at g definition_hash (rp_projection view) now node_id
     else and_then (readiness_binding (rg_workflow g) definition_hash (rp_projection view)) (\<lambda>bound.
       if \<not> bound then Inr False
       else (case frontier_for ptr_eq view (rg_workflow g) of
         Some f \<Rightarrow> Inr (frontier_contains f node_id now)
       | None \<Rightarrow> ready_member g (rp_projection view) (prefix_latest_attempt view) now node_id)))"

end
