(* ===== verification/Prefix_Facts.thy ===== *)
theory Prefix_Facts
  imports History_Prefix
begin

text \<open>
  The cursor follows the fold: after every advance its state is the fold of the prefix,
  its ordinals are the newest attempts and its frontier is the frontier of the prefix,
  so a query through it is the query on the folded prefix.
\<close>

section \<open>Ordinals of the newest attempts\<close>

lemma newest_ok_Nil: "newest_ok [] bt_empty"
  by (simp add: newest_ok_def)

lemma newest_snoc:
  assumes "newest_ok xs latest"
  shows "newest_ok (xs @ [a]) (bt_insert (node_of a) (length xs) latest)"
  unfolding newest_ok_def
proof (intro allI)
  fix k i
  show "bt_get (bt_insert (node_of a) (length xs) latest) k = Some i \<longleftrightarrow>
      i < length (xs @ [a]) \<and> node_of ((xs @ [a]) ! i) = k
      \<and> (\<forall>j. i < j \<and> j < length (xs @ [a]) \<longrightarrow> node_of ((xs @ [a]) ! j) \<noteq> k)"
  proof (cases "k = node_of a")
    case True
    then have "i = length xs \<longleftrightarrow> i < length (xs @ [a]) \<and> (\<forall>j. i < j \<and> j < length (xs @ [a]) \<longrightarrow> node_of ((xs @ [a]) ! j) \<noteq> k)"
      by (cases "i < length xs") (use nth_append_length [of xs a] in fastforce)+
    then show ?thesis using True by auto
  next
    case False
    have old: "bt_get latest k = Some i \<longleftrightarrow> i < length xs \<and> node_of (xs ! i) = k
        \<and> (\<forall>j. i < j \<and> j < length xs \<longrightarrow> node_of (xs ! j) \<noteq> k)"
      using assms by (simp add: newest_ok_def)
    have at: "node_of ((xs @ [a]) ! j) = k \<longleftrightarrow> j < length xs \<and> node_of (xs ! j) = k" if "j < length (xs @ [a])" for j
      using that False by (cases "j < length xs") (simp_all add: nth_append)
    have "(\<forall>j. i < j \<and> j < length (xs @ [a]) \<longrightarrow> node_of ((xs @ [a]) ! j) \<noteq> k)
        \<longleftrightarrow> (\<forall>j. i < j \<and> j < length xs \<longrightarrow> node_of (xs ! j) \<noteq> k)"
      using at by (metis length_append_singleton less_SucI)
    then show ?thesis using old at [of i] False by auto
  qed
qed

lemma newest_cong:
  assumes "map node_of xs = map node_of ys" "newest_ok xs latest"
  shows "newest_ok ys latest"
proof -
  have len: "length ys = length xs" using map_eq_imp_length_eq [OF assms(1)] by simp
  have nth: "node_of (ys ! i) = node_of (xs ! i)" if "i < length xs" for i
    using arg_cong [OF assms(1), of "\<lambda>zs. zs ! i"] that len by simp
  show ?thesis using assms(2) unfolding newest_ok_def len by (simp add: nth cong: conj_cong)
qed

lemma newest_extend:
  assumes "newest_ok xs latest" "length xs \<le> length ys" "map node_of (take (length xs) ys) = map node_of xs"
  shows "newest_ok ys (extend_latest ys (length xs) latest)"
proof -
  have "newest_ok (take n ys)
      (fold (\<lambda>index. bt_insert (ai_node_id (ap_identity (ys ! index))) index) [length xs ..< n] latest)"
    if "length xs \<le> n" "n \<le> length ys" for n
    using that
  proof (induction n rule: dec_induct)
    case base
    then show ?case using newest_cong [OF assms(3) [symmetric] assms(1)] by simp
  next
    case (step n)
    then have "newest_ok (take n ys @ [ys ! n]) (bt_insert (node_of (ys ! n)) (length (take n ys))
        (fold (\<lambda>index. bt_insert (ai_node_id (ap_identity (ys ! index))) index) [length xs ..< n] latest))"
      by (intro newest_snoc) simp
    then show ?case using step by (simp add: take_Suc_conv_app_nth node_of_def)
  qed
  from this [OF assms(2) order.refl] show ?thesis by (simp add: extend_latest_def)
qed

lemma newest_collect: "newest_ok attempts (collect_latest attempts)"
proof (induction attempts rule: rev_induct)
  case Nil
  then show ?case by (simp add: collect_latest_def newest_ok_Nil)
next
  case (snoc a attempts)
  have "collect_latest (attempts @ [a]) = bt_insert (node_of a) (length attempts) (collect_latest attempts)"
    by (simp add: collect_latest_def enumerate_append_eq node_of_def)
  then show ?case using newest_snoc [OF snoc] by simp
qed

section \<open>What a step changes\<close>

lemma attempts_grow:
  assumes "from_events E es = Inr state" "apply_event E state e = Inr state'"
  obtains ys where "map ap_identity (p_attempts (fs_projection state'))
    = map ap_identity (p_attempts (fs_projection state)) @ ys"
proof -
  obtain q ix where step: "apply_transition E state e = Inr (q, ix)"
    and state': "p_attempts (fs_projection state') = p_attempts q"
    using assms(2) by (elim apply_eventE) simp
  show ?thesis
  proof (cases "event_owner e = Owner_Attempts")
    case False
    then show ?thesis using that [of "[]"] attempts_frame(1) [OF step False] state' by simp
  next
    case True
    with step show ?thesis
    proof (cases rule: attempts_transitionE)
      case (StepAttemptStarted data)
      then show ?thesis
        using that [of "[ap_identity (started_attempt data)]"] start_fields(6) [OF StepAttemptStarted(2)] state' by simp
    next
      case (StepAttemptSucceeded data)
      then have "map ap_identity (p_attempts q) = map ap_identity (p_attempts (fs_projection state))"
        by (auto simp: apply_step_attempt_succeeded_def ok_simps map_update_same)
      then show ?thesis using that [of "[]"] state' by simp
    next
      case (StepAttemptFailed data)
      then have "map ap_identity (p_attempts q) = map ap_identity (p_attempts (fs_projection state))"
        by (auto simp: apply_step_attempt_failed_def ok_simps map_update_same)
      then show ?thesis using that [of "[]"] state' by simp
    next
      case (StepRetryScheduled data)
      then have "p_attempts q = p_attempts (fs_projection state)"
        by (auto simp: apply_step_retry_scheduled_def ok_simps)
      then show ?thesis using that [of "[]"] state' by simp
    qed
  qed
qed

lemma attempts_length:
  assumes "from_events E es = Inr state" "apply_event E state e = Inr state'"
  shows "length (p_attempts (fs_projection state)) \<le> length (p_attempts (fs_projection state'))"
  using attempts_grow [OF assms] by (metis length_append length_map le_add1)

lemma latest_kept:
  assumes "from_events E es = Inr state" "apply_event E state e = Inr state'"
    and "newest_ok (p_attempts (fs_projection state)) latest"
  shows "newest_ok (p_attempts (fs_projection state'))
      (extend_latest (p_attempts (fs_projection state')) (length (p_attempts (fs_projection state))) latest)"
proof -
  obtain ys where ys: "map ap_identity (p_attempts (fs_projection state'))
      = map ap_identity (p_attempts (fs_projection state)) @ ys"
    using attempts_grow [OF assms(1,2)] .
  have "map ap_identity (take (length (p_attempts (fs_projection state))) (p_attempts (fs_projection state')))
      = map ap_identity (p_attempts (fs_projection state))"
    using arg_cong [OF ys, of "take (length (p_attempts (fs_projection state)))"] by (simp add: take_map)
  then have "map node_of (take (length (p_attempts (fs_projection state))) (p_attempts (fs_projection state')))
      = map node_of (p_attempts (fs_projection state))"
    by (metis (no_types, lifting) comp_apply list.map_comp list.map_cong node_of_def)
  then show "newest_ok (p_attempts (fs_projection state'))
      (extend_latest (p_attempts (fs_projection state')) (length (p_attempts (fs_projection state))) latest)"
    by (rule newest_extend [OF assms(3) attempts_length [OF assms(1,2)]])
qed

text \<open>An event the frontier supports belongs to the run or to the attempts.\<close>

lemma supported_owner:
  assumes "changed_node e = Inr change"
  shows "ev_iteration e = None" "event_owner e = (if change = None then Owner_Run else Owner_Attempts)"
  using assms
  by (auto simp: changed_node_def event_owner_def split: if_splits run_event_payload.splits)

lemma supported_start:
  assumes "changed_node e = Inr None"
  shows "starts_run (ev_payload e)"
  using assms
  by (auto simp: changed_node_def starts_run_def split: if_splits run_event_payload.splits)

lemma supported_choices:
  assumes "from_events E es = Inr state" "list_all (\<lambda>e. is_ok (changed_node e)) es"
  shows "p_choice_selections (fs_projection state) = bt_empty"
  using assms
proof (induction es arbitrary: state rule: rev_induct)
  case Nil
  then have "state = default_fold_state" by simp
  then show ?case by (simp add: default_fold_state_def empty_projection_def)
next
  case (snoc e es)
  then obtain state0 where state0: "from_events E es = Inr state0" "apply_event E state0 e = Inr state"
    by (auto elim: from_events_snocE)
  then obtain q ix where step: "apply_transition E state0 e = Inr (q, ix)"
    and state: "p_choice_selections (fs_projection state) = p_choice_selections q"
    by (elim apply_eventE) simp
  obtain change where "changed_node e = Inr change" using snoc.prems(2) by (auto simp: is_ok_iff)
  then have "event_owner e \<noteq> Owner_Flow" using supported_owner(2) by (cases change) fastforce+
  then have "p_choice_selections q = p_choice_selections (fs_projection state0)"
    by (simp add: transition_frame [OF step])
  then show ?case using snoc.IH [OF state0(1)] snoc.prems(2) state by simp
qed

lemma latest_attempt_update:
  assumes "i < length xs" "node_of (xs ! i) \<noteq> k" "node_of a \<noteq> k"
  shows "find_last (\<lambda>a. ai_node_id (ap_identity a) = k) (xs[i := a])
    = find_last (\<lambda>a. ai_node_id (ap_identity a) = k) xs"
  using assms filter_update_same [of i xs "\<lambda>a. ai_node_id (ap_identity a) = k" a]
  by (simp add: last_filter_find_last node_of_def)

lemma same_butI:
  assumes "\<And>k. k \<noteq> node \<Longrightarrow> has_output q k = has_output p k"
    and "\<And>k. k \<noteq> node \<Longrightarrow> latest_attempt q k = latest_attempt p k"
    and "\<And>k. k \<noteq> node \<Longrightarrow> bt_get (p_pending_retries q) k = bt_get (p_pending_retries p) k"
  shows "same_but node p q"
proof -
  have "has_output q k = has_output p k \<and> may_start q k = may_start p k \<and> retry_time q k = retry_time p k"
    if "k \<noteq> node" for k
    unfolding may_start_def retry_time_def bt_contains_def assms [OF that] by simp
  then show ?thesis by (simp add: same_but_def)
qed

lemma settled_latest:
  assumes "indexed (p_attempts p) ix" "ix (identity node n v) = Some i"
    and "p_attempts q = (p_attempts p)[i := a]" "ap_identity a = ap_identity (p_attempts p ! i)" "k \<noteq> node"
  shows "latest_attempt q k = latest_attempt p k"
proof -
  have "i < length (p_attempts p)" "node_of (p_attempts p ! i) = node"
    using assms(1,2) by (auto simp: indexed_def node_of_def identity_def)
  moreover from this have "node_of a = node" using same_node [OF assms(4)] by simp
  ultimately show ?thesis
    using assms(3,5) by (simp add: latest_attempt_def latest_attempt_update)
qed

lemma started_effect:
  assumes "apply_step_attempt_started p e d ix = Inr (q, ix')"
  shows "same_but (sast_node_id d) p q" "p_status q = p_status p"
proof -
  have q: "p_context q = p_context p" "p_status q = p_status p"
    "p_pending_retries q = p_pending_retries p
      \<or> p_pending_retries q = bt_remove (sast_node_id d) (p_pending_retries p)"
    using assms by (auto simp: apply_step_attempt_started_def ok_simps Let_def split: if_splits)
  have "latest_attempt q k = latest_attempt p k" if "k \<noteq> sast_node_id d" for k
    using that started_attempt_node(1) [of d] start_fields(6) [OF assms]
    by (simp add: latest_attempt_def node_of_def)
  moreover have "bt_get (p_pending_retries q) k = bt_get (p_pending_retries p) k" if "k \<noteq> sast_node_id d" for k
    using q(3) that by auto
  ultimately show "same_but (sast_node_id d) p q" by (intro same_butI) (simp_all add: q(1))
  show "p_status q = p_status p" by (rule q(2))
qed

lemma succeeded_effect:
  assumes "apply_step_attempt_succeeded p d ix = Inr q" "indexed (p_attempts p) ix"
  shows "same_but (sasu_node_id d) p q" "p_status q = p_status p"
proof -
  obtain i where i: "ix (identity (sasu_node_id d) (sasu_attempt d) (sasu_invocation_id d)) = Some i"
    and q: "p_attempts q = (p_attempts p)[i := (p_attempts p ! i)\<lparr>ap_status := AttemptStatus_Succeeded (sasu_output d)\<rparr>]"
      "ctx_steps (p_context q) = obj_insert (sasu_node_id d) (sasu_output d) (ctx_steps (p_context p))"
      "p_pending_retries q = p_pending_retries p" "p_status q = p_status p"
    using assms(1) by (auto simp: apply_step_attempt_succeeded_def ok_simps)
  show "same_but (sasu_node_id d) p q"
  proof (rule same_butI)
    fix k assume "k \<noteq> sasu_node_id d"
    then show "latest_attempt q k = latest_attempt p k"
      by (intro settled_latest [OF assms(2) i q(1)]) simp_all
  qed (simp_all add: q)
  show "p_status q = p_status p" by (rule q(4))
qed

lemma failed_effect:
  assumes "apply_step_attempt_failed p d ix = Inr q" "indexed (p_attempts p) ix"
  shows "same_but (saf_node_id d) p q" "p_status q = p_status p"
proof -
  obtain i where i: "ix (identity (saf_node_id d) (saf_attempt d) (saf_invocation_id d)) = Some i"
    and q: "p_attempts q = (p_attempts p)[i := (p_attempts p ! i)\<lparr>ap_status := AttemptStatus_Failed (saf_failure d)\<rparr>]"
      "p_context q = p_context p" "p_pending_retries q = p_pending_retries p" "p_status q = p_status p"
    using assms(1) by (auto simp: apply_step_attempt_failed_def ok_simps)
  show "same_but (saf_node_id d) p q"
  proof (rule same_butI)
    fix k assume "k \<noteq> saf_node_id d"
    then show "latest_attempt q k = latest_attempt p k"
      by (intro settled_latest [OF assms(2) i q(1)]) simp_all
  qed (simp_all add: q)
  show "p_status q = p_status p" by (rule q(4))
qed

lemma retry_effect:
  assumes "apply_step_retry_scheduled p d previous = Inr q"
  shows "same_but (srs_node_id d) p q" "p_status q = p_status p"
proof -
  have q: "p_attempts q = p_attempts p" "p_context q = p_context p" "p_status q = p_status p"
    "p_pending_retries q = bt_insert (srs_node_id d) (retry_schedule d) (p_pending_retries p)"
    using assms by (auto simp: apply_step_retry_scheduled_def ok_simps)
  show "same_but (srs_node_id d) p q"
    by (rule same_butI) (simp_all add: q latest_attempt_def)
  show "p_status q = p_status p" by (rule q(3))
qed

lemma tracked_sequence [simp]:
  "may_start (p\<lparr>p_last_sequence := n\<rparr>) k = may_start p k"
  "retry_time (p\<lparr>p_last_sequence := n\<rparr>) k = retry_time p k"
  by (simp_all add: may_start_def retry_time_def latest_attempt_def
      cong: option.case_cong attempt_status.case_cong split: option.split attempt_status.split)

lemma supported_step:
  assumes es: "from_events E es = Inr state" and "apply_event E state e = Inr state'"
    and change: "changed_node e = Inr (Some node)"
  shows "same_but node (fs_projection state) (fs_projection state')"
    "p_status (fs_projection state') = p_status (fs_projection state)"
proof -
  let ?p = "fs_projection state"
  obtain q ix where step: "apply_transition E state e = Inr (q, ix)"
    and state': "fs_projection state' = q\<lparr>p_last_sequence := ev_sequence e\<rparr>"
    using assms(2) by (elim apply_eventE) simp
  have owner: "event_owner e = Owner_Attempts" using supported_owner(2) [OF change] by simp
  have ix: "indexed (p_attempts ?p) (fs_attempt_indexes state)"
    using attempts.holds [OF es] by (simp add: attempts_sound_def)
  have iteration: "ev_iteration e = None" using supported_owner(1) [OF change] .
  have "same_but node ?p q \<and> p_status q = p_status ?p"
    using step owner
  proof (cases rule: attempts_transitionE)
    case (StepAttemptStarted data)
    then show ?thesis using change iteration started_effect [OF StepAttemptStarted(2)] by (simp add: changed_node_def)
  next
    case (StepAttemptSucceeded data)
    then show ?thesis using change iteration succeeded_effect [OF StepAttemptSucceeded(2) ix] by (simp add: changed_node_def)
  next
    case (StepAttemptFailed data)
    then show ?thesis using change iteration failed_effect [OF StepAttemptFailed(2) ix] by (simp add: changed_node_def)
  next
    case (StepRetryScheduled data)
    then show ?thesis using change iteration retry_effect [OF StepRetryScheduled(2)] by (simp add: changed_node_def)
  qed
  then show "same_but node ?p (fs_projection state')" "p_status (fs_projection state') = p_status ?p"
    by (simp_all add: state' same_but_def)
qed

section \<open>The invariant of the cursor\<close>

definition frontier_follows :: "history_prefix \<Rightarrow> frontier \<Rightarrow> bool" where
  "frontier_follows c f \<longleftrightarrow> (\<exists>hash. hp_frontier_definition c = Some (fr_definition f, hash))
    \<and> hp_latest c \<noteq> None \<and> frontier_ok f (hp_projection c) \<and> p_status (hp_projection c) = RunStatus_Running"

definition cursor_follows :: "externals \<Rightarrow> history_prefix \<Rightarrow> bool" where
  "cursor_follows E c \<longleftrightarrow> hp_next c \<le> length (hp_events c)
    \<and> from_events E (take (hp_next c) (hp_events c)) = Inr (hp_state c)
    \<and> (\<forall>latest. hp_latest c = Some latest \<longrightarrow> newest_ok (p_attempts (hp_projection c)) latest)
    \<and> (hp_frontier_definition c \<noteq> None \<longrightarrow>
        list_all (\<lambda>e. is_ok (changed_node e)) (take (hp_next c) (hp_events c)))
    \<and> (\<forall>f. hp_frontier c = Some f \<longrightarrow> frontier_follows c f)"

definition cursor_ok :: "externals \<Rightarrow> history_prefix \<Rightarrow> bool" where
  "cursor_ok E c \<longleftrightarrow> (case hp_poisoned c of
     None \<Rightarrow> cursor_follows E c
   | Some error \<Rightarrow> \<exists>n < length (hp_events c). from_events E (take (Suc n) (hp_events c)) = Inl error)"

lemma from_events_Suc:
  assumes "n < length events" "from_events E (take n events) = Inr state"
  shows "from_events E (take (Suc n) events) = apply_event E state (events ! n)"
  using assms by (simp add: take_Suc_conv_app_nth from_events_snoc)

lemma from_events_error:
  assumes "from_events E (take n events) = Inl error" "n \<le> m"
  shows "from_events E (take m events) = Inl error"
proof -
  obtain zs where "take m events = take n events @ zs"
    using assms(2) by (metis le_add_diff_inverse take_add)
  then show ?thesis using assms(1) by (simp add: from_events_append)
qed

text \<open>The frontier after an accepted event.\<close>

lemma advance_frontier_ok:
  assumes c: "cursor_follows E c" "hp_next c < length (hp_events c)"
    and step: "apply_event E (hp_state c) (hp_events c ! hp_next c) = Inr state"
    and c3: "c3 = c\<lparr>hp_state := state,
      hp_latest := map_option (extend_latest (p_attempts (fs_projection state)) (length (p_attempts (hp_projection c)))) (hp_latest c)\<rparr>"
  obtains c4 where "advance_frontier (hp_events c ! hp_next c) c3 = Inr c4"
    "hp_events c4 = hp_events c" "hp_next c4 = hp_next c" "hp_state c4 = state" "hp_latest c4 = hp_latest c3"
    "hp_poisoned c4 = hp_poisoned c"
    "hp_frontier_definition c4 = None \<or> hp_frontier_definition c4 = hp_frontier_definition c
      \<and> is_ok (changed_node (hp_events c ! hp_next c))"
    "\<And>f. hp_frontier c4 = Some f \<Longrightarrow> frontier_follows c4 f"
proof -
  let ?e = "hp_events c ! hp_next c"
  have es: "from_events E (take (hp_next c) (hp_events c)) = Inr (hp_state c)"
    using c(1) by (simp add: cursor_follows_def)
  have fields: "hp_state c3 = state" "hp_frontier c3 = hp_frontier c"
    "hp_frontier_definition c3 = hp_frontier_definition c" "hp_events c3 = hp_events c" "hp_next c3 = hp_next c"
    "hp_poisoned c3 = hp_poisoned c"
    by (simp_all add: c3)
  have follows: "frontier_follows c f" if "hp_frontier c = Some f" for f
    using c(1) that by (simp add: cursor_follows_def)
  consider (none) "hp_frontier_definition c = None" | (drop) "hp_frontier_definition c \<noteq> None" "changed_node ?e = Inl ()"
    | (start) "hp_frontier_definition c \<noteq> None" "changed_node ?e = Inr None"
    | (node) node where "hp_frontier_definition c \<noteq> None" "changed_node ?e = Inr (Some node)"
    by (metis option.exhaust sum.exhaust old.unit.exhaust)
  then show ?thesis
  proof cases
    case none
    then have "hp_frontier c = None" using follows by (fastforce simp: frontier_follows_def)
    then show ?thesis using none fields by (intro that [of c3]) (simp_all add: advance_frontier_def)
  next
    case drop
    then show ?thesis
      using fields
      by (intro that [of "invalidate_frontier c3"]) (auto simp: advance_frontier_def invalidate_frontier_def split: unit.splits)
  next
    case start
    obtain q ix where trans: "apply_transition E (hp_state c) ?e = Inr (q, ix)"
      using step by (elim apply_eventE) simp
    have "event_owner ?e = Owner_Run" using supported_owner(2) [OF start(2)] by simp
    then have "p_status (hp_projection c) = RunStatus_NotStarted"
      using start_transition(5) [OF trans _ supported_start [OF start(2)]] by blast
    then have "hp_frontier c = None" using follows by (fastforce simp: frontier_follows_def)
    then show ?thesis using start fields by (intro that [of c3]) (simp_all add: advance_frontier_def)
  next
    case node
    show ?thesis
    proof (cases "hp_frontier c")
      case None
      then show ?thesis using node fields by (intro that [of c3]) (simp_all add: advance_frontier_def)
    next
      case (Some f)
      note f = follows [OF Some, unfolded frontier_follows_def]
      obtain latest where latest: "hp_latest c = Some latest" using f by blast
      then have newest: "newest_ok (p_attempts (hp_projection c)) latest" using c(1) by (simp add: cursor_follows_def)
      let ?latest = "extend_latest (p_attempts (fs_projection state)) (length (p_attempts (hp_projection c))) latest"
      note effect = supported_step [OF es step node(2)]
      have update: "frontier_update node (fs_projection state) ?latest f = Inr None
        \<or> (\<exists>f'. frontier_update node (fs_projection state) ?latest f = Inr (Some f')
          \<and> frontier_ok f' (fs_projection state) \<and> fr_definition f' = fr_definition f)"
        using update_ok [OF _ effect(1) latest_kept [OF es step newest]] f by blast
      have latest3: "hp_latest c3 = Some ?latest" by (simp add: c3 latest)
      have "fst (the (hp_frontier_definition c)) = fr_definition f" using f by auto
      from update show ?thesis
      proof (elim disjE exE conjE)
        assume "frontier_update node (fs_projection state) ?latest f = Inr None"
        then show ?thesis
          using node Some fields latest3
          by (intro that [of "invalidate_frontier c3"]) (auto simp: advance_frontier_def invalidate_frontier_def)
      next
        fix f'
        assume f': "frontier_update node (fs_projection state) ?latest f = Inr (Some f')"
          "frontier_ok f' (fs_projection state)" "fr_definition f' = fr_definition f"
        then show ?thesis
          using node Some fields latest3 f effect(2)
          by (intro that [of "c3\<lparr>hp_frontier := Some f'\<rparr>"]) (auto simp: advance_frontier_def frontier_follows_def)
      qed
    qed
  qed
qed

lemma apply_next_ok:
  assumes c: "cursor_follows E c" "hp_next c < length (hp_events c)" "hp_poisoned c = None"
  shows "case apply_next E c of
      (Inl error, c') \<Rightarrow> hp_events c' = hp_events c \<and>
        (\<exists>fold_error. error = PrefixFold fold_error \<and> hp_poisoned c' = Some fold_error
          \<and> from_events E (take (Suc (hp_next c)) (hp_events c)) = Inl fold_error)
    | (Inr _, c') \<Rightarrow> cursor_follows E c' \<and> hp_poisoned c' = None \<and> hp_events c' = hp_events c
        \<and> hp_next c' = Suc (hp_next c)"
proof -
  have es: "from_events E (take (hp_next c) (hp_events c)) = Inr (hp_state c)"
    using c(1) by (simp add: cursor_follows_def)
  note next_fold = from_events_Suc [OF c(2) es]
  show ?thesis
  proof (cases "apply_event E (hp_state c) (hp_events c ! hp_next c)")
    case (Inl error)
    then show ?thesis using next_fold by (simp add: apply_next_def Let_def invalidate_frontier_def)
  next
    case (Inr state)
    define c3 where "c3 = c\<lparr>hp_state := state, hp_latest := map_option
      (extend_latest (p_attempts (fs_projection state)) (length (p_attempts (hp_projection c)))) (hp_latest c)\<rparr>"
    obtain c4 where c4: "advance_frontier (hp_events c ! hp_next c) c3 = Inr c4"
      "hp_events c4 = hp_events c" "hp_next c4 = hp_next c" "hp_state c4 = state" "hp_latest c4 = hp_latest c3"
      "hp_poisoned c4 = hp_poisoned c"
      "hp_frontier_definition c4 = None \<or> hp_frontier_definition c4 = hp_frontier_definition c
        \<and> is_ok (changed_node (hp_events c ! hp_next c))"
      "\<And>f. hp_frontier c4 = Some f \<Longrightarrow> frontier_follows c4 f"
      by (rule advance_frontier_ok [OF c(1,2) Inr c3_def]) blast
    have result: "apply_next E c = (Inr (), c4\<lparr>hp_next := Suc (hp_next c4)\<rparr>)"
      using c4(1) attempts_length [OF es Inr] by (simp add: apply_next_def Let_def Inr c3_def)
    have newest: "newest_ok (p_attempts (fs_projection state)) latest" if "hp_latest c3 = Some latest" for latest
      using that c(1) latest_kept [OF es Inr] by (auto simp: c3_def cursor_follows_def)
    have "list_all (\<lambda>e. is_ok (changed_node e)) (take (Suc (hp_next c)) (hp_events c))"
      if "hp_frontier_definition c4 \<noteq> None"
      using that c4(7) c(1,2) by (auto simp: cursor_follows_def take_Suc_conv_app_nth)
    then have "cursor_follows E (c4\<lparr>hp_next := Suc (hp_next c4)\<rparr>)"
      using c(2) next_fold Inr c4 newest by (simp add: cursor_follows_def frontier_follows_def)
    then show ?thesis using result c4 c(3) by simp
  qed
qed

lemma advance_ok:
  assumes "cursor_follows E c" "hp_poisoned c = None" "hp_next c + k \<le> length (hp_events c)"
  shows "case advance E k c of
      (Inl error, c') \<Rightarrow> hp_events c' = hp_events c \<and>
        (\<exists>n fold_error. n < hp_next c + k \<and> error = PrefixFold fold_error \<and> hp_poisoned c' = Some fold_error
          \<and> from_events E (take (Suc n) (hp_events c)) = Inl fold_error)
    | (Inr _, c') \<Rightarrow> cursor_follows E c' \<and> hp_poisoned c' = None \<and> hp_events c' = hp_events c
        \<and> hp_next c' = hp_next c + k"
  using assms
proof (induction k arbitrary: c)
  case (Suc k)
  obtain r c' where step: "apply_next E c = (r, c')" by fastforce
  note ok = apply_next_ok [OF Suc.prems(1) _ Suc.prems(2), unfolded step]
  show ?case
  proof (cases r)
    case (Inl error)
    then show ?thesis using ok Suc.prems(3) step by (auto intro: exI [of _ "hp_next c"])
  next
    case (Inr u)
    then have c': "cursor_follows E c'" "hp_poisoned c' = None" "hp_events c' = hp_events c" "hp_next c' = Suc (hp_next c)"
      using ok Suc.prems(3) by simp_all
    then show ?thesis using Suc.IH [OF c'(1,2)] Suc.prems(3) step Inr by (simp split: prod.splits sum.splits)
  qed
qed simp

lemma prefix_at_ok:
  assumes "cursor_ok E c"
  shows "case prefix_at E stop c of
      (Inl error, c') \<Rightarrow> cursor_ok E c' \<and> hp_events c' = hp_events c \<and>
        (error = PrefixBounds \<and> (stop < hp_next c \<or> length (hp_events c) < stop)
          \<or> (\<exists>fold_error. error = PrefixFold fold_error \<and> hp_poisoned c' = Some fold_error \<and>
              (hp_poisoned c = None \<longrightarrow> from_events E (take stop (hp_events c)) = Inl fold_error)))
    | (Inr p, c') \<Rightarrow> cursor_follows E c' \<and> hp_poisoned c' = None \<and> hp_events c' = hp_events c
        \<and> hp_next c' = stop \<and> p = hp_projection c'"
proof (cases "hp_poisoned c")
  case None
  then have follows: "cursor_follows E c" using assms by (simp add: cursor_ok_def)
  show ?thesis
  proof (cases "stop < hp_next c \<or> length (hp_events c) < stop")
    case True
    then show ?thesis using None assms by (simp add: prefix_at_def)
  next
    case False
    obtain r c' where run: "advance E (stop - hp_next c) c = (r, c')" by fastforce
    note ok = advance_ok [OF follows None, of "stop - hp_next c", unfolded run]
    show ?thesis
    proof (cases r)
      case (Inl error)
      then obtain n fold_error where n: "n < stop" "error = PrefixFold fold_error" "hp_poisoned c' = Some fold_error"
        "from_events E (take (Suc n) (hp_events c)) = Inl fold_error" "hp_events c' = hp_events c"
        using ok False by auto
      have "n < length (hp_events c')" using n False by simp
      then have "cursor_ok E c'" using n(3-5) by (auto simp: cursor_ok_def)
      moreover have "from_events E (take stop (hp_events c)) = Inl fold_error"
        using from_events_error [OF n(4)] n(1) by simp
      ultimately show ?thesis using None False run Inl n by (simp add: prefix_at_def)
    next
      case (Inr u)
      then show ?thesis using None False run ok by (simp add: prefix_at_def)
    qed
  qed
qed (use assms in \<open>simp add: prefix_at_def\<close>)

lemma ensure_latest_ok:
  assumes "cursor_follows E c"
  shows "cursor_follows E (ensure_latest c)" "p_status (hp_projection c) = RunStatus_Running \<longrightarrow> hp_latest (ensure_latest c) \<noteq> None"
    and "hp_state (ensure_latest c) = hp_state c" "hp_events (ensure_latest c) = hp_events c"
    "hp_next (ensure_latest c) = hp_next c" "hp_poisoned (ensure_latest c) = hp_poisoned c"
  using assms newest_collect by (auto simp: ensure_latest_def cursor_follows_def frontier_follows_def)

lemma ensure_frontier_ok:
  assumes c: "cursor_follows E c" "p_status (hp_projection c) = RunStatus_Running \<longrightarrow> hp_latest c \<noteq> None"
  obtains c' where "ensure_frontier c = Inr c'" "cursor_follows E c'" "hp_state c' = hp_state c"
    "hp_events c' = hp_events c" "hp_next c' = hp_next c" "hp_poisoned c' = hp_poisoned c"
proof (cases "hp_frontier c = None \<and> p_status (hp_projection c) = RunStatus_Running")
  case True
  then obtain latest where latest: "hp_latest c = Some latest" using c(2) by auto
  have newest: "newest_ok (p_attempts (hp_projection c)) latest" using c(1) latest by (simp add: cursor_follows_def)
  show ?thesis
  proof (cases "hp_frontier_definition c")
    case None
    then show ?thesis using c(1) by (intro that [of c]) (simp_all add: ensure_frontier_def)
  next
    case (Some d)
    obtain workflow hash where d: "d = (workflow, hash)" by fastforce
    have drop: "cursor_follows E (invalidate_frontier c)" using c(1) by (simp add: cursor_follows_def invalidate_frontier_def)
    show ?thesis
    proof (cases "readiness_binding workflow hash (hp_projection c) = Inr True")
      case False
      then show ?thesis using c(1) Some d by (intro that [of c]) (simp_all add: ensure_frontier_def)
    next
      case bound: True
      from frontier_new_cases [OF newest, of workflow] show ?thesis
      proof (elim disjE exE conjE)
        assume "frontier_new workflow (hp_projection c) latest = Inr None"
        then show ?thesis
          using True Some d latest bound drop
          by (intro that [of "invalidate_frontier c"]) (simp_all add: ensure_frontier_def, simp_all add: invalidate_frontier_def)
      next
        fix f
        assume f: "frontier_new workflow (hp_projection c) latest = Inr (Some f)" "frontier_ok f (hp_projection c)"
          "fr_definition f = workflow"
        then have "cursor_follows E (c\<lparr>hp_frontier := Some f\<rparr>)"
          using c(1) True Some d latest by (simp add: cursor_follows_def frontier_follows_def)
        then show ?thesis
          using True Some d latest bound f(1)
          by (intro that [of "c\<lparr>hp_frontier := Some f\<rparr>"]) (simp_all add: ensure_frontier_def)
      qed
    qed
  qed
next
  case False
  then show ?thesis using c(1) by (intro that [of c]) (auto simp: ensure_frontier_def)
qed

definition view_of :: "history_prefix \<Rightarrow> readiness_prefix" where
  "view_of c = \<lparr>rp_projection = hp_projection c, rp_latest = hp_latest c, rp_frontier = hp_frontier c\<rparr>"

lemma prefix_query_ok:
  assumes "cursor_ok E c"
  shows "case prefix_query_at E stop c of
      (Inl error, c') \<Rightarrow> prefix_at E stop c = (Inl error, c')
    | (Inr view, c') \<Rightarrow> cursor_follows E c' \<and> hp_poisoned c' = None \<and> hp_events c' = hp_events c
        \<and> hp_next c' = stop \<and> view = view_of c'"
proof -
  obtain r c1 where run: "prefix_at E stop c = (r, c1)" by fastforce
  note ok = prefix_at_ok [OF assms, of stop, unfolded run]
  show ?thesis
  proof (cases r)
    case (Inl error)
    then show ?thesis using run by (simp add: prefix_query_at_def)
  next
    case (Inr p)
    then have follows: "cursor_follows E c1" using ok by simp
    note latest = ensure_latest_ok [OF follows]
    obtain c' where "ensure_frontier (ensure_latest c1) = Inr c'" "cursor_follows E c'" "hp_state c' = hp_state c1"
      "hp_events c' = hp_events c1" "hp_next c' = hp_next c1" "hp_poisoned c' = hp_poisoned c1"
      using ensure_frontier_ok [OF latest(1)] latest(2-) by metis
    then show ?thesis using ok run Inr by (simp add: prefix_query_at_def view_of_def)
  qed
qed

section \<open>The queries through the cursor\<close>

lemma view_latest:
  assumes "cursor_follows E c"
  shows "prefix_latest_attempt (view_of c) = (\<lambda>k. Inr (latest_attempt (hp_projection c) k))"
proof (cases "hp_latest c")
  case None
  then show ?thesis by (simp add: prefix_latest_attempt_def view_of_def fun_eq_iff)
next
  case (Some latest)
  then have newest: "newest_ok (p_attempts (hp_projection c)) latest" using assms by (simp add: cursor_follows_def)
  show ?thesis
    using newest_latest(1) [OF newest] Some
    by (auto simp: prefix_latest_attempt_def view_of_def fun_eq_iff not_le split: option.splits
        dest: newest_latest(2) [OF newest])
qed

lemma view_frontier:
  assumes "cursor_follows E c" "hp_frontier c = Some f"
  shows "frontier_ok f (hp_projection c)" "p_choice_selections (hp_projection c) = bt_empty"
  using assms supported_choices [of E "take (hp_next c) (hp_events c)" "hp_state c"]
  by (auto simp: cursor_follows_def frontier_follows_def)

context definition_index
begin

lemma prefix_query:
  assumes c: "cursor_follows E c" and same: "\<And>a b. ptr_eq a b \<Longrightarrow> a = b"
  shows "ready_from_prefix_at ptr_eq g hash (view_of c) now = ready_at g hash (hp_projection c) now"
    and "is_ready_from_prefix_at ptr_eq g hash (view_of c) now node = is_ready_at g hash (hp_projection c) now node"
proof -
  have latest: "prefix_latest_attempt (view_of c) = current_latest (hp_projection c)"
    using view_latest [OF c] by (simp add: current_latest_def latest_attempts_eq fun_eq_iff)
  have "ready_vector g (hp_projection c) (current_latest (hp_projection c)) now = Inr (frontier_ready_at f now)
      \<and> ready_member g (hp_projection c) (current_latest (hp_projection c)) now node = Inr (frontier_contains f node now)"
    if "frontier_for ptr_eq (view_of c) workflow = Some f" for f
  proof -
    have f: "hp_frontier c = Some f" "fr_definition f = workflow"
      using that same by (auto simp: frontier_for_def view_of_def bind_eq_Some_conv split: if_splits)
    note ok = view_frontier [OF c f(1)]
    show ?thesis
      using frontier_query [OF ok(1) f(2) ok(2)] frontier_member [OF ok(1) f(2) ok(2)]
      by (simp add: current_latest_def latest_attempts_eq)
  qed
  then show "ready_from_prefix_at ptr_eq g hash (view_of c) now = ready_at g hash (hp_projection c) now"
    and "is_ready_from_prefix_at ptr_eq g hash (view_of c) now node = is_ready_at g hash (hp_projection c) now node"
    using latest
    by (auto simp: ready_from_prefix_at_def ready_at_def is_ready_from_prefix_at_def is_ready_at_def graph_workflow
        view_of_def intro!: arg_cong2 [where f = and_then] split: option.splits)
qed

end

text \<open>The cursors a caller can hold: a new one, and one left by a call.\<close>

inductive cursor_of :: "externals \<Rightarrow> run_event list \<Rightarrow> history_prefix \<Rightarrow> bool" for E events where
  new: "cursor_of E events (history_prefix_new events)"
| with_definition: "cursor_of E events (history_prefix_with_definition events workflow hash)"
| at: "cursor_of E events c \<Longrightarrow> cursor_of E events (snd (prefix_at E stop c))"
| query_at: "cursor_of E events c \<Longrightarrow> cursor_of E events (snd (prefix_query_at E stop c))"

lemma cursor_of_ok:
  assumes "cursor_of E events c"
  shows "cursor_ok E c \<and> hp_events c = events"
  using assms
proof induction
  case (at c stop)
  obtain r c' where run: "prefix_at E stop c = (r, c')" by fastforce
  then show ?case
    using prefix_at_ok [of E c stop] at.IH by (cases r) (simp_all add: cursor_ok_def)
next
  case (query_at c stop)
  obtain r c' where run: "prefix_query_at E stop c = (r, c')" by fastforce
  show ?case
  proof (cases r)
    case (Inl error)
    then show ?thesis
      using prefix_query_ok [of E c stop] prefix_at_ok [of E c stop] query_at.IH run by simp
  next
    case (Inr view)
    then show ?thesis using prefix_query_ok [of E c stop] query_at.IH run by (simp add: cursor_ok_def)
  qed
qed (simp_all add: cursor_ok_def cursor_follows_def history_prefix_new_def history_prefix_with_definition_def)

end
