(* ===== verification/Sample_Workflow.thy ===== *)
theory Sample_Workflow
  imports Prefix_Facts Sample_Histories
begin

text \<open>
  A definition of two scripts, the second after the first, and a run of it: the first
  step is started, fails, is retried and succeeds, and the second is started.
\<close>

definition script_node :: "string \<Rightarrow> compiled_workflow_node" where
  "script_node key =
    \<lparr>nd_id = key, nd_handler = ''runtime.script'', nd_inputs = ValueExpression_Object [], nd_timeout_ms = None,
     nd_retry_policy = None, nd_script_runtime = None, nd_execution = None, nd_metadata = None\<rparr>"

definition plain_edge :: "string \<Rightarrow> string \<Rightarrow> compiled_workflow_edge" where
  "plain_edge a b =
    \<lparr>ed_id = a @ b, ed_from = a, ed_to = b, ed_condition = EdgeCondition_Always, ed_branch_id = None,
     ed_parallel_id = None, ed_approval_id = None\<rparr>"

definition sample_workflow :: compiled_workflow_definition where
  "sample_workflow =
    \<lparr>wd_schema_version = 6, wd_workflow_id = ''w'', wd_metadata = None, wd_triggers = [],
     wd_graph =
       \<lparr>gr_entry_node_ids = [''s''], gr_nodes = [script_node ''s'', script_node ''t''],
        gr_edges = [plain_edge ''s'' ''t''], gr_forks = None, gr_choices = None,
        gr_context_visibility = None, gr_settlement = None, gr_for_each = None, gr_waits = None,
        gr_locks = None, gr_sagas = None\<rparr>,
     wd_module_runtime = None, wd_lifecycle = None, wd_runtime_policy = None,
     wd_reusable_definitions = None, wd_communication = None\<rparr>"

definition step_event :: "string \<Rightarrow> u64 \<Rightarrow> run_event_payload \<Rightarrow> run_event" where
  "step_event = sample_event 6"

definition started_run :: "run_event list" where
  "started_run =
    [step_event ''1'' 1 (RunStarted
       \<lparr>rst_workflow_id = ''w'', rst_definition_hash = sample_digest, rst_trigger_id = None,
        rst_trigger_handler = None, rst_trigger_occurrence_id = None, rst_ingress = None, rst_trigger = []\<rparr>)]"

definition first_step :: "run_event list" where
  "first_step =
    [step_event ''2'' 2 (sample_attempt 1 ''i''),
     step_event ''3'' 3 (StepAttemptFailed
       \<lparr>saf_node_id = ''s'', saf_attempt = 1, saf_invocation_id = ''i'', saf_failure = sample_failure\<rparr>),
     step_event ''4'' 4 (StepRetryScheduled
       \<lparr>srs_node_id = ''s'', srs_failed_attempt = 1, srs_next_attempt = 2, srs_scheduled_at = 5\<rparr>),
     step_event ''5'' 5 (sample_attempt 2 ''j''),
     step_event ''6'' 6 (StepAttemptSucceeded
       \<lparr>sasu_node_id = ''s'', sasu_attempt = 2, sasu_invocation_id = ''j'', sasu_output = JNull\<rparr>)]"

definition second_start :: step_attempt_started_data where
  "second_start =
    \<lparr>sast_node_id = ''t'', sast_attempt = 1, sast_invocation_id = ''k'', sast_handler = ''h'',
     sast_idempotency_key = Some sample_digest\<rparr>"

definition second_attempt :: run_event where
  "second_attempt = step_event ''7'' 7 (StepAttemptStarted second_start)"

declare
  step_event_def [evaluate] started_run_def [evaluate] first_step_def [evaluate] second_attempt_def [evaluate]
  second_start_def [evaluate]
  validate_run_started_def [evaluate] no_trigger_identity_def [evaluate] apply_run_started_def [evaluate]

lemma started_run_folds:
  "\<exists>state. from_events sample_externals started_run = Inr state
    \<and> p_status (fs_projection state) = RunStatus_Running"
  by (simp add: evaluate)

lemma first_step_folds:
  "\<exists>state. from_events sample_externals (started_run @ first_step) = Inr state
    \<and> p_status (fs_projection state) = RunStatus_Running
    \<and> p_run_id (fs_projection state) = Some ''r''
    \<and> p_event_schema_version (fs_projection state) = Some 6
    \<and> p_workflow_id (fs_projection state) = Some ''w''
    \<and> p_definition_hash (fs_projection state) = Some sample_digest
    \<and> p_last_sequence (fs_projection state) = 6
    \<and> (ai_invocation_id \<circ> ap_identity) ` set (p_attempts (fs_projection state)) = {''i'', ''j''}
    \<and> latest_attempt (fs_projection state) ''t'' = None
    \<and> first_idempotency_key (fs_projection state) ''t'' = None
    \<and> p_choice_selections (fs_projection state) = bt_empty
    \<and> has_output (fs_projection state) ''s'' \<and> \<not> has_output (fs_projection state) ''t''"
  by (simp add: evaluate obj_contains_def)

lemma second_attempt_valid: "validate_event sample_externals second_attempt = Inr ()"
  by (simp add: evaluate)

lemma edge_is_active_plain [simp]:
  "p_choice_selections p = bt_empty \<Longrightarrow> edge_is_active (plain_edge ''s'' ''t'') p"
  by (simp add: edge_is_active_def plain_edge_def starts_with_def)

lemma sample_active:
  assumes "p_choice_selections p = bt_empty"
  shows "active_node_ids (readiness_graph_new sample_workflow) p = {''s'', ''t''}"
  using assms
  by (simp add: active_node_ids_def borrowed.graph_workflow borrowed.outgoing_edges sample_workflow_def)
    (simp add: plain_edge_def insert_commute)

lemma sample_fields [simp]:
  "wd_workflow_id sample_workflow = ''w''"
  "gr_nodes (wd_graph sample_workflow) = [script_node ''s'', script_node ''t'']"
  "gr_edges (wd_graph sample_workflow) = [plain_edge ''s'' ''t'']"
  "wf_node sample_workflow ''s'' = Some (script_node ''s'')"
  by (simp_all add: sample_workflow_def wf_node_def script_node_def)

lemma script_node_complete [simp]:
  "nd_id (script_node k) = k" "nd_handler (script_node k) = ''runtime.script''"
  "graph_complete g p (script_node k) = Inr (has_output p k)"
  by (simp_all add: script_node_def graph_complete_def complete_fuel_def node_is_complete.simps)

lemma second_step_ready:
  assumes "p_choice_selections p = bt_empty" "p_status p = RunStatus_Running" "p_workflow_id p = Some ''w''"
    "p_definition_hash p = Some h" "has_output p ''s''" "\<not> has_output p ''t''" "latest_attempt p ''t'' = None"
  shows "ready_node_ids_for_projection_at sample_workflow h p now = Inr [''t'']"
  using assms
  by (simp add: ready_node_ids_eq ready_at_def borrowed.graph_workflow readiness_binding_def ready_vector_def
      candidate_is_ready_def sample_active attempt_permits_def current_latest_def latest_attempts_eq
      borrowed.incoming_edges borrowed.node_first)
    (simp add: plain_edge_def)

end
