(* ===== verification/Engine_Guarantees.thy ===== *)
theory Engine_Guarantees
  imports Event_Store Sample_Workflow
begin

text \<open>
  What the engine guarantees around the fold: the store of the runs, the readiness of the
  nodes of a definition and the cursor over a history.
\<close>

section \<open>The store of the runs\<close>

text \<open>
  C26.  What an append to a store answers, for every store that appends have built: an
  event whose identifier any run already has is a duplicate; else the answer is the fold of
  the log of its run with the event added, and an append that fails changes nothing.
\<close>

theorem store_append_decides:
  assumes "store_append_all E default_store es = Some s"
  shows "store_append E s e =
    (if ev_event_id e \<in> ev_event_id ` set es
     then (Inl (EventStoreError_DuplicateEventId (ev_event_id e)), s)
     else case fold_events E (filter (\<lambda>x. ev_run_id x = ev_run_id e) es @ [e]) of
       Inl error \<Rightarrow> (Inl (EventStoreError_InvalidHistory error), s)
     | Inr p \<Rightarrow> (Inr p, the (store_append_all E default_store (es @ [e]))))"
proof -
  have all: "store.append_all E default_store es = Some s" using assms by (simp add: store_append_all_eq)
  note ok = store.schedule_ok [OF all] and logs = store.schedule_log [OF all]
  have fresh: "(\<exists>r. ev_event_id e \<in> ev_event_id ` set (store_events s r)) \<longleftrightarrow> ev_event_id e \<in> ev_event_id ` set es"
    by (auto simp: logs)
  have snoc: "store_append_all E default_store (es @ [e]) =
      (if is_ok (fst (store_append E s e)) then Some (snd (store_append E s e)) else None)"
    using all by (simp add: store_append_all_eq store.append_all_snoc)
  show ?thesis
    using store_append_result [OF ok, of e, unfolded fresh logs] store_append_refused [of E s e] snoc
    by (auto simp: prod_eq_iff split: sum.splits)
qed

theorem store_append_decides_witness:
  "\<exists>s. store_append_all sample_externals default_store started_run = Some s
    \<and> fst (store_append sample_externals s (hd started_run)) = Inl (EventStoreError_DuplicateEventId ''1'')"
proof -
  obtain s where s: "store_append_all sample_externals default_store started_run = Some s"
    by (simp add: evaluate store_append_def default_store_def store_candidate_def)
  then show ?thesis
    using store_append_decides [OF s, of "hd started_run"] by (simp add: started_run_def step_event_def sample_event_def)
qed

text \<open>
  C27.  How the appends of several runs interleave does not matter: two schedules that have
  the events of every run in the same order are accepted together, and then leave the same
  store.
\<close>

theorem stores_forget_interleaving:
  assumes "\<And>r. filter (\<lambda>e. ev_run_id e = r) xs = filter (\<lambda>e. ev_run_id e = r) ys"
  shows "store_append_all E default_store xs = store_append_all E default_store ys"
proof (cases "store_append_all E default_store xs")
  case None
  then show ?thesis
    using store.schedule_accepted store.accepts_interleaving [OF assms] by (metis store_append_all_eq)
next
  case (Some s)
  then obtain t where t: "store_append_all E default_store ys = Some t"
    using store.schedule_accepted store.accepts_interleaving [OF assms] by (metis store_append_all_eq not_None_eq)
  note some = Some [unfolded store_append_all_eq] t [unfolded store_append_all_eq]
  have "store_events s = store_events t"
    using store.schedule_log [OF some(1)] store.schedule_log [OF some(2)] assms by (simp add: fun_eq_iff)
  then have "s = t" using store.schedule_ok [OF some(1)] store.schedule_ok [OF some(2)] by (intro store_determined)
  then show ?thesis using Some t by simp
qed

text \<open>Two runs that start, in either order.\<close>

definition other_run :: run_event where
  "other_run = (hd started_run)\<lparr>ev_event_id := ''x'', ev_run_id := ''q''\<rparr>"

theorem stores_forget_interleaving_witness:
  "store_append_all sample_externals default_store (started_run @ [other_run])
    = store_append_all sample_externals default_store (other_run # started_run)"
  by (rule stores_forget_interleaving) (auto simp: other_run_def started_run_def step_event_def sample_event_def)

section \<open>Readiness\<close>

text \<open>
  C28.  The active nodes of a run are the nodes its active edges reach from the entries of
  the definition.
\<close>

theorem active_nodes_are_reachable:
  "n \<in> active_node_ids (readiness_graph_new workflow) p \<longleftrightarrow>
    (\<exists>entry. entry \<in> set (gr_entry_node_ids (wd_graph workflow)) \<and> (entry, n) \<in> (active_edges workflow p)\<^sup>*)"
  by (auto simp: borrowed.active_node_ids_reachable)

text \<open>
  C29.  A prepared definition, which computes its topology once and keeps it, gives after
  any queries the answer the definition gives without preparation.
\<close>

theorem prepared_queries_agree:
  "fst (definition_ready_at
      (fold (\<lambda>(hash, p, now) owner. snd (definition_ready_at owner hash p now)) queries
        (readiness_definition_new workflow)) hash p now)
    = ready_node_ids_for_projection_at workflow hash p now"
proof -
  let ?after = "\<lambda>queries. fold (\<lambda>(hash, p, now) owner. snd (definition_ready_at owner hash p now)) queries"
  have "topology_ok (?after queries owner) \<and> rd_workflow (?after queries owner) = rd_workflow owner"
    if "topology_ok owner" for owner
    using that definition_ready_eq(2,3) by (induction queries arbitrary: owner) auto
  from this [of "readiness_definition_new workflow"]
  have "topology_ok (?after queries (readiness_definition_new workflow))"
    "rd_workflow (?after queries (readiness_definition_new workflow)) = workflow"
    by (auto simp: readiness_definition_new_def topology_ok_def)
  then show ?thesis using definition_ready_eq(1) by metis
qed

text \<open>
  C30.  On a graph without cycles the query of the ready nodes returns: it refuses a run
  that is not bound to the definition, or lists nodes, and then the membership query
  answers for every node whether it is in the list.
\<close>

theorem readiness_returns:
  assumes "acyclic (graph_edges workflow)"
  shows "ready_node_ids_for_projection_at workflow hash p now = Inl NotBound
    \<or> (\<exists>ids. ready_node_ids_for_projection_at workflow hash p now = Inr ids
        \<and> (\<forall>n. is_ready_at (readiness_graph_new workflow) hash p now n = Inr (n \<in> set ids)))"
proof (cases "readiness_binding workflow hash p")
  case (Inl error)
  then have "error = NotBound" by (auto simp: readiness_binding_def split: if_splits)
  then show ?thesis using Inl by (simp add: ready_node_ids_for_projection_at_def)
next
  case (Inr bound)
  then have "is_ok (ready_at (readiness_graph_new workflow) hash p now)"
    using borrowed.ready_at_returns [OF assms] by simp
  then show ?thesis by (auto simp: ready_node_ids_eq is_ok_iff ready_at_member)
qed

lemma sample_acyclic: "acyclic (graph_edges sample_workflow)"
proof -
  have "graph_edges sample_workflow = {(''s'', ''t'')}" by (simp add: graph_edges_def plain_edge_def)
  moreover have "acyclic {}" by (simp add: acyclic_def)
  ultimately show ?thesis by (simp add: acyclic_insert)
qed

theorem readiness_returns_witness:
  "is_ok (ready_node_ids_for_projection_at sample_workflow sample_digest empty_projection 0)"
  using readiness_returns [OF sample_acyclic, of sample_digest empty_projection 0]
  by (auto simp: ready_node_ids_for_projection_at_def readiness_binding_def empty_projection_def)

text \<open>
  C31.  A ready node can be started: the event that starts its next attempt no earlier than
  the query folds, when it is well formed, continues the history of the run and carries a
  new invocation and the idempotency key of the node.
\<close>

theorem ready_steps_can_start:
  assumes "from_events E es = Inr state" and p: "p = fs_projection state"
    and "ready_node_ids_for_projection_at workflow hash p now = Inr ids" "sast_node_id d \<in> set ids"
    and "ev_payload e = StepAttemptStarted d" "ev_iteration e = None" "validate_event E e = Inr ()"
    and "p_run_id p = Some (ev_run_id e)" "p_event_schema_version p = Some (version e)" "6 \<le> version e"
    and "ev_sequence e = p_last_sequence p + 1" "ev_event_id e \<notin> ev_event_id ` set es" "now \<le> ev_occurred_at e"
    and "sast_invocation_id d \<notin> (ai_invocation_id \<circ> ap_identity) ` set (p_attempts p)"
    and "sast_attempt d = next_attempt p (sast_node_id d)"
    and "is_none_or (first_idempotency_key p (sast_node_id d)) (\<lambda>k. sast_idempotency_key d = Some k)"
  shows "is_ok (from_events E (es @ [e]))"
proof -
  obtain node where node: "p_status p = RunStatus_Running" "nd_id node = sast_node_id d"
    "candidate_is_ready (readiness_graph_new workflow) p now (active_node_ids (readiness_graph_new workflow) p)
      (current_latest p) node = Inr True"
    using assms(3,4) unfolding ready_node_ids_eq by (rule ready_at_candidate)
  have "attempts_sound p (fs_attempt_indexes state)" using attempts.holds [OF assms(1)] p by simp
  then obtain q ix where "apply_step_attempt_started p e d (fs_attempt_indexes state) = Inr (q, ix)"
    using start_accepted [OF node(1) _ assms(9,10,10) candidate_permits(1) [OF node(3), unfolded node(2)]
      assms(13,14,15,16)] by blast
  then have "apply_transition E state e = Inr (q, ix)"
    using assms(5,6) p by (simp add: apply_transition_def)
  moreover have "gate_open E state e"
    using assms(7,8,9,11,12) node(1) shape.holds [OF assms(1)] p
    by (simp add: gate_open_def history_shape_def is_none_or_iff is_terminal_def)
  ultimately show ?thesis using assms(1) by (auto simp: from_events_snoc is_ok_iff apply_event_Inr_iff)
qed

theorem ready_steps_can_start_witness:
  "is_ok (from_events sample_externals ((started_run @ first_step) @ [second_attempt]))"
proof -
  obtain state where state: "from_events sample_externals (started_run @ first_step) = Inr state"
    and fields: "p_status (fs_projection state) = RunStatus_Running" "p_run_id (fs_projection state) = Some ''r''"
      "p_event_schema_version (fs_projection state) = Some 6" "p_workflow_id (fs_projection state) = Some ''w''"
      "p_definition_hash (fs_projection state) = Some sample_digest" "p_last_sequence (fs_projection state) = 6"
      "(ai_invocation_id \<circ> ap_identity) ` set (p_attempts (fs_projection state)) = {''i'', ''j''}"
      "latest_attempt (fs_projection state) ''t'' = None" "first_idempotency_key (fs_projection state) ''t'' = None"
      "p_choice_selections (fs_projection state) = bt_empty"
      "has_output (fs_projection state) ''s''" "\<not> has_output (fs_projection state) ''t''"
    using first_step_folds by blast
  have ready: "ready_node_ids_for_projection_at sample_workflow sample_digest (fs_projection state) 7 = Inr [''t'']"
    using fields by (intro second_step_ready)
  show ?thesis
    by (rule ready_steps_can_start [OF state refl ready, of second_start])
      (simp_all add: second_attempt_valid, simp_all add: fields [unfolded comp_def] next_attempt_def second_start_def
        second_attempt_def step_event_def sample_event_def started_run_def first_step_def)
qed

section \<open>The cursor\<close>

text \<open>
  C32.  The cursor over a history, with its frontier and its table of attempts kept from
  call to call, answers a query at a prefix as the fold of that prefix does: the view has
  the projection of the prefix, the list of the ready nodes is the full query on it, and
  membership in it too.
\<close>

theorem cursor_queries_are_folds:
  assumes "cursor_of E events c" "prefix_query_at E stop c = (Inr view, c')"
    and same: "\<And>a b. ptr_eq a b \<Longrightarrow> a = b"
  shows "fold_events E (take stop events) = Inr (rp_projection view)
    \<and> ready_from_prefix_at ptr_eq (readiness_graph_new workflow) hash view now
        = ready_node_ids_for_projection_at workflow hash (rp_projection view) now
    \<and> is_ready_from_prefix_at ptr_eq (readiness_graph_new workflow) hash view now n
        = is_ready_at (readiness_graph_new workflow) hash (rp_projection view) now n"
proof -
  have c: "cursor_ok E c" "hp_events c = events" using cursor_of_ok [OF assms(1)] by simp_all
  have c': "cursor_follows E c'" "hp_events c' = events" "hp_next c' = stop" "view = view_of c'"
    using prefix_query_ok [OF c(1), of stop] assms(2) c(2) by simp_all
  then have "fold_events E (take stop events) = Inr (rp_projection view)"
    by (simp add: cursor_follows_def fold_events_def view_of_def)
  then show ?thesis
    using borrowed.prefix_query [OF c'(1) same] by (simp add: c'(4) view_of_def ready_node_ids_eq)
qed

text \<open>A cursor bound to the definition, asked at the prefix that ends with the first step.\<close>

abbreviation sample_cursor :: history_prefix where
  "sample_cursor \<equiv> history_prefix_with_definition (started_run @ first_step) sample_workflow sample_digest"

lemma sample_cursor_query:
  "\<exists>view c'. prefix_query_at sample_externals 6 sample_cursor = (Inr view, c')"
proof -
  have c: "cursor_ok sample_externals sample_cursor"
    using cursor_of_ok [OF cursor_of.with_definition] by blast
  have length: "length (started_run @ first_step) = 6" by (simp add: started_run_def first_step_def)
  obtain state where state: "from_events sample_externals (started_run @ first_step) = Inr state"
    using first_step_folds by blast
  have fields: "hp_poisoned sample_cursor = None" "hp_next sample_cursor = 0"
    "hp_events sample_cursor = started_run @ first_step"
    by (simp_all add: history_prefix_with_definition_def history_prefix_new_def)
  obtain r c' where run: "prefix_query_at sample_externals 6 sample_cursor = (r, c')" by fastforce
  show ?thesis
  proof (cases r)
    case (Inl error)
    then have "prefix_at sample_externals 6 sample_cursor = (Inl error, c')"
      using prefix_query_ok [OF c, of 6] run by simp
    then show ?thesis using prefix_at_ok [OF c, of 6] fields length state by auto
  next
    case (Inr view)
    then show ?thesis using run by simp
  qed
qed

theorem cursor_queries_are_folds_witness:
  "\<exists>view c'. prefix_query_at sample_externals 6 sample_cursor = (Inr view, c')
    \<and> fold_events sample_externals (take 6 (started_run @ first_step)) = Inr (rp_projection view)"
proof -
  obtain view c' where query: "prefix_query_at sample_externals 6 sample_cursor = (Inr view, c')"
    using sample_cursor_query by blast
  then show ?thesis
    using cursor_queries_are_folds [OF cursor_of.with_definition query, of "(=)"] by simp
qed

text \<open>
  C33.  Why a query through a cursor fails.  A cursor that has met an event that does not
  fold answers every later query with that first error, which is the error of the fold of the
  whole history.  Any other cursor fails exactly when the bound is behind it or past the
  history, or when the prefix does not fold, and then with the error of the fold: the tables
  of the cursor never make it panic.
\<close>

theorem cursor_errors_are_fold_errors:
  assumes "cursor_of E events c"
  shows "(case fst (prefix_query_at E stop c) of Inl error \<Rightarrow> Some error | Inr view \<Rightarrow> None) =
    (case hp_poisoned c of
       Some error \<Rightarrow> Some (PrefixFold error)
     | None \<Rightarrow>
         if stop < hp_next c \<or> length events < stop then Some PrefixBounds
         else case fold_events E (take stop events) of Inl error \<Rightarrow> Some (PrefixFold error) | Inr p \<Rightarrow> None)
    \<and> (\<forall>error. hp_poisoned c = Some error \<longrightarrow> fold_events E events = Inl error)"
proof -
  have c: "cursor_ok E c" "hp_events c = events" using cursor_of_ok [OF assms(1)] by simp_all
  obtain r c' where run: "prefix_query_at E stop c = (r, c')" by fastforce
  note query = prefix_query_ok [OF c(1), of stop, unfolded run] and at = prefix_at_ok [OF c(1), of stop]
  show ?thesis
  proof (cases "hp_poisoned c")
    case (Some error)
    then obtain n where "n < length events" "from_events E (take (Suc n) events) = Inl error"
      using c by (auto simp: cursor_ok_def)
    then have "from_events E (take (length events) events) = Inl error"
      using from_events_error [of E "Suc n" events error "length events"] by simp
    then show ?thesis using Some by (simp add: prefix_query_at_def prefix_at_def fold_events_def)
  next
    case None
    have bounds: "prefix_at E stop c = (Inl PrefixBounds, c)" if "stop < hp_next c \<or> length events < stop"
      using that None c(2) by (auto simp: prefix_at_def)
    have "(case fst (prefix_query_at E stop c) of Inl error \<Rightarrow> Some error | Inr view \<Rightarrow> None) =
      (if stop < hp_next c \<or> length events < stop then Some PrefixBounds
       else case fold_events E (take stop events) of Inl error \<Rightarrow> Some (PrefixFold error) | Inr p \<Rightarrow> None)"
    proof (cases r)
      case (Inl error)
      then show ?thesis
        using query at bounds run None c(2) by (auto simp: fold_events_def prefix_query_at_def)
    next
      case (Inr view)
      then show ?thesis
        using query bounds run c(2) by (auto simp: fold_events_def cursor_follows_def prefix_query_at_def)
    qed
    with None show ?thesis by simp
  qed
qed

theorem cursor_errors_are_fold_errors_witness:
  "fst (prefix_query_at sample_externals 7 sample_cursor) = Inl PrefixBounds"
proof -
  have fields: "hp_poisoned sample_cursor = None" "length (started_run @ first_step) < 7"
    by (simp_all add: history_prefix_with_definition_def history_prefix_new_def started_run_def first_step_def)
  have cursor: "cursor_of sample_externals (started_run @ first_step) sample_cursor"
    by (rule cursor_of.with_definition)
  have "(case fst (prefix_query_at sample_externals 7 sample_cursor) of Inl error \<Rightarrow> Some error | Inr view \<Rightarrow> None)
      = Some PrefixBounds"
    using cursor_errors_are_fold_errors [OF cursor, of 7] fields by simp
  then show ?thesis by (simp split: sum.splits)
qed

end
