(* ===== verification/Approval_Definition.thy ===== *)
theory Approval_Definition
  imports Workflow_Model
begin

text \<open>
  The approvals of a definition (\<^verbatim>\<open>model/queries.rs\<close>, \<^verbatim>\<open>model/approval_validation.rs\<close>) with
  the predicates on their notifications (\<^verbatim>\<open>model/validation.rs\<close>,
  \<^verbatim>\<open>model/trigger_validation.rs\<close>, \<^verbatim>\<open>model/lifecycle_validation.rs\<close>).
\<close>

section \<open>Destinations and credentials\<close>

definition is_digit_text :: "nat \<Rightarrow> nat \<Rightarrow> string \<Rightarrow> bool" where
  "is_digit_text least most value \<longleftrightarrow>
    least \<le> length value \<and> length value \<le> most \<and> list_all is_ascii_digit value"

definition valid_secret_name :: "string \<Rightarrow> bool" where
  "valid_secret_name value = (case value of
     [] \<Rightarrow> False
   | first # rest \<Rightarrow> is_ascii_uppercase first
       \<and> list_all (\<lambda>c. is_ascii_uppercase c \<or> is_ascii_digit c \<or> c = CHR ''_'') rest)"

definition valid_reusable_alias :: "string \<Rightarrow> bool" where
  "valid_reusable_alias value \<longleftrightarrow>
    list_all (\<lambda>part. part \<noteq> [] \<and> is_ascii_lowercase (hd part)
        \<and> list_all (\<lambda>c. is_ascii_lowercase c \<or> is_ascii_digit c) part)
      (split_on [CHR ''-''] value)
    \<and> length value \<le> 128"

definition valid_slack_destination :: "string \<Rightarrow> bool" where
  "valid_slack_destination value = (case strip_prefix ''#'' value of
     Some alias \<Rightarrow> alias \<noteq> [] \<and> length alias \<le> 80
       \<and> list_all (\<lambda>(index, c). is_ascii_lowercase c \<or> is_ascii_digit c
            \<or> 0 < index \<and> (c = CHR ''_'' \<or> c = CHR ''-'')) (List.enumerate 0 alias)
   | None \<Rightarrow> 9 \<le> length value \<and> length value \<le> 32
       \<and> (hd value = CHR ''C'' \<or> hd value = CHR ''G'')
       \<and> list_all (\<lambda>c. is_ascii_uppercase c \<or> is_ascii_digit c) (tl value))"

definition valid_discord_snowflake :: "string \<Rightarrow> bool" where
  "valid_discord_snowflake value = is_digit_text 17 20 value"

definition valid_whatsapp_phone_number_id :: "string \<Rightarrow> bool" where
  "valid_whatsapp_phone_number_id value \<longleftrightarrow> is_digit_text 6 20 value \<and> \<not> starts_with ''0'' value"

definition valid_whatsapp_recipient :: "string \<Rightarrow> bool" where
  "valid_whatsapp_recipient value \<longleftrightarrow> is_digit_text 8 16 value \<and> \<not> starts_with ''0'' value"

definition valid_whatsapp_template :: "string \<Rightarrow> bool" where
  "valid_whatsapp_template value \<longleftrightarrow> value \<noteq> []
    \<and> list_all (\<lambda>c. is_ascii_lowercase c \<or> is_ascii_digit c \<or> c = CHR ''_'') value"

definition valid_whatsapp_language :: "string \<Rightarrow> bool" where
  "valid_whatsapp_language value \<longleftrightarrow>
    length value \<in> {2, 3} \<and> list_all is_ascii_lowercase value
    \<or> length value \<in> {5, 6} \<and> list_all is_ascii_lowercase (take (length value - 3) value)
      \<and> value ! (length value - 3) = CHR ''_''
      \<and> list_all is_ascii_uppercase (drop (length value - 2) value)"

definition valid_telegram_destination :: "string \<Rightarrow> bool" where
  "valid_telegram_destination value \<longleftrightarrow> value \<noteq> [] \<and> length value \<le> 20
    \<and> list_all is_ascii_digit (case strip_prefix ''-'' value of Some digits \<Rightarrow> digits | None \<Rightarrow> value)"

type_synonym expression_fields = "(string \<times> value_expression) list"

definition literal_string :: "value_expression option \<Rightarrow> string option" where
  "literal_string expression = Option.bind expression (literal_of as_str)"

definition exact_fields :: "expression_fields \<Rightarrow> string list \<Rightarrow> bool" where
  "exact_fields entries names \<longleftrightarrow> length entries = length names \<and> list_all (\<lambda>n. map_of entries n \<noteq> None) names"

text \<open>A credential that refers to a secret by a valid name.\<close>

definition secret_credential :: "expression_fields \<Rightarrow> string \<Rightarrow> string option" where
  "secret_credential credentials key = (case map_of credentials key of
     Some (ValueExpression_SecretReference name) \<Rightarrow> if valid_secret_name name then Some name else None
   | _ \<Rightarrow> None)"

section \<open>Custom providers\<close>

definition reusable_provider_ids :: "compiled_workflow_definition \<Rightarrow> string set" where
  "reusable_provider_ids workflow =
    set (List.map_filter (\<lambda>definition. case definition of
        CompiledReusableInvocation_NotificationProvider provider_id _ _ _ _ _ _ \<Rightarrow> Some provider_id
      | CompiledReusableInvocation_Step _ _ _ _ _ _ _ _ \<Rightarrow> None)
      (unwrap_or_default (wd_reusable_definitions workflow)))"

definition valid_message_template :: "value_expression \<Rightarrow> bool" where
  "valid_message_template message = (case message of
     ValueExpression_Template parts \<Rightarrow> 1 \<le> length parts \<and> length parts \<le> 65
       \<and> list_all (\<lambda>part. case part of TemplatePart_Text text \<Rightarrow> length text \<le> 4096 | _ \<Rightarrow> True) parts
   | _ \<Rightarrow> False)"

definition valid_custom_provider_delivery ::
  "expression_fields \<Rightarrow> string \<Rightarrow> string set \<Rightarrow> bool \<Rightarrow> bool" where
  "valid_custom_provider_delivery entries expected_domain provider_ids message_required =
    (let required_fields = (if message_required then 7 else 6);
         delivery_id = literal_string (map_of entries ''deliveryId'');
         provider_id = literal_string (map_of entries ''providerId'') in
     required_fields \<le> length entries \<and> length entries \<le> 7
     \<and> list_all (\<lambda>key. key \<in> {''deliveryId'', ''provider'', ''destination'', ''credentials'', ''providerId'',
          ''domain'', ''message''}) (map fst entries)
     \<and> literal_string (map_of entries ''provider'') = Some ''custom''
     \<and> literal_string (map_of entries ''domain'') = Some expected_domain
     \<and> is_some_and delivery_id (\<lambda>value. valid_id value \<and> Some value = provider_id)
     \<and> is_some_and provider_id (\<lambda>value. value \<in> provider_ids)
     \<and> is_some_and (literal_string (map_of entries ''destination'')) valid_reusable_alias
     \<and> is_some_and (Option.bind (map_of entries ''credentials'') object_fields) (\<lambda>credentials. credentials = [])
     \<and> (message_required \<longrightarrow> map_of entries ''message'' \<noteq> None)
     \<and> is_none_or (map_of entries ''message'') valid_message_template)"

section \<open>Notifications\<close>

record notification_definition =
  nt_delivery_id :: string
  nt_provider :: string
  nt_destination :: string
  nt_credentials :: "(string, string) btree"
  nt_provider_id :: "string option"
  nt_message :: "value_expression option"
  nt_template_name :: "string option"
  nt_language :: "string option"

text \<open>What a provider contributes: the names of its credentials, the identifier and the
  message of a custom provider, template and language of WhatsApp, and the key under which
  the destination may be used once.\<close>

record provider_binding =
  pb_names :: "(string, string) btree"
  pb_provider_id :: "string option"
  pb_message :: "value_expression option"
  pb_template_name :: "string option"
  pb_language :: "string option"
  pb_duplicate_key :: string

definition key_parts :: "string list \<Rightarrow> string" where
  "key_parts parts = concat (map (\<lambda>part. part @ [CHR 0x00]) (butlast parts)) @ last parts"

definition secret_binding :: "(string, string) btree \<Rightarrow> string \<Rightarrow> provider_binding" where
  "secret_binding names duplicate_key =
    \<lparr>pb_names = names, pb_provider_id = None, pb_message = None, pb_template_name = None, pb_language = None,
     pb_duplicate_key = duplicate_key\<rparr>"

definition basic_fields :: "string list" where
  "basic_fields = [''deliveryId'', ''provider'', ''destination'', ''credentials'']"

definition slack_binding :: "expression_fields \<Rightarrow> expression_fields \<Rightarrow> string \<Rightarrow> provider_binding option" where
  "slack_binding entries credentials destination =
    (if \<not> exact_fields entries basic_fields \<or> \<not> valid_slack_destination destination \<or> length credentials \<noteq> 2
     then None
     else Option.bind (secret_credential credentials ''botToken'') (\<lambda>bot.
       Option.bind (secret_credential credentials ''appToken'') (\<lambda>app.
       Some (secret_binding (bt_insert ''appToken'' app (bt_insert ''botToken'' bot bt_empty))
         (key_parts [''slack'', bot, app, destination])))))"

definition bot_binding ::
  "string \<Rightarrow> bool \<Rightarrow> expression_fields \<Rightarrow> expression_fields \<Rightarrow> string \<Rightarrow> provider_binding option" where
  "bot_binding provider valid_destination entries credentials destination =
    (if \<not> exact_fields entries basic_fields \<or> \<not> valid_destination \<or> length credentials \<noteq> 1 then None
     else Option.bind (secret_credential credentials ''botToken'') (\<lambda>bot.
       Some (secret_binding (bt_insert ''botToken'' bot bt_empty) (key_parts [provider, bot, destination]))))"

definition whatsapp_binding :: "expression_fields \<Rightarrow> expression_fields \<Rightarrow> string \<Rightarrow> provider_binding option" where
  "whatsapp_binding entries credentials destination =
    (if \<not> exact_fields entries (basic_fields @ [''templateName'', ''language''])
       \<or> \<not> valid_whatsapp_recipient destination \<or> length credentials \<noteq> 2
     then None
     else Option.bind (secret_credential credentials ''accessToken'') (\<lambda>token.
       Option.bind (literal_string (map_of credentials ''phoneNumberId'')) (\<lambda>phone.
       Option.bind (literal_string (map_of entries ''templateName'')) (\<lambda>template.
       Option.bind (literal_string (map_of entries ''language'')) (\<lambda>language.
       if \<not> valid_whatsapp_phone_number_id phone \<or> \<not> valid_whatsapp_template template
         \<or> \<not> valid_whatsapp_language language
       then None
       else Some
         \<lparr>pb_names = bt_insert ''phoneNumberId'' phone (bt_insert ''accessToken'' token bt_empty),
          pb_provider_id = None, pb_message = None, pb_template_name = Some template,
          pb_language = Some language, pb_duplicate_key = key_parts [''whatsapp'', token, phone, destination]\<rparr>)))))"

definition custom_binding :: "expression_fields \<Rightarrow> string set \<Rightarrow> provider_binding option" where
  "custom_binding entries provider_ids =
    (if \<not> valid_custom_provider_delivery entries ''approval'' provider_ids False then None
     else Option.bind (literal_string (map_of entries ''providerId'')) (\<lambda>provider_id.
       Some \<lparr>pb_names = bt_empty, pb_provider_id = Some provider_id, pb_message = map_of entries ''message'',
         pb_template_name = None, pb_language = None, pb_duplicate_key = key_parts [''custom'', provider_id]\<rparr>))"

definition provider_binding_of ::
  "string \<Rightarrow> expression_fields \<Rightarrow> expression_fields \<Rightarrow> string \<Rightarrow> string set \<Rightarrow> provider_binding option" where
  "provider_binding_of provider entries credentials destination provider_ids =
    (if provider = ''slack'' then slack_binding entries credentials destination
     else if provider = ''telegram''
     then bot_binding provider (valid_telegram_destination destination) entries credentials destination
     else if provider = ''discord''
     then bot_binding provider (valid_discord_snowflake destination) entries credentials destination
     else if provider = ''whatsapp'' then whatsapp_binding entries credentials destination
     else if provider = ''custom'' then custom_binding entries provider_ids
     else None)"

definition destination_marker :: "string \<Rightarrow> string" where
  "destination_marker provider =
    (if provider = ''telegram'' then '':chat:''
     else if provider = ''whatsapp'' then '':recipient:''
     else '':channel:'')"

text \<open>The number of the tag and of the channel in the identifier of a delivery.\<close>

definition delivery_position :: "string \<Rightarrow> string \<Rightarrow> string \<Rightarrow> (u64 \<times> u64) option" where
  "delivery_position approval_id provider delivery_id =
    Option.bind (strip_prefix (approval_id @ '':notify:'') delivery_id) (\<lambda>suffix.
    Option.bind (split_once (destination_marker provider) suffix) (\<lambda>(tag, channel).
    Option.bind (parse_u64 tag) (\<lambda>tag.
    Option.bind (parse_u64 channel) (\<lambda>channel. Some (tag, channel)))))"

definition position_follows :: "(u64 \<times> u64) option \<Rightarrow> u64 \<times> u64 \<Rightarrow> bool" where
  "position_follows previous place = (case (previous, place) of
     (None, (tag, channel)) \<Rightarrow> tag = 0 \<and> channel = 0
   | (Some (previous_tag, previous_channel), (tag, channel)) \<Rightarrow>
       if tag = previous_tag then channel = previous_channel + 1 else tag = previous_tag + 1 \<and> channel = 0)"

text \<open>The loop over the deliveries: the position of the previous one, the keys already
  used and the notifications so far.\<close>

fun notification_loop ::
  "string \<Rightarrow> string set \<Rightarrow> value_expression list \<Rightarrow> (u64 \<times> u64) option \<Rightarrow> string set
    \<Rightarrow> notification_definition list \<Rightarrow> notification_definition list option" where
  "notification_loop approval_id provider_ids [] previous keys notifications = Some notifications"
| "notification_loop approval_id provider_ids (item # items) previous keys notifications =
    Option.bind (object_fields item) (\<lambda>entries.
    Option.bind (literal_string (map_of entries ''deliveryId'')) (\<lambda>delivery_id.
    Option.bind (literal_string (map_of entries ''provider'')) (\<lambda>provider.
    Option.bind (literal_string (map_of entries ''destination'')) (\<lambda>destination.
    Option.bind (Option.bind (map_of entries ''credentials'') object_fields) (\<lambda>credentials.
    Option.bind (delivery_position approval_id provider delivery_id) (\<lambda>place.
    if \<not> position_follows previous place then None
    else Option.bind (provider_binding_of provider entries credentials destination provider_ids) (\<lambda>binding.
    if pb_duplicate_key binding \<in> keys then None
    else notification_loop approval_id provider_ids items (Some place)
      (insert (pb_duplicate_key binding) keys)
      (notifications @
        [\<lparr>nt_delivery_id = delivery_id, nt_provider = provider, nt_destination = destination,
          nt_credentials = pb_names binding, nt_provider_id = pb_provider_id binding,
          nt_message = pb_message binding, nt_template_name = pb_template_name binding,
          nt_language = pb_language binding\<rparr>]))))))))"

definition approval_notifications ::
  "string \<Rightarrow> expression_fields \<Rightarrow> string set \<Rightarrow> notification_definition list option" where
  "approval_notifications approval_id entries provider_ids = (case map_of entries ''notifications'' of
     None \<Rightarrow> Some []
   | Some (ValueExpression_Array items) \<Rightarrow>
       if items = [] then None else notification_loop approval_id provider_ids items None {} []
   | Some _ \<Rightarrow> None)"

section \<open>Approvals\<close>

record approval_definition =
  apd_approval_id :: string
  apd_name :: "string option"
  apd_description :: "string option"
  apd_timeout_ms :: "u64 option"
  apd_on_timeout :: string
  apd_review :: "value_expression option"
  apd_required_approvals :: "u32 option"
  apd_required_roles :: "string list"
  apd_notifications :: "notification_definition list"

definition u64_to_u32 :: "u64 \<Rightarrow> u32 option" where
  "u64_to_u32 value = (if unat value < 2 ^ 32 then Some (ucast value) else None)"

definition metadata_text :: "compiled_workflow_node \<Rightarrow> string \<Rightarrow> string option" where
  "metadata_text node key =
    Option.bind (Option.bind (nd_metadata node) (\<lambda>metadata. obj_get metadata key)) as_str"

definition approval_roles :: "expression_fields \<Rightarrow> string list" where
  "approval_roles entries = (case map_of entries ''requiredRoles'' of
     Some (ValueExpression_Array items) \<Rightarrow> List.map_filter (literal_of as_str) items
   | _ \<Rightarrow> [])"

definition wf_approval :: "compiled_workflow_definition \<Rightarrow> string \<Rightarrow> approval_definition option" where
  "wf_approval workflow approval_id =
    Option.bind (wf_node workflow approval_id) (\<lambda>wait.
    if nd_handler wait \<noteq> ''engine.approval-wait'' then None
    else Option.bind (object_fields (nd_inputs wait)) (\<lambda>entries.
    Option.bind (literal_string (map_of entries ''onTimeout'')) (\<lambda>on_timeout.
    Option.bind (approval_notifications approval_id entries (reusable_provider_ids workflow)) (\<lambda>notifications.
    Some
      \<lparr>apd_approval_id = approval_id,
       apd_name = metadata_text wait ''name'',
       apd_description = metadata_text wait ''description'',
       apd_timeout_ms = Option.bind (map_of entries ''timeoutMs'') (literal_of as_u64),
       apd_on_timeout = on_timeout,
       apd_review = map_of entries ''review'',
       apd_required_approvals =
         Option.bind (Option.bind (map_of entries ''requiredApprovals'') (literal_of as_u64)) u64_to_u32,
       apd_required_roles = approval_roles entries,
       apd_notifications = notifications\<rparr>))))"

section \<open>The deliveries of an approval\<close>

lemma notification_loop_ids:
  assumes "notification_loop approval_id provider_ids items previous keys notifications = Some result"
  shows "\<exists>more. result = notifications @ more \<and> length more = length items
    \<and> list_all (\<lambda>n. starts_with (approval_id @ '':notify:'') (nt_delivery_id n)) more"
  using assms
proof (induction approval_id provider_ids items previous keys notifications rule: notification_loop.induct)
  case (2 approval_id provider_ids item items previous keys notifications)
  then show ?case
    by (fastforce simp: bind_eq_Some_conv delivery_position_def starts_with_def split: if_splits)
qed simp

end
