(* ===== verification/Definition_Rules.thy ===== *)
theory Definition_Rules
  imports Approval_Definition Prefix_Facts
begin

text \<open>
  The rules that bind an event to the compiled definition (\<^verbatim>\<open>engine/validation.rs\<close>, and
  the helpers at the end of \<^verbatim>\<open>engine/history.rs\<close>): one definition per kind of payload, the
  dispatch over all payloads, and the dispatch for events in the scope of an iteration.
  An error is the line that constructs it.
\<close>

section \<open>Third-party functions and errors\<close>

text \<open>
  Besides the functions the fold uses, the engine calls the canonical encoding of a
  runtime policy (\<^verbatim>\<open>serde_json_canonicalizer\<close>) and computes an exponential delay with
  \<^verbatim>\<open>f64::powi\<close>, whose precision is platform dependent: initial delay, multiplier, exponent
  and maximum give the delay, or \<open>None\<close> outside the range of \<^verbatim>\<open>u64\<close>.
\<close>

record engine_externals =
  xt_fold :: externals
  xt_canonical_policy :: "compiled_runtime_policy \<Rightarrow> string option"
  xt_exponential_delay :: "u64 \<Rightarrow> f64 \<Rightarrow> u32 \<Rightarrow> u64 \<Rightarrow> u64 option"

datatype definition_error =
    Engine_validation_rs nat
  | Engine_history_rs nat
  | Engine_fold fold_error
  | Engine_prefix prefix_error
  | Engine_readiness readiness_error
  | Engine_panic nat

type_synonym rule = "(definition_error, unit) result"

abbreviation rule :: "bool \<Rightarrow> nat \<Rightarrow> rule" where
  "rule ok line \<equiv> require ok (Engine_validation_rs line)"

abbreviation some_or :: "'a option \<Rightarrow> nat \<Rightarrow> (definition_error, 'a) result" where
  "some_or x line \<equiv> ok_or x (Engine_validation_rs line)"

text \<open>\<^verbatim>\<open>matches!(schema_version, V<first> | ... | V21)\<close>.\<close>

definition model_from :: "u32 \<Rightarrow> compiled_workflow_definition \<Rightarrow> bool" where
  "model_from first workflow \<longleftrightarrow> first \<le> wd_schema_version workflow \<and> wd_schema_version workflow \<le> 21"

section \<open>Admission and start\<close>

definition runtime_policy_hash :: "engine_externals \<Rightarrow> compiled_workflow_definition \<Rightarrow> string option" where
  "runtime_policy_hash X workflow =
    Option.bind (wd_runtime_policy workflow) (\<lambda>policy.
    map_option (\<lambda>bytes. ''sha256:'' @ sha256_hex (xt_fold X) bytes) (xt_canonical_policy X policy))"

definition runtime_policy_queue_name :: "engine_externals \<Rightarrow> compiled_workflow_definition \<Rightarrow> string option" where
  "runtime_policy_queue_name X workflow =
    map_option (\<lambda>policy. case crp_queue policy of
        None \<Rightarrow> ''workflow-'' @ sha256_hex (xt_fold X) (wd_workflow_id workflow)
      | Some queue \<Rightarrow> cqp_name queue) (wd_runtime_policy workflow)"

definition rule_run_admitted ::
  "engine_externals \<Rightarrow> compiled_workflow_definition \<Rightarrow> string \<Rightarrow> run_admitted_data \<Rightarrow> rule" where
  "rule_run_admitted X workflow definition_hash data =
    (if \<not> model_from 12 workflow \<or> radm_definition_hash data \<noteq> definition_hash
       \<or> runtime_policy_hash X workflow \<noteq> Some (radm_policy_hash data)
       \<or> runtime_policy_queue_name X workflow \<noteq> Some (raq_name (radm_queue data))
     then Inl (Engine_validation_rs 38)
     else if rat_id (radm_trigger data) = ''workflow-call'' \<and> rat_handler (radm_trigger data) = ''trigger.event''
     then Inr ()
     else and_then (some_or (wf_trigger workflow (rat_id (radm_trigger data))) 46) (\<lambda>trigger.
       rule (ct_handler trigger = rat_handler (radm_trigger data)) 53))"

definition rule_run_execution_started :: "compiled_workflow_definition \<Rightarrow> run_execution_started_data \<Rightarrow> rule" where
  "rule_run_execution_started workflow data =
    (if \<not> model_from 12 workflow then Inl (Engine_validation_rs 71)
     else rule (res_timeout_at data =
         map_option (\<lambda>timeout_ms. res_started_at data + int (min (unat timeout_ms) (2 ^ 63 - 1)))
           (Option.bind (wd_runtime_policy workflow) crp_timeout_ms)) 82)"

definition trigger_identity_present :: "run_started_data \<Rightarrow> bool" where
  "trigger_identity_present data \<longleftrightarrow>
    is_some (rst_trigger_id data) \<or> is_some (rst_trigger_handler data) \<or> is_some (rst_trigger_occurrence_id data)"

definition is_workflow_call :: "run_ingress option \<Rightarrow> bool" where
  "is_workflow_call ingress = (case ingress of Some (RunIngress_WorkflowCall _) \<Rightarrow> True | None \<Rightarrow> False)"

definition rule_run_started :: "compiled_workflow_definition \<Rightarrow> string \<Rightarrow> run_started_data \<Rightarrow> rule" where
  "rule_run_started workflow definition_hash data =
    (if rst_workflow_id data \<noteq> wd_workflow_id workflow \<or> rst_definition_hash data \<noteq> definition_hash
     then Inl (Engine_validation_rs 107)
     else if is_workflow_call (rst_ingress data) then rule (\<not> trigger_identity_present data) 119
     else if wd_schema_version workflow = 10 then Inl (Engine_validation_rs 122)
     else if wd_schema_version workflow = 11 \<and> is_some (rst_ingress data)
     then rule (\<not> trigger_identity_present data) 130
     else if 7 \<le> wd_schema_version workflow then
       and_then (some_or (rst_trigger_id data) 136) (\<lambda>trigger_id.
       and_then (some_or (wf_trigger workflow trigger_id) 139) (\<lambda>trigger.
       if rst_trigger_handler data \<noteq> Some (ct_handler trigger) \<or> rst_trigger_occurrence_id data = None
       then Inl (Engine_validation_rs 143)
       else rule (rst_ingress data = None) 148))
     else rule (\<not> trigger_identity_present data \<and> rst_ingress data = None) 157)"

section \<open>Attempts\<close>

definition maximum_attempts :: "compiled_workflow_node \<Rightarrow> u32" where
  "maximum_attempts node = (case nd_retry_policy node of None \<Rightarrow> 1 | Some policy \<Rightarrow> rtp_max_attempts policy)"

definition rule_step_attempt_started :: "compiled_workflow_definition \<Rightarrow> step_attempt_started_data \<Rightarrow> rule" where
  "rule_step_attempt_started workflow data =
    and_then (some_or (wf_node workflow (sast_node_id data)) 163) (\<lambda>node.
    if sast_attempt data = 0 \<or> maximum_attempts node < sast_attempt data
      \<or> wd_schema_version workflow < 6 \<and> sast_attempt data \<noteq> 1
    then Inl (Engine_validation_rs 172)
    else rule (sast_handler data = nd_handler node) 178)"

definition rule_step_retry_scheduled :: "compiled_workflow_definition \<Rightarrow> step_retry_scheduled_data \<Rightarrow> rule" where
  "rule_step_retry_scheduled workflow data =
    (if wd_schema_version workflow < 6 then Inl (Engine_validation_rs 202)
     else and_then (some_or (wf_node workflow (srs_node_id data)) 206) (\<lambda>node.
       and_then (some_or (nd_retry_policy node) 207) (\<lambda>policy.
       rule (nd_handler node = ''runtime.script'' \<and> srs_next_attempt data = srs_failed_attempt data + 1
         \<and> srs_next_attempt data \<le> rtp_max_attempts policy) 217)))"

section \<open>Control flow\<close>

definition branch_selector_id :: "string \<Rightarrow> string" where
  "branch_selector_id branch_id = ''__woml_branch__'' @ branch_id @ ''__select''"

definition selectable_arm :: "compiled_workflow_edge list \<Rightarrow> string \<Rightarrow> string \<Rightarrow> bool" where
  "selectable_arm edges branch_id arm_id =
    list_ex (\<lambda>edge. ed_from edge = branch_selector_id branch_id \<and> ed_id edge = arm_id
      \<and> ed_branch_id edge = Some branch_id) edges"

definition rule_branch_selected :: "compiled_workflow_definition \<Rightarrow> branch_selected_data \<Rightarrow> rule" where
  "rule_branch_selected workflow data =
    and_then (some_or (wf_node workflow (branch_selector_id (brs_branch_id data))) 225) (\<lambda>selector.
    if nd_handler selector \<noteq> ''engine.branch-select'' then Inl (Engine_validation_rs 232)
    else rule (selectable_arm (gr_edges (wd_graph workflow)) (brs_branch_id data) (brs_arm_id data)) 243)"

definition wf_choice :: "compiled_workflow_definition \<Rightarrow> string \<Rightarrow> compiled_control_choice option" where
  "wf_choice workflow choice_id =
    List.find (\<lambda>choice. ch_choice_id choice = choice_id) (unwrap_or_default (gr_choices (wd_graph workflow)))"

definition rule_choice_selected :: "compiled_workflow_definition \<Rightarrow> choice_selected_data \<Rightarrow> rule" where
  "rule_choice_selected workflow data =
    and_then (some_or (wf_choice workflow (chs_choice_id data)) 257) (\<lambda>choice.
    rule (chs_arm_id data \<in> set (ch_arm_ids choice)) 264)"

definition wf_fork :: "compiled_workflow_definition \<Rightarrow> string \<Rightarrow> compiled_fork option" where
  "wf_fork workflow fork_id =
    List.find (\<lambda>fork. fk_fork_id fork = fork_id) (unwrap_or_default (gr_forks (wd_graph workflow)))"

definition rule_fork_opened :: "compiled_workflow_definition \<Rightarrow> fork_opened_data \<Rightarrow> rule" where
  "rule_fork_opened workflow data =
    rule (\<not> list_all (\<lambda>fork. fk_fork_id fork \<noteq> fo_fork_id data)
      (unwrap_or_default (gr_forks (wd_graph workflow)))) 279"

definition rule_fork_branch_settled :: "compiled_workflow_definition \<Rightarrow> fork_branch_settled_data \<Rightarrow> rule" where
  "rule_fork_branch_settled workflow data =
    and_then (some_or (wf_fork workflow (fbs_fork_id data)) 293) (\<lambda>fork.
    and_then (some_or (List.find (\<lambda>branch. br_branch_id branch = fbs_branch_id data) (fk_branches fork)) 303) (\<lambda>branch.
    rule (br_terminal_node_id branch = fbs_terminal_node_id data) 310))"

definition rule_fork_join_settled :: "compiled_workflow_definition \<Rightarrow> fork_join_settled_data \<Rightarrow> rule" where
  "rule_fork_join_settled workflow data =
    and_then (some_or (wf_fork workflow (fjs_fork_id data)) 324) (\<lambda>fork.
    rule (\<not> is_some_and (fjs_blocking_branch_id data) (\<lambda>branch_id. branch_id \<notin> set (fk_joined_branch_ids fork))) 335)"

definition rule_parallel_group_completed :: "compiled_workflow_definition \<Rightarrow> parallel_group_completed_data \<Rightarrow> rule" where
  "rule_parallel_group_completed workflow data =
    and_then (some_or (parallel_group workflow (pgc_parallel_id data)) 350) (\<lambda>group.
    rule (list_all (\<lambda>node_id. node_id \<in> set (pgd_child_node_ids group))
      (pgc_failed_node_ids data @ pgc_cancelled_node_ids data)) 362)"

section \<open>Approvals and notifications\<close>

definition rich_model :: "compiled_workflow_definition \<Rightarrow> bool" where
  "rich_model workflow \<longleftrightarrow> wd_schema_version workflow = 20 \<or> wd_schema_version workflow = 21"

definition rule_approval_requested :: "compiled_workflow_definition \<Rightarrow> approval_requested_data \<Rightarrow> rule" where
  "rule_approval_requested workflow data =
    and_then (some_or (wf_approval workflow (areq_approval_id data)) 369) (\<lambda>approval.
    and_then (if apd_on_timeout approval = ''reject'' then Inr ApprovalTimeoutPolicy_Reject
      else if apd_on_timeout approval = ''fail'' then Inr ApprovalTimeoutPolicy_Fail
      else Inl (Engine_validation_rs 379)) (\<lambda>expected_policy.
    rule (areq_on_timeout data = expected_policy
      \<and> is_some (apd_timeout_ms approval) = is_some (areq_expires_at data)) 388))"

definition rule_approval_review_requested ::
  "compiled_workflow_definition \<Rightarrow> approval_review_requested_data \<Rightarrow> rule" where
  "rule_approval_review_requested workflow data =
    and_then (some_or (wf_approval workflow (arvr_approval_id data)) 395) (\<lambda>approval.
    rule (rich_model workflow \<and> is_some (apd_review approval)
      \<and> apd_required_approvals approval = Some (arvr_required data)
      \<and> apd_required_roles approval = arvr_required_roles data) 407)"

definition rule_rich_approval :: "compiled_workflow_definition \<Rightarrow> string \<Rightarrow> nat \<Rightarrow> rule" where
  "rule_rich_approval workflow approval_id line =
    rule (rich_model workflow \<and> \<not> is_none_or (wf_approval workflow approval_id)
      (\<lambda>approval. apd_review approval = None)) line"

definition rule_approval_quorum_progressed ::
  "compiled_workflow_definition \<Rightarrow> approval_quorum_progressed_data \<Rightarrow> rule" where
  "rule_approval_quorum_progressed workflow data =
    and_then (some_or (wf_approval workflow (aqp_approval_id data)) 427) (\<lambda>approval.
    rule (rich_model workflow \<and> is_some (apd_review approval)
      \<and> apd_required_approvals approval = Some (aqp_required data)
      \<and> apd_required_roles approval = aqp_required_roles data) 434)"

definition rule_notification_delivery_requested ::
  "compiled_workflow_definition \<Rightarrow> notification_delivery_requested_data \<Rightarrow> rule" where
  "rule_notification_delivery_requested workflow data =
    and_then (some_or (wf_approval workflow (ndr_approval_id data)) 458) (\<lambda>approval.
    and_then (some_or (List.find (\<lambda>delivery. nt_delivery_id delivery = ndr_delivery_id data)
        (apd_notifications approval)) 468) (\<lambda>delivery.
    rule (ndr_provider data = nt_provider delivery \<and> ndr_destination data = nt_destination delivery) 475))"

text \<open>The other notification events name a compiled delivery of their approval.\<close>

definition rule_compiled_delivery :: "compiled_workflow_definition \<Rightarrow> string \<Rightarrow> string \<Rightarrow> nat \<Rightarrow> nat \<Rightarrow> rule" where
  "rule_compiled_delivery workflow approval_id delivery_id unknown_approval unknown_delivery =
    and_then (some_or (wf_approval workflow approval_id) unknown_approval) (\<lambda>approval.
    rule (list_ex (\<lambda>delivery. nt_delivery_id delivery = delivery_id) (apd_notifications approval)) unknown_delivery)"

definition rule_notification_decision_accepted ::
  "compiled_workflow_definition \<Rightarrow> notification_decision_accepted_data \<Rightarrow> rule" where
  "rule_notification_decision_accepted workflow data =
    and_then (some_or (wf_approval workflow (ndac_approval_id data)) 519) (\<lambda>approval.
    rule (list_ex (\<lambda>delivery. nt_delivery_id delivery = ndac_delivery_id data
      \<and> nt_provider delivery = ndac_provider data) (apd_notifications approval)) 523)"

section \<open>Waits and locks\<close>

definition rule_wait_registered :: "compiled_workflow_definition \<Rightarrow> wait_registered_data \<Rightarrow> rule" where
  "rule_wait_registered workflow data =
    and_then (some_or (durable_wait workflow (wr_wait_id data)) 570) (\<lambda>wait.
    rule (wr_node_id data = wt_node_id wait
      \<and> (case wait of
           CompiledWait_Duration _ _ _ _ \<Rightarrow> wr_kind data = DurableWaitKind_Duration
         | CompiledWait_Until _ _ _ _ \<Rightarrow> wr_kind data = DurableWaitKind_Until
         | CompiledWait_Signal _ _ _ _ _ _ _ \<Rightarrow> wr_kind data = DurableWaitKind_Signal)) 585)"

definition rule_external_signal_received ::
  "compiled_workflow_definition \<Rightarrow> external_signal_received_data \<Rightarrow> rule" where
  "rule_external_signal_received workflow data = (case durable_wait workflow (esr_wait_id data) of
     Some (CompiledWait_Signal _ _ _ signals _ _ _) \<Rightarrow>
       rule (list_ex (\<lambda>signal. cws_signal signal = esr_signal data) signals) 596
   | _ \<Rightarrow> Inl (Engine_validation_rs 593))"

definition rule_wait_timed_out :: "compiled_workflow_definition \<Rightarrow> wait_timed_out_data \<Rightarrow> rule" where
  "rule_wait_timed_out workflow data = (case durable_wait workflow (wto_wait_id data) of
     Some (CompiledWait_Signal _ _ _ _ _ _ on_timeout) \<Rightarrow>
       rule (on_timeout = ''fail'' \<and> wto_behavior data = DurableWaitTimeoutBehavior_Fail
         \<or> on_timeout = ''continue'' \<and> wto_behavior data = DurableWaitTimeoutBehavior_Continue) 618
   | _ \<Rightarrow> Inl (Engine_validation_rs 610))"

section \<open>Lifecycle hooks\<close>

definition rule_lifecycle_hook_requested ::
  "compiled_workflow_definition \<Rightarrow> lifecycle_hook_requested_data \<Rightarrow> rule" where
  "rule_lifecycle_hook_requested workflow data =
    (if \<not> model_from 11 workflow then Inl (Engine_validation_rs 711)
     else and_then (some_or (lifecycle_hook workflow (lhr_hook_id data)) 713) (\<lambda>hook.
       rule (clh_event hook = lhr_event data
         \<and> (is_step_event (lhr_event data) \<longrightarrow>
             is_some (lifecycle_hook_for_step_event workflow (lhr_event data) (ls_id (lhr_subject data))))) 725))"

text \<open>\<^verbatim>\<open>split(":action:").next()\<close>.\<close>

definition action_hook_id :: "string \<Rightarrow> string" where
  "action_hook_id action_id =
    (case split_once '':action:'' action_id of None \<Rightarrow> action_id | Some (hook_id, _) \<Rightarrow> hook_id)"

definition lifecycle_actions :: "compiled_workflow_definition \<Rightarrow> compiled_lifecycle_action list" where
  "lifecycle_actions workflow =
    (case wd_lifecycle workflow of None \<Rightarrow> [] | Some lifecycle \<Rightarrow> concat (map clh_actions (cld_hooks lifecycle)))"

definition compiled_action_exists :: "compiled_workflow_definition \<Rightarrow> string \<Rightarrow> bool" where
  "compiled_action_exists workflow action_id =
    list_ex (\<lambda>action. cla_action_id action = action_id) (lifecycle_actions workflow)"

definition rule_lifecycle_action :: "compiled_workflow_definition \<Rightarrow> lifecycle_action_identity_data \<Rightarrow> rule" where
  "rule_lifecycle_action workflow data =
    rule (model_from 11 workflow \<and> is_some_and (wd_lifecycle workflow) (\<lambda>lifecycle.
      list_ex (\<lambda>hook. clh_hook_id hook = action_hook_id (lai_action_id data)
        \<and> list_ex (\<lambda>action. cla_action_id action = lai_action_id data) (clh_actions hook)) (cld_hooks lifecycle))) 754"

definition rule_lifecycle_action_failed :: "compiled_workflow_definition \<Rightarrow> lifecycle_action_failed_data \<Rightarrow> rule" where
  "rule_lifecycle_action_failed workflow data =
    rule (model_from 11 workflow \<and> compiled_action_exists workflow (laf_action_id data)) 780"

definition rule_lifecycle_hook_completed :: "compiled_workflow_definition \<Rightarrow> lifecycle_hook_completed_data \<Rightarrow> rule" where
  "rule_lifecycle_hook_completed workflow data =
    rule (model_from 11 workflow \<and> is_some (wd_lifecycle workflow)
      \<and> is_definition_hash (lhc_hook_invocation_id data)) 802"

fun reusable_key_of :: "compiled_reusable_invocation \<Rightarrow> string" where
  "reusable_key_of (CompiledReusableInvocation_Step invocation_id _ _ _ _ _ _ _) = invocation_id"
| "reusable_key_of (CompiledReusableInvocation_NotificationProvider provider_id _ _ _ _ _ _) = provider_id"

definition validate_reusable_lifecycle_binding ::
  "compiled_workflow_definition \<Rightarrow> string \<Rightarrow> string \<Rightarrow> string option \<Rightarrow> rule" where
  "validate_reusable_lifecycle_binding workflow invocation_id definition_digest action_id =
    (if \<not> model_from 14 workflow then Inl (Engine_history_rs 866)
     else and_then (ok_or (List.find (\<lambda>definition. reusable_key_of definition = invocation_id
           \<and> cri_definition_digest definition = definition_digest)
         (unwrap_or_default (wd_reusable_definitions workflow))) (Engine_history_rs 884)) (\<lambda>descriptor.
       require (is_none_or action_id (\<lambda>action_id. is_some_and (cri_lifecycle descriptor) (\<lambda>lifecycle.
           action_id \<in> set (unwrap_or_default (crlc_on_success lifecycle)
             @ unwrap_or_default (crlc_on_error lifecycle) @ unwrap_or_default (crlc_on_complete lifecycle)))))
         (Engine_history_rs 904)))"

section \<open>Loops, sagas and operations\<close>

definition wf_for_each :: "compiled_workflow_definition \<Rightarrow> string \<Rightarrow> compiled_for_each option" where
  "wf_for_each workflow for_each_id =
    List.find (\<lambda>descriptor. fe_for_each_id descriptor = for_each_id)
      (unwrap_or_default (gr_for_each (wd_graph workflow)))"

definition validate_for_each_id :: "compiled_workflow_definition \<Rightarrow> string \<Rightarrow> rule" where
  "validate_for_each_id workflow for_each_id =
    require (list_ex (\<lambda>descriptor. fe_for_each_id descriptor = for_each_id)
      (unwrap_or_default (gr_for_each (wd_graph workflow)))) (Engine_history_rs 843)"

definition saga_exists :: "compiled_workflow_definition \<Rightarrow> string \<Rightarrow> bool" where
  "saga_exists workflow saga_id \<longleftrightarrow>
    \<not> list_all (\<lambda>saga. sg_saga_id saga \<noteq> saga_id) (unwrap_or_default (gr_sagas (wd_graph workflow)))"

definition rule_saga :: "compiled_workflow_definition \<Rightarrow> saga_identity_data \<Rightarrow> rule" where
  "rule_saga workflow data =
    rule (\<not> wd_schema_version workflow < 19 \<and> saga_exists workflow (si_saga_id data)) 998"

definition rule_compensation_registered :: "compiled_workflow_definition \<Rightarrow> compensation_registered_data \<Rightarrow> rule" where
  "rule_compensation_registered workflow data =
    rule (\<not> wd_schema_version workflow < 19
      \<and> is_some_and (wf_saga workflow (compr_saga_id data)) (\<lambda>saga.
          list_ex (\<lambda>action. cca_action_id action = compr_action_id data
            \<and> cca_for_step_id action = Some (compr_for_step_id data)) (sg_compensations saga))) 1019"

definition correction_identity_matches :: "string \<Rightarrow> compiled_correction_identity \<Rightarrow> bool" where
  "correction_identity_matches action_id correction = (case correction of
     CompiledCorrectionIdentity_Static compiled_action_id \<Rightarrow> compiled_action_id = action_id
   | CompiledCorrectionIdentity_ForEachIteration _ action_id_template \<Rightarrow>
       (case split_once ''{iterationKey}'' action_id_template of
          None \<Rightarrow> False
        | Some (before, after) \<Rightarrow>
            is_some_and (Option.bind (strip_prefix before action_id) (strip_suffix after))
              (\<lambda>key. key \<noteq> [] \<and> list_all is_ascii_digit key)))"

definition validate_correction_action ::
  "compiled_workflow_definition \<Rightarrow> string \<Rightarrow> string \<Rightarrow> corrective_action_kind \<Rightarrow> rule" where
  "validate_correction_action workflow saga_id action_id kind =
    and_then (some_or (wf_saga workflow saga_id) 1089) (\<lambda>saga.
    let actions = (case kind of CorrectiveActionKind_Compensation \<Rightarrow> sg_compensations saga
        | CorrectiveActionKind_Cleanup \<Rightarrow> sg_cleanup saga) in
    rule (\<not> wd_schema_version workflow < 19
      \<and> list_ex (\<lambda>action. correction_identity_matches action_id (cca_identity action)) actions) 1113)"

definition validate_operation_node :: "compiled_workflow_definition \<Rightarrow> string \<Rightarrow> rule" where
  "validate_operation_node workflow node_id =
    (if wd_schema_version workflow < 8 then Inl (Engine_history_rs 915)
     else if list_ex (\<lambda>action. cla_action_id action = node_id
         \<and> cla_handler action \<in> {''runtime.lifecycle-script'', ''notification.informational''}) (lifecycle_actions workflow)
     then Inr ()
     else if list_ex (\<lambda>saga. list_ex (\<lambda>kind. is_ok (validate_correction_action workflow (sg_saga_id saga) node_id kind))
           [CorrectiveActionKind_Compensation, CorrectiveActionKind_Cleanup])
         (unwrap_or_default (gr_sagas (wd_graph workflow)))
     then Inr ()
     else and_then (ok_or (wf_node workflow node_id) (Engine_history_rs 954)) (\<lambda>node.
       require (nd_handler node = ''runtime.script'' \<and> is_some (nd_script_runtime node)) (Engine_history_rs 956)))"

section \<open>Remote dispatch\<close>

definition validate_remote_dispatch_placement ::
  "compiled_workflow_definition \<Rightarrow> compiled_workflow_node option \<Rightarrow> remote_dispatch_transitioned_data \<Rightarrow> rule" where
  "validate_remote_dispatch_placement workflow node data =
    and_then (some_or node 1125) (\<lambda>node.
    rule (wd_schema_version workflow = 21 \<and> nd_handler node = ''runtime.script''
      \<and> \<not> is_none_or (nd_execution node) (\<lambda>execution.
          cep_target execution = ''local'' \<or> cep_target execution \<noteq> rdt_target data)
      \<and> rdt_attempt data \<noteq> 0 \<and> rdt_attempt data \<le> maximum_attempts node) 1144)"

definition corrective_actions :: "compiled_workflow_definition \<Rightarrow> compiled_corrective_action list" where
  "corrective_actions workflow =
    concat (map (\<lambda>saga. sg_compensations saga @ sg_cleanup saga) (unwrap_or_default (gr_sagas (wd_graph workflow))))"

definition corrective_node ::
  "compiled_workflow_definition \<Rightarrow> (compiled_correction_identity \<Rightarrow> bool) \<Rightarrow> string \<Rightarrow> compiled_workflow_node option" where
  "corrective_node workflow P node_id =
    map_option cca_node (List.find (\<lambda>action. nd_id (cca_node action) = node_id)
      (filter (\<lambda>action. P (cca_identity action)) (corrective_actions workflow)))"

definition is_static_identity :: "compiled_correction_identity \<Rightarrow> bool" where
  "is_static_identity correction = (case correction of
     CompiledCorrectionIdentity_Static _ \<Rightarrow> True | CompiledCorrectionIdentity_ForEachIteration _ _ \<Rightarrow> False)"

section \<open>Failed runs\<close>

definition rule_parallel_failure ::
  "compiled_workflow_definition \<Rightarrow> string \<Rightarrow> parallel_failure_policy \<Rightarrow> string \<Rightarrow> string list \<Rightarrow> string list \<Rightarrow> rule" where
  "rule_parallel_failure workflow parallel_id policy primary_node_id failed cancelled =
    and_then (some_or (parallel_group workflow parallel_id) 938) (\<lambda>group.
    and_then (if pgd_on_error group = ''fail-fast'' then Inr ParallelFailurePolicy_FailFast
      else if pgd_on_error group = ''wait-all'' then Inr ParallelFailurePolicy_WaitAll
      else Inl (Engine_validation_rs 945)) (\<lambda>expected_policy.
    rule (policy = expected_policy \<and> primary_node_id \<in> set failed
      \<and> list_all (\<lambda>node_id. node_id \<in> set (pgd_child_node_ids group)) (failed @ cancelled)) 957))"

definition rule_branch_failure :: "compiled_workflow_definition \<Rightarrow> string \<Rightarrow> string option \<Rightarrow> rule" where
  "rule_branch_failure workflow branch_id arm_id =
    (if wf_node workflow (branch_selector_id branch_id) = None then Inl (Engine_validation_rs 921)
     else rule (is_none_or arm_id (selectable_arm (gr_edges (wd_graph workflow)) branch_id)) 932)"

definition rule_notification_failure :: "compiled_workflow_definition \<Rightarrow> string \<Rightarrow> string list \<Rightarrow> rule" where
  "rule_notification_failure workflow approval_id failed_delivery_ids =
    and_then (some_or (wf_approval workflow approval_id) 859) (\<lambda>approval.
    rule (list_all (\<lambda>key. list_ex (\<lambda>delivery. nt_delivery_id delivery = key) (apd_notifications approval))
      failed_delivery_ids) 866)"

definition rule_run_failed :: "compiled_workflow_definition \<Rightarrow> run_failed_data \<Rightarrow> rule" where
  "rule_run_failed workflow data =
    (if 11 \<le> wd_schema_version workflow then Inl (Engine_validation_rs 849)
     else (case data of
       RunFailedData_V5 (RunFailedDataV5_Notification approval_id _ failed_delivery_ids _) \<Rightarrow>
         rule_notification_failure workflow approval_id failed_delivery_ids
     | RunFailedData_V1 data \<Rightarrow>
         rule (is_none_or (rf1_node_id data) (\<lambda>node_id. is_some (wf_node workflow node_id))) 916
     | RunFailedData_V2 (RunFailedDataV2_Attempt node_id _ _ _) \<Rightarrow>
         rule (is_some (wf_node workflow node_id)) 916
     | RunFailedData_V2 (RunFailedDataV2_Branch branch_id arm_id _ _) \<Rightarrow>
         rule_branch_failure workflow branch_id arm_id
     | RunFailedData_V3 (RunFailedDataV3_Parallel parallel_id policy primary_node_id failed cancelled _) \<Rightarrow>
         rule_parallel_failure workflow parallel_id policy primary_node_id failed cancelled
     | RunFailedData_V4 (RunFailedDataV4_Approval approval_id _ _) \<Rightarrow>
         rule (is_some (wf_approval workflow approval_id)) 964))"

definition rule_run_succeeded :: "compiled_workflow_definition \<Rightarrow> run_succeeded_data \<Rightarrow> rule" where
  "rule_run_succeeded workflow data =
    (if 11 \<le> wd_schema_version workflow then Inl (Engine_validation_rs 658)
     else rule (terminal_node_id workflow = Some (rsu_terminal_node_id data)) 661)"

section \<open>Dispatch\<close>

fun validate_payload_against_definition ::
  "engine_externals \<Rightarrow> compiled_workflow_definition \<Rightarrow> string \<Rightarrow> run_event_payload \<Rightarrow> rule" where
  "validate_payload_against_definition X workflow hash (RunAdmitted data) = rule_run_admitted X workflow hash data"
| "validate_payload_against_definition X workflow hash (RunExecutionStarted data) = rule_run_execution_started workflow data"
| "validate_payload_against_definition X workflow hash (RunTimeoutReached _) = rule (model_from 12 workflow) 102"
| "validate_payload_against_definition X workflow hash (RunStarted data) = rule_run_started workflow hash data"
| "validate_payload_against_definition X workflow hash (StepAttemptStarted data) = rule_step_attempt_started workflow data"
| "validate_payload_against_definition X workflow hash (StepAttemptSucceeded data) =
    rule (is_some (wf_node workflow (sasu_node_id data))) 186"
| "validate_payload_against_definition X workflow hash (StepAttemptFailed data) =
    rule (is_some (wf_node workflow (saf_node_id data))) 194"
| "validate_payload_against_definition X workflow hash (StepRetryScheduled data) = rule_step_retry_scheduled workflow data"
| "validate_payload_against_definition X workflow hash (BranchSelected data) = rule_branch_selected workflow data"
| "validate_payload_against_definition X workflow hash (ChoiceSelected data) = rule_choice_selected workflow data"
| "validate_payload_against_definition X workflow hash (ParallelGroupStarted data) =
    rule (is_some (parallel_group workflow (pgs_parallel_id data))) 343"
| "validate_payload_against_definition X workflow hash (ParallelGroupCompleted data) = rule_parallel_group_completed workflow data"
| "validate_payload_against_definition X workflow hash (ApprovalRequested data) = rule_approval_requested workflow data"
| "validate_payload_against_definition X workflow hash (ApprovalReviewRequested data) = rule_approval_review_requested workflow data"
| "validate_payload_against_definition X workflow hash (ApprovalReviewerDecisionRecorded data) =
    rule_rich_approval workflow (ardr_approval_id data) 419"
| "validate_payload_against_definition X workflow hash (ApprovalQuorumProgressed data) = rule_approval_quorum_progressed workflow data"
| "validate_payload_against_definition X workflow hash (ApprovalResolved data) =
    rule (is_some (wf_approval workflow (ares_approval_id data))) 441"
| "validate_payload_against_definition X workflow hash (ApprovalInvalidated data) =
    rule_rich_approval workflow (ainv_approval_id data) 454"
| "validate_payload_against_definition X workflow hash (NotificationDeliveryRequested data) =
    rule_notification_delivery_requested workflow data"
| "validate_payload_against_definition X workflow hash (NotificationDeliveryAttemptStarted data) =
    rule_compiled_delivery workflow (ndas_approval_id data) (ndas_delivery_id data) 483 489"
| "validate_payload_against_definition X workflow hash (NotificationDeliverySucceeded data) =
    rule_compiled_delivery workflow (nds_approval_id data) (nds_delivery_id data) 495 501"
| "validate_payload_against_definition X workflow hash (NotificationDeliveryFailed data) =
    rule_compiled_delivery workflow (ndf_approval_id data) (ndf_delivery_id data) 507 513"
| "validate_payload_against_definition X workflow hash (NotificationDecisionAccepted data) =
    rule_notification_decision_accepted workflow data"
| "validate_payload_against_definition X workflow hash (NotificationMessageUpdateRequested data) =
    rule_compiled_delivery workflow (nmur_approval_id data) (nmur_delivery_id data) 529 535"
| "validate_payload_against_definition X workflow hash (NotificationMessageUpdateAttemptStarted data) =
    rule_compiled_delivery workflow (nmuas_approval_id data) (nmuas_delivery_id data) 542 548"
| "validate_payload_against_definition X workflow hash (NotificationMessageUpdated data) =
    rule_compiled_delivery workflow (nmuas_approval_id data) (nmuas_delivery_id data) 542 548"
| "validate_payload_against_definition X workflow hash (NotificationMessageUpdateFailed data) =
    rule_compiled_delivery workflow (nmuf_approval_id data) (nmuf_delivery_id data) 556 562"
| "validate_payload_against_definition X workflow hash (InfrastructurePolicyDecisionRecorded _) = Inr ()"
| "validate_payload_against_definition X workflow hash (RemoteDispatchTransitioned data) =
    validate_remote_dispatch_placement workflow
      (or_else (wf_node workflow (rdt_node_id data)) (corrective_node workflow is_static_identity (rdt_node_id data))) data"
| "validate_payload_against_definition X workflow hash (OperationStarted data) = validate_operation_node workflow (ost_node_id data)"
| "validate_payload_against_definition X workflow hash (OperationSucceeded data) = validate_operation_node workflow (osu_node_id data)"
| "validate_payload_against_definition X workflow hash (OperationFailed data) = validate_operation_node workflow (ofa_node_id data)"
| "validate_payload_against_definition X workflow hash (ForkOpened data) = rule_fork_opened workflow data"
| "validate_payload_against_definition X workflow hash (ForkBranchSettled data) = rule_fork_branch_settled workflow data"
| "validate_payload_against_definition X workflow hash (ForkJoinSettled data) = rule_fork_join_settled workflow data"
| "validate_payload_against_definition X workflow hash (RunCancellationRequested _) = rule (model_from 11 workflow) 693"
| "validate_payload_against_definition X workflow hash (LifecycleHookRequested data) = rule_lifecycle_hook_requested workflow data"
| "validate_payload_against_definition X workflow hash (LifecycleActionAttemptStarted data) = rule_lifecycle_action workflow data"
| "validate_payload_against_definition X workflow hash (LifecycleActionSucceeded data) = rule_lifecycle_action workflow data"
| "validate_payload_against_definition X workflow hash (LifecycleActionFailed data) = rule_lifecycle_action_failed workflow data"
| "validate_payload_against_definition X workflow hash (LifecycleHookCompleted data) = rule_lifecycle_hook_completed workflow data"
| "validate_payload_against_definition X workflow hash (ReusableLifecycleRequested data) =
    validate_reusable_lifecycle_binding workflow (rlr_invocation_id data) (rlr_definition_digest data) None"
| "validate_payload_against_definition X workflow hash (ReusableLifecycleActionStarted data) =
    validate_reusable_lifecycle_binding workflow (rlast_invocation_id data) (rlast_definition_digest data)
      (Some (rlast_action_id data))"
| "validate_payload_against_definition X workflow hash (ReusableLifecycleActionSucceeded data) =
    validate_reusable_lifecycle_binding workflow (rlasu_invocation_id data) (rlasu_definition_digest data)
      (Some (rlasu_action_id data))"
| "validate_payload_against_definition X workflow hash (ReusableLifecycleActionFailed data) =
    validate_reusable_lifecycle_binding workflow (rlaf_invocation_id data) (rlaf_definition_digest data)
      (Some (rlaf_action_id data))"
| "validate_payload_against_definition X workflow hash (ReusableLifecycleCompleted data) =
    validate_reusable_lifecycle_binding workflow (rlc_invocation_id data) (rlc_definition_digest data) None"
| "validate_payload_against_definition X workflow hash (ForEachOpened data) = validate_for_each_id workflow (feo_for_each_id data)"
| "validate_payload_against_definition X workflow hash (ForEachIterationStarted data) = validate_for_each_id workflow (feii_for_each_id data)"
| "validate_payload_against_definition X workflow hash (ForEachIterationSucceeded data) = validate_for_each_id workflow (feisu_for_each_id data)"
| "validate_payload_against_definition X workflow hash (ForEachIterationFailed data) = validate_for_each_id workflow (feif_for_each_id data)"
| "validate_payload_against_definition X workflow hash (ForEachIterationSkipped data) = validate_for_each_id workflow (feisk_for_each_id data)"
| "validate_payload_against_definition X workflow hash (ForEachSucceeded data) = validate_for_each_id workflow (fes_for_each_id data)"
| "validate_payload_against_definition X workflow hash (ForEachFailed data) = validate_for_each_id workflow (fes_for_each_id data)"
| "validate_payload_against_definition X workflow hash (ForEachCancelled data) = validate_for_each_id workflow (fes_for_each_id data)"
| "validate_payload_against_definition X workflow hash (WaitRegistered data) = rule_wait_registered workflow data"
| "validate_payload_against_definition X workflow hash (ExternalSignalReceived data) = rule_external_signal_received workflow data"
| "validate_payload_against_definition X workflow hash (WaitSatisfied data) = rule (is_some (durable_wait workflow (ws_wait_id data))) 603"
| "validate_payload_against_definition X workflow hash (WaitTimedOut data) = rule_wait_timed_out workflow data"
| "validate_payload_against_definition X workflow hash (WaitCancelled data) = rule (is_some (durable_wait workflow (wc_wait_id data))) 623"
| "validate_payload_against_definition X workflow hash (LockWaitRegistered data) = rule (is_some (durable_lock workflow (lwr_lock_id data))) 628"
| "validate_payload_against_definition X workflow hash (LockAcquired data) = rule (is_some (durable_lock workflow (lacq_lock_id data))) 633"
| "validate_payload_against_definition X workflow hash (LockReleased data) = rule (is_some (durable_lock workflow (lrel_lock_id data))) 638"
| "validate_payload_against_definition X workflow hash (LockAcquireTimedOut data) = rule (is_some (durable_lock workflow (lato_lock_id data))) 643"
| "validate_payload_against_definition X workflow hash (LockAcquisitionCancelled data) = rule (is_some (durable_lock workflow (lacan_lock_id data))) 648"
| "validate_payload_against_definition X workflow hash (LockLeaseLost data) = rule (is_some (durable_lock workflow (lll_lock_id data))) 653"
| "validate_payload_against_definition X workflow hash (SagaStarted data) = rule_saga workflow data"
| "validate_payload_against_definition X workflow hash (CompensationRegistered data) = rule_compensation_registered workflow data"
| "validate_payload_against_definition X workflow hash (SagaForwardSucceeded data) = rule_saga workflow data"
| "validate_payload_against_definition X workflow hash (SagaCorrectionStarted data) = rule (saga_exists workflow (scs_saga_id data)) 1031"
| "validate_payload_against_definition X workflow hash (CorrectionAttemptStarted data) =
    validate_correction_action workflow (cai_saga_id data) (cai_action_id data) (cai_action_kind data)"
| "validate_payload_against_definition X workflow hash (CorrectionAttemptSucceeded data) =
    validate_correction_action workflow (cai_saga_id data) (cai_action_id data) (cai_action_kind data)"
| "validate_payload_against_definition X workflow hash (CorrectionAttemptFailed data) =
    validate_correction_action workflow (caf_saga_id data) (caf_action_id data) (caf_action_kind data)"
| "validate_payload_against_definition X workflow hash (CorrectionRetryScheduled data) =
    validate_correction_action workflow (crs_saga_id data) (crs_action_id data) (crs_action_kind data)"
| "validate_payload_against_definition X workflow hash (CorrectionInterrupted data) =
    validate_correction_action workflow (cint_saga_id data) (cint_action_id data) (cint_action_kind data)"
| "validate_payload_against_definition X workflow hash (SagaCorrectionCompleted data) = rule_saga workflow data"
| "validate_payload_against_definition X workflow hash (ManualRecoveryRequired data) =
    validate_correction_action workflow (mrr_saga_id data) (mrr_action_id data) (mrr_action_kind data)"
| "validate_payload_against_definition X workflow hash (RunOutcomeDecided _) = rule (model_from 11 workflow) 693"
| "validate_payload_against_definition X workflow hash (RunFinalized _) = rule (model_from 11 workflow) 693"
| "validate_payload_against_definition X workflow hash (RunSucceeded data) = rule_run_succeeded workflow data"
| "validate_payload_against_definition X workflow hash (RunFailed data) = rule_run_failed workflow data"

section \<open>Events in the scope of an iteration\<close>

text \<open>\<^verbatim>\<open>str::replace\<close>: every occurrence, from the left, of a non-empty pattern.\<close>

function replace_all :: "string \<Rightarrow> string \<Rightarrow> string \<Rightarrow> string" where
  "replace_all pattern by s = (case s of
     [] \<Rightarrow> []
   | c # cs \<Rightarrow> (case strip_prefix pattern s of
       Some rest \<Rightarrow> if length rest < length s then by @ replace_all pattern by rest else s
     | None \<Rightarrow> c # replace_all pattern by cs))"
  by pat_completeness auto
termination
  by (relation "measure (\<lambda>(pattern, by, s). length s)") auto

declare replace_all.simps [simp del]

definition body_node :: "compiled_for_each \<Rightarrow> string \<Rightarrow> compiled_workflow_node option" where
  "body_node descriptor node_id = List.find (\<lambda>node. nd_id node = node_id) (fb_nodes (fe_body descriptor))"

text \<open>The identity of a hook invocation (\<^verbatim>\<open>derive_lifecycle_hook_invocation_id\<close>).\<close>

definition subject_kind_text :: "lifecycle_subject_kind \<Rightarrow> string" where
  "subject_kind_text kind = (case kind of
     LifecycleSubjectKind_Workflow \<Rightarrow> ''workflow'' | LifecycleSubjectKind_Step \<Rightarrow> ''step'')"

definition sized_part :: "string \<Rightarrow> string" where
  "sized_part part = nat_to_string (length part) @ '':'' @ part"

definition derive_lifecycle_hook_invocation_id ::
  "externals \<Rightarrow> string \<Rightarrow> string \<Rightarrow> lifecycle_subject_kind \<Rightarrow> string \<Rightarrow> string" where
  "derive_lifecycle_hook_invocation_id E run_id hook_id kind subject_id =
    ''sha256:'' @ sha256_hex E (sized_part run_id @ ''|'' @ sized_part hook_id @ ''|''
      @ sized_part (subject_kind_text kind) @ ''|'' @ sized_part subject_id)"

definition scoped_step_attempt_started :: "compiled_for_each \<Rightarrow> step_attempt_started_data \<Rightarrow> rule" where
  "scoped_step_attempt_started descriptor data =
    and_then (some_or (body_node descriptor (sast_node_id data)) 1170) (\<lambda>node.
    rule (sast_handler data = nd_handler node \<and> sast_attempt data \<noteq> 0
      \<and> sast_attempt data \<le> maximum_attempts node) 1181)"

definition scoped_compensation_registered ::
  "compiled_workflow_definition \<Rightarrow> for_each_iteration_scope \<Rightarrow> compensation_registered_data \<Rightarrow> rule" where
  "scoped_compensation_registered workflow scope data =
    rule (is_some_and (wf_saga workflow (compr_saga_id data)) (\<lambda>saga.
      list_ex (\<lambda>action. cca_for_step_id action = Some (compr_for_step_id data)
        \<and> (case cca_identity action of
             CompiledCorrectionIdentity_ForEachIteration for_each_id action_id_template \<Rightarrow>
               for_each_id = scope_for_each_id scope
               \<and> replace_all ''{iterationKey}'' (nat_to_string (unat (scope_index scope))) action_id_template
                   = compr_action_id data
           | CompiledCorrectionIdentity_Static _ \<Rightarrow> False)) (sg_compensations saga))) 1205"

definition scoped_step_retry_scheduled :: "compiled_for_each \<Rightarrow> step_retry_scheduled_data \<Rightarrow> rule" where
  "scoped_step_retry_scheduled descriptor data =
    and_then (some_or (body_node descriptor (srs_node_id data)) 1224) (\<lambda>node.
    and_then (some_or (nd_retry_policy node) 1233) (\<lambda>policy.
    rule (srs_next_attempt data = srs_failed_attempt data + 1
      \<and> srs_next_attempt data \<le> rtp_max_attempts policy) 1235))"

definition scoped_choice_selected :: "compiled_for_each \<Rightarrow> choice_selected_data \<Rightarrow> rule" where
  "scoped_choice_selected descriptor data =
    and_then (some_or (List.find (\<lambda>choice. ch_choice_id choice = chs_choice_id data) (fb_choices (fe_body descriptor))) 1248)
      (\<lambda>choice. rule (chs_arm_id data \<in> set (ch_arm_ids choice)) 1252)"

definition scoped_branch_selected :: "compiled_for_each \<Rightarrow> branch_selected_data \<Rightarrow> rule" where
  "scoped_branch_selected descriptor data =
    and_then (some_or (body_node descriptor (branch_selector_id (brs_branch_id data))) 1261) (\<lambda>selector.
    rule (nd_handler selector = ''engine.branch-select''
      \<and> selectable_arm (fb_edges (fe_body descriptor)) (brs_branch_id data) (brs_arm_id data)) 1271)"

definition scoped_parallel_group :: "compiled_for_each \<Rightarrow> string \<Rightarrow> nat \<Rightarrow> rule" where
  "scoped_parallel_group descriptor parallel_id line =
    rule (is_some (body_node descriptor (''__woml_parallel__'' @ parallel_id @ ''__start''))
      \<and> is_some_and (body_node descriptor parallel_id) (\<lambda>node. nd_handler node = ''engine.parallel-join'')) line"

definition scoped_lifecycle_hook_requested ::
  "externals \<Rightarrow> compiled_workflow_definition \<Rightarrow> string \<Rightarrow> for_each_iteration_scope
    \<Rightarrow> lifecycle_hook_requested_data \<Rightarrow> rule" where
  "scoped_lifecycle_hook_requested E workflow run_id scope data =
    and_then (some_or (strip_prefix (scope_for_each_id scope @ ''['' @ nat_to_string (unat (scope_index scope)) @ ''].'')
        (ls_id (lhr_subject data))) 1329) (\<lambda>node_id.
    and_then (some_or (lifecycle_hook_for_step_event workflow (lhr_event data) node_id) 1334) (\<lambda>hook.
    rule (ls_kind (lhr_subject data) = LifecycleSubjectKind_Step \<and> clh_hook_id hook = lhr_hook_id data
      \<and> derive_lifecycle_hook_invocation_id E run_id (lhr_hook_id data) (ls_kind (lhr_subject data))
          (ls_id (lhr_subject data)) = lhr_hook_invocation_id data) 1347))"

definition scoped_lifecycle_action :: "compiled_workflow_definition \<Rightarrow> string \<Rightarrow> u32 \<Rightarrow> nat \<Rightarrow> rule" where
  "scoped_lifecycle_action workflow action_id attempt line =
    rule (compiled_action_exists workflow action_id \<and> attempt \<noteq> 0) line"

definition is_iteration_identity :: "string \<Rightarrow> compiled_correction_identity \<Rightarrow> bool" where
  "is_iteration_identity scope_id correction = (case correction of
     CompiledCorrectionIdentity_ForEachIteration for_each_id _ \<Rightarrow> for_each_id = scope_id
   | CompiledCorrectionIdentity_Static _ \<Rightarrow> False)"

definition validate_scoped_payload_against_definition ::
  "engine_externals \<Rightarrow> compiled_workflow_definition \<Rightarrow> string \<Rightarrow> string \<Rightarrow> for_each_iteration_scope
    \<Rightarrow> run_event_payload \<Rightarrow> rule" where
  "validate_scoped_payload_against_definition X workflow hash run_id scope payload =
    and_then (some_or (wf_for_each workflow (scope_for_each_id scope)) 1166) (\<lambda>descriptor.
    case payload of
      StepAttemptStarted data \<Rightarrow> scoped_step_attempt_started descriptor data
    | CompensationRegistered data \<Rightarrow> scoped_compensation_registered workflow scope data
    | StepAttemptSucceeded data \<Rightarrow> rule (is_some (body_node descriptor (sasu_node_id data))) 1208
    | StepAttemptFailed data \<Rightarrow> rule (is_some (body_node descriptor (saf_node_id data))) 1216
    | StepRetryScheduled data \<Rightarrow> scoped_step_retry_scheduled descriptor data
    | ChoiceSelected data \<Rightarrow> scoped_choice_selected descriptor data
    | BranchSelected data \<Rightarrow> scoped_branch_selected descriptor data
    | ParallelGroupStarted data \<Rightarrow> scoped_parallel_group descriptor (pgs_parallel_id data) 1284
    | ParallelGroupCompleted data \<Rightarrow> scoped_parallel_group descriptor (pgc_parallel_id data) 1297
    | OperationStarted data \<Rightarrow> rule (is_some (body_node descriptor (ost_node_id data))) 1304
    | OperationSucceeded data \<Rightarrow> rule (is_some (body_node descriptor (osu_node_id data))) 1312
    | OperationFailed data \<Rightarrow> rule (is_some (body_node descriptor (ofa_node_id data))) 1320
    | LifecycleHookRequested data \<Rightarrow> scoped_lifecycle_hook_requested (xt_fold X) workflow run_id scope data
    | LifecycleActionAttemptStarted data \<Rightarrow> scoped_lifecycle_action workflow (lai_action_id data) (lai_attempt data) 1361
    | LifecycleActionSucceeded data \<Rightarrow> scoped_lifecycle_action workflow (lai_action_id data) (lai_attempt data) 1361
    | LifecycleActionFailed data \<Rightarrow> scoped_lifecycle_action workflow (laf_action_id data) (laf_attempt data) 1375
    | LifecycleHookCompleted _ \<Rightarrow> Inr ()
    | RemoteDispatchTransitioned data \<Rightarrow>
        validate_remote_dispatch_placement workflow
          (or_else (body_node descriptor (rdt_node_id data))
            (corrective_node workflow (is_iteration_identity (scope_for_each_id scope)) (rdt_node_id data))) data
    | _ \<Rightarrow> validate_payload_against_definition X workflow hash payload)"

end
