(* ===== verification/History_Rules.thy ===== *)
theory History_Rules
  imports Definition_Rules "HOL-Library.Option_ord"
begin

text \<open>
  The check of a whole history against its definition (\<^verbatim>\<open>engine/history.rs\<close> and
  \<^verbatim>\<open>engine/history/validated.rs\<close>).  Every event meets the rules of its payload; then the
  rules that look at the history before it: what had to be ready, which attempt a retry
  follows, how many children of a parallel group may run, in which order compensations,
  cleanups and lifecycle actions start.  The source is generic in how it makes prefixes and
  the readiness graph; here the rules are generic in the two ways of reading a prefix.
\<close>

section \<open>Reading a prefix\<close>

record prefix_view =
  pv_projection :: run_projection
  pv_ready_at :: "instant \<Rightarrow> (readiness_error, string list) result"
  pv_is_ready_at :: "instant \<Rightarrow> string \<Rightarrow> (readiness_error, bool) result"

record 'c prefix_access =
  pa_at :: "nat \<Rightarrow> 'c \<Rightarrow> (definition_error, run_projection \<times> 'c) result"
  pa_query :: "nat \<Rightarrow> 'c \<Rightarrow> (definition_error, prefix_view \<times> 'c) result"

definition map_error :: "('e \<Rightarrow> 'd) \<Rightarrow> ('e, 'a) result \<Rightarrow> ('d, 'a) result" where
  "map_error f r = (case r of Inl e \<Rightarrow> Inl (f e) | Inr x \<Rightarrow> Inr x)"

lemma map_error_simps [simp, ok_simps]:
  "map_error f (Inl e) = Inl (f e)" "map_error f (Inr x) = Inr x"
  by (simp_all add: map_error_def)

lemma map_error_Inr [simp]: "map_error f r = Inr x \<longleftrightarrow> r = Inr x"
  by (cases r) simp_all

text \<open>The cursor as such an access.  A later query never sees the cursor of a failed one,
  for the check ends with its error.\<close>

definition cursor_view ::
  "(compiled_workflow_definition \<Rightarrow> compiled_workflow_definition \<Rightarrow> bool) \<Rightarrow> readiness_graph \<Rightarrow> string
    \<Rightarrow> readiness_prefix \<Rightarrow> prefix_view" where
  "cursor_view ptr_eq g hash view =
    \<lparr>pv_projection = rp_projection view,
     pv_ready_at = ready_from_prefix_at ptr_eq g hash view,
     pv_is_ready_at = is_ready_from_prefix_at ptr_eq g hash view\<rparr>"

definition cursor_access ::
  "externals \<Rightarrow> (compiled_workflow_definition \<Rightarrow> compiled_workflow_definition \<Rightarrow> bool) \<Rightarrow> readiness_graph \<Rightarrow> string
    \<Rightarrow> history_prefix prefix_access" where
  "cursor_access E ptr_eq g hash =
    \<lparr>pa_at = (\<lambda>stop c. case prefix_at E stop c of
        (Inl error, _) \<Rightarrow> Inl (Engine_prefix error) | (Inr p, c') \<Rightarrow> Inr (p, c')),
     pa_query = (\<lambda>stop c. case prefix_query_at E stop c of
        (Inl error, _) \<Rightarrow> Inl (Engine_prefix error)
      | (Inr view, c') \<Rightarrow> Inr (cursor_view ptr_eq g hash view, c'))\<rparr>"

section \<open>Children of parallel groups\<close>

datatype parallel_child_state =
    ParallelChildState_Active
  | ParallelChildState_RetryPending
  | ParallelChildState_Succeeded
  | ParallelChildState_Failed attempt_failure_kind

type_synonym children = "(string, parallel_child_state) btree"

definition record_child ::
  "compiled_workflow_definition \<Rightarrow> string \<Rightarrow> parallel_child_state \<Rightarrow> children \<Rightarrow> children" where
  "record_child workflow node_id state children =
    (if is_some (parallel_group_for_child workflow node_id) then bt_insert node_id state children else children)"

definition record_wait_child ::
  "compiled_workflow_definition \<Rightarrow> string \<Rightarrow> parallel_child_state \<Rightarrow> children \<Rightarrow> children" where
  "record_wait_child workflow wait_id state children =
    (case durable_wait workflow wait_id of
       None \<Rightarrow> children | Some wait \<Rightarrow> record_child workflow (wt_node_id wait) state children)"

definition active_children :: "parallel_group_definition \<Rightarrow> children \<Rightarrow> nat" where
  "active_children parallel children =
    length (filter (\<lambda>node_id. bt_get children node_id = Some ParallelChildState_Active) (pgd_child_node_ids parallel))"

section \<open>Retries\<close>

definition delay_before_attempt :: "engine_externals \<Rightarrow> retry_policy \<Rightarrow> u32 \<Rightarrow> u64 option" where
  "delay_before_attempt X policy attempt =
    (if attempt < 2 \<or> rtp_max_attempts policy < attempt then None
     else (case rtp_backoff policy of
       BackoffPolicy_None \<Rightarrow> None
     | BackoffPolicy_Fixed delay_ms \<Rightarrow> Some delay_ms
     | BackoffPolicy_Exponential initial_delay_ms multiplier maximum_delay_ms \<Rightarrow>
         if unat (attempt - 2) < 2 ^ 31
         then Option.bind maximum_delay_ms (xt_exponential_delay X initial_delay_ms multiplier (attempt - 2))
         else None))"

definition node_retry_policy :: "compiled_workflow_definition \<Rightarrow> string \<Rightarrow> retry_policy option" where
  "node_retry_policy workflow node_id = Option.bind (wf_node workflow node_id) nd_retry_policy"

definition should_retry :: "compiled_workflow_definition \<Rightarrow> step_attempt_failed_data \<Rightarrow> bool" where
  "should_retry workflow data \<longleftrightarrow>
    is_some_and (node_retry_policy workflow (saf_node_id data)) (\<lambda>policy.
      af_kind (saf_failure data) = AttemptFailureKind_ScriptThrew \<and> saf_attempt data < rtp_max_attempts policy)"

definition schedules_retry_of :: "step_attempt_failed_data \<Rightarrow> run_event_payload \<Rightarrow> bool" where
  "schedules_retry_of data payload \<longleftrightarrow> (case payload of
     StepRetryScheduled schedule \<Rightarrow>
       srs_node_id schedule = saf_node_id data \<and> srs_failed_attempt schedule = saf_attempt data
       \<and> srs_next_attempt schedule = saf_attempt data + 1
   | _ \<Rightarrow> False)"

definition event_at :: "run_event list \<Rightarrow> nat \<Rightarrow> run_event option" where
  "event_at events index = (if index < length events then Some (events ! index) else None)"

text \<open>\<^verbatim>\<open>events.get(index.wrapping_sub(1))\<close>: no slice has an element at \<^verbatim>\<open>usize::MAX\<close>.\<close>

definition previous_event :: "run_event list \<Rightarrow> nat \<Rightarrow> run_event option" where
  "previous_event events index = (if index = 0 then None else event_at events (index - 1))"

definition step_effect_idempotency_key ::
  "externals \<Rightarrow> string \<Rightarrow> string \<Rightarrow> string \<Rightarrow> (definition_error, string) result" where
  "step_effect_idempotency_key E run_id definition_hash node_id =
    and_then (ok_or (json_to_vec E (JString run_id)) (Engine_panic 7)) (\<lambda>run_id.
    and_then (ok_or (json_to_vec E (JString definition_hash)) (Engine_panic 9)) (\<lambda>definition_hash.
    and_then (ok_or (json_to_vec E (JString node_id)) (Engine_panic 10)) (\<lambda>node_id.
    Inr (''sha256:'' @ sha256_hex E
      (''{\"contract\":\"woml.step-effect\",\"definitionHash\":'' @ definition_hash @ '',\"nodeId\":'' @ node_id
        @ '',\"runId\":'' @ run_id @ '',\"version\":1}'')))))"

section \<open>The rules of one event\<close>

abbreviation history_rule :: "bool \<Rightarrow> nat \<Rightarrow> rule" where
  "history_rule b line \<equiv> require b (Engine_history_rs line)"

abbreviation history_some :: "'a option \<Rightarrow> nat \<Rightarrow> (definition_error, 'a) result" where
  "history_some x line \<equiv> ok_or x (Engine_history_rs line)"

text \<open>What is ready on the prefix before the event.\<close>

definition require_ready ::
  "'c prefix_access \<Rightarrow> nat \<Rightarrow> instant \<Rightarrow> string \<Rightarrow> nat \<Rightarrow> 'c \<Rightarrow> (definition_error, 'c) result" where
  "require_ready A index now node_id line c =
    and_then (pa_query A index c) (\<lambda>(view, c').
    and_then (map_error Engine_readiness (pv_ready_at view now)) (\<lambda>ready.
    and_then (history_rule (node_id \<in> set ready) line) (\<lambda>_. Inr c')))"

text \<open>A check of the projection of a prefix.\<close>

definition require_at ::
  "'c prefix_access \<Rightarrow> nat \<Rightarrow> (run_projection \<Rightarrow> rule) \<Rightarrow> 'c \<Rightarrow> (definition_error, 'c) result" where
  "require_at A stop check c = and_then (pa_at A stop c) (\<lambda>(p, c'). and_then (check p) (\<lambda>_. Inr c'))"

definition terminal_route_complete ::
  "compiled_workflow_definition \<Rightarrow> string \<Rightarrow> run_projection \<Rightarrow> (definition_error, bool) result" where
  "terminal_route_complete workflow terminal p =
    map_error Engine_readiness (try_all (\<lambda>edge.
      case wf_node workflow (ed_from edge) of
        None \<Rightarrow> Inr False
      | Some node \<Rightarrow> node_is_complete (complete_fuel workflow) workflow None p node)
      (filter (\<lambda>edge. ed_to edge = terminal) (gr_edges (wd_graph workflow))))"

definition history_fork_branch_settled ::
  "'c prefix_access \<Rightarrow> compiled_workflow_definition \<Rightarrow> nat \<Rightarrow> fork_branch_settled_data \<Rightarrow> 'c \<Rightarrow> (definition_error, 'c) result" where
  "history_fork_branch_settled A workflow index data c =
    and_then (history_some (wf_fork workflow (fbs_fork_id data)) 181) (\<lambda>fork.
    and_then (history_some (List.find (\<lambda>branch. br_branch_id branch = fbs_branch_id data) (fk_branches fork)) 186) (\<lambda>branch.
    if fbs_outcome data = ForkBranchOutcome_Succeeded
    then require_at A index (\<lambda>p. and_then (terminal_route_complete workflow (br_terminal_node_id branch) p)
      (\<lambda>complete. history_rule complete 200)) c
    else Inr c))"

definition fork_join_rule :: "compiled_fork \<Rightarrow> fork_join_settled_data \<Rightarrow> run_projection \<Rightarrow> rule" where
  "fork_join_rule fork data p =
    and_then (history_some (bt_get (p_forks p) (fjs_fork_id data)) 220) (\<lambda>projected.
    history_rule (\<not> (fjs_outcome data = ForkJoinOutcome_Succeeded
      \<and> \<not> list_all (\<lambda>branch_id. Option.bind (bt_get (fp_branches projected) branch_id) fbp_outcome
            = Some ForkBranchOutcome_Succeeded) (fk_joined_branch_ids fork))) 230)"

text \<open>The last of the largest keys, as \<^verbatim>\<open>Iterator::max_by_key\<close> has it.\<close>

definition max_by_key :: "('a \<Rightarrow> 'k::linorder) \<Rightarrow> 'a list \<Rightarrow> 'a option" where
  "max_by_key key xs = (case xs of
     [] \<Rightarrow> None
   | x # ys \<Rightarrow> Some (foldl (\<lambda>best y. if key best \<le> key y then y else best) x ys))"

definition next_compensation :: "saga_projection \<Rightarrow> string option" where
  "next_compensation state = map_option cap_action_id (max_by_key cap_completion_sequence
    (filter (\<lambda>action. cap_action_kind action = CorrectiveActionKind_Compensation
        \<and> cap_status action \<in> {CorrectionActionStatus_Registered, CorrectionActionStatus_RetryScheduled})
      (bt_values (sp_actions state))))"

definition compensation_pending :: "saga_projection \<Rightarrow> bool" where
  "compensation_pending state \<longleftrightarrow> list_ex (\<lambda>action.
     cap_action_kind action = CorrectiveActionKind_Compensation
     \<and> cap_status action \<in> {CorrectionActionStatus_Registered, CorrectionActionStatus_Started,
         CorrectionActionStatus_RetryScheduled}) (bt_values (sp_actions state))"

definition action_settled :: "correction_action_status set \<Rightarrow> saga_projection \<Rightarrow> compiled_corrective_action \<Rightarrow> bool" where
  "action_settled statuses state action =
    is_some_and (bt_get (sp_actions state) (cca_action_id action)) (\<lambda>projected. cap_status projected \<in> statuses)"

definition compensation_rule :: "correction_attempt_identity_data \<Rightarrow> saga_projection \<Rightarrow> rule" where
  "compensation_rule data state =
    (if sp_reason state = Some SagaCorrectionReason_Success then Inl (Engine_history_rs 261)
     else history_rule (next_compensation state = Some (cai_action_id data)) 277)"

definition cleanup_rule :: "compiled_saga \<Rightarrow> correction_attempt_identity_data \<Rightarrow> saga_projection \<Rightarrow> rule" where
  "cleanup_rule saga data state =
    (if sp_reason state \<noteq> Some SagaCorrectionReason_Success \<and> compensation_pending state
     then Inl (Engine_history_rs 295)
     else and_then (history_some (position (\<lambda>action. cca_action_id action = cai_action_id data) (sg_cleanup saga)) 301)
       (\<lambda>position. history_rule (list_all (action_settled {CorrectionActionStatus_Succeeded,
           CorrectionActionStatus_Failed, CorrectionActionStatus_ManualRecovery} state)
         (take position (sg_cleanup saga))) 315))"

definition correction_started_rule :: "compiled_saga \<Rightarrow> correction_attempt_identity_data \<Rightarrow> run_projection \<Rightarrow> rule" where
  "correction_started_rule saga data p =
    and_then (history_some (bt_get (p_sagas p) (cai_saga_id data)) 257) (\<lambda>state.
    case cai_action_kind data of
      CorrectiveActionKind_Compensation \<Rightarrow> compensation_rule data state
    | CorrectiveActionKind_Cleanup \<Rightarrow> cleanup_rule saga data state)"

definition correction_completed_rule :: "compiled_saga \<Rightarrow> saga_identity_data \<Rightarrow> run_projection \<Rightarrow> rule" where
  "correction_completed_rule saga data p =
    and_then (history_some (bt_get (p_sagas p) (si_saga_id data)) 331) (\<lambda>state.
    history_rule (list_all (action_settled {CorrectionActionStatus_Succeeded, CorrectionActionStatus_Failed} state)
      (sg_cleanup saga)) 343)"

definition forks_settled_rule :: "compiled_workflow_definition \<Rightarrow> run_projection \<Rightarrow> rule" where
  "forks_settled_rule workflow p =
    history_rule (list_all (\<lambda>fork. is_none_or (bt_get (p_forks p) (fk_fork_id fork)) (\<lambda>projected.
        \<not> (fp_join_status projected = ForkJoinStatus_Pending
          \<or> list_ex (\<lambda>branch. \<not> bt_contains (fp_branches projected) (br_branch_id branch)) (fk_branches fork))))
      (unwrap_or_default (gr_forks (wd_graph workflow)))) 361"

definition history_step_attempt_started ::
  "engine_externals \<Rightarrow> 'c prefix_access \<Rightarrow> compiled_workflow_definition \<Rightarrow> string \<Rightarrow> nat \<Rightarrow> run_event
    \<Rightarrow> step_attempt_started_data \<Rightarrow> children \<Rightarrow> 'c \<Rightarrow> (definition_error, children \<times> 'c) result" where
  "history_step_attempt_started X A workflow hash index event data children c =
    and_then (pa_query A index c) (\<lambda>(view, c').
    and_then (map_error Engine_readiness (pv_is_ready_at view (ev_occurred_at event) (sast_node_id data))) (\<lambda>ready.
    and_then (history_rule ready 389) (\<lambda>_.
    and_then (if 6 \<le> wd_schema_version workflow
        then and_then (step_effect_idempotency_key (xt_fold X) (ev_run_id event) hash (sast_node_id data))
          (\<lambda>expected_key. history_rule (sast_idempotency_key data = Some expected_key) 398)
        else Inr ()) (\<lambda>_.
    case parallel_group_for_child workflow (sast_node_id data) of
      None \<Rightarrow> Inr (children, c')
    | Some parallel \<Rightarrow>
        and_then (history_rule (map_option pgp_status
            (bt_get (p_parallel_groups (pv_projection view)) (pgd_parallel_id parallel))
            = Some ParallelGroupStatus_Started) 414) (\<lambda>_.
        and_then (history_rule (active_children parallel children < pgd_concurrency parallel) 425) (\<lambda>_.
        Inr (bt_insert (sast_node_id data) ParallelChildState_Active children, c')))))))"

definition history_step_attempt_failed ::
  "compiled_workflow_definition \<Rightarrow> run_event list \<Rightarrow> nat \<Rightarrow> step_attempt_failed_data \<Rightarrow> children
    \<Rightarrow> (definition_error, children) result" where
  "history_step_attempt_failed workflow events index data children =
    and_then (history_rule (\<not> (should_retry workflow data
        \<and> \<not> is_some_and (event_at events (index + 1)) (\<lambda>event. schedules_retry_of data (ev_payload event)))) 459)
      (\<lambda>_. Inr (record_child workflow (saf_node_id data)
        (ParallelChildState_Failed (af_kind (saf_failure data))) children))"

definition history_step_retry_scheduled ::
  "engine_externals \<Rightarrow> compiled_workflow_definition \<Rightarrow> run_event list \<Rightarrow> nat \<Rightarrow> step_retry_scheduled_data \<Rightarrow> children
    \<Rightarrow> (definition_error, children) result" where
  "history_step_retry_scheduled X workflow events index data children =
    and_then (history_some (previous_event events index) 469) (\<lambda>previous.
    case ev_payload previous of
      StepAttemptFailed failed \<Rightarrow>
        and_then (history_some (node_retry_policy workflow (srs_node_id data)) 478) (\<lambda>policy.
        and_then (history_some (delay_before_attempt X policy (srs_next_attempt data)) 481) (\<lambda>delay_ms.
        and_then (history_rule (unat delay_ms < 2 ^ 63) 484) (\<lambda>_.
        and_then (history_rule (saf_node_id failed = srs_node_id data \<and> saf_attempt failed = srs_failed_attempt data
            \<and> af_kind (saf_failure failed) = AttemptFailureKind_ScriptThrew
            \<and> srs_scheduled_at data = ev_occurred_at previous + int (unat delay_ms)) 491) (\<lambda>_.
        Inr (record_child workflow (srs_node_id data) ParallelChildState_RetryPending children)))))
    | _ \<Rightarrow> Inl (Engine_history_rs 471))"

definition child_failed :: "children \<Rightarrow> string \<Rightarrow> bool" where
  "child_failed children node_id = (case bt_get children node_id of
     Some (ParallelChildState_Failed kind) \<Rightarrow> kind \<noteq> AttemptFailureKind_InvocationCancelled | _ \<Rightarrow> False)"

definition child_cancelled :: "children \<Rightarrow> string \<Rightarrow> bool" where
  "child_cancelled children node_id \<longleftrightarrow>
    bt_get children node_id = Some (ParallelChildState_Failed AttemptFailureKind_InvocationCancelled)"

definition child_terminal :: "children \<Rightarrow> string \<Rightarrow> bool" where
  "child_terminal children node_id = (case bt_get children node_id of
     Some ParallelChildState_Succeeded \<Rightarrow> True | Some (ParallelChildState_Failed _) \<Rightarrow> True | _ \<Rightarrow> False)"

definition group_outcome_valid :: "parallel_group_definition \<Rightarrow> children \<Rightarrow> parallel_group_outcome \<Rightarrow> bool" where
  "group_outcome_valid parallel children outcome = (case outcome of
     ParallelGroupOutcome_Succeeded \<Rightarrow>
       list_all (\<lambda>node_id. bt_get children node_id = Some ParallelChildState_Succeeded) (pgd_child_node_ids parallel)
   | ParallelGroupOutcome_Failed \<Rightarrow>
       if pgd_on_error parallel = ''wait-all'' then list_all (child_terminal children) (pgd_child_node_ids parallel)
       else \<not> list_ex (\<lambda>node_id. bt_get children node_id = Some ParallelChildState_Active) (pgd_child_node_ids parallel))"

definition history_parallel_group_completed ::
  "compiled_workflow_definition \<Rightarrow> parallel_group_completed_data \<Rightarrow> children \<Rightarrow> rule" where
  "history_parallel_group_completed workflow data children =
    and_then (history_some (parallel_group workflow (pgc_parallel_id data)) 503) (\<lambda>parallel.
    history_rule (group_outcome_valid parallel children (pgc_outcome data)
      \<and> pgc_failed_node_ids data = filter (child_failed children) (pgd_child_node_ids parallel)
      \<and> pgc_cancelled_node_ids data = filter (child_cancelled children) (pgd_child_node_ids parallel)) 550)"

definition approval_deadline :: "approval_definition \<Rightarrow> instant \<Rightarrow> (definition_error, instant option) result" where
  "approval_deadline approval occurred_at = (case apd_timeout_ms approval of
     None \<Rightarrow> Inr None
   | Some milliseconds \<Rightarrow>
       if unat milliseconds < 2 ^ 63 then Inr (Some (occurred_at + int (unat milliseconds)))
       else Inl (Engine_history_rs 577))"

definition history_approval_requested ::
  "'c prefix_access \<Rightarrow> compiled_workflow_definition \<Rightarrow> nat \<Rightarrow> instant \<Rightarrow> run_event \<Rightarrow> approval_requested_data \<Rightarrow> 'c
    \<Rightarrow> (definition_error, 'c) result" where
  "history_approval_requested A workflow index now event data c =
    and_then (history_some (wf_approval workflow (areq_approval_id data)) 559) (\<lambda>approval.
    and_then (require_ready A index now (areq_approval_id data) 563 c) (\<lambda>c'.
    and_then (approval_deadline approval (ev_occurred_at event)) (\<lambda>expected_expires_at.
    and_then (history_rule (areq_expires_at data = expected_expires_at) 583) (\<lambda>_. Inr c'))))"

definition group_succeeded :: "parallel_group_projection \<Rightarrow> bool" where
  "group_succeeded parallel = (case pgp_status parallel of
     ParallelGroupStatus_Completed outcome _ _ \<Rightarrow> outcome = ParallelGroupOutcome_Succeeded
   | ParallelGroupStatus_Started \<Rightarrow> False)"

definition hook_eligible :: "lifecycle_hook_requested_data \<Rightarrow> run_event_payload \<Rightarrow> bool" where
  "hook_eligible data previous = (case lhr_event data of
     LifecycleEventName_RunStart \<Rightarrow>
       (case previous of RunStarted _ \<Rightarrow> True | RunExecutionStarted _ \<Rightarrow> True | _ \<Rightarrow> False)
   | LifecycleEventName_RunCancel \<Rightarrow>
       (case previous of RunCancellationRequested _ \<Rightarrow> True
        | RunOutcomeDecided (RunOutcomeDecidedData_Cancelled _) \<Rightarrow> True | _ \<Rightarrow> False)
   | LifecycleEventName_RunSuccess \<Rightarrow>
       (case previous of RunOutcomeDecided (RunOutcomeDecidedData_Succeeded _) \<Rightarrow> True | _ \<Rightarrow> False)
   | LifecycleEventName_RunFailure \<Rightarrow>
       (case previous of RunOutcomeDecided (RunOutcomeDecidedData_Failed _) \<Rightarrow> True | _ \<Rightarrow> False)
   | LifecycleEventName_RunComplete \<Rightarrow>
       (case previous of LifecycleHookCompleted _ \<Rightarrow> True | RunOutcomeDecided _ \<Rightarrow> True | _ \<Rightarrow> False)
   | LifecycleEventName_StepStart \<Rightarrow>
       (case previous of StepAttemptStarted step \<Rightarrow> sast_node_id step = ls_id (lhr_subject data) | _ \<Rightarrow> False)
   | LifecycleEventName_StepSuccess \<Rightarrow>
       (case previous of StepAttemptSucceeded step \<Rightarrow> sasu_node_id step = ls_id (lhr_subject data) | _ \<Rightarrow> False)
   | LifecycleEventName_StepFailure \<Rightarrow>
       (case previous of StepAttemptFailed step \<Rightarrow> saf_node_id step = ls_id (lhr_subject data) | _ \<Rightarrow> False)
   | LifecycleEventName_StepComplete \<Rightarrow>
       (case previous of LifecycleHookCompleted _ \<Rightarrow> True | StepAttemptSucceeded _ \<Rightarrow> True
        | StepAttemptFailed _ \<Rightarrow> True | _ \<Rightarrow> False))"

definition history_lifecycle_hook_requested ::
  "externals \<Rightarrow> run_event list \<Rightarrow> nat \<Rightarrow> run_event \<Rightarrow> lifecycle_hook_requested_data \<Rightarrow> rule" where
  "history_lifecycle_hook_requested E events index event data =
    (if lhr_hook_invocation_id data \<noteq> derive_lifecycle_hook_invocation_id E (ev_run_id event) (lhr_hook_id data)
           (ls_kind (lhr_subject data)) (ls_id (lhr_subject data))
       \<or> (ls_kind (lhr_subject data) = LifecycleSubjectKind_Workflow \<and> ls_id (lhr_subject data) \<noteq> ev_run_id event)
     then Inl (Engine_history_rs 679)
     else history_rule (is_some_and (previous_event events index) (\<lambda>previous. hook_eligible data (ev_payload previous))) 729)"

definition lifecycle_action_rule :: "compiled_workflow_definition \<Rightarrow> lifecycle_action_identity_data \<Rightarrow> run_projection \<Rightarrow> rule" where
  "lifecycle_action_rule workflow data p =
    and_then (history_some (bt_get (p_lifecycle_hooks p) (lai_hook_invocation_id data)) 739) (\<lambda>hook_projection.
    and_then (history_some (lifecycle_hook workflow (lhp_hook_id hook_projection)) 742) (\<lambda>hook.
    let started = length (bt_entries (lhp_actions hook_projection)) in
    and_then (history_some (if started < length (clh_actions hook) then Some (clh_actions hook ! started) else None) 746)
      (\<lambda>expected. history_rule (cla_action_id expected = lai_action_id data) 750)))"

definition lifecycle_completed_rule :: "compiled_workflow_definition \<Rightarrow> lifecycle_hook_completed_data \<Rightarrow> run_projection \<Rightarrow> rule" where
  "lifecycle_completed_rule workflow data p =
    and_then (history_some (bt_get (p_lifecycle_hooks p) (lhc_hook_invocation_id data)) 758) (\<lambda>hook_projection.
    and_then (history_some (lifecycle_hook workflow (lhp_hook_id hook_projection)) 761) (\<lambda>hook.
    history_rule (length (bt_entries (lhp_actions hook_projection)) = length (clh_actions hook)) 763))"

text \<open>The rules of the payloads that leave the children as they are.\<close>

definition history_prefix_rule ::
  "engine_externals \<Rightarrow> 'c prefix_access \<Rightarrow> compiled_workflow_definition \<Rightarrow> run_event list \<Rightarrow> nat \<Rightarrow> instant \<Rightarrow> run_event
    \<Rightarrow> children \<Rightarrow> 'c \<Rightarrow> (definition_error, 'c) result" where
  "history_prefix_rule X A workflow events index now event children c = (case ev_payload event of
     ChoiceSelected data \<Rightarrow>
       and_then (history_some (wf_choice workflow (chs_choice_id data)) 145) (\<lambda>choice.
       require_ready A index now (ch_selector_node_id choice) 149 c)
   | ForkOpened data \<Rightarrow>
       and_then (history_some (wf_fork workflow (fo_fork_id data)) 163) (\<lambda>fork.
       require_ready A index now (fk_open_node_id fork) 167 c)
   | ForkBranchSettled data \<Rightarrow> history_fork_branch_settled A workflow index data c
   | ForkJoinSettled data \<Rightarrow>
       and_then (history_some (wf_fork workflow (fjs_fork_id data)) 215) (\<lambda>fork.
       require_at A index (fork_join_rule fork data) c)
   | SagaStarted data \<Rightarrow>
       and_then (history_some (wf_saga workflow (si_saga_id data)) 239) (\<lambda>saga.
       require_ready A index now (sg_open_node_id saga) 243 c)
   | CorrectionAttemptStarted data \<Rightarrow>
       and_then (history_some (wf_saga workflow (cai_saga_id data)) 252) (\<lambda>saga.
       require_at A index (correction_started_rule saga data) c)
   | SagaCorrectionCompleted data \<Rightarrow>
       and_then (history_some (wf_saga workflow (si_saga_id data)) 326) (\<lambda>saga.
       require_at A index (correction_completed_rule saga data) c)
   | RunOutcomeDecided _ \<Rightarrow> require_at A index (forks_settled_rule workflow) c
   | ParallelGroupStarted data \<Rightarrow>
       and_then (history_some (parallel_group workflow (pgs_parallel_id data)) 371) (\<lambda>parallel.
       require_ready A index now (pgd_start_node_id parallel) 375 c)
   | ParallelGroupCompleted data \<Rightarrow>
       and_then (history_parallel_group_completed workflow data children) (\<lambda>_. Inr c)
   | ApprovalRequested data \<Rightarrow> history_approval_requested A workflow index now event data c
   | ApprovalReviewRequested data \<Rightarrow> require_ready A index now (arvr_approval_id data) 593 c
   | RunSucceeded _ \<Rightarrow>
       require_at A (index + 1) (\<lambda>p. history_rule (list_all group_succeeded (bt_values (p_parallel_groups p))) 662) c
   | LifecycleHookRequested data \<Rightarrow>
       and_then (history_lifecycle_hook_requested (xt_fold X) events index event data) (\<lambda>_. Inr c)
   | LifecycleActionAttemptStarted data \<Rightarrow> require_at A index (lifecycle_action_rule workflow data) c
   | LifecycleHookCompleted data \<Rightarrow> require_at A index (lifecycle_completed_rule workflow data) c
   | _ \<Rightarrow> Inr c)"

definition history_event_rule ::
  "engine_externals \<Rightarrow> 'c prefix_access \<Rightarrow> compiled_workflow_definition \<Rightarrow> string \<Rightarrow> run_event list \<Rightarrow> nat \<Rightarrow> instant
    \<Rightarrow> run_event \<Rightarrow> children \<Rightarrow> 'c \<Rightarrow> (definition_error, children \<times> 'c) result" where
  "history_event_rule X A workflow hash events index now event children c = (case ev_payload event of
     StepAttemptStarted data \<Rightarrow> history_step_attempt_started X A workflow hash index event data children c
   | StepAttemptSucceeded data \<Rightarrow>
       Inr (record_child workflow (sasu_node_id data) ParallelChildState_Succeeded children, c)
   | StepAttemptFailed data \<Rightarrow>
       and_then (history_step_attempt_failed workflow events index data children) (\<lambda>children'. Inr (children', c))
   | StepRetryScheduled data \<Rightarrow>
       and_then (history_step_retry_scheduled X workflow events index data children) (\<lambda>children'. Inr (children', c))
   | WaitRegistered data \<Rightarrow>
       and_then (require_ready A index (ev_occurred_at event) (wr_node_id data) 604 c) (\<lambda>c'.
       Inr (record_child workflow (wr_node_id data) ParallelChildState_Active children, c'))
   | WaitSatisfied data \<Rightarrow>
       Inr (record_wait_child workflow (ws_wait_id data) ParallelChildState_Succeeded children, c)
   | WaitTimedOut data \<Rightarrow>
       Inr (record_wait_child workflow (wto_wait_id data)
         (if wto_behavior data = DurableWaitTimeoutBehavior_Continue then ParallelChildState_Succeeded
          else ParallelChildState_Failed AttemptFailureKind_ServiceFailed) children, c)
   | WaitCancelled data \<Rightarrow>
       Inr (record_wait_child workflow (wc_wait_id data)
         (ParallelChildState_Failed AttemptFailureKind_InvocationCancelled) children, c)
   | _ \<Rightarrow> and_then (history_prefix_rule X A workflow events index now event children c)
       (\<lambda>c'. Inr (children, c')))"

section \<open>The loop\<close>

definition iteration_boundary :: "run_event_payload \<Rightarrow> bool" where
  "iteration_boundary payload = (case payload of
     ForEachIterationStarted _ \<Rightarrow> True | ForEachIterationSucceeded _ \<Rightarrow> True
   | ForEachIterationFailed _ \<Rightarrow> True | ForEachIterationSkipped _ \<Rightarrow> True | _ \<Rightarrow> False)"

definition history_event ::
  "engine_externals \<Rightarrow> 'c prefix_access \<Rightarrow> compiled_workflow_definition \<Rightarrow> string \<Rightarrow> run_event list \<Rightarrow> nat \<Rightarrow> instant
    \<Rightarrow> children \<Rightarrow> 'c \<Rightarrow> (definition_error, children \<times> 'c) result" where
  "history_event X A workflow hash events index now children c =
    (let event = events ! index in
     case ev_iteration event of
       Some scope \<Rightarrow>
         and_then (validate_scoped_payload_against_definition X workflow hash (ev_run_id event) scope (ev_payload event)) (\<lambda>_.
         if iteration_boundary (ev_payload event)
         then history_event_rule X A workflow hash events index now event children c else Inr (children, c))
     | None \<Rightarrow>
         and_then (validate_payload_against_definition X workflow hash (ev_payload event)) (\<lambda>_.
         history_event_rule X A workflow hash events index now event children c))"

text \<open>The events from an index on.  The clock is read anew for every event.\<close>

function history_loop ::
  "engine_externals \<Rightarrow> 'c prefix_access \<Rightarrow> compiled_workflow_definition \<Rightarrow> string \<Rightarrow> (nat \<Rightarrow> instant) \<Rightarrow> run_event list \<Rightarrow> nat
    \<Rightarrow> children \<Rightarrow> 'c \<Rightarrow> (definition_error, unit) result" where
  "history_loop X A workflow hash clock events index children c =
    (if index < length events
     then and_then (history_event X A workflow hash events index (clock index) children c)
       (\<lambda>(children', c'). history_loop X A workflow hash clock events (index + 1) children' c')
     else Inr ())"
  by pat_completeness auto
termination
  by (relation "measure (\<lambda>(X, A, workflow, hash, clock, events, index, children, c). length events - index)") auto

declare history_loop.simps [simp del]

definition validate_history_definition_rules ::
  "engine_externals \<Rightarrow> 'c prefix_access \<Rightarrow> (nat \<Rightarrow> instant) \<Rightarrow> compiled_workflow_definition \<Rightarrow> string \<Rightarrow> run_event list \<Rightarrow> 'c
    \<Rightarrow> (definition_error, unit) result" where
  "validate_history_definition_rules X A clock workflow hash events prefixes =
    history_loop X A workflow hash clock events 0 bt_empty prefixes"

record validated_history =
  vh_events :: "run_event list"
  vh_definition :: compiled_workflow_definition
  vh_definition_hash :: string
  vh_state :: fold_state

definition check_event_history_against_definition ::
  "engine_externals \<Rightarrow> (compiled_workflow_definition \<Rightarrow> compiled_workflow_definition \<Rightarrow> bool) \<Rightarrow> (nat \<Rightarrow> instant)
    \<Rightarrow> compiled_workflow_definition \<Rightarrow> string \<Rightarrow> run_event list \<Rightarrow> (definition_error, validated_history) result" where
  "check_event_history_against_definition X ptr_eq clock workflow hash events =
    and_then (map_error Engine_fold (from_events (xt_fold X) events)) (\<lambda>state.
    and_then (validate_history_definition_rules X
        (cursor_access (xt_fold X) ptr_eq (readiness_graph_new workflow) hash) clock workflow hash events
        (history_prefix_with_definition events workflow hash)) (\<lambda>_.
    Inr \<lparr>vh_events = events, vh_definition = workflow, vh_definition_hash = hash, vh_state = state\<rparr>))"

definition validate_event_history_against_definition ::
  "engine_externals \<Rightarrow> (compiled_workflow_definition \<Rightarrow> compiled_workflow_definition \<Rightarrow> bool) \<Rightarrow> (nat \<Rightarrow> instant)
    \<Rightarrow> compiled_workflow_definition \<Rightarrow> string \<Rightarrow> run_event list \<Rightarrow> (definition_error, unit) result" where
  "validate_event_history_against_definition X ptr_eq clock workflow hash events =
    and_then (check_event_history_against_definition X ptr_eq clock workflow hash events) (\<lambda>_. Inr ())"

end
