(* ===== verification/History_Facts.thy ===== *)
theory History_Facts
  imports History_Rules
begin

text \<open>
  The check of a history reads prefixes only forward.  Any access that promises the
  projection of the prefix and the readiness queries on it gives the same check, so the
  check through the cursor is the check that folds every prefix from the start.
\<close>

section \<open>Results step by step\<close>

abbreviation same_result :: "('a \<Rightarrow> 'b \<Rightarrow> bool) \<Rightarrow> ('e, 'a) result \<Rightarrow> ('e, 'b) result \<Rightarrow> bool" where
  "same_result R \<equiv> rel_sum (=) R"

lemma same_result_refl: "(\<And>x. r = Inr x \<Longrightarrow> R x x) \<Longrightarrow> same_result R r r"
  by (cases r) simp_all

lemma same_result_and_then:
  assumes "same_result R r s" "\<And>x y. r = Inr x \<Longrightarrow> s = Inr y \<Longrightarrow> R x y \<Longrightarrow> same_result S (f x) (g y)"
  shows "same_result S (and_then r f) (and_then s g)"
  using assms by (cases r; cases s) (auto simp: ok_simps)

lemma same_result_keep:
  assumes "\<And>x. r = Inr x \<Longrightarrow> same_result S (f x) (g x)"
  shows "same_result S (and_then r f) (and_then r g)"
  using assms by (cases r) (auto simp: ok_simps)

lemma same_result_done:
  assumes "R x ()"
  shows "same_result R (and_then r (\<lambda>_. Inr x)) r"
  using assms by (cases r) (auto simp: ok_simps)

section \<open>What a reader of prefixes promises\<close>

definition fold_view :: "readiness_graph \<Rightarrow> string \<Rightarrow> run_projection \<Rightarrow> prefix_view" where
  "fold_view g hash p =
    \<lparr>pv_projection = p, pv_ready_at = ready_at g hash p, pv_is_ready_at = is_ready_at g hash p\<rparr>"

text \<open>The reader that folds every prefix anew.\<close>

definition fold_access :: "externals \<Rightarrow> readiness_graph \<Rightarrow> string \<Rightarrow> run_event list \<Rightarrow> unit prefix_access" where
  "fold_access E g hash events =
    \<lparr>pa_at = (\<lambda>stop c. and_then (map_error Engine_fold (fold_events E (take stop events))) (\<lambda>p. Inr (p, c))),
     pa_query = (\<lambda>stop c. and_then (map_error Engine_fold (fold_events E (take stop events)))
       (\<lambda>p. Inr (fold_view g hash p, c)))\<rparr>"

locale history_source =
  fixes A :: "'c prefix_access" and reads :: "nat \<Rightarrow> 'c \<Rightarrow> bool"
    and E :: externals and g :: readiness_graph and hash :: string and events :: "run_event list"
  assumes reads_later: "reads n c \<Longrightarrow> n \<le> m \<Longrightarrow> reads m c"
    and prefix_folds: "reads n c \<Longrightarrow> \<exists>p. fold_events E (take stop events) = Inr p"
    and at_reads: "reads stop c \<Longrightarrow> stop \<le> length events \<Longrightarrow> fold_events E (take stop events) = Inr p
      \<Longrightarrow> \<exists>c'. pa_at A stop c = Inr (p, c') \<and> reads stop c'"
    and query_reads: "reads stop c \<Longrightarrow> stop \<le> length events \<Longrightarrow> fold_events E (take stop events) = Inr p
      \<Longrightarrow> \<exists>c'. pa_query A stop c = Inr (fold_view g hash p, c') \<and> reads stop c'"
begin

lemma reads_Suc: "reads n c \<Longrightarrow> reads (Suc n) c"
  by (rule reads_later [OF _ le_SucI [OF le_refl]])

lemma at_result:
  assumes "reads stop c" "stop \<le> length events"
  shows "same_result (\<lambda>(p, c') (q, _). p = q \<and> reads stop c')
    (pa_at A stop c) (pa_at (fold_access E g hash events) stop ())"
proof -
  obtain p where p: "fold_events E (take stop events) = Inr p" using prefix_folds [OF assms(1)] by blast
  then show ?thesis using at_reads [OF assms p] by (auto simp: fold_access_def ok_simps)
qed

lemma query_result:
  assumes "reads stop c" "stop \<le> length events"
  shows "same_result (\<lambda>(v, c') (w, _). v = w \<and> reads stop c')
    (pa_query A stop c) (pa_query (fold_access E g hash events) stop ())"
proof -
  obtain p where p: "fold_events E (take stop events) = Inr p" using prefix_folds [OF assms(1)] by blast
  then show ?thesis using query_reads [OF assms p] by (auto simp: fold_access_def ok_simps)
qed

lemma require_ready_result:
  assumes "reads index c" "index < length events"
  shows "same_result (\<lambda>c' _. reads (Suc index) c')
    (require_ready A index now node_id line c) (require_ready (fold_access E g hash events) index now node_id line ())"
  unfolding require_ready_def
  using query_result [OF assms(1)] assms(2)
  by (intro same_result_and_then [OF query_result [OF assms(1)]])
    (auto intro!: same_result_keep same_result_done intro: reads_later)

lemma require_at_result:
  assumes "reads stop c" "stop \<le> Suc index" "index < length events"
  shows "same_result (\<lambda>c' _. reads (Suc index) c')
    (require_at A stop check c) (require_at (fold_access E g hash events) stop check ())"
  unfolding require_at_def
  using assms
  by (intro same_result_and_then [OF at_result [OF assms(1)]])
    (auto intro!: same_result_keep same_result_done intro: reads_later)

lemma approval_requested_result:
  assumes "reads index c" "index < length events"
  shows "same_result (\<lambda>c' _. reads (Suc index) c')
    (history_approval_requested A workflow index now event data c)
    (history_approval_requested (fold_access E g hash events) workflow index now event data ())"
  unfolding history_approval_requested_def
  by (intro same_result_keep same_result_and_then [OF require_ready_result [OF assms]])
    (auto intro!: same_result_keep same_result_done)

lemma prefix_rule_result:
  assumes "reads index c" "index < length events"
  shows "same_result (\<lambda>c' _. reads (Suc index) c')
    (history_prefix_rule X A workflow events index now event children c)
    (history_prefix_rule X (fold_access E g hash events) workflow events index now event children ())"
proof -
  have later: "reads (Suc index) c" by (rule reads_Suc [OF assms(1)])
  note ready = require_ready_result [OF assms] and at = require_at_result [OF assms(1) le_SucI [OF le_refl] assms(2)]
    and after = require_at_result [OF later le_refl assms(2)]
  show ?thesis
    using later ready at after approval_requested_result [OF assms] unfolding history_prefix_rule_def
    by (cases "ev_payload event") (simp_all add: history_fork_branch_settled_def same_result_keep same_result_done)
qed

lemma step_attempt_started_result:
  assumes "reads index c" "index < length events"
  shows "same_result (\<lambda>(ch, c') (ch', _). ch = ch' \<and> reads (Suc index) c')
    (history_step_attempt_started X A workflow h index event data children c)
    (history_step_attempt_started X (fold_access E g hash events) workflow h index event data children ())"
  unfolding history_step_attempt_started_def
  using assms(2)
  by (intro same_result_and_then [OF query_result [OF assms(1)]])
    (auto intro!: same_result_keep reads_Suc split: option.splits)

lemma event_rule_result:
  assumes "reads index c" "index < length events"
  shows "same_result (\<lambda>(ch, c') (ch', _). ch = ch' \<and> reads (Suc index) c')
    (history_event_rule X A workflow h events index now event children c)
    (history_event_rule X (fold_access E g hash events) workflow h events index now event children ())"
proof -
  have later: "reads (Suc index) c" by (rule reads_Suc [OF assms(1)])
  have other: "same_result (\<lambda>(ch, c') (ch', _). ch = ch' \<and> reads (Suc index) c')
      (and_then (history_prefix_rule X A workflow events index now event children c) (\<lambda>c'. Inr (children, c')))
      (and_then (history_prefix_rule X (fold_access E g hash events) workflow events index now event children ())
        (\<lambda>c'. Inr (children, c')))"
    by (intro same_result_and_then [OF prefix_rule_result [OF assms]]) simp
  have wait: "same_result (\<lambda>(ch, c') (ch', _). ch = ch' \<and> reads (Suc index) c')
      (and_then (require_ready A index at node_id line c) (\<lambda>c'. Inr (ch, c')))
      (and_then (require_ready (fold_access E g hash events) index at node_id line ()) (\<lambda>c'. Inr (ch, c')))"
    for at node_id line ch
    by (intro same_result_and_then [OF require_ready_result [OF assms]]) simp
  show ?thesis
    using later other wait step_attempt_started_result [OF assms] unfolding history_event_rule_def
    by (cases "ev_payload event") (simp_all add: same_result_keep)
qed

lemma event_result:
  assumes "reads index c" "index < length events"
  shows "same_result (\<lambda>(ch, c') (ch', _). ch = ch' \<and> reads (Suc index) c')
    (history_event X A workflow h events index now children c)
    (history_event X (fold_access E g hash events) workflow h events index now children ())"
  using event_rule_result [OF assms] reads_Suc [OF assms(1)] unfolding history_event_def Let_def
  by (cases "ev_iteration (events ! index)") (auto intro!: same_result_keep)

lemma loop_result:
  assumes "reads index c"
  shows "history_loop X A workflow h clock events index children c
    = history_loop X (fold_access E g hash events) workflow h clock events index children ()"
  using assms
proof (induction "length events - index" arbitrary: index children c)
  case 0
  then show ?case by (simp add: history_loop.simps)
next
  case (Suc n)
  then have index: "index < length events" by simp
  have "same_result (\<lambda>_ _. True)
      (and_then (history_event X A workflow h events index (clock index) children c)
        (\<lambda>(ch, c'). history_loop X A workflow h clock events (index + 1) ch c'))
      (and_then (history_event X (fold_access E g hash events) workflow h events index (clock index) children ())
        (\<lambda>(ch, c'). history_loop X (fold_access E g hash events) workflow h clock events (index + 1) ch c'))"
    using Suc
    by (intro same_result_and_then [OF event_result [OF Suc.prems index]]) (auto intro!: same_result_refl)
  then show ?case
    using index by (subst (1 2) history_loop.simps) (auto simp: rel_sum.simps)
qed

end

section \<open>The two readers\<close>

definition cursor_reads ::
  "externals \<Rightarrow> (compiled_workflow_definition \<Rightarrow> compiled_workflow_definition \<Rightarrow> bool) \<Rightarrow> run_event list \<Rightarrow> nat
    \<Rightarrow> history_prefix \<Rightarrow> bool" where
  "cursor_reads E ptr_eq events n c \<longleftrightarrow> cursor_follows E c \<and> hp_poisoned c = None \<and> hp_events c = events
    \<and> hp_next c \<le> n \<and> is_ok (from_events E events) \<and> (\<forall>a b. ptr_eq a b \<longrightarrow> a = b)"

lemma folds_of_prefixes:
  assumes "is_ok (from_events E events)"
  shows "\<exists>state. from_events E (take stop events) = Inr state"
proof (cases "from_events E (take stop events)")
  case (Inl error)
  then have "from_events E events = Inl error"
    using from_events_error [OF Inl, of "max stop (length events)"] by simp
  then show ?thesis using assms by simp
qed blast

lemma cursor_at_reads:
  assumes "cursor_reads E ptr_eq events stop c" "stop \<le> length events"
    and "fold_events E (take stop events) = Inr p"
  obtains c' where "prefix_at E stop c = (Inr p, c')" "cursor_reads E ptr_eq events stop c'"
proof -
  have c: "cursor_ok E c" "hp_poisoned c = None" "hp_events c = events" "\<not> stop < hp_next c"
    using assms(1) by (simp_all add: cursor_reads_def cursor_ok_def)
  obtain state where state: "from_events E (take stop events) = Inr state"
    using folds_of_prefixes assms(1) unfolding cursor_reads_def by blast
  obtain r c' where run: "prefix_at E stop c = (r, c')" by fastforce
  show thesis
    using prefix_at_ok [OF c(1), of stop] assms run c state
    by (cases r) (auto simp: cursor_reads_def cursor_follows_def fold_events_def intro!: that)
qed

lemma cursor_query_reads:
  assumes "cursor_reads E ptr_eq events stop c" "stop \<le> length events"
    and "fold_events E (take stop events) = Inr p"
  obtains c' where "prefix_query_at E stop c = (Inr (view_of c'), c')" "cursor_reads E ptr_eq events stop c'"
    "hp_projection c' = p"
proof -
  have c: "cursor_ok E c" "hp_events c = events" using assms(1) by (simp_all add: cursor_reads_def cursor_ok_def)
  obtain c1 where at: "prefix_at E stop c = (Inr p, c1)" using cursor_at_reads [OF assms] by blast
  obtain r c' where run: "prefix_query_at E stop c = (r, c')" by fastforce
  show thesis
    using prefix_query_ok [OF c(1), of stop] assms run at c
    by (cases r) (auto simp: cursor_reads_def cursor_follows_def fold_events_def intro!: that)
qed

interpretation cursor_source: history_source
  "cursor_access E ptr_eq (readiness_graph_new workflow) hash" "cursor_reads E ptr_eq events"
  E "readiness_graph_new workflow" hash events
  for E ptr_eq workflow hash events
proof (unfold_locales)
  fix stop c p
  assume reads: "cursor_reads E ptr_eq events stop c" "stop \<le> length events"
    "fold_events E (take stop events) = Inr p"
  show "\<exists>c'. pa_at (cursor_access E ptr_eq (readiness_graph_new workflow) hash) stop c = Inr (p, c')
      \<and> cursor_reads E ptr_eq events stop c'"
    using cursor_at_reads [OF reads] by (fastforce simp: cursor_access_def)
  obtain c' where c': "prefix_query_at E stop c = (Inr (view_of c'), c')" "cursor_reads E ptr_eq events stop c'"
      "hp_projection c' = p"
    using cursor_query_reads [OF reads] by blast
  have "cursor_view ptr_eq (readiness_graph_new workflow) hash (view_of c') = fold_view (readiness_graph_new workflow) hash p"
    using c'(2) borrowed.prefix_query [of E c' ptr_eq] unfolding c'(3) [symmetric]
    by (auto simp: cursor_view_def fold_view_def view_of_def cursor_reads_def fun_eq_iff)
  then show "\<exists>c'. pa_query (cursor_access E ptr_eq (readiness_graph_new workflow) hash) stop c
      = Inr (fold_view (readiness_graph_new workflow) hash p, c') \<and> cursor_reads E ptr_eq events stop c'"
    using c'(1,2) by (simp add: cursor_access_def)
next
  fix n c stop
  assume "cursor_reads E ptr_eq events n c"
  then show "\<exists>p. fold_events E (take stop events) = Inr p"
    using folds_of_prefixes [of E events stop] by (auto simp: cursor_reads_def fold_events_def)
qed (auto simp: cursor_reads_def)

section \<open>The check that folds every prefix\<close>

definition history_rules ::
  "engine_externals \<Rightarrow> (nat \<Rightarrow> instant) \<Rightarrow> compiled_workflow_definition \<Rightarrow> string \<Rightarrow> run_event list
    \<Rightarrow> (definition_error, unit) result" where
  "history_rules X clock workflow hash events =
    validate_history_definition_rules X (fold_access (xt_fold X) (readiness_graph_new workflow) hash events) clock
      workflow hash events ()"

lemma cursor_check_folds:
  assumes "\<And>a b. ptr_eq a b \<Longrightarrow> a = b"
  shows "check_event_history_against_definition X ptr_eq clock workflow hash events =
    and_then (map_error Engine_fold (from_events (xt_fold X) events)) (\<lambda>state.
    and_then (history_rules X clock workflow hash events) (\<lambda>_.
    Inr \<lparr>vh_events = events, vh_definition = workflow, vh_definition_hash = hash, vh_state = state\<rparr>))"
proof (cases "from_events (xt_fold X) events")
  case (Inr state)
  then have "cursor_reads (xt_fold X) ptr_eq events 0 (history_prefix_with_definition events workflow hash)"
    using cursor_of_ok [OF cursor_of.with_definition, of "xt_fold X" events workflow hash] assms
    by (auto simp: cursor_reads_def cursor_ok_def history_prefix_with_definition_def history_prefix_new_def)
  then show ?thesis
    using Inr cursor_source.loop_result
    by (simp add: check_event_history_against_definition_def history_rules_def validate_history_definition_rules_def)
qed (simp add: check_event_history_against_definition_def ok_simps)

end
