(* ===== verification/Checked_History.thy ===== *)
theory Checked_History
  imports History_Facts
begin

text \<open>
  What a checked history promises: the loop of the check read as an invariant over the
  prefixes, the children of parallel groups that run, and the order of compensations.
\<close>

section \<open>The loop as an invariant\<close>

abbreviation checked_event ::
  "engine_externals \<Rightarrow> (nat \<Rightarrow> instant) \<Rightarrow> compiled_workflow_definition \<Rightarrow> string \<Rightarrow> run_event list \<Rightarrow> nat \<Rightarrow> children
    \<Rightarrow> (definition_error, children \<times> unit) result" where
  "checked_event X clock workflow hash events index children \<equiv>
    history_event X (fold_access (xt_fold X) (readiness_graph_new workflow) hash events) workflow hash events index
      (clock index) children ()"

lemma history_loop_step:
  assumes "history_loop X A workflow hash clock events index children c = Inr ()" "index < length events"
  obtains children' c' where "history_event X A workflow hash events index (clock index) children c = Inr (children', c')"
    "history_loop X A workflow hash clock events (Suc index) children' c' = Inr ()"
  using assms by (subst (asm) history_loop.simps) (auto simp: ok_simps)

lemma history_rules_invariant:
  assumes rules: "history_rules X clock workflow hash events = Inr ()"
    and start: "P 0 bt_empty"
    and step: "\<And>i ch ch'. i < length events \<Longrightarrow> P i ch \<Longrightarrow> checked_event X clock workflow hash events i ch = Inr (ch', ())
      \<Longrightarrow> P (Suc i) ch'"
    and index: "index < length events"
  obtains ch ch' where "P index ch" "checked_event X clock workflow hash events index ch = Inr (ch', ())"
proof -
  let ?loop = "\<lambda>i ch. history_loop X (fold_access (xt_fold X) (readiness_graph_new workflow) hash events) workflow hash
    clock events i ch () = Inr ()"
  have "\<exists>ch. P i ch \<and> ?loop i ch" if "i \<le> length events" for i
    using that
  proof (induction i)
    case 0
    then show ?case
      using rules start by (auto simp: history_rules_def validate_history_definition_rules_def)
  next
    case (Suc i)
    then obtain ch where ch: "P i ch" "?loop i ch" by auto
    obtain ch' c' where "checked_event X clock workflow hash events i ch = Inr (ch', c')"
      "history_loop X (fold_access (xt_fold X) (readiness_graph_new workflow) hash events) workflow hash
        clock events (Suc i) ch' c' = Inr ()"
      using Suc.prems by (auto intro: history_loop_step [OF ch(2)])
    then have "checked_event X clock workflow hash events i ch = Inr (ch', ())" "?loop (Suc i) ch'" by simp_all
    then show ?case using step [of i ch ch'] ch(1) Suc.prems by auto
  qed
  then obtain ch where ch: "P index ch" "?loop index ch" using index by (meson less_imp_le)
  obtain ch' c' where "checked_event X clock workflow hash events index ch = Inr (ch', c')"
    using index by (auto intro: history_loop_step [OF ch(2)])
  then show thesis using that ch(1) by simp
qed

section \<open>Attempts that run\<close>

definition running_attempt :: "run_projection \<Rightarrow> string \<Rightarrow> bool" where
  "running_attempt p n \<longleftrightarrow> is_some_and (latest_attempt p n) (\<lambda>a. ap_status a = AttemptStatus_Started)"

lemma running_attempt_iff:
  "running_attempt p n \<longleftrightarrow> attempts_of (p_attempts p) n \<noteq> []
    \<and> ap_status (last (attempts_of (p_attempts p) n)) = AttemptStatus_Started"
  by (simp add: running_attempt_def latest_attempt_eq is_some_and_iff)

lemma running_attempt_cong: "p_attempts q = p_attempts p \<Longrightarrow> running_attempt q n = running_attempt p n"
  by (simp add: running_attempt_def latest_attempt_def)

lemma settled_stops:
  assumes "journal (p_attempts p)" "i < length (p_attempts p)" "ap_status (p_attempts p ! i) = AttemptStatus_Started"
    and q: "p_attempts q = (p_attempts p)[i := a]"
    and a: "ap_identity a = ap_identity (p_attempts p ! i)" "ap_status a \<noteq> AttemptStatus_Started"
    and "running_attempt q n"
  shows "running_attempt p n \<and> n \<noteq> node_of (p_attempts p ! i)"
proof -
  let ?a = "p_attempts p ! i" and ?us = "take i (p_attempts p)" and ?vs = "drop (Suc i) (p_attempts p)"
  have p: "p_attempts p = ?us @ ?a # ?vs" and q': "p_attempts q = ?us @ a # ?vs"
    unfolding q by (rule id_take_nth_drop [OF assms(2)], rule upd_conv_take_nth_drop [OF assms(2)])
  have latest: "attempts_of ?vs (node_of ?a) = []"
    using assms(1,3) by (intro active_is_latest [of ?us]) (simp_all only: p [symmetric])
  have node: "node_of a = node_of ?a" by (rule same_node [OF a(1)])
  show ?thesis
  proof (cases "n = node_of ?a")
    case True
    have "attempts_of (p_attempts q) n = attempts_of ?us n @ [a]"
      unfolding q' using latest node True by simp
    then show ?thesis
      using assms(7) a(2) by (simp add: running_attempt_iff)
  next
    case False
    have "attempts_of (p_attempts q) n = attempts_of (p_attempts p) n"
      unfolding q' by (subst p) (use False node in simp)
    then show ?thesis
      using assms(7) False by (simp add: running_attempt_iff)
  qed
qed

text \<open>The events after which an attempt of a node does not run.\<close>

definition settles_node :: "run_event_payload \<Rightarrow> string \<Rightarrow> bool" where
  "settles_node payload n = (case payload of
     StepAttemptSucceeded data \<Rightarrow> sasu_node_id data = n
   | StepAttemptFailed data \<Rightarrow> saf_node_id data = n
   | StepRetryScheduled data \<Rightarrow> srs_node_id data = n
   | _ \<Rightarrow> False)"

definition starts_node :: "run_event_payload \<Rightarrow> string \<Rightarrow> bool" where
  "starts_node payload n = (case payload of StepAttemptStarted data \<Rightarrow> sast_node_id data = n | _ \<Rightarrow> False)"

declare settles_node_def [simp] starts_node_def [simp]

lemma running_step:
  assumes es: "from_events E es = Inr state" and "apply_event E state e = Inr state'"
    and running: "running_attempt (fs_projection state') n"
  shows "event_owner e = Owner_Attempts \<and> starts_node (ev_payload e) n
    \<or> running_attempt (fs_projection state) n
      \<and> (event_owner e = Owner_Attempts \<longrightarrow> \<not> settles_node (ev_payload e) n)"
proof -
  obtain q ix where step: "apply_transition E state e = Inr (q, ix)"
    and state': "p_attempts (fs_projection state') = p_attempts q"
    using assms(2) by (elim apply_eventE) simp
  let ?p = "fs_projection state"
  have q: "running_attempt q n" using running running_attempt_cong [OF state'] by simp
  have sound: "indexed (p_attempts ?p) (fs_attempt_indexes state)" "journal (p_attempts ?p)"
    using attempts.holds [OF es] by (simp_all add: attempts_sound_def)
  show ?thesis
  proof (cases "event_owner e = Owner_Attempts")
    case False
    then show ?thesis using q running_attempt_cong [OF attempts_frame(1) [OF step False]] by simp
  next
    case True
    with step show ?thesis
    proof (cases rule: attempts_transitionE)
      case (StepAttemptStarted data)
      then show ?thesis
        using True q started_attempt_node(1) [of data] start_fields(6) [OF StepAttemptStarted(2)]
        by (cases "n = sast_node_id data") (simp_all add: running_attempt_iff)
    next
      case (StepAttemptSucceeded data)
      then obtain i where i: "fs_attempt_indexes state
          (identity (sasu_node_id data) (sasu_attempt data) (sasu_invocation_id data)) = Some i"
        "ap_status (p_attempts ?p ! i) = AttemptStatus_Started"
        "p_attempts q = (p_attempts ?p)[i := (p_attempts ?p ! i)\<lparr>ap_status := AttemptStatus_Succeeded (sasu_output data)\<rparr>]"
        by (auto simp: apply_step_attempt_succeeded_def ok_simps)
      have bound: "i < length (p_attempts ?p)" "node_of (p_attempts ?p ! i) = sasu_node_id data"
        using sound(1) i(1) by (auto simp: indexed_def node_of_def identity_def)
      have "running_attempt ?p n \<and> n \<noteq> node_of (p_attempts ?p ! i)"
        by (rule settled_stops [OF sound(2) bound(1) i(2,3) _ _ q]) simp_all
      then show ?thesis using bound(2) StepAttemptSucceeded(1) by auto
    next
      case (StepAttemptFailed data)
      then obtain i where i: "fs_attempt_indexes state
          (identity (saf_node_id data) (saf_attempt data) (saf_invocation_id data)) = Some i"
        "ap_status (p_attempts ?p ! i) = AttemptStatus_Started"
        "p_attempts q = (p_attempts ?p)[i := (p_attempts ?p ! i)\<lparr>ap_status := AttemptStatus_Failed (saf_failure data)\<rparr>]"
        by (auto simp: apply_step_attempt_failed_def ok_simps)
      have bound: "i < length (p_attempts ?p)" "node_of (p_attempts ?p ! i) = saf_node_id data"
        using sound(1) i(1) by (auto simp: indexed_def node_of_def identity_def)
      have "running_attempt ?p n \<and> n \<noteq> node_of (p_attempts ?p ! i)"
        by (rule settled_stops [OF sound(2) bound(1) i(2,3) _ _ q]) simp_all
      then show ?thesis using bound(2) StepAttemptFailed(1) by auto
    next
      case (StepRetryScheduled data)
      then have kept: "p_attempts q = p_attempts ?p"
        and "is_some_and (latest_attempt ?p (srs_node_id data)) (\<lambda>a. is_failed (ap_status a))"
        by (auto simp: apply_step_retry_scheduled_def ok_simps is_some_and_iff)
      then have "\<not> running_attempt ?p (srs_node_id data)"
        by (auto simp: running_attempt_def is_some_and_iff)
      then show ?thesis using q running_attempt_cong [OF kept] StepRetryScheduled(1) by auto
    qed
  qed
qed

section \<open>Children of a parallel group that run\<close>

definition waits_on :: "compiled_workflow_definition \<Rightarrow> string \<Rightarrow> bool" where
  "waits_on workflow n \<longleftrightarrow>
    list_ex (\<lambda>wait. wt_node_id wait = n) (unwrap_or_default (gr_waits (wd_graph workflow)))"

lemma durable_wait_node: "durable_wait workflow wait_id = Some wait \<Longrightarrow> waits_on workflow (wt_node_id wait)"
  by (auto simp: durable_wait_def waits_on_def list_ex_iff find_Some_iff)

lemma record_child_other:
  "bt_get children n = Some state \<Longrightarrow> node_id \<noteq> n \<or> new = state
    \<Longrightarrow> bt_get (record_child workflow node_id new children) n = Some state"
  by (auto simp: record_child_def)

lemma record_wait_child_other:
  assumes "bt_get children n = Some state" "\<not> waits_on workflow n"
  shows "bt_get (record_wait_child workflow wait_id new children) n = Some state"
  using assms durable_wait_node [of workflow wait_id]
  by (auto simp: record_wait_child_def intro!: record_child_other split: option.split)

lemma step_start_children:
  assumes "history_step_attempt_started X A workflow hash index event data children c = Inr (children', c')"
  shows "children' = (if is_some (parallel_group_for_child workflow (sast_node_id data))
    then bt_insert (sast_node_id data) ParallelChildState_Active children else children)"
  using assms by (auto simp: history_step_attempt_started_def ok_simps split: option.splits)

lemma retry_ruleE:
  assumes "history_step_retry_scheduled X workflow events index data children = Inr children'"
  obtains previous failed policy delay_ms where
    "previous_event events index = Some previous" "ev_payload previous = StepAttemptFailed failed"
    "node_retry_policy workflow (srs_node_id data) = Some policy"
    "delay_before_attempt X policy (srs_next_attempt data) = Some delay_ms"
    "saf_node_id failed = srs_node_id data" "saf_attempt failed = srs_failed_attempt data"
    "af_kind (saf_failure failed) = AttemptFailureKind_ScriptThrew"
    "srs_scheduled_at data = ev_occurred_at previous + int (unat delay_ms)"
    "children' = record_child workflow (srs_node_id data) ParallelChildState_RetryPending children"
proof -
  obtain previous where "previous_event events index = Some previous"
    using assms by (auto simp: history_step_retry_scheduled_def ok_simps)
  then show thesis
    using assms that by (cases "ev_payload previous") (auto simp: history_step_retry_scheduled_def ok_simps)
qed

lemma failed_children:
  assumes "history_step_attempt_failed workflow events index data children = Inr children'"
  shows "children' = record_child workflow (saf_node_id data)
    (ParallelChildState_Failed (af_kind (saf_failure data))) children"
  using assms by (auto simp: history_step_attempt_failed_def ok_simps)

lemma active_child_kept:
  assumes rule: "history_event_rule X A workflow hash events index now event children c = Inr (children', c')"
    and active: "bt_get children n = Some ParallelChildState_Active"
    and "\<not> settles_node (ev_payload event) n" "\<not> waits_on workflow n"
  shows "bt_get children' n = Some ParallelChildState_Active"
  using rule assms(3) record_child_other [OF active] record_wait_child_other [OF active assms(4)] active
  unfolding history_event_rule_def
  by (cases "ev_payload event")
    (auto simp: ok_simps dest!: step_start_children failed_children elim!: retry_ruleE split: if_splits)

lemma history_event_cases:
  assumes "history_event X A workflow hash events index now children c = Inr (children', c')"
  obtains (ruled) "ev_iteration (events ! index) = None \<or> iteration_boundary (ev_payload (events ! index))"
      "history_event_rule X A workflow hash events index now (events ! index) children c = Inr (children', c')"
  | (passed) "children' = children"
  using assms unfolding history_event_def Let_def
  by (cases "ev_iteration (events ! index)") (auto simp: ok_simps split: if_splits)

lemma unscoped_event:
  assumes "history_event X A workflow hash events index now children c = Inr (children', c')"
    and "ev_iteration (events ! index) = None"
  shows "validate_payload_against_definition X workflow hash (ev_payload (events ! index)) = Inr ()"
    "history_event_rule X A workflow hash events index now (events ! index) children c = Inr (children', c')"
  using assms by (auto simp: history_event_def Let_def ok_simps)

lemma attempts_owner_unscoped:
  assumes "event_owner e = Owner_Attempts"
  shows "ev_iteration e = None"
  using assms by (cases "ev_payload e") (auto simp: event_owner_def is_top_level_scoped_event_def split: if_splits)

definition children_follow ::
  "externals \<Rightarrow> compiled_workflow_definition \<Rightarrow> run_event list \<Rightarrow> nat \<Rightarrow> children \<Rightarrow> bool" where
  "children_follow E workflow events i children \<longleftrightarrow> (\<forall>p n. fold_events E (take i events) = Inr p \<longrightarrow>
    running_attempt p n \<longrightarrow> is_some (parallel_group_for_child workflow n) \<longrightarrow> \<not> waits_on workflow n
      \<longrightarrow> bt_get children n = Some ParallelChildState_Active)"

lemma children_follow_step:
  assumes folds: "is_ok (from_events (xt_fold X) events)" and i: "i < length events"
    and follow: "children_follow (xt_fold X) workflow events i children"
    and checked: "checked_event X clock workflow hash events i children = Inr (children', ())"
  shows "children_follow (xt_fold X) workflow events (Suc i) children'"
  unfolding children_follow_def
proof (intro allI impI)
  fix p n
  assume p: "fold_events (xt_fold X) (take (Suc i) events) = Inr p" and running: "running_attempt p n"
    and n: "is_some (parallel_group_for_child workflow n)" "\<not> waits_on workflow n"
  let ?e = "events ! i"
  obtain state where state: "from_events (xt_fold X) (take i events) = Inr state"
    using folds_of_prefixes [OF folds] by blast
  obtain state' where state': "from_events (xt_fold X) (take (Suc i) events) = Inr state'" "fs_projection state' = p"
    using folds_of_prefixes [OF folds, of "Suc i"] p by (auto simp: fold_events_def)
  then have step: "apply_event (xt_fold X) state ?e = Inr state'"
    using from_events_Suc [OF i state] by simp
  from running_step [OF state step, of n] running state'(2)
  consider (start) "event_owner ?e = Owner_Attempts" "starts_node (ev_payload ?e) n"
    | (on) "running_attempt (fs_projection state) n" "event_owner ?e = Owner_Attempts \<longrightarrow> \<not> settles_node (ev_payload ?e) n"
    by blast
  then show "bt_get children' n = Some ParallelChildState_Active"
  proof cases
    case start
    then obtain data where data: "ev_payload ?e = StepAttemptStarted data" "sast_node_id data = n"
      by (cases "ev_payload ?e") auto
    then show ?thesis
      using unscoped_event(2) [OF checked attempts_owner_unscoped [OF start(1)]] n(1)
      by (auto simp: history_event_rule_def dest!: step_start_children)
  next
    case on
    then have active: "bt_get children n = Some ParallelChildState_Active"
      using follow state n by (simp add: children_follow_def fold_events_def)
    show ?thesis
      using checked
    proof (cases rule: history_event_cases)
      case ruled
      have "\<not> settles_node (ev_payload ?e) n"
        using on(2) ruled(1) by (cases "ev_payload ?e") (auto simp: event_owner_def iteration_boundary_def)
      then show ?thesis by (rule active_child_kept [OF ruled(2) active _ n(2)])
    qed (simp add: active)
  qed
qed

section \<open>Events of a checked history\<close>

lemma checked_rules:
  assumes "check_event_history_against_definition X ptr_eq clock workflow hash events = Inr checked"
    and "\<And>a b. ptr_eq a b \<Longrightarrow> a = b"
  shows "history_rules X clock workflow hash events = Inr ()" "is_ok (from_events (xt_fold X) events)"
  using assms(1) cursor_check_folds [OF assms(2)] by (auto simp: ok_simps is_ok_iff)

lemma checked_children:
  assumes "history_rules X clock workflow hash events = Inr ()" "is_ok (from_events (xt_fold X) events)"
    and "i < length events"
  obtains ch ch' where "children_follow (xt_fold X) workflow events i ch"
    "checked_event X clock workflow hash events i ch = Inr (ch', ())"
proof -
  have start: "children_follow (xt_fold X) workflow events 0 bt_empty"
    by (simp add: children_follow_def fold_events_def default_fold_state_def empty_projection_def running_attempt_def
        latest_attempt_def is_some_and_iff ok_simps)
  show thesis
    by (rule history_rules_invariant [OF assms(1), where P = "children_follow (xt_fold X) workflow events",
          OF start children_follow_step [OF assms(2)] assms(3)]) (assumption | rule that)+
qed

text \<open>The steps among the children of a group.\<close>

definition step_children :: "compiled_workflow_definition \<Rightarrow> parallel_group_definition \<Rightarrow> string list" where
  "step_children workflow parallel =
    filter (\<lambda>n. parallel_group_for_child workflow n = Some parallel \<and> \<not> waits_on workflow n)
      (pgd_child_node_ids parallel)"

lemma running_below_active:
  assumes "children_follow E workflow events i children" "fold_events E (take i events) = Inr p"
  shows "length (filter (running_attempt p) (step_children workflow parallel)) \<le> active_children parallel children"
proof -
  have "filter (running_attempt p) (step_children workflow parallel)
    = filter (\<lambda>n. running_attempt p n \<and> parallel_group_for_child workflow n = Some parallel \<and> \<not> waits_on workflow n)
        (filter (\<lambda>n. bt_get children n = Some ParallelChildState_Active) (pgd_child_node_ids parallel))"
    using assms by (auto simp: step_children_def children_follow_def intro!: filter_cong)
  then show ?thesis by (simp only: active_children_def length_filter_le)
qed

lemma step_start_rule:
  assumes "history_step_attempt_started X (fold_access E g hash events) workflow hash index event data children ()
      = Inr (children', ())"
    and "fold_events E (take index events) = Inr p"
  shows "is_ready_at g hash p (ev_occurred_at event) (sast_node_id data) = Inr True"
    "6 \<le> wd_schema_version workflow \<Longrightarrow> \<exists>key. sast_idempotency_key data = Some key
      \<and> step_effect_idempotency_key (xt_fold X) (ev_run_id event) hash (sast_node_id data) = Inr key"
    "parallel_group_for_child workflow (sast_node_id data) = Some parallel
      \<Longrightarrow> active_children parallel children < pgd_concurrency parallel"
  using assms
  by (auto simp: history_step_attempt_started_def fold_access_def fold_view_def ok_simps split: option.splits if_splits)

section \<open>The order of compensations\<close>

lemma foldl_max_by_key:
  fixes key :: "'a \<Rightarrow> 'k::linorder"
  defines "pick \<equiv> \<lambda>best y. if key best \<le> key y then y else best"
  shows "foldl pick x ys \<in> insert x (set ys)" "y \<in> insert x (set ys) \<Longrightarrow> key y \<le> key (foldl pick x ys)"
proof -
  have "foldl pick x ys \<in> insert x (set ys) \<and> (\<forall>y \<in> insert x (set ys). key y \<le> key (foldl pick x ys))"
  proof (induction ys arbitrary: x)
    case (Cons z zs)
    have pick: "pick x z \<in> {x, z}" "key x \<le> key (pick x z)" "key z \<le> key (pick x z)"
      by (auto simp: pick_def)
    note rest = Cons.IH [of "pick x z"]
    have "key (pick x z) \<le> key (foldl pick (pick x z) zs)" using rest by blast
    then have "key x \<le> key (foldl pick (pick x z) zs)" "key z \<le> key (foldl pick (pick x z) zs)"
      using order_trans [OF pick(2)] order_trans [OF pick(3)] by simp_all
    then show ?case using rest pick(1) by auto
  qed simp
  then show "foldl pick x ys \<in> insert x (set ys)" "y \<in> insert x (set ys) \<Longrightarrow> key y \<le> key (foldl pick x ys)"
    by blast+
qed

lemma max_by_key_max:
  assumes "max_by_key key xs = Some x"
  shows "x \<in> set xs" "y \<in> set xs \<Longrightarrow> key y \<le> key x"
proof -
  obtain z zs where xs: "xs = z # zs" "x = foldl (\<lambda>best y. if key best \<le> key y then y else best) z zs"
    using assms by (cases xs) (simp_all add: max_by_key_def)
  show "x \<in> set xs" using foldl_max_by_key(1) [of key z zs] unfolding xs by simp
  show "key y \<le> key x" if "y \<in> set xs"
    using foldl_max_by_key(2) [of y z zs key] that unfolding xs by simp
qed

definition pending_compensation :: "saga_projection \<Rightarrow> correction_action_projection \<Rightarrow> bool" where
  "pending_compensation state action \<longleftrightarrow> action \<in> set (bt_values (sp_actions state))
    \<and> cap_action_kind action = CorrectiveActionKind_Compensation
    \<and> cap_status action \<in> {CorrectionActionStatus_Registered, CorrectionActionStatus_RetryScheduled}"

lemma next_compensation_latest:
  assumes "next_compensation state = Some action_id"
  obtains action where "pending_compensation state action" "cap_action_id action = action_id"
    "\<And>other. pending_compensation state other \<Longrightarrow> cap_completion_sequence other \<le> cap_completion_sequence action"
proof -
  obtain action where "max_by_key cap_completion_sequence (filter (\<lambda>action.
        cap_action_kind action = CorrectiveActionKind_Compensation
        \<and> cap_status action \<in> {CorrectionActionStatus_Registered, CorrectionActionStatus_RetryScheduled})
      (bt_values (sp_actions state))) = Some action" "cap_action_id action = action_id"
    using assms by (auto simp: next_compensation_def)
  note action = this(2) and latest = max_by_key_max [OF this(1)]
  show thesis
  proof (rule that [OF _ action])
    show "pending_compensation state action" using latest(1) by (simp add: pending_compensation_def)
    show "cap_completion_sequence other \<le> cap_completion_sequence action" if "pending_compensation state other" for other
      using that by (intro latest(2)) (simp add: pending_compensation_def)
  qed
qed

end
