(* ===== verification/Dag_Engine.thy ===== *)
theory Dag_Engine
  imports Event_Store History_Facts
begin

text \<open>
  The engine in memory (\<^verbatim>\<open>engine.rs\<close>, \<^verbatim>\<open>InMemoryDagEngine\<close>): a definition, its hash and the
  store of the runs.  An append passes the rules of its payload, the readiness of the node
  it starts or selects, and the check of the whole history of its run, before the store
  has it.  The validation of a model is a parameter of the two constructors.  The clock is
  read once for readiness and then once for every event of the check.
\<close>

section \<open>The engine\<close>

datatype 'm engine_error =
    EngineError_InvalidModel 'm
  | EngineError_EventStore event_store_error
  | EngineError_Contract definition_error
  | EngineError_Contract_engine_rs nat

record dag_engine =
  de_workflow :: readiness_definition
  de_definition_hash :: string
  de_store :: in_memory_event_store

abbreviation de_definition :: "dag_engine \<Rightarrow> compiled_workflow_definition" where
  "de_definition engine \<equiv> rd_workflow (de_workflow engine)"

text \<open>\<^verbatim>\<open>new\<close> with \<^verbatim>\<open>validate_for_execution\<close>, \<^verbatim>\<open>new_for_event_history\<close> with \<^verbatim>\<open>validate_structure\<close>.\<close>

definition engine_new ::
  "(compiled_workflow_definition \<Rightarrow> ('m, unit) result) \<Rightarrow> compiled_workflow_definition \<Rightarrow> string
    \<Rightarrow> ('m engine_error, dag_engine) result" where
  "engine_new validate workflow definition_hash =
    and_then (map_error EngineError_InvalidModel (validate workflow)) (\<lambda>_.
    if \<not> is_definition_hash definition_hash then Inl (EngineError_Contract_engine_rs 75)
    else Inr \<lparr>de_workflow = readiness_definition_new workflow, de_definition_hash = definition_hash,
      de_store = default_store\<rparr>)"

definition engine_projection :: "dag_engine \<Rightarrow> string \<Rightarrow> run_projection" where
  "engine_projection engine run_id = store_projection (de_store engine) run_id"

definition engine_events :: "dag_engine \<Rightarrow> string \<Rightarrow> run_event list" where
  "engine_events engine run_id = store_events (de_store engine) run_id"

text \<open>The query keeps the topology that the definition has computed.\<close>

definition engine_ready_node_ids ::
  "instant \<Rightarrow> string \<Rightarrow> dag_engine \<Rightarrow> ('m engine_error, string list) result \<times> dag_engine" where
  "engine_ready_node_ids now run_id engine =
    (let p = engine_projection engine run_id in
     if p_status p \<noteq> RunStatus_Running then (Inr [], engine)
     else if p_workflow_id p \<noteq> Some (wd_workflow_id (de_definition engine))
       \<or> p_definition_hash p \<noteq> Some (de_definition_hash engine)
     then (Inl (EngineError_Contract_engine_rs 197), engine)
     else (case definition_ready_at (de_workflow engine) (de_definition_hash engine) p now of
       (ready, owner) \<Rightarrow>
         (map_error (\<lambda>error. EngineError_Contract (Engine_readiness error)) ready, engine\<lparr>de_workflow := owner\<rparr>)))"

section \<open>Appends\<close>

definition require_engine_ready ::
  "instant \<Rightarrow> string \<Rightarrow> string \<Rightarrow> nat \<Rightarrow> dag_engine \<Rightarrow> ('m engine_error, unit) result \<times> dag_engine" where
  "require_engine_ready now run_id node_id line engine =
    (case engine_ready_node_ids now run_id engine of
       (Inl error, engine') \<Rightarrow> (Inl error, engine')
     | (Inr ready, engine') \<Rightarrow> (require (node_id \<in> set ready) (EngineError_Contract_engine_rs line), engine'))"

text \<open>What an attempt or a selection needs of the run before it.\<close>

definition engine_precondition ::
  "instant \<Rightarrow> run_event \<Rightarrow> dag_engine \<Rightarrow> ('m engine_error, unit) result \<times> dag_engine" where
  "engine_precondition now event engine = (case ev_payload event of
     StepAttemptStarted data \<Rightarrow> require_engine_ready now (ev_run_id event) (sast_node_id data) 152 engine
   | BranchSelected data \<Rightarrow>
       if bt_contains (p_branch_selections (engine_projection engine (ev_run_id event))) (brs_branch_id data)
       then (Inl (EngineError_Contract_engine_rs 161), engine)
       else require_engine_ready now (ev_run_id event) (branch_selector_id (brs_branch_id data)) 169 engine
   | _ \<Rightarrow> (Inr (), engine))"

definition engine_append_event ::
  "engine_externals \<Rightarrow> (compiled_workflow_definition \<Rightarrow> compiled_workflow_definition \<Rightarrow> bool) \<Rightarrow> instant \<Rightarrow> (nat \<Rightarrow> instant)
    \<Rightarrow> run_event \<Rightarrow> dag_engine \<Rightarrow> ('m engine_error, run_projection) result \<times> dag_engine" where
  "engine_append_event X ptr_eq now clock event engine =
    (if ev_event_schema_version event \<noteq> run_event_schema_version_for_model (wd_schema_version (de_definition engine))
     then (Inl (EngineError_Contract_engine_rs 142), engine)
     else case validate_payload_against_definition X (de_definition engine) (de_definition_hash engine) (ev_payload event) of
       Inl error \<Rightarrow> (Inl (EngineError_Contract error), engine)
     | Inr _ \<Rightarrow> (case engine_precondition now event engine of
         (Inl error, engine') \<Rightarrow> (Inl error, engine')
       | (Inr _, engine') \<Rightarrow>
           (case validate_event_history_against_definition X ptr_eq clock (de_definition engine')
               (de_definition_hash engine') (engine_events engine' (ev_run_id event) @ [event]) of
              Inl error \<Rightarrow> (Inl (EngineError_Contract error), engine')
            | Inr _ \<Rightarrow> (case store_append (xt_fold X) (de_store engine') event of
                (r, store) \<Rightarrow> (map_error EngineError_EventStore r, engine'\<lparr>de_store := store\<rparr>)))))"

definition engine_start_run ::
  "engine_externals \<Rightarrow> (compiled_workflow_definition \<Rightarrow> compiled_workflow_definition \<Rightarrow> bool) \<Rightarrow> instant \<Rightarrow> (nat \<Rightarrow> instant)
    \<Rightarrow> string \<Rightarrow> string \<Rightarrow> instant \<Rightarrow> json_object \<Rightarrow> dag_engine
    \<Rightarrow> ('m engine_error, run_projection) result \<times> dag_engine" where
  "engine_start_run X ptr_eq now clock event_id run_id occurred_at trigger engine =
    engine_append_event X ptr_eq now clock
      \<lparr>ev_event_schema_version = run_event_schema_version_for_model (wd_schema_version (de_definition engine)),
       ev_event_id = event_id, ev_run_id = run_id, ev_sequence = 1, ev_occurred_at = occurred_at, ev_iteration = None,
       ev_payload = RunStarted
         \<lparr>rst_workflow_id = wd_workflow_id (de_definition engine), rst_definition_hash = de_definition_hash engine,
          rst_trigger_id = None, rst_trigger_handler = None, rst_trigger_occurrence_id = None, rst_ingress = None,
          rst_trigger = trigger\<rparr>\<rparr>
      engine"

section \<open>The engines a caller can hold\<close>

inductive engine_of ::
  "engine_externals \<Rightarrow> (compiled_workflow_definition \<Rightarrow> compiled_workflow_definition \<Rightarrow> bool)
    \<Rightarrow> (compiled_workflow_definition \<Rightarrow> ('m, unit) result) \<Rightarrow> compiled_workflow_definition \<Rightarrow> string \<Rightarrow> dag_engine \<Rightarrow> bool"
  for X ptr_eq and validate :: "compiled_workflow_definition \<Rightarrow> ('m, unit) result" and workflow hash where
  created: "engine_new validate workflow hash = Inr engine \<Longrightarrow> engine_of X ptr_eq validate workflow hash engine"
| appended: "engine_of X ptr_eq validate workflow hash engine
    \<Longrightarrow> engine_append_event X ptr_eq now clock event engine = (r :: ('m engine_error, run_projection) result, engine')
    \<Longrightarrow> engine_of X ptr_eq validate workflow hash engine'"
| queried: "engine_of X ptr_eq validate workflow hash engine
    \<Longrightarrow> engine_ready_node_ids now run_id engine = (ready :: ('m engine_error, string list) result, engine')
    \<Longrightarrow> engine_of X ptr_eq validate workflow hash engine'"

lemma definition_ready_workflow:
  "definition_ready_at owner hash p now = (r, owner') \<Longrightarrow> rd_workflow owner' = rd_workflow owner"
  by (auto simp: definition_ready_at_def definition_graph_def Let_def split: sum.splits bool.splits)

lemma engine_ready_same:
  assumes "engine_ready_node_ids now run_id engine = (r, engine')"
  shows "de_definition engine' = de_definition engine" "de_definition_hash engine' = de_definition_hash engine"
    "de_store engine' = de_store engine"
  using assms
  by (auto simp: engine_ready_node_ids_def Let_def split: prod.splits if_splits dest: definition_ready_workflow)

lemma engine_precondition_same:
  assumes "engine_precondition now event engine = (r, engine')"
  shows "de_definition engine' = de_definition engine \<and> de_definition_hash engine' = de_definition_hash engine
    \<and> de_store engine' = de_store engine"
proof -
  have ready: "de_definition engine' = de_definition engine \<and> de_definition_hash engine' = de_definition_hash engine
      \<and> de_store engine' = de_store engine"
    if "require_engine_ready now run_id node_id line engine = (r, engine')" for run_id node_id line
    using that by (auto simp: require_engine_ready_def split: prod.splits sum.splits dest: engine_ready_same)
  show ?thesis
    using assms ready unfolding engine_precondition_def
    by (cases "ev_payload event") (auto split: if_splits)
qed

text \<open>An append adds the event to the log of its run, after the check of the log with it, or
  leaves the store as it was.\<close>

lemma engine_append_cases:
  assumes "engine_append_event X ptr_eq now clock event engine = (r, engine')"
  shows "de_definition engine' = de_definition engine" "de_definition_hash engine' = de_definition_hash engine"
    "is_ok r \<Longrightarrow> is_ok (validate_event_history_against_definition X ptr_eq clock (de_definition engine)
        (de_definition_hash engine) (store_events (de_store engine) (ev_run_id event) @ [event]))
      \<and> store_append (xt_fold X) (de_store engine) event = (Inr (projr r), de_store engine')"
    "\<not> is_ok r \<Longrightarrow> de_store engine' = de_store engine"
  using assms store_append_refused [of "xt_fold X" "de_store engine" event]
  by (auto simp: engine_append_event_def engine_events_def map_error_def
      split: if_splits sum.splits prod.splits dest!: engine_precondition_same)

definition engine_ok ::
  "engine_externals \<Rightarrow> (compiled_workflow_definition \<Rightarrow> compiled_workflow_definition \<Rightarrow> bool)
    \<Rightarrow> compiled_workflow_definition \<Rightarrow> string \<Rightarrow> dag_engine \<Rightarrow> bool" where
  "engine_ok X ptr_eq workflow hash engine \<longleftrightarrow>
    de_definition engine = workflow \<and> de_definition_hash engine = hash \<and> store_ok (xt_fold X) (de_store engine)
    \<and> (\<forall>r. engine_events engine r \<noteq> [] \<longrightarrow>
        (\<exists>clock. is_ok (check_event_history_against_definition X ptr_eq clock workflow hash (engine_events engine r))))"

lemma engine_append_ok:
  assumes ok: "engine_ok X ptr_eq workflow hash engine"
    and run: "engine_append_event X ptr_eq now clock event engine = (r, engine')"
  shows "engine_ok X ptr_eq workflow hash engine'"
proof (cases "is_ok r")
  case False
  then show ?thesis
    using ok engine_append_cases [OF run] by (simp add: engine_ok_def engine_events_def)
next
  case True
  note cases = engine_append_cases(1,2) [OF run] engine_append_cases(3) [OF run True]
  have logs: "store_events (de_store engine') =
      (store_events (de_store engine))(ev_run_id event := store_events (de_store engine) (ev_run_id event) @ [event])"
    using store.append_log [of "xt_fold X" "de_store engine" event] ok cases(3) by (simp add: engine_ok_def)
  have "store_ok (xt_fold X) (de_store engine')"
    using store_append_ok [of "xt_fold X" "de_store engine" event] ok cases(3) by (simp add: engine_ok_def)
  moreover have "is_ok (check_event_history_against_definition X ptr_eq clock workflow hash
      (store_events (de_store engine) (ev_run_id event) @ [event]))"
    using cases(3) ok by (auto simp: validate_event_history_against_definition_def engine_ok_def is_ok_iff ok_simps)
  ultimately show ?thesis
    using ok cases(1,2) logs by (auto simp: engine_ok_def engine_events_def)
qed

lemma engine_of_ok:
  assumes "engine_of X ptr_eq validate workflow hash engine"
  shows "engine_ok X ptr_eq workflow hash engine"
  using assms
proof induction
  case (created engine)
  then show ?case
    by (auto simp: engine_new_def engine_ok_def engine_events_def store_ok_default readiness_definition_new_def ok_simps
        store.log_init split: if_splits)
next
  case (appended engine now clock event r engine')
  then show ?case by (blast intro: engine_append_ok)
next
  case (queried engine now run_id ready engine')
  then show ?case
    using engine_ready_same [OF queried.hyps(2)] by (simp add: engine_ok_def engine_events_def)
qed

end
