(* ===== verification/Routing.thy ===== *)
theory Routing
  imports Definition_Rules
begin

text \<open>
  The evaluation of branches and choices (\<^verbatim>\<open>engine/routing.rs\<close>) over references into the
  context of a run (\<^verbatim>\<open>engine/context.rs\<close>).  The arms of a selector are tried in the order
  of the edges: the first whose test is true, or that needs no test, is routed.  A routed
  arm is one that the definition rules accept as the selection of that branch or choice.
\<close>

section \<open>References into the context\<close>

fun walk_path :: "string list \<Rightarrow> json \<Rightarrow> json option" where
  "walk_path [] v = Some v"
| "walk_path (segment # path) v = (case v of
     JObject members \<Rightarrow> Option.bind (obj_get members segment) (walk_path path)
   | _ \<Rightarrow> None)"

text \<open>The error is the path that the context does not have.\<close>

definition resolve_context_reference ::
  "value_expression \<Rightarrow> workflow_context \<Rightarrow> (string list, json) result" where
  "resolve_context_reference expression context = (case expression of
     ValueExpression_ContextReference path \<Rightarrow>
       (case path of
          [] \<Rightarrow> Inl path
        | root # remaining \<Rightarrow>
            if root = ''trigger'' then ok_or (walk_path remaining (JObject (ctx_trigger context))) path
            else if root = ''steps'' then ok_or (walk_path remaining (JObject (ctx_steps context))) path
            else Inl path)
   | _ \<Rightarrow> Inl [])"

section \<open>Evaluation errors\<close>

datatype branch_evaluation_error_kind =
    BranchEvaluationErrorKind_NotBoolean json_value_type
  | BranchEvaluationErrorKind_NotString string
  | BranchEvaluationErrorKind_ReferenceNotAvailable
  | BranchEvaluationErrorKind_SelectionInvalid

record branch_evaluation_error =
  bee_branch_id :: string
  bee_arm_id :: "string option"
  bee_path :: "string list option"
  bee_kind :: branch_evaluation_error_kind

text \<open>\<open>RoutingPanic\<close> is the \<^verbatim>\<open>unreachable!\<close> of \<^verbatim>\<open>json_value_type\<close>.\<close>

datatype routing_error = Evaluation branch_evaluation_error | RoutingPanic

fun json_value_type :: "json \<Rightarrow> json_value_type option" where
  "json_value_type JNull = Some JsonValueType_Null"
| "json_value_type (JNumber _) = Some JsonValueType_Number"
| "json_value_type (JString _) = Some JsonValueType_String"
| "json_value_type (JArray _) = Some JsonValueType_Array"
| "json_value_type (JObject _) = Some JsonValueType_Object"
| "json_value_type (JBool _) = None"

fun json_value_type_name :: "json \<Rightarrow> string" where
  "json_value_type_name JNull = ''null''"
| "json_value_type_name (JBool _) = ''boolean''"
| "json_value_type_name (JNumber _) = ''number''"
| "json_value_type_name (JString _) = ''string''"
| "json_value_type_name (JArray _) = ''array''"
| "json_value_type_name (JObject _) = ''object''"

definition evaluation_error ::
  "string \<Rightarrow> string option \<Rightarrow> string list option \<Rightarrow> branch_evaluation_error_kind \<Rightarrow> (routing_error, 'a) result" where
  "evaluation_error branch_id arm_id path kind =
    Inl (Evaluation \<lparr>bee_branch_id = branch_id, bee_arm_id = arm_id, bee_path = path, bee_kind = kind\<rparr>)"

definition reference_path :: "value_expression \<Rightarrow> string list option" where
  "reference_path expression = (case expression of
     ValueExpression_ContextReference path \<Rightarrow> Some path | _ \<Rightarrow> None)"

section \<open>Arms\<close>

text \<open>The test of one edge: whether its arm is routed.\<close>

definition arm_holds ::
  "string \<Rightarrow> workflow_context \<Rightarrow> compiled_workflow_edge \<Rightarrow> (routing_error, bool) result" where
  "arm_holds branch_id context edge = (case ed_condition edge of
     EdgeCondition_Boolean expression \<Rightarrow>
       (case resolve_context_reference expression context of
          Inl path \<Rightarrow> evaluation_error branch_id (Some (ed_id edge)) (Some path)
            BranchEvaluationErrorKind_ReferenceNotAvailable
        | Inr (JBool b) \<Rightarrow> Inr b
        | Inr v \<Rightarrow> (case json_value_type v of
            None \<Rightarrow> Inl RoutingPanic
          | Some kind \<Rightarrow> evaluation_error branch_id (Some (ed_id edge)) (reference_path expression)
              (BranchEvaluationErrorKind_NotBoolean kind)))
   | EdgeCondition_Always \<Rightarrow> Inr True
   | _ \<Rightarrow> evaluation_error branch_id (Some (ed_id edge)) None BranchEvaluationErrorKind_SelectionInvalid)"

text \<open>The loop over the edges of a selector.\<close>

fun first_arm :: "string \<Rightarrow> workflow_context \<Rightarrow> compiled_workflow_edge list \<Rightarrow> (routing_error, string) result" where
  "first_arm branch_id context [] =
    evaluation_error branch_id None None BranchEvaluationErrorKind_SelectionInvalid"
| "first_arm branch_id context (edge # edges) =
    and_then (arm_holds branch_id context edge) (\<lambda>holds.
    if holds then Inr (ed_id edge) else first_arm branch_id context edges)"

definition branch_edges :: "compiled_workflow_definition \<Rightarrow> string \<Rightarrow> string \<Rightarrow> compiled_workflow_edge list" where
  "branch_edges workflow selector_id branch_id =
    filter (\<lambda>edge. ed_from edge = selector_id \<and> ed_branch_id edge = Some branch_id) (gr_edges (wd_graph workflow))"

definition selected_branch_arm ::
  "compiled_workflow_definition \<Rightarrow> string \<Rightarrow> workflow_context \<Rightarrow> (routing_error, string) result" where
  "selected_branch_arm workflow selector_id context = (case selector_branch_id selector_id of
     None \<Rightarrow> evaluation_error selector_id None None BranchEvaluationErrorKind_SelectionInvalid
   | Some branch_id \<Rightarrow> first_arm branch_id context (branch_edges workflow selector_id branch_id))"

definition string_arm :: "compiled_control_choice \<Rightarrow> string \<Rightarrow> string option" where
  "string_arm choice v =
    or_else (map_option csc_arm_id
        (List.find (\<lambda>c. csc_value c = v) (unwrap_or_default (ch_string_cases choice))))
      (ch_default_arm_id choice)"

definition selected_choice_arm ::
  "compiled_workflow_definition \<Rightarrow> string \<Rightarrow> workflow_context \<Rightarrow> (routing_error, string \<times> string) result" where
  "selected_choice_arm workflow selector_id context =
    (case List.find (\<lambda>choice. ch_selector_node_id choice = selector_id)
        (unwrap_or_default (gr_choices (wd_graph workflow))) of
       None \<Rightarrow> evaluation_error selector_id None None BranchEvaluationErrorKind_SelectionInvalid
     | Some choice \<Rightarrow>
         (case ch_string_selector choice of
            Some selector \<Rightarrow>
              (case resolve_context_reference selector context of
                 Inl path \<Rightarrow> evaluation_error (ch_choice_id choice) None (Some path)
                   BranchEvaluationErrorKind_ReferenceNotAvailable
               | Inr (JString v) \<Rightarrow>
                   (case string_arm choice v of
                      None \<Rightarrow> evaluation_error (ch_choice_id choice) None None
                        BranchEvaluationErrorKind_SelectionInvalid
                    | Some arm_id \<Rightarrow> Inr (ch_choice_id choice, arm_id))
               | Inr v \<Rightarrow> evaluation_error (ch_choice_id choice) None (reference_path selector)
                   (BranchEvaluationErrorKind_NotString (json_value_type_name v)))
          | None \<Rightarrow>
              and_then (first_arm (ch_choice_id choice) context
                  (filter (\<lambda>edge. ed_from edge = selector_id \<and> ed_id edge \<in> set (ch_arm_ids choice))
                    (gr_edges (wd_graph workflow))))
                (\<lambda>arm_id. Inr (ch_choice_id choice, arm_id))))"

section \<open>The first arm that holds\<close>

lemma arm_holds_no_panic: "arm_holds branch_id context edge \<noteq> Inl RoutingPanic"
  by (auto simp: arm_holds_def evaluation_error_def split: edge_condition.splits sum.splits json.splits)

lemma first_arm_no_panic: "first_arm branch_id context edges \<noteq> Inl RoutingPanic"
proof (induction edges)
  case (Cons e edges)
  then show ?case
    using arm_holds_no_panic [of branch_id _ e]
    by (cases "arm_holds branch_id context e") (auto simp: ok_simps)
qed (simp add: evaluation_error_def)

lemma first_arm_first:
  assumes "first_arm branch_id context edges = Inr arm_id"
  shows "\<exists>before edge after. edges = before @ edge # after
      \<and> list_all (\<lambda>e. arm_holds branch_id context e = Inr False) before
      \<and> arm_holds branch_id context edge = Inr True \<and> ed_id edge = arm_id"
  using assms
proof (induction edges)
  case (Cons e edges)
  then obtain b where b: "arm_holds branch_id context e = Inr b"
    by (cases "arm_holds branch_id context e") (auto simp: ok_simps)
  show ?case
  proof (cases b)
    case True
    with b Cons.prems show ?thesis by (fastforce intro: exI [of _ "[]"] simp: ok_simps)
  next
    case False
    with b Cons.prems have "first_arm branch_id context edges = Inr arm_id" by (simp add: ok_simps)
    from Cons.IH [OF this] obtain before edge after where
      "edges = before @ edge # after" "list_all (\<lambda>e. arm_holds branch_id context e = Inr False) before"
      "arm_holds branch_id context edge = Inr True" "ed_id edge = arm_id"
      by blast
    with b False show ?thesis by (intro exI [of _ "e # before"] exI [of _ edge] exI [of _ after]) simp
  qed
qed (simp add: evaluation_error_def)

lemma first_arm_routes:
  assumes "list_all (\<lambda>e. arm_holds branch_id context e = Inr False) before"
    and "arm_holds branch_id context edge = Inr True"
  shows "first_arm branch_id context (before @ edge # after) = Inr (ed_id edge)"
  using assms by (induction before) (simp_all add: ok_simps)

lemma first_arm_iff:
  "first_arm branch_id context edges = Inr arm_id \<longleftrightarrow>
    (\<exists>before edge after. edges = before @ edge # after
      \<and> list_all (\<lambda>e. arm_holds branch_id context e = Inr False) before
      \<and> arm_holds branch_id context edge = Inr True \<and> ed_id edge = arm_id)"
  using first_arm_first first_arm_routes by blast

lemma selector_branch_id_iff: "selector_branch_id s = Some branch_id \<longleftrightarrow> s = branch_selector_id branch_id"
  by (auto simp: selector_branch_id_def branch_selector_id_def Option.bind_eq_Some_conv)

end
