(* ===== verification/Sample_Check.thy ===== *)
theory Sample_Check
  imports Checked_History Dag_Engine Routing Sample_Workflow
begin

text \<open>
  A history that the engine accepts: the first step of a definition starts, fails, and its
  retry is scheduled by the compiled backoff.  Then a saga with two compensations, a branch
  with two arms, and an engine that has started a run.
\<close>

section \<open>A checked history\<close>

text \<open>The first step of a definition fails, and its retry is scheduled two milliseconds later.\<close>

definition retried_node :: compiled_workflow_node where
  "retried_node = (script_node ''s'')
    \<lparr>nd_retry_policy := Some \<lparr>rtp_max_attempts = 2, rtp_backoff = BackoffPolicy_Fixed 2\<rparr>\<rparr>"

definition retried_workflow :: compiled_workflow_definition where
  "retried_workflow = sample_workflow\<lparr>wd_graph := (wd_graph sample_workflow)
    \<lparr>gr_nodes := [retried_node, script_node ''t'']\<rparr>\<rparr>"

definition script_start :: step_attempt_started_data where
  "script_start =
    \<lparr>sast_node_id = ''s'', sast_attempt = 1, sast_invocation_id = ''i'', sast_handler = ''runtime.script'',
     sast_idempotency_key = Some sample_digest\<rparr>"

definition script_failure :: step_attempt_failed_data where
  "script_failure = \<lparr>saf_node_id = ''s'', saf_attempt = 1, saf_invocation_id = ''i'', saf_failure = sample_failure\<rparr>"

definition script_retry :: step_retry_scheduled_data where
  "script_retry = \<lparr>srs_node_id = ''s'', srs_failed_attempt = 1, srs_next_attempt = 2, srs_scheduled_at = 5\<rparr>"

definition retried_run :: "run_event list" where
  "retried_run = started_run @
    [step_event ''2'' 2 (StepAttemptStarted script_start),
     step_event ''3'' 3 (StepAttemptFailed script_failure),
     step_event ''4'' 4 (StepRetryScheduled script_retry)]"

definition sample_engine :: engine_externals where
  "sample_engine = \<lparr>xt_fold = sample_externals, xt_canonical_policy = (\<lambda>_. None),
    xt_exponential_delay = (\<lambda>_ _ _ _. None)\<rparr>"

lemma retried_run_folds: "is_ok (from_events sample_externals retried_run)"
  by (simp add: evaluate retried_run_def script_start_def script_failure_def script_retry_def)

lemma started_run_fields:
  "\<exists>p. fold_events sample_externals started_run = Inr p \<and> p_status p = RunStatus_Running
    \<and> p_workflow_id p = Some ''w'' \<and> p_definition_hash p = Some sample_digest
    \<and> p_choice_selections p = bt_empty \<and> latest_attempt p ''s'' = None \<and> \<not> has_output p ''s''"
  by (simp add: evaluate fold_events_def obj_contains_def)

lemma retried_fields [simp]:
  "wd_schema_version retried_workflow = 6" "wd_workflow_id retried_workflow = ''w''"
  "gr_entry_node_ids (wd_graph retried_workflow) = [''s'']"
  "gr_nodes (wd_graph retried_workflow) = [retried_node, script_node ''t'']"
  "gr_edges (wd_graph retried_workflow) = [plain_edge ''s'' ''t'']"
  "wf_node retried_workflow ''s'' = Some retried_node"
  "nd_id retried_node = ''s''" "nd_handler retried_node = ''runtime.script''"
  "nd_retry_policy retried_node = Some \<lparr>rtp_max_attempts = 2, rtp_backoff = BackoffPolicy_Fixed 2\<rparr>"
  "graph_complete g p retried_node = Inr (has_output p ''s'')"
  by (simp_all add: retried_workflow_def retried_node_def sample_workflow_def wf_node_def script_node_def
      graph_complete_def complete_fuel_def node_is_complete.simps)

lemma retried_active:
  assumes "p_choice_selections p = bt_empty"
  shows "active_node_ids (readiness_graph_new retried_workflow) p = {''s'', ''t''}"
  using assms
  by (simp add: active_node_ids_def borrowed.graph_workflow borrowed.outgoing_edges)
    (simp add: plain_edge_def insert_commute)

lemma retried_step_ready:
  assumes "p_choice_selections p = bt_empty" "p_status p = RunStatus_Running" "p_workflow_id p = Some ''w''"
    "p_definition_hash p = Some h" "\<not> has_output p ''s''" "latest_attempt p ''s'' = None"
  shows "is_ready_at (readiness_graph_new retried_workflow) h p now ''s'' = Inr True"
  using assms
  by (simp add: is_ready_at_def borrowed.graph_workflow readiness_binding_def ready_member_def
      candidate_is_ready_def retried_active attempt_permits_def current_latest_def latest_attempts_eq
      borrowed.incoming_edges borrowed.node_first)
    (simp add: plain_edge_def)

lemma retried_run_take:
  "length retried_run = 4" "take (Suc 0) retried_run = started_run"
  "retried_run ! 0 = hd started_run" "retried_run ! Suc 0 = step_event ''2'' 2 (StepAttemptStarted script_start)"
  "retried_run ! 2 = step_event ''3'' 3 (StepAttemptFailed script_failure)"
  "retried_run ! 3 = step_event ''4'' 4 (StepRetryScheduled script_retry)"
  by (simp_all add: retried_run_def started_run_def)

lemma retried_no_groups [simp]:
  "parallel_group_for_child retried_workflow n = None"
  by (simp add: parallel_group_for_child_def) (simp add: plain_edge_def)

lemma event_rules_0:
  "checked_event sample_engine clock retried_workflow sample_digest retried_run 0 ch = Inr (ch, ())"
  by (simp add: history_event_def retried_run_take history_event_rule_def history_prefix_rule_def
      rule_run_started_def is_workflow_call_def trigger_identity_present_def evaluate ok_simps)

lemma event_rules_1:
  "checked_event sample_engine clock retried_workflow sample_digest retried_run (Suc 0) ch = Inr (ch, ())"
proof -
  obtain p where p: "fold_events sample_externals started_run = Inr p" "p_status p = RunStatus_Running"
    "p_workflow_id p = Some ''w''" "p_definition_hash p = Some sample_digest"
    "p_choice_selections p = bt_empty" "latest_attempt p ''s'' = None" "\<not> has_output p ''s''"
    using started_run_fields by blast
  have "validate_payload_against_definition sample_engine retried_workflow sample_digest (StepAttemptStarted script_start)
      = Inr ()"
    by (simp add: rule_step_attempt_started_def script_start_def maximum_attempts_def ok_simps)
  moreover have "history_step_attempt_started sample_engine
      (fold_access sample_externals (readiness_graph_new retried_workflow) sample_digest retried_run) retried_workflow
      sample_digest (Suc 0) (step_event ''2'' 2 (StepAttemptStarted script_start)) script_start ch () = Inr (ch, ())"
    using p(1) retried_step_ready [OF p(5,2,3,4,7,6)]
    by (simp add: history_step_attempt_started_def fold_access_def fold_view_def retried_run_take script_start_def
        step_effect_idempotency_key_def sample_engine_def sample_externals_def sample_digest_def ok_simps)
  ultimately show ?thesis
    by (simp add: history_event_def history_event_rule_def retried_run_take step_event_def sample_event_def
        sample_engine_def ok_simps)
qed

lemma event_rules_2:
  "checked_event sample_engine clock retried_workflow sample_digest retried_run 2 ch = Inr (ch, ())"
  by (simp add: history_event_def retried_run_take history_event_rule_def history_step_attempt_failed_def
      step_event_def sample_event_def script_failure_def event_at_def schedules_retry_of_def script_retry_def
      record_child_def ok_simps)

lemma event_rules_3:
  "checked_event sample_engine clock retried_workflow sample_digest retried_run 3 ch = Inr (ch, ())"
  by (simp add: history_event_def retried_run_take history_event_rule_def history_step_retry_scheduled_def
      step_event_def sample_event_def script_failure_def event_at_def previous_event_def script_retry_def
      record_child_def rule_step_retry_scheduled_def node_retry_policy_def delay_before_attempt_def
      sample_failure_def ok_simps)

lemma retried_run_checked:
  "\<exists>checked. check_event_history_against_definition sample_engine (=) clock retried_workflow sample_digest retried_run
    = Inr checked"
proof -
  let ?A = "fold_access (xt_fold sample_engine) (readiness_graph_new retried_workflow) sample_digest retried_run"
  have next_event: "history_loop sample_engine ?A retried_workflow sample_digest clock retried_run i ch ()
      = history_loop sample_engine ?A retried_workflow sample_digest clock retried_run (Suc i) ch ()"
    if "i < 4" for i ch
  proof -
    have "checked_event sample_engine clock retried_workflow sample_digest retried_run i ch = Inr (ch, ())"
      using that event_rules_0 event_rules_1 event_rules_2 event_rules_3
      by (auto simp: less_Suc_eq numeral_eq_Suc)
    then show ?thesis
      using that by (subst history_loop.simps) (simp add: retried_run_take ok_simps)
  qed
  have "history_loop sample_engine ?A retried_workflow sample_digest clock retried_run 4 bt_empty () = Inr ()"
    by (subst history_loop.simps) (simp add: retried_run_take)
  then have "history_rules sample_engine clock retried_workflow sample_digest retried_run = Inr ()"
    by (simp add: history_rules_def validate_history_definition_rules_def next_event numeral_eq_Suc)
  then show ?thesis
    using cursor_check_folds [of "(=)" sample_engine clock retried_workflow sample_digest retried_run] retried_run_folds
    by (auto simp: is_ok_iff sample_engine_def ok_simps)
qed

section \<open>A saga with two compensations\<close>

definition registered_compensation :: "string \<Rightarrow> u64 \<Rightarrow> correction_action_projection" where
  "registered_compensation key n =
    registered_action key CorrectiveActionKind_Compensation (Some key) (Some n)"

definition correcting_saga :: saga_projection where
  "correcting_saga =
    \<lparr>sp_saga_id = ''g'', sp_phase = SagaPhase_Correcting, sp_reason = Some SagaCorrectionReason_Failure,
     sp_started_sequence = 2, sp_forward_succeeded_sequence = None, sp_correction_completed_sequence = None,
     sp_actions = bt_insert ''b'' (registered_compensation ''b'' 5)
       (bt_insert ''a'' (registered_compensation ''a'' 3) bt_empty)\<rparr>"

definition correcting_run :: run_projection where
  "correcting_run = empty_projection\<lparr>p_sagas := bt_insert ''g'' correcting_saga bt_empty\<rparr>"

definition latest_compensation :: correction_attempt_identity_data where
  "latest_compensation =
    \<lparr>cai_saga_id = ''g'', cai_action_id = ''b'', cai_action_kind = CorrectiveActionKind_Compensation, cai_attempt = 1\<rparr>"

lemma correcting_sagas: "bt_get (p_sagas correcting_run) ''g'' = Some correcting_saga"
  by (simp add: correcting_run_def)

lemma next_correcting: "next_compensation correcting_saga = Some ''b''"
  by (simp add: next_compensation_def correcting_saga_def max_by_key_def registered_compensation_def
      registered_action_def evaluate)

lemma latest_compensation_starts: "correction_started_rule saga latest_compensation correcting_run = Inr ()"
proof -
  have "sp_reason correcting_saga \<noteq> Some SagaCorrectionReason_Success" by (simp add: correcting_saga_def)
  then show ?thesis
    using next_correcting correcting_sagas
    by (simp add: correction_started_rule_def compensation_rule_def latest_compensation_def ok_simps)
qed

section \<open>A branch with two arms\<close>

definition selector_node :: compiled_workflow_node where
  "selector_node = (script_node (branch_selector_id ''b''))\<lparr>nd_handler := ''engine.branch-select''\<rparr>"

definition arm_edge :: "string \<Rightarrow> edge_condition \<Rightarrow> compiled_workflow_edge" where
  "arm_edge key condition =
    (plain_edge (branch_selector_id ''b'') ''s'')\<lparr>ed_id := key, ed_condition := condition, ed_branch_id := Some ''b''\<rparr>"

definition branching_workflow :: compiled_workflow_definition where
  "branching_workflow = sample_workflow\<lparr>wd_graph := (wd_graph sample_workflow)
    \<lparr>gr_nodes := [selector_node, script_node ''s''],
     gr_edges := [arm_edge ''x'' (EdgeCondition_Boolean (ValueExpression_ContextReference [''trigger'', ''go''])),
       arm_edge ''y'' EdgeCondition_Always]\<rparr>\<rparr>"

definition stopped_context :: workflow_context where
  "stopped_context = empty_context\<lparr>ctx_trigger := [(''go'', JBool False)]\<rparr>"

lemma branching_selector: "wf_node branching_workflow (branch_selector_id ''b'') = Some selector_node"
  by (simp add: branching_workflow_def wf_node_def selector_node_def script_node_def)

lemma branching_edges:
  "branch_edges branching_workflow (branch_selector_id ''b'') ''b'' =
    [arm_edge ''x'' (EdgeCondition_Boolean (ValueExpression_ContextReference [''trigger'', ''go''])),
     arm_edge ''y'' EdgeCondition_Always]"
  by (simp add: branch_edges_def branching_workflow_def arm_edge_def plain_edge_def)

lemma branching_arms:
  "arm_holds ''b'' stopped_context (arm_edge ''x'' (EdgeCondition_Boolean (ValueExpression_ContextReference [''trigger'', ''go''])))
    = Inr False"
  "arm_holds ''b'' stopped_context (arm_edge ''y'' EdgeCondition_Always) = Inr True"
  by (simp_all add: arm_holds_def arm_edge_def stopped_context_def resolve_context_reference_def ok_simps)

section \<open>An engine with a started run\<close>

definition new_engine :: dag_engine where
  "new_engine = \<lparr>de_workflow = readiness_definition_new retried_workflow, de_definition_hash = sample_digest,
    de_store = default_store\<rparr>"

lemma new_engine_created:
  "engine_new (\<lambda>_. Inr () :: (unit, unit) result) retried_workflow sample_digest = Inr new_engine"
  by (simp add: engine_new_def new_engine_def sample_digest_valid ok_simps)

lemma started_run_checked:
  "is_ok (validate_event_history_against_definition sample_engine (=) clock retried_workflow sample_digest started_run)"
proof -
  let ?A = "fold_access (xt_fold sample_engine) (readiness_graph_new retried_workflow) sample_digest started_run"
  have event: "history_event sample_engine ?A retried_workflow sample_digest started_run 0 (clock 0) bt_empty ()
      = Inr (bt_empty, ())"
    by (simp add: history_event_def history_event_rule_def history_prefix_rule_def
        rule_run_started_def is_workflow_call_def trigger_identity_present_def evaluate ok_simps)
  have one: "length started_run = 1" by (simp add: started_run_def)
  have "history_loop sample_engine ?A retried_workflow sample_digest clock started_run 1 bt_empty () = Inr ()"
    by (subst history_loop.simps) (simp add: one)
  then have "history_rules sample_engine clock retried_workflow sample_digest started_run = Inr ()"
    unfolding history_rules_def validate_history_definition_rules_def
    by (subst history_loop.simps) (simp add: one event ok_simps)
  moreover obtain state where "from_events sample_externals started_run = Inr state" using started_run_folds by blast
  ultimately show ?thesis
    using cursor_check_folds [of "(=)" sample_engine clock retried_workflow sample_digest started_run]
    by (simp add: validate_event_history_against_definition_def sample_engine_def ok_simps)
qed

lemma new_engine_starts:
  "\<exists>p engine. engine_append_event sample_engine (=) now clock (hd started_run) new_engine
    = (Inr p :: (unit engine_error, run_projection) result, engine) \<and> engine_events engine ''r'' = started_run"
proof -
  obtain state where state: "from_events sample_externals started_run = Inr state" using started_run_folds by blast
  have run: "started_run = [hd started_run]" "ev_run_id (hd started_run) = ''r''" by (simp_all add: evaluate)
  have version: "ev_event_schema_version (hd started_run) = run_event_schema_version_for_model 6"
    by (simp add: evaluate run_event_schema_version_for_model_def)
  have payload: "validate_payload_against_definition sample_engine retried_workflow sample_digest (ev_payload (hd started_run))
      = Inr ()"
    by (simp add: rule_run_started_def is_workflow_call_def trigger_identity_present_def evaluate ok_simps)
  have pre: "engine_precondition now (hd started_run) new_engine = (Inr () :: (unit engine_error, unit) result, new_engine)"
    by (simp add: engine_precondition_def evaluate)
  have engine: "de_definition new_engine = retried_workflow" "de_definition_hash new_engine = sample_digest"
    "de_store new_engine = default_store" "engine_events new_engine r = []" for r
    by (simp_all add: new_engine_def readiness_definition_new_def engine_events_def store.log_init)
  have check: "validate_event_history_against_definition sample_engine (=) clock retried_workflow sample_digest
      [hd started_run] = Inr ()"
    using started_run_checked [of clock] run(1) by (auto simp: is_ok_iff)
  have "apply_event sample_externals default_fold_state (hd started_run) = Inr state"
    using state run(1) from_events_snoc [of sample_externals "[]" "hd started_run"] by simp
  then have accepted: "ev_event_id (hd started_run) \<notin> st_event_ids default_store"
    "apply_event sample_externals (store_candidate default_store (ev_run_id (hd started_run))) (hd started_run) = Inr state"
    by (simp_all add: default_store_def store_candidate_def)
  note append = store_append_accepted(1,2) [OF this]
  obtain store where store: "store_append sample_externals default_store (hd started_run) = (Inr (fs_projection state), store)"
    using append(1) by (cases "store_append sample_externals default_store (hd started_run)") simp
  then have "store_events store ''r'' = started_run"
    using append(2) run by (simp add: store.log_init)
  moreover have "xt_fold sample_engine = sample_externals" by (simp add: sample_engine_def)
  then have "engine_append_event sample_engine (=) now clock (hd started_run) new_engine
      = (Inr (fs_projection state) :: (unit engine_error, run_projection) result, new_engine\<lparr>de_store := store\<rparr>)"
    using version payload pre check store by (simp add: engine_append_event_def engine)
  ultimately show ?thesis by (simp add: engine_events_def)
qed

end
