(* ===== verification/Interval.thy ===== *)
theory Interval
  imports Woml_Prelude
begin

text \<open>
  The arithmetic of interval triggers (\<^verbatim>\<open>interval.rs\<close>): the instant planned for the n-th
  occurrence after an anchor, the next occurrence after an instant and the latest at or
  before it.  Instants are here in nanoseconds, as \<^verbatim>\<open>DateTime\<close> has them; the instants that
  \<^verbatim>\<open>chrono\<close> can represent are the parameter \<open>representable\<close>.
\<close>

section \<open>Instants\<close>

type_synonym date_time = int

definition timestamp_millis :: "date_time \<Rightarrow> int" where
  "timestamp_millis t = t div 1000000"

definition from_timestamp_millis :: "(date_time \<Rightarrow> bool) \<Rightarrow> int \<Rightarrow> date_time option" where
  "from_timestamp_millis representable ms =
    (if representable (ms * 1000000) then Some (ms * 1000000) else None)"

definition is_i64 :: "int \<Rightarrow> bool" where
  "is_i64 n \<longleftrightarrow> - (2 ^ 63) \<le> n \<and> n < 2 ^ 63"

section \<open>Intervals\<close>

definition MIN_INTERVAL_MS :: u64 where
  "MIN_INTERVAL_MS = 1000"

definition MAX_INTERVAL_MS :: u64 where
  "MAX_INTERVAL_MS = 30 * 24 * 60 * 60 * 1000"

record woml_interval =
  every_ms :: u64

datatype interval_error =
    IntervalError_InvalidDuration
  | IntervalError_InvalidSequence
  | IntervalError_ClockRange
  | IntervalError_NoDueOccurrence

definition woml_interval_new :: "u64 \<Rightarrow> (interval_error, woml_interval) result" where
  "woml_interval_new every =
    (if \<not> (MIN_INTERVAL_MS \<le> every \<and> every \<le> MAX_INTERVAL_MS) then Inl IntervalError_InvalidDuration
     else Inr \<lparr>every_ms = every\<rparr>)"

definition normalize_anchor :: "(date_time \<Rightarrow> bool) \<Rightarrow> date_time \<Rightarrow> (interval_error, date_time) result" where
  "normalize_anchor representable t =
    ok_or (from_timestamp_millis representable (timestamp_millis t)) IntervalError_ClockRange"

definition planned_at ::
  "(date_time \<Rightarrow> bool) \<Rightarrow> woml_interval \<Rightarrow> date_time \<Rightarrow> u64 \<Rightarrow> (interval_error, date_time) result" where
  "planned_at representable interval anchor sequence =
    (if sequence = 0 then Inl IntervalError_InvalidSequence
     else let offset = uint (every_ms interval) * uint sequence in
       if \<not> offset < 2 ^ 64 \<or> \<not> is_i64 offset then Inl IntervalError_ClockRange
       else let planned = anchor + offset * 1000000 in
         if representable planned then Inr planned else Inl IntervalError_ClockRange)"

text \<open>\<^verbatim>\<open>checked_div\<close> by the period, which is not zero.\<close>

definition periods :: "woml_interval \<Rightarrow> int \<Rightarrow> u64 option" where
  "periods interval elapsed =
    (if elapsed < 0 \<or> every_ms interval = 0 then None
     else Some (word_of_int (elapsed div uint (every_ms interval))))"

definition checked_succ :: "u64 \<Rightarrow> u64 option" where
  "checked_succ n = (if uint n + 1 < 2 ^ 64 then Some (n + 1) else None)"

definition elapsed_millis :: "date_time \<Rightarrow> date_time \<Rightarrow> (interval_error, int) result" where
  "elapsed_millis anchor t =
    (let elapsed = timestamp_millis t - timestamp_millis anchor in
     if is_i64 elapsed then Inr elapsed else Inl IntervalError_ClockRange)"

definition next_sequence_after :: "woml_interval \<Rightarrow> date_time \<Rightarrow> date_time \<Rightarrow> (interval_error, u64) result" where
  "next_sequence_after interval anchor t =
    and_then (elapsed_millis anchor t) (\<lambda>elapsed.
    if elapsed < 0 then Inr 1
    else ok_or (Option.bind (periods interval elapsed) checked_succ) IntervalError_ClockRange)"

definition latest_sequence_at_or_before ::
  "woml_interval \<Rightarrow> date_time \<Rightarrow> date_time \<Rightarrow> (interval_error, u64) result" where
  "latest_sequence_at_or_before interval anchor t =
    and_then (elapsed_millis anchor t) (\<lambda>elapsed.
    if \<not> is_i64 (uint (every_ms interval)) then Inl IntervalError_ClockRange
    else if elapsed < uint (every_ms interval) then Inl IntervalError_NoDueOccurrence
    else ok_or (Option.bind (periods interval elapsed) (\<lambda>sequence. if 1 \<le> sequence then Some sequence else None))
      IntervalError_ClockRange)"

section \<open>Periods\<close>

lemma interval_period:
  assumes "woml_interval_new every = Inr interval"
  shows "every_ms interval = every" "1000 \<le> uint every" "uint every \<le> 2592000000"
  using assms
  by (auto simp: woml_interval_new_def MIN_INTERVAL_MS_def MAX_INTERVAL_MS_def word_le_def split: if_splits)

lemma millis_add: "timestamp_millis (t + n * 1000000) = timestamp_millis t + n"
  by (simp add: timestamp_millis_def)

lemma uint_periods:
  assumes "1000 \<le> uint (every_ms interval)" "0 \<le> elapsed" "elapsed < 2 ^ 63"
  obtains n where "periods interval elapsed = Some n" "uint n = elapsed div uint (every_ms interval)"
    "checked_succ n = Some (n + 1)"
proof -
  have "elapsed div uint (every_ms interval) \<le> elapsed"
    using assms zdiv_mono2 [of elapsed 1 "uint (every_ms interval)"] by simp
  moreover have "0 \<le> elapsed div uint (every_ms interval)"
    using assms by (simp add: pos_imp_zdiv_nonneg_iff)
  ultimately have n: "uint (word_of_int (elapsed div uint (every_ms interval)) :: u64)
      = elapsed div uint (every_ms interval)"
    "elapsed div uint (every_ms interval) < 2 ^ 63"
    using assms(3) by (simp_all add: uint_word_of_int)
  moreover have "every_ms interval \<noteq> 0" using assms(1) by auto
  ultimately show thesis
    using assms(2)
    by (intro that [of "word_of_int (elapsed div uint (every_ms interval))"]) (simp_all add: periods_def checked_succ_def)
qed

lemma latest_period:
  assumes "1000 \<le> uint (every_ms interval)" "latest_sequence_at_or_before interval anchor t = Inr s"
  shows "uint s = (timestamp_millis t - timestamp_millis anchor) div uint (every_ms interval)"
    "next_sequence_after interval anchor t = Inr (s + 1)"
proof -
  obtain elapsed where elapsed: "elapsed = timestamp_millis t - timestamp_millis anchor" "is_i64 elapsed"
    "uint (every_ms interval) \<le> elapsed"
    using assms by (auto simp: latest_sequence_at_or_before_def elapsed_millis_def Let_def ok_simps split: if_splits)
  then have range: "0 \<le> elapsed" "elapsed < 2 ^ 63" using assms(1) by (simp_all add: is_i64_def)
  obtain n where n: "periods interval elapsed = Some n" "uint n = elapsed div uint (every_ms interval)"
    "checked_succ n = Some (n + 1)"
    using uint_periods [OF assms(1) range] by blast
  then have "s = n"
    using assms elapsed
    by (auto simp: latest_sequence_at_or_before_def elapsed_millis_def Let_def ok_simps split: if_splits)
  then show "uint s = (timestamp_millis t - timestamp_millis anchor) div uint (every_ms interval)"
    "next_sequence_after interval anchor t = Inr (s + 1)"
    using n elapsed range by (simp_all add: next_sequence_after_def elapsed_millis_def ok_simps)
qed

lemma latest_at_multiple:
  assumes "1000 \<le> uint (every_ms interval)" "is_i64 (uint (every_ms interval) * uint s)" "s \<noteq> 0"
    and "timestamp_millis t - timestamp_millis anchor = uint (every_ms interval) * uint s"
  shows "latest_sequence_at_or_before interval anchor t = Inr s"
proof -
  let ?e = "uint (every_ms interval)"
  have s: "1 \<le> uint s" using assms(3) by (metis int_one_le_iff_zero_less uint_0_iff uint_ge_0 order_less_le)
  have product: "?e \<le> ?e * uint s"
    using mult_left_mono [OF s, of ?e] assms(1) by simp
  then have range: "0 \<le> ?e * uint s" "?e * uint s < 2 ^ 63" using assms(1,2) by (simp_all add: is_i64_def)
  obtain n where n: "periods interval (?e * uint s) = Some n" "uint n = ?e * uint s div ?e"
    using uint_periods [OF assms(1) range] by blast
  then have "n = s" using assms(1) by (simp add: word_uint_eq_iff)
  moreover have "1 \<le> s" using s by (simp add: word_le_def)
  moreover have "is_i64 ?e"
    using order_le_less_trans [OF product range(2)] assms(1) by (simp add: is_i64_def)
  ultimately show ?thesis
    using n assms(2,4) product
    by (simp add: latest_sequence_at_or_before_def elapsed_millis_def ok_simps)
qed

lemma planned_offset:
  assumes "planned_at representable interval anchor s = Inr t"
  shows "s \<noteq> 0" "is_i64 (uint (every_ms interval) * uint s)"
    "timestamp_millis t - timestamp_millis anchor = uint (every_ms interval) * uint s"
  using assms by (auto simp: planned_at_def Let_def millis_add split: if_splits)

end
