(* ===== verification/Checked_Guarantees.thy ===== *)
theory Checked_Guarantees
  imports Sample_Check Interval
begin

text \<open>
  What the engine guarantees of the histories it has checked against a definition, of the
  routes it takes, of the logs it keeps, and of the instants of interval triggers.
\<close>

section \<open>Checked histories\<close>

text \<open>
  C34.  The check of a history through the cursor, whose projection, table of newest
  attempts and frontier are carried from event to event, is the check that folds every
  prefix from the start and asks the full readiness query on it: same verdict, same error.
\<close>

theorem cursor_check_is_reference_check:
  assumes "\<And>a b. ptr_eq a b \<Longrightarrow> a = b"
  shows "check_event_history_against_definition X ptr_eq clock workflow hash events =
    and_then (map_error Engine_fold (from_events (xt_fold X) events)) (\<lambda>state.
    and_then (history_rules X clock workflow hash events) (\<lambda>_.
    Inr \<lparr>vh_events = events, vh_definition = workflow, vh_definition_hash = hash, vh_state = state\<rparr>))"
  by (rule cursor_check_folds [OF assms])

theorem cursor_check_is_reference_check_witness:
  "history_rules sample_engine (\<lambda>_. 0) retried_workflow sample_digest retried_run = Inr ()"
proof -
  obtain checked where "check_event_history_against_definition sample_engine (=) (\<lambda>_. 0) retried_workflow sample_digest
      retried_run = Inr checked"
    using retried_run_checked by blast
  then show ?thesis
    using cursor_check_is_reference_check [of "(=)" sample_engine "\<lambda>_. 0" retried_workflow sample_digest retried_run]
    by (auto simp: ok_simps)
qed

text \<open>
  C35.  In a checked history every start of a step outside loops was ready at its time on
  the fold of the events before it, has the compiled handler and an attempt number within
  the retry policy, from model version 6 carries the key derived from run, definition and
  node, and, for a child of a parallel group, found fewer running steps of the group than
  its concurrency.
\<close>

theorem checked_steps_were_ready:
  assumes check: "check_event_history_against_definition X ptr_eq clock workflow hash events = Inr checked"
    and same: "\<And>a b. ptr_eq a b \<Longrightarrow> a = b"
    and i: "i < length events" "ev_iteration (events ! i) = None" "ev_payload (events ! i) = StepAttemptStarted data"
    and p: "fold_events (xt_fold X) (take i events) = Inr p"
  shows "is_ready_at (readiness_graph_new workflow) hash p (ev_occurred_at (events ! i)) (sast_node_id data) = Inr True
    \<and> (\<exists>node. wf_node workflow (sast_node_id data) = Some node \<and> nd_handler node = sast_handler data
        \<and> sast_attempt data \<le> maximum_attempts node)
    \<and> (6 \<le> wd_schema_version workflow \<longrightarrow> (\<exists>key. sast_idempotency_key data = Some key
        \<and> step_effect_idempotency_key (xt_fold X) (ev_run_id (events ! i)) hash (sast_node_id data) = Inr key))
    \<and> (\<forall>parallel. parallel_group_for_child workflow (sast_node_id data) = Some parallel \<longrightarrow>
        length (filter (running_attempt p) (step_children workflow parallel)) < pgd_concurrency parallel)"
proof -
  obtain ch ch' where ch: "children_follow (xt_fold X) workflow events i ch"
    "checked_event X clock workflow hash events i ch = Inr (ch', ())"
    using checked_children [OF checked_rules [OF check same] i(1)] by blast
  note event = unscoped_event [OF ch(2) i(2)]
  have rule: "history_step_attempt_started X (fold_access (xt_fold X) (readiness_graph_new workflow) hash events)
      workflow hash i (events ! i) data ch () = Inr (ch', ())"
    using event(2) i(3) by (simp add: history_event_rule_def)
  have "\<exists>node. wf_node workflow (sast_node_id data) = Some node \<and> nd_handler node = sast_handler data
      \<and> sast_attempt data \<le> maximum_attempts node"
    using event(1) i(3) by (auto simp: rule_step_attempt_started_def ok_simps not_less split: if_splits)
  then show ?thesis
    using step_start_rule [OF rule p] running_below_active [OF ch(1) p] by (auto intro: le_less_trans)
qed

theorem checked_steps_were_ready_witness:
  "\<exists>p. fold_events sample_externals started_run = Inr p
    \<and> is_ready_at (readiness_graph_new retried_workflow) sample_digest p 2 ''s'' = Inr True"
proof -
  obtain checked where check: "check_event_history_against_definition sample_engine (=) (\<lambda>_. 0) retried_workflow
      sample_digest retried_run = Inr checked"
    using retried_run_checked by blast
  obtain p where p: "fold_events sample_externals started_run = Inr p" using started_run_fields by blast
  have event: "Suc 0 < length retried_run" "ev_iteration (retried_run ! Suc 0) = None"
    "ev_payload (retried_run ! Suc 0) = StepAttemptStarted script_start" "ev_occurred_at (retried_run ! Suc 0) = 2"
    by (simp_all add: retried_run_take step_event_def sample_event_def)
  show ?thesis
    using checked_steps_were_ready [OF check _ event(1-3), of p] p event(4)
    by (simp add: retried_run_take sample_engine_def script_start_def)
qed

text \<open>
  C36.  In a checked history a failure outside loops that is to be retried is followed at
  once by the schedule of its retry, and every schedule outside loops directly follows the
  failure it names, within the retry policy, at the time of the failure plus the compiled backoff.
\<close>

theorem checked_retries_follow_failures:
  assumes check: "check_event_history_against_definition X ptr_eq clock workflow hash events = Inr checked"
    and same: "\<And>a b. ptr_eq a b \<Longrightarrow> a = b"
    and i: "i < length events" "ev_iteration (events ! i) = None"
  shows "(\<forall>failed. ev_payload (events ! i) = StepAttemptFailed failed \<and> should_retry workflow failed \<longrightarrow>
      Suc i < length events \<and> schedules_retry_of failed (ev_payload (events ! Suc i)))
    \<and> (\<forall>data. ev_payload (events ! i) = StepRetryScheduled data \<longrightarrow>
      (\<exists>failed policy delay_ms. 0 < i \<and> ev_payload (events ! (i - 1)) = StepAttemptFailed failed
        \<and> saf_node_id failed = srs_node_id data \<and> saf_attempt failed = srs_failed_attempt data
        \<and> srs_next_attempt data = srs_failed_attempt data + 1
        \<and> node_retry_policy workflow (srs_node_id data) = Some policy
        \<and> srs_next_attempt data \<le> rtp_max_attempts policy
        \<and> delay_before_attempt X policy (srs_next_attempt data) = Some delay_ms
        \<and> srs_scheduled_at data = ev_occurred_at (events ! (i - 1)) + int (unat delay_ms)))"
proof -
  obtain ch ch' where ch: "checked_event X clock workflow hash events i ch = Inr (ch', ())"
    using checked_children [OF checked_rules [OF check same] i(1)] by blast
  note event = unscoped_event [OF ch i(2)]
  show ?thesis
  proof (intro conjI allI impI)
    fix failed
    assume failed: "ev_payload (events ! i) = StepAttemptFailed failed \<and> should_retry workflow failed"
    then have "is_some_and (event_at events (i + 1)) (\<lambda>event. schedules_retry_of failed (ev_payload event))"
      using event(2) by (auto simp: history_event_rule_def history_step_attempt_failed_def ok_simps)
    then show "Suc i < length events" "schedules_retry_of failed (ev_payload (events ! Suc i))"
      by (auto simp: event_at_def is_some_and_iff split: if_splits)
  next
    fix data
    assume data: "ev_payload (events ! i) = StepRetryScheduled data"
    then have rule: "history_step_retry_scheduled X workflow events i data ch = Inr ch'"
      using event(2) by (auto simp: history_event_rule_def ok_simps)
    have bound: "srs_next_attempt data = srs_failed_attempt data + 1"
      "\<And>policy. node_retry_policy workflow (srs_node_id data) = Some policy
        \<Longrightarrow> srs_next_attempt data \<le> rtp_max_attempts policy"
      using event(1) data
      by (auto simp: rule_step_retry_scheduled_def node_retry_policy_def ok_simps split: if_splits)
    from rule show "\<exists>failed policy delay_ms. 0 < i \<and> ev_payload (events ! (i - 1)) = StepAttemptFailed failed
        \<and> saf_node_id failed = srs_node_id data \<and> saf_attempt failed = srs_failed_attempt data
        \<and> srs_next_attempt data = srs_failed_attempt data + 1
        \<and> node_retry_policy workflow (srs_node_id data) = Some policy
        \<and> srs_next_attempt data \<le> rtp_max_attempts policy
        \<and> delay_before_attempt X policy (srs_next_attempt data) = Some delay_ms
        \<and> srs_scheduled_at data = ev_occurred_at (events ! (i - 1)) + int (unat delay_ms)"
    proof (rule retry_ruleE)
      fix previous failed policy delay_ms
      assume previous: "previous_event events i = Some previous" "ev_payload previous = StepAttemptFailed failed"
        and "node_retry_policy workflow (srs_node_id data) = Some policy"
        "delay_before_attempt X policy (srs_next_attempt data) = Some delay_ms"
        "saf_node_id failed = srs_node_id data" "saf_attempt failed = srs_failed_attempt data"
        "srs_scheduled_at data = ev_occurred_at previous + int (unat delay_ms)"
      moreover from previous(1) have "0 < i" "previous = events ! (i - 1)"
        by (auto simp: previous_event_def event_at_def split: if_splits)
      ultimately show ?thesis using bound by auto
    qed
  qed
qed

theorem checked_retries_follow_failures_witness:
  "\<exists>policy delay_ms. node_retry_policy retried_workflow ''s'' = Some policy
    \<and> delay_before_attempt sample_engine policy 2 = Some delay_ms \<and> (5 :: int) = 3 + int (unat delay_ms)"
proof -
  obtain checked where check: "check_event_history_against_definition sample_engine (=) (\<lambda>_. 0) retried_workflow
      sample_digest retried_run = Inr checked"
    using retried_run_checked by blast
  have event: "3 < length retried_run" "ev_iteration (retried_run ! 3) = None"
    "ev_payload (retried_run ! 3) = StepRetryScheduled script_retry" "ev_occurred_at (retried_run ! 2) = 3"
    by (simp_all add: retried_run_take step_event_def sample_event_def)
  show ?thesis
    using checked_retries_follow_failures [OF check _ event(1,2)] event(3,4) by (auto simp: script_retry_def)
qed

text \<open>
  C37.  Compensations run in the reverse order of the completions they undo: one may start
  only when the saga has not succeeded and no other compensation that is registered or
  waits for its retry undoes a later completion.
\<close>

theorem compensations_undo_latest_first:
  assumes "correction_started_rule saga data p = Inr ()" "cai_action_kind data = CorrectiveActionKind_Compensation"
  shows "\<exists>state action. bt_get (p_sagas p) (cai_saga_id data) = Some state
    \<and> sp_reason state \<noteq> Some SagaCorrectionReason_Success
    \<and> pending_compensation state action \<and> cap_action_id action = cai_action_id data
    \<and> (\<forall>other. pending_compensation state other \<longrightarrow> cap_completion_sequence other \<le> cap_completion_sequence action)"
proof -
  obtain state where state: "bt_get (p_sagas p) (cai_saga_id data) = Some state" "compensation_rule data state = Inr ()"
    using assms by (auto simp: correction_started_rule_def ok_simps)
  then have reason: "sp_reason state \<noteq> Some SagaCorrectionReason_Success"
    and first: "next_compensation state = Some (cai_action_id data)"
    by (auto simp: compensation_rule_def ok_simps split: if_splits)
  obtain action where "pending_compensation state action" "cap_action_id action = cai_action_id data"
    "\<And>other. pending_compensation state other \<Longrightarrow> cap_completion_sequence other \<le> cap_completion_sequence action"
    using next_compensation_latest [OF first] by blast
  with state(1) reason show ?thesis by blast
qed

theorem compensations_undo_latest_first_witness:
  "\<exists>action. pending_compensation correcting_saga action \<and> cap_action_id action = ''b''"
  using compensations_undo_latest_first [OF latest_compensation_starts] correcting_sagas
  by (auto simp: latest_compensation_def)

section \<open>Routes\<close>

text \<open>
  C38.  A branch takes the first of its arms, in the order of the edges, whose test is true
  or that has none, and only when every arm before it was tested false; that arm is one the
  rules of the definition let the branch select, and evaluation never panics.
\<close>

theorem branch_takes_first_true_arm:
  assumes "wf_node workflow (branch_selector_id branch_id) = Some selector"
    "nd_handler selector = ''engine.branch-select''"
  shows "(selected_branch_arm workflow (branch_selector_id branch_id) context = Inr arm_id \<longleftrightarrow>
      (\<exists>before edge after. branch_edges workflow (branch_selector_id branch_id) branch_id = before @ edge # after
        \<and> list_all (\<lambda>e. arm_holds branch_id context e = Inr False) before
        \<and> arm_holds branch_id context edge = Inr True \<and> ed_id edge = arm_id))
    \<and> (selected_branch_arm workflow (branch_selector_id branch_id) context = Inr arm_id \<longrightarrow>
        rule_branch_selected workflow \<lparr>brs_branch_id = branch_id, brs_arm_id = arm_id\<rparr> = Inr ())
    \<and> selected_branch_arm workflow (branch_selector_id branch_id) context \<noteq> Inl RoutingPanic"
proof -
  have selected: "selected_branch_arm workflow (branch_selector_id branch_id) context =
      first_arm branch_id context (branch_edges workflow (branch_selector_id branch_id) branch_id)"
    using selector_branch_id_iff [of "branch_selector_id branch_id" branch_id]
    by (simp add: selected_branch_arm_def)
  have "selectable_arm (gr_edges (wd_graph workflow)) branch_id arm_id"
    if routed: "first_arm branch_id context (branch_edges workflow (branch_selector_id branch_id) branch_id) = Inr arm_id"
  proof -
    obtain before edge after where
      "branch_edges workflow (branch_selector_id branch_id) branch_id = before @ edge # after" "ed_id edge = arm_id"
      using first_arm_first [OF routed] by blast
    then have "edge \<in> set (branch_edges workflow (branch_selector_id branch_id) branch_id)" "ed_id edge = arm_id"
      by simp_all
    then show ?thesis by (auto simp: branch_edges_def selectable_arm_def list_ex_iff)
  qed
  then show ?thesis
    unfolding selected using first_arm_iff first_arm_no_panic assms
    by (auto simp: rule_branch_selected_def ok_simps)
qed

theorem branch_takes_first_true_arm_witness:
  "selected_branch_arm branching_workflow (branch_selector_id ''b'') stopped_context = Inr ''y''
    \<and> rule_branch_selected branching_workflow \<lparr>brs_branch_id = ''b'', brs_arm_id = ''y''\<rparr> = Inr ()"
proof -
  have handler: "nd_handler selector_node = ''engine.branch-select''" by (simp add: selector_node_def)
  let ?x = "arm_edge ''x'' (EdgeCondition_Boolean (ValueExpression_ContextReference [''trigger'', ''go'']))"
  have "branch_edges branching_workflow (branch_selector_id ''b'') ''b'' = [?x] @ arm_edge ''y'' EdgeCondition_Always # []
      \<and> list_all (\<lambda>e. arm_holds ''b'' stopped_context e = Inr False) [?x]
      \<and> arm_holds ''b'' stopped_context (arm_edge ''y'' EdgeCondition_Always) = Inr True
      \<and> ed_id (arm_edge ''y'' EdgeCondition_Always) = ''y''"
    using branching_edges branching_arms by (simp add: arm_edge_def)
  then show ?thesis
    using branch_takes_first_true_arm [OF branching_selector handler, of stopped_context "''y''"] by blast
qed

section \<open>The engine\<close>

text \<open>
  C39.  Every log an engine holds, after any appends and queries, accepted or refused, has
  been checked against the engine's definition, and the projection it answers with is the
  fold of that log.
\<close>

theorem engine_logs_are_checked:
  assumes "engine_of X ptr_eq validate workflow hash engine" "engine_events engine run_id \<noteq> []"
  shows "\<exists>clock checked. check_event_history_against_definition X ptr_eq clock workflow hash (engine_events engine run_id)
      = Inr checked \<and> fs_projection (vh_state checked) = engine_projection engine run_id"
proof -
  have ok: "engine_ok X ptr_eq workflow hash engine" by (rule engine_of_ok [OF assms(1)])
  then obtain clock checked where checked:
    "check_event_history_against_definition X ptr_eq clock workflow hash (engine_events engine run_id) = Inr checked"
    using assms(2) unfolding engine_ok_def is_ok_iff by blast
  then have "from_events (xt_fold X) (engine_events engine run_id) = Inr (vh_state checked)"
    by (auto simp: check_event_history_against_definition_def ok_simps)
  moreover have "from_events (xt_fold X) (engine_events engine run_id) = Inr (store_candidate (de_store engine) run_id)"
    using ok by (simp add: engine_ok_def store_ok_def engine_events_def)
  moreover have "run_id \<in> dom (st_projections (de_store engine))"
    using ok assms(2) by (simp add: engine_ok_def store_ok_def engine_events_def)
  ultimately have "fs_projection (vh_state checked) = engine_projection engine run_id"
    by (auto simp: engine_projection_def store_projection_def store_candidate_def)
  with checked show ?thesis by blast
qed

theorem engine_logs_are_checked_witness:
  "\<exists>engine clock checked. engine_events engine ''r'' = started_run
    \<and> check_event_history_against_definition sample_engine (=) clock retried_workflow sample_digest started_run = Inr checked
    \<and> fs_projection (vh_state checked) = engine_projection engine ''r''"
proof -
  obtain p engine where append: "engine_append_event sample_engine (=) 0 (\<lambda>_. 0) (hd started_run) new_engine
      = (Inr p :: (unit engine_error, run_projection) result, engine)" and log: "engine_events engine ''r'' = started_run"
    using new_engine_starts by blast
  have "engine_of sample_engine (=) (\<lambda>_. Inr () :: (unit, unit) result) retried_workflow sample_digest engine"
    by (rule engine_of.appended [OF engine_of.created [OF new_engine_created] append])
  moreover have "engine_events engine ''r'' \<noteq> []" using log by (simp add: started_run_def)
  ultimately show ?thesis using engine_logs_are_checked log by metis
qed

section \<open>Interval triggers\<close>

text \<open>
  C40.  Sequence numbers and planned instants of an interval are inverse: at the instant
  planned for an occurrence the latest occurrence is that one and the next its successor,
  and every instant with that latest occurrence lies in the period the plan begins.
\<close>

theorem interval_sequences_roundtrip:
  assumes "woml_interval_new every = Inr interval" "planned_at representable interval anchor s = Inr t"
  shows "latest_sequence_at_or_before interval anchor t = Inr s
    \<and> next_sequence_after interval anchor t = Inr (s + 1)
    \<and> (\<forall>u. latest_sequence_at_or_before interval anchor u = Inr s \<longrightarrow>
        timestamp_millis t \<le> timestamp_millis u \<and> timestamp_millis u < timestamp_millis t + uint every
        \<and> next_sequence_after interval anchor u = Inr (s + 1))"
proof -
  note period = interval_period [OF assms(1)] and offset = planned_offset [OF assms(2)]
  have every: "1000 \<le> uint (every_ms interval)" using period by simp
  have latest: "latest_sequence_at_or_before interval anchor t = Inr s"
    by (rule latest_at_multiple [OF every offset(2,1,3)])
  have bounds: "timestamp_millis t \<le> timestamp_millis u \<and> timestamp_millis u < timestamp_millis t + uint every"
    if "latest_sequence_at_or_before interval anchor u = Inr s" for u
  proof -
    let ?d = "timestamp_millis u - timestamp_millis anchor" and ?e = "uint (every_ms interval)"
    have s: "uint s = ?d div ?e" by (rule latest_period(1) [OF every that])
    have e: "0 < ?e" using every by simp
    have "?e * uint s \<le> ?d" "?d < ?e * uint s + ?e"
      unfolding s using e mult_div_mod_eq [of ?e ?d] pos_mod_bound [of ?e ?d] pos_mod_sign [of ?e ?d] by linarith+
    then show ?thesis unfolding period(1) using offset(3) by (simp add: period(1))
  qed
  show ?thesis using latest bounds latest_period(2) [OF every] by blast
qed

theorem interval_sequences_roundtrip_witness:
  "latest_sequence_at_or_before \<lparr>every_ms = 1000\<rparr> 0 7000000000 = Inr 7"
proof -
  have "woml_interval_new 1000 = Inr \<lparr>every_ms = 1000\<rparr>"
    by (simp add: woml_interval_new_def MIN_INTERVAL_MS_def MAX_INTERVAL_MS_def)
  moreover have "planned_at (\<lambda>_. True) \<lparr>every_ms = 1000\<rparr> 0 7 = Inr 7000000000"
    by (simp add: planned_at_def is_i64_def)
  ultimately show ?thesis using interval_sequences_roundtrip by blast
qed

end
