(* ===== verification/Spec2Isabelle.thy ===== *)
theory Spec2Isabelle
  imports Run_Attempts Object_Guarantees Engine_Guarantees Checked_Guarantees
begin

text \<open>
  Verification of the WOML workflow engine (\<^verbatim>\<open>src/core/woml-engine/src\<close>; paths below are relative
  to it).  A run of a workflow is a list of events.  The engine validates each event, folds
  the list to a projection of the run, asks the projection and the compiled definition which
  nodes are ready, and refuses a history that the definition does not allow.  The event store
  keeps one log per run, and the in-memory engine appends to it only what passes all of these.

  \<^bold>\<open>Foundations.\<close>
  \<^item> \<^verbatim>\<open>Woml_Prelude\<close>: results (\<open>Inl\<close> the error), the lemma collections \<open>ok_simps\<close> and \<open>evaluate\<close>,
    machine integers (\<^verbatim>\<open>u32\<close> and \<^verbatim>\<open>u64\<close> are words, \<^verbatim>\<open>usize\<close> is \<^typ>\<open>nat\<close>), instants.
  \<^item> \<^verbatim>\<open>Ordered_Map\<close>: \<^verbatim>\<open>BTreeMap\<close> as a sorted association list, with the locale of its laws.  A
    \<^verbatim>\<open>HashMap\<close> that is only looked up is modelled by the same type, a \<^verbatim>\<open>HashSet\<close> by a set.
  \<^item> \<^verbatim>\<open>Rust_Text\<close>, \<^verbatim>\<open>Json\<close>, \<^verbatim>\<open>Errors\<close>: byte strings and the string functions of Rust that the code uses,
    JSON values, and the errors of validation and fold, which name the source line that raises them.

  \<^bold>\<open>Events.\<close>
  \<^item> \<^verbatim>\<open>Capability\<close>, \<^verbatim>\<open>Event_Approvals\<close>, \<^verbatim>\<open>Event_Control_Flow\<close>, \<^verbatim>\<open>Event_Execution\<close>, \<^verbatim>\<open>Event_Lifecycle\<close>,
    \<^verbatim>\<open>Event_Policy\<close>, \<^verbatim>\<open>Event_Runtime\<close>, \<^verbatim>\<open>Event\<close>: the payloads of \<^verbatim>\<open>event.rs\<close> and \<^verbatim>\<open>event/\<close> as records and
    one datatype \<^typ>\<open>run_event_payload\<close>.
  \<^item> \<^verbatim>\<open>Event_Identities\<close>, \<^verbatim>\<open>Validation_Execution\<close>, \<^verbatim>\<open>Validation_Runtime\<close>, \<^verbatim>\<open>Event_Validation\<close>:
    \<^verbatim>\<open>RunEvent::validate\<close> (\<^verbatim>\<open>event/validation.rs\<close>, \<^verbatim>\<open>event/identities.rs\<close>) as \<^const>\<open>validate_event\<close>, one
    definition per kind of payload; \<^verbatim>\<open>Validation_Facts\<close> holds what a valid event satisfies.

  \<^bold>\<open>Projection.\<close>
  \<^item> \<^verbatim>\<open>Projection_State\<close>: \<^verbatim>\<open>RunProjection\<close> (\<^verbatim>\<open>projection/run.rs\<close>) and the projections of its parts.
  \<^item> \<^verbatim>\<open>Fold_Guards\<close>, \<^verbatim>\<open>Fold_Run\<close>, \<^verbatim>\<open>Fold_Attempts\<close>, \<^verbatim>\<open>Fold_Locks\<close>, \<^verbatim>\<open>Fold_Waits\<close>, \<^verbatim>\<open>Fold_Operations\<close>,
    \<^verbatim>\<open>Fold_Correction\<close>, \<^verbatim>\<open>Fold_Control_Flow\<close>, \<^verbatim>\<open>Fold_Approvals\<close>, \<^verbatim>\<open>Fold_Notifications\<close>,
    \<^verbatim>\<open>Fold_Lifecycle\<close>, \<^verbatim>\<open>Fold_Iteration\<close>: one handler per event, as in the files
    \<^verbatim>\<open>projection/fold_*.rs\<close> and \<^verbatim>\<open>projection/iteration_fold.rs\<close> of the same names.
  \<^item> \<^verbatim>\<open>Projection_Fold\<close>: \<^verbatim>\<open>ProjectionFoldState\<close>, \<^const>\<open>apply_event\<close>, \<^const>\<open>from_events\<close> and
    \<^const>\<open>fold_events\<close> of \<^verbatim>\<open>projection/fold.rs\<close>.  The handlers of the code mutate the state in place and
    may have changed a part of it when they fail; every caller drops or resets the state on
    an error, so the model returns the error alone.
  \<^item> \<^verbatim>\<open>Fold_Frames\<close>, \<^verbatim>\<open>Fold_Reachable\<close>, \<^verbatim>\<open>Fold_Owners\<close>: which parts of the state a handler leaves alone,
    and the locale \<open>history_invariant\<close> by which a property of one step holds of every history.
  \<^item> \<^verbatim>\<open>Run_Machine\<close>, \<^verbatim>\<open>Run_History\<close>, \<^verbatim>\<open>Run_Outcome\<close>, \<^verbatim>\<open>Run_Attempts\<close>: the state machine of a run as
    an inductive relation, the refinement of the fold to it, outcomes and attempts (C1 to C9 below).
  \<^item> \<^verbatim>\<open>Keyed_Lifecycle\<close> and the theories \<^verbatim>\<open>Lock_\<close>, \<^verbatim>\<open>Wait_\<close>, \<^verbatim>\<open>Saga_\<close>, \<^verbatim>\<open>Operation_\<close>, \<^verbatim>\<open>Flow_\<close>, \<^verbatim>\<open>Loop_\<close>,
    \<^verbatim>\<open>Approval_\<close>, \<^verbatim>\<open>Notification_\<close> and \<^verbatim>\<open>Hook_Lifecycle\<close>: the invariant and the allowed changes of
    each kind of object a projection holds, collected in \<^verbatim>\<open>Object_Guarantees\<close> (C10 to C25).

  \<^bold>\<open>Store, definition and readiness.\<close>
  \<^item> \<^verbatim>\<open>Event_Store\<close>: \<^verbatim>\<open>InMemoryEventStore\<close> (\<^verbatim>\<open>store.rs\<close>), refined to one log per run.
  \<^item> \<^verbatim>\<open>Workflow_Model\<close>, \<^verbatim>\<open>Approval_Definition\<close>: the compiled definition (\<^verbatim>\<open>model/contracts.rs\<close> and its
    siblings) and the queries of \<^verbatim>\<open>model/queries.rs\<close>, approvals with their notifications included.
  \<^item> \<^verbatim>\<open>Readiness_Index\<close>, \<^verbatim>\<open>Readiness\<close>, \<^verbatim>\<open>Readiness_Facts\<close>: \<^verbatim>\<open>engine/readiness.rs\<close> and its index: active
    edges and nodes, completion, the ready nodes.  The recursion of
    \<^verbatim>\<open>node_is_complete_with_graph\<close> has the number of nodes plus two as fuel; C30 shows that this
    is enough on every acyclic graph.
  \<^item> \<^verbatim>\<open>Frontier\<close>, \<^verbatim>\<open>Frontier_Tables\<close>, \<^verbatim>\<open>Frontier_Facts\<close>, \<^verbatim>\<open>History_Prefix\<close>, \<^verbatim>\<open>Prefix_Facts\<close>: the incremental
    frontier (\<^verbatim>\<open>engine/readiness/frontier.rs\<close>) and the cursor over a history
    (\<^verbatim>\<open>engine/history/prefix.rs\<close>), equal to the full query on the fold.  The comparison of definitions
    by address is the parameter \<open>ptr_eq\<close>; all that is asked of it is that equal addresses hold
    equal definitions.
  \<^item> \<^verbatim>\<open>Engine_Guarantees\<close>: C26 to C33.

  \<^bold>\<open>Histories against the definition.\<close>
  \<^item> \<^verbatim>\<open>Definition_Rules\<close>: \<^const>\<open>validate_payload_against_definition\<close> and its variant for events of loop
    iterations (\<^verbatim>\<open>engine/validation.rs\<close>), one rule per payload.
  \<^item> \<^verbatim>\<open>Routing\<close>: the arms of branches and choices (\<^verbatim>\<open>engine/routing.rs\<close>, \<^verbatim>\<open>engine/context.rs\<close>).
  \<^item> \<^verbatim>\<open>History_Rules\<close>: \<^const>\<open>validate_history_definition_rules\<close> (\<^verbatim>\<open>engine/history.rs\<close>) over any source of
    prefixes, and \<^const>\<open>check_event_history_against_definition\<close> (\<^verbatim>\<open>engine/history/validated.rs\<close>) on the
    cursor.  The clock (\<^verbatim>\<open>Utc::now\<close>) is a function of the index of the event.
  \<^item> \<^verbatim>\<open>History_Facts\<close>: the locale \<open>history_source\<close> of a source of prefixes that answers as the fold
    does, interpreted on the cursor.  \<^verbatim>\<open>Checked_History\<close>: what the check guarantees of a history it
    accepts.
  \<^item> \<^verbatim>\<open>Dag_Engine\<close>: \<^verbatim>\<open>InMemoryDagEngine\<close> (\<^verbatim>\<open>engine.rs\<close>) and the engines reachable by its operations.
    The static validation of a definition (\<^verbatim>\<open>model/validation.rs\<close>) is a parameter of \<^const>\<open>engine_new\<close>;
    \<^verbatim>\<open>new_for_event_history\<close> is the same constructor with another validation.
  \<^item> \<^verbatim>\<open>Interval\<close>: the arithmetic of interval triggers (\<^verbatim>\<open>interval.rs\<close>), instants in nanoseconds.
  \<^item> \<^verbatim>\<open>Checked_Guarantees\<close>: C34 to C40.

  \<^verbatim>\<open>Sample_Histories\<close>, \<^verbatim>\<open>Sample_Lifecycles\<close>, \<^verbatim>\<open>Sample_Workflow\<close> and \<^verbatim>\<open>Sample_Check\<close> hold the concrete histories
  and definitions on which the theorems with hypotheses are applied.

  \<^bold>\<open>Parameters.\<close>  SHA-256, canonical JSON, the bytes of JSON values and policy decisions
  and the RFC 3339 text of an instant are fields of the record \<^typ>\<open>externals\<close>; the encoding of a runtime policy and the
  exponential backoff, which the code computes with \<^verbatim>\<open>f64::powi\<close>, are fields of
  \<^typ>\<open>engine_externals\<close>.  Instants are integers (milliseconds, nanoseconds in \<^verbatim>\<open>Interval\<close>); the range of
  \<^verbatim>\<open>chrono\<close> is the parameter \<open>representable\<close> of \<^verbatim>\<open>Interval\<close> and is not modelled elsewhere.  Error texts
  are reduced to the line that builds them, and performance spans are left out.

  \<^bold>\<open>Not modelled.\<close>  The SQLite store and its transactions, the asynchronous runtime and script
  hosts, the services behind capabilities, triggers and notification providers, remote
  workers, infrastructure policies, telemetry, retention and backup, the static validation of
  compiled definitions, the native bridge, and the compiler and command line in TypeScript:
  they are input and output, third-party engines, or another program that
  meets this one at the events and definitions modelled here.
\<close>

section \<open>Histories\<close>

text \<open>
  C1.  A history that folds is well shaped: its sequence numbers are one to its length,
  its event identifiers are distinct, every event passed validation, and the projection
  and the fold state record its length, its identifiers and its last event.
\<close>

theorem folded_history_shape:
  assumes "from_events E es = Inr state"
  shows "map (unat \<circ> ev_sequence) es = [1 ..< length es + 1]
    \<and> distinct (map ev_event_id es)
    \<and> (\<forall>e \<in> set es. validate_event E e = Inr ())
    \<and> unat (p_last_sequence (fs_projection state)) = length es
    \<and> fs_event_ids state = ev_event_id ` set es
    \<and> last_event_id state = (if es = [] then None else Some (ev_event_id (last es)))"
  using shape.holds [OF assms] by (auto simp: history_shape_def list_all_iff last_event_id_def)

theorem folded_history_shape_witness:
  "\<exists>state. from_events sample_externals running_history = Inr state
    \<and> distinct (map ev_event_id running_history)
    \<and> unat (p_last_sequence (fs_projection state)) = 6"
proof -
  obtain state where state: "from_events sample_externals running_history = Inr state"
    using running_history_folds by blast
  then show ?thesis
    using folded_history_shape [OF state] by (simp add: running_history_def)
qed

text \<open>
  C2.  If an event of a folded history admits or starts the run, it is the first and only
  one that does, and every event carries its run identifier and schema version, which the
  projection records.  Otherwise the run has no identity and is not started; the identifiers
  of such a history are not compared.
\<close>

theorem folded_history_identity:
  assumes "from_events E es = Inr state"
  shows "if list_ex (\<lambda>e. starts_run (ev_payload e)) es
    then starts_run (ev_payload (hd es)) \<and> (\<forall>e \<in> set (tl es). \<not> starts_run (ev_payload e))
      \<and> (\<forall>e \<in> set es. ev_run_id e = ev_run_id (hd es) \<and> version e = version (hd es))
      \<and> p_run_id (fs_projection state) = Some (ev_run_id (hd es))
      \<and> p_event_schema_version (fs_projection state) = Some (version (hd es))
    else p_run_id (fs_projection state) = None \<and> p_event_schema_version (fs_projection state) = None
      \<and> p_status (fs_projection state) = RunStatus_NotStarted"
proof (cases "p_run_id (fs_projection state)")
  case None
  then show ?thesis
    using identity.holds [OF assms] by (auto simp: run_identity_def list_ex_iff list_all_iff)
next
  case (Some r)
  then have "es \<noteq> []" using identity.holds [OF assms] by (simp add: run_identity_def)
  then show ?thesis
    using Some identity.holds [OF assms] by (cases es) (auto simp: run_identity_def list_ex_iff list_all_iff)
qed

theorem folded_history_identity_witness:
  "list_all (\<lambda>e. ev_run_id e = ''r'' \<and> version e = 11) running_history
    \<and> (\<exists>state. from_events sample_externals unstarted_history = Inr state
        \<and> p_run_id (fs_projection state) = None \<and> map ev_run_id unstarted_history = [''r'', ''q''])"
proof -
  obtain state where state: "from_events sample_externals running_history = Inr state"
    using running_history_folds by blast
  obtain unstarted where unstarted: "from_events sample_externals unstarted_history = Inr unstarted"
    using unstarted_history_folds by blast
  have "list_all (\<lambda>e. ev_run_id e = ''r'' \<and> version e = 11) running_history"
    using folded_history_identity [OF state]
    by (simp add: list_all_iff running_history_def sample_event_def sample_admission_def starts_run_def)
  moreover have "p_run_id (fs_projection unstarted) = None"
    using folded_history_identity [OF unstarted]
    by (simp add: unstarted_history_def reusable_request_def sample_event_def starts_run_def)
  ultimately show ?thesis
    using unstarted by (simp add: unstarted_history_def sample_event_def)
qed

text \<open>
  C3.  A terminal event is the last of its history: a history whose run succeeded, failed
  or was cancelled folds with no further event.
\<close>

theorem terminal_event_is_last:
  assumes "from_events E xs = Inr state" "is_terminal (p_status (fs_projection state))"
    and "from_events E (xs @ ys) = Inr state'"
  shows "ys = []"
proof (cases ys)
  case (Cons y zs)
  with assms(3) have "from_events E ((xs @ [y]) @ zs) = Inr state'" by simp
  then obtain mid where "from_events E (xs @ [y]) = Inr mid"
    by (rule from_events_prefix)
  then show ?thesis
    using assms(1,2) by (auto simp: from_events_snoc apply_event_Inr_iff gate_open_def)
qed simp

theorem terminal_event_is_last_witness:
  "\<not> (\<exists>y ys state'.
      from_events sample_externals ((running_history @ finishing_events) @ y # ys) = Inr state')"
proof -
  obtain state where state: "from_events sample_externals (running_history @ finishing_events) = Inr state"
    "is_terminal (p_status (fs_projection state))"
    using finished_history_folds by force
  show ?thesis using terminal_event_is_last [OF state] by blast
qed

text \<open>
  C4.  The fold refines the state machine of a run: each event of a history that folds
  takes the run along a step of the machine that its payload labels, and an event owned
  by a loop iteration leaves the status alone.
\<close>

theorem fold_refines_machine:
  assumes "from_events E (es @ [e]) = Inr state'"
  shows "\<exists>state. from_events E es = Inr state
    \<and> event_step e (p_status (fs_projection state)) (p_status (fs_projection state'))"
proof -
  from assms obtain state where "from_events E es = Inr state" "apply_event E state e = Inr state'"
    by (rule from_events_snocE)
  then show ?thesis
    by (elim apply_eventE) (auto dest: transition_refines)
qed

theorem fold_refines_machine_witness:
  "\<exists>state. from_events sample_externals locked_history = Inr state
    \<and> event_step lease_lost_event (p_status (fs_projection state)) RunStatus_Running"
proof -
  obtain state' where "from_events sample_externals (locked_history @ [lease_lost_event]) = Inr state'"
    "p_status (fs_projection state') = RunStatus_Running"
    using stranded_history_folds by blast
  then show ?thesis using fold_refines_machine by metis
qed

section \<open>Outcomes\<close>

text \<open>
  C5.  The status and the evidence of an outcome agree in every projection: a finished run
  has the status of its business outcome, a finalizing run has an outcome, a cancelling
  run has a cancellation request, success comes exactly with a result, failure exactly
  with a failure, and cancellation only with a request.
\<close>

theorem outcome_agrees:
  assumes "from_events E es = Inr state" and p: "p = fs_projection state"
  shows "(is_terminal (p_status p) \<longrightarrow>
      (\<exists>outcome. p_business_outcome p = Some outcome \<and> p_status p = final_status_of outcome))
    \<and> (p_status p = RunStatus_Finalizing \<longrightarrow> p_business_outcome p \<noteq> None)
    \<and> (p_status p = RunStatus_Cancelling \<longrightarrow> p_cancellation_request_id p \<noteq> None)
    \<and> (p_business_outcome p = Some BusinessOutcome_Cancelled \<longrightarrow> p_cancellation_request_id p \<noteq> None)
    \<and> (p_business_outcome p = Some BusinessOutcome_Succeeded \<longleftrightarrow> p_result p \<noteq> None)
    \<and> (p_business_outcome p = Some BusinessOutcome_Failed \<longleftrightarrow>
        p_failure p \<noteq> None \<or> p_lifecycle_failure p \<noteq> None)"
  using outcome.holds [OF assms(1)] unfolding p outcome_sound_def by (elim conjE, intro conjI)

theorem outcome_agrees_witness:
  "\<exists>state. from_events sample_externals (running_history @ finishing_events) = Inr state
    \<and> p_result (fs_projection state) \<noteq> None"
proof -
  obtain state where state: "from_events sample_externals (running_history @ finishing_events) = Inr state"
    "p_business_outcome (fs_projection state) = Some BusinessOutcome_Succeeded"
    using finished_history_folds by blast
  then show ?thesis using outcome_agrees [OF state(1) refl] by metis
qed

text \<open>
  C6.  Decisions are final: along every extension of a history the run identifier, the
  schema version, the business outcome, the cancellation request and the result keep the
  value they once have.
\<close>

theorem decisions_are_final:
  assumes "from_events E xs = Inr state" "from_events E (xs @ ys) = Inr state'"
  shows "kept (p_run_id (fs_projection state)) (p_run_id (fs_projection state'))
    \<and> kept (p_event_schema_version (fs_projection state)) (p_event_schema_version (fs_projection state'))
    \<and> kept (p_business_outcome (fs_projection state)) (p_business_outcome (fs_projection state'))
    \<and> kept (p_cancellation_request_id (fs_projection state))
        (p_cancellation_request_id (fs_projection state'))
    \<and> kept (p_result (fs_projection state)) (p_result (fs_projection state'))"
  using decisions.extension_rel [OF assms] by (simp add: keeps_decisions_def)

theorem decisions_are_final_witness:
  "\<exists>state'. from_events sample_externals (running_history @ finishing_events) = Inr state'
    \<and> p_run_id (fs_projection state') = Some ''r'' \<and> p_event_schema_version (fs_projection state') = Some 11"
proof -
  obtain state where state: "from_events sample_externals running_history = Inr state"
    "p_run_id (fs_projection state) = Some ''r''" "p_event_schema_version (fs_projection state) = Some 11"
    using running_history_folds by blast
  obtain state' where state': "from_events sample_externals (running_history @ finishing_events) = Inr state'"
    using finished_history_folds by blast
  show ?thesis
    using decisions_are_final [OF state(1) state'] state state' by (simp add: kept_def)
qed

text \<open>
  C7.  A run whose outcome is decided and which is back in an active status is stranded:
  no extension of its history finishes it.  The loss of a lock lease leads there, since
  its handler sets the run to running whatever its status.
\<close>

theorem stranded_run_never_finishes:
  assumes "from_events E xs = Inr state" "stranded (fs_projection state)"
    and "from_events E (xs @ ys) = Inr state'"
  shows "\<not> is_terminal (p_status (fs_projection state'))
    \<and> p_status (fs_projection state') \<noteq> RunStatus_Finalizing"
  using stranding.extension_rel [OF assms(1,3)] assms(2) by (simp add: stranded_def)

theorem stranded_run_never_finishes_witness:
  "(\<exists>state. from_events sample_externals (locked_history @ [lease_lost_event]) = Inr state)
    \<and> \<not> (\<exists>ys state'. from_events sample_externals ((locked_history @ [lease_lost_event]) @ ys) = Inr state'
        \<and> is_terminal (p_status (fs_projection state')))"
proof -
  obtain state where state: "from_events sample_externals (locked_history @ [lease_lost_event]) = Inr state"
    "stranded (fs_projection state)"
    using stranded_history_folds by (force simp: stranded_def)
  show ?thesis using stranded_run_never_finishes [OF state] state(1) by blast
qed

section \<open>Attempts\<close>

text \<open>
  C8.  Attempts form a journal: invocation identifiers are distinct, per step only the
  latest attempt can be active, and the index map finds exactly the recorded attempts.
\<close>

theorem attempts_form_a_journal:
  assumes "from_events E es = Inr state" and xs: "xs = p_attempts (fs_projection state)"
  shows "distinct (map (ai_invocation_id \<circ> ap_identity) xs)
    \<and> (\<forall>n. \<forall>a \<in> set (butlast (attempts_of xs n)). ap_status a \<noteq> AttemptStatus_Started)
    \<and> (\<forall>key i. fs_attempt_indexes state key = Some i \<longleftrightarrow> i < length xs \<and> ap_identity (xs ! i) = key)"
  using attempts.holds [OF assms(1)]
  by (simp add: xs attempts_sound_def journal_def indexed_def list_all_iff)

theorem attempts_form_a_journal_witness:
  "\<exists>state. from_events sample_externals running_history = Inr state
    \<and> distinct (map (ai_invocation_id \<circ> ap_identity) (p_attempts (fs_projection state)))"
proof -
  obtain state where state: "from_events sample_externals running_history = Inr state"
    using running_history_folds by blast
  show ?thesis using attempts_form_a_journal [OF state refl] state by blast
qed

text \<open>
  C9.  From schema version 6 the attempts of a step outside loops are numbered from one
  without gaps, at most ten, all but the latest failed, all under one idempotency key, and a pending retry
  announces the number after the latest failure.
\<close>

theorem retries_are_numbered:
  assumes "from_events E es = Inr state" "p_event_schema_version (fs_projection state) = Some v" "6 \<le> v"
    and xs: "xs = attempts_of (p_attempts (fs_projection state)) n"
  shows "map (unat \<circ> ai_attempt \<circ> ap_identity) xs = [1 ..< Suc (length xs)] \<and> length xs \<le> 10
    \<and> (\<forall>a \<in> set (butlast xs). is_failed (ap_status a))
    \<and> (\<exists>key. \<forall>a \<in> set xs. ap_idempotency_key a = Some key)
    \<and> (\<forall>r. bt_get (p_pending_retries (fs_projection state)) n = Some r \<longrightarrow>
        xs \<noteq> [] \<and> is_failed (ap_status (last xs))
        \<and> rsp_next_attempt r = ai_attempt (ap_identity (last xs)) + 1)"
proof -
  have "numbered (p_attempts (fs_projection state))"
    "pending_follows (p_attempts (fs_projection state)) (p_pending_retries (fs_projection state))"
    using attempts.holds [OF assms(1)] assms(2,3) by (simp_all add: attempts_sound_def)
  note numbered = this(1) [unfolded numbered_def, rule_format, of n]
    and pending = this(2) [unfolded pending_follows_def, rule_format, of n]
  obtain key where "set (map ap_idempotency_key xs) \<subseteq> {Some key}"
    using numbered by (auto simp: xs)
  then have "\<forall>a \<in> set xs. ap_idempotency_key a = Some key" by auto
  then show ?thesis
    using numbered pending unfolding xs list_all_iff by metis
qed

theorem retries_are_numbered_witness:
  "\<exists>state. from_events sample_externals running_history = Inr state
    \<and> length (attempts_of (p_attempts (fs_projection state)) ''s'') \<le> 10"
proof -
  obtain state where state: "from_events sample_externals running_history = Inr state"
    "p_event_schema_version (fs_projection state) = Some 11"
    using running_history_folds by blast
  show ?thesis using retries_are_numbered [OF state _ refl] state(1) by simp
qed

end
